(* ===== verification/Go_Prelude.thy ===== *)
theory Go_Prelude
  imports Main "HOL-Library.Sublist"
begin

text \<open>
  Shared vocabulary of the development: Go byte strings and the part of package
  \<open>strings\<close> the program calls, and the effect type of a call that may touch the bus.

  A Go \<open>string\<close> is a sequence of bytes, as is Isabelle's \<open>string\<close>. A Go function that
  returns \<open>(T, error)\<close> becomes a value of \<open>error + 'a\<close>: \<open>Inl\<close> is a non-nil error, \<open>Inr\<close>
  the result returned with a nil error. A function that reaches iwd over D-Bus also takes
  and returns the world \<open>'w\<close> behind the bus, so the order and the number of its bus
  operations are part of its meaning; \<open>context.Context\<close> arguments are only handed on to
  the bus and have no counterpart (a cancelled context is an error the bus returns).
\<close>

named_theorems go_simps \<open>rewrites that run a straight-line Go body\<close>
named_theorems op_defs \<open>definitions of the modelled operations\<close>

subsection \<open>Effects and early returns\<close>

type_synonym ('e, 'w, 'a) go = "'w \<Rightarrow> ('e + 'a) \<times> 'w"

definition go_return :: "'a \<Rightarrow> ('e, 'w, 'a) go" where
  "go_return x = (\<lambda>w. (Inr x, w))"

definition go_fail :: "'e \<Rightarrow> ('e, 'w, 'a) go" where
  "go_fail e = (\<lambda>w. (Inl e, w))"

definition go_bind :: "('e, 'w, 'a) go \<Rightarrow> ('a \<Rightarrow> ('e, 'w, 'b) go) \<Rightarrow> ('e, 'w, 'b) go" where
  "go_bind m f = (\<lambda>w. case m w of (Inl e, w') \<Rightarrow> (Inl e, w') | (Inr x, w') \<Rightarrow> f x w')"

text \<open>\<open>if err != nil { return wrap(err) }\<close> after the call \<open>m\<close>.\<close>

definition go_wrap :: "('e \<Rightarrow> 'f) \<Rightarrow> ('e, 'w, 'a) go \<Rightarrow> ('f, 'w, 'a) go" where
  "go_wrap g m = (\<lambda>w. case m w of (Inl e, w') \<Rightarrow> (Inl (g e), w') | (Inr x, w') \<Rightarrow> (Inr x, w'))"

text \<open>A pure fallible computation (a parser, a validator) inside an effectful body.\<close>

definition go_lift :: "('e + 'a) \<Rightarrow> ('e, 'w, 'a) go" where
  "go_lift r = (\<lambda>w. (r, w))"

definition try_bind :: "('e + 'a) \<Rightarrow> ('a \<Rightarrow> 'e + 'b) \<Rightarrow> 'e + 'b" where
  "try_bind r f = (case r of Inl e \<Rightarrow> Inl e | Inr x \<Rightarrow> f x)"

lemma go_bind_return [simp, go_simps]: "go_bind (go_return x) f = f x"
  by (simp add: go_bind_def go_return_def)

lemma go_bind_fail [simp, go_simps]: "go_bind (go_fail e) f = go_fail e"
  by (simp add: go_bind_def go_fail_def)

lemma go_bind_assoc: "go_bind (go_bind m f) g = go_bind m (\<lambda>x. go_bind (f x) g)"
  by (auto simp: go_bind_def fun_eq_iff split: prod.splits sum.splits)

lemma go_wrap_return [simp, go_simps]: "go_wrap g (go_return x) = go_return x"
  by (simp add: go_wrap_def go_return_def)

lemma go_wrap_fail [simp, go_simps]: "go_wrap g (go_fail e) = go_fail (g e)"
  by (simp add: go_wrap_def go_fail_def)

lemma go_lift_Inl [simp, go_simps]: "go_lift (Inl e) = go_fail e"
  by (simp add: go_lift_def go_fail_def)

lemma go_lift_Inr [simp, go_simps]: "go_lift (Inr x) = go_return x"
  by (simp add: go_lift_def go_return_def)

lemma go_return_apply [simp, go_simps]: "go_return x w = (Inr x, w)"
  by (simp add: go_return_def)

lemma go_fail_apply [simp, go_simps]: "go_fail e w = (Inl e, w)"
  by (simp add: go_fail_def)

lemma go_bind_Inl [go_simps]: "m w = (Inl e, w') \<Longrightarrow> go_bind m f w = (Inl e, w')"
  by (simp add: go_bind_def)

lemma go_bind_Inr [go_simps]: "m w = (Inr x, w') \<Longrightarrow> go_bind m f w = f x w'"
  by (simp add: go_bind_def)

lemma go_wrap_Inl [go_simps]: "m w = (Inl e, w') \<Longrightarrow> go_wrap g m w = (Inl (g e), w')"
  by (simp add: go_wrap_def)

lemma go_wrap_Inr [go_simps]: "m w = (Inr x, w') \<Longrightarrow> go_wrap g m w = (Inr x, w')"
  by (simp add: go_wrap_def)

lemma try_bind_simps [simp, go_simps]:
  "try_bind (Inl e) f = Inl e"
  "try_bind (Inr x) f = f x"
  by (simp_all add: try_bind_def)

text \<open>What a body that succeeded, or failed, has done before.\<close>

lemma go_bind_InrE:
  assumes "go_bind m f w = (Inr y, w'')"
  obtains x w' where "m w = (Inr x, w')" and "f x w' = (Inr y, w'')"
  using assms by (auto simp: go_bind_def split: prod.splits sum.splits)

lemma go_bind_InlE:
  assumes "go_bind m f w = (Inl e, w'')"
  obtains "m w = (Inl e, w'')" | x w' where "m w = (Inr x, w')" and "f x w' = (Inl e, w'')"
  using assms by (auto simp: go_bind_def split: prod.splits sum.splits)

lemma go_wrap_InrE:
  assumes "go_wrap g m w = (Inr x, w')"
  obtains "m w = (Inr x, w')"
  using assms by (auto simp: go_wrap_def split: prod.splits sum.splits)

lemma go_wrap_InlE:
  assumes "go_wrap g m w = (Inl e, w')"
  obtains e' where "m w = (Inl e', w')" and "e = g e'"
  using assms by (auto simp: go_wrap_def split: prod.splits sum.splits)

lemma try_bind_InrE:
  assumes "try_bind r f = Inr y"
  obtains x where "r = Inr x" and "f x = Inr y"
  using assms by (auto simp: try_bind_def split: sum.splits)

lemma try_bind_InlE:
  assumes "try_bind r f = Inl e"
  obtains "r = Inl e" | x where "r = Inr x" and "f x = Inl e"
  using assms by (auto simp: try_bind_def split: sum.splits)

lemma try_bind_Inr_iff: "try_bind r f = Inr y \<longleftrightarrow> (\<exists>x. r = Inr x \<and> f x = Inr y)"
  by (auto elim: try_bind_InrE)

lemma go_bind_Inr_iff: "go_bind m f w = (Inr y, w'') \<longleftrightarrow> (\<exists>x w'. m w = (Inr x, w') \<and> f x w' = (Inr y, w''))"
  by (auto elim: go_bind_InrE simp: go_bind_Inr)

lemma go_wrap_Inr_iff: "go_wrap g m w = (Inr x, w') \<longleftrightarrow> m w = (Inr x, w')"
  by (auto elim: go_wrap_InrE simp: go_wrap_Inr)

lemma go_lift_iff: "go_lift r w = (x, w') \<longleftrightarrow> r = x \<and> w' = w"
  by (auto simp: go_lift_def)

lemmas go_Inr_iffs = try_bind_Inr_iff go_bind_Inr_iff go_wrap_Inr_iff go_lift_iff

text \<open>
  \<open>for _, x := range xs { y, err := f(x); if err != nil { return nil, err }; out = append(out, y) }\<close>
\<close>

fun collect :: "('a \<Rightarrow> 'e + 'b) \<Rightarrow> 'a list \<Rightarrow> 'e + 'b list" where
  "collect f [] = Inr []"
| "collect f (x # xs) = try_bind (f x) (\<lambda>y. try_bind (collect f xs) (\<lambda>ys. Inr (y # ys)))"

lemma collect_Inr_iff:
  "collect f xs = Inr ys \<longleftrightarrow> list_all2 (\<lambda>x y. f x = Inr y) xs ys"
proof (induction xs arbitrary: ys)
  case Nil
  then show ?case by auto
next
  case (Cons x xs)
  then show ?case
    by (cases ys; cases "f x"; cases "collect f xs") (auto simp: Cons.IH [symmetric])
qed

lemma collect_map: "\<forall>x \<in> set xs. f x = Inr (g x) \<Longrightarrow> collect f xs = Inr (map g xs)"
  by (induction xs) auto

lemma collect_Inl:
  "collect f xs = Inl e \<Longrightarrow> \<exists>as x bs. xs = as @ x # bs \<and> f x = Inl e \<and> (\<forall>a \<in> set as. \<exists>y. f a = Inr y)"
proof (induction xs)
  case Nil
  then show ?case by simp
next
  case (Cons x xs)
  show ?case
  proof (cases "f x")
    case (Inl e')
    with Cons.prems show ?thesis
      by (intro exI[of _ "[]"] exI[of _ x] exI[of _ xs]) simp
  next
    case (Inr y)
    with Cons.prems have "collect f xs = Inl e"
      by (auto elim: try_bind_InlE)
    from Cons.IH [OF this] obtain as x' bs
      where "xs = as @ x' # bs" "f x' = Inl e" "\<forall>a \<in> set as. \<exists>y. f a = Inr y"
      by blast
    with Inr show ?thesis
      by (intro exI[of _ "x # as"] exI[of _ x'] exI[of _ bs]) simp
  qed
qed

lemma collect_length: "collect f xs = Inr ys \<Longrightarrow> length ys = length xs"
  by (auto simp: collect_Inr_iff dest: list_all2_lengthD)

subsection \<open>Package strings\<close>

text \<open>
  \<open>strings.TrimSpace\<close> removes leading and trailing Unicode white space. In a byte string
  that is one of the ASCII bytes \<open>\t \n \v \f \r\<close> and space, or the UTF-8 encoding of
  U+0085, U+00A0, U+1680, U+2000 to U+200A, U+2028, U+2029, U+202F, U+205F or U+3000
  (the code points \<open>unicode.IsSpace\<close> accepts).
\<close>

definition utf8 :: "nat list \<Rightarrow> string" where
  "utf8 bs = map char_of bs"

definition space_runes :: "string list" where
  "space_runes =
     map utf8 ([[9], [10], [11], [12], [13], [32], [194, 133], [194, 160], [225, 154, 128]]
       @ map (\<lambda>b. [226, 128, b]) ([128..<139] @ [168, 169, 175])
       @ [[226, 129, 159], [227, 128, 128]])"

definition drop_rune :: "string \<Rightarrow> string option" where
  "drop_rune s = map_option (\<lambda>r. drop (length r) s) (find (\<lambda>r. prefix r s) space_runes)"

text \<open>The same, reading the runes of a reversed string from its end.\<close>

definition drop_rune_rev :: "string \<Rightarrow> string option" where
  "drop_rune_rev s = map_option (\<lambda>r. drop (length r) s) (find (\<lambda>r. prefix (rev r) s) space_runes)"

lemma space_runes_nonempty: "r \<in> set space_runes \<Longrightarrow> r \<noteq> []"
  by (auto simp: space_runes_def utf8_def)

lemma drop_rune_shorter: "drop_rune s = Some t \<Longrightarrow> length t < length s"
  by (auto simp: drop_rune_def find_Some_iff dest!: nth_mem [THEN space_runes_nonempty]
      dest: prefix_length_le)
    (metis diff_less length_greater_0_conv prefix_bot.extremum_uniqueI)

lemma drop_rune_rev_shorter: "drop_rune_rev s = Some t \<Longrightarrow> length t < length s"
  by (auto simp: drop_rune_rev_def find_Some_iff dest!: nth_mem [THEN space_runes_nonempty]
      dest: prefix_length_le)
    (metis diff_less length_greater_0_conv prefix_bot.extremum_uniqueI rev_is_Nil_conv)

function trim_left :: "string \<Rightarrow> string" where
  "trim_left s = (case drop_rune s of None \<Rightarrow> s | Some t \<Rightarrow> trim_left t)"
  by pat_completeness auto
termination
  by (relation "measure length") (auto simp: drop_rune_shorter)

function trim_left_rev :: "string \<Rightarrow> string" where
  "trim_left_rev s = (case drop_rune_rev s of None \<Rightarrow> s | Some t \<Rightarrow> trim_left_rev t)"
  by pat_completeness auto
termination
  by (relation "measure length") (auto simp: drop_rune_rev_shorter)

declare trim_left.simps [simp del] trim_left_rev.simps [simp del]

definition trim_space :: "string \<Rightarrow> string" where
  "trim_space s = rev (trim_left_rev (rev (trim_left s)))"

lemma trim_left_eq: "drop_rune s = None \<Longrightarrow> trim_left s = s"
  by (simp add: trim_left.simps [of s])

lemma trim_left_rev_eq: "drop_rune_rev s = None \<Longrightarrow> trim_left_rev s = s"
  by (simp add: trim_left_rev.simps [of s])

lemma drop_rune_trim_left: "drop_rune (trim_left s) = None"
proof (induction s rule: trim_left.induct)
  case (1 s)
  then show ?case
    by (cases "drop_rune s") (simp_all add: trim_left.simps [of s])
qed

lemma drop_rune_rev_trim_left_rev: "drop_rune_rev (trim_left_rev s) = None"
proof (induction s rule: trim_left_rev.induct)
  case (1 s)
  then show ?case
    by (cases "drop_rune_rev s") (simp_all add: trim_left_rev.simps [of s])
qed

lemma drop_rune_None_iff: "drop_rune s = None \<longleftrightarrow> (\<forall>r \<in> set space_runes. \<not> prefix r s)"
  by (auto simp: drop_rune_def find_None_iff)

lemma trim_left_rev_suffix: "suffix (trim_left_rev s) s"
proof (induction s rule: trim_left_rev.induct)
  case (1 s)
  show ?case
  proof (cases "drop_rune_rev s")
    case None
    then show ?thesis by (simp add: trim_left_rev_eq)
  next
    case (Some t)
    then have "suffix t s" by (auto simp: drop_rune_rev_def suffix_drop)
    moreover have "trim_left_rev s = trim_left_rev t"
      using Some by (simp add: trim_left_rev.simps [of s])
    ultimately show ?thesis
      using "1.IH" [OF Some] by (metis suffix_order.trans)
  qed
qed

text \<open>Trimming a trimmed string changes nothing.\<close>

lemma trim_space_idem [simp]: "trim_space (trim_space s) = trim_space s"
proof -
  let ?l = "trim_left s"
  let ?t = "trim_space s"
  have pre: "prefix ?t ?l"
    using trim_left_rev_suffix [of "rev ?l"]
    by (simp add: trim_space_def suffix_to_prefix)
  have "drop_rune ?t = None"
    using drop_rune_trim_left [of s] pre
    by (auto simp: drop_rune_None_iff intro: prefix_order.trans)
  then have "trim_left ?t = ?t" by (rule trim_left_eq)
  moreover have "trim_left_rev (rev ?t) = rev ?t"
    by (simp add: trim_space_def trim_left_rev_eq drop_rune_rev_trim_left_rev)
  ultimately show ?thesis by (simp add: trim_space_def [of ?t])
qed

lemma drop_rune_rev_None_iff:
  "drop_rune_rev s = None \<longleftrightarrow> (\<forall>r \<in> set space_runes. \<not> prefix (rev r) s)"
  by (auto simp: drop_rune_rev_def find_None_iff)

lemma trim_space_Nil [simp]: "trim_space [] = []"
proof -
  have "drop_rune [] = None" and "drop_rune_rev [] = None"
    by (auto simp: drop_rune_None_iff drop_rune_rev_None_iff dest: space_runes_nonempty)
  then show ?thesis
    by (simp add: trim_space_def trim_left_eq trim_left_rev_eq)
qed

text \<open>
  A string that neither starts nor ends with white space is left alone. Printable ASCII
  bytes are no white space and start none, which decides the common cases by evaluation.
\<close>

definition plain :: "char \<Rightarrow> bool" where
  "plain c \<longleftrightarrow> 32 < (of_char c :: nat) \<and> (of_char c :: nat) < 128"

lemma space_rune_hd: "r \<in> set space_runes \<Longrightarrow> \<not> plain (hd r) \<and> \<not> plain (last r)"
  by (auto simp: space_runes_def utf8_def plain_def upt_rec [of _ "numeral _"])

lemma trim_space_plain:
  assumes "s \<noteq> []" and "plain (hd s)" and "plain (last s)"
  shows "trim_space s = s"
proof -
  have "\<not> prefix r s" if r: "r \<in> set space_runes" for r
  proof
    assume "prefix r s"
    then have "hd r = hd s"
      using space_runes_nonempty [OF r] by (auto simp: prefix_def)
    with space_rune_hd [OF r] assms(2) show False by simp
  qed
  then have "drop_rune s = None" by (simp add: drop_rune_None_iff)
  then have l: "trim_left s = s" by (rule trim_left_eq)
  have "drop_rune_rev (rev s) = None"
  proof -
    have "\<not> prefix (rev r) (rev s)" if r: "r \<in> set space_runes" for r
    proof
      assume "prefix (rev r) (rev s)"
      then have "suffix r s" by (simp add: suffix_to_prefix)
      then have "last r = last s"
        using space_runes_nonempty [OF r] by (auto simp: suffix_def)
      with space_rune_hd [OF r] assms(3) show False by simp
    qed
    then show ?thesis by (simp add: drop_rune_rev_None_iff)
  qed
  then show ?thesis by (simp add: trim_space_def l trim_left_rev_eq)
qed

text \<open>\<open>strings.HasPrefix(s, "/")\<close>, the test of an absolute path.\<close>

definition absolute :: "string \<Rightarrow> bool" where
  "absolute s \<longleftrightarrow> prefix ''/'' s"

lemma absolute_nonempty: "absolute s \<Longrightarrow> s \<noteq> []"
  by (auto simp: absolute_def)

lemma absolute_Cons [simp]: "absolute (c # s) \<longleftrightarrow> c = CHR ''/''"
  by (auto simp: absolute_def)

lemma absolute_Nil [simp]: "\<not> absolute []"
  by (simp add: absolute_def)

text \<open>Trimming keeps a string absolute.\<close>

lemma trim_left_rev_last:
  "s \<noteq> [] \<Longrightarrow> plain (last s) \<Longrightarrow> trim_left_rev s \<noteq> [] \<and> last (trim_left_rev s) = last s"
proof (induction s rule: trim_left_rev.induct)
  case (1 s)
  show ?case
  proof (cases "drop_rune_rev s")
    case None
    with "1.prems" show ?thesis by (simp add: trim_left_rev_eq)
  next
    case (Some t)
    then obtain r where r: "r \<in> set space_runes" and "s = rev r @ t"
      by (auto simp: drop_rune_rev_def find_Some_iff prefix_def dest: nth_mem)
    moreover have "t \<noteq> []"
    proof
      assume "t = []"
      with \<open>s = rev r @ t\<close> have "last s = hd r" using space_runes_nonempty [OF r] by (simp add: last_rev)
      with "1.prems" space_rune_hd [OF r] show False by simp
    qed
    ultimately have "t \<noteq> []" "last s = last t" by simp_all
    with "1.IH" [OF Some] "1.prems" Some show ?thesis
      by (simp add: trim_left_rev.simps [of s])
  qed
qed

lemma absolute_trim_space [simp]: "absolute s \<Longrightarrow> absolute (trim_space s)"
proof -
  assume "absolute s"
  then have s: "s \<noteq> []" "hd s = CHR ''/''" by (auto simp: absolute_def prefix_def)
  have p: "plain CHR ''/''" by (simp add: plain_def)
  have "\<not> prefix r s" if r: "r \<in> set space_runes" for r
    using space_rune_hd [OF r] space_runes_nonempty [OF r] s p by (auto simp: prefix_def)
  then have "trim_left s = s" by (simp add: trim_left_eq drop_rune_None_iff)
  moreover have "trim_left_rev (rev s) \<noteq> [] \<and> last (trim_left_rev (rev s)) = CHR ''/''"
    using trim_left_rev_last [of "rev s"] s p by (simp add: last_rev)
  ultimately have "trim_space s \<noteq> []" "hd (trim_space s) = CHR ''/''"
    by (simp_all add: trim_space_def hd_rev)
  then show "absolute (trim_space s)" by (cases "trim_space s") simp_all
qed

subsection \<open>Formatted text\<close>

definition code :: "char \<Rightarrow> nat" where
  "code c = of_char c"

definition hex_digit :: "nat \<Rightarrow> char" where
  "hex_digit n = char_of (if n < 10 then 48 + n else 87 + n)"

text \<open>\<open>%q\<close>\<close>

definition quote_char :: "char \<Rightarrow> string" where
  "quote_char c =
     (if c = CHR 0x22 \<or> c = CHR 0x5C then [CHR 0x5C, c]
      else if code c = 7 then CHR 0x5C # ''a''
      else if code c = 8 then CHR 0x5C # ''b''
      else if code c = 12 then CHR 0x5C # ''f''
      else if code c = 10 then CHR 0x5C # ''n''
      else if code c = 13 then CHR 0x5C # ''r''
      else if code c = 9 then CHR 0x5C # ''t''
      else if code c = 11 then CHR 0x5C # ''v''
      else if code c < 32 \<or> code c = 127
      then [CHR 0x5C, CHR ''x'', hex_digit (code c div 16), hex_digit (code c mod 16)]
      else [c])"

definition go_quote :: "string \<Rightarrow> string" where
  "go_quote s = CHR 0x22 # concat (map quote_char s) @ [CHR 0x22]"

text \<open>
  The text of a format: \<open>%%\<close> is a percent sign, \<open>%w\<close> takes the next of the wrapped errors' texts, and the
  other verbs of the program's formats (\<open>%s\<close>, \<open>%v\<close>, \<open>%d\<close>, \<open>%T\<close>, \<open>%q\<close>) the next argument, given by the text it
  prints as; \<open>%q\<close> quotes it. A verb without an argument is reported the way \<open>fmt\<close> does.
\<close>

definition missing_argument :: "char \<Rightarrow> string" where
  "missing_argument v = ''%!'' @ [v] @ ''(MISSING)''"

fun format_text :: "string \<Rightarrow> string list \<Rightarrow> string list \<Rightarrow> string" where
  "format_text [] args wrapped = []"
| "format_text [c] args wrapped = (if c = CHR ''%'' then ''%!(NOVERB)'' else [c])"
| "format_text (c # v # f) args wrapped =
     (if c \<noteq> CHR ''%'' then c # format_text (v # f) args wrapped
      else if v = CHR ''%'' then CHR ''%'' # format_text f args wrapped
      else if v = CHR ''w''
      then (case wrapped of
              [] \<Rightarrow> missing_argument v @ format_text f args []
            | w # ws \<Rightarrow> w @ format_text f args ws)
      else (case args of
              [] \<Rightarrow> missing_argument v @ format_text f [] wrapped
            | a # as \<Rightarrow> (if v = CHR ''q'' then go_quote a else a) @ format_text f as wrapped))"

text \<open>\<open>fmt.Sprintf\<close>\<close>

definition sprintf :: "string \<Rightarrow> string list \<Rightarrow> string" where
  "sprintf fmt args = format_text fmt args []"

text \<open>The text \<open>%d\<close> prints for an integer.\<close>

fun decimal_nat :: "nat \<Rightarrow> string" where
  "decimal_nat n = (if n < 10 then [char_of (48 + n)] else decimal_nat (n div 10) @ [char_of (48 + n mod 10)])"

declare decimal_nat.simps [simp del]

definition decimal :: "int \<Rightarrow> string" where
  "decimal i = (if i < 0 then CHR ''-'' # decimal_nat (nat (- i)) else decimal_nat (nat i))"

end
