(* ===== verification/Go_Errors.thy ===== *)
theory Go_Errors
  imports Go_Prelude
begin

text \<open>
  The error values of every layer and how they wrap each other: \<open>internal/failure/kind.go\<close>,
  \<open>internal/iwdbus/errors.go\<close>, \<open>internal/iwdbus/iwderrors.go\<close>, \<open>internal/core/errors.go\<close>
  and the public \<open>errors.go\<close>.

  \<open>errors.New\<close> at package level makes a value with an identity of its own, so every sentinel
  is a constructor (two sentinels with the same text stay different). \<open>errors.Is\<close>
  and \<open>errors.As\<close> walk the tree of \<open>Unwrap\<close> results depth first: \<open>chain\<close> lists
  that walk, \<open>errors_is\<close> and the \<open>as_\<close> functions search it.
\<close>

subsection \<open>Kinds and resources (internal/failure/kind.go)\<close>

datatype kind =
    KindUnavailable
  | KindInvalidState
  | KindInvalidArgument
  | KindOperationFailed
  | KindInternal

fun public_kind :: "kind \<Rightarrow> kind" where
  "public_kind KindUnavailable = KindUnavailable"
| "public_kind KindInvalidState = KindInvalidState"
| "public_kind KindInvalidArgument = KindInvalidArgument"
| "public_kind KindInternal = KindInternal"
| "public_kind _ = KindInternal"

datatype resource =
    ResourceUnknown
  | ResourceClient
  | ResourceDaemon
  | ResourceAdapter
  | ResourceDevice
  | ResourceBasicServiceSet
  | ResourceStation
  | ResourceNetwork
  | ResourceKnownNetwork
  | ResourceAgent
  | ResourceSimpleConfiguration
  | ResourceAccessPoint

subsection \<open>Sentinels\<close>

datatype dbus_kind =
    ErrDBusConnection
  | ErrDBusMethod
  | ErrDBusProperty
  | ErrDBusIntrospection
  | ErrDBusVariant

text \<open>The \<open>Err...Uninitialized\<close> sentinels of \<open>iwdbus\<close>.\<close>

datatype iwdbus_object =
    DaemonObj
  | AdapterObj
  | DeviceObj
  | StationObj
  | BasicServiceSetObj
  | NetworkObj
  | KnownNetworkObj
  | AgentManagerObj
  | SimpleConfigurationObj
  | AccessPointObj

text \<open>The \<open>Err...NotInitialized\<close> sentinels of \<open>core\<close>.\<close>

datatype core_object =
    DaemonWrapper
  | AdapterWrapper
  | DeviceWrapper
  | BasicServiceSetWrapper
  | StationWrapper
  | NetworkWrapper
  | KnownNetworkWrapper
  | AgentWrapper
  | SignalLevelAgentWrapper
  | SimpleConfigurationWrapper
  | AccessPointWrapper

datatype iwd_sentinel =
    ErrNoAgent
  | ErrAborted
  | ErrBusy
  | ErrFailed
  | ErrNotSupported
  | ErrTimeout
  | ErrInProgress
  | ErrNotConfigured
  | ErrNotFound
  | ErrAlreadyExists
  | ErrInvalidArguments
  | ErrInvalidFormat
  | ErrNotConnected
  | ErrNotImplemented
  | ErrServiceSetOverlap
  | ErrAlreadyProvisioned
  | ErrNotHidden
  | ErrNotAvailable
  | ErrPermissionDenied
  | ErrWSCSessionOverlap
  | ErrWSCNoCredentials
  | ErrWSCNotReachable
  | ErrWSCWalkTimeExpired
  | ErrWSCTimeExpired

datatype sentinel =
    DBusS dbus_kind
  | UninitializedS iwdbus_object
  | NotInitializedS core_object
  | IwdS iwd_sentinel
  | ErrAgentCanceled
  | ErrCore
  | ErrSpiderw
  | ErrUnavailable
  | ErrInvalidState
  | ErrInvalidArgument
  | ErrInternal

subsection \<open>Error values\<close>

text \<open>
  \<open>raw_err\<close> is an error made outside the repository: \<open>DBusErr name text\<close> is godbus's
  \<open>dbus.Error\<close> (an error reply) and \<open>OtherErr text\<close> any other (a closed connection, a context
  error, a user callback's own error); \<open>text\<close> is what its \<open>Error()\<close> method returns.
\<close>

datatype raw_err =
    DBusErr (err_name: string) (err_text: string)
  | OtherErr (err_text: string)

text \<open>
  \<open>Errorf fmt args wrapped\<close> is \<open>fmt.Errorf\<close> (and a local \<open>errors.New\<close>): the format, its plain
  arguments and its \<open>%w\<close> operands. Only the operands matter to \<open>errors.Is\<close>; the text
  it prints is \<open>error_text\<close> in \<open>Error_Text\<close>.
\<close>

datatype gerror =
    Sentinel sentinel
  | Foreign raw_err
  | Errorf string "string list" "gerror list"
  | Joined "gerror list"
  | IwdbusError dbus_kind string gerror
  | CoreError kind resource string string gerror
  | PublicError kind resource string string gerror

text \<open>\<open>sentinelForKind\<close> of the public package.\<close>

fun sentinel_for_kind :: "kind \<Rightarrow> sentinel" where
  "sentinel_for_kind KindUnavailable = ErrUnavailable"
| "sentinel_for_kind KindInvalidState = ErrInvalidState"
| "sentinel_for_kind KindInvalidArgument = ErrInvalidArgument"
| "sentinel_for_kind _ = ErrInternal"

text \<open>\<open>Unwrap\<close>: the errors directly below an error. A structured error unwraps to the
  \<open>errors.Join\<close> of its sentinels and its cause.\<close>

fun unwrap :: "gerror \<Rightarrow> gerror list" where
  "unwrap (Sentinel s) = []"
| "unwrap (Foreign r) = []"
| "unwrap (Errorf f args es) = es"
| "unwrap (Joined es) = es"
| "unwrap (IwdbusError k ctx e) = [Joined [Sentinel (DBusS k), e]]"
| "unwrap (CoreError k r op d e) = [Joined [Sentinel ErrCore, e]]"
| "unwrap (PublicError k r op d e) =
     [Joined [Sentinel ErrSpiderw, Sentinel (sentinel_for_kind k), e]]"

text \<open>The depth-first walk of \<open>errors.Is\<close> and \<open>errors.As\<close>.\<close>

fun chain :: "gerror \<Rightarrow> gerror list" where
  "chain (Sentinel s) = [Sentinel s]"
| "chain (Foreign r) = [Foreign r]"
| "chain (Errorf f args es) = Errorf f args es # concat (map chain es)"
| "chain (Joined es) = Joined es # concat (map chain es)"
| "chain (IwdbusError k ctx e) =
     IwdbusError k ctx e # Joined [Sentinel (DBusS k), e] # Sentinel (DBusS k) # chain e"
| "chain (CoreError k r op d e) =
     CoreError k r op d e # Joined [Sentinel ErrCore, e] # Sentinel ErrCore # chain e"
| "chain (PublicError k r op d e) =
     PublicError k r op d e # Joined [Sentinel ErrSpiderw, Sentinel (sentinel_for_kind k), e]
       # Sentinel ErrSpiderw # Sentinel (sentinel_for_kind k) # chain e"

text \<open>\<open>chain\<close> is the walk over \<open>unwrap\<close>.\<close>

lemma chain_unwrap: "chain e = e # concat (map chain (unwrap e))"
  by (cases e) simp_all

definition errors_is :: "gerror \<Rightarrow> sentinel \<Rightarrow> bool" where
  "errors_is e s \<longleftrightarrow> Sentinel s \<in> set (chain e)"

text \<open>\<open>errors.As\<close> and \<open>errors.AsType\<close>: the first error of the walk of the wanted type.\<close>

fun first_some :: "('a \<Rightarrow> 'b option) \<Rightarrow> 'a list \<Rightarrow> 'b option" where
  "first_some f [] = None"
| "first_some f (x # xs) = (case f x of None \<Rightarrow> first_some f xs | Some y \<Rightarrow> Some y)"

definition as_dbus_error :: "gerror \<Rightarrow> string option" where
  "as_dbus_error e =
     first_some (\<lambda>x. case x of Foreign (DBusErr n t) \<Rightarrow> Some n | _ \<Rightarrow> None) (chain e)"

definition as_core_error :: "gerror \<Rightarrow> (kind \<times> resource \<times> string \<times> string \<times> gerror) option" where
  "as_core_error e =
     first_some (\<lambda>x. case x of CoreError k r op d c \<Rightarrow> Some (k, r, op, d, c) | _ \<Rightarrow> None) (chain e)"

definition is_public_error :: "gerror \<Rightarrow> bool" where
  "is_public_error e \<longleftrightarrow>
     list_ex (\<lambda>x. case x of PublicError _ _ _ _ _ \<Rightarrow> True | _ \<Rightarrow> False) (chain e)"

lemma errors_is_simps [simp]:
  "errors_is (Sentinel s') s \<longleftrightarrow> s' = s"
  "\<not> errors_is (Foreign raw) s"
  "errors_is (Errorf f args es) s \<longleftrightarrow> (\<exists>e \<in> set es. errors_is e s)"
  "errors_is (Joined es) s \<longleftrightarrow> (\<exists>e \<in> set es. errors_is e s)"
  "errors_is (IwdbusError dk ctx e) s \<longleftrightarrow> s = DBusS dk \<or> errors_is e s"
  "errors_is (CoreError k r op d e) s \<longleftrightarrow> s = ErrCore \<or> errors_is e s"
  "errors_is (PublicError k r op d e) s \<longleftrightarrow>
     s = ErrSpiderw \<or> s = sentinel_for_kind k \<or> errors_is e s"
  by (auto simp: errors_is_def)

lemma as_dbus_error_simps [simp]:
  "as_dbus_error (Sentinel s) = None"
  "as_dbus_error (Foreign (DBusErr n t)) = Some n"
  "as_dbus_error (Foreign (OtherErr t)) = None"
  "as_dbus_error (IwdbusError dk ctx e) = as_dbus_error e"
  "as_dbus_error (CoreError k r op d e) = as_dbus_error e"
  "as_dbus_error (PublicError k r op d e) = as_dbus_error e"
  "as_dbus_error (Errorf f args []) = None"
  by (simp_all add: as_dbus_error_def)

lemma as_core_error_simps [simp]:
  "as_core_error (CoreError k r op d e) = Some (k, r, op, d, e)"
  "as_core_error (Sentinel s) = None"
  "as_core_error (Foreign x) = None"
  "as_core_error (IwdbusError dk ctx e) = as_core_error e"
  "as_core_error (Errorf f args []) = None"
  by (simp_all add: as_core_error_def)

subsection \<open>Wrappers of the D-Bus layer (internal/iwdbus/errors.go)\<close>

text \<open>
  Every wrapper returns nil for a nil error. The code calls them on the path where the error
  is not nil, which is where the model calls these (their argument is the error itself).
\<close>

definition wrap_connection :: "string \<Rightarrow> gerror \<Rightarrow> gerror" where
  "wrap_connection op e = IwdbusError ErrDBusConnection (''op='' @ op) e"

definition wrap_method :: "string \<Rightarrow> string \<Rightarrow> gerror \<Rightarrow> gerror" where
  "wrap_method iface method e =
     IwdbusError ErrDBusMethod (''iface='' @ iface @ '', method='' @ method) e"

definition wrap_property :: "string \<Rightarrow> string \<Rightarrow> gerror \<Rightarrow> gerror" where
  "wrap_property iface property e =
     IwdbusError ErrDBusProperty (''iface='' @ iface @ '', property='' @ property) e"

definition wrap_introspection :: "string \<Rightarrow> gerror \<Rightarrow> gerror" where
  "wrap_introspection path e = IwdbusError ErrDBusIntrospection (''path='' @ path) e"

definition wrap_variant :: "string \<Rightarrow> gerror \<Rightarrow> gerror" where
  "wrap_variant name e = IwdbusError ErrDBusVariant (''variant='' @ name) e"

lemmas iwdbus_wrap_defs =
  wrap_connection_def wrap_method_def wrap_property_def wrap_introspection_def wrap_variant_def

subsection \<open>iwd error names (internal/iwdbus/iwderrors.go)\<close>

definition IwdService :: string where
  "IwdService = ''net.connman.iwd''"

definition IwdSimpleConfigurationIface :: string where
  "IwdSimpleConfigurationIface = IwdService @ ''.SimpleConfiguration''"

definition iwd_error_sentinels :: "(string \<times> iwd_sentinel) list" where
  "iwd_error_sentinels =
    [(IwdService @ ''.NoAgent'', ErrNoAgent),
     (IwdService @ ''.Aborted'', ErrAborted),
     (IwdService @ ''.Busy'', ErrBusy),
     (IwdService @ ''.Failed'', ErrFailed),
     (IwdService @ ''.NotSupported'', ErrNotSupported),
     (IwdService @ ''.Timeout'', ErrTimeout),
     (IwdService @ ''.InProgress'', ErrInProgress),
     (IwdService @ ''.NotConfigured'', ErrNotConfigured),
     (IwdService @ ''.NotFound'', ErrNotFound),
     (IwdService @ ''.AlreadyExists'', ErrAlreadyExists),
     (IwdService @ ''.InvalidArguments'', ErrInvalidArguments),
     (IwdService @ ''.InvalidFormat'', ErrInvalidFormat),
     (IwdService @ ''.NotConnected'', ErrNotConnected),
     (IwdService @ ''.NotImplemented'', ErrNotImplemented),
     (IwdService @ ''.ServiceSetOverlap'', ErrServiceSetOverlap),
     (IwdService @ ''.AlreadyProvisioned'', ErrAlreadyProvisioned),
     (IwdService @ ''.NotHidden'', ErrNotHidden),
     (IwdService @ ''.NotAvailable'', ErrNotAvailable),
     (IwdService @ ''.PermissionDenied'', ErrPermissionDenied),
     (IwdSimpleConfigurationIface @ ''.SessionOverlap'', ErrWSCSessionOverlap),
     (IwdSimpleConfigurationIface @ ''.NoCredentials'', ErrWSCNoCredentials),
     (IwdSimpleConfigurationIface @ ''.NotReachable'', ErrWSCNotReachable),
     (IwdSimpleConfigurationIface @ ''.WalkTimeExpired'', ErrWSCWalkTimeExpired),
     (IwdSimpleConfigurationIface @ ''.TimeExpired'', ErrWSCTimeExpired)]"

definition iwd_error_sentinel :: "gerror \<Rightarrow> iwd_sentinel option" where
  "iwd_error_sentinel e =
     (case as_dbus_error e of None \<Rightarrow> None | Some name \<Rightarrow> map_of iwd_error_sentinels name)"

definition wrap_iwd_method :: "string \<Rightarrow> string \<Rightarrow> gerror \<Rightarrow> gerror" where
  "wrap_iwd_method iface method e =
     (case iwd_error_sentinel e of
        Some s \<Rightarrow> IwdbusError ErrDBusMethod (''iface='' @ iface @ '', method='' @ method)
                   (Errorf ''%w: %w'' [] [Sentinel (IwdS s), e])
      | None \<Rightarrow> wrap_method iface method e)"

definition wrap_iwd_property :: "string \<Rightarrow> string \<Rightarrow> gerror \<Rightarrow> gerror" where
  "wrap_iwd_property iface property e =
     (case iwd_error_sentinel e of
        Some s \<Rightarrow> IwdbusError ErrDBusProperty (''iface='' @ iface @ '', property='' @ property)
                   (Errorf ''%w: %w'' [] [Sentinel (IwdS s), e])
      | None \<Rightarrow> wrap_property iface property e)"

subsection \<open>Core errors (internal/core/errors.go)\<close>

record unavailable_policy =
  policy_resource :: resource
  includeDBusProperty :: bool

definition daemon_unavailable_policy :: unavailable_policy where
  "daemon_unavailable_policy = \<lparr>policy_resource = ResourceDaemon, includeDBusProperty = False\<rparr>"

definition adapter_unavailable_policy :: unavailable_policy where
  "adapter_unavailable_policy = \<lparr>policy_resource = ResourceAdapter, includeDBusProperty = True\<rparr>"

definition device_unavailable_policy :: unavailable_policy where
  "device_unavailable_policy = \<lparr>policy_resource = ResourceDevice, includeDBusProperty = True\<rparr>"

definition station_unavailable_policy :: unavailable_policy where
  "station_unavailable_policy = \<lparr>policy_resource = ResourceStation, includeDBusProperty = True\<rparr>"

definition bss_unavailable_policy :: unavailable_policy where
  "bss_unavailable_policy = \<lparr>policy_resource = ResourceBasicServiceSet, includeDBusProperty = True\<rparr>"

definition network_unavailable_policy :: unavailable_policy where
  "network_unavailable_policy = \<lparr>policy_resource = ResourceNetwork, includeDBusProperty = True\<rparr>"

definition known_network_unavailable_policy :: unavailable_policy where
  "known_network_unavailable_policy =
     \<lparr>policy_resource = ResourceKnownNetwork, includeDBusProperty = True\<rparr>"

definition agent_unavailable_policy :: unavailable_policy where
  "agent_unavailable_policy = \<lparr>policy_resource = ResourceAgent, includeDBusProperty = False\<rparr>"

definition simple_configuration_unavailable_policy :: unavailable_policy where
  "simple_configuration_unavailable_policy =
     \<lparr>policy_resource = ResourceSimpleConfiguration, includeDBusProperty = False\<rparr>"

definition access_point_unavailable_policy :: unavailable_policy where
  "access_point_unavailable_policy =
     \<lparr>policy_resource = ResourceAccessPoint, includeDBusProperty = True\<rparr>"

lemmas policy_defs =
  daemon_unavailable_policy_def adapter_unavailable_policy_def device_unavailable_policy_def
  station_unavailable_policy_def bss_unavailable_policy_def network_unavailable_policy_def
  known_network_unavailable_policy_def agent_unavailable_policy_def
  simple_configuration_unavailable_policy_def access_point_unavailable_policy_def

definition new_error :: "kind \<Rightarrow> resource \<Rightarrow> string \<Rightarrow> string \<Rightarrow> gerror \<Rightarrow> gerror" where
  "new_error k r op details e = CoreError k r op details e"

definition is_unavailable_dbus_error :: "gerror \<Rightarrow> bool \<Rightarrow> bool" where
  "is_unavailable_dbus_error e includeProperty =
     (if errors_is e (DBusS ErrDBusConnection) \<or> errors_is e (DBusS ErrDBusMethod)
         \<or> errors_is e (DBusS ErrDBusIntrospection) \<or> errors_is e (DBusS ErrDBusVariant)
      then True
      else includeProperty \<and> errors_is e (DBusS ErrDBusProperty))"

definition wrap_unavailable ::
    "string \<Rightarrow> string \<Rightarrow> gerror \<Rightarrow> unavailable_policy \<Rightarrow> gerror" where
  "wrap_unavailable op details e policy =
     (if is_unavailable_dbus_error e (includeDBusProperty policy)
      then new_error KindUnavailable (policy_resource policy) op details e
      else new_error KindOperationFailed (policy_resource policy) op details e)"

definition wrap_daemon_unavailable :: "string \<Rightarrow> string \<Rightarrow> gerror \<Rightarrow> gerror" where
  "wrap_daemon_unavailable op details e = wrap_unavailable op details e daemon_unavailable_policy"

definition wrap_adapter_unavailable :: "string \<Rightarrow> string \<Rightarrow> gerror \<Rightarrow> gerror" where
  "wrap_adapter_unavailable op details e = wrap_unavailable op details e adapter_unavailable_policy"

definition wrap_device_unavailable :: "string \<Rightarrow> string \<Rightarrow> gerror \<Rightarrow> gerror" where
  "wrap_device_unavailable op details e = wrap_unavailable op details e device_unavailable_policy"

definition wrap_station_unavailable :: "string \<Rightarrow> string \<Rightarrow> gerror \<Rightarrow> gerror" where
  "wrap_station_unavailable op details e = wrap_unavailable op details e station_unavailable_policy"

definition wrap_bss_unavailable :: "string \<Rightarrow> string \<Rightarrow> gerror \<Rightarrow> gerror" where
  "wrap_bss_unavailable op details e = wrap_unavailable op details e bss_unavailable_policy"

definition wrap_network_unavailable :: "string \<Rightarrow> string \<Rightarrow> gerror \<Rightarrow> gerror" where
  "wrap_network_unavailable op details e = wrap_unavailable op details e network_unavailable_policy"

definition wrap_known_network_unavailable :: "string \<Rightarrow> string \<Rightarrow> gerror \<Rightarrow> gerror" where
  "wrap_known_network_unavailable op details e =
     wrap_unavailable op details e known_network_unavailable_policy"

definition wrap_agent_unavailable :: "string \<Rightarrow> string \<Rightarrow> gerror \<Rightarrow> gerror" where
  "wrap_agent_unavailable op details e = wrap_unavailable op details e agent_unavailable_policy"

definition wrap_simple_configuration_unavailable :: "string \<Rightarrow> string \<Rightarrow> gerror \<Rightarrow> gerror" where
  "wrap_simple_configuration_unavailable op details e =
     wrap_unavailable op details e simple_configuration_unavailable_policy"

definition wrap_access_point_unavailable :: "string \<Rightarrow> string \<Rightarrow> gerror \<Rightarrow> gerror" where
  "wrap_access_point_unavailable op details e =
     wrap_unavailable op details e access_point_unavailable_policy"

definition wrap_invalid_state :: "resource \<Rightarrow> string \<Rightarrow> string \<Rightarrow> gerror \<Rightarrow> gerror" where
  "wrap_invalid_state r op details e = new_error KindInvalidState r op details e"

definition wrap_invalid_argument :: "resource \<Rightarrow> string \<Rightarrow> string \<Rightarrow> gerror \<Rightarrow> gerror" where
  "wrap_invalid_argument r op details e = new_error KindInvalidArgument r op details e"

definition wrap_operation_failed :: "resource \<Rightarrow> string \<Rightarrow> string \<Rightarrow> gerror \<Rightarrow> gerror" where
  "wrap_operation_failed r op details e = new_error KindOperationFailed r op details e"

lemmas core_wrap_defs =
  wrap_daemon_unavailable_def wrap_adapter_unavailable_def wrap_device_unavailable_def
  wrap_station_unavailable_def wrap_bss_unavailable_def wrap_network_unavailable_def
  wrap_known_network_unavailable_def wrap_agent_unavailable_def
  wrap_simple_configuration_unavailable_def wrap_access_point_unavailable_def

subsection \<open>Public errors (errors.go)\<close>

definition map_core_kind :: "kind \<Rightarrow> kind" where
  "map_core_kind k = public_kind k"

definition map_core_resource :: "resource \<Rightarrow> resource" where
  "map_core_resource r = r"

definition wrap_public_error :: "string \<Rightarrow> gerror \<Rightarrow> gerror" where
  "wrap_public_error op e =
     (if is_public_error e then e
      else case as_core_error e of
        Some (k, r, _, details, _) \<Rightarrow>
          PublicError (map_core_kind k) (map_core_resource r) op details e
      | None \<Rightarrow> PublicError KindInternal ResourceUnknown op [] e)"

subsection \<open>What wrapping keeps\<close>

text \<open>
  The contract of every wrapper of the three layers: it adds a known set of sentinels and
  hides none of the wrapped error's. Callers match errors through any number of layers
  on the strength of it.
\<close>

locale error_wrapper =
  fixes wrap :: "gerror \<Rightarrow> gerror"
    and adds :: "gerror \<Rightarrow> sentinel set"
  assumes wrap_is: "errors_is (wrap e) s \<longleftrightarrow> s \<in> adds e \<or> errors_is e s"
begin

lemma keeps: "errors_is e s \<Longrightarrow> errors_is (wrap e) s"
  by (simp add: wrap_is)

lemma invents_only: "errors_is (wrap e) s \<Longrightarrow> \<not> errors_is e s \<Longrightarrow> s \<in> adds e"
  by (simp add: wrap_is)

lemma iwd_outcome: "IwdS i \<notin> adds e \<Longrightarrow> errors_is (wrap e) (IwdS i) \<longleftrightarrow> errors_is e (IwdS i)"
  by (simp add: wrap_is)

end

lemma errors_is_wrap_unavailable:
  "errors_is (wrap_unavailable op d e p) s \<longleftrightarrow> s = ErrCore \<or> errors_is e s"
  by (simp add: wrap_unavailable_def new_error_def)

text \<open>The sentinel a recognised iwd error reply adds, and the class of the failed operation.\<close>

definition recognised :: "gerror \<Rightarrow> sentinel set" where
  "recognised e = (case iwd_error_sentinel e of Some i \<Rightarrow> {IwdS i} | None \<Rightarrow> {})"

definition public_adds :: "gerror \<Rightarrow> sentinel set" where
  "public_adds e =
     (if is_public_error e then {}
      else case as_core_error e of
        Some (k, _) \<Rightarrow> {ErrSpiderw, sentinel_for_kind (public_kind k)}
      | None \<Rightarrow> {ErrSpiderw, ErrInternal})"

interpretation wm: error_wrapper "wrap_method i m" "\<lambda>_. {DBusS ErrDBusMethod}" for i m
  by unfold_locales (simp add: wrap_method_def)

interpretation wim: error_wrapper "wrap_iwd_method i m" "\<lambda>e. insert (DBusS ErrDBusMethod) (recognised e)" for i m
  by unfold_locales
    (auto simp: wrap_iwd_method_def wrap_method_def recognised_def split: option.splits)

interpretation wip: error_wrapper "wrap_iwd_property i p" "\<lambda>e. insert (DBusS ErrDBusProperty) (recognised e)" for i p
  by unfold_locales
    (auto simp: wrap_iwd_property_def wrap_property_def recognised_def split: option.splits)

interpretation wun: error_wrapper "\<lambda>e. wrap_unavailable op d e p" "\<lambda>_. {ErrCore}" for op d p
  by unfold_locales (simp add: errors_is_wrap_unavailable)

interpretation wpub: error_wrapper "wrap_public_error op" public_adds for op
  by unfold_locales
    (auto simp: wrap_public_error_def public_adds_def map_core_kind_def split: option.splits)

lemma as_core_error_wrap_unavailable [simp]:
  "as_core_error (wrap_unavailable op d e p) =
     Some (if is_unavailable_dbus_error e (includeDBusProperty p) then KindUnavailable
           else KindOperationFailed, policy_resource p, op, d, e)"
  by (simp add: wrap_unavailable_def new_error_def)

lemma is_public_error_simps [simp]:
  "is_public_error (Sentinel s) = False"
  "is_public_error (Foreign raw) = False"
  "is_public_error (Errorf f args es) \<longleftrightarrow> (\<exists>e \<in> set es. is_public_error e)"
  "is_public_error (Joined es) \<longleftrightarrow> (\<exists>e \<in> set es. is_public_error e)"
  "is_public_error (IwdbusError dk ctx e) = is_public_error e"
  "is_public_error (CoreError k r op d e) = is_public_error e"
  "is_public_error (PublicError k r op d e) = True"
  by (auto simp: is_public_error_def list_ex_iff)

lemma is_public_error_wrap_unavailable [simp]:
  "is_public_error (wrap_unavailable op d e p) = is_public_error e"
  by (simp add: wrap_unavailable_def new_error_def)

lemma iwd_error_sentinels_distinct: "distinct (map fst iwd_error_sentinels)"
  by code_simp

lemma iwd_sentinels_distinct: "distinct (map snd iwd_error_sentinels)"
  by code_simp

lemma iwd_error_sentinel_Foreign:
  "iwd_error_sentinel (Foreign (DBusErr n t)) = map_of iwd_error_sentinels n"
  by (simp add: iwd_error_sentinel_def)

text \<open>The error a failed method call on an iwd object ends as in the public API: the bus error
  wrapped by \<open>IntrospectedObject.Call\<close>, by the typed method, by core and by the public package.\<close>

definition surfaced_method_error ::
    "string \<Rightarrow> string \<Rightarrow> string \<Rightarrow> string \<Rightarrow> unavailable_policy \<Rightarrow> string \<Rightarrow> raw_err \<Rightarrow> gerror" where
  "surfaced_method_error iface method core_op details policy public_op r =
     wrap_public_error public_op
       (wrap_unavailable core_op details
         (wrap_iwd_method iface method (wrap_method iface method (Foreign r))) policy)"

lemma surfaced_method_error_is:
  "errors_is (surfaced_method_error iface m op d p pop r) s \<longleftrightarrow>
     s \<in> {ErrSpiderw, ErrUnavailable, ErrCore, DBusS ErrDBusMethod} \<or>
     (\<exists>i. s = IwdS i \<and> iwd_error_sentinel (Foreign r) = Some i)"
proof -
  let ?e = "wrap_iwd_method iface m (wrap_method iface m (Foreign r))"
  have rec: "iwd_error_sentinel (wrap_method iface m (Foreign r)) = iwd_error_sentinel (Foreign r)"
    by (simp add: iwd_error_sentinel_def wrap_method_def)
  have m: "errors_is ?e (DBusS ErrDBusMethod)"
    by (simp add: wim.wrap_is)
  then have un: "is_unavailable_dbus_error ?e b" for b
    by (simp add: is_unavailable_dbus_error_def)
  have np: "\<not> is_public_error ?e"
    by (simp add: wrap_iwd_method_def wrap_method_def split: option.splits)
  show ?thesis
    by (auto simp: surfaced_method_error_def wpub.wrap_is errors_is_wrap_unavailable public_adds_def
        np un wim.wrap_is rec wm.wrap_is recognised_def split: option.splits)
qed

lemma sentinel_for_kind_not_iwd [simp]: "IwdS j \<noteq> sentinel_for_kind k"
  by (cases k) simp_all

lemma surfaced_setting_error_is:
  "errors_is (wrap_public_error pop (wrap_unavailable op d (wrap_iwd_property iface prop (Foreign r)) p)) (IwdS j) \<longleftrightarrow>
     iwd_error_sentinel (Foreign r) = Some j"
  by (auto simp: wpub.wrap_is wun.wrap_is wip.wrap_is public_adds_def recognised_def
      split: option.splits)

lemma surfaced_reading_error_is:
  "\<not> errors_is (wrap_public_error pop (wrap_unavailable op d (wrap_property iface prop (Foreign r)) p)) (IwdS j)"
  by (auto simp: wpub.wrap_is wun.wrap_is wrap_property_def public_adds_def
      split: option.splits)



definition unavailable_kinds :: "unavailable_policy \<Rightarrow> dbus_kind set" where
  "unavailable_kinds p =
     {ErrDBusConnection, ErrDBusMethod, ErrDBusIntrospection, ErrDBusVariant} \<union>
     (if includeDBusProperty p then {ErrDBusProperty} else {})"

lemma is_unavailable_dbus_error_iff:
  "is_unavailable_dbus_error e (includeDBusProperty p) \<longleftrightarrow>
     (\<exists>k. k \<in> unavailable_kinds p \<and> errors_is e (DBusS k))"
  by (auto simp: is_unavailable_dbus_error_def unavailable_kinds_def)

text \<open>
  Core's classification of a failure, seen through the public API: an error made by a
  \<open>Wrap...Unavailable\<close> function over a D-Bus failure matches \<open>ErrUnavailable\<close> exactly when the
  failure is a connection, method, introspection or variant error, or a property error of a
  resource whose policy includes those; otherwise it matches \<open>ErrInternal\<close>. It never matches the
  invalid-state or invalid-argument categories.
\<close>

theorem public_category_of_wrapped_failure:
  assumes "\<And>s. s \<in> {ErrUnavailable, ErrInternal, ErrInvalidState, ErrInvalidArgument} \<Longrightarrow> \<not> errors_is e s"
    and "\<not> is_public_error e"
  shows "(errors_is (wrap_public_error pop (wrap_unavailable op d e p)) ErrUnavailable \<longleftrightarrow>
            (\<exists>k. k \<in> unavailable_kinds p \<and> errors_is e (DBusS k)))
       \<and> (errors_is (wrap_public_error pop (wrap_unavailable op d e p)) ErrInternal \<longleftrightarrow>
            \<not> (\<exists>k. k \<in> unavailable_kinds p \<and> errors_is e (DBusS k)))
       \<and> \<not> errors_is (wrap_public_error pop (wrap_unavailable op d e p)) ErrInvalidState
       \<and> \<not> errors_is (wrap_public_error pop (wrap_unavailable op d e p)) ErrInvalidArgument"
  using assms
  by (auto simp: wpub.wrap_is errors_is_wrap_unavailable public_adds_def is_unavailable_dbus_error_iff)

theorem public_category_of_wrapped_failure_witness:
  "errors_is (wrap_public_error ''Daemon.Info'' (wrap_unavailable ''Daemon.Info'' ''d''
     (wrap_property ''i'' ''p'' (Foreign (OtherErr ''x''))) daemon_unavailable_policy)) ErrInternal"
proof -
  let ?e = "wrap_property ''i'' ''p'' (Foreign (OtherErr ''x''))"
  have "\<And>s. s \<in> {ErrUnavailable, ErrInternal, ErrInvalidState, ErrInvalidArgument} \<Longrightarrow> \<not> errors_is ?e s"
    and "\<not> is_public_error ?e"
    by (auto simp: wrap_property_def)
  from public_category_of_wrapped_failure [OF this, of "''Daemon.Info''" "''Daemon.Info''" "''d''" daemon_unavailable_policy]
  show ?thesis
    by (auto simp: unavailable_kinds_def daemon_unavailable_policy_def wrap_property_def)
qed

subsection \<open>Requests the program refuses itself\<close>

text \<open>
  A request the program refuses on its own: an invalid-argument error for the caller of the public
  operation \<open>pop\<close>, and nothing done on the bus.
\<close>

definition refused :: "string \<Rightarrow> (gerror, 'w, 'a) go \<Rightarrow> 'w \<Rightarrow> bool" where
  "refused pop m w \<longleftrightarrow> (\<exists>e. m w = (Inl e, w) \<and> errors_is (wrap_public_error pop e) ErrInvalidArgument)"

lemma invalid_argument_is_public:
  "\<not> is_public_error e \<Longrightarrow> errors_is (wrap_public_error pop (wrap_invalid_argument r op d e)) ErrInvalidArgument"
  by (simp add: wpub.wrap_is public_adds_def wrap_invalid_argument_def new_error_def)

lemma refused_invalid_argument:
  "\<not> is_public_error e \<Longrightarrow> refused pop (go_fail (wrap_invalid_argument r op d e)) w"
  by (simp add: refused_def invalid_argument_is_public)

end
