(* ===== verification/Iwd_Values.thy ===== *)
theory Iwd_Values
  imports Go_Errors
begin

text \<open>
  The closed value sets iwd reports as strings: \<open>internal/iwdvalue/mode.go\<close>,
  \<open>networktype.go\<close> and \<open>stationstate.go\<close>. Each Go type is a defined string type, so a value of
  it can be any string; the \<open>Valid\<close> predicates tell the recognised ones, and the zero value
  (the empty string) is the \<open>Unknown\<close> constant.
\<close>

subsection \<open>The contract of such a value set\<close>

text \<open>
  The layers above use \<open>Parse\<close>, \<open>Valid\<close> and \<open>String\<close> of all three types in the same way; what
  they rely on is stated, and its consequences proved, once.
\<close>

locale iwd_value =
  fixes valid :: "string \<Rightarrow> bool"
    and parse :: "string \<Rightarrow> string \<times> bool"
    and to_string :: "string \<Rightarrow> string"
  assumes parse_eq: "parse s = (if valid s then (s, True) else ([], False))"
    and to_string_eq: "to_string s = (if valid s then s else ''unknown'')"
    and unknown_invalid: "\<not> valid []"
    and label_invalid: "\<not> valid ''unknown''"
begin

lemma parse_valid: "snd (parse s) \<longleftrightarrow> valid s"
  by (simp add: parse_eq)

lemma parse_result: "parse s = (v, True) \<Longrightarrow> v = s \<and> valid v"
  by (auto simp: parse_eq split: if_splits)

lemma parse_fails_unknown: "parse s = (v, False) \<Longrightarrow> v = []"
  by (auto simp: parse_eq split: if_splits)

lemma round_trip: "parse (to_string s) = (s, True) \<longleftrightarrow> valid s"
  using unknown_invalid label_invalid by (auto simp: parse_eq to_string_eq)

lemma round_trip_ok: "snd (parse (to_string s)) \<longleftrightarrow> valid s"
  using label_invalid by (simp add: parse_eq to_string_eq)

lemma invalid_does_not_parse_back: "\<not> valid s \<Longrightarrow> parse (to_string s) = ([], False)"
  using label_invalid by (simp add: parse_eq to_string_eq)

lemma to_string_nonempty: "to_string s \<noteq> []"
  using unknown_invalid by (auto simp: to_string_eq)

end

subsection \<open>Mode\<close>

type_synonym mode = string

definition ModeUnknown :: mode where
  "ModeUnknown = ''''"

definition ModeStation :: mode where
  "ModeStation = ''station''"

definition ModeAP :: mode where
  "ModeAP = ''ap''"

definition ModeAdHoc :: mode where
  "ModeAdHoc = ''ad-hoc''"

definition valid_mode :: "mode \<Rightarrow> bool" where
  "valid_mode m \<longleftrightarrow> m = ModeStation \<or> m = ModeAP \<or> m = ModeAdHoc"

definition mode_string :: "mode \<Rightarrow> string" where
  "mode_string m = (if valid_mode m then m else ''unknown'')"

definition parse_mode :: "string \<Rightarrow> mode \<times> bool" where
  "parse_mode s = (if \<not> valid_mode s then (ModeUnknown, False) else (s, True))"

lemmas mode_defs = ModeUnknown_def ModeStation_def ModeAP_def ModeAdHoc_def valid_mode_def

interpretation mode: iwd_value valid_mode parse_mode mode_string
  by unfold_locales (auto simp: mode_defs parse_mode_def mode_string_def)

subsection \<open>NetworkType\<close>

type_synonym network_type = string

definition NetworkTypeUnknown :: network_type where
  "NetworkTypeUnknown = ''''"

definition NetworkTypeOpen :: network_type where
  "NetworkTypeOpen = ''open''"

definition NetworkTypeWEP :: network_type where
  "NetworkTypeWEP = ''wep''"

definition NetworkTypePSK :: network_type where
  "NetworkTypePSK = ''psk''"

definition NetworkType8021x :: network_type where
  "NetworkType8021x = ''8021x''"

definition NetworkTypeHotspot :: network_type where
  "NetworkTypeHotspot = ''hotspot''"

definition valid_network_type :: "network_type \<Rightarrow> bool" where
  "valid_network_type t \<longleftrightarrow>
     t = NetworkTypeOpen \<or> t = NetworkTypeWEP \<or> t = NetworkTypePSK
     \<or> t = NetworkType8021x \<or> t = NetworkTypeHotspot"

definition network_type_string :: "network_type \<Rightarrow> string" where
  "network_type_string t = (if valid_network_type t then t else ''unknown'')"

definition parse_network_type_value :: "string \<Rightarrow> network_type \<times> bool" where
  "parse_network_type_value s =
     (if \<not> valid_network_type s then (NetworkTypeUnknown, False) else (s, True))"

lemmas network_type_defs =
  NetworkTypeUnknown_def NetworkTypeOpen_def NetworkTypeWEP_def NetworkTypePSK_def
  NetworkType8021x_def NetworkTypeHotspot_def valid_network_type_def

interpretation nettype: iwd_value valid_network_type parse_network_type_value network_type_string
  by unfold_locales
    (auto simp: network_type_defs parse_network_type_value_def network_type_string_def)

subsection \<open>StationState\<close>

type_synonym station_state = string

definition StationStateUnknown :: station_state where
  "StationStateUnknown = ''''"

definition StationStateConnected :: station_state where
  "StationStateConnected = ''connected''"

definition StationStateDisconnected :: station_state where
  "StationStateDisconnected = ''disconnected''"

definition StationStateConnecting :: station_state where
  "StationStateConnecting = ''connecting''"

definition StationStateDisconnecting :: station_state where
  "StationStateDisconnecting = ''disconnecting''"

definition StationStateRoaming :: station_state where
  "StationStateRoaming = ''roaming''"

definition valid_station_state :: "station_state \<Rightarrow> bool" where
  "valid_station_state s \<longleftrightarrow>
     s = StationStateConnected \<or> s = StationStateDisconnected \<or> s = StationStateConnecting
     \<or> s = StationStateDisconnecting \<or> s = StationStateRoaming"

definition station_state_string :: "station_state \<Rightarrow> string" where
  "station_state_string s = (if valid_station_state s then s else ''unknown'')"

definition parse_station_state_value :: "string \<Rightarrow> station_state \<times> bool" where
  "parse_station_state_value s =
     (if \<not> valid_station_state s then (StationStateUnknown, False) else (s, True))"

lemmas station_state_defs =
  StationStateUnknown_def StationStateConnected_def StationStateDisconnected_def
  StationStateConnecting_def StationStateDisconnecting_def StationStateRoaming_def
  valid_station_state_def

interpretation ststate: iwd_value valid_station_state parse_station_state_value station_state_string
  by unfold_locales
    (auto simp: station_state_defs parse_station_state_value_def station_state_string_def)

text \<open>
  Printing and parsing the three value sets: \<open>Parse(v.String())\<close> gives \<open>v\<close> back exactly for
  the recognised values, and an unrecognised value prints as a label that does not parse.
\<close>

theorem iwd_values_round_trip:
  "(parse_mode (mode_string m) = (m, True) \<longleftrightarrow> valid_mode m)
   \<and> (parse_network_type_value (network_type_string t) = (t, True) \<longleftrightarrow> valid_network_type t)
   \<and> (parse_station_state_value (station_state_string s) = (s, True) \<longleftrightarrow> valid_station_state s)
   \<and> (snd (parse_mode (mode_string m)) \<longleftrightarrow> valid_mode m)
   \<and> (snd (parse_network_type_value (network_type_string t)) \<longleftrightarrow> valid_network_type t)
   \<and> (snd (parse_station_state_value (station_state_string s)) \<longleftrightarrow> valid_station_state s)"
  by (intro conjI mode.round_trip nettype.round_trip ststate.round_trip
      mode.round_trip_ok nettype.round_trip_ok ststate.round_trip_ok)

end
