(* ===== verification/Dbus_Values.thy ===== *)
theory Dbus_Values
  imports Iwd_Values
begin

text \<open>
  The dynamically typed values godbus hands the program (\<open>interface{}\<close>, \<open>dbus.Variant\<close>) and the
  parsers that normalise them: \<open>internal/iwdbus/utils.go\<close> and the \<open>parse...\<close> functions of
  \<open>station.go\<close>, \<open>network.go\<close> and \<open>adapter.go\<close>.

  \<open>dval\<close> has a constructor for every Go type the code's type switches and assertions
  distinguish (no code computes with the integers); \<open>VOther t\<close> is a value of any other Go type, printed by \<open>%T\<close> as \<open>t\<close>. A
  \<open>map[string]dbus.Variant\<close> lists its keys with the value \<open>Variant.Value()\<close> of each.
  \<open>dbus.ObjectPath.IsValid\<close> belongs to godbus and is the parameter \<open>path_ok\<close>.
\<close>

datatype dval =
    VNil
  | VBool bool
  | VStr string
  | VPath string
  | VVariant dval
  | VStrs "string list"
  | VPaths "string list"
  | VLevels "int list"
  | VInt16 int
  | VUint32 int
  | VAnys "dval list"
  | VVarMap "(string \<times> dval) list"
  | VAnyMap "(string \<times> dval) list"
  | VOther string

fun go_type :: "dval \<Rightarrow> string" where
  "go_type VNil = ''<nil>''"
| "go_type (VBool b) = ''bool''"
| "go_type (VStr s) = ''string''"
| "go_type (VPath p) = ''dbus.ObjectPath''"
| "go_type (VVariant v) = ''dbus.Variant''"
| "go_type (VStrs ss) = ''[]string''"
| "go_type (VPaths ps) = ''[]dbus.ObjectPath''"
| "go_type (VLevels is) = ''[]int16''"
| "go_type (VInt16 i) = ''int16''"
| "go_type (VUint32 i) = ''uint32''"
| "go_type (VAnys vs) = ''[]interface {}''"
| "go_type (VVarMap m) = ''map[string]dbus.Variant''"
| "go_type (VAnyMap m) = ''map[string]interface {}''"
| "go_type (VOther t) = t"

text \<open>Type assertions \<open>v.(T)\<close> with the two-value form.\<close>

definition as_string :: "dval \<Rightarrow> string option" where
  "as_string v = (case v of VStr s \<Rightarrow> Some s | _ \<Rightarrow> None)"

definition as_bool :: "dval \<Rightarrow> bool option" where
  "as_bool v = (case v of VBool b \<Rightarrow> Some b | _ \<Rightarrow> None)"

lemma as_string_simps [simp]: "as_string (VStr s) = Some s"
  by (simp add: as_string_def)

lemma as_string_Some_iff [simp]: "as_string v = Some s \<longleftrightarrow> v = VStr s"
  by (cases v) (auto simp: as_string_def)

lemma as_bool_simps [simp]: "as_bool (VBool b) = Some b"
  by (simp add: as_bool_def)

lemma as_bool_Some_iff [simp]: "as_bool v = Some b \<longleftrightarrow> v = VBool b"
  by (cases v) (auto simp: as_bool_def)

text \<open>The two failed assertions the getters report.\<close>

definition expected :: "string \<Rightarrow> string \<Rightarrow> dval \<Rightarrow> gerror" where
  "expected field what v =
     wrap_variant field (Errorf (''expected '' @ what @ '', got %T'') [go_type v] [])"

definition expect_string :: "string \<Rightarrow> dval \<Rightarrow> gerror + string" where
  "expect_string field v =
     (case as_string v of None \<Rightarrow> Inl (expected field ''string'' v) | Some s \<Rightarrow> Inr s)"

definition expect_bool :: "string \<Rightarrow> dval \<Rightarrow> gerror + bool" where
  "expect_bool field v =
     (case as_bool v of None \<Rightarrow> Inl (expected field ''bool'' v) | Some b \<Rightarrow> Inr b)"

definition invalid_object_path :: "string \<Rightarrow> string \<Rightarrow> gerror" where
  "invalid_object_path field p =
     wrap_variant field (Errorf ''invalid object path %q'' [p] [])"

subsection \<open>utils.go\<close>

text \<open>
  \<open>unknownPropertyRe\<close>: two literal phrases, matched anywhere in the text and without regard to
  case. Each position of a phrase is the list of byte strings it matches: a letter in both
  cases (\<open>(?i)\<close> folds \<open>k\<close> with the Kelvin sign U+212A and \<open>s\<close> with the long s U+017F), and \<open>\s\<close>
  for the four ASCII spaces \<open>\t \n \f \r\<close> and blank.
\<close>

definition fold_char :: "char \<Rightarrow> string list" where
  "fold_char c =
     (let n = of_char c :: nat in
      if 65 \<le> n \<and> n \<le> 90 then [[c], [char_of (n + 32)]]
        @ (if c = CHR ''K'' then [utf8 [226, 132, 170]] else [])
        @ (if c = CHR ''S'' then [utf8 [197, 191]] else [])
      else if 97 \<le> n \<and> n \<le> 122 then [[c], [char_of (n - 32)]]
        @ (if c = CHR ''k'' then [utf8 [226, 132, 170]] else [])
        @ (if c = CHR ''s'' then [utf8 [197, 191]] else [])
      else [[c]])"

definition re_space :: "string list" where
  "re_space = map utf8 [[9], [10], [12], [13], [32]]"

definition unknown_property_phrases :: "string list list list" where
  "unknown_property_phrases =
    [map fold_char ''GetProperty'' @ [re_space] @ map fold_char ''failed:'' @ [re_space]
       @ map fold_char ''unknown property'',
     map fold_char ''Getting property value failed'']"

fun match_here :: "string list list \<Rightarrow> string \<Rightarrow> bool" where
  "match_here [] s = True"
| "match_here (alts # ps) s =
     list_ex (\<lambda>a. prefix a s \<and> match_here ps (drop (length a) s)) alts"

fun match_anywhere :: "string list list \<Rightarrow> string \<Rightarrow> bool" where
  "match_anywhere ps [] = match_here ps []"
| "match_anywhere ps (c # s) = (match_here ps (c # s) \<or> match_anywhere ps s)"

definition is_unknown_property_error :: "raw_err \<Rightarrow> bool" where
  "is_unknown_property_error r \<longleftrightarrow>
     list_ex (\<lambda>ps. match_anywhere ps (err_text r)) unknown_property_phrases"

definition parse_optional_string :: "dval \<Rightarrow> gerror + string option" where
  "parse_optional_string v =
     (case v of
        VNil \<Rightarrow> Inr None
      | VStr s \<Rightarrow> Inr (Some s)
      | VVariant inner \<Rightarrow>
          (case inner of
             VNil \<Rightarrow> Inr None
           | VStr s \<Rightarrow> Inr (Some s)
           | _ \<Rightarrow> Inl (Errorf ''expected string variant, got %T inside variant'' [go_type inner] []))
      | _ \<Rightarrow> Inl (Errorf ''expected string or variant(string), got %T'' [go_type v] []))"

definition property_cleared :: "string list \<Rightarrow> string \<Rightarrow> bool" where
  "property_cleared invalidated name \<longleftrightarrow> name \<in> set invalidated"

subsection \<open>Parsers of the station properties (station.go)\<close>

definition parse_station_state :: "dval \<Rightarrow> gerror + station_state" where
  "parse_station_state v =
     (case as_string v of
        None \<Rightarrow> Inl (expected ''State'' ''string'' v)
      | Some s \<Rightarrow>
          (case parse_station_state_value s of
             (state, ok) \<Rightarrow>
               if \<not> ok then Inl (wrap_variant ''State'' (Errorf ''invalid station state %q'' [s] []))
               else Inr state))"

text \<open>The tail the optional object-path parsers share: no object for \<open>""\<close> and \<open>"/"\<close>.\<close>

definition optional_path :: "(string \<Rightarrow> bool) \<Rightarrow> string \<Rightarrow> string \<Rightarrow> gerror + string option" where
  "optional_path path_ok field path =
     (if path = '''' \<or> path = ''/'' then Inr None
      else if \<not> path_ok path then Inl (invalid_object_path field path)
      else Inr (Some path))"

fun parse_station_object_path :: "(string \<Rightarrow> bool) \<Rightarrow> string \<Rightarrow> dval \<Rightarrow> gerror + string option" where
  "parse_station_object_path path_ok field VNil = Inr None"
| "parse_station_object_path path_ok field (VPath p) = optional_path path_ok field p"
| "parse_station_object_path path_ok field (VStr p) = optional_path path_ok field p"
| "parse_station_object_path path_ok field (VVariant v) = parse_station_object_path path_ok field v"
| "parse_station_object_path path_ok field v = Inl (expected field ''object path'' v)"

text \<open>One element of \<open>[]dbus.ObjectPath\<close>, and one of \<open>[]interface{}\<close>.\<close>

definition affinity_path :: "(string \<Rightarrow> bool) \<Rightarrow> string \<Rightarrow> gerror + string" where
  "affinity_path path_ok p =
     (if \<not> path_ok p then Inl (invalid_object_path ''Affinities'' p) else Inr p)"

definition affinity_elem :: "(string \<Rightarrow> bool) \<Rightarrow> dval \<Rightarrow> gerror + string" where
  "affinity_elem path_ok v =
     (case v of
        VPath p \<Rightarrow> affinity_path path_ok p
      | _ \<Rightarrow> Inl (expected ''Affinities'' ''object path'' v))"

text \<open>A nil slice is \<open>None\<close>, a present (maybe empty) one \<open>Some\<close>.\<close>

fun parse_station_affinities :: "(string \<Rightarrow> bool) \<Rightarrow> dval \<Rightarrow> gerror + string list option" where
  "parse_station_affinities path_ok VNil = Inr None"
| "parse_station_affinities path_ok (VVariant v) = parse_station_affinities path_ok v"
| "parse_station_affinities path_ok (VPaths ps) =
     try_bind (collect (affinity_path path_ok) ps) (\<lambda>out. Inr (Some out))"
| "parse_station_affinities path_ok (VAnys vs) =
     try_bind (collect (affinity_elem path_ok) vs) (\<lambda>out. Inr (Some out))"
| "parse_station_affinities path_ok v = Inl (expected ''Affinities'' ''object path array'' v)"

subsection \<open>Parsers of the network properties (network.go)\<close>

definition parse_network_type :: "dval \<Rightarrow> gerror + network_type" where
  "parse_network_type v =
     (case as_string v of
        None \<Rightarrow> Inl (expected ''Type'' ''string'' v)
      | Some s \<Rightarrow>
          (case parse_network_type_value s of
             (t, ok) \<Rightarrow>
               if \<not> ok then Inl (wrap_variant ''Type'' (Errorf ''invalid network type %q'' [s] []))
               else Inr t))"

fun parse_network_object_path :: "(string \<Rightarrow> bool) \<Rightarrow> string \<Rightarrow> dval \<Rightarrow> gerror + string" where
  "parse_network_object_path path_ok field (VPath p) =
     (if \<not> path_ok p then Inl (invalid_object_path field p) else Inr p)"
| "parse_network_object_path path_ok field (VStr p) =
     (if \<not> path_ok p then Inl (invalid_object_path field p) else Inr p)"
| "parse_network_object_path path_ok field v = Inl (expected field ''object path'' v)"

fun parse_optional_object_path :: "(string \<Rightarrow> bool) \<Rightarrow> dval \<Rightarrow> gerror + string option" where
  "parse_optional_object_path path_ok VNil = Inr None"
| "parse_optional_object_path path_ok (VPath p) = optional_path path_ok ''KnownNetwork'' p"
| "parse_optional_object_path path_ok (VStr p) = optional_path path_ok ''KnownNetwork'' p"
| "parse_optional_object_path path_ok (VVariant v) = parse_optional_object_path path_ok v"
| "parse_optional_object_path path_ok v = Inl (expected ''KnownNetwork'' ''object path'' v)"

definition ess_path :: "(string \<Rightarrow> bool) \<Rightarrow> string \<Rightarrow> gerror + string" where
  "ess_path path_ok p =
     (if \<not> path_ok p then Inl (invalid_object_path ''ExtendedServiceSet'' p) else Inr p)"

fun parse_object_path_list :: "(string \<Rightarrow> bool) \<Rightarrow> dval \<Rightarrow> gerror + string list" where
  "parse_object_path_list path_ok (VPaths ps) = collect (ess_path path_ok) ps"
| "parse_object_path_list path_ok (VAnys vs) =
     collect (parse_network_object_path path_ok ''ExtendedServiceSet'') vs"
| "parse_object_path_list path_ok v =
     Inl (expected ''ExtendedServiceSet'' ''object path array'' v)"

subsection \<open>What the parsers guarantee\<close>

lemma parse_station_state_Inr_iff:
  "parse_station_state v = Inr s \<longleftrightarrow> v = VStr s \<and> valid_station_state s"
  by (auto simp: parse_station_state_def ststate.parse_eq split: option.splits)

lemma parse_network_type_Inr_iff:
  "parse_network_type v = Inr t \<longleftrightarrow> v = VStr t \<and> valid_network_type t"
  by (auto simp: parse_network_type_def nettype.parse_eq split: option.splits)

lemma expect_string_Inr_iff: "expect_string f v = Inr s \<longleftrightarrow> v = VStr s"
  by (auto simp: expect_string_def split: option.splits)

lemma expect_bool_Inr_iff: "expect_bool f v = Inr b \<longleftrightarrow> v = VBool b"
  by (auto simp: expect_bool_def split: option.splits)

lemma optional_path_Inr:
  "optional_path path_ok f p = Inr r \<Longrightarrow>
     (r = None \<longleftrightarrow> p = [] \<or> p = ''/'') \<and> (\<forall>q. r = Some q \<longrightarrow> q = p \<and> path_ok q \<and> q \<noteq> [] \<and> q \<noteq> ''/'')"
  by (auto simp: optional_path_def split: if_splits)

lemma parse_station_object_path_Some:
  "parse_station_object_path path_ok f v = Inr (Some p) \<Longrightarrow> path_ok p \<and> p \<noteq> [] \<and> p \<noteq> ''/''"
  by (induction path_ok f v rule: parse_station_object_path.induct) (auto dest: optional_path_Inr)

lemma parse_optional_object_path_eq_station:
  "parse_optional_object_path path_ok v = parse_station_object_path path_ok ''KnownNetwork'' v"
  by (induction path_ok v rule: parse_optional_object_path.induct) simp_all

lemma collect_affinity_path: "collect (affinity_path path_ok) ps = Inr out \<Longrightarrow> out = ps \<and> list_all path_ok ps"
  by (induction ps arbitrary: out)
    (auto simp: affinity_path_def elim!: try_bind_InrE split: if_splits)

lemma collect_affinity_elem:
  "collect (affinity_elem path_ok) vs = Inr out \<Longrightarrow> vs = map VPath out \<and> list_all path_ok out"
  by (induction vs arbitrary: out)
    (auto simp: affinity_elem_def affinity_path_def elim!: try_bind_InrE split: if_splits dval.splits)

lemma parse_station_affinities_Some:
  "parse_station_affinities path_ok v = Inr (Some ps) \<Longrightarrow> list_all path_ok ps"
  by (induction path_ok v rule: parse_station_affinities.induct)
    (auto elim!: try_bind_InrE dest: collect_affinity_path collect_affinity_elem)

lemma parse_network_object_path_Inr:
  "parse_network_object_path path_ok f v = Inr p \<Longrightarrow> path_ok p \<and> (v = VPath p \<or> v = VStr p)"
  by (induction path_ok f v rule: parse_network_object_path.induct) (auto split: if_splits)

lemma parse_object_path_list_Inr:
  "parse_object_path_list path_ok v = Inr ps \<Longrightarrow> list_all path_ok ps"
  by (induction path_ok v rule: parse_object_path_list.induct)
    (auto simp: collect_Inr_iff list_all2_conv_all_nth list_all_length ess_path_def
      dest!: parse_network_object_path_Inr split: if_splits)

text \<open>Every failure of a parser is a variant error, which core reports as unavailable.\<close>

lemma expected_is [simp]: "errors_is (expected f w v) s \<longleftrightarrow> s = DBusS ErrDBusVariant"
  by (simp add: expected_def wrap_variant_def)

lemma invalid_object_path_is [simp]: "errors_is (invalid_object_path f p) s \<longleftrightarrow> s = DBusS ErrDBusVariant"
  by (simp add: invalid_object_path_def wrap_variant_def)

lemma optional_path_Inl: "optional_path path_ok f p = Inl e \<Longrightarrow> e = invalid_object_path f p"
  by (auto simp: optional_path_def split: if_splits)

lemma parse_station_object_path_Inl:
  "parse_station_object_path path_ok f v = Inl e \<Longrightarrow> errors_is e s \<longleftrightarrow> s = DBusS ErrDBusVariant"
  by (induction path_ok f v rule: parse_station_object_path.induct) (auto dest!: optional_path_Inl)

lemma parse_station_affinities_Inl:
  "parse_station_affinities path_ok v = Inl e \<Longrightarrow> errors_is e s \<longleftrightarrow> s = DBusS ErrDBusVariant"
  by (induction path_ok v rule: parse_station_affinities.induct)
    (auto simp: affinity_path_def affinity_elem_def elim!: try_bind_InlE dest!: collect_Inl
      split: if_splits dval.splits)

fun strip_variant :: "dval \<Rightarrow> dval" where
  "strip_variant (VVariant v) = strip_variant v"
| "strip_variant v = v"

lemma strip_variant_not_variant: "strip_variant v \<noteq> VVariant u"
  by (induction v rule: strip_variant.induct) auto

text \<open>
  A value read for an optional object-path property (a station's connected network or access
  point, a network's known-network record): the parser accepts nil, a path or a string, through
  any nesting of variants; the empty and the root path mean "no object", every other result is
  a path godbus accepts, and everything else is a variant error.
\<close>

lemma optional_object_path_parsed:
  "parse_station_object_path path_ok field v =
     (case strip_variant v of
        VNil \<Rightarrow> Inr None
      | VPath p \<Rightarrow> (if p \<in> {[], ''/''} then Inr None else if path_ok p then Inr (Some p)
                   else Inl (invalid_object_path field p))
      | VStr p \<Rightarrow> (if p \<in> {[], ''/''} then Inr None else if path_ok p then Inr (Some p)
                  else Inl (invalid_object_path field p))
      | u \<Rightarrow> Inl (expected field ''object path'' u))
   \<and> parse_optional_object_path path_ok v = parse_station_object_path path_ok ''KnownNetwork'' v"
  by (induction path_ok field v rule: parse_station_object_path.induct)
    (auto simp: optional_path_def parse_optional_object_path_eq_station)

end
