(* ===== verification/Bus.thy ===== *)
theory Bus
  imports Dbus_Values
begin

text \<open>
  The D-Bus connection and the introspected object every typed wrapper is built on:
  \<open>internal/iwdbus/introspect.go\<close> (the calls; signals are in the theories on the registry and
  the dispatcher), \<open>caller.go\<close>, and \<open>objecttree.go\<close>.

  godbus is not part of the repository. \<open>conn\<close> collects the operations of a \<open>*dbus.Conn\<close> the
  program performs, as functions that act on the world behind the bus; \<open>godbus\<close> collects the
  pure functions of the package (the object-path check and the decoders behind \<open>Store\<close>). Both
  are parameters of everything below.
\<close>

type_synonym properties = "(string \<times> dval) list"
type_synonym interfaces = "(string \<times> properties) list"
type_synonym managed_objects = "(string \<times> interfaces) list"

text \<open>
  \<open>conn_call\<close> takes the bus name, the object path, the full method name and the arguments and
  returns the reply's body; \<open>conn_introspect\<close> is \<open>introspect.Call\<close>, giving the names of the
  object's interfaces; \<open>conn_export\<close> exports a handler object (\<open>True\<close>) or removes it (\<open>False\<close>) at
  a path and interface; \<open>conn_signal\<close> and \<open>conn_remove_signal\<close> register and drop the channel on
  which an object hears signals.
\<close>

record 'w conn =
  conn_introspect :: "string \<Rightarrow> string \<Rightarrow> (raw_err, 'w, string list) go"
  conn_call :: "string \<Rightarrow> string \<Rightarrow> string \<Rightarrow> dval list \<Rightarrow> (raw_err, 'w, dval list) go"
  conn_export :: "bool \<Rightarrow> string \<Rightarrow> string \<Rightarrow> (raw_err, 'w, unit) go"
  conn_signal :: "string \<Rightarrow> 'w \<Rightarrow> 'w"
  conn_remove_signal :: "string \<Rightarrow> 'w \<Rightarrow> 'w"
  conn_close :: "(raw_err, 'w, unit) go"

text \<open>
  The decoders: a \<open>Variant\<close> (giving its value), an \<open>a{sv}\<close> map, the managed objects, the
  replies \<open>a(on)\<close>, \<open>a(sns)\<close>, \<open>aa{sv}\<close> and \<open>s\<close>. A signal strength is an \<open>int16\<close>, here an \<open>int\<close> no code
  computes with.
\<close>

record godbus =
  path_ok :: "string \<Rightarrow> bool"
  store_variant :: "dval list \<Rightarrow> raw_err + dval"
  store_props :: "dval list \<Rightarrow> raw_err + properties"
  store_objects :: "dval list \<Rightarrow> raw_err + managed_objects"
  store_networks :: "dval list \<Rightarrow> raw_err + (string \<times> int) list"
  store_hidden :: "dval list \<Rightarrow> raw_err + (string \<times> int \<times> string) list"
  store_dicts :: "dval list \<Rightarrow> raw_err + properties list"
  store_string :: "dval list \<Rightarrow> raw_err + string"

subsection \<open>The caller interface (caller.go) and the introspected object\<close>

text \<open>
  \<open>Call\<close> returns wrapped errors; the three property operations return the bus error as it is,
  because the typed caller wraps it.
\<close>

record 'w caller =
  c_call :: "string \<Rightarrow> string \<Rightarrow> dval list \<Rightarrow> (gerror, 'w, dval list) go"
  c_get_property :: "string \<Rightarrow> string \<Rightarrow> (raw_err, 'w, dval) go"
  c_get_all :: "string \<Rightarrow> (raw_err, 'w, properties) go"
  c_set_property :: "string \<Rightarrow> string \<Rightarrow> dval \<Rightarrow> (raw_err, 'w, unit) go"
  c_has_interface :: "string \<Rightarrow> bool"

record 'w introspected =
  io_conn :: "'w conn"
  io_bus_name :: string
  io_path :: string
  io_ifaces :: "string list"

definition new_introspected_object ::
    "'w conn \<Rightarrow> string \<Rightarrow> string \<Rightarrow> (gerror, 'w, 'w introspected) go" where
  "new_introspected_object conn bus_name path =
     go_bind (go_wrap (\<lambda>r. wrap_introspection path (Foreign r)) (conn_introspect conn bus_name path))
       (\<lambda>names w. (Inr \<lparr>io_conn = conn, io_bus_name = bus_name, io_path = path, io_ifaces = names\<rparr>,
                   conn_signal conn path w))"

text \<open>The bus effect of \<open>Close\<close>; its waiting and its flags are modelled with the dispatcher.\<close>

definition introspected_close :: "'w introspected \<Rightarrow> 'w \<Rightarrow> 'w" where
  "introspected_close i w = conn_remove_signal (io_conn i) (io_path i) w"

definition introspected_call ::
    "'w introspected \<Rightarrow> string \<Rightarrow> string \<Rightarrow> dval list \<Rightarrow> (gerror, 'w, dval list) go" where
  "introspected_call i iface method args =
     go_wrap (\<lambda>r. wrap_method iface method (Foreign r))
       (conn_call (io_conn i) (io_bus_name i) (io_path i) (iface @ ''.'' @ method) args)"

definition introspected_get_property ::
    "godbus \<Rightarrow> 'w introspected \<Rightarrow> string \<Rightarrow> string \<Rightarrow> (raw_err, 'w, dval) go" where
  "introspected_get_property g i iface prop =
     go_bind (conn_call (io_conn i) (io_bus_name i) (io_path i)
                ''org.freedesktop.DBus.Properties.Get'' [VStr iface, VStr prop])
       (\<lambda>body. go_lift (store_variant g body))"

definition introspected_get_all ::
    "godbus \<Rightarrow> 'w introspected \<Rightarrow> string \<Rightarrow> (raw_err, 'w, properties) go" where
  "introspected_get_all g i iface =
     go_bind (conn_call (io_conn i) (io_bus_name i) (io_path i)
                ''org.freedesktop.DBus.Properties.GetAll'' [VStr iface])
       (\<lambda>body. go_lift (store_props g body))"

definition introspected_set_property ::
    "'w introspected \<Rightarrow> string \<Rightarrow> string \<Rightarrow> dval \<Rightarrow> (raw_err, 'w, unit) go" where
  "introspected_set_property i iface prop val =
     go_bind (conn_call (io_conn i) (io_bus_name i) (io_path i)
                ''org.freedesktop.DBus.Properties.Set'' [VStr iface, VStr prop, VVariant val])
       (\<lambda>_. go_return ())"

definition introspected_has_interface :: "'w introspected \<Rightarrow> string \<Rightarrow> bool" where
  "introspected_has_interface i name \<longleftrightarrow> name \<in> set (io_ifaces i)"

text \<open>The conversion \<open>caller(intro)\<close>.\<close>

definition as_caller :: "godbus \<Rightarrow> 'w introspected \<Rightarrow> 'w caller" where
  "as_caller g i =
     \<lparr>c_call = introspected_call i,
      c_get_property = introspected_get_property g i,
      c_get_all = introspected_get_all g i,
      c_set_property = introspected_set_property i,
      c_has_interface = introspected_has_interface i\<rparr>"

lemmas introspected_defs =
  introspected_call_def introspected_get_property_def introspected_get_all_def
  introspected_set_property_def introspected_has_interface_def as_caller_def

text \<open>
  What a typed method relies on: a failing \<open>Call\<close> returns the bus's error wrapped as a method
  error of the called interface and method.
\<close>

locale method_caller =
  fixes call :: "string \<Rightarrow> string \<Rightarrow> dval list \<Rightarrow> (gerror, 'w, dval list) go"
  assumes call_error: "call i m args w = (Inl e, w') \<Longrightarrow> \<exists>r. e = wrap_method i m (Foreign r)"
begin

lemma typed_error:
  assumes "go_wrap (wrap_iwd_method i m) (call i m args) w = (Inl e, w')"
  shows "\<exists>r. e = wrap_iwd_method i m (wrap_method i m (Foreign r))"
  using assms by (auto elim!: go_wrap_InlE dest: call_error)

lemma surfaced:
  assumes "go_wrap (wrap_iwd_method i m) (call i m args) w = (Inl e, w')"
  shows "\<exists>r. wrap_public_error pop (wrap_unavailable op d e p) = surfaced_method_error i m op d p pop r"
  using typed_error [OF assms] by (auto simp: surfaced_method_error_def)

lemma always_unavailable:
  assumes "go_wrap (wrap_iwd_method i m) (call i m args) w = (Inl e, w')"
  shows "errors_is (wrap_public_error pop (wrap_unavailable op d e p)) ErrUnavailable"
  using surfaced [OF assms, of pop op d p] by (auto simp: surfaced_method_error_is)

end

interpretation io: method_caller "introspected_call i" for i :: "'w introspected"
  by unfold_locales (auto simp: introspected_call_def elim!: go_wrap_InlE)

lemma c_call_as_caller [simp]: "c_call (as_caller g i) = introspected_call i"
  by (simp add: as_caller_def)

lemma c_get_property_as_caller [simp]: "c_get_property (as_caller g i) = introspected_get_property g i"
  by (simp add: as_caller_def)

lemma c_get_all_as_caller [simp]: "c_get_all (as_caller g i) = introspected_get_all g i"
  by (simp add: as_caller_def)

lemma c_has_interface_as_caller [simp]: "c_has_interface (as_caller g i) = introspected_has_interface i"
  by (simp add: as_caller_def)

subsection \<open>Property reads shared by the typed wrappers\<close>

text \<open>
  \<open>ensureInitialized\<close>: a wrapper made by its constructor holds a caller, the zero value none.
  \<open>obj\<close> names the sentinel, \<open>label\<close> the Go type.
\<close>

definition ensure_initialized ::
    "string \<Rightarrow> iwdbus_object \<Rightarrow> 'w caller option \<Rightarrow> (gerror, 'w, 'w caller) go" where
  "ensure_initialized label obj c =
     (case c of
        None \<Rightarrow> go_fail (wrap_connection (label @ ''.ensureInitialized'') (Sentinel (UninitializedS obj)))
      | Some c \<Rightarrow> go_return c)"

definition read_property ::
    "'w caller \<Rightarrow> string \<Rightarrow> string \<Rightarrow> (gerror, 'w, dval) go" where
  "read_property c iface prop =
     go_wrap (\<lambda>r. wrap_property iface prop (Foreign r)) (c_get_property c iface prop)"

text \<open>An optional property: \<open>None\<close> when iwd says that it has no value.\<close>

definition read_optional_property ::
    "'w caller \<Rightarrow> string \<Rightarrow> string \<Rightarrow> (gerror, 'w, dval option) go" where
  "read_optional_property c iface prop = (\<lambda>w.
     case c_get_property c iface prop w of
       (Inl r, w') \<Rightarrow>
         if is_unknown_property_error r then (Inr None, w')
         else (Inl (wrap_property iface prop (Foreign r)), w')
     | (Inr v, w') \<Rightarrow> (Inr (Some v), w'))"

definition read_all ::
    "'w caller \<Rightarrow> string \<Rightarrow> (gerror, 'w, properties) go" where
  "read_all c iface = go_wrap (\<lambda>r. wrap_property iface ''GetAll'' (Foreign r)) (c_get_all c iface)"

text \<open>\<open>v, ok := raw[name]\<close> for a required property of a \<open>GetAll\<close> reply.\<close>

definition required :: "string \<Rightarrow> properties \<Rightarrow> string \<Rightarrow> gerror + dval" where
  "required iface raw name =
     (case map_of raw name of
        None \<Rightarrow> Inl (wrap_property iface name (Errorf ''missing required property'' [] []))
      | Some v \<Rightarrow> Inr v)"

lemma required_Inr_iff: "required iface raw name = Inr v \<longleftrightarrow> map_of raw name = Some v"
  by (auto simp: required_def split: option.splits)

lemma ensure_initialized_simps [simp, go_simps]:
  "ensure_initialized l ob (Some c) = go_return c"
  "ensure_initialized l ob None =
     go_fail (wrap_connection (l @ ''.ensureInitialized'') (Sentinel (UninitializedS ob)))"
  by (simp_all add: ensure_initialized_def)

text \<open>
  The typed constructors (\<open>NewStation\<close> and its kin) all introspect the object and refuse one
  that lacks their interface with a plain \<open>fmt.Errorf\<close>, closing what they opened.
\<close>

definition new_object ::
    "godbus \<Rightarrow> 'w conn \<Rightarrow> string \<Rightarrow> string \<Rightarrow> (gerror, 'w, 'w caller) go" where
  "new_object g conn iface path =
     go_bind (go_wrap (wrap_introspection path) (new_introspected_object conn IwdService path))
       (\<lambda>intro w.
          if \<not> introspected_has_interface intro iface
          then (Inl (Errorf ''object %s does not implement %s'' [path, iface] []),
                introspected_close intro w)
          else (Inr (as_caller g intro), w))"

lemma new_object_error:
  assumes "new_object g conn iface path w = (Inl e, w')"
  shows "(\<exists>r. e = wrap_introspection path (wrap_introspection path (Foreign r)))
       \<or> e = Errorf ''object %s does not implement %s'' [path, iface] []"
  using assms
  by (auto simp: new_object_def new_introspected_object_def split: if_splits
      elim!: go_bind_InlE go_wrap_InlE go_wrap_InrE)

subsection \<open>The object tree (objecttree.go)\<close>

definition IwdNetworkIface :: string where
  "IwdNetworkIface = IwdService @ ''.Network''"

definition IwdDeviceIface :: string where
  "IwdDeviceIface = IwdService @ ''.Device''"

definition IwdAdapterIface :: string where
  "IwdAdapterIface = IwdService @ ''.Adapter''"

definition IwdKnownNetworkIface :: string where
  "IwdKnownNetworkIface = IwdService @ ''.KnownNetwork''"

definition IwdBasicServiceSetIface :: string where
  "IwdBasicServiceSetIface = IwdService @ ''.BasicServiceSet''"

definition IwdStationIface :: string where
  "IwdStationIface = IwdService @ ''.Station''"

definition IwdAccessPointIface :: string where
  "IwdAccessPointIface = IwdService @ ''.AccessPoint''"

definition IwdDaemonIface :: string where
  "IwdDaemonIface = IwdService @ ''.Daemon''"

definition IwdDaemonPath :: string where
  "IwdDaemonPath = ''/net/connman/iwd''"

definition DBusObjectManagerGetManagedObjects :: string where
  "DBusObjectManagerGetManagedObjects = ''org.freedesktop.DBus.ObjectManager.GetManagedObjects''"

text \<open>\<open>getManagedObjects\<close>; a nil connection is \<open>None\<close>.\<close>

definition get_managed_objects ::
    "godbus \<Rightarrow> 'w conn option \<Rightarrow> string \<Rightarrow> (gerror, 'w, managed_objects) go" where
  "get_managed_objects g conn service =
     (case conn of
        None \<Rightarrow> go_fail (Errorf ''nil dbus conn'' [] [])
      | Some c \<Rightarrow>
          go_wrap Foreign
            (go_bind (conn_call c service ''/'' DBusObjectManagerGetManagedObjects [])
              (\<lambda>body. go_lift (store_objects g body))))"

definition fetch_object_tree ::
    "godbus \<Rightarrow> 'w conn option \<Rightarrow> (gerror, 'w, managed_objects) go" where
  "fetch_object_tree g conn =
     go_wrap (wrap_introspection DBusObjectManagerGetManagedObjects)
       (get_managed_objects g conn IwdService)"

text \<open>A nil \<open>*ObjectTree\<close> is \<open>None\<close>.\<close>

definition string_prop :: "managed_objects option \<Rightarrow> string \<Rightarrow> string \<Rightarrow> string \<Rightarrow> string option" where
  "string_prop t path iface prop =
     (case t of None \<Rightarrow> None
      | Some objects \<Rightarrow>
          (case map_of objects path of None \<Rightarrow> None
           | Some ifaces \<Rightarrow>
               (case map_of ifaces iface of None \<Rightarrow> None
                | Some props \<Rightarrow>
                    (case map_of props prop of None \<Rightarrow> None | Some v \<Rightarrow> as_string v))))"

definition network_name :: "managed_objects option \<Rightarrow> string \<Rightarrow> string option" where
  "network_name t path = string_prop t path IwdNetworkIface ''Name''"

definition device_name :: "managed_objects option \<Rightarrow> string \<Rightarrow> string option" where
  "device_name t path = string_prop t path IwdDeviceIface ''Name''"

definition adapter_name :: "managed_objects option \<Rightarrow> string \<Rightarrow> string option" where
  "adapter_name t path = string_prop t path IwdAdapterIface ''Name''"

definition known_network_name :: "managed_objects option \<Rightarrow> string \<Rightarrow> string option" where
  "known_network_name t path = string_prop t path IwdKnownNetworkIface ''Name''"

definition bss_address :: "managed_objects option \<Rightarrow> string \<Rightarrow> string option" where
  "bss_address t path = string_prop t path IwdBasicServiceSetIface ''Address''"

lemma string_prop_Some_iff:
  "string_prop t path iface prop = Some s \<longleftrightarrow>
     (\<exists>objects ifaces props. t = Some objects \<and> map_of objects path = Some ifaces
        \<and> map_of ifaces iface = Some props \<and> map_of props prop = Some (VStr s))"
  by (auto simp: string_prop_def split: option.splits)

end
