(* ===== verification/Signals.thy ===== *)
theory Signals
  imports Bus "HOL-Library.Multiset"
begin

text \<open>
  The signal-handler registry of an introspected object (\<open>internal/iwdbus/introspect.go\<close>:
  \<open>RegisterSignalHandlerWithUnsubscribe\<close>, the unsubscribe closure, \<open>resolveHandlers\<close>; and
  \<open>splitSignalName\<close> of \<open>utils.go\<close>). A handler is any value of type \<open>'h\<close>. The two Go maps
  are maps from the key to the handlers stored under it, in registration order; \<open>fired\<close> holds
  the ids whose unsubscribe closure has run (its \<open>sync.Once\<close>). Handler ids come from a 64-bit
  atomic counter, here a \<open>nat\<close>: no run registers \<open>2 ^ 64\<close> handlers.
\<close>

record signal =
  sig_path :: string
  sig_name :: string
  sig_body :: "dval list"

subsection \<open>Signal names\<close>

text \<open>\<open>strings.Split(name, ".")\<close> and \<open>strings.Join\<close>.\<close>

fun split_dot :: "string \<Rightarrow> string list" where
  "split_dot [] = [[]]"
| "split_dot (c # s) =
     (if c = CHR ''.'' then [] # split_dot s
      else (case split_dot s of [] \<Rightarrow> [[c]] | p # ps \<Rightarrow> (c # p) # ps))"

fun join_dot :: "string list \<Rightarrow> string" where
  "join_dot [] = []"
| "join_dot [p] = p"
| "join_dot (p # q # ps) = p @ ''.'' @ join_dot (q # ps)"

definition split_signal_name :: "string \<Rightarrow> string \<times> string" where
  "split_signal_name name =
     (let parts = split_dot name in
      if length parts < 2 then (name, '''') else (join_dot (butlast parts), last parts))"

subsection \<open>The registry\<close>

datatype bucket = Exact | Wildcard

record 'h registry =
  handlersExact :: "string \<rightharpoonup> (nat \<times> 'h) list"
  handlersWildcard :: "string \<rightharpoonup> (nat \<times> 'h) list"
  nextHandlerID :: nat
  fired :: "nat list"

definition empty_registry :: "'h registry" where
  "empty_registry =
     \<lparr>handlersExact = Map.empty, handlersWildcard = Map.empty, nextHandlerID = 0, fired = []\<rparr>"

definition bucket_map :: "bucket \<Rightarrow> 'h registry \<Rightarrow> string \<rightharpoonup> (nat \<times> 'h) list" where
  "bucket_map b r = (case b of Exact \<Rightarrow> handlersExact r | Wildcard \<Rightarrow> handlersWildcard r)"

definition set_bucket ::
    "bucket \<Rightarrow> (string \<rightharpoonup> (nat \<times> 'h) list) \<Rightarrow> 'h registry \<Rightarrow> 'h registry" where
  "set_bucket b m r =
     (case b of Exact \<Rightarrow> r\<lparr>handlersExact := m\<rparr> | Wildcard \<Rightarrow> r\<lparr>handlersWildcard := m\<rparr>)"

text \<open>Indexing a Go map with a missing key gives the nil slice.\<close>

definition slot :: "bucket \<Rightarrow> string \<Rightarrow> 'h registry \<Rightarrow> (nat \<times> 'h) list" where
  "slot b k r = (case bucket_map b r k of None \<Rightarrow> [] | Some hs \<Rightarrow> hs)"

text \<open>The four-way switch: which map, and under which key, a handler is stored.\<close>

definition handler_key :: "string \<Rightarrow> string \<Rightarrow> bucket \<times> string" where
  "handler_key iface member =
     (if iface = ''*'' \<and> member = ''*'' then (Wildcard, ''*'')
      else if iface = ''*'' then (Wildcard, member)
      else if member = ''*'' then (Wildcard, iface @ ''.*'')
      else (Exact, iface @ ''.'' @ member))"

text \<open>What an unsubscribe closure captures.\<close>

record subscription =
  sub_bucket :: bucket
  sub_key :: string
  sub_id :: nat

text \<open>Registration up to the point where the handler is stored; \<open>None\<close> is a nil handler.\<close>

definition store_handler :: "string \<Rightarrow> string \<Rightarrow> 'h \<Rightarrow> 'h registry \<Rightarrow> subscription \<times> 'h registry" where
  "store_handler iface member h r =
     (let id = nextHandlerID r + 1;
          (b, key) = handler_key iface member
      in (\<lparr>sub_bucket = b, sub_key = key, sub_id = id\<rparr>,
          (set_bucket b ((bucket_map b r)(key \<mapsto> slot b key r @ [(id, h)])) r)\<lparr>nextHandlerID := id\<rparr>))"

text \<open>The removal loop: drop the first entry with the id.\<close>

fun remove_id :: "nat \<Rightarrow> (nat \<times> 'h) list \<Rightarrow> (nat \<times> 'h) list" where
  "remove_id i [] = []"
| "remove_id i ((j, h) # hs) = (if j = i then hs else (j, h) # remove_id i hs)"

definition unsubscribe :: "subscription \<Rightarrow> 'h registry \<Rightarrow> 'h registry" where
  "unsubscribe t r =
     (if sub_id t \<in> set (fired r) then r
      else
        (let b = sub_bucket t;
             hs = remove_id (sub_id t) (slot b (sub_key t) r);
             m = bucket_map b r;
             m' = (if hs = [] then m(sub_key t := None) else m(sub_key t \<mapsto> hs))
         in (set_bucket b m' r)\<lparr>fired := sub_id t # fired r\<rparr>))"

text \<open>
  The whole of \<open>RegisterSignalHandlerWithUnsubscribe\<close>, over the pair of the
  registry and the world: the argument checks, storing the handler, then \<open>AddMatch\<close> (the
  parameter \<open>add_match\<close>, given the match rule), undone when it fails; an object without a
  connection (\<open>None\<close>) only stores the handler.
\<close>

definition match_parts :: "string \<Rightarrow> string \<Rightarrow> string \<times> string" where
  "match_parts iface member =
     (if iface = ''*'' \<and> member = ''*'' then ('''', '''')
      else if iface = ''*'' then ('''', member)
      else if member = ''*'' then (iface, '''')
      else (iface, member))"

definition quoted :: "string \<Rightarrow> string" where
  "quoted s = [CHR 0x27] @ s @ [CHR 0x27]"

definition match_rule :: "string \<Rightarrow> string \<Rightarrow> string \<Rightarrow> string" where
  "match_rule path iface member =
     (case match_parts iface member of
        (mi, mm) \<Rightarrow>
          ''type='' @ quoted ''signal'' @ '',path='' @ quoted path
          @ (if mi \<noteq> '''' then '',interface='' @ quoted mi else '''')
          @ (if mm \<noteq> '''' then '',member='' @ quoted mm else ''''))"

definition register_signal_handler ::
    "(string \<Rightarrow> (raw_err, 'w, unit) go) option \<Rightarrow> string \<Rightarrow> string \<Rightarrow> string \<Rightarrow> 'h option
      \<Rightarrow> (gerror, 'h registry \<times> 'w, subscription) go" where
  "register_signal_handler add_match path iface member handler = (\<lambda>(r, w).
     case handler of
       None \<Rightarrow> (Inl (Errorf ''RegisterSignalHandler: handler cannot be nil'' [] []), (r, w))
     | Some h \<Rightarrow>
         if member = '''' then (Inl (Errorf ''RegisterSignalHandler: member cannot be empty'' [] []), (r, w))
         else
           (case store_handler iface member h r of
              (t, r') \<Rightarrow>
                (case add_match of
                   None \<Rightarrow> (Inr t, (r', w))
                 | Some add \<Rightarrow>
                     (case add (match_rule path iface member) w of
                        (Inl e, w') \<Rightarrow>
                          (Inl (wrap_method ''org.freedesktop.DBus'' ''AddMatch'' (Foreign e)),
                           (unsubscribe t r', w'))
                      | (Inr _, w') \<Rightarrow> (Inr t, (r', w'))))))"

definition resolve_handlers :: "signal \<Rightarrow> 'h registry \<Rightarrow> 'h list" where
  "resolve_handlers sig r =
     (case split_signal_name (sig_name sig) of
        (iface, member) \<Rightarrow>
          map snd (slot Exact (iface @ ''.'' @ member) r) @ map snd (slot Wildcard member r)
          @ map snd (slot Wildcard (iface @ ''.*'') r) @ map snd (slot Wildcard ''*'' r))"

lemmas registry_defs =
  bucket_map_def set_bucket_def slot_def store_handler_def unsubscribe_def

subsection \<open>Splitting a signal name\<close>

lemma split_dot_nonempty [simp]: "split_dot s \<noteq> []"
  by (cases s) (auto split: list.splits)

lemma join_split_dot: "join_dot (split_dot s) = s"
proof (induction s)
  case (Cons c s)
  obtain p ps where "split_dot s = p # ps" by (cases "split_dot s") simp_all
  with Cons show ?case by (cases ps) auto
qed simp

lemma split_dot_no_dot: "CHR ''.'' \<notin> set s \<Longrightarrow> split_dot s = [s]"
  by (induction s) auto

lemma split_dot_append: "split_dot (s @ CHR ''.'' # t) = split_dot s @ split_dot t"
proof (induction s)
  case (Cons c s)
  then show ?case by (cases "split_dot s") auto
qed simp

lemma split_signal_name_member:
  assumes "CHR ''.'' \<notin> set m"
  shows "split_signal_name (i @ ''.'' @ m) = (i, m)"
proof -
  have "split_dot (i @ ''.'' @ m) = split_dot i @ [m]"
    using split_dot_append [of i m] split_dot_no_dot [OF assms] by simp
  moreover have "length (split_dot i) > 0" by simp
  ultimately show ?thesis
    by (simp add: split_signal_name_def join_split_dot)
qed

subsection \<open>The abstract registry: a list of live subscriptions\<close>

type_synonym 'h live = "(nat \<times> string \<times> string \<times> 'h) list"

definition select :: "'h live \<Rightarrow> bucket \<times> string \<Rightarrow> (nat \<times> 'h) list" where
  "select subs bk =
     map (\<lambda>(i, f, m, h). (i, h)) (filter (\<lambda>(i, f, m, h). handler_key f m = bk) subs)"

text \<open>
  \<open>represents r subs\<close>: the two maps hold exactly the live subscriptions, each under its key and
  in registration order, with no empty slice left behind; ids are distinct and handed out.
\<close>

definition represents :: "'h registry \<Rightarrow> 'h live \<Rightarrow> bool" where
  "represents r subs \<longleftrightarrow>
     distinct (map fst subs) \<and> (\<forall>s \<in> set subs. fst s \<le> nextHandlerID r)
     \<and> (\<forall>b k. bucket_map b r k = (if select subs (b, k) = [] then None else Some (select subs (b, k))))
     \<and> (\<forall>i \<in> set (fired r). i \<le> nextHandlerID r \<and> i \<notin> fst ` set subs)"

definition well_named :: "'h live \<Rightarrow> bool" where
  "well_named subs \<longleftrightarrow> (\<forall>(i, f, m, h) \<in> set subs. CHR ''.'' \<notin> set m)"

definition matches :: "string \<Rightarrow> string \<Rightarrow> string \<Rightarrow> string \<Rightarrow> bool" where
  "matches f m iface member \<longleftrightarrow> (f = ''*'' \<or> f = iface) \<and> (m = ''*'' \<or> m = member)"

lemma represents_distinct: "represents r subs \<Longrightarrow> distinct (map fst subs)"
  unfolding represents_def by blast

lemma represents_ids: "represents r subs \<Longrightarrow> \<forall>s \<in> set subs. fst s \<le> nextHandlerID r"
  unfolding represents_def by blast

lemma represents_maps:
  "represents r subs \<Longrightarrow>
     bucket_map b r k = (if select subs (b, k) = [] then None else Some (select subs (b, k)))"
  unfolding represents_def by blast

lemma represents_fired:
  "represents r subs \<Longrightarrow> \<forall>i \<in> set (fired r). i \<le> nextHandlerID r \<and> i \<notin> fst ` set subs"
  unfolding represents_def by blast

lemmas represents_facts = represents_distinct represents_ids represents_maps represents_fired

lemma select_append [simp]: "select (xs @ ys) bk = select xs bk @ select ys bk"
  by (simp add: select_def)

lemma select_single [simp]: "select [(i, f, m, h)] bk = (if handler_key f m = bk then [(i, h)] else [])"
  by (simp add: select_def)

lemma slot_represents: "represents r subs \<Longrightarrow> slot b k r = select subs (b, k)"
  by (simp add: represents_def slot_def)

lemma bucket_map_set_bucket [simp]:
  "bucket_map b (set_bucket b' m r) = (if b = b' then m else bucket_map b r)"
  by (cases b; cases b') (simp_all add: bucket_map_def set_bucket_def)

lemma bucket_map_update [simp]:
  "bucket_map b (r\<lparr>nextHandlerID := n\<rparr>) = bucket_map b r"
  "bucket_map b (r\<lparr>fired := xs\<rparr>) = bucket_map b r"
  by (cases b; simp add: bucket_map_def)+

lemma set_bucket_fields [simp]:
  "nextHandlerID (set_bucket b m r) = nextHandlerID r"
  "fired (set_bucket b m r) = fired r"
  by (cases b; simp add: set_bucket_def)+

lemma represents_empty: "represents empty_registry []"
  by (auto simp: represents_def empty_registry_def select_def bucket_map_def split: bucket.splits)

lemma represents_store:
  assumes "represents r subs" and "store_handler f m h r = (t, r')"
  shows "represents r' (subs @ [(sub_id t, f, m, h)])"
    and "handler_key f m = (sub_bucket t, sub_key t)"
    and "sub_id t \<notin> fst ` set subs" and "sub_id t \<notin> set (fired r')"
proof -
  obtain b k where bk: "handler_key f m = (b, k)" by (cases "handler_key f m")
  have t: "t = \<lparr>sub_bucket = b, sub_key = k, sub_id = nextHandlerID r + 1\<rparr>"
    and r': "r' = (set_bucket b ((bucket_map b r)(k \<mapsto> slot b k r @ [(nextHandlerID r + 1, h)])) r)
                    \<lparr>nextHandlerID := nextHandlerID r + 1\<rparr>"
    using assms(2) bk by (auto simp: store_handler_def)
  show "handler_key f m = (sub_bucket t, sub_key t)" by (simp add: t bk)
  show "sub_id t \<notin> fst ` set subs" and "sub_id t \<notin> set (fired r')"
    using assms(1) by (force simp: represents_def t r')+
  moreover have "bucket_map b' r' k' =
      (if (b', k') = (b, k) then Some (select subs (b, k) @ [(sub_id t, h)]) else bucket_map b' r k')" for b' k'
    by (simp add: r' t slot_represents [OF assms(1)])
  moreover note represents_facts [OF assms(1)]
  moreover have "nextHandlerID r' = sub_id t" "fired r' = fired r" "sub_id t = Suc (nextHandlerID r)"
    by (simp_all add: r' t)
  ultimately show "represents r' (subs @ [(sub_id t, f, m, h)])"
    unfolding represents_def by (auto simp: bk dest: le_SucI)
qed

lemma remove_id_filter: "distinct (map fst hs) \<Longrightarrow> remove_id i hs = filter (\<lambda>x. fst x \<noteq> i) hs"
proof (induction hs)
  case (Cons x hs)
  obtain j h where x: "x = (j, h)" by (cases x)
  show ?case
  proof (cases "j = i")
    case True
    have "filter (\<lambda>x. fst x \<noteq> i) hs = hs"
      using Cons.prems True x by (intro filter_True) force
    with True x show ?thesis by simp
  next
    case False
    with Cons x show ?thesis by simp
  qed
qed simp

lemma map_fst_select: "map fst (select subs bk) = map fst (filter (\<lambda>(i, f, m, h). handler_key f m = bk) subs)"
  by (simp add: select_def comp_def case_prod_beta)

lemma distinct_select: "distinct (map fst subs) \<Longrightarrow> distinct (map fst (select subs bk))"
  by (simp add: map_fst_select distinct_map_filter)

lemma select_filter:
  "select (filter (\<lambda>s. fst s \<noteq> i) subs) bk = filter (\<lambda>x. fst x \<noteq> i) (select subs bk)"
  by (induction subs) (auto simp: select_def)

lemma represents_unsubscribe:
  assumes rep: "represents r subs" and mem: "(sub_id t, f, m, h) \<in> set subs"
    and key: "handler_key f m = (sub_bucket t, sub_key t)"
  shows "represents (unsubscribe t r) (filter (\<lambda>s. fst s \<noteq> sub_id t) subs)"
proof -
  let ?i = "sub_id t" and ?subs = "filter (\<lambda>s. fst s \<noteq> sub_id t) subs"
  have live: "?i \<notin> set (fired r)" and dist: "distinct (map fst subs)"
    using rep mem by (force simp: represents_def)+
  have rm: "remove_id ?i (select subs bk) = select ?subs bk" for bk
    by (simp add: remove_id_filter distinct_select [OF dist] select_filter)
  have other: "select ?subs bk = select subs bk" if bk: "bk \<noteq> (sub_bucket t, sub_key t)" for bk
  proof -
    have "fst x \<noteq> ?i" if x: "x \<in> set (select subs bk)" for x
    proof
      assume "fst x = ?i"
      with x obtain f' m' h' where s: "(?i, f', m', h') \<in> set subs" "handler_key f' m' = bk"
        by (auto simp: select_def)
      with dist mem have "f' = f \<and> m' = m"
        by (metis Pair_inject eq_key_imp_eq_value)
      with key s(2) bk show False by simp
    qed
    then show ?thesis by (simp add: select_filter filter_True)
  qed
  have "bucket_map b (unsubscribe t r) k =
          (if select ?subs (b, k) = [] then None else Some (select ?subs (b, k)))" for b k
  proof (cases "(b, k) = (sub_bucket t, sub_key t)")
    case True
    then show ?thesis
      by (auto simp: unsubscribe_def live Let_def slot_represents [OF rep] rm)
  next
    case False
    then have "bucket_map b (unsubscribe t r) k = bucket_map b r k"
      by (auto simp: unsubscribe_def live Let_def)
    with rep other [OF False] show ?thesis by (simp add: represents_def)
  qed
  moreover have "nextHandlerID (unsubscribe t r) = nextHandlerID r" "fired (unsubscribe t r) = ?i # fired r"
    by (simp_all add: unsubscribe_def live Let_def)
  moreover have "?i \<le> nextHandlerID r" using represents_ids [OF rep] mem by force
  ultimately show ?thesis
    using represents_ids [OF rep] represents_fired [OF rep] dist
    unfolding represents_def by (auto simp: distinct_map_filter)
qed

subsection \<open>Resolution finds the matching subscriptions\<close>

lemma handler_key_matches:
  assumes "CHR ''.'' \<notin> set m" and "CHR ''.'' \<notin> set sm" and "sm \<noteq> ''*''"
  shows "matches f m si sm \<longleftrightarrow>
    handler_key f m \<in> {(Exact, si @ ''.'' @ sm), (Wildcard, sm), (Wildcard, si @ ''.*''), (Wildcard, ''*'')}"
proof -
  have "f @ ''.'' @ m = si @ ''.'' @ sm \<longleftrightarrow> f = si \<and> m = sm"
  proof
    assume "f @ ''.'' @ m = si @ ''.'' @ sm"
    then have "split_signal_name (f @ ''.'' @ m) = split_signal_name (si @ ''.'' @ sm)" by (rule arg_cong)
    then show "f = si \<and> m = sm"
      by (simp only: split_signal_name_member [OF assms(1)] split_signal_name_member [OF assms(2)] prod.inject)
  qed simp
  moreover have "f @ ''.*'' \<noteq> sm" using assms(2) by force
  moreover have "m \<noteq> si @ ''.*''" using assms(1) by force
  ultimately show ?thesis
    using assms(3) by (auto simp: matches_def handler_key_def)
qed

definition live_handlers :: "string \<Rightarrow> string \<Rightarrow> 'h live \<Rightarrow> 'h list" where
  "live_handlers si sm subs = map (\<lambda>(i, f, m, h). h) (filter (\<lambda>(i, f, m, h). matches f m si sm) subs)"

lemma resolve_handlers_mset:
  assumes rep: "represents r subs" and wn: "well_named subs"
    and name: "sig_name sig = si @ ''.'' @ sm" and sm: "CHR ''.'' \<notin> set sm" "sm \<noteq> ''*''"
  shows "mset (resolve_handlers sig r) = mset (live_handlers si sm subs)"
proof -
  have d: "si @ ''.*'' \<noteq> sm" "''*'' \<noteq> si @ ''.*''" using sm by auto
  have "mset (map snd (select subs (Exact, si @ ''.'' @ sm))) + mset (map snd (select subs (Wildcard, sm)))
        + mset (map snd (select subs (Wildcard, si @ ''.*''))) + mset (map snd (select subs (Wildcard, ''*'')))
        = mset (live_handlers si sm subs)"
    using wn
  proof (induction subs)
    case Nil
    then show ?case by (simp add: select_def live_handlers_def)
  next
    case (Cons s subs)
    obtain i f m h where s: "s = (i, f, m, h)" by (cases s)
    with Cons.prems have m: "CHR ''.'' \<notin> set m" and wn: "well_named subs"
      by (auto simp: well_named_def)
    show ?case
      using Cons.IH [OF wn] handler_key_matches [OF m sm, of f si] d sm(2)
      by (auto simp: s select_def live_handlers_def)
  qed
  then show ?thesis
    by (simp add: resolve_handlers_def name split_signal_name_member [OF sm(1), simplified]
        slot_represents [OF rep] add.assoc)
qed

subsection \<open>The contract the typed wrappers use\<close>

text \<open>
  A source of signals, as \<open>signalSource\<close> in \<open>caller.go\<close> offers it: registering adds one handler for
  the signals that match, and the returned subscription takes exactly that handler away again.
\<close>

locale signal_source =
  fixes register :: "string \<Rightarrow> string \<Rightarrow> 'h \<Rightarrow> 's \<Rightarrow> 't \<times> 's"
    and unsub :: "'t \<Rightarrow> 's \<Rightarrow> 's"
    and handlers_for :: "string \<Rightarrow> string \<Rightarrow> 's \<Rightarrow> 'h list"
    and inv :: "'s \<Rightarrow> bool"
  assumes register_inv: "inv s \<Longrightarrow> CHR ''.'' \<notin> set m \<Longrightarrow> inv (snd (register f m h s))"
    and register_handlers:
      "inv s \<Longrightarrow> CHR ''.'' \<notin> set m \<Longrightarrow> CHR ''.'' \<notin> set sm \<Longrightarrow> sm \<noteq> ''*'' \<Longrightarrow>
         mset (handlers_for si sm (snd (register f m h s))) =
           mset (handlers_for si sm s) + (if matches f m si sm then {#h#} else {#})"
    and unsub_handlers:
      "inv s \<Longrightarrow> CHR ''.'' \<notin> set m \<Longrightarrow> CHR ''.'' \<notin> set sm \<Longrightarrow> sm \<noteq> ''*'' \<Longrightarrow>
         mset (handlers_for si sm (unsub (fst (register f m h s)) (snd (register f m h s)))) =
           mset (handlers_for si sm s)"
begin

lemma registered_is_called:
  assumes "inv s" and "CHR ''.'' \<notin> set m" and "CHR ''.'' \<notin> set sm" and "sm \<noteq> ''*''" and "matches f m si sm"
  shows "h \<in> set (handlers_for si sm (snd (register f m h s)))"
proof -
  have "h \<in># mset (handlers_for si sm (snd (register f m h s)))"
    using register_handlers [OF assms(1-4), of si f h] assms(5) by simp
  then show ?thesis by simp
qed

lemma others_undisturbed:
  assumes "inv s" and "CHR ''.'' \<notin> set m" and "CHR ''.'' \<notin> set sm" and "sm \<noteq> ''*''" and "\<not> matches f m si sm"
  shows "mset (handlers_for si sm (snd (register f m h s))) = mset (handlers_for si sm s)"
  using register_handlers [OF assms(1-4), of si f h] assms(5) by simp

lemma register_count:
  assumes "inv s" and "CHR ''.'' \<notin> set m" and "CHR ''.'' \<notin> set sm" and "sm \<noteq> ''*''"
  shows "length (handlers_for si sm (snd (register f m h s))) =
           length (handlers_for si sm s) + (if matches f m si sm then 1 else 0)"
  using arg_cong [OF register_handlers [OF assms, of si f h], of size] by (simp split: if_splits)

end

text \<open>The states a registry goes through, with the subscriptions that are live in each.\<close>

inductive registry_run :: "'h registry \<Rightarrow> 'h live \<Rightarrow> bool" where
  start: "registry_run empty_registry []"
| store: "registry_run r subs \<Longrightarrow> CHR ''.'' \<notin> set m \<Longrightarrow> store_handler f m h r = (t, r') \<Longrightarrow>
     registry_run r' (subs @ [(sub_id t, f, m, h)])"
| drop_live: "registry_run r subs \<Longrightarrow> (sub_id t, f, m, h) \<in> set subs \<Longrightarrow>
     handler_key f m = (sub_bucket t, sub_key t) \<Longrightarrow>
     registry_run (unsubscribe t r) (filter (\<lambda>s. fst s \<noteq> sub_id t) subs)"
| drop_again: "registry_run r subs \<Longrightarrow> sub_id t \<in> set (fired r) \<Longrightarrow>
     registry_run (unsubscribe t r) subs"

lemma registry_run_represents: "registry_run r subs \<Longrightarrow> represents r subs \<and> well_named subs"
proof (induction rule: registry_run.induct)
  case start
  show ?case by (simp add: represents_empty well_named_def)
next
  case (store r subs m f h t r')
  then show ?case
    using represents_store(1) [of r subs f m h t r'] by (auto simp: well_named_def)
next
  case (drop_live r subs t f m h)
  then show ?case
    using represents_unsubscribe [of r subs t f m h] by (auto simp: well_named_def)
next
  case (drop_again r subs t)
  then show ?case by (simp add: unsubscribe_def)
qed

lemma run_store: "registry_run r subs \<Longrightarrow> CHR ''.'' \<notin> set m \<Longrightarrow>
    registry_run (snd (store_handler f m h r)) (subs @ [(sub_id (fst (store_handler f m h r)), f, m, h)])"
  by (rule registry_run.store) (auto simp: prod_eq_iff)

lemma run_store_unsubscribe:
  assumes "registry_run r subs" and "CHR ''.'' \<notin> set m"
  shows "registry_run (unsubscribe (fst (store_handler f m h r)) (snd (store_handler f m h r))) subs"
proof -
  obtain t r' where st: "store_handler f m h r = (t, r')" by (cases "store_handler f m h r")
  have rep: "represents r subs" using registry_run_represents [OF assms(1)] by blast
  have "registry_run (unsubscribe t r') (filter (\<lambda>s. fst s \<noteq> sub_id t) (subs @ [(sub_id t, f, m, h)]))"
    by (rule registry_run.drop_live [OF registry_run.store [OF assms st] _ represents_store(2) [OF rep st],
          where h = h]) simp
  moreover have "filter (\<lambda>s. fst s \<noteq> sub_id t) subs = subs"
    using represents_store(3) [OF rep st] by (intro filter_True) force
  ultimately show ?thesis by (simp add: st)
qed

definition handlers_for :: "string \<Rightarrow> string \<Rightarrow> 'h registry \<Rightarrow> 'h list" where
  "handlers_for si sm r =
     resolve_handlers \<lparr>sig_path = ''/'', sig_name = si @ ''.'' @ sm, sig_body = []\<rparr> r"

lemma registry_run_resolve:
  assumes "registry_run r subs" and "sig_name sig = si @ ''.'' @ sm"
    and "CHR ''.'' \<notin> set sm" and "sm \<noteq> ''*''"
  shows "mset (resolve_handlers sig r) = mset (live_handlers si sm subs)"
  using registry_run_represents [OF assms(1)] assms(2-4) by (intro resolve_handlers_mset) auto

lemma live_handlers_append:
  "live_handlers si sm (subs @ [(i, f, m, h)]) =
     live_handlers si sm subs @ (if matches f m si sm then [h] else [])"
  by (simp add: live_handlers_def)

interpretation reg: signal_source store_handler unsubscribe handlers_for "\<lambda>r. \<exists>subs. registry_run r subs"
proof (unfold_locales, goal_cases)
  case (1 r m f h)
  then show ?case using run_store [of r _ m f h] by blast
next
  case (2 r m sm si f h)
  then obtain subs where "registry_run r subs" by blast
  then show ?case
    using registry_run_resolve [OF run_store [OF _ 2(2)], of r subs _ si sm f h]
      registry_run_resolve [of r subs _ si sm] 2(3,4)
    by (simp add: handlers_for_def live_handlers_append)
next
  case (3 r m sm si f h)
  then obtain subs where "registry_run r subs" by blast
  then show ?case
    using registry_run_resolve [OF run_store_unsubscribe [OF _ 3(2)], of r subs _ si sm f h]
      registry_run_resolve [of r subs _ si sm] 3(3,4)
    by (simp add: handlers_for_def)
qed

subsection \<open>Properties\<close>

text \<open>
  C5: After any history of registrations and unsubscriptions, the handlers resolved for a
  signal are exactly those of the live subscriptions that match it: a subscription with
  interface \<open>f\<close> and member \<open>m\<close> matches when each of the two is \<open>*\<close> or equal to the signal's. None is
  called twice, none is missed and none that was unsubscribed is called.
\<close>

theorem resolve_exactly_the_matching_subscriptions:
  assumes "registry_run r subs"
    and "sig_name sig = si @ ''.'' @ sm" and "CHR ''.'' \<notin> set sm" and "sm \<noteq> ''*''"
  shows "mset (resolve_handlers sig r) =
           mset (map (\<lambda>(i, f, m, h). h) (filter (\<lambda>(i, f, m, h). matches f m si sm) subs))"
  using registry_run_resolve [OF assms] by (simp add: live_handlers_def)

text \<open>
  Unsubscribing undoes its registration and nothing else, whatever the handlers around it,
  and a second call of the same closure does nothing.
\<close>

theorem unsubscribe_undoes_registration:
  assumes "registry_run r subs" and "CHR ''.'' \<notin> set m" and "store_handler f m h r = (t, r')"
    and "sig_name sig = si @ ''.'' @ sm" and "CHR ''.'' \<notin> set sm" and "sm \<noteq> ''*''"
  shows "mset (resolve_handlers sig (unsubscribe t r')) = mset (resolve_handlers sig r)
       \<and> unsubscribe t (unsubscribe t r') = unsubscribe t r'"
proof -
  have rep: "represents r subs" using registry_run_represents [OF assms(1)] by blast
  have "sub_id t \<in> set (fired (unsubscribe t r'))"
    using represents_store(4) [OF rep assms(3)] by (simp add: unsubscribe_def Let_def)
  then have "unsubscribe t (unsubscribe t r') = unsubscribe t r'"
    by (simp add: unsubscribe_def [of t "unsubscribe t r'"])
  moreover have "registry_run (unsubscribe t r') subs"
    using run_store_unsubscribe [OF assms(1,2), of f h] by (simp add: assms(3))
  ultimately show ?thesis
    using registry_run_resolve [OF assms(1,4-6)] registry_run_resolve [OF _ assms(4-6)] by simp
qed

text \<open>
  A registration that iwd's bus refuses (\<open>AddMatch\<close> fails) is reported as a method error and
  leaves no handler behind.
\<close>

theorem refused_registration_leaves_no_handler:
  assumes "registry_run r subs" and "CHR ''.'' \<notin> set member" and "member \<noteq> []"
    and "add (match_rule path iface member) w = (Inl e, w')"
    and "sig_name sig = si @ ''.'' @ sm" and "CHR ''.'' \<notin> set sm" and "sm \<noteq> ''*''"
  shows "\<exists>r'. register_signal_handler (Some add) path iface member (Some h) (r, w) =
            (Inl (wrap_method ''org.freedesktop.DBus'' ''AddMatch'' (Foreign e)), (r', w'))
         \<and> mset (resolve_handlers sig r') = mset (resolve_handlers sig r)"
proof -
  obtain t r' where st: "store_handler iface member h r = (t, r')" by (cases "store_handler iface member h r")
  have "registry_run (unsubscribe t r') subs"
    using run_store_unsubscribe [OF assms(1,2), of iface h] by (simp add: st)
  then have "mset (resolve_handlers sig (unsubscribe t r')) = mset (resolve_handlers sig r)"
    using registry_run_resolve [OF assms(1,5-7)] registry_run_resolve [OF _ assms(5-7)] by simp
  then show ?thesis
    using assms(3,4) by (auto simp: register_signal_handler_def st)
qed

text \<open>Concrete inputs of the three properties.\<close>

abbreviation two_handlers :: "nat registry" where
  "two_handlers \<equiv>
     snd (store_handler ''*'' ''*'' 2 (snd (store_handler ''a.b'' ''C'' 1 empty_registry)))"

abbreviation signal_abC :: signal where
  "signal_abC \<equiv> \<lparr>sig_path = ''/x'', sig_name = ''a.b.C'', sig_body = []\<rparr>"

lemma two_handlers_run: "\<exists>i j. registry_run two_handlers [(i, ''a.b'', ''C'', 1), (j, ''*'', ''*'', 2)]"
  using run_store [OF run_store [OF registry_run.start, of "''C''" "''a.b''" "1::nat"], of "''*''" "''*''" 2]
  by auto

theorem resolve_exactly_the_matching_subscriptions_witness:
  "mset (resolve_handlers signal_abC two_handlers) = {#1, 2#}"
proof -
  obtain i j where run: "registry_run two_handlers [(i, ''a.b'', ''C'', 1), (j, ''*'', ''*'', 2)]"
    using two_handlers_run by blast
  have "sig_name signal_abC = ''a.b'' @ ''.'' @ ''C''" and "CHR ''.'' \<notin> set ''C''" and "''C'' \<noteq> ''*''"
    by simp_all
  from resolve_exactly_the_matching_subscriptions [OF run this] show ?thesis
    by (simp add: matches_def)
qed

theorem unsubscribe_undoes_registration_witness:
  "mset (resolve_handlers signal_abC (unsubscribe (fst (store_handler ''a.b'' ''*'' 3 two_handlers))
     (snd (store_handler ''a.b'' ''*'' 3 two_handlers)))) = mset (resolve_handlers signal_abC two_handlers)"
proof -
  obtain i j where run: "registry_run two_handlers [(i, ''a.b'', ''C'', 1), (j, ''*'', ''*'', 2)]"
    using two_handlers_run by blast
  have m: "CHR ''.'' \<notin> set ''*''" by simp
  have st: "store_handler ''a.b'' ''*'' 3 two_handlers =
      (fst (store_handler ''a.b'' ''*'' 3 two_handlers), snd (store_handler ''a.b'' ''*'' 3 two_handlers))"
    by simp
  have "sig_name signal_abC = ''a.b'' @ ''.'' @ ''C''" and "CHR ''.'' \<notin> set ''C''" and "''C'' \<noteq> ''*''"
    by simp_all
  from unsubscribe_undoes_registration [OF run m st this] show ?thesis by blast
qed

definition refuse :: "string \<Rightarrow> (raw_err, unit, unit) go" where
  "refuse rule = go_fail (OtherErr rule)"

theorem refused_registration_leaves_no_handler_witness:
  "\<exists>r'. register_signal_handler (Some refuse) ''/x'' ''a.b'' ''C'' (Some 3)
          (two_handlers, ()) =
        (Inl (wrap_method ''org.freedesktop.DBus'' ''AddMatch''
               (Foreign (OtherErr (match_rule ''/x'' ''a.b'' ''C'')))), (r', ()))
     \<and> mset (resolve_handlers signal_abC r') = mset (resolve_handlers signal_abC two_handlers)"
proof -
  obtain i j where run: "registry_run two_handlers [(i, ''a.b'', ''C'', 1), (j, ''*'', ''*'', 2)]"
    using two_handlers_run by blast
  have "CHR ''.'' \<notin> set ''C''" and "''C'' \<noteq> []"
    and "refuse (match_rule ''/x'' ''a.b'' ''C'') () =
           (Inl (OtherErr (match_rule ''/x'' ''a.b'' ''C'')), ())"
    and "sig_name signal_abC = ''a.b'' @ ''.'' @ ''C''" and "CHR ''.'' \<notin> set ''C''" and "''C'' \<noteq> ''*''"
    by (simp_all add: refuse_def)
  from refused_registration_leaves_no_handler
      [where add = refuse and path = "''/x''" and iface = "''a.b''", OF run this] show ?thesis by blast
qed

end
