(* ===== verification/Dispatcher.thy ===== *)
theory Dispatcher
  imports Signals
begin

text \<open>
  The concurrency of an introspected object (\<open>internal/iwdbus/introspect.go\<close>: \<open>startDispatcher\<close>,
  \<open>dispatchLoop\<close>, \<open>safeInvoke\<close>, \<open>Close\<close>, \<open>waitWithTimeout\<close>) as a state machine. One
  dispatcher goroutine takes signals off the channel and starts one goroutine per resolved
  handler; \<open>Close\<close> cancels the context, waits (at most 100 ms) for the dispatcher, takes
  \<open>handlerMu\<close>, sets \<open>closing\<close>, waits (at most 100 ms) for the handlers and releases the lock.

  An atomic piece of a goroutine is a state function below, with the place it has reached as
  a program counter; \<open>disp_step\<close> interleaves them freely. A wait with a timeout can end at any
  moment, which over-approximates both outcomes. The context is derived from the one the
  constructor was called with, so it may also be cancelled from outside, and godbus closes the
  channel when the connection ends.
\<close>

datatype lock_owner = DispatcherOwns | CloserOwns

text \<open>
  The dispatcher: not started, at its \<open>select\<close>, with resolved handlers before and after
  \<open>handlerMu.Lock()\<close>, starting the goroutines that remain, or gone.
\<close>

datatype 'h dispatcher =
    NotStarted
  | Selecting
  | Resolved signal "'h list"
  | Locked signal "'h list"
  | Spawning signal "'h list"
  | Exited

datatype closer = NotClosed | WaitDispatcher | WantLock | WaitHandlers | Closed

text \<open>
  \<open>wg\<close> is the \<open>WaitGroup\<close> counter of the handlers. \<open>running\<close>, \<open>calls\<close> and \<open>added\<close> are multisets of
  (signal, handler) pairs: the handler goroutines alive, the ones that are done, and
  (history only) the ones \<open>wg.Add\<close> has announced.
\<close>

record 'h disp =
  registry :: "'h registry"
  chan :: "signal option list"
  listening :: bool
  chan_closed :: bool
  cancelled :: bool
  closing :: bool
  lock :: "lock_owner option"
  dpc :: "'h dispatcher"
  cpc :: closer
  wg :: nat
  running :: "(signal \<times> 'h) multiset"
  calls :: "(signal \<times> 'h) multiset"
  added :: "(signal \<times> 'h) multiset"

definition dbusSignalCapacity :: nat where
  "dbusSignalCapacity = 64"

definition init_disp :: "'h disp" where
  "init_disp =
     \<lparr>registry = empty_registry, chan = [], listening = True, chan_closed = False, cancelled = False, closing = False,
      lock = None, dpc = NotStarted, cpc = NotClosed, wg = 0, running = {#}, calls = {#}, added = {#}\<rparr>"

subsection \<open>The atomic pieces\<close>

text \<open>\<open>Close\<close>, first part: cancel the context and unregister the signal channel.\<close>

definition close_begin :: "'h disp \<Rightarrow> 'h disp" where
  "close_begin s = s\<lparr>cancelled := True, listening := False, cpc := WaitDispatcher\<rparr>"

text \<open>\<open>handlerMu.Lock()\<close> and \<open>closing = true\<close>.\<close>

definition close_lock :: "'h disp \<Rightarrow> 'h disp" where
  "close_lock s = s\<lparr>lock := Some CloserOwns, closing := True, cpc := WaitHandlers\<rparr>"

text \<open>The wait is over, by its end or by the timeout: \<open>handlerMu.Unlock()\<close>.\<close>

definition close_unlock :: "'h disp \<Rightarrow> 'h disp" where
  "close_unlock s = s\<lparr>lock := None, cpc := Closed\<rparr>"

definition start_dispatcher :: "'h disp \<Rightarrow> 'h disp" where
  "start_dispatcher s = (case dpc s of NotStarted \<Rightarrow> s\<lparr>dpc := Selecting\<rparr> | _ \<Rightarrow> s)"

text \<open>\<open>sig := <-i.sigCh\<close>: a nil signal or one without a name is skipped, others are resolved.\<close>

definition dispatch_receive :: "'h disp \<Rightarrow> 'h disp" where
  "dispatch_receive s =
     (case chan s of
        [] \<Rightarrow> s
      | None # rest \<Rightarrow> s\<lparr>chan := rest\<rparr>
      | Some sig # rest \<Rightarrow>
          if sig_name sig = '''' then s\<lparr>chan := rest\<rparr>
          else s\<lparr>chan := rest, dpc := Resolved sig (resolve_handlers sig (registry s))\<rparr>)"

definition dispatch_lock :: "signal \<Rightarrow> 'h list \<Rightarrow> 'h disp \<Rightarrow> 'h disp" where
  "dispatch_lock sig hs s = s\<lparr>lock := Some DispatcherOwns, dpc := Locked sig hs\<rparr>"

text \<open>Under the lock: give up when closing, otherwise \<open>wg.Add(len(hs))\<close>; then unlock.\<close>

definition dispatch_check :: "signal \<Rightarrow> 'h list \<Rightarrow> 'h disp \<Rightarrow> 'h disp" where
  "dispatch_check sig hs s =
     (if closing s then s\<lparr>lock := None, dpc := Exited\<rparr>
      else s\<lparr>wg := wg s + length hs, added := added s + mset (map (Pair sig) hs),
             lock := None, dpc := Spawning sig hs\<rparr>)"

definition dispatch_spawn :: "signal \<Rightarrow> 'h list \<Rightarrow> 'h disp \<Rightarrow> 'h disp" where
  "dispatch_spawn sig hs s =
     (case hs of
        [] \<Rightarrow> s\<lparr>dpc := Selecting\<rparr>
      | h # hs' \<Rightarrow> s\<lparr>running := add_mset (sig, h) (running s), dpc := Spawning sig hs'\<rparr>)"

text \<open>\<open>safeInvoke\<close> returns, by the handler's return or by its recovered panic; \<open>wg.Done()\<close>.\<close>

definition handler_done :: "signal \<times> 'h \<Rightarrow> 'h disp \<Rightarrow> 'h disp" where
  "handler_done c s = s\<lparr>running := running s - {#c#}, calls := add_mset c (calls s), wg := wg s - 1\<rparr>"

lemmas piece_defs =
  close_begin_def close_lock_def close_unlock_def start_dispatcher_def dispatch_receive_def
  dispatch_lock_def dispatch_check_def dispatch_spawn_def handler_done_def

subsection \<open>Interleaving\<close>

inductive disp_step :: "'h disp \<Rightarrow> 'h disp \<Rightarrow> bool" where
  deliver: "listening s \<Longrightarrow> length (chan s) < dbusSignalCapacity \<Longrightarrow> disp_step s (s\<lparr>chan := chan s @ [sig]\<rparr>)"
| change_registry: "disp_step s (s\<lparr>registry := r\<rparr>)"
| start: "disp_step s (start_dispatcher s)"
| receive: "dpc s = Selecting \<Longrightarrow> disp_step s (dispatch_receive s)"
| parent_cancel: "disp_step s (s\<lparr>cancelled := True\<rparr>)"
| connection_lost: "disp_step s (s\<lparr>listening := False, chan_closed := True\<rparr>)"
| cancel_exit: "dpc s = Selecting \<Longrightarrow> cancelled s \<Longrightarrow> disp_step s (s\<lparr>dpc := Exited\<rparr>)"
| closed_exit: "dpc s = Selecting \<Longrightarrow> chan_closed s \<Longrightarrow> chan s = [] \<Longrightarrow> disp_step s (s\<lparr>dpc := Exited\<rparr>)"
| acquire: "dpc s = Resolved sig hs \<Longrightarrow> lock s = None \<Longrightarrow> disp_step s (dispatch_lock sig hs s)"
| check: "dpc s = Locked sig hs \<Longrightarrow> disp_step s (dispatch_check sig hs s)"
| spawn: "dpc s = Spawning sig hs \<Longrightarrow> disp_step s (dispatch_spawn sig hs s)"
| handled: "c \<in># running s \<Longrightarrow> disp_step s (handler_done c s)"
| close: "cpc s = NotClosed \<Longrightarrow> disp_step s (close_begin s)"
| waited: "cpc s = WaitDispatcher \<Longrightarrow> disp_step s (s\<lparr>cpc := WantLock\<rparr>)"
| close_acquire: "cpc s = WantLock \<Longrightarrow> lock s = None \<Longrightarrow> disp_step s (close_lock s)"
| close_release: "cpc s = WaitHandlers \<Longrightarrow> disp_step s (close_unlock s)"

inductive_cases disp_stepE: "disp_step s t"

inductive disp_reach :: "'h disp \<Rightarrow> bool" where
  init: "disp_reach init_disp"
| step: "disp_reach s \<Longrightarrow> disp_step s t \<Longrightarrow> disp_reach t"

inductive disp_steps :: "'h disp \<Rightarrow> 'h disp \<Rightarrow> bool" where
  refl: "disp_steps s s"
| next_step: "disp_step s t \<Longrightarrow> disp_steps t u \<Longrightarrow> disp_steps s u"

subsection \<open>The invariant\<close>

text \<open>The handlers announced to the \<open>WaitGroup\<close> whose goroutine is not started yet.\<close>

definition pending :: "'h disp \<Rightarrow> (signal \<times> 'h) multiset" where
  "pending s = (case dpc s of Spawning sig hs \<Rightarrow> mset (map (Pair sig) hs) | _ \<Rightarrow> {#})"

definition disp_inv :: "'h disp \<Rightarrow> bool" where
  "disp_inv s \<longleftrightarrow>
     wg s = size (running s) + size (pending s)
     \<and> added s = calls s + running s + pending s
     \<and> (lock s = Some DispatcherOwns \<longleftrightarrow> (\<exists>sig hs. dpc s = Locked sig hs))
     \<and> (lock s = Some CloserOwns \<longleftrightarrow> cpc s = WaitHandlers)
     \<and> (closing s \<longleftrightarrow> cpc s \<in> {WaitHandlers, Closed})
     \<and> (cpc s \<noteq> NotClosed \<longrightarrow> cancelled s \<and> \<not> listening s)
     \<and> (dpc s = Exited \<longrightarrow> cancelled s \<or> chan_closed s)
     \<and> length (chan s) \<le> dbusSignalCapacity"

lemma disp_inv_init: "disp_inv init_disp"
  by (simp add: disp_inv_def init_disp_def pending_def)

lemma disp_inv_receive: "disp_inv s \<Longrightarrow> dpc s = Selecting \<Longrightarrow> disp_inv (dispatch_receive s)"
  by (auto simp: disp_inv_def dispatch_receive_def pending_def split: list.splits option.splits)

lemma disp_inv_lock: "disp_inv s \<Longrightarrow> dpc s = Resolved sig hs \<Longrightarrow> lock s = None \<Longrightarrow> disp_inv (dispatch_lock sig hs s)"
  by (auto simp: disp_inv_def dispatch_lock_def pending_def)

lemma disp_inv_check: "disp_inv s \<Longrightarrow> dpc s = Locked sig hs \<Longrightarrow> disp_inv (dispatch_check sig hs s)"
  by (auto simp: disp_inv_def dispatch_check_def pending_def)

lemma disp_inv_spawn: "disp_inv s \<Longrightarrow> dpc s = Spawning sig hs \<Longrightarrow> disp_inv (dispatch_spawn sig hs s)"
  by (cases hs) (auto simp: disp_inv_def dispatch_spawn_def pending_def)

lemma disp_inv_done:
  assumes "disp_inv s" and "c \<in># running s"
  shows "disp_inv (handler_done c s)"
proof -
  have "pending (handler_done c s) = pending s" by (simp add: pending_def handler_done_def)
  moreover obtain R where "running s = add_mset c R" using assms(2) by (metis multi_member_split)
  ultimately show ?thesis
    using assms(1) unfolding disp_inv_def by (simp add: handler_done_def)
qed

lemma disp_inv_step: "disp_step s t \<Longrightarrow> disp_inv s \<Longrightarrow> disp_inv t"
proof (induction rule: disp_step.induct)
  case (receive s)
  then show ?case by (simp add: disp_inv_receive)
next
  case (acquire s sig hs)
  then show ?case by (simp add: disp_inv_lock)
next
  case (check s sig hs)
  then show ?case by (simp add: disp_inv_check)
next
  case (spawn s sig hs)
  then show ?case by (simp add: disp_inv_spawn)
next
  case (handled c s)
  then show ?case by (simp add: disp_inv_done)
next
  case (start s)
  then show ?case by (auto simp: disp_inv_def start_dispatcher_def pending_def split: dispatcher.splits)
qed (auto simp: disp_inv_def pending_def close_begin_def close_lock_def close_unlock_def)

lemma disp_reach_inv: "disp_reach s \<Longrightarrow> disp_inv s"
  by (induction rule: disp_reach.induct) (auto intro: disp_inv_init disp_inv_step)

lemma disp_steps_reach: "disp_steps s t \<Longrightarrow> disp_reach s \<Longrightarrow> disp_reach t"
  by (induction rule: disp_steps.induct) (auto intro: disp_reach.step)

subsection \<open>After Close has begun\<close>

lemma disp_step_closing:
  assumes "disp_step s t" and "disp_inv s" and "closing s"
  shows "closing t \<and> added t = added s \<and> size (calls t) + wg t = size (calls s) + wg s \<and> calls s \<subseteq># calls t"
  using assms(1)
proof cases
  case (handled c)
  then have "0 < wg s" using assms(2) by (auto simp: disp_inv_def dest: multi_member_split)
  with handled assms(3) show ?thesis by (simp add: handler_done_def)
qed (use assms(2,3) in \<open>auto simp: disp_inv_def piece_defs split: dispatcher.splits list.splits option.splits\<close>)

lemma disp_steps_inv: "disp_steps s t \<Longrightarrow> disp_inv s \<Longrightarrow> disp_inv t"
  by (induction rule: disp_steps.induct) (auto intro: disp_inv_step)

lemma disp_steps_closing:
  assumes "disp_steps s t" and "disp_inv s" and "closing s"
  shows "closing t \<and> added t = added s \<and> size (calls t) + wg t = size (calls s) + wg s \<and> calls s \<subseteq># calls t"
  using assms
proof (induction rule: disp_steps.induct)
  case (refl s)
  then show ?case by simp
next
  case (next_step s t u)
  with disp_step_closing [OF next_step.hyps(1)] disp_inv_step [OF next_step.hyps(1)]
  show ?case by (auto intro: subset_mset.order_trans)
qed

subsection \<open>The dispatcher does not wait for handlers\<close>

lemma disp_steps_trans: "disp_steps s t \<Longrightarrow> disp_steps t u \<Longrightarrow> disp_steps s u"
  by (induction rule: disp_steps.induct) (auto intro: disp_steps.next_step)

lemma disp_steps_one: "disp_step s t \<Longrightarrow> disp_steps s t"
  by (blast intro: disp_steps.intros)

lemma spawning_ends:
  "dpc s = Spawning sig hs \<Longrightarrow> \<exists>t. disp_steps s t \<and> dpc t = Selecting \<and> calls t = calls s"
proof (induction hs arbitrary: s)
  case Nil
  then show ?case
    using disp_steps_one [OF disp_step.spawn [OF Nil]]
    by (intro exI[of _ "dispatch_spawn sig [] s"]) (simp add: dispatch_spawn_def)
next
  case (Cons h hs)
  let ?s = "dispatch_spawn sig (h # hs) s"
  have "dpc ?s = Spawning sig hs" and "calls ?s = calls s"
    by (simp_all add: dispatch_spawn_def)
  with Cons.IH [of ?s] disp_steps_one [OF disp_step.spawn [OF Cons.prems]]
  show ?case by (metis disp_steps_trans)
qed

lemma locked_ends:
  assumes "dpc s = Locked sig hs"
  shows "\<exists>t. disp_steps s t \<and> dpc t \<in> {Selecting, Exited} \<and> calls t = calls s"
proof (cases "closing s")
  case True
  then show ?thesis
    using disp_steps_one [OF disp_step.check [OF assms]]
    by (intro exI[of _ "dispatch_check sig hs s"]) (simp add: dispatch_check_def)
next
  case False
  let ?s = "dispatch_check sig hs s"
  have "dpc ?s = Spawning sig hs" and "calls ?s = calls s"
    using False by (simp_all add: dispatch_check_def)
  with spawning_ends [of ?s] disp_steps_one [OF disp_step.check [OF assms]]
  show ?thesis by (metis disp_steps_trans insertI1)
qed

lemma resolved_ends:
  assumes "disp_inv s" and "dpc s = Resolved sig hs"
  shows "\<exists>t. disp_steps s t \<and> dpc t \<in> {Selecting, Exited} \<and> calls t = calls s"
proof -
  obtain u where u: "disp_steps s u" "dpc u = Resolved sig hs" "lock u = None" "calls u = calls s"
  proof (cases "lock s")
    case None
    with assms(2) show thesis by (intro that [of s]) (auto intro: disp_steps.refl)
  next
    case (Some q)
    with assms have "cpc s = WaitHandlers"
      by (cases q) (auto simp: disp_inv_def)
    with assms(2) show thesis
      by (intro that [of "close_unlock s"])
        (auto simp: close_unlock_def intro!: disp_steps_one disp_step.close_release [unfolded close_unlock_def])
  qed
  let ?v = "dispatch_lock sig hs u"
  have v: "disp_steps s ?v"
    using u disp_step.acquire [OF u(2,3)] by (blast intro: disp_steps_trans disp_steps_one)
  have "dpc ?v = Locked sig hs" and "calls ?v = calls s"
    using u(4) by (simp_all add: dispatch_lock_def)
  with locked_ends [of ?v sig hs] show ?thesis using v by (metis disp_steps_trans)
qed

subsection \<open>Properties\<close>

text \<open>
  C8: Once \<open>Close\<close> has set \<open>closing\<close>, no interleaving announces another handler: \<open>wg.Add\<close> is
  never concurrent with the \<open>wg.Wait\<close> of \<open>Close\<close>, the counter never grows, and the handlers that
  still run to their end are exactly as many as the counter held.
\<close>

theorem closing_announces_no_handler:
  assumes "disp_reach s" and "closing s" and "disp_steps s t"
  shows "added t = added s \<and> calls s \<subseteq># calls t \<and> wg t \<le> wg s
       \<and> size (calls t) - size (calls s) = wg s - wg t"
  using disp_steps_closing [OF assms(3) disp_reach_inv [OF assms(1)] assms(2)]
  by (auto dest: size_mset_mono)

text \<open>
  C9: In every reachable state the \<open>WaitGroup\<close> counts exactly the handler goroutines that run
  or are announced and not yet started, \<open>Done\<close> never takes it below zero, and every announced
  call is running, about to be started or made, each exactly once, whether or not it panics.
\<close>

theorem waitgroup_counts_the_live_handlers:
  assumes "disp_reach s"
  shows "wg s = size (running s) + size (pending s)
       \<and> (\<forall>c. c \<in># running s \<longrightarrow> 0 < wg s)
       \<and> added s = calls s + running s + pending s
       \<and> (wg s = 0 \<longrightarrow> calls s = added s)"
  using disp_reach_inv [OF assms] by (auto simp: disp_inv_def dest: multi_member_split)

text \<open>
  C10: A slow or stuck handler does not block the dispatcher: from every reachable state in
  which it holds a signal it can get back to its \<open>select\<close> (or exit, when closing) without any
  handler having to return, even when \<open>Close\<close> holds the lock.
\<close>

theorem dispatcher_never_waits_for_a_handler:
  assumes "disp_reach s" and "dpc s \<noteq> NotStarted"
  shows "\<exists>t. disp_steps s t \<and> dpc t \<in> {Selecting, Exited} \<and> calls t = calls s"
proof (cases "dpc s")
  case (Resolved sig hs)
  then show ?thesis by (rule resolved_ends [OF disp_reach_inv [OF assms(1)]])
next
  case (Locked sig hs)
  then show ?thesis by (rule locked_ends)
next
  case (Spawning sig hs)
  with spawning_ends [of s] show ?thesis by (metis insertI1)
qed (use assms(2) disp_steps.refl in \<open>auto\<close>)

subsection \<open>A run\<close>

text \<open>
  A signal arrives for two handlers; both are announced, one goroutine is started, \<open>Close\<close> begins,
  gives up waiting for the dispatcher and takes the lock.
\<close>

definition demo_received :: "nat disp" where
  "demo_received = init_disp\<lparr>dpc := Resolved signal_abC [1, 2], registry := two_handlers\<rparr>"

definition demo_started :: "nat disp" where
  "demo_started =
     dispatch_spawn signal_abC [1, 2] (dispatch_check signal_abC [1, 2] (dispatch_lock signal_abC [1, 2] demo_received))"

definition demo_closing :: "nat disp" where
  "demo_closing = close_lock ((close_begin demo_started)\<lparr>cpc := WantLock\<rparr>)"

lemma demo_resolves: "resolve_handlers signal_abC two_handlers = [1, 2]"
  by code_simp

lemma demo_received_reach: "disp_reach demo_received"
proof -
  let ?a = "init_disp\<lparr>dpc := Selecting, registry := two_handlers\<rparr> :: nat disp"
  have "disp_step init_disp (init_disp\<lparr>registry := two_handlers\<rparr>)"
    by (rule disp_step.change_registry)
  moreover have "disp_step (init_disp\<lparr>registry := two_handlers\<rparr>) ?a"
    using disp_step.start [of "init_disp\<lparr>registry := two_handlers\<rparr>"]
    by (simp add: start_dispatcher_def init_disp_def)
  moreover have "disp_step ?a (?a\<lparr>chan := [Some signal_abC]\<rparr>)"
    using disp_step.deliver [of ?a "Some signal_abC"] by (simp add: init_disp_def dbusSignalCapacity_def)
  moreover have "disp_step (?a\<lparr>chan := [Some signal_abC]\<rparr>) demo_received"
    using disp_step.receive [of "?a\<lparr>chan := [Some signal_abC]\<rparr>"] demo_resolves
    by (simp add: init_disp_def dispatch_receive_def demo_received_def)
  ultimately show ?thesis by (meson disp_reach.intros)
qed

lemma demo_started_reach: "disp_reach demo_started"
proof -
  let ?l = "dispatch_lock signal_abC [1, 2] demo_received"
  let ?c = "dispatch_check signal_abC [1, 2] ?l"
  have "disp_step demo_received ?l"
    by (rule disp_step.acquire) (simp_all add: demo_received_def init_disp_def)
  moreover have "disp_step ?l ?c"
    by (rule disp_step.check) (simp add: dispatch_lock_def)
  moreover have "disp_step ?c demo_started"
    unfolding demo_started_def
    by (rule disp_step.spawn) (simp add: dispatch_check_def dispatch_lock_def demo_received_def init_disp_def)
  ultimately show ?thesis using demo_received_reach by (meson disp_reach.step)
qed

lemmas demo_defs = demo_started_def demo_received_def init_disp_def piece_defs

lemma demo_closing_reach: "disp_reach demo_closing"
proof -
  have "disp_step demo_started (close_begin demo_started)"
    by (rule disp_step.close) (simp add: demo_defs)
  moreover have "disp_step (close_begin demo_started) ((close_begin demo_started)\<lparr>cpc := WantLock\<rparr>)"
    by (rule disp_step.waited) (simp add: close_begin_def)
  moreover have "disp_step ((close_begin demo_started)\<lparr>cpc := WantLock\<rparr>) demo_closing"
    unfolding demo_closing_def by (rule disp_step.close_acquire) (simp_all add: demo_defs)
  ultimately show ?thesis using demo_started_reach by (meson disp_reach.step)
qed

theorem closing_announces_no_handler_witness:
  "calls demo_closing \<subseteq># calls (handler_done (signal_abC, 1) demo_closing)
     \<and> wg (handler_done (signal_abC, 1) demo_closing) \<le> wg demo_closing"
proof -
  have "closing demo_closing" by (simp add: demo_closing_def close_lock_def)
  moreover have "(signal_abC, 1) \<in># running demo_closing"
    by (simp add: demo_closing_def demo_defs)
  then have "disp_steps demo_closing (handler_done (signal_abC, 1) demo_closing)"
    by (intro disp_steps_one disp_step.handled)
  ultimately show ?thesis
    using closing_announces_no_handler [OF demo_closing_reach] by blast
qed

theorem waitgroup_counts_the_live_handlers_witness: "wg demo_started = 2"
  using waitgroup_counts_the_live_handlers [OF demo_started_reach]
  by (simp add: pending_def demo_defs)

theorem dispatcher_never_waits_for_a_handler_witness:
  "\<exists>t. disp_steps demo_closing t \<and> dpc t \<in> {Selecting, Exited} \<and> calls t = calls demo_closing"
proof -
  have "dpc demo_closing \<noteq> NotStarted" by (simp add: demo_closing_def demo_defs)
  from dispatcher_never_waits_for_a_handler [OF demo_closing_reach this] show ?thesis .
qed

end
