(* ===== verification/Subscriptions.thy ===== *)
theory Subscriptions
  imports Signals
begin

text \<open>
  What the typed wrappers put between the signal registry and their callbacks: the
  \<open>signalSource\<close> interface (\<open>internal/iwdbus/caller.go\<close>) and the body every
  \<open>SubscribePropertiesChanged\<close> has, with the two shapes of the single-property subscriptions
  built on it.

  A handler is a closure \<open>func(*dbus.Signal)\<close>. Its effect is the list of callback invocations it
  makes, of any type \<open>'act\<close>; a nil \<open>*dbus.Signal\<close> is \<open>None\<close>, a nil callback or handler too. A
  callback \<open>fn\<close> gives the effect of one call.
\<close>

type_synonym 'act handler = "signal option \<Rightarrow> 'act list"

type_synonym ('act, 'w) subs_state = "'act handler registry \<times> 'w"

text \<open>The \<open>signalSource\<close> interface, and the conversion \<open>signalSource(intro)\<close>.\<close>

record ('act, 'w) signals =
  ss_register_unsub :: "string \<Rightarrow> string \<Rightarrow> 'act handler option
    \<Rightarrow> (gerror, ('act, 'w) subs_state, subscription) go"
  ss_register :: "string \<Rightarrow> string \<Rightarrow> 'act handler option
    \<Rightarrow> (gerror, ('act, 'w) subs_state, unit) go"

definition register_signal_handler_only ::
    "(string \<Rightarrow> (raw_err, 'w, unit) go) option \<Rightarrow> string \<Rightarrow> string \<Rightarrow> string \<Rightarrow> 'act handler option
      \<Rightarrow> (gerror, ('act, 'w) subs_state, unit) go" where
  "register_signal_handler_only add_match path iface member handler =
     go_bind (register_signal_handler add_match path iface member handler) (\<lambda>_. go_return ())"

definition as_signals ::
    "(string \<Rightarrow> (raw_err, 'w, unit) go) option \<Rightarrow> string \<Rightarrow> ('act, 'w) signals" where
  "as_signals add_match path =
     \<lparr>ss_register_unsub = register_signal_handler add_match path,
      ss_register = register_signal_handler_only add_match path\<rparr>"

lemma ss_register_unsub_as_signals [simp]:
  "ss_register_unsub (as_signals add path) = register_signal_handler add path"
  by (simp add: as_signals_def)

subsection \<open>PropertiesChanged\<close>

text \<open>\<open>Changed\<close> maps a property to its variant's value; a nil \<open>Invalidated\<close> is \<open>None\<close>.\<close>

record properties_changed =
  pc_changed :: properties
  pc_invalidated :: "string list option"

definition nil_slice :: "'a list option \<Rightarrow> 'a list" where
  "nil_slice xs = (case xs of None \<Rightarrow> [] | Some ys \<Rightarrow> ys)"

definition properties_changed_handler ::
    "string \<Rightarrow> (properties_changed \<Rightarrow> 'act list) \<Rightarrow> 'act handler" where
  "properties_changed_handler iface fn sig =
     (case sig of
        None \<Rightarrow> []
      | Some s \<Rightarrow>
          if length (sig_body s) < 3 then []
          else (case as_string (sig_body s ! 0) of
              None \<Rightarrow> []
            | Some i \<Rightarrow>
                if i \<noteq> iface then []
                else (case sig_body s ! 1 of
                    VVarMap changed \<Rightarrow>
                      fn \<lparr>pc_changed = changed,
                          pc_invalidated = (case sig_body s ! 2 of VStrs names \<Rightarrow> Some names | _ \<Rightarrow> None)\<rparr>
                  | _ \<Rightarrow> [])))"

text \<open>\<open>SubscribePropertiesChanged\<close> of the wrapper of interface \<open>iface\<close>.\<close>

definition subscribe_properties_changed ::
    "('act, 'w) signals \<Rightarrow> string \<Rightarrow> (properties_changed \<Rightarrow> 'act list) option
      \<Rightarrow> (gerror, ('act, 'w) subs_state, subscription) go" where
  "subscribe_properties_changed ss iface fn =
     (case fn of
        None \<Rightarrow> go_fail (Errorf ''SubscribePropertiesChanged: fn cannot be nil'' [] [])
      | Some f \<Rightarrow>
          ss_register_unsub ss ''org.freedesktop.DBus.Properties'' ''PropertiesChanged''
            (Some (properties_changed_handler iface f)))"

text \<open>A subscription to one property, given what it does with the event: \<open>label\<close> names the method.\<close>

definition subscribe_property ::
    "('act, 'w) signals \<Rightarrow> string \<Rightarrow> string \<Rightarrow> (('v \<Rightarrow> 'act list) \<Rightarrow> properties_changed \<Rightarrow> 'act list)
      \<Rightarrow> ('v \<Rightarrow> 'act list) option \<Rightarrow> (gerror, ('act, 'w) subs_state, subscription) go" where
  "subscribe_property ss iface label on_event fn =
     (case fn of
        None \<Rightarrow> go_fail (Errorf (label @ '': fn cannot be nil'') [] [])
      | Some f \<Rightarrow> subscribe_properties_changed ss iface (Some (on_event f)))"

text \<open>A property that is always present: unparsable values are skipped.\<close>

definition on_required_property ::
    "string \<Rightarrow> (dval \<Rightarrow> gerror + 'v) \<Rightarrow> ('v \<Rightarrow> 'act list) \<Rightarrow> properties_changed \<Rightarrow> 'act list" where
  "on_required_property name parse fn ev =
     (case map_of (pc_changed ev) name of
        None \<Rightarrow> []
      | Some v \<Rightarrow> (case parse v of Inl _ \<Rightarrow> [] | Inr x \<Rightarrow> fn x))"

text \<open>An optional property: its invalidation delivers nil.\<close>

definition on_optional_property ::
    "string \<Rightarrow> (dval \<Rightarrow> gerror + 'v option) \<Rightarrow> ('v option \<Rightarrow> 'act list) \<Rightarrow> properties_changed \<Rightarrow> 'act list" where
  "on_optional_property name parse fn ev =
     (case map_of (pc_changed ev) name of
        None \<Rightarrow> if property_cleared (nil_slice (pc_invalidated ev)) name then fn None else []
      | Some v \<Rightarrow> (case parse v of Inl _ \<Rightarrow> [] | Inr x \<Rightarrow> fn x))"

text \<open>\<open>Firehose\<close>: every signal with a name reaches the callback.\<close>

record firehose_signal =
  fs_object_path :: string
  fs_interface :: string
  fs_member :: string
  fs_body :: "dval list"
  fs_raw :: signal

definition firehose_handler :: "(firehose_signal \<Rightarrow> 'act list) \<Rightarrow> 'act handler" where
  "firehose_handler fn sig =
     (case sig of
        None \<Rightarrow> []
      | Some s \<Rightarrow>
          (case split_signal_name (sig_name s) of
             (iface, member) \<Rightarrow>
               fn \<lparr>fs_object_path = sig_path s, fs_interface = iface, fs_member = member,
                   fs_body = sig_body s, fs_raw = s\<rparr>))"

subsection \<open>When a callback runs\<close>

lemma properties_changed_handler_simps [simp]:
  "properties_changed_handler iface fn None = []"
  "properties_changed_handler iface fn (Some \<lparr>sig_path = p, sig_name = n,
     sig_body = VStr i # VVarMap changed # v # rest\<rparr>) =
     (if i = iface
      then fn \<lparr>pc_changed = changed, pc_invalidated = (case v of VStrs names \<Rightarrow> Some names | _ \<Rightarrow> None)\<rparr>
      else [])"
  by (auto simp: properties_changed_handler_def)

text \<open>Only a well-formed signal of the interface reaches the callback, whatever object sent it.\<close>

lemma properties_changed_handler_called:
  assumes "properties_changed_handler iface fn (Some s) \<noteq> []"
  shows "\<exists>changed v rest. sig_body s = VStr iface # VVarMap changed # v # rest"
proof -
  have "3 \<le> length (sig_body s)"
    using assms by (auto simp: properties_changed_handler_def split: if_splits)
  then obtain a b c rest where body: "sig_body s = a # b # c # rest"
    by (auto simp: Suc_le_length_iff numeral_3_eq_3)
  with assms show ?thesis
    by (auto simp: properties_changed_handler_def split: if_splits option.splits dval.splits)
qed

lemma handler_ignores_path [simp]:
  "properties_changed_handler iface fn (Some (s\<lparr>sig_path := p\<rparr>)) = properties_changed_handler iface fn (Some s)"
proof -
  have "sig_body (s\<lparr>sig_path := p\<rparr>) = sig_body s" by simp
  then show ?thesis by (simp only: properties_changed_handler_def option.case)
qed

lemma resolve_ignores_path [simp]: "resolve_handlers (s\<lparr>sig_path := p\<rparr>) r = resolve_handlers s r"
  by (simp add: resolve_handlers_def)

subsection \<open>Registering through the signal source\<close>

text \<open>The callback invocations one dispatched signal leads to.\<close>

definition signal_calls :: "signal \<Rightarrow> 'act handler registry \<Rightarrow> 'act list" where
  "signal_calls sig r = concat (map (\<lambda>h. h (Some sig)) (resolve_handlers sig r))"

lemma mset_concat_map: "mset (concat (map f xs)) = (\<Sum>x \<in># mset xs. mset (f x))"
  by (induction xs) auto

lemma registered_handler_resolved:
  assumes "registry_run r subs" and "CHR ''.'' \<notin> set member"
    and "register_signal_handler add path iface member (Some h) (r, w) = (Inr t, (r', w'))"
    and "sig_name sig = si @ ''.'' @ sm" and "CHR ''.'' \<notin> set sm" and "sm \<noteq> ''*''"
  shows "mset (resolve_handlers sig r') =
           mset (resolve_handlers sig r) + (if matches iface member si sm then {#h#} else {#})"
proof -
  have r': "r' = snd (store_handler iface member h r)"
    using assms(3)
    by (auto simp: register_signal_handler_def split: if_splits prod.splits option.splits sum.splits)
  then have run: "registry_run r' (subs @ [(sub_id (fst (store_handler iface member h r)), iface, member, h)])"
    using run_store [OF assms(1,2), of iface h] by (cases "store_handler iface member h r") simp
  show ?thesis
    using registry_run_resolve [OF run assms(4-6)] registry_run_resolve [OF assms(1,4-6)]
    by (simp add: live_handlers_def)
qed

lemma registered_handler_calls:
  assumes "registry_run r subs" and "CHR ''.'' \<notin> set member"
    and "register_signal_handler add path iface member (Some h) (r, w) = (Inr t, (r', w'))"
    and "sig_name sig = si @ ''.'' @ sm" and "CHR ''.'' \<notin> set sm" and "sm \<noteq> ''*''"
  shows "mset (signal_calls sig r') =
           mset (signal_calls sig r) + (if matches iface member si sm then mset (h (Some sig)) else {#})"
  using registered_handler_resolved [OF assms]
  by (simp add: signal_calls_def mset_concat_map image_mset_union)

definition properties_changed_signal :: string where
  "properties_changed_signal = ''org.freedesktop.DBus.Properties'' @ ''.'' @ ''PropertiesChanged''"

lemma subscribed_calls:
  assumes "registry_run r subs"
    and "subscribe_properties_changed (as_signals add path) iface (Some fn) (r, w) = (Inr t, (r', w'))"
    and "sig_name sig = properties_changed_signal"
  shows "mset (signal_calls sig r') =
           mset (signal_calls sig r) + mset (properties_changed_handler iface fn (Some sig))"
proof -
  have "CHR ''.'' \<notin> set ''PropertiesChanged''" and "''PropertiesChanged'' \<noteq> ''*''" by simp_all
  note names = this
  have "matches ''org.freedesktop.DBus.Properties'' ''PropertiesChanged''
          ''org.freedesktop.DBus.Properties'' ''PropertiesChanged''"
    by (simp add: matches_def)
  moreover have reg: "register_signal_handler add path ''org.freedesktop.DBus.Properties'' ''PropertiesChanged''
      (Some (properties_changed_handler iface fn)) (r, w) = (Inr t, (r', w'))"
    using assms(2) by (simp only: subscribe_properties_changed_def option.case ss_register_unsub_as_signals)
  moreover note registered_handler_calls [OF assms(1) names(1) reg
      assms(3) [unfolded properties_changed_signal_def] names]
  ultimately show ?thesis by (simp only: if_True)
qed

end
