(* ===== verification/Station_Bus.thy ===== *)
theory Station_Bus
  imports Subscriptions
begin

text \<open>
  The typed wrapper of an iwd station, \<open>internal/iwdbus/station.go\<close>: property reads, method
  calls and signal subscriptions. (The parsers of the file are in the theory on D-Bus values,
  the constructor's body, which all wrappers share, is \<open>new_object\<close>.)
\<close>

record ('act, 'w) iwd_station =
  st_call :: "'w caller option"
  st_signals :: "('act, 'w) signals"

text \<open>\<open>NewStation\<close>; \<open>add_match\<close> is the bus's \<open>AddMatch\<close> on the connection.\<close>

definition iwd_new_station ::
    "godbus \<Rightarrow> 'w conn \<Rightarrow> (string \<Rightarrow> (raw_err, 'w, unit) go) option \<Rightarrow> string
      \<Rightarrow> (gerror, 'w, ('act, 'w) iwd_station) go" where
  "iwd_new_station g conn add_match path =
     go_bind (new_object g conn IwdStationIface path)
       (\<lambda>c. go_return \<lparr>st_call = Some c, st_signals = as_signals add_match path\<rparr>)"

abbreviation station_ready :: "('act, 'w) iwd_station \<Rightarrow> (gerror, 'w, 'w caller) go" where
  "station_ready s \<equiv> ensure_initialized ''Station'' StationObj (st_call s)"

subsection \<open>Properties\<close>

definition iwd_station_get_state :: "('act, 'w) iwd_station \<Rightarrow> (gerror, 'w, station_state) go" where
  "iwd_station_get_state s =
     go_bind (station_ready s) (\<lambda>c.
     go_bind (read_property c IwdStationIface ''State'') (\<lambda>v.
     go_lift (parse_station_state v)))"

definition iwd_station_get_scanning :: "('act, 'w) iwd_station \<Rightarrow> (gerror, 'w, bool) go" where
  "iwd_station_get_scanning s =
     go_bind (station_ready s) (\<lambda>c.
     go_bind (read_property c IwdStationIface ''Scanning'') (\<lambda>v.
     go_lift (expect_bool ''Scanning'' v)))"

definition iwd_station_get_connected_network ::
    "godbus \<Rightarrow> ('act, 'w) iwd_station \<Rightarrow> (gerror, 'w, string option) go" where
  "iwd_station_get_connected_network g s =
     go_bind (station_ready s) (\<lambda>c.
     go_bind (read_optional_property c IwdStationIface ''ConnectedNetwork'') (\<lambda>v.
     case v of
       None \<Rightarrow> go_return None
     | Some v \<Rightarrow> go_lift (parse_station_object_path (path_ok g) ''ConnectedNetwork'' v)))"

definition iwd_station_get_connected_access_point ::
    "godbus \<Rightarrow> ('act, 'w) iwd_station \<Rightarrow> (gerror, 'w, string option) go" where
  "iwd_station_get_connected_access_point g s =
     go_bind (station_ready s) (\<lambda>c.
     go_bind (read_optional_property c IwdStationIface ''ConnectedAccessPoint'') (\<lambda>v.
     case v of
       None \<Rightarrow> go_return None
     | Some v \<Rightarrow> go_lift (parse_station_object_path (path_ok g) ''ConnectedAccessPoint'' v)))"

definition iwd_station_get_affinities ::
    "godbus \<Rightarrow> ('act, 'w) iwd_station \<Rightarrow> (gerror, 'w, string list option) go" where
  "iwd_station_get_affinities g s =
     go_bind (station_ready s) (\<lambda>c.
     go_bind (read_optional_property c IwdStationIface ''Affinities'') (\<lambda>v.
     case v of
       None \<Rightarrow> go_return None
     | Some v \<Rightarrow> go_lift (parse_station_affinities (path_ok g) v)))"

record station_properties =
  State :: station_state
  Scanning :: bool
  ConnectedNetwork :: "string option"
  ConnectedAccessPoint :: "string option"
  Affinities :: "string list option"

text \<open>An optional field of a \<open>GetAll\<close> reply: left nil when the property is absent.\<close>

definition optional_field ::
    "properties \<Rightarrow> string \<Rightarrow> (dval \<Rightarrow> gerror + 'v option) \<Rightarrow> gerror + 'v option" where
  "optional_field raw name parse =
     (case map_of raw name of None \<Rightarrow> Inr None | Some v \<Rightarrow> parse v)"

definition decode_station_properties :: "godbus \<Rightarrow> properties \<Rightarrow> gerror + station_properties" where
  "decode_station_properties g raw =
     try_bind (required IwdStationIface raw ''State'') (\<lambda>state_v.
     try_bind (parse_station_state state_v) (\<lambda>state.
     try_bind (required IwdStationIface raw ''Scanning'') (\<lambda>scanning_v.
     try_bind (expect_bool ''Scanning'' scanning_v) (\<lambda>scanning.
     try_bind (optional_field raw ''ConnectedNetwork''
                (parse_station_object_path (path_ok g) ''ConnectedNetwork'')) (\<lambda>connected.
     try_bind (optional_field raw ''ConnectedAccessPoint''
                (parse_station_object_path (path_ok g) ''ConnectedAccessPoint'')) (\<lambda>ap.
     try_bind (optional_field raw ''Affinities'' (parse_station_affinities (path_ok g))) (\<lambda>affinities.
     Inr \<lparr>State = state, Scanning = scanning, ConnectedNetwork = connected,
          ConnectedAccessPoint = ap, Affinities = affinities\<rparr>)))))))"

definition iwd_station_get_properties ::
    "godbus \<Rightarrow> ('act, 'w) iwd_station \<Rightarrow> (gerror, 'w, station_properties) go" where
  "iwd_station_get_properties g s =
     go_bind (station_ready s) (\<lambda>c.
     go_bind (read_all c IwdStationIface) (\<lambda>raw.
     go_lift (decode_station_properties g raw)))"

definition iwd_station_set_affinities ::
    "('act, 'w) iwd_station \<Rightarrow> string list \<Rightarrow> (gerror, 'w, unit) go" where
  "iwd_station_set_affinities s paths =
     go_bind (station_ready s) (\<lambda>c.
     go_wrap (\<lambda>r. wrap_iwd_property IwdStationIface ''Affinities'' (Foreign r))
       (c_set_property c IwdStationIface ''Affinities'' (VPaths paths)))"

subsection \<open>Methods\<close>

text \<open>A method call whose reply is ignored, and one whose reply is decoded.\<close>

definition station_method ::
    "('act, 'w) iwd_station \<Rightarrow> string \<Rightarrow> dval list \<Rightarrow> (gerror, 'w, dval list) go" where
  "station_method s method args =
     go_bind (station_ready s) (\<lambda>c.
     go_wrap (wrap_iwd_method IwdStationIface method) (c_call c IwdStationIface method args))"

definition iwd_station_scan :: "('act, 'w) iwd_station \<Rightarrow> (gerror, 'w, unit) go" where
  "iwd_station_scan s = go_bind (station_method s ''Scan'' []) (\<lambda>_. go_return ())"

definition unexpected_reply :: "string \<Rightarrow> raw_err \<Rightarrow> gerror" where
  "unexpected_reply method r =
     wrap_variant method (Errorf ''unexpected reply shape: %w'' [] [Foreign r])"

text \<open>An ordered network: its path and its signal strength.\<close>

definition iwd_station_get_ordered_networks ::
    "godbus \<Rightarrow> ('act, 'w) iwd_station \<Rightarrow> (gerror, 'w, (string \<times> int) list) go" where
  "iwd_station_get_ordered_networks g s =
     go_bind (station_method s ''GetOrderedNetworks'' []) (\<lambda>body.
     go_wrap (unexpected_reply ''GetOrderedNetworks'') (go_lift (store_networks g body)))"

definition iwd_station_disconnect :: "('act, 'w) iwd_station \<Rightarrow> (gerror, 'w, unit) go" where
  "iwd_station_disconnect s = go_bind (station_method s ''Disconnect'' []) (\<lambda>_. go_return ())"

definition iwd_station_register_signal_level_agent ::
    "('act, 'w) iwd_station \<Rightarrow> string \<Rightarrow> int list \<Rightarrow> (gerror, 'w, unit) go" where
  "iwd_station_register_signal_level_agent s agent_path levels =
     go_bind (station_method s ''RegisterSignalLevelAgent'' [VPath agent_path, VLevels levels])
       (\<lambda>_. go_return ())"

definition iwd_station_unregister_signal_level_agent ::
    "('act, 'w) iwd_station \<Rightarrow> string \<Rightarrow> (gerror, 'w, unit) go" where
  "iwd_station_unregister_signal_level_agent s agent_path =
     go_bind (station_method s ''UnregisterSignalLevelAgent'' [VPath agent_path]) (\<lambda>_. go_return ())"

definition iwd_station_connect_hidden_network ::
    "('act, 'w) iwd_station \<Rightarrow> string \<Rightarrow> (gerror, 'w, unit) go" where
  "iwd_station_connect_hidden_network s name =
     go_bind (station_method s ''ConnectHiddenNetwork'' [VStr name]) (\<lambda>_. go_return ())"

record hidden_access_point =
  hap_address :: string
  hap_strength :: int
  hap_type :: network_type

definition hidden_ap :: "string \<times> int \<times> string \<Rightarrow> gerror + hidden_access_point" where
  "hidden_ap = (\<lambda>(address, strength, type).
     try_bind (parse_network_type (VStr type)) (\<lambda>t.
     Inr \<lparr>hap_address = address, hap_strength = strength, hap_type = t\<rparr>))"

definition iwd_station_get_hidden_access_points ::
    "godbus \<Rightarrow> ('act, 'w) iwd_station \<Rightarrow> (gerror, 'w, hidden_access_point list) go" where
  "iwd_station_get_hidden_access_points g s =
     go_bind (station_method s ''GetHiddenAccessPoints'' []) (\<lambda>body.
     go_bind (go_wrap (unexpected_reply ''GetHiddenAccessPoints'') (go_lift (store_hidden g body))) (\<lambda>tuples.
     go_lift (collect hidden_ap tuples)))"

subsection \<open>Subscriptions\<close>

definition iwd_station_subscribe_properties_changed ::
    "('act, 'w) iwd_station \<Rightarrow> (properties_changed \<Rightarrow> 'act list) option
      \<Rightarrow> (gerror, ('act, 'w) subs_state, subscription) go" where
  "iwd_station_subscribe_properties_changed s fn =
     subscribe_properties_changed (st_signals s) IwdStationIface fn"

definition iwd_station_subscribe_state_changed ::
    "('act, 'w) iwd_station \<Rightarrow> (station_state \<Rightarrow> 'act list) option
      \<Rightarrow> (gerror, ('act, 'w) subs_state, subscription) go" where
  "iwd_station_subscribe_state_changed s fn =
     subscribe_property (st_signals s) IwdStationIface ''SubscribeStateChanged''
       (on_required_property ''State'' parse_station_state) fn"

definition iwd_station_subscribe_scanning_changed ::
    "('act, 'w) iwd_station \<Rightarrow> (bool \<Rightarrow> 'act list) option
      \<Rightarrow> (gerror, ('act, 'w) subs_state, subscription) go" where
  "iwd_station_subscribe_scanning_changed s fn =
     subscribe_property (st_signals s) IwdStationIface ''SubscribeScanningChanged''
       (on_required_property ''Scanning'' (expect_bool ''Scanning'')) fn"

definition iwd_station_subscribe_connected_network_changed ::
    "godbus \<Rightarrow> ('act, 'w) iwd_station \<Rightarrow> (string option \<Rightarrow> 'act list) option
      \<Rightarrow> (gerror, ('act, 'w) subs_state, subscription) go" where
  "iwd_station_subscribe_connected_network_changed g s fn =
     subscribe_property (st_signals s) IwdStationIface ''SubscribeConnectedNetworkChanged''
       (on_optional_property ''ConnectedNetwork''
         (parse_station_object_path (path_ok g) ''ConnectedNetwork'')) fn"

definition iwd_station_subscribe_connected_access_point_changed ::
    "godbus \<Rightarrow> ('act, 'w) iwd_station \<Rightarrow> (string option \<Rightarrow> 'act list) option
      \<Rightarrow> (gerror, ('act, 'w) subs_state, subscription) go" where
  "iwd_station_subscribe_connected_access_point_changed g s fn =
     subscribe_property (st_signals s) IwdStationIface ''SubscribeConnectedAccessPointChanged''
       (on_optional_property ''ConnectedAccessPoint''
         (parse_station_object_path (path_ok g) ''ConnectedAccessPoint'')) fn"

definition iwd_station_subscribe_affinities_changed ::
    "godbus \<Rightarrow> ('act, 'w) iwd_station \<Rightarrow> (string list option \<Rightarrow> 'act list) option
      \<Rightarrow> (gerror, ('act, 'w) subs_state, subscription) go" where
  "iwd_station_subscribe_affinities_changed g s fn =
     subscribe_property (st_signals s) IwdStationIface ''SubscribeAffinitiesChanged''
       (on_optional_property ''Affinities'' (parse_station_affinities (path_ok g))) fn"

definition iwd_station_firehose ::
    "('act, 'w) iwd_station \<Rightarrow> (firehose_signal \<Rightarrow> 'act list) option
      \<Rightarrow> (gerror, ('act, 'w) subs_state, unit) go" where
  "iwd_station_firehose s fn =
     (case fn of
        None \<Rightarrow> go_fail (Errorf ''Firehose: fn cannot be nil'' [] [])
      | Some f \<Rightarrow> ss_register (st_signals s) ''*'' ''*'' (Some (firehose_handler f)))"

lemmas iwd_station_read_defs =
  iwd_station_get_state_def iwd_station_get_scanning_def iwd_station_get_connected_network_def
  iwd_station_get_connected_access_point_def iwd_station_get_affinities_def

lemmas iwd_station_method_defs =
  iwd_station_scan_def iwd_station_get_ordered_networks_def iwd_station_disconnect_def
  iwd_station_register_signal_level_agent_def iwd_station_unregister_signal_level_agent_def
  iwd_station_connect_hidden_network_def iwd_station_get_hidden_access_points_def

lemmas iwd_station_subscribe_defs =
  iwd_station_subscribe_properties_changed_def iwd_station_subscribe_state_changed_def
  iwd_station_subscribe_scanning_changed_def iwd_station_subscribe_connected_network_changed_def
  iwd_station_subscribe_connected_access_point_changed_def iwd_station_subscribe_affinities_changed_def

end
