(* ===== verification/Station_Core.thy ===== *)
theory Station_Core
  imports Station_Bus
begin

text \<open>
  The core facade of a station, \<open>internal/core/station.go\<close>, with the validators it borrows from
  \<open>internal/core/network.go\<close>. Core sees its backend as the interface \<open>stationRaw\<close>, here a record of
  operations; \<open>iwd_station_raw\<close> gives the operations of the iwd wrapper. A nil \<open>*Station\<close> is
  \<open>None\<close>, one without a backend has \<open>cs_raw = None\<close>.
\<close>

record ('act, 'w) station_raw =
  sr_get_state :: "(gerror, 'w, station_state) go"
  sr_get_scanning :: "(gerror, 'w, bool) go"
  sr_get_connected_network :: "(gerror, 'w, string option) go"
  sr_get_connected_access_point :: "(gerror, 'w, string option) go"
  sr_get_affinities :: "(gerror, 'w, string list option) go"
  sr_get_properties :: "(gerror, 'w, station_properties) go"
  sr_scan :: "(gerror, 'w, unit) go"
  sr_get_ordered_networks :: "(gerror, 'w, (string \<times> int) list) go"
  sr_set_affinities :: "string list \<Rightarrow> (gerror, 'w, unit) go"
  sr_disconnect :: "(gerror, 'w, unit) go"
  sr_connect_hidden_network :: "string \<Rightarrow> (gerror, 'w, unit) go"
  sr_get_hidden_access_points :: "(gerror, 'w, hidden_access_point list) go"
  sr_subscribe_properties_changed ::
    "(properties_changed \<Rightarrow> 'act list) option \<Rightarrow> (gerror, ('act, 'w) subs_state, subscription) go"
  sr_subscribe_state_changed ::
    "(station_state \<Rightarrow> 'act list) option \<Rightarrow> (gerror, ('act, 'w) subs_state, subscription) go"
  sr_subscribe_scanning_changed ::
    "(bool \<Rightarrow> 'act list) option \<Rightarrow> (gerror, ('act, 'w) subs_state, subscription) go"
  sr_subscribe_connected_network_changed ::
    "(string option \<Rightarrow> 'act list) option \<Rightarrow> (gerror, ('act, 'w) subs_state, subscription) go"
  sr_subscribe_connected_access_point_changed ::
    "(string option \<Rightarrow> 'act list) option \<Rightarrow> (gerror, ('act, 'w) subs_state, subscription) go"
  sr_subscribe_affinities_changed ::
    "(string list option \<Rightarrow> 'act list) option \<Rightarrow> (gerror, ('act, 'w) subs_state, subscription) go"

definition iwd_station_raw :: "godbus \<Rightarrow> ('act, 'w) iwd_station \<Rightarrow> ('act, 'w) station_raw" where
  "iwd_station_raw g s =
     \<lparr>sr_get_state = iwd_station_get_state s,
      sr_get_scanning = iwd_station_get_scanning s,
      sr_get_connected_network = iwd_station_get_connected_network g s,
      sr_get_connected_access_point = iwd_station_get_connected_access_point g s,
      sr_get_affinities = iwd_station_get_affinities g s,
      sr_get_properties = iwd_station_get_properties g s,
      sr_scan = iwd_station_scan s,
      sr_get_ordered_networks = iwd_station_get_ordered_networks g s,
      sr_set_affinities = iwd_station_set_affinities s,
      sr_disconnect = iwd_station_disconnect s,
      sr_connect_hidden_network = iwd_station_connect_hidden_network s,
      sr_get_hidden_access_points = iwd_station_get_hidden_access_points g s,
      sr_subscribe_properties_changed = iwd_station_subscribe_properties_changed s,
      sr_subscribe_state_changed = iwd_station_subscribe_state_changed s,
      sr_subscribe_scanning_changed = iwd_station_subscribe_scanning_changed s,
      sr_subscribe_connected_network_changed = iwd_station_subscribe_connected_network_changed g s,
      sr_subscribe_connected_access_point_changed = iwd_station_subscribe_connected_access_point_changed g s,
      sr_subscribe_affinities_changed = iwd_station_subscribe_affinities_changed g s\<rparr>"

record ('act, 'w) core_station =
  cs_raw :: "('act, 'w) station_raw option"

definition new_core_station :: "('act, 'w) station_raw option \<Rightarrow> ('act, 'w) core_station option" where
  "new_core_station raw = (case raw of None \<Rightarrow> None | Some r \<Rightarrow> Some \<lparr>cs_raw = Some r\<rparr>)"

definition raw_station ::
    "('act, 'w) core_station option \<Rightarrow> string \<Rightarrow> (gerror, 'u, ('act, 'w) station_raw) go" where
  "raw_station s op =
     (let nil_station = go_fail (wrap_invalid_state ResourceStation op ''station wrapper was nil''
                                  (Sentinel (NotInitializedS StationWrapper)))
      in case s of
           None \<Rightarrow> nil_station
         | Some s \<Rightarrow> (case cs_raw s of None \<Rightarrow> nil_station | Some raw \<Rightarrow> go_return raw))"

subsection \<open>Validation\<close>

text \<open>The \<open>%q\<close> of a value of one of the value sets quotes what its \<open>String\<close> method returns.\<close>

definition validate_station_state :: "string \<Rightarrow> station_state \<Rightarrow> gerror + station_state" where
  "validate_station_state op state =
     (if \<not> valid_station_state state
      then Inl (wrap_invalid_state ResourceStation op (sprintf ''station reported unknown state %q'' [station_state_string state])
                  (Errorf ''missing or invalid State field'' [] []))
      else Inr state)"

definition validate_network_type :: "resource \<Rightarrow> string \<Rightarrow> network_type \<Rightarrow> gerror + network_type" where
  "validate_network_type r op t =
     (if \<not> valid_network_type t
      then Inl (wrap_invalid_state r op (sprintf ''network reported unknown type %q'' [network_type_string t])
                  (Errorf ''missing or invalid Type field'' [] []))
      else Inr t)"

definition normalize_optional_string :: "string option \<Rightarrow> string option" where
  "normalize_optional_string p =
     (case p of
        None \<Rightarrow> None
      | Some s \<Rightarrow> (let trimmed = trim_space s in if trimmed = '''' then None else Some trimmed))"

definition core_parse_station_state :: "string \<Rightarrow> gerror + station_state" where
  "core_parse_station_state s =
     (case parse_station_state_value s of
        (state, ok) \<Rightarrow>
          if \<not> ok then Inl (CoreError KindInvalidArgument ResourceStation ''Station.ParseStationState''
                             (sprintf ''invalid station state %q'' [s]) (Sentinel ErrCore))
          else Inr state)"

subsection \<open>Property reads\<close>

definition core_station_state :: "('act, 'w) core_station option \<Rightarrow> (gerror, 'w, station_state) go" where
  "core_station_state s =
     go_bind (raw_station s ''Station.State'') (\<lambda>r.
     go_bind (go_wrap (wrap_station_unavailable ''Station.State'' ''failed querying iwd Station state'')
               (sr_get_state r)) (\<lambda>raw.
     go_lift (validate_station_state ''Station.State'' raw)))"

definition core_station_scanning :: "('act, 'w) core_station option \<Rightarrow> (gerror, 'w, bool) go" where
  "core_station_scanning s =
     go_bind (raw_station s ''Station.Scanning'') (\<lambda>r.
     go_wrap (wrap_station_unavailable ''Station.Scanning'' ''failed querying iwd Station scanning'')
       (sr_get_scanning r))"

definition core_station_connected_network ::
    "('act, 'w) core_station option \<Rightarrow> (gerror, 'w, string option) go" where
  "core_station_connected_network s =
     go_bind (raw_station s ''Station.ConnectedNetwork'') (\<lambda>r.
     go_bind (go_wrap (wrap_station_unavailable ''Station.ConnectedNetwork''
                        ''failed querying iwd Station connected network'')
               (sr_get_connected_network r)) (\<lambda>raw.
     go_return (normalize_optional_string raw)))"

definition core_station_connected_access_point ::
    "('act, 'w) core_station option \<Rightarrow> (gerror, 'w, string option) go" where
  "core_station_connected_access_point s =
     go_bind (raw_station s ''Station.ConnectedAccessPoint'') (\<lambda>r.
     go_bind (go_wrap (wrap_station_unavailable ''Station.ConnectedAccessPoint''
                        ''failed querying iwd Station connected access point'')
               (sr_get_connected_access_point r)) (\<lambda>raw.
     go_return (normalize_optional_string raw)))"

definition core_station_affinities ::
    "('act, 'w) core_station option \<Rightarrow> (gerror, 'w, string list option) go" where
  "core_station_affinities s =
     go_bind (raw_station s ''Station.Affinities'') (\<lambda>r.
     go_wrap (wrap_station_unavailable ''Station.Affinities'' ''failed querying iwd Station affinities'')
       (sr_get_affinities r))"

definition core_station_properties ::
    "('act, 'w) core_station option \<Rightarrow> (gerror, 'w, station_properties) go" where
  "core_station_properties s =
     go_bind (raw_station s ''Station.Properties'') (\<lambda>r.
     go_bind (go_wrap (wrap_station_unavailable ''Station.Properties'' ''failed querying iwd Station properties'')
               (sr_get_properties r)) (\<lambda>raw.
     go_bind (go_lift (validate_station_state ''Station.Properties'' (State raw))) (\<lambda>state.
     go_return \<lparr>State = state, Scanning = Scanning raw,
                ConnectedNetwork = normalize_optional_string (ConnectedNetwork raw),
                ConnectedAccessPoint = normalize_optional_string (ConnectedAccessPoint raw),
                Affinities = Affinities raw\<rparr>)))"

subsection \<open>Methods\<close>

definition core_station_scan :: "('act, 'w) core_station option \<Rightarrow> (gerror, 'w, unit) go" where
  "core_station_scan s =
     go_bind (raw_station s ''Station.Scan'') (\<lambda>r.
     go_wrap (wrap_station_unavailable ''Station.Scan'' ''failed scheduling iwd Station scan'') (sr_scan r))"

text \<open>One entry of the reply: the path is trimmed and must be absolute.\<close>

definition ordered_network :: "string \<times> int \<Rightarrow> gerror + string \<times> int" where
  "ordered_network n =
     (let path = trim_space (fst n) in
      if path = '''' \<or> \<not> absolute path
      then Inl (wrap_invalid_state ResourceStation ''Station.OrderedNetworks''
                  ''station returned invalid network path'' (Errorf ''invalid network path %q'' [fst n] []))
      else Inr (path, snd n))"

definition core_station_ordered_networks ::
    "('act, 'w) core_station option \<Rightarrow> (gerror, 'w, (string \<times> int) list) go" where
  "core_station_ordered_networks s =
     go_bind (raw_station s ''Station.OrderedNetworks'') (\<lambda>r.
     go_bind (go_wrap (wrap_station_unavailable ''Station.OrderedNetworks''
                        ''failed querying iwd Station ordered networks'') (sr_get_ordered_networks r)) (\<lambda>raw.
     go_lift (collect ordered_network raw)))"

definition affinity_argument :: "string \<Rightarrow> gerror + unit" where
  "affinity_argument p =
     (if trim_space p = '''' \<or> \<not> absolute p
      then Inl (wrap_invalid_argument ResourceStation ''Station.SetAffinities''
                  ''affinity path must be a non-empty absolute object path''
                  (Errorf ''invalid affinity path %q'' [p] []))
      else Inr ())"

definition core_station_set_affinities ::
    "('act, 'w) core_station option \<Rightarrow> string list \<Rightarrow> (gerror, 'w, unit) go" where
  "core_station_set_affinities s paths =
     go_bind (raw_station s ''Station.SetAffinities'') (\<lambda>r.
     go_bind (go_lift (collect affinity_argument paths)) (\<lambda>_.
     go_wrap (wrap_station_unavailable ''Station.SetAffinities'' ''failed setting iwd Station affinities'')
       (sr_set_affinities r paths)))"

definition core_station_disconnect :: "('act, 'w) core_station option \<Rightarrow> (gerror, 'w, unit) go" where
  "core_station_disconnect s =
     go_bind (raw_station s ''Station.Disconnect'') (\<lambda>r.
     go_wrap (wrap_station_unavailable ''Station.Disconnect'' ''failed disconnecting iwd Station'')
       (sr_disconnect r))"

definition core_station_connect_hidden_network ::
    "('act, 'w) core_station option \<Rightarrow> string \<Rightarrow> (gerror, 'w, unit) go" where
  "core_station_connect_hidden_network s name =
     go_bind (raw_station s ''Station.ConnectHiddenNetwork'') (\<lambda>r.
     if trim_space name = ''''
     then go_fail (wrap_invalid_argument ResourceStation ''Station.ConnectHiddenNetwork''
                     ''network name cannot be empty'' (Errorf ''empty network name'' [] []))
     else go_wrap (wrap_station_unavailable ''Station.ConnectHiddenNetwork''
                    ''failed connecting iwd Station to hidden network'')
            (sr_connect_hidden_network r name))"

definition core_hidden_ap :: "hidden_access_point \<Rightarrow> gerror + hidden_access_point" where
  "core_hidden_ap ap =
     try_bind (validate_network_type ResourceStation ''Station.HiddenAccessPoints'' (hap_type ap)) (\<lambda>t.
     Inr \<lparr>hap_address = trim_space (hap_address ap), hap_strength = hap_strength ap, hap_type = t\<rparr>)"

definition core_station_hidden_access_points ::
    "('act, 'w) core_station option \<Rightarrow> (gerror, 'w, hidden_access_point list) go" where
  "core_station_hidden_access_points s =
     go_bind (raw_station s ''Station.HiddenAccessPoints'') (\<lambda>r.
     go_bind (go_wrap (wrap_station_unavailable ''Station.HiddenAccessPoints''
                        ''failed querying iwd Station hidden access points'')
               (sr_get_hidden_access_points r)) (\<lambda>raw.
     go_lift (collect core_hidden_ap raw)))"

subsection \<open>Subscriptions\<close>

definition core_station_subscribe ::
    "('act, 'w) core_station option \<Rightarrow> string
      \<Rightarrow> (('act, 'w) station_raw \<Rightarrow> ('v \<Rightarrow> 'act list) option \<Rightarrow> (gerror, ('act, 'w) subs_state, subscription) go)
      \<Rightarrow> ('v \<Rightarrow> 'act list) option \<Rightarrow> (gerror, ('act, 'w) subs_state, subscription) go" where
  "core_station_subscribe s op raw_subscribe fn =
     go_bind (raw_station s op) (\<lambda>r.
     case fn of
       None \<Rightarrow> go_fail (wrap_invalid_argument ResourceStation op ''callback cannot be nil'' (Sentinel ErrCore))
     | Some f \<Rightarrow>
         go_wrap (wrap_station_unavailable op ''failed to call iwd Station subscribe method'')
           (raw_subscribe r (Some f)))"

text \<open>
  The event core hands on: a fresh map of the variants' values (which \<open>Changed\<close> already
  holds here) and a copy of the invalidated names, nil staying nil.
\<close>

definition core_properties_changed :: "properties_changed \<Rightarrow> properties_changed" where
  "core_properties_changed raw =
     \<lparr>pc_changed = map (\<lambda>(k, v). (k, v)) (pc_changed raw),
      pc_invalidated = (case pc_invalidated raw of None \<Rightarrow> None | Some names \<Rightarrow> Some names)\<rparr>"

definition core_station_subscribe_properties_changed ::
    "('act, 'w) core_station option \<Rightarrow> (properties_changed \<Rightarrow> 'act list) option
      \<Rightarrow> (gerror, ('act, 'w) subs_state, subscription) go" where
  "core_station_subscribe_properties_changed s fn =
     core_station_subscribe s ''Station.SubscribePropertiesChanged'' sr_subscribe_properties_changed
       (case fn of None \<Rightarrow> None | Some f \<Rightarrow> Some (\<lambda>raw. f (core_properties_changed raw)))"

definition core_station_subscribe_state_changed ::
    "('act, 'w) core_station option \<Rightarrow> (station_state \<Rightarrow> 'act list) option
      \<Rightarrow> (gerror, ('act, 'w) subs_state, subscription) go" where
  "core_station_subscribe_state_changed s fn =
     core_station_subscribe s ''Station.SubscribeStateChanged'' sr_subscribe_state_changed fn"

definition core_station_subscribe_scanning_changed ::
    "('act, 'w) core_station option \<Rightarrow> (bool \<Rightarrow> 'act list) option
      \<Rightarrow> (gerror, ('act, 'w) subs_state, subscription) go" where
  "core_station_subscribe_scanning_changed s fn =
     core_station_subscribe s ''Station.SubscribeScanningChanged'' sr_subscribe_scanning_changed fn"

definition core_station_subscribe_connected_network_changed ::
    "('act, 'w) core_station option \<Rightarrow> (string option \<Rightarrow> 'act list) option
      \<Rightarrow> (gerror, ('act, 'w) subs_state, subscription) go" where
  "core_station_subscribe_connected_network_changed s fn =
     core_station_subscribe s ''Station.SubscribeConnectedNetworkChanged''
       sr_subscribe_connected_network_changed fn"

definition core_station_subscribe_connected_access_point_changed ::
    "('act, 'w) core_station option \<Rightarrow> (string option \<Rightarrow> 'act list) option
      \<Rightarrow> (gerror, ('act, 'w) subs_state, subscription) go" where
  "core_station_subscribe_connected_access_point_changed s fn =
     core_station_subscribe s ''Station.SubscribeConnectedAccessPointChanged''
       sr_subscribe_connected_access_point_changed fn"

definition core_station_subscribe_affinities_changed ::
    "('act, 'w) core_station option \<Rightarrow> (string list option \<Rightarrow> 'act list) option
      \<Rightarrow> (gerror, ('act, 'w) subs_state, subscription) go" where
  "core_station_subscribe_affinities_changed s fn =
     core_station_subscribe s ''Station.SubscribeAffinitiesChanged''
       sr_subscribe_affinities_changed fn"

lemmas core_station_read_defs =
  core_station_state_def core_station_scanning_def core_station_connected_network_def
  core_station_connected_access_point_def core_station_affinities_def

lemmas core_station_method_defs =
  core_station_scan_def core_station_disconnect_def core_station_connect_hidden_network_def
  core_station_ordered_networks_def core_station_hidden_access_points_def
  core_station_set_affinities_def

lemma raw_station_simps [simp, go_simps]:
  "raw_station None op =
     go_fail (wrap_invalid_state ResourceStation op ''station wrapper was nil''
               (Sentinel (NotInitializedS StationWrapper)))"
  "raw_station (Some \<lparr>cs_raw = Some r\<rparr>) op = go_return r"
  by (simp_all add: raw_station_def)

lemma new_core_station_Some [simp]: "new_core_station (Some r) = Some \<lparr>cs_raw = Some r\<rparr>"
  by (simp add: new_core_station_def)

lemma core_properties_changed_id [simp]: "core_properties_changed ev = ev"
  by (simp add: core_properties_changed_def split: option.splits)

end
