(* ===== verification/Table_Bus.thy ===== *)
theory Table_Bus
  imports Bus
begin

text \<open>
  A small bus to run the model on: one object whose interfaces and properties are a table. It
  answers \<open>Get\<close> and \<open>GetAll\<close> from the table, an absent property with iwd's unknown-property
  error, and method calls with a given reply. It stands for godbus and iwd in the concrete
  instances of the properties; nothing else depends on it.
\<close>

fun table_object :: "dval \<Rightarrow> string \<times> interfaces" where
  "table_object (VAnys [VPath p, VStr i, VVarMap props]) = (p, [(i, props)])"
| "table_object _ = ('''', [])"

definition table_godbus :: godbus where
  "table_godbus =
     \<lparr>path_ok = (\<lambda>p. absolute p \<and> list_all plain p),
      store_variant = (\<lambda>body. case body of [VVariant v] \<Rightarrow> Inr v | _ \<Rightarrow> Inl (OtherErr ''store'')),
      store_props = (\<lambda>body. case body of [VVarMap m] \<Rightarrow> Inr m | _ \<Rightarrow> Inl (OtherErr ''store'')),
      store_objects = (\<lambda>body. case body of [VAnys vs] \<Rightarrow> Inr (map table_object vs) | _ \<Rightarrow> Inl (OtherErr ''store'')),
      store_networks = (\<lambda>body. case body of [VStr p] \<Rightarrow> Inr [(p, - 60)] | _ \<Rightarrow> Inl (OtherErr ''store'')),
      store_hidden = (\<lambda>body. case body of [VStr a, VStr t] \<Rightarrow> Inr [(a, - 60, t)] | _ \<Rightarrow> Inl (OtherErr ''store'')),
      store_dicts = (\<lambda>body. case body of [VVarMap m] \<Rightarrow> Inr [m] | _ \<Rightarrow> Inl (OtherErr ''store'')),
      store_string = (\<lambda>body. case body of [VStr s] \<Rightarrow> Inr s | _ \<Rightarrow> Inl (OtherErr ''store''))\<rparr>"

definition table_caller ::
    "interfaces \<Rightarrow> (string \<Rightarrow> dval list \<Rightarrow> raw_err + dval list) \<Rightarrow> 'w caller" where
  "table_caller ifaces reply =
     \<lparr>c_call = (\<lambda>i m args. go_wrap (\<lambda>r. wrap_method i m (Foreign r)) (go_lift (reply m args))),
      c_get_property = (\<lambda>i p.
        case map_of ifaces i of
          None \<Rightarrow> go_fail (OtherErr ''no such interface'')
        | Some props \<Rightarrow>
            (case map_of props p of
               None \<Rightarrow> go_fail (OtherErr ''Getting property value failed'')
             | Some v \<Rightarrow> go_return v)),
      c_get_all = (\<lambda>i.
        case map_of ifaces i of
          None \<Rightarrow> go_fail (OtherErr ''no such interface'')
        | Some props \<Rightarrow> go_return props),
      c_set_property = (\<lambda>i p v. go_return ()),
      c_has_interface = (\<lambda>i. i \<in> fst ` set ifaces)\<rparr>"

definition table_conn ::
    "interfaces \<Rightarrow> (string \<Rightarrow> dval list \<Rightarrow> raw_err + dval list) \<Rightarrow> 'w conn" where
  "table_conn ifaces reply =
     \<lparr>conn_introspect = (\<lambda>_ _. go_return (map fst ifaces)),
      conn_call = (\<lambda>_ _ m args. go_lift (reply m args)),
      conn_export = (\<lambda>_ _ _. go_return ()),
      conn_signal = (\<lambda>_ w. w),
      conn_remove_signal = (\<lambda>_ w. w),
      conn_close = go_return ()\<rparr>"

lemma absent_property_error: "is_unknown_property_error (OtherErr ''Getting property value failed'')"
  by code_simp

lemma table_godbus_simps [simp]:
  "path_ok table_godbus p \<longleftrightarrow> absolute p \<and> list_all plain p"
  "store_networks table_godbus [VStr p] = Inr [(p, - 60)]"
  "store_hidden table_godbus [VStr a, VStr t] = Inr [(a, - 60, t)]"
  "store_objects table_godbus [VAnys vs] = Inr (map table_object vs)"
  by (simp_all add: table_godbus_def)

lemma table_caller_simps [simp]:
  "c_call (table_caller ifaces reply) i m args =
     go_wrap (\<lambda>r. wrap_method i m (Foreign r)) (go_lift (reply m args))"
  "c_get_all (table_caller ifaces reply) i =
     (case map_of ifaces i of
        None \<Rightarrow> go_fail (OtherErr ''no such interface'')
      | Some props \<Rightarrow> go_return props)"
  "c_set_property (table_caller ifaces reply) i p v = go_return ()"
  by (simp_all add: table_caller_def)

end
