(* ===== verification/Reports.thy ===== *)
theory Reports
  imports Table_Bus
begin

text \<open>
  Buses that hold one state of an object: what single reads and a read of everything give on them,
  and what a write followed by a read gives. The properties about agreeing reads and about round
  trips of settings assume such a bus.
\<close>

text \<open>
  The bus reports one state of the interface: \<open>GetAll\<close> returns the table \<open>tab\<close>, \<open>Get\<close> its
  entries, and a \<open>Get\<close> of a property that is absent fails with one of iwd's unknown-property errors.
\<close>

definition reports :: "'w caller \<Rightarrow> string \<Rightarrow> properties \<Rightarrow> 'w \<Rightarrow> bool" where
  "reports c iface tab w \<longleftrightarrow>
     c_get_all c iface w = (Inr tab, w)
     \<and> (\<forall>name. case map_of tab name of
           Some v \<Rightarrow> c_get_property c iface name w = (Inr v, w)
         | None \<Rightarrow> (\<exists>r. is_unknown_property_error r \<and> c_get_property c iface name w = (Inl r, w)))"

lemma reports_all: "reports c iface tab w \<Longrightarrow> c_get_all c iface w = (Inr tab, w)"
  by (simp add: reports_def)

lemma reports_Some: "reports c iface tab w \<Longrightarrow> map_of tab name = Some v \<Longrightarrow> c_get_property c iface name w = (Inr v, w)"
  by (auto simp: reports_def dest!: spec [where x = name])

lemma reports_None:
  assumes "reports c iface tab w" and "map_of tab name = None"
  obtains r where "is_unknown_property_error r" and "c_get_property c iface name w = (Inl r, w)"
  using assms that by (auto simp: reports_def dest!: spec [where x = name])

lemma read_property_reports:
  assumes "reports c iface tab w"
  shows "read_property c iface name w = (Inr v, w') \<longleftrightarrow> w' = w \<and> map_of tab name = Some v"
proof (cases "map_of tab name")
  case None
  from reports_None [OF assms None] obtain r where "c_get_property c iface name w = (Inl r, w)" .
  with None show ?thesis by (simp add: read_property_def go_wrap_Inl)
next
  case (Some u)
  then show ?thesis
    using reports_Some [OF assms Some] by (auto simp: read_property_def go_wrap_Inr)
qed

lemma read_optional_reports:
  assumes "reports c iface tab w"
  shows "read_optional_property c iface name w = (Inr (map_of tab name), w)"
proof (cases "map_of tab name")
  case None
  from reports_None [OF assms None] obtain r
    where "is_unknown_property_error r" "c_get_property c iface name w = (Inl r, w)" .
  with None show ?thesis by (simp add: read_optional_property_def)
next
  case (Some u)
  then show ?thesis
    using reports_Some [OF assms Some] by (simp add: read_optional_property_def)
qed

text \<open>A setting of the interface that succeeded is what the next read of that property gives.\<close>

definition keeps :: "'w caller \<Rightarrow> string \<Rightarrow> bool" where
  "keeps c iface \<longleftrightarrow>
     (\<forall>field v w w'. c_set_property c iface field v w = (Inr (), w') \<longrightarrow>
        c_get_property c iface field w' = (Inr v, w'))"

lemma keeps_read:
  "keeps c iface \<Longrightarrow> c_set_property c iface field v w = (Inr (), w') \<Longrightarrow>
     read_property c iface field w' = (Inr v, w')"
  by (simp add: keeps_def read_property_def go_wrap_Inr)

lemma new_object_Inr:
  assumes "new_object g conn iface path w = (Inr c, w')"
  obtains i where "c = as_caller g i" and "io_conn i = conn" and "io_bus_name i = IwdService"
    and "io_path i = path"
  using assms
  by (auto simp: new_object_def new_introspected_object_def go_wrap_Inr_iff go_bind_Inr_iff split: if_splits)

end
