(* ===== verification/Station.thy ===== *)
theory Station
  imports Station_Core Reports
begin

text \<open>
  What the two layers of a station promise: the contract of a station backend, proved for the iwd
  wrapper, and the properties of the core operations over it.
\<close>

subsection \<open>The contract of a backend\<close>

lemma core_hidden_ap_pass: "valid_network_type (hap_type ap) \<Longrightarrow> core_hidden_ap ap \<noteq> Inl x"
  by (simp add: core_hidden_ap_def validate_network_type_def)

lemma core_hidden_aps_pass:
  assumes "list_all (\<lambda>ap. valid_network_type (hap_type ap)) aps"
  shows "collect core_hidden_ap aps \<noteq> Inl x"
  using assms collect_Inl [of core_hidden_ap aps x] core_hidden_ap_pass by auto

text \<open>
  Core validates what its backend returns; a backend with these laws never fails that
  validation, so that every error a caller sees is one the bus or a parser reported.
\<close>

locale station_backend =
  fixes raw :: "('act, 'w) station_raw"
  assumes state_ok: "sr_get_state raw w = (Inr v, w') \<Longrightarrow> valid_station_state v"
    and properties_ok: "sr_get_properties raw w = (Inr p, w') \<Longrightarrow> valid_station_state (State p)"
    and hidden_ok: "sr_get_hidden_access_points raw w = (Inr aps, w')
      \<Longrightarrow> list_all (\<lambda>ap. valid_network_type (hap_type ap)) aps"
begin

lemma state_passes:
  "core_station_state (new_core_station (Some raw)) =
     go_wrap (wrap_station_unavailable ''Station.State'' ''failed querying iwd Station state'') (sr_get_state raw)"
proof
  fix w
  obtain r w1 where r: "sr_get_state raw w = (r, w1)" by fastforce
  show "core_station_state (new_core_station (Some raw)) w =
      go_wrap (wrap_station_unavailable ''Station.State'' ''failed querying iwd Station state'') (sr_get_state raw) w"
  proof (cases r)
    case (Inl e)
    with r show ?thesis by (simp add: core_station_state_def go_bind_Inl go_wrap_Inl)
  next
    case (Inr v)
    with r have "valid_station_state v" by (simp add: state_ok)
    with r Inr show ?thesis
      by (simp add: core_station_state_def go_bind_Inr go_wrap_Inr validate_station_state_def)
  qed
qed

lemma hidden_passes:
  assumes "core_station_hidden_access_points (new_core_station (Some raw)) w = (Inl e, w')"
  obtains e' where "sr_get_hidden_access_points raw w = (Inl e', w')"
proof -
  obtain r w1 where r: "sr_get_hidden_access_points raw w = (r, w1)" by fastforce
  show ?thesis
  proof (cases r)
    case (Inl e')
    with assms r that show ?thesis
      by (simp add: core_station_hidden_access_points_def go_wrap_Inl go_bind_Inl)
  next
    case (Inr aps)
    with assms r core_hidden_aps_pass [OF hidden_ok] show ?thesis
      by (simp add: core_station_hidden_access_points_def go_wrap_Inr go_bind_Inr go_lift_iff)
  qed
qed

end

lemma hidden_ap_Inr: "hidden_ap t = Inr ap \<Longrightarrow> valid_network_type (hap_type ap)"
  by (cases t) (auto simp: hidden_ap_def parse_network_type_Inr_iff elim!: try_bind_InrE)

lemma collect_hidden_ap: "collect hidden_ap ts = Inr aps \<Longrightarrow> list_all (\<lambda>ap. valid_network_type (hap_type ap)) aps"
  by (auto simp: collect_Inr_iff list_all2_conv_all_nth list_all_length dest: hidden_ap_Inr)

lemma decode_station_properties_Inr:
  "decode_station_properties g raw = Inr p \<longleftrightarrow>
     (\<exists>sv bv. map_of raw ''State'' = Some sv \<and> parse_station_state sv = Inr (State p)
        \<and> map_of raw ''Scanning'' = Some bv \<and> expect_bool ''Scanning'' bv = Inr (Scanning p))
     \<and> optional_field raw ''ConnectedNetwork'' (parse_station_object_path (path_ok g) ''ConnectedNetwork'')
         = Inr (ConnectedNetwork p)
     \<and> optional_field raw ''ConnectedAccessPoint'' (parse_station_object_path (path_ok g) ''ConnectedAccessPoint'')
         = Inr (ConnectedAccessPoint p)
     \<and> optional_field raw ''Affinities'' (parse_station_affinities (path_ok g)) = Inr (Affinities p)"
  by (cases p) (auto simp: decode_station_properties_def required_Inr_iff try_bind_Inr_iff)

interpretation iwd_backend: station_backend "iwd_station_raw g s" for g s
proof
  fix w v w'
  assume "sr_get_state (iwd_station_raw g s) w = (Inr v, w')"
  then show "valid_station_state v"
    by (auto simp: iwd_station_raw_def iwd_station_get_state_def go_lift_def parse_station_state_Inr_iff
        elim!: go_bind_InrE)
next
  fix w p w'
  assume "sr_get_properties (iwd_station_raw g s) w = (Inr p, w')"
  then show "valid_station_state (State p)"
    by (auto simp: iwd_station_raw_def iwd_station_get_properties_def go_lift_def
        decode_station_properties_Inr parse_station_state_Inr_iff elim!: go_bind_InrE)
next
  fix w aps w'
  assume "sr_get_hidden_access_points (iwd_station_raw g s) w = (Inr aps, w')"
  then show "list_all (\<lambda>ap. valid_network_type (hap_type ap)) aps"
    by (auto simp: iwd_station_raw_def iwd_station_get_hidden_access_points_def go_lift_def
        elim!: go_bind_InrE dest: collect_hidden_ap)
qed

subsection \<open>One read of everything agrees with the single reads\<close>

abbreviation live_station :: "'w caller \<Rightarrow> ('act, 'w) signals \<Rightarrow> ('act, 'w) iwd_station" where
  "live_station c ss \<equiv> \<lparr>st_call = Some c, st_signals = ss\<rparr>"

lemma iwd_reads_report:
  assumes "reports c IwdStationIface tab w"
  shows "iwd_station_get_state (live_station c ss) w = (Inr v, w') \<longleftrightarrow>
           w' = w \<and> (\<exists>sv. map_of tab ''State'' = Some sv \<and> parse_station_state sv = Inr v)"
    and "iwd_station_get_scanning (live_station c ss) w = (Inr b, w') \<longleftrightarrow>
           w' = w \<and> (\<exists>bv. map_of tab ''Scanning'' = Some bv \<and> expect_bool ''Scanning'' bv = Inr b)"
    and "iwd_station_get_connected_network g (live_station c ss) w = (Inr r, w') \<longleftrightarrow>
           w' = w \<and> optional_field tab ''ConnectedNetwork''
             (parse_station_object_path (path_ok g) ''ConnectedNetwork'') = Inr r"
    and "iwd_station_get_connected_access_point g (live_station c ss) w = (Inr r, w') \<longleftrightarrow>
           w' = w \<and> optional_field tab ''ConnectedAccessPoint''
             (parse_station_object_path (path_ok g) ''ConnectedAccessPoint'') = Inr r"
    and "iwd_station_get_affinities g (live_station c ss) w = (Inr ps, w') \<longleftrightarrow>
           w' = w \<and> optional_field tab ''Affinities'' (parse_station_affinities (path_ok g)) = Inr ps"
    and "iwd_station_get_properties g (live_station c ss) w = (Inr p, w') \<longleftrightarrow>
           w' = w \<and> decode_station_properties g tab = Inr p"
  using reports_all [OF assms(1)]
  by (auto simp: iwd_station_read_defs iwd_station_get_properties_def
      read_optional_reports [OF assms(1)] optional_field_def go_bind_Inr_iff go_lift_iff
      read_property_reports [OF assms(1)] read_all_def go_wrap_Inr_iff split: option.splits)

abbreviation core_station_on :: "godbus \<Rightarrow> ('act, 'w) iwd_station \<Rightarrow> ('act, 'w) core_station option" where
  "core_station_on g s \<equiv> new_core_station (Some (iwd_station_raw g s))"

lemma validate_station_state_Inr_iff:
  "validate_station_state op s = Inr t \<longleftrightarrow> t = s \<and> valid_station_state s"
  by (auto simp: validate_station_state_def)

text \<open>
  When the bus reports one state of the interface, \<open>Properties\<close> (a single \<open>GetAll\<close>) succeeds
  exactly when all five single-property getters do, and then returns exactly what they return.
\<close>

theorem station_properties_agree_with_the_getters:
  assumes "reports c IwdStationIface tab w"
  shows "core_station_properties (core_station_on g (live_station c ss)) w = (Inr p, w) \<longleftrightarrow>
           core_station_state (core_station_on g (live_station c ss)) w = (Inr (State p), w)
         \<and> core_station_scanning (core_station_on g (live_station c ss)) w = (Inr (Scanning p), w)
         \<and> core_station_connected_network (core_station_on g (live_station c ss)) w = (Inr (ConnectedNetwork p), w)
         \<and> core_station_connected_access_point (core_station_on g (live_station c ss)) w
             = (Inr (ConnectedAccessPoint p), w)
         \<and> core_station_affinities (core_station_on g (live_station c ss)) w = (Inr (Affinities p), w)"
  (is "?props \<longleftrightarrow> ?state \<and> ?scanning \<and> ?network \<and> ?ap \<and> ?affinities")
proof -
  let ?path = "\<lambda>name. optional_field tab name (parse_station_object_path (path_ok g) name)"
  have props: "?props \<longleftrightarrow> (\<exists>q. decode_station_properties g tab = Inr q \<and> valid_station_state (State q)
      \<and> p = \<lparr>State = State q, Scanning = Scanning q,
             ConnectedNetwork = normalize_optional_string (ConnectedNetwork q),
             ConnectedAccessPoint = normalize_optional_string (ConnectedAccessPoint q),
             Affinities = Affinities q\<rparr>)"
    by (auto simp: core_station_properties_def iwd_station_raw_def go_bind_Inr_iff
        go_wrap_Inr_iff go_lift_iff validate_station_state_Inr_iff iwd_reads_report [OF assms])
  have state: "?state \<longleftrightarrow> valid_station_state (State p)
      \<and> (\<exists>sv. map_of tab ''State'' = Some sv \<and> parse_station_state sv = Inr (State p))"
    by (auto simp: core_station_state_def iwd_station_raw_def go_bind_Inr_iff
        go_wrap_Inr_iff go_lift_iff validate_station_state_Inr_iff iwd_reads_report [OF assms])
  have scanning: "?scanning \<longleftrightarrow>
      (\<exists>bv. map_of tab ''Scanning'' = Some bv \<and> expect_bool ''Scanning'' bv = Inr (Scanning p))"
    by (simp add: core_station_scanning_def iwd_station_raw_def go_wrap_Inr_iff iwd_reads_report [OF assms])
  have network: "?network \<longleftrightarrow>
      (\<exists>r. ?path ''ConnectedNetwork'' = Inr r \<and> ConnectedNetwork p = normalize_optional_string r)"
    by (auto simp: core_station_connected_network_def iwd_station_raw_def go_bind_Inr_iff
        go_wrap_Inr_iff iwd_reads_report [OF assms])
  have ap: "?ap \<longleftrightarrow>
      (\<exists>r. ?path ''ConnectedAccessPoint'' = Inr r \<and> ConnectedAccessPoint p = normalize_optional_string r)"
    by (auto simp: core_station_connected_access_point_def iwd_station_raw_def go_bind_Inr_iff
        go_wrap_Inr_iff iwd_reads_report [OF assms])
  have affinities: "?affinities \<longleftrightarrow>
      optional_field tab ''Affinities'' (parse_station_affinities (path_ok g)) = Inr (Affinities p)"
    by (simp add: core_station_affinities_def iwd_station_raw_def go_wrap_Inr_iff iwd_reads_report [OF assms])
  show ?thesis
    unfolding props state scanning network ap affinities decode_station_properties_Inr
  proof (intro iffI; elim exE conjE)
    fix sv bv r ra
    assume "?path ''ConnectedNetwork'' = Inr r" "ConnectedNetwork p = normalize_optional_string r"
      "?path ''ConnectedAccessPoint'' = Inr ra" "ConnectedAccessPoint p = normalize_optional_string ra"
      "valid_station_state (State p)"
      "map_of tab ''State'' = Some sv" "parse_station_state sv = Inr (State p)"
      "map_of tab ''Scanning'' = Some bv" "expect_bool ''Scanning'' bv = Inr (Scanning p)"
      "optional_field tab ''Affinities'' (parse_station_affinities (path_ok g)) = Inr (Affinities p)"
    then show "\<exists>q :: station_properties. (((\<exists>sv bv. map_of tab ''State'' = Some sv \<and> parse_station_state sv = Inr (State q)
          \<and> map_of tab ''Scanning'' = Some bv \<and> expect_bool ''Scanning'' bv = Inr (Scanning q))
        \<and> ?path ''ConnectedNetwork'' = Inr (ConnectedNetwork q)
        \<and> ?path ''ConnectedAccessPoint'' = Inr (ConnectedAccessPoint q)
        \<and> optional_field tab ''Affinities'' (parse_station_affinities (path_ok g)) = Inr (Affinities q))
      \<and> valid_station_state (State q)
      \<and> p = \<lparr>State = State q, Scanning = Scanning q,
             ConnectedNetwork = normalize_optional_string (ConnectedNetwork q),
             ConnectedAccessPoint = normalize_optional_string (ConnectedAccessPoint q),
             Affinities = Affinities q\<rparr>)"
      by - (rule exI [where x = "p\<lparr>ConnectedNetwork := r, ConnectedAccessPoint := ra\<rparr>"], cases p, auto)
  qed auto
qed

subsection \<open>Arguments and results\<close>

lemma affinity_argument_Inr [simp]:
  "affinity_argument p = Inr u \<longleftrightarrow> trim_space p \<noteq> [] \<and> absolute p"
  by (simp add: affinity_argument_def)

lemma collect_affinity_argument:
  assumes "\<exists>p \<in> set paths. trim_space p = [] \<or> \<not> absolute p"
  obtains p where "collect affinity_argument paths =
      Inl (wrap_invalid_argument ResourceStation ''Station.SetAffinities''
        ''affinity path must be a non-empty absolute object path'' (Errorf ''invalid affinity path %q'' [p] []))"
proof (cases "collect affinity_argument paths")
  case (Inl e)
  from collect_Inl [OF Inl] obtain p where "affinity_argument p = Inl e" by blast
  then have "e = wrap_invalid_argument ResourceStation ''Station.SetAffinities''
      ''affinity path must be a non-empty absolute object path'' (Errorf ''invalid affinity path %q'' [p] [])"
    by (simp add: affinity_argument_def split: if_splits)
  with Inl show ?thesis by (intro that) simp
next
  case (Inr us)
  then have "\<forall>p \<in> set paths. trim_space p \<noteq> [] \<and> absolute p"
    by (auto simp: collect_Inr_iff list_all2_conv_all_nth in_set_conv_nth)
  with assms show ?thesis by auto
qed

lemma public_invalid_argument:
  "errors_is (wrap_public_error pop (wrap_invalid_argument res op d (Errorf f args []))) s
     \<longleftrightarrow> s \<in> {ErrSpiderw, ErrInvalidArgument, ErrCore}"
  by (auto simp: wpub.wrap_is public_adds_def wrap_invalid_argument_def new_error_def)

text \<open>
  A relative or blank affinity path, or a blank network name, is refused with an error of the
  invalid-argument category and nothing is sent to the bus, even when the other paths are good.
\<close>

theorem bad_station_arguments_never_reach_the_bus:
  assumes "\<exists>p \<in> set paths. trim_space p = [] \<or> \<not> absolute p" and "trim_space name = []"
  shows "\<exists>e e'. core_station_set_affinities (new_core_station (Some raw)) paths w = (Inl e, w)
         \<and> core_station_connect_hidden_network (new_core_station (Some raw)) name w = (Inl e', w)
         \<and> errors_is (wrap_public_error pop e) ErrInvalidArgument
         \<and> errors_is (wrap_public_error pop e') ErrInvalidArgument"
proof -
  obtain p where "collect affinity_argument paths =
      Inl (wrap_invalid_argument ResourceStation ''Station.SetAffinities''
        ''affinity path must be a non-empty absolute object path'' (Errorf ''invalid affinity path %q'' [p] []))"
    using collect_affinity_argument [OF assms(1)] .
  then show ?thesis
    using assms(2)
    by (simp add: core_station_set_affinities_def core_station_connect_hidden_network_def
        public_invalid_argument)
qed

lemma ordered_network_Inr_iff:
  "ordered_network n = Inr m \<longleftrightarrow> m = (trim_space (fst n), snd n) \<and> absolute (trim_space (fst n))"
  by (auto simp: ordered_network_def Let_def)

lemma collect_ordered_network:
  "collect ordered_network ms = Inr ns \<Longrightarrow>
     ns = map (\<lambda>(p, x). (trim_space p, x)) ms \<and> (\<forall>(p, x) \<in> set ns. absolute p)"
  by (induction ms arbitrary: ns) (auto simp: try_bind_Inr_iff ordered_network_Inr_iff)

lemma core_hidden_ap_Inr:
  "core_hidden_ap b = Inr ap \<Longrightarrow>
     hap_strength ap = hap_strength b \<and> hap_type ap = hap_type b \<and> valid_network_type (hap_type ap)"
  by (auto simp: core_hidden_ap_def validate_network_type_def split: if_splits)

lemma collect_core_hidden_ap:
  "collect core_hidden_ap bs = Inr aps \<Longrightarrow>
     map (\<lambda>ap. (hap_strength ap, hap_type ap)) aps = map (\<lambda>ap. (hap_strength ap, hap_type ap)) bs
     \<and> (\<forall>ap \<in> set aps. valid_network_type (hap_type ap))"
  by (induction bs arbitrary: aps) (auto simp: try_bind_Inr_iff dest: core_hidden_ap_Inr)

text \<open>
  What a station's results promise, whatever the backend returned: a reported state is one of
  the five iwd states; the ordered networks keep iwd's order and strengths, one for one, each with a
  trimmed absolute path; every hidden access point keeps its place and strength and has a
  recognised security type.
\<close>

theorem station_results_are_validated:
  "(core_station_state s w = (Inr st, w') \<longrightarrow>
      st \<in> {StationStateConnected, StationStateDisconnected, StationStateConnecting,
            StationStateDisconnecting, StationStateRoaming})
   \<and> (core_station_ordered_networks (new_core_station (Some raw)) w = (Inr ns, w') \<longrightarrow>
       (\<exists>ms. sr_get_ordered_networks raw w = (Inr ms, w') \<and> ns = map (\<lambda>(p, x). (trim_space p, x)) ms)
       \<and> (\<forall>(p, x) \<in> set ns. absolute p))
   \<and> (core_station_hidden_access_points (new_core_station (Some raw)) w = (Inr aps, w') \<longrightarrow>
       (\<exists>bs. sr_get_hidden_access_points raw w = (Inr bs, w')
          \<and> map (\<lambda>ap. (hap_strength ap, hap_type ap)) aps = map (\<lambda>ap. (hap_strength ap, hap_type ap)) bs)
       \<and> (\<forall>ap \<in> set aps. valid_network_type (hap_type ap)))"
proof (intro conjI impI)
  assume "core_station_state s w = (Inr st, w')"
  then show "st \<in> {StationStateConnected, StationStateDisconnected, StationStateConnecting,
      StationStateDisconnecting, StationStateRoaming}"
    by (auto simp: core_station_state_def go_bind_Inr_iff go_lift_iff validate_station_state_Inr_iff
        valid_station_state_def)
next
  assume "core_station_ordered_networks (new_core_station (Some raw)) w = (Inr ns, w')"
  then obtain ms where ms: "sr_get_ordered_networks raw w = (Inr ms, w')"
    and ns: "collect ordered_network ms = Inr ns"
    by (auto simp: core_station_ordered_networks_def go_bind_Inr_iff go_wrap_Inr_iff go_lift_iff)
  from collect_ordered_network [OF ns] ms
  show "\<exists>ms. sr_get_ordered_networks raw w = (Inr ms, w') \<and> ns = map (\<lambda>(p, x). (trim_space p, x)) ms"
    and "\<forall>(p, x) \<in> set ns. absolute p"
    by auto
next
  assume "core_station_hidden_access_points (new_core_station (Some raw)) w = (Inr aps, w')"
  then obtain bs where bs: "sr_get_hidden_access_points raw w = (Inr bs, w')"
    and aps: "collect core_hidden_ap bs = Inr aps"
    by (auto simp: core_station_hidden_access_points_def go_bind_Inr_iff go_wrap_Inr_iff go_lift_iff)
  from collect_core_hidden_ap [OF aps] bs
  show "\<exists>bs. sr_get_hidden_access_points raw w = (Inr bs, w')
      \<and> map (\<lambda>ap. (hap_strength ap, hap_type ap)) aps = map (\<lambda>ap. (hap_strength ap, hap_type ap)) bs"
    and "\<forall>ap \<in> set aps. valid_network_type (hap_type ap)"
    by auto
qed

subsection \<open>Failed method calls\<close>

lemma station_method_fails:
  assumes "iwd_new_station g conn add path w0 = (Inr s, w1)"
    and "station_method s m args w = (Inl e, w')"
  obtains r where "conn_call conn IwdService path (IwdStationIface @ ''.'' @ m) args w = (Inl r, w')"
    and "e = wrap_iwd_method IwdStationIface m (wrap_method IwdStationIface m (Foreign r))"
proof -
  from assms(1) obtain c where c: "new_object g conn IwdStationIface path w0 = (Inr c, w1)"
    and s: "st_call s = Some c"
    by (auto simp: iwd_new_station_def go_bind_Inr_iff)
  from new_object_Inr [OF c] obtain i
    where "c = as_caller g i" "io_conn i = conn" "io_bus_name i = IwdService" "io_path i = path" .
  with s assms(2) that show ?thesis
    by (auto simp: station_method_def introspected_call_def elim!: go_wrap_InlE)
qed

definition station_call_outcome ::
    "'w conn \<Rightarrow> string \<Rightarrow> string \<Rightarrow> dval list \<Rightarrow> string \<Rightarrow> gerror \<Rightarrow> 'w \<Rightarrow> 'w \<Rightarrow> bool" where
  "station_call_outcome conn path m args pop e w w' \<longleftrightarrow>
     (\<exists>r. conn_call conn IwdService path (IwdStationIface @ ''.'' @ m) args w = (Inl r, w')
        \<and> (\<forall>x. errors_is (wrap_public_error pop e) x \<longleftrightarrow>
              x \<in> {ErrSpiderw, ErrUnavailable, ErrCore, DBusS ErrDBusMethod}
              \<or> (\<exists>i. x = IwdS i \<and> iwd_error_sentinel (Foreign r) = Some i)))"

lemma station_call_outcome:
  assumes "iwd_new_station g conn add path w0 = (Inr s, w1)"
    and "station_method s m args w = (Inl e, w')"
  shows "station_call_outcome conn path m args pop (wrap_station_unavailable op d e) w w'"
proof -
  from station_method_fails [OF assms] obtain r
    where r: "conn_call conn IwdService path (IwdStationIface @ ''.'' @ m) args w = (Inl r, w')"
      and e: "e = wrap_iwd_method IwdStationIface m (wrap_method IwdStationIface m (Foreign r))" .
  have "wrap_public_error pop (wrap_station_unavailable op d e)
      = surfaced_method_error IwdStationIface m op d station_unavailable_policy pop r"
    by (simp add: e surfaced_method_error_def wrap_station_unavailable_def)
  with r show ?thesis
    unfolding station_call_outcome_def by (auto simp: surfaced_method_error_is)
qed

lemma go_bind_return_Inl [simp]: "go_bind m (\<lambda>_. go_return ()) w = (Inl e, w') \<longleftrightarrow> m w = (Inl e, w')"
  by (auto simp: go_bind_def go_return_def split: prod.splits sum.splits)

text \<open>
  C14: When \<open>Scan\<close>, \<open>Disconnect\<close> or \<open>ConnectHiddenNetwork\<close> of a station fails (on good
  arguments), the bus answered that call, on the station's own path, with an error reply, and the
  error the public API returns matches \<open>ErrUnavailable\<close>, the sentinel iwd's error name stands for if it
  is a recognised one, and what tells the layers it passed (the D-Bus method error, \<open>ErrCore\<close> and \<open>ErrSpiderw\<close>),
  and nothing else.
\<close>

theorem failed_station_call_reports_iwds_reason:
  assumes "iwd_new_station g conn add path w0 = (Inr s, w1)"
  shows "(core_station_scan (core_station_on g s) w = (Inl e, w') \<longrightarrow>
            station_call_outcome conn path ''Scan'' [] pop e w w')
       \<and> (core_station_disconnect (core_station_on g s) w = (Inl e, w') \<longrightarrow>
            station_call_outcome conn path ''Disconnect'' [] pop e w w')
       \<and> (core_station_connect_hidden_network (core_station_on g s) name w = (Inl e, w') \<and> trim_space name \<noteq> [] \<longrightarrow>
            station_call_outcome conn path ''ConnectHiddenNetwork'' [VStr name] pop e w w')"
  by (auto simp: core_station_scan_def core_station_disconnect_def core_station_connect_hidden_network_def
      iwd_station_raw_def iwd_station_scan_def iwd_station_disconnect_def iwd_station_connect_hidden_network_def
      intro: station_call_outcome [OF assms] elim!: go_wrap_InlE)

subsection \<open>Signals\<close>

lemmas core_station_subscribe_defs =
  core_station_subscribe_def core_station_subscribe_properties_changed_def
  core_station_subscribe_state_changed_def core_station_subscribe_scanning_changed_def
  core_station_subscribe_connected_network_changed_def
  core_station_subscribe_connected_access_point_changed_def core_station_subscribe_affinities_changed_def

lemma state_subscription:
  assumes "core_station_subscribe_state_changed (core_station_on g (live_station c (as_signals add path)))
             (Some fn) (r, w) = (Inr t, (r', w'))"
  shows "subscribe_properties_changed (as_signals add path) IwdStationIface
           (Some (on_required_property ''State'' parse_station_state fn)) (r, w) = (Inr t, (r', w'))"
  using assms
  by (simp add: core_station_subscribe_defs iwd_station_raw_def iwd_station_subscribe_state_changed_def
      subscribe_property_def go_wrap_Inr_iff)

text \<open>
  C15: A connection-state subscription made through core: once it succeeded, a \<open>PropertiesChanged\<close>
  signal, whatever object it comes from, makes the calls it made before and, exactly when its body is that of
  the \<open>Station\<close> interface and reports a recognised state, one call of the callback with that state.
\<close>

theorem state_callback_runs_on_recognised_states:
  assumes "registry_run r subs"
    and "core_station_subscribe_state_changed (core_station_on g (live_station c (as_signals add path)))
           (Some fn) (r, w) = (Inr t, (r', w'))"
    and "sig_name sig = properties_changed_signal"
    and "sig_body sig = VStr iface # VVarMap changed # names # rest"
  shows "mset (signal_calls sig r') = mset (signal_calls sig r) +
     (case map_of changed ''State'' of
        Some (VStr st) \<Rightarrow> if iface = IwdStationIface \<and> valid_station_state st then mset (fn st) else {#}
      | _ \<Rightarrow> {#})"
proof -
  have "subscribe_properties_changed (as_signals add path) IwdStationIface
      (Some (on_required_property ''State'' parse_station_state fn)) (r, w) = (Inr t, (r', w'))"
    by (rule state_subscription [OF assms(2)])
  from subscribed_calls [OF assms(1) this assms(3)] assms(4) show ?thesis
    by (auto simp: properties_changed_handler_def on_required_property_def parse_station_state_def
        ststate.parse_eq split: option.splits dval.splits)
qed

text \<open>
  A connected-network subscription hears every change: a signal of the interface calls the
  callback with the new network's path, and with nil when iwd reports the null path or lists the
  property as invalidated (which is how a disconnect arrives); a signal about other properties does
  not call it.
\<close>

theorem network_callback_hears_connects_and_disconnects:
  assumes "registry_run r subs"
    and "core_station_subscribe_connected_network_changed
           (core_station_on g (live_station c (as_signals add path))) (Some fn) (r, w) = (Inr t, (r', w'))"
    and "sig_name sig = properties_changed_signal"
    and "sig_body sig = [VStr IwdStationIface, VVarMap changed, VStrs names]"
  shows "mset (signal_calls sig r') = mset (signal_calls sig r) +
     (case map_of changed ''ConnectedNetwork'' of
        None \<Rightarrow> if ''ConnectedNetwork'' \<in> set names then mset (fn None) else {#}
      | Some v \<Rightarrow> (case parse_station_object_path (path_ok g) ''ConnectedNetwork'' v of
                     Inl _ \<Rightarrow> {#} | Inr p \<Rightarrow> mset (fn p)))
   \<and> parse_station_object_path (path_ok g) ''ConnectedNetwork'' (VPath ''/'') = Inr None"
proof -
  have "subscribe_properties_changed (as_signals add path) IwdStationIface
      (Some (on_optional_property ''ConnectedNetwork''
        (parse_station_object_path (path_ok g) ''ConnectedNetwork'') fn)) (r, w) = (Inr t, (r', w'))"
    using assms(2)
    by (simp add: core_station_subscribe_defs iwd_station_raw_def
        iwd_station_subscribe_connected_network_changed_def subscribe_property_def go_wrap_Inr_iff)
  from subscribed_calls [OF assms(1) this assms(3)] assms(4) show ?thesis
    by (auto simp: properties_changed_handler_def on_optional_property_def property_cleared_def
        nil_slice_def optional_path_def split: option.splits sum.splits)
qed


subsection \<open>Instances\<close>

definition demo_reply :: "string \<Rightarrow> dval list \<Rightarrow> raw_err + dval list" where
  "demo_reply m args =
     (if m = ''GetOrderedNetworks'' then Inr [VStr ''/n'']
      else if m = ''GetHiddenAccessPoints'' then Inr [VStr ''aa'', VStr ''psk'']
      else Inl (DBusErr ''net.connman.iwd.Busy'' ''busy''))"

definition demo_table :: interfaces where
  "demo_table =
     [(IwdStationIface,
       [(''State'', VStr ''connected''), (''Scanning'', VBool False), (''ConnectedNetwork'', VPath ''/n'')])]"

definition demo_caller :: "unit caller" where
  "demo_caller = table_caller demo_table demo_reply"

definition demo_signals :: "(nat, unit) signals" where
  "demo_signals = as_signals None ''/s''"

definition demo_core :: "(nat, unit) core_station option" where
  "demo_core = core_station_on table_godbus (live_station demo_caller demo_signals)"

lemma demo_reports: "reports demo_caller IwdStationIface
    [(''State'', VStr ''connected''), (''Scanning'', VBool False), (''ConnectedNetwork'', VPath ''/n'')] ()"
  by (auto simp: reports_def demo_caller_def table_caller_def demo_table_def absent_property_error
      split: option.splits)

lemma demo_trim: "trim_space ''/n'' = ''/n''"
  by (rule trim_space_plain) (simp_all add: plain_def)

lemma demo_state_valid: "valid_station_state ''connected''"
  by (simp add: station_state_defs)

theorem station_properties_agree_with_the_getters_witness:
  "core_station_properties demo_core () =
     (Inr \<lparr>State = ''connected'', Scanning = False, ConnectedNetwork = Some ''/n'',
           ConnectedAccessPoint = None, Affinities = None\<rparr>, ())"
  unfolding demo_core_def
  by (rule station_properties_agree_with_the_getters [OF demo_reports, THEN iffD2])
    (auto simp: core_station_read_defs iwd_station_raw_def go_bind_Inr_iff
      go_wrap_Inr_iff go_lift_iff validate_station_state_Inr_iff iwd_reads_report [OF demo_reports]
      parse_station_state_Inr_iff expect_bool_Inr_iff optional_field_def optional_path_def
      plain_def demo_trim demo_state_valid normalize_optional_string_def)

theorem bad_station_arguments_never_reach_the_bus_witness:
  "\<exists>e. core_station_set_affinities demo_core [''/a'', ''b''] () = (Inl e, ())
     \<and> errors_is (wrap_public_error ''Station.SetAffinities'' e) ErrInvalidArgument"
proof -
  have "\<exists>p \<in> set [''/a'', ''b'']. trim_space p = [] \<or> \<not> absolute p" by simp
  from bad_station_arguments_never_reach_the_bus [OF this trim_space_Nil,
      of "iwd_station_raw table_godbus (live_station demo_caller demo_signals)" "()" "''Station.SetAffinities''"]
  show ?thesis unfolding demo_core_def by auto
qed

lemma demo_networks:
  "core_station_ordered_networks demo_core () = (Inr [(''/n'', - 60)], ())"
  by (simp add: demo_core_def core_station_ordered_networks_def iwd_station_raw_def
      iwd_station_get_ordered_networks_def station_method_def demo_caller_def demo_reply_def
      demo_trim ordered_network_def go_bind_def go_wrap_def)

theorem station_results_are_validated_witness:
  "\<exists>ms. sr_get_ordered_networks (iwd_station_raw table_godbus (live_station demo_caller demo_signals)) ()
           = (Inr ms, ()) \<and> [(''/n'', - 60)] = map (\<lambda>(p, x). (trim_space p, x)) ms"
  using station_results_are_validated [THEN conjunct2, THEN conjunct1, THEN mp,
      OF demo_networks [unfolded demo_core_def]] by blast

definition demo_conn :: "unit conn" where
  "demo_conn = table_conn demo_table (\<lambda>_ _. Inl (DBusErr ''net.connman.iwd.Busy'' ''busy''))"

lemma demo_new_station:
  "\<exists>s :: (nat, unit) iwd_station. iwd_new_station table_godbus demo_conn None ''/s'' () = (Inr s, ())
     \<and> core_station_scan (core_station_on table_godbus s) () =
         (Inl (wrap_station_unavailable ''Station.Scan'' ''failed scheduling iwd Station scan''
            (wrap_iwd_method IwdStationIface ''Scan'' (wrap_method IwdStationIface ''Scan''
               (Foreign (DBusErr ''net.connman.iwd.Busy'' ''busy''))))), ())"
  by (simp add: iwd_new_station_def new_object_def new_introspected_object_def demo_conn_def
      table_conn_def demo_table_def introspected_has_interface_def core_station_scan_def
      iwd_station_raw_def iwd_station_scan_def station_method_def introspected_call_def
      go_bind_def go_wrap_def)

theorem failed_station_call_reports_iwds_reason_witness:
  "\<exists>e. station_call_outcome demo_conn ''/s'' ''Scan'' [] ''Station.Scan'' e () ()"
proof -
  obtain s :: "(nat, unit) iwd_station" and e
    where s: "iwd_new_station table_godbus demo_conn None ''/s'' () = (Inr s, ())"
      and e: "core_station_scan (core_station_on table_godbus s) () = (Inl e, ())"
    using demo_new_station by blast
  from failed_station_call_reports_iwds_reason [OF s, THEN conjunct1, THEN mp, OF e]
  show ?thesis by blast
qed

definition demo_signal :: "string \<Rightarrow> signal" where
  "demo_signal path =
     \<lparr>sig_path = path, sig_name = properties_changed_signal,
      sig_body = [VStr IwdStationIface, VVarMap [(''State'', VStr ''connected'')], VStrs []]\<rparr>"

lemma demo_signal_simps [simp]:
  "sig_name (demo_signal p) = properties_changed_signal"
  "sig_path (demo_signal p) = p"
  "sig_body (demo_signal p) = [VStr IwdStationIface, VVarMap [(''State'', VStr ''connected'')], VStrs []]"
  by (simp_all add: demo_signal_def)

lemma demo_subscribed:
  "\<exists>t r'. core_station_subscribe_state_changed demo_core (Some (\<lambda>_. [7])) (empty_registry, ()) = (Inr t, (r', ()))"
  by (simp add: demo_core_def core_station_subscribe_defs iwd_station_raw_def demo_signals_def
      iwd_station_subscribe_state_changed_def subscribe_property_def subscribe_properties_changed_def
      register_signal_handler_def go_wrap_def split: prod.splits)

lemma no_calls_yet: "signal_calls sig empty_registry = []"
  by (simp add: signal_calls_def resolve_handlers_def slot_def bucket_map_def empty_registry_def
      split: prod.splits)

theorem state_callback_runs_on_recognised_states_witness:
  "\<exists>t r'. core_station_subscribe_state_changed demo_core (Some (\<lambda>_. [7])) (empty_registry, ()) = (Inr t, (r', ()))
     \<and> mset (signal_calls (demo_signal ''/s'') r') = {#7#}"
proof -
  obtain t r' where sub: "core_station_subscribe_state_changed demo_core (Some (\<lambda>_. [7])) (empty_registry, ())
      = (Inr t, (r', ()))" using demo_subscribed by blast
  from state_callback_runs_on_recognised_states [OF registry_run.start
      sub [unfolded demo_core_def demo_signals_def] demo_signal_simps(1,3)]
  show ?thesis using sub by (auto simp: no_calls_yet demo_state_valid)
qed


definition lost_signal :: signal where
  "lost_signal =
     \<lparr>sig_path = ''/s'', sig_name = properties_changed_signal,
      sig_body = [VStr IwdStationIface, VVarMap [], VStrs [''ConnectedNetwork'']]\<rparr>"

theorem network_callback_hears_connects_and_disconnects_witness:
  "\<exists>t r'. core_station_subscribe_connected_network_changed demo_core
       (Some (\<lambda>p. if p = None then [8] else [])) (empty_registry, ()) = (Inr t, (r', ()))
     \<and> mset (signal_calls lost_signal r') = {#8#}"
proof -
  have "\<exists>t r'. core_station_subscribe_connected_network_changed demo_core
      (Some (\<lambda>p. if p = None then [8] else [])) (empty_registry, ()) = (Inr t, (r', ()))"
    by (simp add: demo_core_def core_station_subscribe_defs iwd_station_raw_def demo_signals_def
        iwd_station_subscribe_connected_network_changed_def subscribe_property_def
        subscribe_properties_changed_def register_signal_handler_def go_wrap_def split: prod.splits)
  then obtain t r' where sub: "core_station_subscribe_connected_network_changed demo_core
      (Some (\<lambda>p. if p = None then [8] else [])) (empty_registry, ()) = (Inr t, (r', ()))" by blast
  have sig: "sig_name lost_signal = properties_changed_signal"
    "sig_body lost_signal = [VStr IwdStationIface, VVarMap [], VStrs [''ConnectedNetwork'']]"
    by (simp_all add: lost_signal_def)
  from network_callback_hears_connects_and_disconnects [OF registry_run.start
      sub [unfolded demo_core_def demo_signals_def] sig]
  show ?thesis using sub by (auto simp: no_calls_yet)
qed

end
