(* ===== verification/Agents.thy ===== *)
theory Agents
  imports Station "HOL-Library.Word"
begin

text \<open>
  The two agents spiderw exports for iwd to call: the credentials agent (\<open>internal/iwdbus/agent.go\<close>,
  \<open>internal/core/agent.go\<close>) and the signal-level agent (\<open>internal/iwdbus/signalagent.go\<close>,
  \<open>internal/core/signalagent.go\<close>).

  A context made by \<open>context.WithCancel\<close> is a number; \<open>ctxs_cancelled\<close> lists the ones whose cancel
  function was called. Callbacks act on the world \<open>'w\<close>, as the bus does. Methods of a Go pointer
  run on the pair of the object and the world.
\<close>

definition IwdAgentManagerIface :: string where
  "IwdAgentManagerIface = IwdService @ ''.AgentManager''"

definition IwdAgentIface :: string where
  "IwdAgentIface = IwdService @ ''.Agent''"

definition IwdAgentErrorCanceled :: string where
  "IwdAgentErrorCanceled = IwdAgentIface @ ''.Error.Canceled''"

definition IwdSignalLevelAgentIface :: string where
  "IwdSignalLevelAgentIface = IwdService @ ''.SignalLevelAgent''"

subsection \<open>The agent manager\<close>

record 'w agent_manager =
  am_conn :: "'w conn option"
  am_intro :: "'w caller option"

definition iwd_new_agent_manager :: "godbus \<Rightarrow> 'w conn \<Rightarrow> (gerror, 'w, 'w agent_manager) go" where
  "iwd_new_agent_manager g conn =
     go_bind (go_wrap (wrap_introspection IwdDaemonPath) (new_introspected_object conn IwdService IwdDaemonPath))
       (\<lambda>intro w.
          if \<not> introspected_has_interface intro IwdAgentManagerIface
          then (Inl (wrap_introspection IwdDaemonPath
                  (Errorf ''object %s does not implement %s'' [IwdDaemonPath, IwdAgentManagerIface] [])),
                introspected_close intro w)
          else (Inr \<lparr>am_conn = Some conn, am_intro = Some (as_caller g intro)\<rparr>, w))"

definition agent_manager_method :: "'w agent_manager \<Rightarrow> string \<Rightarrow> string \<Rightarrow> (gerror, 'w, unit) go" where
  "agent_manager_method m method path =
     go_bind (ensure_initialized ''AgentManager'' AgentManagerObj (am_intro m)) (\<lambda>c.
     go_bind (go_wrap (wrap_iwd_method IwdAgentManagerIface method)
               (c_call c IwdAgentManagerIface method [VPath path])) (\<lambda>_.
     go_return ()))"

definition iwd_register_agent :: "'w agent_manager \<Rightarrow> string \<Rightarrow> (gerror, 'w, unit) go" where
  "iwd_register_agent m path = agent_manager_method m ''RegisterAgent'' path"

definition iwd_unregister_agent :: "'w agent_manager \<Rightarrow> string \<Rightarrow> (gerror, 'w, unit) go" where
  "iwd_unregister_agent m path = agent_manager_method m ''UnregisterAgent'' path"

subsection \<open>Exporting\<close>

text \<open>
  \<open>ExportAgent\<close> and \<open>ExportSignalLevelAgent\<close>; the returned unexport closure is the call
  \<open>conn.Export(nil, path, iface)\<close>.
\<close>

definition export_object ::
    "string \<Rightarrow> string \<Rightarrow> string \<Rightarrow> godbus \<Rightarrow> 'w conn option \<Rightarrow> string
      \<Rightarrow> (gerror, 'w, (raw_err, 'w, unit) go) go" where
  "export_object op invalid iface g conn path =
     (case conn of
        None \<Rightarrow> go_fail (wrap_connection op (Sentinel (DBusS ErrDBusConnection)))
      | Some c \<Rightarrow>
          if \<not> path_ok g path then go_fail (wrap_connection op (Errorf invalid [path] []))
          else
            go_bind (go_wrap (\<lambda>r. wrap_connection op (Foreign r)) (conn_export c True path iface)) (\<lambda>_.
            go_return (conn_export c False path iface)))"

definition export_agent ::
    "godbus \<Rightarrow> 'w conn option \<Rightarrow> string \<Rightarrow> (gerror, 'w, (raw_err, 'w, unit) go) go" where
  "export_agent = export_object ''ExportAgent'' ''invalid agent object path %q'' IwdAgentIface"

definition export_signal_level_agent ::
    "godbus \<Rightarrow> 'w conn option \<Rightarrow> string \<Rightarrow> (gerror, 'w, (raw_err, 'w, unit) go) go" where
  "export_signal_level_agent =
     export_object ''ExportSignalLevelAgent'' ''invalid signal level agent object path %q'' IwdSignalLevelAgentIface"

subsection \<open>The exported credentials object\<close>

text \<open>
  \<open>AgentHandler\<close>: a nil callback is \<open>None\<close>. A request callback gets the network path (and, for
  \<open>RequestUserPassword\<close>, the user name); its error is the raw error value it returned.
\<close>

record 'w agent_handler =
  RequestPassphrase :: "(string \<Rightarrow> (raw_err, 'w, string) go) option"
  RequestPrivateKeyPassphrase :: "(string \<Rightarrow> (raw_err, 'w, string) go) option"
  RequestUserNameAndPassword :: "(string \<Rightarrow> (raw_err, 'w, string \<times> string) go) option"
  RequestUserPassword :: "(string \<Rightarrow> string \<Rightarrow> (raw_err, 'w, string) go) option"
  Cancel :: "(string \<Rightarrow> 'w \<Rightarrow> 'w) option"
  Release :: "('w \<Rightarrow> 'w) option"

text \<open>\<open>canceledError\<close>: the D-Bus error iwd gets; its text is the callback error's.\<close>

definition canceled_error :: "raw_err option \<Rightarrow> raw_err" where
  "canceled_error e =
     DBusErr IwdAgentErrorCanceled
       (case e of None \<Rightarrow> ''credentials request canceled'' | Some r \<Rightarrow> err_text r)"

definition dispatch_credential ::
    "(string \<Rightarrow> (raw_err, 'w, 'a) go) option \<Rightarrow> string \<Rightarrow> (raw_err, 'w, 'a) go" where
  "dispatch_credential fn network =
     (case fn of
        None \<Rightarrow> go_fail (canceled_error None)
      | Some f \<Rightarrow> go_wrap (\<lambda>r. canceled_error (Some r)) (f network))"

definition agent_request_passphrase :: "'w agent_handler \<Rightarrow> string \<Rightarrow> (raw_err, 'w, string) go" where
  "agent_request_passphrase h network = dispatch_credential (RequestPassphrase h) network"

definition agent_request_private_key_passphrase ::
    "'w agent_handler \<Rightarrow> string \<Rightarrow> (raw_err, 'w, string) go" where
  "agent_request_private_key_passphrase h network = dispatch_credential (RequestPrivateKeyPassphrase h) network"

definition agent_request_user_name_and_password ::
    "'w agent_handler \<Rightarrow> string \<Rightarrow> (raw_err, 'w, string \<times> string) go" where
  "agent_request_user_name_and_password h network =
     (case RequestUserNameAndPassword h of
        None \<Rightarrow> go_fail (canceled_error None)
      | Some f \<Rightarrow> go_wrap (\<lambda>r. canceled_error (Some r)) (f network))"

definition agent_request_user_password ::
    "'w agent_handler \<Rightarrow> string \<Rightarrow> string \<Rightarrow> (raw_err, 'w, string) go" where
  "agent_request_user_password h network user =
     (case RequestUserPassword h of
        None \<Rightarrow> go_fail (canceled_error None)
      | Some f \<Rightarrow> go_wrap (\<lambda>r. canceled_error (Some r)) (f network user))"

definition agent_cancel :: "'w agent_handler \<Rightarrow> string \<Rightarrow> 'w \<Rightarrow> 'w" where
  "agent_cancel h reason = (case Cancel h of None \<Rightarrow> (\<lambda>w. w) | Some f \<Rightarrow> f reason)"

definition agent_release :: "'w agent_handler \<Rightarrow> 'w \<Rightarrow> 'w" where
  "agent_release h = (case Release h of None \<Rightarrow> (\<lambda>w. w) | Some f \<Rightarrow> f)"

subsection \<open>The core agent\<close>

text \<open>A request callback of the user also gets its context.\<close>

record 'w credential_callbacks =
  Passphrase :: "(nat \<Rightarrow> string \<Rightarrow> (raw_err, 'w, string) go) option"
  PrivateKeyPassphrase :: "(nat \<Rightarrow> string \<Rightarrow> (raw_err, 'w, string) go) option"
  UserNameAndPassword :: "(nat \<Rightarrow> string \<Rightarrow> (raw_err, 'w, string \<times> string) go) option"
  UserPassword :: "(nat \<Rightarrow> string \<Rightarrow> string \<Rightarrow> (raw_err, 'w, string) go) option"
  OnCancel :: "(string \<Rightarrow> 'w \<Rightarrow> 'w) option"
  OnRelease :: "('w \<Rightarrow> 'w) option"

definition has_request_callback :: "'w credential_callbacks \<Rightarrow> bool" where
  "has_request_callback c \<longleftrightarrow>
     Passphrase c \<noteq> None \<or> PrivateKeyPassphrase c \<noteq> None
     \<or> UserNameAndPassword c \<noteq> None \<or> UserPassword c \<noteq> None"

definition validate_credential_callbacks :: "'w credential_callbacks \<Rightarrow> string \<Rightarrow> gerror + unit" where
  "validate_credential_callbacks c op =
     (if \<not> has_request_callback c
      then Inl (wrap_invalid_argument ResourceAgent op
                  ''at least one credential-request callback must be set'' (Sentinel ErrCore))
      else Inr ())"

text \<open>
  \<open>manager\<close> stands for the bound manager's \<open>UnregisterAgent\<close>, the only method the agent calls;
  \<open>next_ctx\<close> numbers the contexts.
\<close>

record 'w core_agent =
  callbacks :: "'w credential_callbacks"
  currentCancel :: "nat option"
  registered :: bool
  manager :: "(string \<Rightarrow> (gerror, 'w, unit) go) option"
  agent_path :: string
  unexport :: "(raw_err, 'w, unit) go option"
  next_ctx :: nat
  ctxs_cancelled :: "nat list"

definition new_core_agent :: "'w credential_callbacks \<Rightarrow> 'w core_agent" where
  "new_core_agent cc =
     \<lparr>callbacks = cc, currentCancel = None, registered = False, manager = None, agent_path = '''',
      unexport = None, next_ctx = 0, ctxs_cancelled = []\<rparr>"

definition agent_bind ::
    "(string \<Rightarrow> (gerror, 'w, unit) go) \<Rightarrow> string \<Rightarrow> (raw_err, 'w, unit) go \<Rightarrow> 'w core_agent \<Rightarrow> 'w core_agent" where
  "agent_bind m path unexp a =
     a\<lparr>manager := Some m, agent_path := path, unexport := Some unexp, registered := True\<rparr>"

definition cancel_ctx :: "nat option \<Rightarrow> 'w core_agent \<Rightarrow> 'w core_agent" where
  "cancel_ctx c a = (case c of None \<Rightarrow> a | Some i \<Rightarrow> a\<lparr>ctxs_cancelled := i # ctxs_cancelled a\<rparr>)"

definition begin_request :: "'w core_agent \<Rightarrow> nat \<times> 'w core_agent" where
  "begin_request a = (next_ctx a, a\<lparr>next_ctx := next_ctx a + 1, currentCancel := Some (next_ctx a)\<rparr>)"

text \<open>The \<open>done\<close> closure of the request with context \<open>i\<close>.\<close>

definition end_request :: "nat \<Rightarrow> 'w core_agent \<Rightarrow> 'w core_agent" where
  "end_request i a = cancel_ctx (Some i) (a\<lparr>currentCancel := None\<rparr>)"

text \<open>The closures \<open>wrapSecret\<close>, \<open>wrapUserNameAndPassword\<close> and \<open>wrapUserPassword\<close> make.\<close>

definition run_request ::
    "(nat \<Rightarrow> (raw_err, 'w, 'a) go) \<Rightarrow> (raw_err, 'w core_agent \<times> 'w, 'a) go" where
  "run_request fn = (\<lambda>(a, w).
     (case begin_request a of
        (i, a1) \<Rightarrow> (case fn i w of (r, w') \<Rightarrow> (r, (end_request i a1, w')))))"

definition wrap_secret ::
    "(nat \<Rightarrow> string \<Rightarrow> (raw_err, 'w, string) go) option
      \<Rightarrow> (string \<Rightarrow> (raw_err, 'w core_agent \<times> 'w, string) go) option" where
  "wrap_secret fn = (case fn of None \<Rightarrow> None | Some f \<Rightarrow> Some (\<lambda>network. run_request (\<lambda>i. f i network)))"

definition wrap_user_name_and_password ::
    "'w credential_callbacks \<Rightarrow> (string \<Rightarrow> (raw_err, 'w core_agent \<times> 'w, string \<times> string) go) option" where
  "wrap_user_name_and_password c =
     (case UserNameAndPassword c of None \<Rightarrow> None | Some f \<Rightarrow> Some (\<lambda>network. run_request (\<lambda>i. f i network)))"

definition wrap_user_password ::
    "'w credential_callbacks \<Rightarrow> (string \<Rightarrow> string \<Rightarrow> (raw_err, 'w core_agent \<times> 'w, string) go) option" where
  "wrap_user_password c =
     (case UserPassword c of None \<Rightarrow> None | Some f \<Rightarrow> Some (\<lambda>network user. run_request (\<lambda>i. f i network user)))"

definition handle_cancel :: "string \<Rightarrow> 'w core_agent \<times> 'w \<Rightarrow> 'w core_agent \<times> 'w" where
  "handle_cancel reason = (\<lambda>(a, w).
     (cancel_ctx (currentCancel a) a,
      case OnCancel (callbacks a) of None \<Rightarrow> w | Some f \<Rightarrow> f reason w))"

definition handle_release :: "'w core_agent \<times> 'w \<Rightarrow> 'w core_agent \<times> 'w" where
  "handle_release = (\<lambda>(a, w). (a, case OnRelease (callbacks a) of None \<Rightarrow> w | Some f \<Rightarrow> f w))"

definition build_handler :: "'w credential_callbacks \<Rightarrow> ('w core_agent \<times> 'w) agent_handler" where
  "build_handler c =
     \<lparr>RequestPassphrase = wrap_secret (Passphrase c),
      RequestPrivateKeyPassphrase = wrap_secret (PrivateKeyPassphrase c),
      RequestUserNameAndPassword = wrap_user_name_and_password c,
      RequestUserPassword = wrap_user_password c,
      Cancel = Some handle_cancel, Release = Some handle_release\<rparr>"

text \<open>\<open>errors.Join\<close> of two errors, a nil one being \<open>None\<close>.\<close>

definition join_errors :: "gerror option \<Rightarrow> gerror option \<Rightarrow> gerror + unit" where
  "join_errors e1 e2 =
     (if e1 = None \<and> e2 = None then Inr ()
      else Inl (Joined ((case e1 of None \<Rightarrow> [] | Some e \<Rightarrow> [e]) @ (case e2 of None \<Rightarrow> [] | Some e \<Rightarrow> [e]))))"

text \<open>A cleanup call that may be absent: \<open>if f != nil { if err := f(); err != nil { wrap } }\<close>.\<close>

definition cleanup_call :: "('e \<Rightarrow> gerror) \<Rightarrow> ('e, 'w, unit) go option \<Rightarrow> 'w \<Rightarrow> gerror option \<times> 'w" where
  "cleanup_call wrap f w =
     (case f of
        None \<Rightarrow> (None, w)
      | Some g \<Rightarrow> (case g w of (Inl e, w') \<Rightarrow> (Some (wrap e), w') | (Inr _, w') \<Rightarrow> (None, w')))"

definition agent_unregister :: "(gerror, 'w core_agent option \<times> 'w, unit) go" where
  "agent_unregister = (\<lambda>(a, w).
     case a of
       None \<Rightarrow> (Inl (wrap_invalid_state ResourceAgent ''Agent.Unregister'' ''agent wrapper was nil''
                      (Sentinel (NotInitializedS AgentWrapper))), (None, w))
     | Some a \<Rightarrow>
         if \<not> registered a then (Inr (), (Some a, w))
         else
           (let a' = cancel_ctx (currentCancel a) (a\<lparr>registered := False\<rparr>);
                (unreg_err, w1) = cleanup_call
                  (wrap_agent_unavailable ''Agent.Unregister'' ''failed unregistering iwd agent'')
                  (map_option (\<lambda>m. m (agent_path a)) (manager a)) w;
                (unexport_err, w2) = cleanup_call
                  (\<lambda>r. wrap_agent_unavailable ''Agent.Unregister'' ''failed unexporting agent object'' (Foreign r))
                  (unexport a) w1
            in (join_errors unreg_err unexport_err, (Some a', w2))))"

subsection \<open>The signal-level agent\<close>

record 'w signal_level_handler =
  Changed :: "(string \<Rightarrow> 8 word \<Rightarrow> 'w \<Rightarrow> 'w) option"
  sla_Release :: "('w \<Rightarrow> 'w) option"

definition sla_object_changed :: "'w signal_level_handler \<Rightarrow> string \<Rightarrow> 8 word \<Rightarrow> 'w \<Rightarrow> 'w" where
  "sla_object_changed h device level =
     (case Changed h of None \<Rightarrow> (\<lambda>w. w) | Some f \<Rightarrow> f device level)"

definition sla_object_release :: "'w signal_level_handler \<Rightarrow> 'w \<Rightarrow> 'w" where
  "sla_object_release h = (case sla_Release h of None \<Rightarrow> (\<lambda>w. w) | Some f \<Rightarrow> f)"

record 'w signal_level_config =
  Thresholds :: "int list"
  cfg_changed :: "(int \<Rightarrow> 'w \<Rightarrow> 'w) option"
  cfg_released :: "('w \<Rightarrow> 'w) option"

text \<open>The loop over the thresholds; \<open>prev\<close> is the element before, none for the first.\<close>

fun check_thresholds :: "string \<Rightarrow> int option \<Rightarrow> int list \<Rightarrow> gerror + unit" where
  "check_thresholds op prev [] = Inr ()"
| "check_thresholds op prev (t # ts) =
     (if t < - 32768 \<or> 32767 < t
      then Inl (wrap_invalid_argument ResourceStation op
                  (sprintf ''signal threshold %d dBm is out of range'' [decimal t]) (Sentinel ErrCore))
      else if (case prev of None \<Rightarrow> False | Some p \<Rightarrow> p \<le> t)
      then Inl (wrap_invalid_argument ResourceStation op
                  ''signal thresholds must be in strictly descending order'' (Sentinel ErrCore))
      else check_thresholds op (Some t) ts)"

definition validate_signal_level_config :: "'w signal_level_config \<Rightarrow> string \<Rightarrow> gerror + unit" where
  "validate_signal_level_config c op =
     (if cfg_changed c = None
      then Inl (wrap_invalid_argument ResourceStation op ''Changed callback must be set'' (Sentinel ErrCore))
      else if Thresholds c = []
      then Inl (wrap_invalid_argument ResourceStation op
                  ''at least one signal-strength threshold is required'' (Sentinel ErrCore))
      else check_thresholds op None (Thresholds c))"

record 'w core_signal_level_agent =
  changed :: "(int \<Rightarrow> 'w \<Rightarrow> 'w) option"
  released :: "('w \<Rightarrow> 'w) option"
  levels :: "16 word list"
  sla_registered :: bool
  registrar :: "(string \<Rightarrow> (gerror, 'w, unit) go) option"
  sla_path :: string
  sla_unexport :: "(raw_err, 'w, unit) go option"

definition new_core_signal_level_agent :: "'w signal_level_config \<Rightarrow> 'w core_signal_level_agent" where
  "new_core_signal_level_agent cfg =
     \<lparr>changed = cfg_changed cfg, released = cfg_released cfg, levels = map word_of_int (Thresholds cfg),
      sla_registered = False, registrar = None, sla_path = '''', sla_unexport = None\<rparr>"

definition signal_levels :: "'w core_signal_level_agent \<Rightarrow> int list" where
  "signal_levels a = map sint (levels a)"

definition sla_bind ::
    "(string \<Rightarrow> (gerror, 'w, unit) go) \<Rightarrow> string \<Rightarrow> (raw_err, 'w, unit) go
      \<Rightarrow> 'w core_signal_level_agent \<Rightarrow> 'w core_signal_level_agent" where
  "sla_bind r path unexp a =
     a\<lparr>registrar := Some r, sla_path := path, sla_unexport := Some unexp, sla_registered := True\<rparr>"

definition sla_build_handler :: "'w core_signal_level_agent \<Rightarrow> 'w signal_level_handler" where
  "sla_build_handler a =
     \<lparr>Changed = Some (\<lambda>device level w. case changed a of None \<Rightarrow> w | Some f \<Rightarrow> f (uint level) w),
      sla_Release = Some (\<lambda>w. case released a of None \<Rightarrow> w | Some f \<Rightarrow> f w)\<rparr>"

definition sla_unregister :: "(gerror, 'w core_signal_level_agent option \<times> 'w, unit) go" where
  "sla_unregister = (\<lambda>(a, w).
     case a of
       None \<Rightarrow> (Inl (wrap_invalid_state ResourceStation ''SignalLevelAgent.Unregister''
                      ''signal level agent wrapper was nil''
                      (Sentinel (NotInitializedS SignalLevelAgentWrapper))), (None, w))
     | Some a \<Rightarrow>
         if \<not> sla_registered a then (Inr (), (Some a, w))
         else
           (let (unreg_err, w1) = cleanup_call
                  (wrap_station_unavailable ''SignalLevelAgent.Unregister'' ''failed unregistering signal level agent'')
                  (map_option (\<lambda>r. r (sla_path a)) (registrar a)) w;
                (unexport_err, w2) = cleanup_call
                  (\<lambda>r. wrap_station_unavailable ''SignalLevelAgent.Unregister''
                         ''failed unexporting signal level agent object'' (Foreign r))
                  (sla_unexport a) w1
            in (join_errors unreg_err unexport_err, (Some (a\<lparr>sla_registered := False\<rparr>), w2))))"

subsection \<open>Tearing an exported object down\<close>

text \<open>The contract of the two \<open>Unregister\<close> methods: whatever happens, the handle is dead afterwards.\<close>

locale teardown =
  fixes unregister :: "(gerror, 'a option \<times> 'w, unit) go"
    and live :: "'a \<Rightarrow> bool"
  assumes dead: "\<not> live a \<Longrightarrow> unregister (Some a, w) = (Inr (), (Some a, w))"
    and dies: "unregister (Some a, w) = (r, (s, w')) \<Longrightarrow> \<exists>b. s = Some b \<and> \<not> live b"
begin

lemma idempotent:
  assumes "unregister (Some a, w) = (r, st)"
  shows "unregister st = (Inr (), st)"
proof -
  obtain s w' where st: "st = (s, w')" by (cases st)
  with assms dies obtain b where "s = Some b" and "\<not> live b" by blast
  with st show ?thesis by (simp add: dead)
qed

lemma live_once:
  assumes "unregister (Some a, w) = (r, (Some b, w'))"
  shows "\<not> live b"
  using dies [OF assms] by simp

end

lemma cancel_ctx_registered [simp]: "registered (cancel_ctx c a) = registered a"
  by (simp add: cancel_ctx_def split: option.splits)

interpretation agent_teardown: teardown agent_unregister registered
proof
  show "agent_unregister (Some a, w) = (Inr (), (Some a, w))" if "\<not> registered a" for a :: "'w core_agent" and w
    using that by (simp add: agent_unregister_def)
  show "\<exists>b. s = Some b \<and> \<not> registered b"
    if "agent_unregister (Some a, w) = (r, (s, w'))" for a :: "'w core_agent" and w r s w'
    using that by (auto simp: agent_unregister_def Let_def split: if_splits prod.splits)
qed

interpretation sla_teardown: teardown sla_unregister sla_registered
proof
  show "sla_unregister (Some a, w) = (Inr (), (Some a, w))"
    if "\<not> sla_registered a" for a :: "'w core_signal_level_agent" and w
    using that by (simp add: sla_unregister_def)
  show "\<exists>b. s = Some b \<and> \<not> sla_registered b"
    if "sla_unregister (Some a, w) = (r, (s, w'))" for a :: "'w core_signal_level_agent" and w r s w'
    using that by (auto simp: sla_unregister_def Let_def split: if_splits prod.splits)
qed

lemma join_errors_Inr [simp]: "join_errors e1 e2 = Inr u \<longleftrightarrow> e1 = None \<and> e2 = None"
  by (simp add: join_errors_def)

lemma cleanup_call_eq: "cleanup_call wrap (Some f) w =
    ((case fst (f w) of Inl e \<Rightarrow> Some (wrap e) | Inr _ \<Rightarrow> None), snd (f w))"
  by (simp add: cleanup_call_def split: prod.splits sum.splits)

text \<open>
  C22: \<open>Unregister\<close> of a bound credentials agent calls iwd's \<open>UnregisterAgent\<close>, then removes the exported
  object even when iwd refused; when it returns, the request that was in flight is cancelled. It succeeds
  exactly when both calls did, and a second call does nothing and succeeds.
\<close>

theorem agent_unregister_tears_everything_down:
  assumes "a = agent_bind unreg path unexp a0"
    and "agent_unregister (Some a, w) = (r, (s, w'))"
  shows "w' = snd (unexp (snd (unreg path w)))
       \<and> (r = Inr () \<longleftrightarrow> (\<exists>u v. fst (unreg path w) = Inr u \<and> fst (unexp (snd (unreg path w))) = Inr v))
       \<and> (\<exists>b. s = Some b \<and> (\<forall>i. currentCancel a0 = Some i \<longrightarrow> i \<in> set (ctxs_cancelled b)))
       \<and> agent_unregister (s, w') = (Inr (), (s, w'))"
proof (intro conjI)
  note run = assms(2) [unfolded assms(1) agent_unregister_def agent_bind_def]
  show "w' = snd (unexp (snd (unreg path w)))"
    using run by (auto simp: cleanup_call_eq)
  show "r = Inr () \<longleftrightarrow> (\<exists>u v. fst (unreg path w) = Inr u \<and> fst (unexp (snd (unreg path w))) = Inr v)"
    using run by (auto simp: cleanup_call_eq split: sum.splits)
  show "\<exists>b. s = Some b \<and> (\<forall>i. currentCancel a0 = Some i \<longrightarrow> i \<in> set (ctxs_cancelled b))"
    using run by (auto simp: cleanup_call_eq cancel_ctx_def)
  show "agent_unregister (s, w') = (Inr (), (s, w'))"
    by (rule agent_teardown.idempotent [OF assms(2)])
qed

subsection \<open>Cancelling the request in flight\<close>

text \<open>
  Requests come and go: \<open>agent_run a S\<close> reaches the agent \<open>a\<close> with the contexts \<open>S\<close> of the requests
  whose callbacks still run. \<open>serial_run\<close> is the same with at most one at a time, as the
  source assumes of iwd.
\<close>

inductive agent_run :: "'w core_agent \<Rightarrow> nat set \<Rightarrow> bool" where
  start: "agent_run (new_core_agent cc) {}"
| request: "agent_run a S \<Longrightarrow> begin_request a = (i, a') \<Longrightarrow> agent_run a' (insert i S)"
| finish: "agent_run a S \<Longrightarrow> i \<in> S \<Longrightarrow> agent_run (end_request i a) (S - {i})"
| cancel: "agent_run a S \<Longrightarrow> agent_run (fst (handle_cancel reason (a, w))) S"

inductive serial_run :: "'w core_agent \<Rightarrow> nat set \<Rightarrow> bool" where
  start: "serial_run (new_core_agent cc) {}"
| request: "serial_run a {} \<Longrightarrow> begin_request a = (i, a') \<Longrightarrow> serial_run a' {i}"
| finish: "serial_run a {i} \<Longrightarrow> serial_run (end_request i a) {}"
| cancel: "serial_run a S \<Longrightarrow> serial_run (fst (handle_cancel reason (a, w))) S"

lemma cancel_ctx_current [simp]: "currentCancel (cancel_ctx c a) = currentCancel a"
  by (simp add: cancel_ctx_def split: option.splits)

lemma fst_handle_cancel: "fst (handle_cancel reason (a, w)) = cancel_ctx (currentCancel a) a"
  by (simp add: handle_cancel_def)

lemma serial_run_current: "serial_run a S \<Longrightarrow> S = set_option (currentCancel a)"
  by (induction rule: serial_run.induct)
    (auto simp: new_core_agent_def begin_request_def end_request_def fst_handle_cancel)

lemma serial_run_is_run: "serial_run a S \<Longrightarrow> agent_run a S"
proof (induction rule: serial_run.induct)
  case (finish a i)
  then have "agent_run (end_request i a) ({i} - {i})" by (intro agent_run.finish) simp_all
  then show ?case by simp
qed (auto intro: agent_run.intros)

text \<open>
  C23: As long as iwd has at most one request outstanding, its \<open>Cancel\<close> cancels the context of
  exactly the request whose callback is running, and of no other.
\<close>

theorem cancel_reaches_the_serial_request:
  assumes "serial_run a S" and "handle_cancel reason (a, w) = (a', w')"
  shows "set (ctxs_cancelled a') = set (ctxs_cancelled a) \<union> S"
proof -
  have "a' = cancel_ctx (currentCancel a) a"
    using assms(2) fst_handle_cancel [of reason a w] by simp
  then show ?thesis
    by (auto simp: cancel_ctx_def serial_run_current [OF assms(1)] split: option.splits)
qed

text \<open>
  C24: When requests overlap, a \<open>Cancel\<close> can be lost: a first request is cancelled, a second one
  begins before the first callback has returned, and the first one's clean-up clears the second's
  record, so that the next \<open>Cancel\<close> cancels nothing although the second callback still runs.
\<close>

theorem overlapping_requests_lose_a_cancel:
  "\<exists>a i. agent_run a {i} \<and> ctxs_cancelled (fst (handle_cancel reason (a, w))) = ctxs_cancelled a
      \<and> i \<notin> set (ctxs_cancelled a)"
proof -
  let ?cc = "\<lparr>Passphrase = None, PrivateKeyPassphrase = None, UserNameAndPassword = None,
      UserPassword = None, OnCancel = None, OnRelease = None\<rparr>"
  let ?a = "end_request 0 (snd (begin_request (fst (handle_cancel reason
      (snd (begin_request (new_core_agent ?cc)), w)))))"
  have "agent_run (snd (begin_request (new_core_agent ?cc))) {0}"
    using agent_run.request [OF agent_run.start, of ?cc] by (simp add: begin_request_def new_core_agent_def)
  from agent_run.request [OF agent_run.cancel [OF this, of reason w]]
  have "agent_run (snd (begin_request (fst (handle_cancel reason (snd (begin_request (new_core_agent ?cc)), w))))) {1, 0}"
    by (simp add: begin_request_def new_core_agent_def handle_cancel_def cancel_ctx_def)
  from agent_run.finish [OF this, of 0] have "agent_run ?a {1}"
    by (simp add: insert_Diff_if)
  moreover have "ctxs_cancelled (fst (handle_cancel reason (?a, w))) = ctxs_cancelled ?a" "1 \<notin> set (ctxs_cancelled ?a)"
    by (simp_all add: begin_request_def new_core_agent_def handle_cancel_def cancel_ctx_def end_request_def)
  ultimately show ?thesis by blast
qed

text \<open>
  What iwd gets for a passphrase request: the secret the callback returned, or, when the
  callback is missing or fails, the agent's \<open>Canceled\<close> error carrying the callback's error text; the
  callback runs once, with a fresh context that is recorded while it runs and cancelled after.
\<close>

theorem passphrase_request_outcome:
  "agent_request_passphrase (build_handler c) network (a, w) =
     (case Passphrase c of
        None \<Rightarrow> (Inl (DBusErr IwdAgentErrorCanceled ''credentials request canceled''), (a, w))
      | Some f \<Rightarrow>
          (case f (next_ctx a) network w of
             (r, w') \<Rightarrow>
               (case r of Inl e \<Rightarrow> Inl (DBusErr IwdAgentErrorCanceled (err_text e)) | Inr secret \<Rightarrow> Inr secret,
                (a\<lparr>next_ctx := next_ctx a + 1, currentCancel := None,
                   ctxs_cancelled := next_ctx a # ctxs_cancelled a\<rparr>, w'))))"
  by (auto simp: agent_request_passphrase_def dispatch_credential_def build_handler_def wrap_secret_def
      canceled_error_def run_request_def begin_request_def end_request_def cancel_ctx_def go_wrap_def
      split: option.splits prod.splits sum.splits)

subsection \<open>Thresholds\<close>

lemma check_thresholds_Inr:
  "check_thresholds op prev ts = Inr u \<longleftrightarrow>
     (\<forall>t \<in> set ts. - 32768 \<le> t \<and> t \<le> 32767)
     \<and> sorted_wrt (>) ts \<and> (\<forall>p t. prev = Some p \<longrightarrow> t \<in> set ts \<longrightarrow> t < p)"
proof (induction ts arbitrary: prev)
  case (Cons t ts)
  show ?case
    using Cons.IH [of "Some t"] by (auto split: option.splits intro: less_trans)
qed simp

lemma sint_word_of_int_16:
  assumes "- 32768 \<le> t" and "t \<le> 32767"
  shows "sint (word_of_int t :: 16 word) = t"
  using assms by (simp add: int_word_sint)

lemma validate_signal_level_config_Inr_iff:
  "validate_signal_level_config c op = Inr () \<longleftrightarrow>
     cfg_changed c \<noteq> None \<and> Thresholds c \<noteq> [] \<and> sorted_wrt (>) (Thresholds c)
     \<and> (\<forall>t \<in> set (Thresholds c). - 32768 \<le> t \<and> t \<le> 32767)"
  by (auto simp: validate_signal_level_config_def check_thresholds_Inr)

lemma registered_levels:
  assumes "validate_signal_level_config c op = Inr ()"
  shows "signal_levels (new_core_signal_level_agent c) = Thresholds c"
  using assms
  by (auto simp: validate_signal_level_config_Inr_iff signal_levels_def new_core_signal_level_agent_def comp_def
      sint_word_of_int_16 intro: map_idI)

text \<open>
  A signal-level configuration is accepted exactly when it has a callback and a non-empty,
  strictly descending list of thresholds that fit an \<open>int16\<close>; the levels registered with iwd are
  then the configured thresholds, none wrapped around.
\<close>

theorem accepted_thresholds_are_registered_unchanged:
  "(validate_signal_level_config c op = Inr () \<longleftrightarrow>
      cfg_changed c \<noteq> None \<and> Thresholds c \<noteq> [] \<and> sorted_wrt (>) (Thresholds c)
      \<and> (\<forall>t \<in> set (Thresholds c). - (2 ^ 15) \<le> t \<and> t < 2 ^ 15))
   \<and> (validate_signal_level_config c op = Inr () \<longrightarrow>
      signal_levels (new_core_signal_level_agent c) = Thresholds c)"
proof -
  have "(- 32768 \<le> t \<and> t \<le> 32767) = (- (2 ^ 15) \<le> t \<and> t < 2 ^ 15)" for t :: int
    by auto
  then show ?thesis
    using registered_levels [of c op] by (auto simp: validate_signal_level_config_Inr_iff)
qed

subsection \<open>Instances\<close>

definition demo_agent :: "unit core_agent" where
  "demo_agent = agent_bind (\<lambda>_. go_fail (Sentinel ErrCore)) ''/spiderw/agent'' (go_return ())
     (snd (begin_request (new_core_agent \<lparr>Passphrase = None, PrivateKeyPassphrase = None,
        UserNameAndPassword = None, UserPassword = None, OnCancel = None, OnRelease = None\<rparr>)))"

theorem agent_unregister_tears_everything_down_witness:
  "agent_unregister (snd (agent_unregister (Some demo_agent, ()))) = (Inr (), snd (agent_unregister (Some demo_agent, ())))"
proof -
  obtain r s w' where run: "agent_unregister (Some demo_agent, ()) = (r, (s, w'))" by (metis prod.exhaust)
  from agent_unregister_tears_everything_down [OF demo_agent_def run] run show ?thesis by simp
qed

theorem cancel_reaches_the_serial_request_witness:
  "set (ctxs_cancelled (fst (handle_cancel ''timed-out'' (snd (begin_request (new_core_agent
       \<lparr>Passphrase = None, PrivateKeyPassphrase = None, UserNameAndPassword = None,
        UserPassword = None, OnCancel = None, OnRelease = None\<rparr>)), ())))) = {0}"
proof -
  let ?a = "snd (begin_request (new_core_agent \<lparr>Passphrase = None, PrivateKeyPassphrase = None,
      UserNameAndPassword = None, UserPassword = None, OnCancel = None, OnRelease = None\<rparr>)) :: unit core_agent"
  have run: "serial_run ?a {0}"
    by (rule serial_run.request [OF serial_run.start]) (simp add: begin_request_def new_core_agent_def)
  obtain a' w' where c: "handle_cancel ''timed-out'' (?a, ()) = (a', w')" by (metis prod.exhaust)
  have "ctxs_cancelled ?a = []" by (simp add: begin_request_def new_core_agent_def)
  with cancel_reaches_the_serial_request [OF run c] c show ?thesis by simp
qed

theorem accepted_thresholds_are_registered_unchanged_witness:
  "signal_levels (new_core_signal_level_agent
     \<lparr>Thresholds = [- 50, - 70], cfg_changed = Some (\<lambda>_ w. w :: unit), cfg_released = None\<rparr>) = [- 50, - 70]"
  using accepted_thresholds_are_registered_unchanged
    [of "\<lparr>Thresholds = [- 50, - 70], cfg_changed = Some (\<lambda>_ w. w :: unit), cfg_released = None\<rparr>" "''op''"]
  by simp

end
