(* ===== verification/Daemon_Bus.thy ===== *)
theory Daemon_Bus
  imports Bus "HOL-Library.Multiset" "HOL-Library.List_Lexorder" "HOL-Library.Char_ord"
begin

text \<open>
  The typed wrapper of the iwd daemon, \<open>internal/iwdbus/daemon.go\<close>: its info call and the listings
  of iwd's objects. The Go map of managed objects is a list in the order the loop visits it; that
  order is arbitrary, and the properties are stated for every order. Go compares strings byte by
  byte, as the lexicographic order on strings does here.
\<close>

text \<open>
  The seven reference types have the same two fields; the second is the \<open>Name\<close>, for a BSS the
  \<open>Address\<close>.
\<close>

record obj_ref =
  ref_path :: string
  ref_name :: string

record 'w iwd_daemon =
  d_conn :: "'w conn option"
  d_intro :: "'w caller option"

record daemon_info =
  Version :: string
  StateDirectory :: string
  NetworkConfigurationEnabled :: bool

text \<open>\<open>NewDaemon\<close>: \<open>(nil, nil)\<close> when the daemon interface is absent.\<close>

definition iwd_new_daemon ::
    "godbus \<Rightarrow> 'w conn \<Rightarrow> (gerror, 'w, 'w iwd_daemon option) go" where
  "iwd_new_daemon g conn =
     go_bind (go_wrap (wrap_introspection IwdDaemonPath) (new_introspected_object conn IwdService IwdDaemonPath))
       (\<lambda>intro w.
          if \<not> introspected_has_interface intro IwdDaemonIface
          then (Inr None, introspected_close intro w)
          else (Inr (Some \<lparr>d_conn = Some conn, d_intro = Some (as_caller g intro)\<rparr>), w))"

subsection \<open>The info call\<close>

definition info_string :: "(string \<Rightarrow> dval option) \<Rightarrow> string \<Rightarrow> string \<Rightarrow> gerror + string" where
  "info_string get key empty_text =
     (case get key of
        None \<Rightarrow> Inr ''''
      | Some v \<Rightarrow>
          if v = VNil then Inr ''''
          else try_bind (expect_string key v) (\<lambda>s.
            if s = '''' then Inl (wrap_variant key (Errorf empty_text [] [])) else Inr s))"

definition parse_daemon_map :: "(string \<Rightarrow> dval option) \<Rightarrow> gerror + daemon_info" where
  "parse_daemon_map get =
     try_bind (info_string get ''Version'' ''info Version must not be empty'') (\<lambda>version.
     try_bind (info_string get ''StateDirectory'' ''StateDirectory must not be empty'') (\<lambda>state_dir.
     try_bind
       (case get ''NetworkConfigurationEnabled'' of
          None \<Rightarrow> Inr False
        | Some v \<Rightarrow> if v = VNil then Inr False else expect_bool ''NetworkConfigurationEnabled'' v) (\<lambda>enabled.
     Inr \<lparr>Version = version, StateDirectory = state_dir, NetworkConfigurationEnabled = enabled\<rparr>)))"

definition parse_daemon_info :: "dval \<Rightarrow> gerror + daemon_info" where
  "parse_daemon_info v =
     (case v of
        VVarMap raw \<Rightarrow> parse_daemon_map (map_of raw)
      | VAnyMap raw \<Rightarrow>
          parse_daemon_map (\<lambda>k. case map_of raw k of
             None \<Rightarrow> None
           | Some value \<Rightarrow> (case value of VVariant u \<Rightarrow> Some u | _ \<Rightarrow> Some value))
      | _ \<Rightarrow> Inl (wrap_variant ''GetInfo'' (Errorf ''unexpected GetInfo payload type %T'' [go_type v] [])))"

definition daemon_ready :: "'w iwd_daemon \<Rightarrow> (gerror, 'w, 'w caller) go" where
  "daemon_ready d =
     (case d_intro d of
        None \<Rightarrow> go_fail (wrap_introspection ''Daemon.ensureInitialized'' (Sentinel (UninitializedS DaemonObj)))
      | Some c \<Rightarrow> go_return c)"

definition iwd_daemon_get_info :: "'w iwd_daemon \<Rightarrow> (gerror, 'w, daemon_info) go" where
  "iwd_daemon_get_info d =
     go_bind (daemon_ready d) (\<lambda>c.
     go_bind (go_wrap (wrap_method IwdDaemonIface ''GetInfo'') (c_call c IwdDaemonIface ''GetInfo'' [])) (\<lambda>body.
     case body of
       [] \<Rightarrow> go_fail (wrap_variant ''GetInfo'' (Errorf ''empty DBus body'' [] []))
     | v # _ \<Rightarrow>
         go_wrap (\<lambda>e. Errorf ''Daemon.GetInfo: failed to parse daemon info: %w'' [] [e])
           (go_lift (parse_daemon_info v))))"

definition iwd_daemon_get_version :: "'w iwd_daemon \<Rightarrow> (gerror, 'w, string) go" where
  "iwd_daemon_get_version d =
     go_bind (daemon_ready d) (\<lambda>_. go_bind (iwd_daemon_get_info d) (\<lambda>info. go_return (Version info)))"

definition iwd_daemon_get_state_directory :: "'w iwd_daemon \<Rightarrow> (gerror, 'w, string) go" where
  "iwd_daemon_get_state_directory d =
     go_bind (daemon_ready d) (\<lambda>_. go_bind (iwd_daemon_get_info d) (\<lambda>info. go_return (StateDirectory info)))"

definition iwd_daemon_is_network_configuration_enabled :: "'w iwd_daemon \<Rightarrow> (gerror, 'w, bool) go" where
  "iwd_daemon_is_network_configuration_enabled d =
     go_bind (daemon_ready d) (\<lambda>_.
     go_bind (iwd_daemon_get_info d) (\<lambda>info. go_return (NetworkConfigurationEnabled info)))"

subsection \<open>Listing objects\<close>

text \<open>The loop of \<open>getRefs\<close> and the sort after it.\<close>

definition refs_of_objects ::
    "string \<Rightarrow> (string \<Rightarrow> interfaces \<Rightarrow> gerror + obj_ref) \<Rightarrow> managed_objects \<Rightarrow> gerror + obj_ref list" where
  "refs_of_objects iface make_ref objects =
     try_bind
       (collect (\<lambda>(path, ifaces). try_bind (make_ref path ifaces) (\<lambda>r. Inr (path, r)))
         (filter (\<lambda>(path, ifaces). map_of ifaces iface \<noteq> None) objects))
       (\<lambda>entries. Inr (map snd (sort_key fst entries)))"

definition get_refs ::
    "godbus \<Rightarrow> 'w conn option \<Rightarrow> string \<Rightarrow> string \<Rightarrow> (string \<Rightarrow> interfaces \<Rightarrow> gerror + obj_ref)
      \<Rightarrow> (gerror, 'w, obj_ref list) go" where
  "get_refs g conn op iface make_ref =
     (if conn = None then go_fail (wrap_connection op (Sentinel (UninitializedS DaemonObj)))
      else
        go_bind (go_wrap (wrap_introspection DBusObjectManagerGetManagedObjects)
                  (get_managed_objects g conn IwdService)) (\<lambda>objects.
        go_lift (refs_of_objects iface make_ref objects)))"

text \<open>\<open>ifaces[iface]\<close>, the nil map when missing.\<close>

definition iface_props :: "interfaces \<Rightarrow> string \<Rightarrow> properties" where
  "iface_props ifaces iface = (case map_of ifaces iface of None \<Rightarrow> [] | Some props \<Rightarrow> props)"

definition valid_ref_path :: "godbus \<Rightarrow> string \<Rightarrow> string \<Rightarrow> gerror + unit" where
  "valid_ref_path g label path =
     (if \<not> path_ok g path \<or> \<not> absolute path
      then Inl (wrap_variant ''Path'' (Errorf (''invalid '' @ label @ '' path %q'') [path] []))
      else Inr ())"

text \<open>
  \<open>objectNameFromManagedObject\<close> and \<open>bssAddressFromManagedObject\<close>, the same but for the name of
  the property.
\<close>

definition required_ref_name ::
    "godbus \<Rightarrow> string \<Rightarrow> string \<Rightarrow> string \<Rightarrow> properties \<Rightarrow> gerror + string" where
  "required_ref_name g prop label path props =
     try_bind (valid_ref_path g label path) (\<lambda>_.
     case map_of props prop of
       None \<Rightarrow> Inl (wrap_variant prop (Errorf (label @ '' %s missing '' @ prop @ '' property'') [path] []))
     | Some v \<Rightarrow>
         try_bind (expect_string prop v) (\<lambda>s.
           (let n = trim_space s in
            if n = '''' then Inl (wrap_variant prop (Errorf (label @ '' '' @ prop @ '' was empty'') [] []))
            else Inr n)))"

definition object_name_from_managed_object ::
    "godbus \<Rightarrow> string \<Rightarrow> string \<Rightarrow> properties \<Rightarrow> gerror + string" where
  "object_name_from_managed_object g label path props = required_ref_name g ''Name'' label path props"

definition bss_address_from_managed_object :: "godbus \<Rightarrow> string \<Rightarrow> properties \<Rightarrow> gerror + string" where
  "bss_address_from_managed_object g path props =
     required_ref_name g ''Address'' ''basic service set'' path props"

definition station_name_from_device :: "interfaces \<Rightarrow> string" where
  "station_name_from_device ifaces =
     (case map_of ifaces IwdDeviceIface of
        None \<Rightarrow> ''''
      | Some dev \<Rightarrow>
          (case map_of dev ''Name'' of
             None \<Rightarrow> ''''
           | Some v \<Rightarrow> (case as_string v of None \<Rightarrow> '''' | Some s \<Rightarrow> trim_space s)))"

definition named_ref :: "godbus \<Rightarrow> string \<Rightarrow> string \<Rightarrow> string \<Rightarrow> interfaces \<Rightarrow> gerror + obj_ref" where
  "named_ref g label iface path ifaces =
     try_bind (object_name_from_managed_object g label path (iface_props ifaces iface)) (\<lambda>name.
     Inr \<lparr>ref_path = path, ref_name = name\<rparr>)"

definition bss_ref :: "godbus \<Rightarrow> string \<Rightarrow> interfaces \<Rightarrow> gerror + obj_ref" where
  "bss_ref g path ifaces =
     try_bind (bss_address_from_managed_object g path (iface_props ifaces IwdBasicServiceSetIface)) (\<lambda>address.
     Inr \<lparr>ref_path = path, ref_name = address\<rparr>)"

definition device_named_ref :: "godbus \<Rightarrow> string \<Rightarrow> string \<Rightarrow> interfaces \<Rightarrow> gerror + obj_ref" where
  "device_named_ref g label path ifaces =
     try_bind (valid_ref_path g label path) (\<lambda>_.
     Inr \<lparr>ref_path = path, ref_name = station_name_from_device ifaces\<rparr>)"

text \<open>A \<open>Get...\<close> method of a \<open>*Daemon\<close>, nil being \<open>None\<close>.\<close>

definition daemon_refs ::
    "godbus \<Rightarrow> 'w iwd_daemon option \<Rightarrow> string \<Rightarrow> string \<Rightarrow> (string \<Rightarrow> interfaces \<Rightarrow> gerror + obj_ref)
      \<Rightarrow> (gerror, 'w, obj_ref list) go" where
  "daemon_refs g d op iface make_ref =
     (case d of
        None \<Rightarrow> go_fail (wrap_connection op (Sentinel (UninitializedS DaemonObj)))
      | Some d \<Rightarrow> get_refs g (d_conn d) op iface make_ref)"

definition iwd_daemon_get_adapters :: "godbus \<Rightarrow> 'w iwd_daemon option \<Rightarrow> (gerror, 'w, obj_ref list) go" where
  "iwd_daemon_get_adapters g d =
     daemon_refs g d ''Daemon.GetAdapters'' IwdAdapterIface (named_ref g ''adapter'' IwdAdapterIface)"

definition iwd_daemon_get_devices :: "godbus \<Rightarrow> 'w iwd_daemon option \<Rightarrow> (gerror, 'w, obj_ref list) go" where
  "iwd_daemon_get_devices g d =
     daemon_refs g d ''Daemon.GetDevices'' IwdDeviceIface (named_ref g ''device'' IwdDeviceIface)"

definition iwd_daemon_get_basic_service_sets ::
    "godbus \<Rightarrow> 'w iwd_daemon option \<Rightarrow> (gerror, 'w, obj_ref list) go" where
  "iwd_daemon_get_basic_service_sets g d =
     daemon_refs g d ''Daemon.GetBasicServiceSets'' IwdBasicServiceSetIface (bss_ref g)"

definition iwd_daemon_get_networks :: "godbus \<Rightarrow> 'w iwd_daemon option \<Rightarrow> (gerror, 'w, obj_ref list) go" where
  "iwd_daemon_get_networks g d =
     daemon_refs g d ''Daemon.GetNetworks'' IwdNetworkIface (named_ref g ''network'' IwdNetworkIface)"

definition iwd_daemon_get_known_networks ::
    "godbus \<Rightarrow> 'w iwd_daemon option \<Rightarrow> (gerror, 'w, obj_ref list) go" where
  "iwd_daemon_get_known_networks g d =
     daemon_refs g d ''Daemon.GetKnownNetworks'' IwdKnownNetworkIface
       (named_ref g ''known network'' IwdKnownNetworkIface)"

definition iwd_daemon_get_stations :: "godbus \<Rightarrow> 'w iwd_daemon option \<Rightarrow> (gerror, 'w, obj_ref list) go" where
  "iwd_daemon_get_stations g d =
     daemon_refs g d ''Daemon.GetStations'' IwdStationIface (device_named_ref g ''station'')"

definition iwd_daemon_get_access_points ::
    "godbus \<Rightarrow> 'w iwd_daemon option \<Rightarrow> (gerror, 'w, obj_ref list) go" where
  "iwd_daemon_get_access_points g d =
     daemon_refs g d ''Daemon.GetAccessPoints'' IwdAccessPointIface (device_named_ref g ''access point'')"

lemmas iwd_daemon_listing_defs =
  iwd_daemon_get_adapters_def iwd_daemon_get_devices_def iwd_daemon_get_basic_service_sets_def
  iwd_daemon_get_networks_def iwd_daemon_get_known_networks_def iwd_daemon_get_stations_def
  iwd_daemon_get_access_points_def

subsection \<open>The listing does not depend on the order of the map\<close>

lemma make_ref_path:
  "named_ref g label iface path ifaces = Inr r \<Longrightarrow> ref_path r = path"
  "bss_ref g path ifaces = Inr r \<Longrightarrow> ref_path r = path"
  "device_named_ref g label path ifaces = Inr r \<Longrightarrow> ref_path r = path"
  by (auto simp: named_ref_def bss_ref_def device_named_ref_def try_bind_Inr_iff)

definition make_entry :: "(string \<Rightarrow> interfaces \<Rightarrow> gerror + obj_ref) \<Rightarrow> string \<times> interfaces \<Rightarrow> string \<times> obj_ref" where
  "make_entry make_ref obj = (fst obj, projr (make_ref (fst obj) (snd obj)))"

definition implementing :: "string \<Rightarrow> managed_objects \<Rightarrow> managed_objects" where
  "implementing iface objects = filter (\<lambda>(path, ifaces). map_of ifaces iface \<noteq> None) objects"

lemma refs_of_objects_Inr_iff:
  "refs_of_objects iface make_ref objects = Inr rs \<longleftrightarrow>
     (\<forall>obj \<in> set (implementing iface objects). \<exists>r. make_ref (fst obj) (snd obj) = Inr r)
     \<and> rs = map snd (sort_key fst (map (make_entry make_ref) (implementing iface objects)))"
proof -
  let ?f = "\<lambda>(path, ifaces). try_bind (make_ref path ifaces) (\<lambda>r. Inr (path, r))"
  have entries: "collect ?f objs = Inr es \<longleftrightarrow>
      (\<forall>obj \<in> set objs. \<exists>r. make_ref (fst obj) (snd obj) = Inr r) \<and> es = map (make_entry make_ref) objs" for objs es
  proof (induction objs arbitrary: es)
    case (Cons obj objs)
    then show ?case
      by (cases obj; cases "make_ref (fst obj) (snd obj)") (auto simp: try_bind_Inr_iff make_entry_def)
  qed auto
  show ?thesis
    by (auto simp: refs_of_objects_def try_bind_Inr_iff entries implementing_def)
qed

lemma sort_key_distinct_mset:
  assumes "mset xs = mset ys" and "distinct (map k xs)"
  shows "sort_key k xs = sort_key k ys"
proof (rule sort_key_inj_key_eq)
  show "mset xs = mset (sort_key k ys)" by (simp add: assms(1))
  show "inj_on k (set xs)" using assms(2) by (simp add: distinct_map)
  show "sorted (map k (sort_key k ys))" by simp
qed

text \<open>
  A listing that succeeds gives one reference per object that implements the interface, in the
  order of the paths.
\<close>

lemma refs_of_objects_paths:
  assumes "refs_of_objects iface make_ref objects = Inr rs"
    and "\<And>path ifaces r. make_ref path ifaces = Inr r \<Longrightarrow> ref_path r = path"
  shows "map ref_path rs = sort (map fst (implementing iface objects))"
proof -
  let ?es = "map (make_entry make_ref) (implementing iface objects)"
  have ok: "\<forall>obj \<in> set (implementing iface objects). \<exists>r. make_ref (fst obj) (snd obj) = Inr r"
    and rs: "rs = map snd (sort_key fst ?es)"
    using assms(1) by (auto simp: refs_of_objects_Inr_iff)
  have "ref_path (snd e) = fst e" if "e \<in> set ?es" for e
    using that ok assms(2) by (auto simp: make_entry_def)
  then have "map ref_path rs = map fst (sort_key fst ?es)"
    by (simp add: rs comp_def)
  also have "\<dots> = sort (map fst ?es)"
    by (rule properties_for_sort [symmetric]) (simp_all only: mset_map mset_sort sorted_sort_key)
  also have "map fst ?es = map fst (implementing iface objects)"
    by (simp add: make_entry_def comp_def)
  finally show ?thesis .
qed

lemma refs_of_objects_order:
  assumes "mset objects = mset objects'" and "distinct (map fst objects)"
    and "refs_of_objects iface make_ref objects = Inr rs"
  shows "refs_of_objects iface make_ref objects' = Inr rs"
proof -
  let ?es = "map (make_entry make_ref) (implementing iface objects)"
  let ?es' = "map (make_entry make_ref) (implementing iface objects')"
  have "mset (implementing iface objects) = mset (implementing iface objects')"
    by (simp add: implementing_def assms(1))
  then have m: "mset ?es = mset ?es'" and "set (implementing iface objects) = set (implementing iface objects')"
    by (simp_all, metis set_mset_mset)
  moreover have d: "distinct (map fst ?es)"
    using assms(2) by (simp add: make_entry_def comp_def implementing_def distinct_map_filter)
  ultimately show ?thesis
    using assms(3) by (auto simp only: refs_of_objects_Inr_iff sort_key_distinct_mset [OF m d])
qed

end
