(* ===== verification/Daemon.thy ===== *)
theory Daemon
  imports Daemon_Bus Table_Bus
begin

text \<open>
  The core facade of the daemon, \<open>internal/core/daemon.go\<close>, over its backend interface
  \<open>daemonRaw\<close>, and what the two layers promise. A nil \<open>*Daemon\<close> is \<open>None\<close>.
\<close>

record 'w daemon_raw =
  dr_get_info :: "(gerror, 'w, daemon_info) go"
  dr_get_adapters :: "(gerror, 'w, obj_ref list) go"
  dr_get_devices :: "(gerror, 'w, obj_ref list) go"
  dr_get_stations :: "(gerror, 'w, obj_ref list) go"
  dr_get_access_points :: "(gerror, 'w, obj_ref list) go"
  dr_get_basic_service_sets :: "(gerror, 'w, obj_ref list) go"
  dr_get_networks :: "(gerror, 'w, obj_ref list) go"
  dr_get_known_networks :: "(gerror, 'w, obj_ref list) go"

definition iwd_daemon_raw :: "godbus \<Rightarrow> 'w iwd_daemon \<Rightarrow> 'w daemon_raw" where
  "iwd_daemon_raw g d =
     \<lparr>dr_get_info = iwd_daemon_get_info d,
      dr_get_adapters = iwd_daemon_get_adapters g (Some d),
      dr_get_devices = iwd_daemon_get_devices g (Some d),
      dr_get_stations = iwd_daemon_get_stations g (Some d),
      dr_get_access_points = iwd_daemon_get_access_points g (Some d),
      dr_get_basic_service_sets = iwd_daemon_get_basic_service_sets g (Some d),
      dr_get_networks = iwd_daemon_get_networks g (Some d),
      dr_get_known_networks = iwd_daemon_get_known_networks g (Some d)\<rparr>"

record 'w core_daemon =
  cd_raw :: "'w daemon_raw option"

definition new_core_daemon :: "'w daemon_raw option \<Rightarrow> 'w core_daemon option" where
  "new_core_daemon raw = (case raw of None \<Rightarrow> None | Some r \<Rightarrow> Some \<lparr>cd_raw = Some r\<rparr>)"

definition raw_daemon :: "'w core_daemon option \<Rightarrow> string \<Rightarrow> (gerror, 'w, 'w daemon_raw) go" where
  "raw_daemon d op =
     (let nil_daemon = go_fail (wrap_invalid_state ResourceDaemon op ''daemon wrapper was nil''
                                 (Sentinel (NotInitializedS DaemonWrapper)))
      in case d of
           None \<Rightarrow> nil_daemon
         | Some d \<Rightarrow> (case cd_raw d of None \<Rightarrow> nil_daemon | Some raw \<Rightarrow> go_return raw))"

subsection \<open>Info\<close>

definition normalize_daemon_info :: "daemon_info \<Rightarrow> gerror + daemon_info" where
  "normalize_daemon_info raw =
     (let op = ''Daemon.Info''; v = trim_space (Version raw); s = trim_space (StateDirectory raw) in
      if v = ''''
      then Inl (wrap_invalid_state ResourceDaemon op ''daemon returned empty Version''
                  (Errorf ''missing or invalid Version field'' [] []))
      else if s = ''''
      then Inl (wrap_invalid_state ResourceDaemon op ''daemon returned empty StateDirectory''
                  (Errorf ''missing or invalid StateDirectory field'' [] []))
      else if \<not> absolute s
      then Inl (wrap_invalid_state ResourceDaemon op ''daemon returned StateDirectory as relative path''
                  (Errorf ''invalid StateDirectory field'' [] []))
      else Inr \<lparr>Version = v, StateDirectory = s,
                NetworkConfigurationEnabled = NetworkConfigurationEnabled raw\<rparr>)"

definition core_daemon_info :: "'w core_daemon option \<Rightarrow> (gerror, 'w, daemon_info) go" where
  "core_daemon_info d =
     go_bind (raw_daemon d ''Daemon.Info'') (\<lambda>r.
     go_bind (go_wrap (wrap_daemon_unavailable ''Daemon.Info'' ''failed querying iwd Daemon info'')
               (dr_get_info r)) (\<lambda>raw.
     go_lift (normalize_daemon_info raw)))"

definition core_daemon_version :: "'w core_daemon option \<Rightarrow> (gerror, 'w, string) go" where
  "core_daemon_version d = go_bind (core_daemon_info d) (\<lambda>info. go_return (Version info))"

definition core_daemon_state_directory :: "'w core_daemon option \<Rightarrow> (gerror, 'w, string) go" where
  "core_daemon_state_directory d = go_bind (core_daemon_info d) (\<lambda>info. go_return (StateDirectory info))"

definition core_daemon_network_configuration_enabled :: "'w core_daemon option \<Rightarrow> (gerror, 'w, bool) go" where
  "core_daemon_network_configuration_enabled d =
     go_bind (core_daemon_info d) (\<lambda>info. go_return (NetworkConfigurationEnabled info))"

subsection \<open>Listings\<close>

text \<open>
  The body of the seven loops: the trimmed path must be absolute; the trimmed name (for a BSS the
  address: \<open>field\<close> tells) must not be empty, except for stations and access points.
\<close>

definition core_ref_path :: "resource \<Rightarrow> string \<Rightarrow> string \<Rightarrow> string \<Rightarrow> gerror + string" where
  "core_ref_path res op label path =
     (let p = trim_space path in
      if p = '''' \<or> \<not> absolute p
      then Inl (wrap_invalid_state res op (label @ '' returned invalid path'')
                  (Errorf (''invalid '' @ label @ '' path %q'') [p] []))
      else Inr p)"

definition core_named_ref :: "resource \<Rightarrow> string \<Rightarrow> string \<Rightarrow> string \<Rightarrow> obj_ref \<Rightarrow> gerror + obj_ref" where
  "core_named_ref res op label field r =
     try_bind (core_ref_path res op label (ref_path r)) (\<lambda>p.
     (let n = trim_space (ref_name r) in
      if n = ''''
      then Inl (wrap_invalid_state res op (label @ '' returned empty '' @ field)
                  (Errorf (''missing or invalid '' @ field @ '' field'') [] []))
      else Inr \<lparr>ref_path = p, ref_name = n\<rparr>))"

definition core_device_named_ref :: "resource \<Rightarrow> string \<Rightarrow> string \<Rightarrow> obj_ref \<Rightarrow> gerror + obj_ref" where
  "core_device_named_ref res op label r =
     try_bind (core_ref_path res op label (ref_path r)) (\<lambda>p.
     Inr \<lparr>ref_path = p, ref_name = trim_space (ref_name r)\<rparr>)"

definition core_daemon_refs ::
    "'w core_daemon option \<Rightarrow> string \<Rightarrow> string \<Rightarrow> ('w daemon_raw \<Rightarrow> (gerror, 'w, obj_ref list) go)
      \<Rightarrow> (obj_ref \<Rightarrow> gerror + obj_ref) \<Rightarrow> (gerror, 'w, obj_ref list) go" where
  "core_daemon_refs d op details raw_get check =
     go_bind (raw_daemon d op) (\<lambda>r.
     go_bind (go_wrap (wrap_daemon_unavailable op details) (raw_get r)) (\<lambda>raw_refs.
     go_lift (collect check raw_refs)))"

definition core_daemon_adapters :: "'w core_daemon option \<Rightarrow> (gerror, 'w, obj_ref list) go" where
  "core_daemon_adapters d =
     core_daemon_refs d ''Daemon.Adapters'' ''failed getting adapters'' dr_get_adapters
       (core_named_ref ResourceAdapter ''Daemon.Adapters'' ''adapter'' ''Name'')"

definition core_daemon_devices :: "'w core_daemon option \<Rightarrow> (gerror, 'w, obj_ref list) go" where
  "core_daemon_devices d =
     core_daemon_refs d ''Daemon.Devices'' ''failed getting devices'' dr_get_devices
       (core_named_ref ResourceDevice ''Daemon.Devices'' ''device'' ''Name'')"

definition core_daemon_stations :: "'w core_daemon option \<Rightarrow> (gerror, 'w, obj_ref list) go" where
  "core_daemon_stations d =
     core_daemon_refs d ''Daemon.Stations'' ''failed getting stations'' dr_get_stations
       (core_device_named_ref ResourceStation ''Daemon.Stations'' ''station'')"

definition core_daemon_access_points :: "'w core_daemon option \<Rightarrow> (gerror, 'w, obj_ref list) go" where
  "core_daemon_access_points d =
     core_daemon_refs d ''Daemon.AccessPoints'' ''failed getting access points'' dr_get_access_points
       (core_device_named_ref ResourceAccessPoint ''Daemon.AccessPoints'' ''access point'')"

definition core_daemon_basic_service_sets :: "'w core_daemon option \<Rightarrow> (gerror, 'w, obj_ref list) go" where
  "core_daemon_basic_service_sets d =
     core_daemon_refs d ''Daemon.BasicServiceSets'' ''failed getting basic service sets'' dr_get_basic_service_sets
       (core_named_ref ResourceBasicServiceSet ''Daemon.BasicServiceSets'' ''basic service set'' ''Address'')"

definition core_daemon_networks :: "'w core_daemon option \<Rightarrow> (gerror, 'w, obj_ref list) go" where
  "core_daemon_networks d =
     core_daemon_refs d ''Daemon.Networks'' ''failed getting networks'' dr_get_networks
       (core_named_ref ResourceNetwork ''Daemon.Networks'' ''network'' ''Name'')"

definition core_daemon_known_networks :: "'w core_daemon option \<Rightarrow> (gerror, 'w, obj_ref list) go" where
  "core_daemon_known_networks d =
     core_daemon_refs d ''Daemon.KnownNetworks'' ''failed getting known networks'' dr_get_known_networks
       (core_named_ref ResourceKnownNetwork ''Daemon.KnownNetworks'' ''known network'' ''Name'')"

lemmas core_daemon_listing_defs =
  core_daemon_adapters_def core_daemon_devices_def core_daemon_stations_def
  core_daemon_access_points_def core_daemon_basic_service_sets_def core_daemon_networks_def
  core_daemon_known_networks_def

lemma raw_daemon_simps [simp, go_simps]:
  "raw_daemon None op =
     go_fail (wrap_invalid_state ResourceDaemon op ''daemon wrapper was nil'' (Sentinel (NotInitializedS DaemonWrapper)))"
  "raw_daemon (Some \<lparr>cd_raw = Some r\<rparr>) op = go_return r"
  by (simp_all add: raw_daemon_def)

lemma new_core_daemon_Some [simp]: "new_core_daemon (Some r) = Some \<lparr>cd_raw = Some r\<rparr>"
  by (simp add: new_core_daemon_def)

subsection \<open>The contract between the two layers\<close>

text \<open>
  What core relies on in a listing of its backend: absolute paths and trimmed names. It then hands
  every reference on, its path trimmed, and never refuses the listing.
\<close>

definition trim_ref :: "obj_ref \<Rightarrow> obj_ref" where
  "trim_ref r = \<lparr>ref_path = trim_space (ref_path r), ref_name = ref_name r\<rparr>"

locale ref_source =
  fixes refs :: "(gerror, 'w, obj_ref list) go"
    and named :: bool
  assumes clean: "refs w = (Inr rs, w') \<Longrightarrow> r \<in> set rs \<Longrightarrow>
      absolute (ref_path r) \<and> trim_space (ref_name r) = ref_name r \<and> (named \<longrightarrow> ref_name r \<noteq> [])"
begin

lemma core_path:
  "refs w = (Inr rs, w') \<Longrightarrow> r \<in> set rs \<Longrightarrow>
     core_ref_path res op label (ref_path r) = Inr (trim_space (ref_path r))"
  using clean absolute_trim_space absolute_nonempty by (simp add: core_ref_path_def Let_def)

lemma core_keeps_device_named:
  "refs w = (Inr rs, w') \<Longrightarrow> collect (core_device_named_ref res op label) rs = Inr (map trim_ref rs)"
  by (rule collect_map) (auto simp: core_device_named_ref_def core_path trim_ref_def dest: clean)

lemma core_keeps_named:
  "refs w = (Inr rs, w') \<Longrightarrow> named \<Longrightarrow> collect (core_named_ref res op label field) rs = Inr (map trim_ref rs)"
  by (rule collect_map) (auto simp: core_named_ref_def core_path trim_ref_def dest: clean)

end

text \<open>
  godbus documents \<open>ObjectPath.IsValid\<close>: a slash followed by elements of letters, digits and
  underscores; in particular only printable ASCII.
\<close>

definition dbus_paths :: "godbus \<Rightarrow> bool" where
  "dbus_paths g \<longleftrightarrow> (\<forall>p. path_ok g p \<longrightarrow> absolute p \<and> list_all plain p)"

lemma dbus_path_trim: "dbus_paths g \<Longrightarrow> path_ok g p \<Longrightarrow> trim_space p = p"
  unfolding dbus_paths_def
  by (metis absolute_nonempty hd_in_set last_in_set list_all_iff trim_space_plain)

lemma required_ref_name_Inr:
  "required_ref_name g prop label path props = Inr n \<longleftrightarrow>
     path_ok g path \<and> absolute path
     \<and> (\<exists>s. map_of props prop = Some (VStr s) \<and> n = trim_space s \<and> n \<noteq> [])"
  by (auto simp: required_ref_name_def valid_ref_path_def try_bind_Inr_iff expect_string_Inr_iff Let_def
      split: option.splits if_splits)

lemma station_name_trimmed: "trim_space (station_name_from_device ifaces) = station_name_from_device ifaces"
  by (auto simp: station_name_from_device_def split: option.splits)

lemma make_ref_clean:
  "device_named_ref g label path ifaces = Inr r \<Longrightarrow>
     absolute (ref_path r) \<and> trim_space (ref_name r) = ref_name r"
  by (auto simp: device_named_ref_def valid_ref_path_def try_bind_Inr_iff station_name_trimmed split: if_splits)

lemma refs_of_objects_mem:
  assumes "refs_of_objects iface make_ref objects = Inr rs" and "r \<in> set rs"
  obtains path ifaces where "(path, ifaces) \<in> set objects" and "map_of ifaces iface \<noteq> None"
    and "make_ref path ifaces = Inr r"
proof -
  have ok: "\<forall>obj \<in> set (implementing iface objects). \<exists>r. make_ref (fst obj) (snd obj) = Inr r"
    and rs: "rs = map snd (sort_key fst (map (make_entry make_ref) (implementing iface objects)))"
    using assms(1) by (auto simp: refs_of_objects_Inr_iff)
  from assms(2) obtain obj where obj: "obj \<in> set (implementing iface objects)"
    and r: "r = projr (make_ref (fst obj) (snd obj))"
    by (auto simp: rs make_entry_def)
  with ok have "make_ref (fst obj) (snd obj) = Inr r" by fastforce
  with obj show ?thesis by (intro that [of "fst obj" "snd obj"]) (auto simp: implementing_def)
qed

lemma daemon_refs_Inr:
  assumes "daemon_refs g (Some d) op iface make_ref w = (Inr rs, w')"
  obtains conn objects where "d_conn d = Some conn"
    and "get_managed_objects g (Some conn) IwdService w = (Inr objects, w')"
    and "refs_of_objects iface make_ref objects = Inr rs"
proof -
  have "d_conn d \<noteq> None"
    using assms by (simp add: daemon_refs_def get_refs_def split: if_splits)
  then obtain conn where conn: "d_conn d = Some conn" by blast
  with assms that show ?thesis
    by (auto simp: daemon_refs_def get_refs_def go_Inr_iffs)
qed

abbreviation daemon_on :: "'w conn \<Rightarrow> 'w caller \<Rightarrow> 'w iwd_daemon" where
  "daemon_on conn c \<equiv> \<lparr>d_conn = Some conn, d_intro = Some c\<rparr>"

lemma daemon_refs_clean:
  assumes "daemon_refs g (Some d) op iface make_ref w = (Inr rs, w')" and "r \<in> set rs"
    and "\<And>path ifaces r. make_ref path ifaces = Inr r \<Longrightarrow> Q r"
  shows "Q r"
proof -
  from assms(1) obtain objects where "refs_of_objects iface make_ref objects = Inr rs"
    by (rule daemon_refs_Inr)
  from refs_of_objects_mem [OF this assms(2)] obtain path ifaces where "make_ref path ifaces = Inr r" .
  then show ?thesis by (rule assms(3))
qed

definition keyed_ref :: "godbus \<Rightarrow> string \<Rightarrow> string \<Rightarrow> string \<Rightarrow> string \<Rightarrow> interfaces \<Rightarrow> gerror + obj_ref" where
  "keyed_ref g prop label iface path ifaces =
     try_bind (required_ref_name g prop label path (iface_props ifaces iface)) (\<lambda>name.
     Inr \<lparr>ref_path = path, ref_name = name\<rparr>)"

lemma keyed_ref_eqs:
  "named_ref g label iface = keyed_ref g ''Name'' label iface"
  "bss_ref g = keyed_ref g ''Address'' ''basic service set'' IwdBasicServiceSetIface"
  by (auto simp: fun_eq_iff named_ref_def bss_ref_def keyed_ref_def object_name_from_managed_object_def
      bss_address_from_managed_object_def)

lemma keyed_ref_Inr:
  "keyed_ref g prop label iface path ifaces = Inr r \<longleftrightarrow>
     path_ok g path \<and> absolute path
     \<and> (\<exists>s. map_of (iface_props ifaces iface) prop = Some (VStr s) \<and> trim_space s \<noteq> []
          \<and> r = \<lparr>ref_path = path, ref_name = trim_space s\<rparr>)"
  by (auto simp: keyed_ref_def try_bind_Inr_iff required_ref_name_Inr)

interpretation keyed_refs: ref_source "daemon_refs g (Some d) op iface (keyed_ref g key label iface)" True
  for g d op iface key label
  by unfold_locales (erule (1) daemon_refs_clean, auto simp: keyed_ref_Inr)

interpretation device_refs: ref_source "daemon_refs g (Some d) op iface (device_named_ref g label)" False
  for g d op iface label
  by unfold_locales (erule (1) daemon_refs_clean, auto dest: make_ref_clean)

subsection \<open>What a listing contains\<close>

abbreviation core_daemon_on :: "godbus \<Rightarrow> 'w conn \<Rightarrow> 'w caller \<Rightarrow> 'w core_daemon option" where
  "core_daemon_on g conn c \<equiv> new_core_daemon (Some (iwd_daemon_raw g (daemon_on conn c)))"

text \<open>The five listings whose references carry a required property, with the property.\<close>

definition named_listings ::
    "(('w core_daemon option \<Rightarrow> (gerror, 'w, obj_ref list) go) \<times> string \<times> string) list" where
  "named_listings =
     [(core_daemon_adapters, IwdAdapterIface, ''Name''),
      (core_daemon_devices, IwdDeviceIface, ''Name''),
      (core_daemon_basic_service_sets, IwdBasicServiceSetIface, ''Address''),
      (core_daemon_networks, IwdNetworkIface, ''Name''),
      (core_daemon_known_networks, IwdKnownNetworkIface, ''Name'')]"

lemma daemon_refs_on:
  "daemon_refs g (Some (daemon_on conn c)) op iface mk w = (Inr rs, w') \<longleftrightarrow>
     (\<exists>objs. get_managed_objects g (Some conn) IwdService w = (Inr objs, w') \<and> refs_of_objects iface mk objs = Inr rs)"
  by (auto simp: daemon_refs_def get_refs_def go_Inr_iffs)

lemma core_daemon_refs_on:
  assumes "\<And>w rs w'. raw_get r w = (Inr rs, w') \<Longrightarrow> collect check rs = Inr (map trim_ref rs)"
  shows "core_daemon_refs (Some \<lparr>cd_raw = Some r\<rparr>) op details raw_get check w = (Inr rs, w') \<longleftrightarrow>
     (\<exists>rs0. raw_get r w = (Inr rs0, w') \<and> rs = map trim_ref rs0)"
  using assms by (auto simp: core_daemon_refs_def go_Inr_iffs)

text \<open>A listing of the core layer is the listing of the objects, with trimmed paths.\<close>

lemma core_keyed_listing:
  assumes "raw_get (iwd_daemon_raw g (daemon_on conn c)) =
             daemon_refs g (Some (daemon_on conn c)) iop iface (keyed_ref g prop label iface)"
  shows "core_daemon_refs (core_daemon_on g conn c) op details raw_get (core_named_ref res op label' field) w
           = (Inr rs, w') \<longleftrightarrow>
     (\<exists>objs rs0. get_managed_objects g (Some conn) IwdService w = (Inr objs, w')
        \<and> refs_of_objects iface (keyed_ref g prop label iface) objs = Inr rs0 \<and> rs = map trim_ref rs0)"
proof -
  have keeps: "collect (core_named_ref res op label' field) rs = Inr (map trim_ref rs)"
    if "raw_get (iwd_daemon_raw g (daemon_on conn c)) w = (Inr rs, w')" for w rs w'
    using that unfolding assms by (rule keyed_refs.core_keeps_named) simp
  have "core_daemon_refs (core_daemon_on g conn c) op details raw_get (core_named_ref res op label' field) w = (Inr rs, w')
      \<longleftrightarrow> (\<exists>rs0. raw_get (iwd_daemon_raw g (daemon_on conn c)) w = (Inr rs0, w') \<and> rs = map trim_ref rs0)"
    unfolding new_core_daemon_Some by (rule core_daemon_refs_on) (rule keeps)
  then show ?thesis
    unfolding assms daemon_refs_on by auto
qed

lemma core_device_listing:
  assumes "raw_get (iwd_daemon_raw g (daemon_on conn c)) =
             daemon_refs g (Some (daemon_on conn c)) iop iface (device_named_ref g label)"
  shows "core_daemon_refs (core_daemon_on g conn c) op details raw_get (core_device_named_ref res op label') w
           = (Inr rs, w') \<longleftrightarrow>
     (\<exists>objs rs0. get_managed_objects g (Some conn) IwdService w = (Inr objs, w')
        \<and> refs_of_objects iface (device_named_ref g label) objs = Inr rs0 \<and> rs = map trim_ref rs0)"
proof -
  have keeps: "collect (core_device_named_ref res op label') rs = Inr (map trim_ref rs)"
    if "raw_get (iwd_daemon_raw g (daemon_on conn c)) w = (Inr rs, w')" for w rs w'
    using that unfolding assms by (rule device_refs.core_keeps_device_named)
  have "core_daemon_refs (core_daemon_on g conn c) op details raw_get (core_device_named_ref res op label') w = (Inr rs, w')
      \<longleftrightarrow> (\<exists>rs0. raw_get (iwd_daemon_raw g (daemon_on conn c)) w = (Inr rs0, w') \<and> rs = map trim_ref rs0)"
    unfolding new_core_daemon_Some by (rule core_daemon_refs_on) (rule keeps)
  then show ?thesis
    unfolding assms daemon_refs_on by auto
qed

lemma core_named_listing:
  assumes "(f, iface, prop) \<in> set named_listings"
  obtains label where "\<And>conn c w rs w'. f (core_daemon_on g conn c) w = (Inr rs, w') \<longleftrightarrow>
     (\<exists>objs rs0. get_managed_objects g (Some conn) IwdService w = (Inr objs, w')
        \<and> refs_of_objects iface (keyed_ref g prop label iface) objs = Inr rs0 \<and> rs = map trim_ref rs0)"
proof -
  from assms consider "f = core_daemon_adapters" "iface = IwdAdapterIface" "prop = ''Name''"
    | "f = core_daemon_devices" "iface = IwdDeviceIface" "prop = ''Name''"
    | "f = core_daemon_basic_service_sets" "iface = IwdBasicServiceSetIface" "prop = ''Address''"
    | "f = core_daemon_networks" "iface = IwdNetworkIface" "prop = ''Name''"
    | "f = core_daemon_known_networks" "iface = IwdKnownNetworkIface" "prop = ''Name''"
    by (auto simp: named_listings_def)
  then show thesis
  proof cases
    case 1
    show thesis
      by (rule that [of "''adapter''", unfolded 1 core_daemon_adapters_def], rule core_keyed_listing)
        (simp add: iwd_daemon_raw_def iwd_daemon_get_adapters_def keyed_ref_eqs)
  next
    case 2
    show thesis
      by (rule that [of "''device''", unfolded 2 core_daemon_devices_def], rule core_keyed_listing)
        (simp add: iwd_daemon_raw_def iwd_daemon_get_devices_def keyed_ref_eqs)
  next
    case 3
    show thesis
      by (rule that [of "''basic service set''", unfolded 3 core_daemon_basic_service_sets_def], rule core_keyed_listing)
        (simp add: iwd_daemon_raw_def iwd_daemon_get_basic_service_sets_def keyed_ref_eqs)
  next
    case 4
    show thesis
      by (rule that [of "''network''", unfolded 4 core_daemon_networks_def], rule core_keyed_listing)
        (simp add: iwd_daemon_raw_def iwd_daemon_get_networks_def keyed_ref_eqs)
  next
    case 5
    show thesis
      by (rule that [of "''known network''", unfolded 5 core_daemon_known_networks_def], rule core_keyed_listing)
        (simp add: iwd_daemon_raw_def iwd_daemon_get_known_networks_def keyed_ref_eqs)
  qed
qed

lemma core_named_listing_ex:
  assumes "(f, iface, key) \<in> set named_listings"
  shows "\<exists>label. \<forall>conn c w rs w'. f (core_daemon_on g conn c) w = (Inr rs, w') \<longleftrightarrow>
     (\<exists>objs rs0. get_managed_objects g (Some conn) IwdService w = (Inr objs, w')
        \<and> refs_of_objects iface (keyed_ref g key label iface) objs = Inr rs0 \<and> rs = map trim_ref rs0)"
  by (rule core_named_listing [OF assms, of g]) blast

lemma keyed_ref_path: "keyed_ref g prop label iface path ifaces = Inr r \<Longrightarrow> ref_path r = path"
  by (auto simp: keyed_ref_Inr)

lemma trim_refs_paths:
  assumes "dbus_paths g" and "refs_of_objects iface (keyed_ref g prop label iface) objs = Inr rs"
  shows "map trim_ref rs = rs"
proof (rule map_idI)
  fix r assume "r \<in> set rs"
  with assms(2) obtain path ifaces where "keyed_ref g prop label iface path ifaces = Inr r"
    using refs_of_objects_mem by blast
  then have "path_ok g path" and r: "ref_path r = path" by (auto simp: keyed_ref_Inr)
  with dbus_path_trim [OF assms(1)] show "trim_ref r = r"
    by (cases r) (simp add: trim_ref_def)
qed

text \<open>
  C18: A listing of adapters, devices, basic service sets, networks or known networks that succeeds
  has exactly one reference for every object iwd reports with that interface, in the order of the
  object paths, each with the trimmed, non-empty value of its \<open>Name\<close> (\<open>Address\<close>) property.
\<close>

theorem listing_has_every_object_in_order:
  assumes "(f, iface, key) \<in> set named_listings" and "dbus_paths g"
    and "f (core_daemon_on g conn c) w = (Inr rs, w')"
  shows "\<exists>objs. get_managed_objects g (Some conn) IwdService w = (Inr objs, w')
     \<and> map ref_path rs = sort (map fst (implementing iface objs))
     \<and> (\<forall>r \<in> set rs. \<exists>ifaces s. (ref_path r, ifaces) \<in> set objs \<and> map_of ifaces iface \<noteq> None
           \<and> map_of (iface_props ifaces iface) key = Some (VStr s)
           \<and> ref_name r = trim_space s \<and> ref_name r \<noteq> [])"
proof -
  from core_named_listing_ex [OF assms(1), of g] assms(3) obtain label objs rs0
    where objs: "get_managed_objects g (Some conn) IwdService w = (Inr objs, w')"
      and rs0: "refs_of_objects iface (keyed_ref g key label iface) objs = Inr rs0"
      and rs: "rs = map trim_ref rs0"
    by blast
  have rs_eq: "rs = rs0" using trim_refs_paths [OF assms(2), of iface key label objs rs0] rs0 rs by simp
  have "\<exists>ifaces s. (ref_path r, ifaces) \<in> set objs \<and> map_of ifaces iface \<noteq> None
      \<and> map_of (iface_props ifaces iface) key = Some (VStr s) \<and> ref_name r = trim_space s \<and> ref_name r \<noteq> []"
    if "r \<in> set rs" for r
  proof -
    from that rs_eq have "r \<in> set rs0" by simp
    from refs_of_objects_mem [OF rs0 this] obtain path ifaces
      where "(path, ifaces) \<in> set objs" "map_of ifaces iface \<noteq> None"
        "keyed_ref g key label iface path ifaces = Inr r" .
    then show ?thesis by (intro exI [of _ ifaces]) (auto simp: keyed_ref_Inr)
  qed
  moreover have "map ref_path rs = sort (map fst (implementing iface objs))"
    unfolding rs_eq by (rule refs_of_objects_paths [OF rs0]) (rule keyed_ref_path)
  ultimately show ?thesis using objs by blast
qed

text \<open>
  The result of a listing does not depend on the order in which Go's map iteration visits the
  managed objects: two answers of the bus with the same objects give the same list.
\<close>

theorem listing_ignores_the_map_order:
  assumes "(f, iface, key) \<in> set named_listings"
    and "get_managed_objects g (Some conn) IwdService w = (Inr objs, w1)"
    and "get_managed_objects g (Some conn') IwdService v = (Inr objs', v1)"
    and "mset objs = mset objs'" and "distinct (map fst objs)"
    and "f (core_daemon_on g conn c) w = (Inr rs, w1)"
  shows "f (core_daemon_on g conn' c) v = (Inr rs, v1)"
proof -
  from core_named_listing_ex [OF assms(1), of g] obtain label
    where f: "f (core_daemon_on g conn c) w = (Inr rs, w') \<longleftrightarrow>
      (\<exists>objs rs0. get_managed_objects g (Some conn) IwdService w = (Inr objs, w')
         \<and> refs_of_objects iface (keyed_ref g key label iface) objs = Inr rs0 \<and> rs = map trim_ref rs0)"
    for conn c w rs w' by blast
  from assms(2,6) obtain rs0 where "refs_of_objects iface (keyed_ref g key label iface) objs = Inr rs0"
    and "rs = map trim_ref rs0"
    unfolding f by auto
  with refs_of_objects_order [OF assms(4,5)] assms(3) show ?thesis unfolding f by auto
qed

text \<open>
  One object without a usable name takes the whole listing down: when an object iwd reports
  with the interface has a \<open>Name\<close> (\<open>Address\<close>) that is blank, the listing of all objects fails.
\<close>

theorem one_blank_name_fails_the_listing:
  assumes "(f, iface, key) \<in> set named_listings"
    and "get_managed_objects g (Some conn) IwdService w = (Inr objs, w1)"
    and "(path, ifaces) \<in> set objs" and "map_of ifaces iface = Some props"
    and "map_of props key = Some (VStr s)" and "trim_space s = []"
  shows "\<exists>e w'. f (core_daemon_on g conn c) w = (Inl e, w')"
proof -
  from core_named_listing_ex [OF assms(1), of g] obtain label
    where f: "f (core_daemon_on g conn c) w = (Inr rs, w') \<longleftrightarrow>
      (\<exists>objs rs0. get_managed_objects g (Some conn) IwdService w = (Inr objs, w')
         \<and> refs_of_objects iface (keyed_ref g key label iface) objs = Inr rs0 \<and> rs = map trim_ref rs0)"
    for conn c w rs w' by blast
  have "keyed_ref g key label iface path ifaces \<noteq> Inr r" for r
    using assms(4-6) by (auto simp: keyed_ref_Inr iface_props_def)
  moreover have "(path, ifaces) \<in> set (implementing iface objs)"
    using assms(3,4) by (auto simp: implementing_def)
  ultimately have "refs_of_objects iface (keyed_ref g key label iface) objs \<noteq> Inr rs0" for rs0
    unfolding refs_of_objects_Inr_iff by force
  then have "f (core_daemon_on g conn c) w \<noteq> (Inr rs, w')" for rs w'
    unfolding f using assms(2) by auto
  then show ?thesis by (metis old.prod.exhaust sum.exhaust)
qed

definition good_info :: "daemon_info \<Rightarrow> bool" where
  "good_info i \<longleftrightarrow> trim_space (Version i) \<noteq> [] \<and> absolute (trim_space (StateDirectory i))"

text \<open>
  The daemon's info, whatever backend it comes from: a result has a trimmed non-empty version
  and a trimmed absolute state directory and the three single getters return its fields; a version
  or directory that is missing, blank or relative is reported as an invalid-state error.
\<close>

theorem daemon_info_is_validated:
  assumes "dr_get_info raw w = (Inr i, w')" and "d = new_core_daemon (Some raw)"
  shows "(good_info i \<longrightarrow>
           (core_daemon_info d w =
             (Inr \<lparr>Version = trim_space (Version i), StateDirectory = trim_space (StateDirectory i),
                   NetworkConfigurationEnabled = NetworkConfigurationEnabled i\<rparr>, w'))
         \<and> core_daemon_version d w = (Inr (trim_space (Version i)), w')
         \<and> core_daemon_state_directory d w = (Inr (trim_space (StateDirectory i)), w')
         \<and> core_daemon_network_configuration_enabled d w = (Inr (NetworkConfigurationEnabled i), w'))
       \<and> (\<not> good_info i \<longrightarrow> (\<exists>e. core_daemon_info d w = (Inl e, w') \<and> core_daemon_version d w = (Inl e, w')
           \<and> errors_is (wrap_public_error pop e) ErrInvalidState))"
proof (cases "good_info i")
  case True
  then have "normalize_daemon_info i =
      Inr \<lparr>Version = trim_space (Version i), StateDirectory = trim_space (StateDirectory i),
           NetworkConfigurationEnabled = NetworkConfigurationEnabled i\<rparr>"
    by (auto simp: normalize_daemon_info_def Let_def good_info_def dest: absolute_nonempty)
  with True show ?thesis
    by (simp add: assms(2) core_daemon_info_def core_daemon_version_def core_daemon_state_directory_def
        core_daemon_network_configuration_enabled_def go_bind_def go_wrap_def assms(1))
next
  case False
  then have "\<exists>details cause. normalize_daemon_info i =
      Inl (wrap_invalid_state ResourceDaemon ''Daemon.Info'' details (Errorf cause [] []))"
    unfolding good_info_def normalize_daemon_info_def Let_def by simp blast
  then obtain details cause where "normalize_daemon_info i =
      Inl (wrap_invalid_state ResourceDaemon ''Daemon.Info'' details (Errorf cause [] []))"
    by blast
  with False show ?thesis
    by (simp add: assms(2) core_daemon_info_def core_daemon_version_def go_bind_def go_wrap_def assms(1)
        wpub.wrap_is public_adds_def wrap_invalid_state_def new_error_def)
qed

subsection \<open>Instances\<close>

definition demo_objects :: "string \<Rightarrow> dval list" where
  "demo_objects name =
     [VAnys [VPath ''/n'', VStr IwdNetworkIface, VVarMap [(''Name'', VStr name)]],
      VAnys [VPath ''/a'', VStr IwdAdapterIface, VVarMap []]]"

definition demo_bus :: "dval list \<Rightarrow> unit conn" where
  "demo_bus vs = table_conn [] (\<lambda>_ _. Inr [VAnys vs])"

lemma demo_bus_objects:
  "get_managed_objects table_godbus (Some (demo_bus vs)) IwdService () = (Inr (map table_object vs), ())"
  by (simp add: get_managed_objects_def demo_bus_def table_conn_def go_wrap_def)

abbreviation demo_daemon :: "dval list \<Rightarrow> unit core_daemon option" where
  "demo_daemon vs \<equiv> core_daemon_on table_godbus (demo_bus vs) (table_caller [] (\<lambda>_ _. Inr []))"

lemma table_paths: "dbus_paths table_godbus"
  by (simp add: dbus_paths_def)

lemma networks_named: "(core_daemon_networks, IwdNetworkIface, ''Name'') \<in> set named_listings"
  by (simp add: named_listings_def)

lemma iface_names: "IwdAdapterIface \<noteq> IwdNetworkIface" "IwdNetworkIface \<noteq> IwdAdapterIface"
  by (simp_all add: IwdAdapterIface_def IwdNetworkIface_def)

lemma demo_trims: "trim_space ''home'' = ''home''" "trim_space ''/n'' = ''/n''"
  by (rule trim_space_plain; simp add: plain_def)+

lemma demo_networks_listed:
  "core_daemon_networks (demo_daemon (demo_objects ''home'')) () = (Inr [\<lparr>ref_path = ''/n'', ref_name = ''home''\<rparr>], ())"
proof -
  have "daemon_refs table_godbus (Some (daemon_on (demo_bus (demo_objects ''home'')) c)) op IwdNetworkIface
      (keyed_ref table_godbus ''Name'' label IwdNetworkIface) ()
      = (Inr [\<lparr>ref_path = ''/n'', ref_name = ''home''\<rparr>], ())" for op label c
    unfolding daemon_refs_on
    by (simp add: demo_bus_objects demo_objects_def refs_of_objects_def iface_names keyed_ref_def
        required_ref_name_def valid_ref_path_def plain_def iface_props_def expect_string_def demo_trims)
  then show ?thesis
    by (simp add: core_daemon_networks_def core_daemon_refs_def iwd_daemon_raw_def iwd_daemon_get_networks_def
        keyed_ref_eqs go_bind_def go_wrap_def core_named_ref_def core_ref_path_def demo_trims)
qed

theorem listing_has_every_object_in_order_witness:
  "\<exists>objs. get_managed_objects table_godbus (Some (demo_bus (demo_objects ''home''))) IwdService () = (Inr objs, ())
     \<and> [''/n''] = sort (map fst (implementing IwdNetworkIface objs))"
  using listing_has_every_object_in_order [OF networks_named table_paths demo_networks_listed]
  by (auto simp only: list.map obj_ref.simps)

theorem listing_ignores_the_map_order_witness:
  "core_daemon_networks (demo_daemon (rev (demo_objects ''home''))) ()
     = (Inr [\<lparr>ref_path = ''/n'', ref_name = ''home''\<rparr>], ())"
proof (rule listing_ignores_the_map_order [OF networks_named demo_bus_objects demo_bus_objects _ _ demo_networks_listed])
  show "mset (map table_object (demo_objects ''home'')) = mset (map table_object (rev (demo_objects ''home'')))"
    by simp
  show "distinct (map fst (map table_object (demo_objects ''home'')))"
    by (simp add: demo_objects_def)
qed

theorem one_blank_name_fails_the_listing_witness:
  "\<exists>e w'. core_daemon_networks (demo_daemon (demo_objects [])) () = (Inl e, w')"
proof (rule one_blank_name_fails_the_listing [OF networks_named demo_bus_objects _ _ _ trim_space_Nil])
  show "(''/n'', [(IwdNetworkIface, [(''Name'', VStr [])])]) \<in> set (map table_object (demo_objects []))"
    by (simp add: demo_objects_def)
  show "map_of [(IwdNetworkIface, [(''Name'', VStr [])])] IwdNetworkIface = Some [(''Name'', VStr [])]"
    by simp
  show "map_of [(''Name'', VStr [])] ''Name'' = Some (VStr [])" by simp
qed

definition info_raw :: "unit daemon_raw" where
  "info_raw = (iwd_daemon_raw table_godbus (daemon_on (demo_bus []) (table_caller [] (\<lambda>_ _. Inr []))))
     \<lparr>dr_get_info := go_return \<lparr>Version = ''3.9'', StateDirectory = ''/n'', NetworkConfigurationEnabled = True\<rparr>\<rparr>"

theorem daemon_info_is_validated_witness:
  "core_daemon_version (new_core_daemon (Some info_raw)) () = (Inr ''3.9'', ())"
proof -
  let ?i = "\<lparr>Version = ''3.9'', StateDirectory = ''/n'', NetworkConfigurationEnabled = True\<rparr>"
  have "dr_get_info info_raw () = (Inr ?i, ())" by (simp add: info_raw_def)
  moreover have v: "trim_space ''3.9'' = ''3.9''" by (rule trim_space_plain) (simp_all add: plain_def)
  moreover have "good_info ?i" by (simp add: good_info_def v demo_trims)
  ultimately show ?thesis
    using daemon_info_is_validated [of info_raw "()" ?i "()" "new_core_daemon (Some info_raw)"] by simp
qed

end
