(* ===== verification/Bss.thy ===== *)
theory Bss
  imports Station
begin

text \<open>
  Basic service sets, \<open>internal/iwdbus/bss.go\<close> and \<open>internal/core/bss.go\<close>: one required property.
\<close>

record 'w iwd_bss =
  bss_call :: "'w caller option"

definition iwd_new_bss :: "godbus \<Rightarrow> 'w conn \<Rightarrow> string \<Rightarrow> (gerror, 'w, 'w iwd_bss) go" where
  "iwd_new_bss g conn path =
     go_bind (new_object g conn IwdBasicServiceSetIface path) (\<lambda>c. go_return \<lparr>bss_call = Some c\<rparr>)"

definition iwd_bss_get_address :: "'w iwd_bss \<Rightarrow> (gerror, 'w, string) go" where
  "iwd_bss_get_address b =
     go_bind (ensure_initialized ''BasicServiceSet'' BasicServiceSetObj (bss_call b)) (\<lambda>c.
     go_bind (read_property c IwdBasicServiceSetIface ''Address'') (\<lambda>v.
     go_lift (expect_string ''Address'' v)))"

record bss_properties =
  Address :: string

definition iwd_bss_get_properties :: "'w iwd_bss \<Rightarrow> (gerror, 'w, bss_properties) go" where
  "iwd_bss_get_properties b =
     go_bind (ensure_initialized ''BasicServiceSet'' BasicServiceSetObj (bss_call b)) (\<lambda>c.
     go_bind (read_all c IwdBasicServiceSetIface) (\<lambda>raw.
     go_lift (try_bind (required IwdBasicServiceSetIface raw ''Address'') (\<lambda>v.
              try_bind (expect_string ''Address'' v) (\<lambda>address.
              Inr \<lparr>Address = address\<rparr>)))))"

text \<open>The backend interface \<open>bssRaw\<close> and the core facade.\<close>

record 'w bss_raw =
  br_get_address :: "(gerror, 'w, string) go"
  br_get_properties :: "(gerror, 'w, bss_properties) go"

definition iwd_bss_raw :: "'w iwd_bss \<Rightarrow> 'w bss_raw" where
  "iwd_bss_raw b = \<lparr>br_get_address = iwd_bss_get_address b, br_get_properties = iwd_bss_get_properties b\<rparr>"

record 'w core_bss =
  cb_raw :: "'w bss_raw option"

definition new_core_bss :: "'w bss_raw option \<Rightarrow> 'w core_bss option" where
  "new_core_bss raw = (case raw of None \<Rightarrow> None | Some r \<Rightarrow> Some \<lparr>cb_raw = Some r\<rparr>)"

definition raw_bss :: "'w core_bss option \<Rightarrow> string \<Rightarrow> (gerror, 'w, 'w bss_raw) go" where
  "raw_bss b op =
     (let nil_bss = go_fail (wrap_invalid_state ResourceBasicServiceSet op ''basic service set wrapper was nil''
                              (Sentinel (NotInitializedS BasicServiceSetWrapper)))
      in case b of
           None \<Rightarrow> nil_bss
         | Some b \<Rightarrow> (case cb_raw b of None \<Rightarrow> nil_bss | Some raw \<Rightarrow> go_return raw))"

definition bss_address_field :: "string \<Rightarrow> string \<Rightarrow> gerror + string" where
  "bss_address_field op raw =
     (let a = trim_space raw in
      if a = '''' then Inl (wrap_invalid_state ResourceBasicServiceSet op ''basic service set returned empty Address''
                              (Errorf ''missing or invalid Address field'' [] []))
      else Inr a)"

definition core_bss_address :: "'w core_bss option \<Rightarrow> (gerror, 'w, string) go" where
  "core_bss_address b =
     go_bind (raw_bss b ''BasicServiceSet.Address'') (\<lambda>r.
     go_bind (go_wrap (wrap_bss_unavailable ''BasicServiceSet.Address''
                        ''failed querying iwd BasicServiceSet address'') (br_get_address r)) (\<lambda>raw.
     go_lift (bss_address_field ''BasicServiceSet.Address'' raw)))"

definition core_bss_properties :: "'w core_bss option \<Rightarrow> (gerror, 'w, bss_properties) go" where
  "core_bss_properties b =
     go_bind (raw_bss b ''BasicServiceSet.Properties'') (\<lambda>r.
     go_bind (go_wrap (wrap_bss_unavailable ''BasicServiceSet.Properties''
                        ''failed querying iwd BasicServiceSet properties'') (br_get_properties r)) (\<lambda>raw.
     go_bind (go_lift (bss_address_field ''BasicServiceSet.Properties'' (Address raw))) (\<lambda>address.
     go_return \<lparr>Address = address\<rparr>)))"

lemma raw_bss_simps [simp, go_simps]: "raw_bss (Some \<lparr>cb_raw = Some r\<rparr>) op = go_return r"
  by (simp add: raw_bss_def)

lemma bss_address_field_Inr_iff:
  "bss_address_field op s = Inr a \<longleftrightarrow> a = trim_space s \<and> a \<noteq> []"
  by (auto simp: bss_address_field_def Let_def)

text \<open>
  When the bus reports one state of a BSS, reading its address alone and reading all its
  properties agree; the address is the reported one, trimmed, and never empty.
\<close>

lemma bss_reads_agree:
  assumes "reports c IwdBasicServiceSetIface tab w"
  shows "(core_bss_address (new_core_bss (Some (iwd_bss_raw \<lparr>bss_call = Some c\<rparr>))) w = (Inr a, w) \<longleftrightarrow>
            core_bss_properties (new_core_bss (Some (iwd_bss_raw \<lparr>bss_call = Some c\<rparr>))) w = (Inr \<lparr>Address = a\<rparr>, w))
       \<and> (core_bss_address (new_core_bss (Some (iwd_bss_raw \<lparr>bss_call = Some c\<rparr>))) w = (Inr a, w) \<longleftrightarrow>
            (\<exists>s. map_of tab ''Address'' = Some (VStr s) \<and> a = trim_space s \<and> a \<noteq> []))"
proof -
  note simps = core_bss_address_def core_bss_properties_def new_core_bss_def iwd_bss_raw_def
    iwd_bss_get_address_def iwd_bss_get_properties_def read_all_def go_Inr_iffs
    read_property_reports [OF assms] reports_all [OF assms] required_Inr_iff expect_string_Inr_iff
    bss_address_field_Inr_iff
  have "core_bss_address (new_core_bss (Some (iwd_bss_raw \<lparr>bss_call = Some c\<rparr>))) w = (Inr a, w) \<longleftrightarrow>
      (\<exists>s. map_of tab ''Address'' = Some (VStr s) \<and> a = trim_space s \<and> a \<noteq> [])"
    by (auto simp: simps)
  moreover have "core_bss_properties (new_core_bss (Some (iwd_bss_raw \<lparr>bss_call = Some c\<rparr>))) w = (Inr \<lparr>Address = a\<rparr>, w) \<longleftrightarrow>
      (\<exists>s. map_of tab ''Address'' = Some (VStr s) \<and> a = trim_space s \<and> a \<noteq> [])"
    by (auto simp: simps)
  ultimately show ?thesis by simp
qed

end
