(* ===== verification/Wsc.thy ===== *)
theory Wsc
  imports Station
begin

text \<open>
  Wi-Fi Simple Configuration, \<open>internal/iwdbus/wsc.go\<close> and \<open>internal/core/wsc.go\<close>: push-button and PIN
  enrolment.
\<close>

record 'w iwd_wsc =
  wsc_call :: "'w caller option"

definition iwd_new_wsc :: "godbus \<Rightarrow> 'w conn \<Rightarrow> string \<Rightarrow> (gerror, 'w, 'w iwd_wsc) go" where
  "iwd_new_wsc g conn path =
     go_bind (new_object g conn IwdSimpleConfigurationIface path) (\<lambda>c. go_return \<lparr>wsc_call = Some c\<rparr>)"

definition wsc_method :: "'w iwd_wsc \<Rightarrow> string \<Rightarrow> dval list \<Rightarrow> (gerror, 'w, dval list) go" where
  "wsc_method s method args =
     go_bind (ensure_initialized ''SimpleConfiguration'' SimpleConfigurationObj (wsc_call s)) (\<lambda>c.
     go_wrap (wrap_iwd_method IwdSimpleConfigurationIface method)
       (c_call c IwdSimpleConfigurationIface method args))"

definition iwd_wsc_push_button :: "'w iwd_wsc \<Rightarrow> (gerror, 'w, unit) go" where
  "iwd_wsc_push_button s = go_bind (wsc_method s ''PushButton'' []) (\<lambda>_. go_return ())"

definition iwd_wsc_generate_pin :: "godbus \<Rightarrow> 'w iwd_wsc \<Rightarrow> (gerror, 'w, string) go" where
  "iwd_wsc_generate_pin g s =
     go_bind (wsc_method s ''GeneratePin'' []) (\<lambda>body.
     go_wrap (unexpected_reply ''GeneratePin'') (go_lift (store_string g body)))"

definition iwd_wsc_start_pin :: "'w iwd_wsc \<Rightarrow> string \<Rightarrow> (gerror, 'w, unit) go" where
  "iwd_wsc_start_pin s pin = go_bind (wsc_method s ''StartPin'' [VStr pin]) (\<lambda>_. go_return ())"

definition iwd_wsc_cancel :: "'w iwd_wsc \<Rightarrow> (gerror, 'w, unit) go" where
  "iwd_wsc_cancel s = go_bind (wsc_method s ''Cancel'' []) (\<lambda>_. go_return ())"

text \<open>The backend interface \<open>simpleConfigurationRaw\<close> and the core facade.\<close>

record 'w wsc_raw =
  wr_push_button :: "(gerror, 'w, unit) go"
  wr_generate_pin :: "(gerror, 'w, string) go"
  wr_start_pin :: "string \<Rightarrow> (gerror, 'w, unit) go"
  wr_cancel :: "(gerror, 'w, unit) go"

definition iwd_wsc_raw :: "godbus \<Rightarrow> 'w iwd_wsc \<Rightarrow> 'w wsc_raw" where
  "iwd_wsc_raw g s =
     \<lparr>wr_push_button = iwd_wsc_push_button s, wr_generate_pin = iwd_wsc_generate_pin g s,
      wr_start_pin = iwd_wsc_start_pin s, wr_cancel = iwd_wsc_cancel s\<rparr>"

record 'w core_wsc =
  cw_raw :: "'w wsc_raw option"

definition new_core_wsc :: "'w wsc_raw option \<Rightarrow> 'w core_wsc option" where
  "new_core_wsc raw = (case raw of None \<Rightarrow> None | Some r \<Rightarrow> Some \<lparr>cw_raw = Some r\<rparr>)"

definition raw_config :: "'w core_wsc option \<Rightarrow> string \<Rightarrow> (gerror, 'w, 'w wsc_raw) go" where
  "raw_config s op =
     (let nil_wsc = go_fail (wrap_invalid_state ResourceSimpleConfiguration op ''simple configuration wrapper was nil''
                              (Sentinel (NotInitializedS SimpleConfigurationWrapper)))
      in case s of
           None \<Rightarrow> nil_wsc
         | Some s \<Rightarrow> (case cw_raw s of None \<Rightarrow> nil_wsc | Some raw \<Rightarrow> go_return raw))"

text \<open>
  \<open>normalizeWSCPin\<close>. Dropping the bytes of blank and hyphen drops those runes; a byte of a longer
  rune, like the replacement character \<open>strings.Map\<close> puts for an invalid one, is no digit either way.
  The \<open>Inl\<close> is the text of the error, all that its caller uses.
\<close>

definition pin_digit :: "char \<Rightarrow> bool" where
  "pin_digit c \<longleftrightarrow> (48 :: nat) \<le> of_char c \<and> of_char c \<le> (57 :: nat)"

definition normalize_wsc_pin :: "string \<Rightarrow> string + string" where
  "normalize_wsc_pin pin =
     (let cleaned = filter (\<lambda>c. c \<noteq> CHR '' '' \<and> c \<noteq> CHR ''-'') pin in
      if cleaned = '''' then Inl ''WSC PIN must not be empty''
      else if \<not> list_all pin_digit cleaned
      then Inl ''WSC PIN must contain only digits (optionally spaced or hyphenated)''
      else if length cleaned \<noteq> 4 \<and> length cleaned \<noteq> 8
      then Inl (sprintf ''WSC PIN must be 4 or 8 digits, got %d'' [decimal (int (length cleaned))])
      else Inr cleaned)"

definition core_wsc_push_button :: "'w core_wsc option \<Rightarrow> (gerror, 'w, unit) go" where
  "core_wsc_push_button s =
     go_bind (raw_config s ''SimpleConfiguration.PushButton'') (\<lambda>r.
     go_wrap (wrap_simple_configuration_unavailable ''SimpleConfiguration.PushButton''
               ''failed starting WSC PushButton enrollment'') (wr_push_button r))"

definition core_wsc_generate_pin :: "'w core_wsc option \<Rightarrow> (gerror, 'w, string) go" where
  "core_wsc_generate_pin s =
     go_bind (raw_config s ''SimpleConfiguration.GeneratePin'') (\<lambda>r.
     go_wrap (wrap_simple_configuration_unavailable ''SimpleConfiguration.GeneratePin''
               ''failed generating WSC PIN'') (wr_generate_pin r))"

definition core_wsc_start_pin :: "'w core_wsc option \<Rightarrow> string \<Rightarrow> (gerror, 'w, unit) go" where
  "core_wsc_start_pin s pin =
     go_bind (raw_config s ''SimpleConfiguration.StartPin'') (\<lambda>r.
     case normalize_wsc_pin pin of
       Inl text \<Rightarrow>
         go_fail (wrap_invalid_argument ResourceSimpleConfiguration ''SimpleConfiguration.StartPin'' text
                    (Sentinel ErrCore))
     | Inr normalized \<Rightarrow>
         go_wrap (wrap_simple_configuration_unavailable ''SimpleConfiguration.StartPin''
                   ''failed starting WSC PIN enrollment'') (wr_start_pin r normalized))"

definition core_wsc_cancel :: "'w core_wsc option \<Rightarrow> (gerror, 'w, unit) go" where
  "core_wsc_cancel s =
     go_bind (raw_config s ''SimpleConfiguration.Cancel'') (\<lambda>r.
     go_wrap (wrap_simple_configuration_unavailable ''SimpleConfiguration.Cancel''
               ''failed canceling WSC operation'') (wr_cancel r))"

lemma raw_config_simps [simp, go_simps]: "raw_config (Some \<lparr>cw_raw = Some r\<rparr>) op = go_return r"
  by (simp add: raw_config_def)

definition pin_separator :: "char \<Rightarrow> bool" where
  "pin_separator c \<longleftrightarrow> c = CHR '' '' \<or> c = CHR ''-''"

lemma normalize_wsc_pin_Inr_iff:
  "normalize_wsc_pin pin = Inr p \<longleftrightarrow>
     p = filter (\<lambda>c. \<not> pin_separator c) pin \<and> list_all pin_digit p \<and> (length p = 4 \<or> length p = 8)"
  by (auto simp: normalize_wsc_pin_def Let_def pin_separator_def)

text \<open>
  Starting PIN enrolment: when the PIN, without its blanks and hyphens, is four or eight digits,
  exactly those digits reach iwd's \<open>StartPin\<close> in a single call (and normalising them again changes
  nothing); any other PIN is an invalid argument and nothing reaches the bus.
\<close>

theorem start_pin_sends_the_digits:
  fixes pin :: string
  shows "(list_all (\<lambda>c. pin_digit c \<or> pin_separator c) pin \<and> length (filter pin_digit pin) \<in> {4, 8} \<longrightarrow>
            core_wsc_start_pin (new_core_wsc (Some raw)) pin w =
              go_wrap (wrap_simple_configuration_unavailable ''SimpleConfiguration.StartPin''
                        ''failed starting WSC PIN enrollment'') (wr_start_pin raw (filter pin_digit pin)) w
            \<and> normalize_wsc_pin (filter pin_digit pin) = Inr (filter pin_digit pin))
       \<and> (\<not> (list_all (\<lambda>c. pin_digit c \<or> pin_separator c) pin \<and> length (filter pin_digit pin) \<in> {4, 8}) \<longrightarrow>
            (\<exists>e. core_wsc_start_pin (new_core_wsc (Some raw)) pin w = (Inl e, w)
               \<and> errors_is (wrap_public_error pop e) ErrInvalidArgument))"
proof -
  have sep: "pin_digit c \<Longrightarrow> \<not> pin_separator c" for c
    by (auto simp: pin_digit_def pin_separator_def)
  have all: "list_all pin_digit (filter (\<lambda>c. \<not> pin_separator c) pin) \<longleftrightarrow>
      list_all (\<lambda>c. pin_digit c \<or> pin_separator c) pin"
    by (auto simp: list_all_iff)
  have eq: "filter (\<lambda>c. \<not> pin_separator c) pin = filter pin_digit pin"
    if "list_all (\<lambda>c. pin_digit c \<or> pin_separator c) pin"
    using that sep by (auto simp: list_all_iff intro: filter_cong)
  have again: "filter (\<lambda>c. \<not> pin_separator c) (filter pin_digit pin) = filter pin_digit pin"
    using sep by (induction pin) auto
  show ?thesis
  proof (intro conjI impI)
    assume ok: "list_all (\<lambda>c. pin_digit c \<or> pin_separator c) pin \<and> length (filter pin_digit pin) \<in> {4, 8}"
    then have "normalize_wsc_pin pin = Inr (filter pin_digit pin)"
      using all eq by (auto simp: normalize_wsc_pin_Inr_iff)
    then show "core_wsc_start_pin (new_core_wsc (Some raw)) pin w =
        go_wrap (wrap_simple_configuration_unavailable ''SimpleConfiguration.StartPin''
                  ''failed starting WSC PIN enrollment'') (wr_start_pin raw (filter pin_digit pin)) w"
      by (simp add: core_wsc_start_pin_def new_core_wsc_def)
    show "normalize_wsc_pin (filter pin_digit pin) = Inr (filter pin_digit pin)"
      unfolding normalize_wsc_pin_Inr_iff again using ok by (simp add: list_all_iff)
  next
    assume bad: "\<not> (list_all (\<lambda>c. pin_digit c \<or> pin_separator c) pin \<and> length (filter pin_digit pin) \<in> {4, 8})"
    then have "normalize_wsc_pin pin \<noteq> Inr p" for p
      using all eq by (auto simp: normalize_wsc_pin_Inr_iff)
    then obtain msg where "normalize_wsc_pin pin = Inl msg" by (cases "normalize_wsc_pin pin") auto
    then show "\<exists>e. core_wsc_start_pin (new_core_wsc (Some raw)) pin w = (Inl e, w)
        \<and> errors_is (wrap_public_error pop e) ErrInvalidArgument"
      by (simp add: core_wsc_start_pin_def new_core_wsc_def wpub.wrap_is public_adds_def
          wrap_invalid_argument_def new_error_def)
  qed
qed

definition demo_wsc :: "unit wsc_raw" where
  "demo_wsc = iwd_wsc_raw table_godbus \<lparr>wsc_call = Some (table_caller [] (\<lambda>_ _. Inr []))\<rparr>"

theorem start_pin_sends_the_digits_witness:
  "core_wsc_start_pin (new_core_wsc (Some demo_wsc)) ''12-34'' () =
     go_wrap (wrap_simple_configuration_unavailable ''SimpleConfiguration.StartPin''
               ''failed starting WSC PIN enrollment'') (wr_start_pin demo_wsc ''1234'') ()"
proof -
  have "list_all (\<lambda>c. pin_digit c \<or> pin_separator c) ''12-34'' \<and> length (filter pin_digit ''12-34'') \<in> {4, 8}"
    and "filter pin_digit ''12-34'' = ''1234''"
    by (simp_all add: pin_digit_def pin_separator_def)
  then show ?thesis using start_pin_sends_the_digits [of "''12-34''" demo_wsc "()"] by simp
qed

end
