(* ===== verification/Typed_Object.thy ===== *)
theory Typed_Object
  imports Subscriptions Reports
begin

text \<open>
  What the typed wrappers of \<open>internal/iwdbus\<close> for networks, known networks, devices, adapters and
  access points share: a struct of a caller and a signal source, and one body per shape of
  operation, which the methods instantiate. \<open>iwd_type\<close> holds what differs in these bodies: the Go
  type's name, its uninitialised sentinel and its D-Bus interface.
\<close>

record iwd_type =
  it_label :: string
  it_sentinel :: iwdbus_object
  it_iface :: string

record ('act, 'w) typed_object =
  to_call :: "'w caller option"
  to_signals :: "('act, 'w) signals"

definition new_typed_object ::
    "iwd_type \<Rightarrow> godbus \<Rightarrow> 'w conn \<Rightarrow> (string \<Rightarrow> (raw_err, 'w, unit) go) option \<Rightarrow> string
      \<Rightarrow> (gerror, 'w, ('act, 'w) typed_object) go" where
  "new_typed_object t g conn add_match path =
     go_bind (new_object g conn (it_iface t) path)
       (\<lambda>c. go_return \<lparr>to_call = Some c, to_signals = as_signals add_match path\<rparr>)"

definition typed_ready :: "iwd_type \<Rightarrow> ('act, 'w) typed_object \<Rightarrow> (gerror, 'w, 'w caller) go" where
  "typed_ready t s = ensure_initialized (it_label t) (it_sentinel t) (to_call s)"

subsection \<open>The shapes of operations\<close>

text \<open>A required property; one that iwd may leave out, with the value that then stands for it.\<close>

definition get_property ::
    "iwd_type \<Rightarrow> string \<Rightarrow> (dval \<Rightarrow> gerror + 'v) \<Rightarrow> ('act, 'w) typed_object \<Rightarrow> (gerror, 'w, 'v) go" where
  "get_property t field parse s =
     go_bind (typed_ready t s) (\<lambda>c.
     go_bind (read_property c (it_iface t) field) (\<lambda>v.
     go_lift (parse v)))"

definition get_or_absent ::
    "iwd_type \<Rightarrow> string \<Rightarrow> 'v \<Rightarrow> (dval \<Rightarrow> gerror + 'v) \<Rightarrow> ('act, 'w) typed_object \<Rightarrow> (gerror, 'w, 'v) go" where
  "get_or_absent t field absent parse s =
     go_bind (typed_ready t s) (\<lambda>c.
     go_bind (read_optional_property c (it_iface t) field) (\<lambda>v.
     case v of None \<Rightarrow> go_return absent | Some u \<Rightarrow> go_lift (parse u)))"

definition get_all_properties ::
    "iwd_type \<Rightarrow> (properties \<Rightarrow> gerror + 'p) \<Rightarrow> ('act, 'w) typed_object \<Rightarrow> (gerror, 'w, 'p) go" where
  "get_all_properties t decode s =
     go_bind (typed_ready t s) (\<lambda>c.
     go_bind (read_all c (it_iface t)) (\<lambda>raw.
     go_lift (decode raw)))"

definition set_property ::
    "iwd_type \<Rightarrow> string \<Rightarrow> dval \<Rightarrow> ('act, 'w) typed_object \<Rightarrow> (gerror, 'w, unit) go" where
  "set_property t field v s =
     go_bind (typed_ready t s) (\<lambda>c.
     go_wrap (\<lambda>r. wrap_iwd_property (it_iface t) field (Foreign r)) (c_set_property c (it_iface t) field v))"

definition call_method ::
    "iwd_type \<Rightarrow> string \<Rightarrow> dval list \<Rightarrow> ('act, 'w) typed_object \<Rightarrow> (gerror, 'w, dval list) go" where
  "call_method t method args s =
     go_bind (typed_ready t s) (\<lambda>c.
     go_wrap (wrap_iwd_method (it_iface t) method) (c_call c (it_iface t) method args))"

definition call_ignoring_reply ::
    "iwd_type \<Rightarrow> string \<Rightarrow> dval list \<Rightarrow> ('act, 'w) typed_object \<Rightarrow> (gerror, 'w, unit) go" where
  "call_ignoring_reply t method args s = go_bind (call_method t method args s) (\<lambda>_. go_return ())"

text \<open>The fields of a \<open>GetAll\<close> reply: required, and optional with the value an absent one leaves.\<close>

definition required_field ::
    "iwd_type \<Rightarrow> properties \<Rightarrow> string \<Rightarrow> (dval \<Rightarrow> gerror + 'v) \<Rightarrow> gerror + 'v" where
  "required_field t raw name parse = try_bind (required (it_iface t) raw name) parse"

definition field_or ::
    "properties \<Rightarrow> string \<Rightarrow> 'v \<Rightarrow> (dval \<Rightarrow> gerror + 'v) \<Rightarrow> gerror + 'v" where
  "field_or raw name absent parse = (case map_of raw name of None \<Rightarrow> Inr absent | Some v \<Rightarrow> parse v)"

definition subscribe_all ::
    "iwd_type \<Rightarrow> (properties_changed \<Rightarrow> 'act list) option \<Rightarrow> ('act, 'w) typed_object
      \<Rightarrow> (gerror, ('act, 'w) subs_state, subscription) go" where
  "subscribe_all t fn s = subscribe_properties_changed (to_signals s) (it_iface t) fn"

definition subscribe_field ::
    "iwd_type \<Rightarrow> string \<Rightarrow> (('v \<Rightarrow> 'act list) \<Rightarrow> properties_changed \<Rightarrow> 'act list)
      \<Rightarrow> ('v \<Rightarrow> 'act list) option \<Rightarrow> ('act, 'w) typed_object
      \<Rightarrow> (gerror, ('act, 'w) subs_state, subscription) go" where
  "subscribe_field t label on_event fn s = subscribe_property (to_signals s) (it_iface t) label on_event fn"

definition typed_firehose ::
    "(firehose_signal \<Rightarrow> 'act list) option \<Rightarrow> ('act, 'w) typed_object
      \<Rightarrow> (gerror, ('act, 'w) subs_state, unit) go" where
  "typed_firehose fn s =
     (case fn of
        None \<Rightarrow> go_fail (Errorf ''Firehose: fn cannot be nil'' [] [])
      | Some f \<Rightarrow> ss_register (to_signals s) ''*'' ''*'' (Some (firehose_handler f)))"

text \<open>\<open>parseOptionalString\<close> as the getters use it, with the field's name on the error.\<close>

definition optional_string :: "string \<Rightarrow> dval \<Rightarrow> gerror + string option" where
  "optional_string field v =
     (case parse_optional_string v of Inl e \<Rightarrow> Inl (wrap_variant field e) | Inr s \<Rightarrow> Inr s)"

subsection \<open>On a bus that holds one state\<close>

lemma typed_ready_live [simp, go_simps]:
  "to_call s = Some c \<Longrightarrow> typed_ready t s = go_return c"
  by (simp add: typed_ready_def)

lemma required_field_Inr_iff:
  "required_field t raw name parse = Inr x \<longleftrightarrow> (\<exists>v. map_of raw name = Some v \<and> parse v = Inr x)"
  by (auto simp: required_field_def required_Inr_iff try_bind_Inr_iff)

lemma reads_report:
  assumes "reports c (it_iface t) tab w" and "to_call s = Some c"
  shows "get_property t field parse s w = (Inr x, w') \<longleftrightarrow>
           w' = w \<and> required_field t tab field parse = Inr x"
    and "get_or_absent t field absent parse s w = (Inr x, w') \<longleftrightarrow>
           w' = w \<and> field_or tab field absent parse = Inr x"
    and "get_all_properties t decode s w = (Inr p, w') \<longleftrightarrow> w' = w \<and> decode tab = Inr p"
  using reports_all [OF assms(1)]
  by (auto simp: get_property_def get_or_absent_def get_all_properties_def field_or_def assms(2)
      required_field_Inr_iff read_optional_reports [OF assms(1)] read_property_reports [OF assms(1)]
      read_all_def go_Inr_iffs split: option.splits)

lemma set_then_get:
  assumes "keeps c (it_iface t)" and "to_call s = Some c" and "set_property t field v s w = (Inr (), w')"
  shows "get_property t field parse s w' = (case parse v of Inl e \<Rightarrow> Inl e | Inr x \<Rightarrow> Inr x, w')"
proof -
  from assms have "c_set_property c (it_iface t) field v w = (Inr (), w')"
    by (simp add: set_property_def go_wrap_Inr_iff)
  from keeps_read [OF assms(1) this] show ?thesis
    by (simp add: get_property_def assms(2) go_bind_def go_lift_def split: sum.splits)
qed

subsection \<open>Failed method calls\<close>

text \<open>The bus answered the call on the object's path with an error reply that the caller can match.\<close>

definition call_outcome ::
    "'w conn \<Rightarrow> string \<Rightarrow> string \<Rightarrow> string \<Rightarrow> dval list \<Rightarrow> string \<Rightarrow> gerror \<Rightarrow> 'w \<Rightarrow> 'w \<Rightarrow> bool" where
  "call_outcome conn path iface m args pop e w w' \<longleftrightarrow>
     (\<exists>r. conn_call conn IwdService path (iface @ ''.'' @ m) args w = (Inl r, w')
        \<and> (\<forall>x. errors_is (wrap_public_error pop e) x \<longleftrightarrow>
              x \<in> {ErrSpiderw, ErrUnavailable, ErrCore, DBusS ErrDBusMethod}
              \<or> (\<exists>i. x = IwdS i \<and> iwd_error_sentinel (Foreign r) = Some i)))"

lemma new_typed_object_Inr:
  assumes "new_typed_object t g conn add path w = (Inr s, w')"
  obtains i where "to_call s = Some (as_caller g i)" and "to_signals s = as_signals add path"
    and "io_conn i = conn" and "io_bus_name i = IwdService" and "io_path i = path"
proof -
  from assms obtain c where "new_object g conn (it_iface t) path w = (Inr c, w')"
    and "s = \<lparr>to_call = Some c, to_signals = as_signals add path\<rparr>"
    by (auto simp: new_typed_object_def go_bind_Inr_iff)
  then show ?thesis using that by (elim new_object_Inr) simp
qed

lemma call_method_Inr_iff:
  assumes "new_typed_object t g conn add path w0 = (Inr s, w1)"
  shows "call_method t m args s w = (Inr body, w') \<longleftrightarrow>
           conn_call conn IwdService path (it_iface t @ ''.'' @ m) args w = (Inr body, w')"
proof -
  from new_typed_object_Inr [OF assms(1)] obtain i
    where "to_call s = Some (as_caller g i)" "io_conn i = conn" "io_bus_name i = IwdService" "io_path i = path" .
  then show ?thesis
    by (simp add: call_method_def introspected_call_def go_wrap_Inr_iff)
qed

lemma call_method_fails:
  assumes "new_typed_object t g conn add path w0 = (Inr s, w1)"
    and "call_method t m args s w = (Inl e, w')"
  obtains r where "conn_call conn IwdService path (it_iface t @ ''.'' @ m) args w = (Inl r, w')"
    and "e = wrap_iwd_method (it_iface t) m (wrap_method (it_iface t) m (Foreign r))"
proof -
  from new_typed_object_Inr [OF assms(1)] obtain i
    where "to_call s = Some (as_caller g i)" "io_conn i = conn" "io_bus_name i = IwdService" "io_path i = path" .
  with assms(2) that show ?thesis
    by (auto simp: call_method_def introspected_call_def elim!: go_wrap_InlE)
qed

lemma call_outcome:
  assumes "new_typed_object t g conn add path w0 = (Inr s, w1)"
    and "call_method t m args s w = (Inl e, w')"
  shows "call_outcome conn path (it_iface t) m args pop (wrap_unavailable op d e policy) w w'"
proof -
  from call_method_fails [OF assms] obtain r
    where r: "conn_call conn IwdService path (it_iface t @ ''.'' @ m) args w = (Inl r, w')"
      and e: "e = wrap_iwd_method (it_iface t) m (wrap_method (it_iface t) m (Foreign r))" .
  have "wrap_public_error pop (wrap_unavailable op d e policy)
      = surfaced_method_error (it_iface t) m op d policy pop r"
    by (simp add: e surfaced_method_error_def)
  with r show ?thesis
    unfolding call_outcome_def by (auto simp: surfaced_method_error_is)
qed

end
