(* ===== verification/Facade.thy ===== *)
theory Facade
  imports Typed_Object Station_Core
begin

text \<open>
  What the core facades of networks, known networks, devices, adapters and access points
  (\<open>internal/core\<close>) share: a struct with the backend's interface, and one body per shape of
  operation. \<open>core_type\<close> holds what differs: the resource and sentinel of the errors, the names used
  in the messages and the \<open>Wrap...Unavailable\<close> function. A nil facade is \<open>None\<close>.
\<close>

record core_type =
  ct_resource :: resource
  ct_sentinel :: core_object
  ct_label :: string
  ct_name :: string
  ct_wrap :: "string \<Rightarrow> string \<Rightarrow> gerror \<Rightarrow> gerror"

record 'raw facade =
  f_raw :: "'raw option"

definition new_facade :: "'raw option \<Rightarrow> 'raw facade option" where
  "new_facade raw = (case raw of None \<Rightarrow> None | Some r \<Rightarrow> Some \<lparr>f_raw = Some r\<rparr>)"

definition facade_raw :: "core_type \<Rightarrow> 'raw facade option \<Rightarrow> string \<Rightarrow> (gerror, 'u, 'raw) go" where
  "facade_raw t s op =
     (let nil_wrapper = go_fail (wrap_invalid_state (ct_resource t) op (ct_label t @ '' wrapper was nil'')
                                  (Sentinel (NotInitializedS (ct_sentinel t))))
      in case s of
           None \<Rightarrow> nil_wrapper
         | Some f \<Rightarrow> (case f_raw f of None \<Rightarrow> nil_wrapper | Some raw \<Rightarrow> go_return raw))"

subsection \<open>The shapes of operations\<close>

text \<open>An operation that hands on what the backend does, and one that validates its result.\<close>

definition core_do ::
    "core_type \<Rightarrow> string \<Rightarrow> string \<Rightarrow> ('raw \<Rightarrow> (gerror, 'u, 'a) go) \<Rightarrow> 'raw facade option \<Rightarrow> (gerror, 'u, 'a) go" where
  "core_do t op detail act s =
     go_bind (facade_raw t s op) (\<lambda>r. go_wrap (ct_wrap t op detail) (act r))"

definition core_get ::
    "core_type \<Rightarrow> string \<Rightarrow> string \<Rightarrow> ('raw \<Rightarrow> (gerror, 'u, 'a) go) \<Rightarrow> ('a \<Rightarrow> gerror + 'b)
      \<Rightarrow> 'raw facade option \<Rightarrow> (gerror, 'u, 'b) go" where
  "core_get t op detail get validate s =
     go_bind (core_do t op detail get s) (\<lambda>raw. go_lift (validate raw))"

text \<open>An operation that checks its argument before the backend is called.\<close>

definition core_checked_do ::
    "core_type \<Rightarrow> string \<Rightarrow> string \<Rightarrow> gerror + unit \<Rightarrow> ('raw \<Rightarrow> (gerror, 'u, 'a) go)
      \<Rightarrow> 'raw facade option \<Rightarrow> (gerror, 'u, 'a) go" where
  "core_checked_do t op detail check act s =
     go_bind (facade_raw t s op) (\<lambda>r.
     go_bind (go_lift check) (\<lambda>_.
     go_wrap (ct_wrap t op detail) (act r)))"

text \<open>The callback is checked after the facade; it is handed to the backend as it is.\<close>

definition core_subscribe ::
    "core_type \<Rightarrow> string
      \<Rightarrow> ('raw \<Rightarrow> ('v \<Rightarrow> 'act list) option \<Rightarrow> (gerror, ('act, 'w) subs_state, subscription) go)
      \<Rightarrow> ('v \<Rightarrow> 'act list) option \<Rightarrow> 'raw facade option
      \<Rightarrow> (gerror, ('act, 'w) subs_state, subscription) go" where
  "core_subscribe t op raw_subscribe fn s =
     go_bind (facade_raw t s op) (\<lambda>r.
     case fn of
       None \<Rightarrow> go_fail (wrap_invalid_argument (ct_resource t) op ''callback cannot be nil'' (Sentinel ErrCore))
     | Some f \<Rightarrow>
         go_wrap (ct_wrap t op (''failed to call iwd '' @ ct_name t @ '' subscribe method''))
           (raw_subscribe r (Some f)))"

definition core_subscribe_all ::
    "core_type \<Rightarrow> string
      \<Rightarrow> ('raw \<Rightarrow> (properties_changed \<Rightarrow> 'act list) option \<Rightarrow> (gerror, ('act, 'w) subs_state, subscription) go)
      \<Rightarrow> (properties_changed \<Rightarrow> 'act list) option \<Rightarrow> 'raw facade option
      \<Rightarrow> (gerror, ('act, 'w) subs_state, subscription) go" where
  "core_subscribe_all t op raw_subscribe fn s =
     core_subscribe t op raw_subscribe
       (case fn of None \<Rightarrow> None | Some f \<Rightarrow> Some (\<lambda>raw. f (core_properties_changed raw))) s"

subsection \<open>Validation\<close>

text \<open>A required text field: trimmed, and not empty.\<close>

definition required_text :: "core_type \<Rightarrow> string \<Rightarrow> string \<Rightarrow> string \<Rightarrow> gerror + string" where
  "required_text t op field raw =
     (let s = trim_space raw in
      if s = ''''
      then Inl (wrap_invalid_state (ct_resource t) op (ct_label t @ '' returned empty '' @ field)
                  (Errorf (''missing or invalid '' @ field @ '' field'') [] []))
      else Inr s)"

lemma required_text_Inr_iff:
  "required_text t op field raw = Inr s \<longleftrightarrow> s = trim_space raw \<and> s \<noteq> []"
  by (auto simp: required_text_def Let_def)

lemma validate_network_type_Inr_iff:
  "validate_network_type r op t = Inr u \<longleftrightarrow> u = t \<and> valid_network_type t"
  by (auto simp: validate_network_type_def)

subsection \<open>Facades that have a backend\<close>

lemma facade_raw_simps [simp, go_simps]:
  "facade_raw t (new_facade (Some r)) op = go_return r"
  by (simp add: facade_raw_def new_facade_def)

lemma core_do_Inr_iff:
  "core_do t op d act (new_facade (Some r)) w = (Inr x, w') \<longleftrightarrow> act r w = (Inr x, w')"
  by (simp add: core_do_def go_wrap_Inr_iff)

lemma core_get_Inr_iff:
  "core_get t op d get v (new_facade (Some r)) w = (Inr y, w') \<longleftrightarrow>
     (\<exists>x. get r w = (Inr x, w') \<and> v x = Inr y)"
  by (auto simp: core_get_def core_do_Inr_iff go_bind_Inr_iff go_lift_iff)

lemma core_checked_do_Inr_iff:
  "core_checked_do t op d chk act (new_facade (Some r)) w = (Inr x, w') \<longleftrightarrow>
     chk = Inr () \<and> act r w = (Inr x, w')"
  by (auto simp: core_checked_do_def go_bind_Inr_iff go_lift_iff go_wrap_Inr_iff)

lemma core_checked_do_refused:
  "chk = Inl e \<Longrightarrow> core_checked_do t op d chk act (new_facade (Some r)) w = (Inl e, w)"
  by (simp add: core_checked_do_def)

lemma core_checked_do_refuses:
  assumes "chk = Inl e" and "errors_is (wrap_public_error pop e) ErrInvalidArgument"
  shows "refused pop (core_checked_do t op d chk act (new_facade (Some r))) w"
  using assms by (simp add: refused_def core_checked_do_refused)

lemma core_do_Inl_iff:
  "core_do t op d act (new_facade (Some r)) w = (Inl e, w') \<longleftrightarrow>
     (\<exists>e0. act r w = (Inl e0, w') \<and> e = ct_wrap t op d e0)"
  by (auto simp: core_do_def go_wrap_def split: prod.splits sum.splits)

lemma core_subscribe_Inr_iff:
  "core_subscribe t op sub (Some f) (new_facade (Some r)) w = (Inr x, w') \<longleftrightarrow> sub r (Some f) w = (Inr x, w')"
  by (simp add: core_subscribe_def go_wrap_Inr_iff)

lemmas core_iffs =
  core_do_Inr_iff core_get_Inr_iff core_checked_do_Inr_iff core_subscribe_Inr_iff required_text_Inr_iff
  validate_network_type_Inr_iff

end
