(* ===== verification/Network.thy ===== *)
theory Network
  imports Facade
begin

text \<open>
  Networks, \<open>internal/iwdbus/network.go\<close> and \<open>internal/core/network.go\<close>.
\<close>

subsection \<open>The D-Bus layer\<close>

definition network_iwd :: iwd_type where
  "network_iwd = \<lparr>it_label = ''Network'', it_sentinel = NetworkObj, it_iface = IwdNetworkIface\<rparr>"

type_synonym ('act, 'w) iwd_network = "('act, 'w) typed_object"

definition iwd_new_network ::
    "godbus \<Rightarrow> 'w conn \<Rightarrow> (string \<Rightarrow> (raw_err, 'w, unit) go) option \<Rightarrow> string
      \<Rightarrow> (gerror, 'w, ('act, 'w) iwd_network) go" where
  "iwd_new_network = new_typed_object network_iwd"

definition iwd_network_get_name :: "('act, 'w) iwd_network \<Rightarrow> (gerror, 'w, string) go" where
  "iwd_network_get_name = get_property network_iwd ''Name'' (expect_string ''Name'')"

definition iwd_network_get_connected :: "('act, 'w) iwd_network \<Rightarrow> (gerror, 'w, bool) go" where
  "iwd_network_get_connected = get_property network_iwd ''Connected'' (expect_bool ''Connected'')"

definition iwd_network_get_device :: "godbus \<Rightarrow> ('act, 'w) iwd_network \<Rightarrow> (gerror, 'w, string) go" where
  "iwd_network_get_device g =
     get_property network_iwd ''Device'' (parse_network_object_path (path_ok g) ''Device'')"

definition iwd_network_get_type :: "('act, 'w) iwd_network \<Rightarrow> (gerror, 'w, network_type) go" where
  "iwd_network_get_type = get_property network_iwd ''Type'' parse_network_type"

definition iwd_network_get_known_network ::
    "godbus \<Rightarrow> ('act, 'w) iwd_network \<Rightarrow> (gerror, 'w, string option) go" where
  "iwd_network_get_known_network g =
     get_or_absent network_iwd ''KnownNetwork'' None (parse_optional_object_path (path_ok g))"

definition iwd_network_get_extended_service_set ::
    "godbus \<Rightarrow> ('act, 'w) iwd_network \<Rightarrow> (gerror, 'w, string list) go" where
  "iwd_network_get_extended_service_set g =
     get_property network_iwd ''ExtendedServiceSet'' (parse_object_path_list (path_ok g))"

definition iwd_network_connect :: "('act, 'w) iwd_network \<Rightarrow> (gerror, 'w, unit) go" where
  "iwd_network_connect = call_ignoring_reply network_iwd ''Connect'' []"

record network_properties =
  np_name :: string
  np_connected :: bool
  np_device :: string
  np_type :: network_type
  np_known_network :: "string option"
  np_ess :: "string list"

definition decode_network_properties :: "godbus \<Rightarrow> properties \<Rightarrow> gerror + network_properties" where
  "decode_network_properties g raw =
     try_bind (required_field network_iwd raw ''Name'' (expect_string ''Name'')) (\<lambda>name.
     try_bind (required_field network_iwd raw ''Connected'' (expect_bool ''Connected'')) (\<lambda>connected.
     try_bind (required_field network_iwd raw ''Device'' (parse_network_object_path (path_ok g) ''Device'')) (\<lambda>device.
     try_bind (required_field network_iwd raw ''Type'' parse_network_type) (\<lambda>t.
     try_bind (required_field network_iwd raw ''ExtendedServiceSet'' (parse_object_path_list (path_ok g))) (\<lambda>ess.
     try_bind (field_or raw ''KnownNetwork'' None (parse_optional_object_path (path_ok g))) (\<lambda>known.
     Inr \<lparr>np_name = name, np_connected = connected, np_device = device, np_type = t,
          np_known_network = known, np_ess = ess\<rparr>))))))"

definition iwd_network_get_properties ::
    "godbus \<Rightarrow> ('act, 'w) iwd_network \<Rightarrow> (gerror, 'w, network_properties) go" where
  "iwd_network_get_properties g = get_all_properties network_iwd (decode_network_properties g)"

definition iwd_network_subscribe_properties_changed ::
    "(properties_changed \<Rightarrow> 'act list) option \<Rightarrow> ('act, 'w) iwd_network
      \<Rightarrow> (gerror, ('act, 'w) subs_state, subscription) go" where
  "iwd_network_subscribe_properties_changed = subscribe_all network_iwd"

definition iwd_network_subscribe_connected_changed ::
    "(bool \<Rightarrow> 'act list) option \<Rightarrow> ('act, 'w) iwd_network
      \<Rightarrow> (gerror, ('act, 'w) subs_state, subscription) go" where
  "iwd_network_subscribe_connected_changed =
     subscribe_field network_iwd ''SubscribeConnectedChanged''
       (on_required_property ''Connected'' (expect_bool ''Connected''))"

definition iwd_network_subscribe_known_network_changed ::
    "godbus \<Rightarrow> (string option \<Rightarrow> 'act list) option \<Rightarrow> ('act, 'w) iwd_network
      \<Rightarrow> (gerror, ('act, 'w) subs_state, subscription) go" where
  "iwd_network_subscribe_known_network_changed g =
     subscribe_field network_iwd ''SubscribeKnownNetworkChanged''
       (on_optional_property ''KnownNetwork'' (parse_optional_object_path (path_ok g)))"

definition iwd_network_subscribe_extended_service_set_changed ::
    "godbus \<Rightarrow> (string list \<Rightarrow> 'act list) option \<Rightarrow> ('act, 'w) iwd_network
      \<Rightarrow> (gerror, ('act, 'w) subs_state, subscription) go" where
  "iwd_network_subscribe_extended_service_set_changed g =
     subscribe_field network_iwd ''SubscribeExtendedServiceSetChanged''
       (on_required_property ''ExtendedServiceSet'' (parse_object_path_list (path_ok g)))"

definition iwd_network_firehose ::
    "(firehose_signal \<Rightarrow> 'act list) option \<Rightarrow> ('act, 'w) iwd_network
      \<Rightarrow> (gerror, ('act, 'w) subs_state, unit) go" where
  "iwd_network_firehose = typed_firehose"

lemmas iwd_network_read_defs =
  iwd_network_get_name_def iwd_network_get_connected_def iwd_network_get_device_def
  iwd_network_get_type_def iwd_network_get_known_network_def
  iwd_network_get_extended_service_set_def iwd_network_get_properties_def

subsection \<open>The core layer\<close>

record ('act, 'w) network_raw =
  nr_get_name :: "(gerror, 'w, string) go"
  nr_get_connected :: "(gerror, 'w, bool) go"
  nr_get_device :: "(gerror, 'w, string) go"
  nr_get_type :: "(gerror, 'w, network_type) go"
  nr_get_known_network :: "(gerror, 'w, string option) go"
  nr_get_extended_service_set :: "(gerror, 'w, string list) go"
  nr_get_properties :: "(gerror, 'w, network_properties) go"
  nr_connect :: "(gerror, 'w, unit) go"
  nr_subscribe_properties_changed ::
    "(properties_changed \<Rightarrow> 'act list) option \<Rightarrow> (gerror, ('act, 'w) subs_state, subscription) go"
  nr_subscribe_connected_changed ::
    "(bool \<Rightarrow> 'act list) option \<Rightarrow> (gerror, ('act, 'w) subs_state, subscription) go"
  nr_subscribe_known_network_changed ::
    "(string option \<Rightarrow> 'act list) option \<Rightarrow> (gerror, ('act, 'w) subs_state, subscription) go"
  nr_subscribe_extended_service_set_changed ::
    "(string list \<Rightarrow> 'act list) option \<Rightarrow> (gerror, ('act, 'w) subs_state, subscription) go"

definition iwd_network_raw :: "godbus \<Rightarrow> ('act, 'w) iwd_network \<Rightarrow> ('act, 'w) network_raw" where
  "iwd_network_raw g n =
     \<lparr>nr_get_name = iwd_network_get_name n,
      nr_get_connected = iwd_network_get_connected n,
      nr_get_device = iwd_network_get_device g n,
      nr_get_type = iwd_network_get_type n,
      nr_get_known_network = iwd_network_get_known_network g n,
      nr_get_extended_service_set = iwd_network_get_extended_service_set g n,
      nr_get_properties = iwd_network_get_properties g n,
      nr_connect = iwd_network_connect n,
      nr_subscribe_properties_changed = (\<lambda>fn. iwd_network_subscribe_properties_changed fn n),
      nr_subscribe_connected_changed = (\<lambda>fn. iwd_network_subscribe_connected_changed fn n),
      nr_subscribe_known_network_changed = (\<lambda>fn. iwd_network_subscribe_known_network_changed g fn n),
      nr_subscribe_extended_service_set_changed =
        (\<lambda>fn. iwd_network_subscribe_extended_service_set_changed g fn n)\<rparr>"

type_synonym ('act, 'w) core_network = "('act, 'w) network_raw facade"

definition network_core :: core_type where
  "network_core =
     \<lparr>ct_resource = ResourceNetwork, ct_sentinel = NetworkWrapper, ct_label = ''network'',
      ct_name = ''Network'', ct_wrap = wrap_network_unavailable\<rparr>"

definition new_core_network :: "('act, 'w) network_raw option \<Rightarrow> ('act, 'w) core_network option" where
  "new_core_network = new_facade"

text \<open>\<open>normalizePathList\<close>; the element's path must not be blank.\<close>

definition ess_entry :: "string \<Rightarrow> string \<Rightarrow> gerror + string" where
  "ess_entry op p =
     (let trimmed = trim_space p in
      if trimmed = ''''
      then Inl (wrap_invalid_state ResourceNetwork op ''network returned empty basic service set path''
                  (Errorf ''missing or invalid ExtendedServiceSet entry'' [] []))
      else Inr trimmed)"

definition normalize_path_list :: "string \<Rightarrow> string list \<Rightarrow> gerror + string list" where
  "normalize_path_list op paths = collect (ess_entry op) paths"

definition core_network_name :: "('act, 'w) core_network option \<Rightarrow> (gerror, 'w, string) go" where
  "core_network_name =
     core_get network_core ''Network.Name'' ''failed querying iwd Network name'' nr_get_name
       (required_text network_core ''Network.Name'' ''Name'')"

definition core_network_connected :: "('act, 'w) core_network option \<Rightarrow> (gerror, 'w, bool) go" where
  "core_network_connected =
     core_do network_core ''Network.Connected'' ''failed querying iwd Network connected'' nr_get_connected"

definition core_network_device :: "('act, 'w) core_network option \<Rightarrow> (gerror, 'w, string) go" where
  "core_network_device =
     core_get network_core ''Network.Device'' ''failed querying iwd Network device'' nr_get_device
       (required_text network_core ''Network.Device'' ''Device'')"

definition core_network_type :: "('act, 'w) core_network option \<Rightarrow> (gerror, 'w, network_type) go" where
  "core_network_type =
     core_get network_core ''Network.Type'' ''failed querying iwd Network type'' nr_get_type
       (validate_network_type ResourceNetwork ''Network.Type'')"

definition core_network_known_network :: "('act, 'w) core_network option \<Rightarrow> (gerror, 'w, string option) go" where
  "core_network_known_network =
     core_get network_core ''Network.KnownNetwork'' ''failed querying iwd Network known-network''
       nr_get_known_network (\<lambda>raw. Inr (normalize_optional_string raw))"

definition core_network_extended_service_set ::
    "('act, 'w) core_network option \<Rightarrow> (gerror, 'w, string list) go" where
  "core_network_extended_service_set =
     core_get network_core ''Network.ExtendedServiceSet'' ''failed querying iwd Network extended service set''
       nr_get_extended_service_set (normalize_path_list ''Network.ExtendedServiceSet'')"

text \<open>\<open>Connect\<close> has a detail text of its own for iwd's \<open>NoAgent\<close>.\<close>

definition core_network_connect :: "('act, 'w) core_network option \<Rightarrow> (gerror, 'w, unit) go" where
  "core_network_connect n =
     go_bind (facade_raw network_core n ''Network.Connect'') (\<lambda>r.
     go_wrap (\<lambda>e.
         if errors_is e (IwdS ErrNoAgent)
         then wrap_network_unavailable ''Network.Connect''
                ''no credentials agent registered; connecting to a secured network that is not already known requires an agent'' e
         else wrap_network_unavailable ''Network.Connect'' ''failed connecting to iwd Network'' e)
       (nr_connect r))"

definition normalize_network_properties :: "string \<Rightarrow> network_properties \<Rightarrow> gerror + network_properties" where
  "normalize_network_properties op raw =
     try_bind (required_text network_core op ''Name'' (np_name raw)) (\<lambda>name.
     try_bind (required_text network_core op ''Device'' (np_device raw)) (\<lambda>device.
     try_bind (validate_network_type ResourceNetwork op (np_type raw)) (\<lambda>t.
     try_bind (normalize_path_list op (np_ess raw)) (\<lambda>ess.
     Inr \<lparr>np_name = name, np_connected = np_connected raw, np_device = device, np_type = t,
          np_known_network = normalize_optional_string (np_known_network raw), np_ess = ess\<rparr>))))"

definition core_network_properties ::
    "('act, 'w) core_network option \<Rightarrow> (gerror, 'w, network_properties) go" where
  "core_network_properties =
     core_get network_core ''Network.Properties'' ''failed querying iwd Network properties''
       nr_get_properties (normalize_network_properties ''Network.Properties'')"

definition core_network_subscribe_properties_changed ::
    "(properties_changed \<Rightarrow> 'act list) option \<Rightarrow> ('act, 'w) core_network option
      \<Rightarrow> (gerror, ('act, 'w) subs_state, subscription) go" where
  "core_network_subscribe_properties_changed =
     core_subscribe_all network_core ''Network.SubscribePropertiesChanged'' nr_subscribe_properties_changed"

definition core_network_subscribe_connected_changed ::
    "(bool \<Rightarrow> 'act list) option \<Rightarrow> ('act, 'w) core_network option
      \<Rightarrow> (gerror, ('act, 'w) subs_state, subscription) go" where
  "core_network_subscribe_connected_changed =
     core_subscribe network_core ''Network.SubscribeConnectedChanged'' nr_subscribe_connected_changed"

definition core_network_subscribe_known_network_changed ::
    "(string option \<Rightarrow> 'act list) option \<Rightarrow> ('act, 'w) core_network option
      \<Rightarrow> (gerror, ('act, 'w) subs_state, subscription) go" where
  "core_network_subscribe_known_network_changed =
     core_subscribe network_core ''Network.SubscribeKnownNetworkChanged'' nr_subscribe_known_network_changed"

definition core_network_subscribe_extended_service_set_changed ::
    "(string list \<Rightarrow> 'act list) option \<Rightarrow> ('act, 'w) core_network option
      \<Rightarrow> (gerror, ('act, 'w) subs_state, subscription) go" where
  "core_network_subscribe_extended_service_set_changed =
     core_subscribe network_core ''Network.SubscribeExtendedServiceSetChanged''
       nr_subscribe_extended_service_set_changed"

lemmas core_network_read_defs =
  core_network_name_def core_network_connected_def core_network_device_def core_network_type_def
  core_network_known_network_def core_network_extended_service_set_def core_network_properties_def

subsection \<open>Reads\<close>

lemma network_iwd_iface [simp]: "it_iface network_iwd = IwdNetworkIface"
  by (simp add: network_iwd_def)


lemma normalize_path_list_Inr_iff:
  "normalize_path_list op ps = Inr qs \<longleftrightarrow> qs = map trim_space ps \<and> [] \<notin> set qs"
  unfolding normalize_path_list_def
  by (induction ps arbitrary: qs) (auto simp: ess_entry_def Let_def try_bind_Inr_iff)

lemma network_properties_agree:
  fixes g :: godbus
  assumes rep: "reports c IwdNetworkIface tab w" and live: "to_call n = Some c"
  defines "s \<equiv> new_core_network (Some (iwd_network_raw g n))"
  shows "core_network_properties s w = (Inr p, w) \<longleftrightarrow>
           core_network_name s w = (Inr (np_name p), w)
         \<and> core_network_connected s w = (Inr (np_connected p), w)
         \<and> core_network_device s w = (Inr (np_device p), w)
         \<and> core_network_type s w = (Inr (np_type p), w)
         \<and> core_network_known_network s w = (Inr (np_known_network p), w)
         \<and> core_network_extended_service_set s w = (Inr (np_ess p), w)"
proof -
  note reads = reads_report [of c network_iwd, simplified, OF rep live]
  show ?thesis
    unfolding s_def new_core_network_def core_network_read_defs core_iffs iwd_network_raw_def
    by (cases p) (auto simp: iwd_network_read_defs reads decode_network_properties_def
        normalize_network_properties_def try_bind_Inr_iff core_iffs normalize_path_list_Inr_iff)
qed

end
