(* ===== verification/Known_Network.thy ===== *)
theory Known_Network
  imports Facade
begin

text \<open>
  Known networks, \<open>internal/iwdbus/knownnetwork.go\<close> and \<open>internal/core/knownnetwork.go\<close>.
\<close>

subsection \<open>The D-Bus layer\<close>

definition known_network_iwd :: iwd_type where
  "known_network_iwd = \<lparr>it_label = ''KnownNetwork'', it_sentinel = KnownNetworkObj, it_iface = IwdKnownNetworkIface\<rparr>"

type_synonym ('act, 'w) iwd_known_network = "('act, 'w) typed_object"

definition iwd_new_known_network ::
    "godbus \<Rightarrow> 'w conn \<Rightarrow> (string \<Rightarrow> (raw_err, 'w, unit) go) option \<Rightarrow> string
      \<Rightarrow> (gerror, 'w, ('act, 'w) iwd_known_network) go" where
  "iwd_new_known_network = new_typed_object known_network_iwd"

definition iwd_known_network_get_name :: "('act, 'w) iwd_known_network \<Rightarrow> (gerror, 'w, string) go" where
  "iwd_known_network_get_name =
     get_property known_network_iwd ''Name'' (expect_string ''Name'')"

definition iwd_known_network_get_type :: "('act, 'w) iwd_known_network \<Rightarrow> (gerror, 'w, network_type) go" where
  "iwd_known_network_get_type =
     get_property known_network_iwd ''Type'' parse_network_type"

definition iwd_known_network_get_hidden :: "('act, 'w) iwd_known_network \<Rightarrow> (gerror, 'w, bool) go" where
  "iwd_known_network_get_hidden =
     get_property known_network_iwd ''Hidden'' (expect_bool ''Hidden'')"

definition iwd_known_network_get_last_connected_time :: "('act, 'w) iwd_known_network \<Rightarrow> (gerror, 'w, string option) go" where
  "iwd_known_network_get_last_connected_time =
     get_or_absent known_network_iwd ''LastConnectedTime'' None (optional_string ''LastConnectedTime'')"

definition iwd_known_network_get_auto_connect :: "('act, 'w) iwd_known_network \<Rightarrow> (gerror, 'w, bool) go" where
  "iwd_known_network_get_auto_connect =
     get_property known_network_iwd ''AutoConnect'' (expect_bool ''AutoConnect'')"

definition iwd_known_network_set_auto_connect :: "bool \<Rightarrow> ('act, 'w) iwd_known_network \<Rightarrow> (gerror, 'w, unit) go" where
  "iwd_known_network_set_auto_connect v = set_property known_network_iwd ''AutoConnect'' (VBool v)"

definition iwd_known_network_forget :: "('act, 'w) iwd_known_network \<Rightarrow> (gerror, 'w, unit) go" where
  "iwd_known_network_forget = call_ignoring_reply known_network_iwd ''Forget'' []"

record known_network_properties =
  kp_name :: string
  kp_type :: network_type
  kp_hidden :: bool
  kp_last_connected_time :: "string option"
  kp_auto_connect :: bool

definition decode_known_network_properties :: "properties \<Rightarrow> gerror + known_network_properties" where
  "decode_known_network_properties raw =
     try_bind (required_field known_network_iwd raw ''Name'' (expect_string ''Name'')) (\<lambda>name.
     try_bind (required_field known_network_iwd raw ''Type'' parse_network_type) (\<lambda>t.
     try_bind (required_field known_network_iwd raw ''Hidden'' (expect_bool ''Hidden'')) (\<lambda>hidden.
     try_bind (required_field known_network_iwd raw ''AutoConnect'' (expect_bool ''AutoConnect'')) (\<lambda>auto.
     try_bind (field_or raw ''LastConnectedTime'' None (optional_string ''LastConnectedTime'')) (\<lambda>last.
     Inr \<lparr>kp_name = name, kp_type = t, kp_hidden = hidden, kp_last_connected_time = last,
          kp_auto_connect = auto\<rparr>)))))"

definition iwd_known_network_get_properties ::
    "('act, 'w) iwd_known_network \<Rightarrow> (gerror, 'w, known_network_properties) go" where
  "iwd_known_network_get_properties =
     get_all_properties known_network_iwd decode_known_network_properties"

definition iwd_known_network_subscribe_properties_changed ::
    "(properties_changed \<Rightarrow> 'act list) option \<Rightarrow> ('act, 'w) iwd_known_network
      \<Rightarrow> (gerror, ('act, 'w) subs_state, subscription) go" where
  "iwd_known_network_subscribe_properties_changed = subscribe_all known_network_iwd"

definition iwd_known_network_subscribe_auto_connect_changed ::
    "(bool \<Rightarrow> 'act list) option \<Rightarrow> ('act, 'w) iwd_known_network
      \<Rightarrow> (gerror, ('act, 'w) subs_state, subscription) go" where
  "iwd_known_network_subscribe_auto_connect_changed =
     subscribe_field known_network_iwd ''SubscribeAutoConnectChanged'' (on_required_property ''AutoConnect'' (expect_bool ''AutoConnect''))"

definition iwd_known_network_subscribe_hidden_changed ::
    "(bool \<Rightarrow> 'act list) option \<Rightarrow> ('act, 'w) iwd_known_network
      \<Rightarrow> (gerror, ('act, 'w) subs_state, subscription) go" where
  "iwd_known_network_subscribe_hidden_changed =
     subscribe_field known_network_iwd ''SubscribeHiddenChanged'' (on_required_property ''Hidden'' (expect_bool ''Hidden''))"

definition iwd_known_network_subscribe_last_connected_time_changed ::
    "(string option \<Rightarrow> 'act list) option \<Rightarrow> ('act, 'w) iwd_known_network
      \<Rightarrow> (gerror, ('act, 'w) subs_state, subscription) go" where
  "iwd_known_network_subscribe_last_connected_time_changed =
     subscribe_field known_network_iwd ''SubscribeLastConnectedTimeChanged'' (on_optional_property ''LastConnectedTime'' parse_optional_string)"

definition iwd_known_network_firehose ::
    "(firehose_signal \<Rightarrow> 'act list) option \<Rightarrow> ('act, 'w) iwd_known_network
      \<Rightarrow> (gerror, ('act, 'w) subs_state, unit) go" where
  "iwd_known_network_firehose = typed_firehose"

lemmas iwd_known_network_read_defs =
  iwd_known_network_get_name_def iwd_known_network_get_type_def iwd_known_network_get_hidden_def
  iwd_known_network_get_last_connected_time_def iwd_known_network_get_auto_connect_def iwd_known_network_get_properties_def

subsection \<open>The core layer\<close>

record ('act, 'w) known_network_raw =
  kr_get_name :: "(gerror, 'w, string) go"
  kr_get_type :: "(gerror, 'w, network_type) go"
  kr_get_hidden :: "(gerror, 'w, bool) go"
  kr_get_last_connected_time :: "(gerror, 'w, string option) go"
  kr_get_auto_connect :: "(gerror, 'w, bool) go"
  kr_set_auto_connect :: "bool \<Rightarrow> (gerror, 'w, unit) go"
  kr_forget :: "(gerror, 'w, unit) go"
  kr_get_properties :: "(gerror, 'w, known_network_properties) go"
  kr_subscribe_properties_changed ::
    "(properties_changed \<Rightarrow> 'act list) option \<Rightarrow> (gerror, ('act, 'w) subs_state, subscription) go"
  kr_subscribe_auto_connect_changed ::
    "(bool \<Rightarrow> 'act list) option \<Rightarrow> (gerror, ('act, 'w) subs_state, subscription) go"
  kr_subscribe_hidden_changed ::
    "(bool \<Rightarrow> 'act list) option \<Rightarrow> (gerror, ('act, 'w) subs_state, subscription) go"
  kr_subscribe_last_connected_time_changed ::
    "(string option \<Rightarrow> 'act list) option \<Rightarrow> (gerror, ('act, 'w) subs_state, subscription) go"

definition iwd_known_network_raw :: "('act, 'w) iwd_known_network \<Rightarrow> ('act, 'w) known_network_raw" where
  "iwd_known_network_raw x =
     \<lparr>kr_get_name = iwd_known_network_get_name x,
      kr_get_type = iwd_known_network_get_type x,
      kr_get_hidden = iwd_known_network_get_hidden x,
      kr_get_last_connected_time = iwd_known_network_get_last_connected_time x,
      kr_get_auto_connect = iwd_known_network_get_auto_connect x,
      kr_set_auto_connect = (\<lambda>a. iwd_known_network_set_auto_connect a x),
      kr_forget = iwd_known_network_forget x,
      kr_get_properties = iwd_known_network_get_properties x,
      kr_subscribe_properties_changed = (\<lambda>a. iwd_known_network_subscribe_properties_changed a x),
      kr_subscribe_auto_connect_changed = (\<lambda>a. iwd_known_network_subscribe_auto_connect_changed a x),
      kr_subscribe_hidden_changed = (\<lambda>a. iwd_known_network_subscribe_hidden_changed a x),
      kr_subscribe_last_connected_time_changed = (\<lambda>a. iwd_known_network_subscribe_last_connected_time_changed a x)\<rparr>"

type_synonym ('act, 'w) core_known_network = "('act, 'w) known_network_raw facade"

definition known_network_core :: core_type where
  "known_network_core =
     \<lparr>ct_resource = ResourceKnownNetwork, ct_sentinel = KnownNetworkWrapper, ct_label = ''known network'',
      ct_name = ''KnownNetwork'', ct_wrap = wrap_known_network_unavailable\<rparr>"

definition new_core_known_network :: "('act, 'w) known_network_raw option \<Rightarrow> ('act, 'w) core_known_network option" where
  "new_core_known_network = new_facade"

definition core_known_network_name :: "('act, 'w) core_known_network option \<Rightarrow> (gerror, 'w, string) go" where
  "core_known_network_name =
     core_get known_network_core ''KnownNetwork.Name'' ''failed querying iwd KnownNetwork name''
       kr_get_name (required_text known_network_core ''KnownNetwork.Name'' ''Name'')"

definition core_known_network_type :: "('act, 'w) core_known_network option \<Rightarrow> (gerror, 'w, network_type) go" where
  "core_known_network_type =
     core_get known_network_core ''KnownNetwork.Type'' ''failed querying iwd KnownNetwork type''
       kr_get_type (validate_network_type ResourceKnownNetwork ''KnownNetwork.Type'')"

definition core_known_network_hidden :: "('act, 'w) core_known_network option \<Rightarrow> (gerror, 'w, bool) go" where
  "core_known_network_hidden =
     core_do known_network_core ''KnownNetwork.Hidden'' ''failed querying iwd KnownNetwork hidden'' kr_get_hidden"

definition core_known_network_last_connected_time :: "('act, 'w) core_known_network option \<Rightarrow> (gerror, 'w, string option) go" where
  "core_known_network_last_connected_time =
     core_get known_network_core ''KnownNetwork.LastConnectedTime'' ''failed querying iwd KnownNetwork last-connected time''
       kr_get_last_connected_time (\<lambda>raw. Inr (normalize_optional_string raw))"

definition core_known_network_auto_connect :: "('act, 'w) core_known_network option \<Rightarrow> (gerror, 'w, bool) go" where
  "core_known_network_auto_connect =
     core_do known_network_core ''KnownNetwork.AutoConnect'' ''failed querying iwd KnownNetwork auto-connect'' kr_get_auto_connect"

definition core_known_network_set_auto_connect ::
    "bool \<Rightarrow> ('act, 'w) core_known_network option \<Rightarrow> (gerror, 'w, unit) go" where
  "core_known_network_set_auto_connect auto =
     core_do known_network_core ''KnownNetwork.SetAutoConnect'' ''failed setting iwd KnownNetwork auto-connect''
       (\<lambda>r. kr_set_auto_connect r auto)"

definition core_known_network_forget :: "('act, 'w) core_known_network option \<Rightarrow> (gerror, 'w, unit) go" where
  "core_known_network_forget =
     core_do known_network_core ''KnownNetwork.Forget'' ''failed forgetting iwd KnownNetwork'' kr_forget"

definition normalize_known_network_properties ::
    "string \<Rightarrow> known_network_properties \<Rightarrow> gerror + known_network_properties" where
  "normalize_known_network_properties op raw =
     try_bind (required_text known_network_core op ''Name'' (kp_name raw)) (\<lambda>name.
     try_bind (validate_network_type ResourceKnownNetwork op (kp_type raw)) (\<lambda>t.
     Inr \<lparr>kp_name = name, kp_type = t, kp_hidden = kp_hidden raw,
          kp_last_connected_time = normalize_optional_string (kp_last_connected_time raw),
          kp_auto_connect = kp_auto_connect raw\<rparr>))"

definition core_known_network_properties :: "('act, 'w) core_known_network option \<Rightarrow> (gerror, 'w, known_network_properties) go" where
  "core_known_network_properties =
     core_get known_network_core ''KnownNetwork.Properties'' ''failed querying iwd KnownNetwork properties''
       kr_get_properties (normalize_known_network_properties ''KnownNetwork.Properties'')"

definition core_known_network_subscribe_properties_changed ::
    "(properties_changed \<Rightarrow> 'act list) option \<Rightarrow> ('act, 'w) core_known_network option
      \<Rightarrow> (gerror, ('act, 'w) subs_state, subscription) go" where
  "core_known_network_subscribe_properties_changed =
     core_subscribe_all known_network_core ''KnownNetwork.SubscribePropertiesChanged'' kr_subscribe_properties_changed"

definition core_known_network_subscribe_auto_connect_changed ::
    "(bool \<Rightarrow> 'act list) option \<Rightarrow> ('act, 'w) core_known_network option
      \<Rightarrow> (gerror, ('act, 'w) subs_state, subscription) go" where
  "core_known_network_subscribe_auto_connect_changed =
     core_subscribe known_network_core ''KnownNetwork.SubscribeAutoConnectChanged'' kr_subscribe_auto_connect_changed"

definition core_known_network_subscribe_hidden_changed ::
    "(bool \<Rightarrow> 'act list) option \<Rightarrow> ('act, 'w) core_known_network option
      \<Rightarrow> (gerror, ('act, 'w) subs_state, subscription) go" where
  "core_known_network_subscribe_hidden_changed =
     core_subscribe known_network_core ''KnownNetwork.SubscribeHiddenChanged'' kr_subscribe_hidden_changed"

definition core_known_network_subscribe_last_connected_time_changed ::
    "(string option \<Rightarrow> 'act list) option \<Rightarrow> ('act, 'w) core_known_network option
      \<Rightarrow> (gerror, ('act, 'w) subs_state, subscription) go" where
  "core_known_network_subscribe_last_connected_time_changed =
     core_subscribe known_network_core ''KnownNetwork.SubscribeLastConnectedTimeChanged'' kr_subscribe_last_connected_time_changed"

lemmas core_known_network_read_defs =
  core_known_network_name_def core_known_network_type_def core_known_network_hidden_def
  core_known_network_last_connected_time_def core_known_network_auto_connect_def core_known_network_properties_def

subsection \<open>Reads\<close>

lemma known_network_iwd_iface [simp]: "it_iface known_network_iwd = IwdKnownNetworkIface"
  by (simp add: known_network_iwd_def)

lemma known_network_properties_agree:
  assumes rep: "reports c IwdKnownNetworkIface tab w" and live: "to_call k = Some c"
  defines "s \<equiv> new_core_known_network (Some (iwd_known_network_raw k))"
  shows "core_known_network_properties s w = (Inr p, w) \<longleftrightarrow>
           core_known_network_name s w = (Inr (kp_name p), w)
         \<and> core_known_network_type s w = (Inr (kp_type p), w)
         \<and> core_known_network_hidden s w = (Inr (kp_hidden p), w)
         \<and> core_known_network_last_connected_time s w = (Inr (kp_last_connected_time p), w)
         \<and> core_known_network_auto_connect s w = (Inr (kp_auto_connect p), w)"
proof -
  note reads = reads_report [of c known_network_iwd, simplified, OF rep live]
  show ?thesis
    unfolding s_def new_core_known_network_def core_known_network_read_defs core_iffs iwd_known_network_raw_def
    by (cases p) (auto simp: iwd_known_network_read_defs reads decode_known_network_properties_def
        normalize_known_network_properties_def try_bind_Inr_iff core_iffs)
qed

end
