(* ===== verification/Device.thy ===== *)
theory Device
  imports Facade
begin

text \<open>
  Devices, \<open>internal/iwdbus/device.go\<close> and \<open>internal/core/device.go\<close>, with the mode parser of \<open>adapter.go\<close>.
\<close>

subsection \<open>The D-Bus layer\<close>

definition device_iwd :: iwd_type where
  "device_iwd = \<lparr>it_label = ''Device'', it_sentinel = DeviceObj, it_iface = IwdDeviceIface\<rparr>"

type_synonym ('act, 'w) iwd_device = "('act, 'w) typed_object"

definition iwd_new_device ::
    "godbus \<Rightarrow> 'w conn \<Rightarrow> (string \<Rightarrow> (raw_err, 'w, unit) go) option \<Rightarrow> string
      \<Rightarrow> (gerror, 'w, ('act, 'w) iwd_device) go" where
  "iwd_new_device = new_typed_object device_iwd"

text \<open>\<open>ParseMode\<close> of \<open>adapter.go\<close>; \<open>parseObjectPath\<close> has the body of \<open>parseNetworkObjectPath\<close> for one field.\<close>

definition iwd_parse_mode :: "string \<Rightarrow> gerror + mode" where
  "iwd_parse_mode s =
     (case parse_mode s of
        (m, ok) \<Rightarrow> if \<not> ok then Inl (Errorf ''invalid mode %q'' [s] []) else Inr m)"

definition parse_device_mode :: "dval \<Rightarrow> gerror + mode" where
  "parse_device_mode v =
     (case as_string v of
        None \<Rightarrow> Inl (expected ''Mode'' ''string'' v)
      | Some s \<Rightarrow> (case iwd_parse_mode s of Inl e \<Rightarrow> Inl (wrap_variant ''Mode'' e) | Inr m \<Rightarrow> Inr m))"

definition parse_object_path :: "(string \<Rightarrow> bool) \<Rightarrow> dval \<Rightarrow> gerror + string" where
  "parse_object_path ok v = parse_network_object_path ok ''Adapter'' v"

definition iwd_device_get_name :: "('act, 'w) iwd_device \<Rightarrow> (gerror, 'w, string) go" where
  "iwd_device_get_name =
     get_property device_iwd ''Name'' (expect_string ''Name'')"

definition iwd_device_get_address :: "('act, 'w) iwd_device \<Rightarrow> (gerror, 'w, string) go" where
  "iwd_device_get_address =
     get_property device_iwd ''Address'' (expect_string ''Address'')"

definition iwd_device_get_powered :: "('act, 'w) iwd_device \<Rightarrow> (gerror, 'w, bool) go" where
  "iwd_device_get_powered =
     get_property device_iwd ''Powered'' (expect_bool ''Powered'')"

definition iwd_device_set_powered :: "bool \<Rightarrow> ('act, 'w) iwd_device \<Rightarrow> (gerror, 'w, unit) go" where
  "iwd_device_set_powered v = set_property device_iwd ''Powered'' (VBool v)"

definition iwd_device_get_mode :: "('act, 'w) iwd_device \<Rightarrow> (gerror, 'w, mode) go" where
  "iwd_device_get_mode =
     get_property device_iwd ''Mode'' parse_device_mode"

definition iwd_device_set_mode :: "mode \<Rightarrow> ('act, 'w) iwd_device \<Rightarrow> (gerror, 'w, unit) go" where
  "iwd_device_set_mode m s =
     go_bind (typed_ready device_iwd s) (\<lambda>_.
     if m = ModeUnknown
     then go_fail (wrap_property IwdDeviceIface ''Mode'' (Errorf ''invalid mode: %s'' [mode_string m] []))
     else set_property device_iwd ''Mode'' (VStr (mode_string m)) s)"

definition iwd_device_get_adapter :: "godbus \<Rightarrow> ('act, 'w) iwd_device \<Rightarrow> (gerror, 'w, string) go" where
  "iwd_device_get_adapter g =
     get_property device_iwd ''Adapter'' (parse_object_path (path_ok g))"

record device_properties =
  vp_name :: string
  vp_address :: string
  vp_powered :: bool
  vp_mode :: mode
  vp_adapter :: string

definition decode_device_properties :: "godbus \<Rightarrow> properties \<Rightarrow> gerror + device_properties" where
  "decode_device_properties g raw =
     try_bind (required_field device_iwd raw ''Name'' (expect_string ''Name'')) (\<lambda>name.
     try_bind (required_field device_iwd raw ''Address'' (expect_string ''Address'')) (\<lambda>address.
     try_bind (required_field device_iwd raw ''Powered'' (expect_bool ''Powered'')) (\<lambda>powered.
     try_bind (required_field device_iwd raw ''Mode'' parse_device_mode) (\<lambda>m.
     try_bind (required_field device_iwd raw ''Adapter'' (parse_object_path (path_ok g))) (\<lambda>adapter.
     Inr \<lparr>vp_name = name, vp_address = address, vp_powered = powered, vp_mode = m, vp_adapter = adapter\<rparr>)))))"

definition iwd_device_get_properties ::
    "godbus \<Rightarrow> ('act, 'w) iwd_device \<Rightarrow> (gerror, 'w, device_properties) go" where
  "iwd_device_get_properties g = get_all_properties device_iwd (decode_device_properties g)"

definition iwd_device_subscribe_properties_changed ::
    "(properties_changed \<Rightarrow> 'act list) option \<Rightarrow> ('act, 'w) iwd_device
      \<Rightarrow> (gerror, ('act, 'w) subs_state, subscription) go" where
  "iwd_device_subscribe_properties_changed = subscribe_all device_iwd"

definition iwd_device_subscribe_powered_changed ::
    "(bool \<Rightarrow> 'act list) option \<Rightarrow> ('act, 'w) iwd_device
      \<Rightarrow> (gerror, ('act, 'w) subs_state, subscription) go" where
  "iwd_device_subscribe_powered_changed =
     subscribe_field device_iwd ''SubscribePoweredChanged'' (on_required_property ''Powered'' (expect_bool ''Powered''))"

definition iwd_device_subscribe_mode_changed ::
    "(mode \<Rightarrow> 'act list) option \<Rightarrow> ('act, 'w) iwd_device
      \<Rightarrow> (gerror, ('act, 'w) subs_state, subscription) go" where
  "iwd_device_subscribe_mode_changed =
     subscribe_field device_iwd ''SubscribeModeChanged'' (on_required_property ''Mode'' parse_device_mode)"

definition iwd_device_firehose ::
    "(firehose_signal \<Rightarrow> 'act list) option \<Rightarrow> ('act, 'w) iwd_device
      \<Rightarrow> (gerror, ('act, 'w) subs_state, unit) go" where
  "iwd_device_firehose = typed_firehose"

lemmas iwd_device_read_defs =
  iwd_device_get_name_def iwd_device_get_address_def iwd_device_get_powered_def
  iwd_device_get_mode_def iwd_device_get_adapter_def iwd_device_get_properties_def

subsection \<open>The core layer\<close>

record ('act, 'w) device_raw =
  vr_get_name :: "(gerror, 'w, string) go"
  vr_get_address :: "(gerror, 'w, string) go"
  vr_get_powered :: "(gerror, 'w, bool) go"
  vr_set_powered :: "bool \<Rightarrow> (gerror, 'w, unit) go"
  vr_get_mode :: "(gerror, 'w, mode) go"
  vr_set_mode :: "mode \<Rightarrow> (gerror, 'w, unit) go"
  vr_get_adapter :: "(gerror, 'w, string) go"
  vr_get_properties :: "(gerror, 'w, device_properties) go"
  vr_subscribe_properties_changed ::
    "(properties_changed \<Rightarrow> 'act list) option \<Rightarrow> (gerror, ('act, 'w) subs_state, subscription) go"
  vr_subscribe_powered_changed ::
    "(bool \<Rightarrow> 'act list) option \<Rightarrow> (gerror, ('act, 'w) subs_state, subscription) go"
  vr_subscribe_mode_changed ::
    "(mode \<Rightarrow> 'act list) option \<Rightarrow> (gerror, ('act, 'w) subs_state, subscription) go"

definition iwd_device_raw :: "godbus \<Rightarrow> ('act, 'w) iwd_device \<Rightarrow> ('act, 'w) device_raw" where
  "iwd_device_raw g x =
     \<lparr>vr_get_name = iwd_device_get_name x,
      vr_get_address = iwd_device_get_address x,
      vr_get_powered = iwd_device_get_powered x,
      vr_set_powered = (\<lambda>a. iwd_device_set_powered a x),
      vr_get_mode = iwd_device_get_mode x,
      vr_set_mode = (\<lambda>a. iwd_device_set_mode a x),
      vr_get_adapter = iwd_device_get_adapter g x,
      vr_get_properties = iwd_device_get_properties g x,
      vr_subscribe_properties_changed = (\<lambda>a. iwd_device_subscribe_properties_changed a x),
      vr_subscribe_powered_changed = (\<lambda>a. iwd_device_subscribe_powered_changed a x),
      vr_subscribe_mode_changed = (\<lambda>a. iwd_device_subscribe_mode_changed a x)\<rparr>"

type_synonym ('act, 'w) core_device = "('act, 'w) device_raw facade"

definition device_core :: core_type where
  "device_core =
     \<lparr>ct_resource = ResourceDevice, ct_sentinel = DeviceWrapper, ct_label = ''device'',
      ct_name = ''Device'', ct_wrap = wrap_device_unavailable\<rparr>"

definition new_core_device :: "('act, 'w) device_raw option \<Rightarrow> ('act, 'w) core_device option" where
  "new_core_device = new_facade"

definition validate_mode :: "string \<Rightarrow> mode \<Rightarrow> gerror + mode" where
  "validate_mode op m =
     (if \<not> valid_mode m
      then Inl (wrap_invalid_state ResourceDevice op (sprintf ''device reported unknown mode %q'' [mode_string m])
                  (Errorf ''missing or invalid Mode field'' [] []))
      else Inr m)"

definition core_device_name :: "('act, 'w) core_device option \<Rightarrow> (gerror, 'w, string) go" where
  "core_device_name =
     core_get device_core ''Device.Name'' ''failed querying iwd Device name''
       vr_get_name (required_text device_core ''Device.Name'' ''Name'')"

definition core_device_address :: "('act, 'w) core_device option \<Rightarrow> (gerror, 'w, string) go" where
  "core_device_address =
     core_get device_core ''Device.Address'' ''failed querying iwd Device address''
       vr_get_address (required_text device_core ''Device.Address'' ''Address'')"

definition core_device_powered :: "('act, 'w) core_device option \<Rightarrow> (gerror, 'w, bool) go" where
  "core_device_powered =
     core_do device_core ''Device.Powered'' ''failed querying iwd Device powered'' vr_get_powered"

definition core_device_mode :: "('act, 'w) core_device option \<Rightarrow> (gerror, 'w, mode) go" where
  "core_device_mode =
     core_get device_core ''Device.Mode'' ''failed querying iwd Device mode''
       vr_get_mode (validate_mode ''Device.Mode'')"

definition core_device_adapter :: "('act, 'w) core_device option \<Rightarrow> (gerror, 'w, string) go" where
  "core_device_adapter =
     core_get device_core ''Device.Adapter'' ''failed querying iwd Device adapter''
       vr_get_adapter (required_text device_core ''Device.Adapter'' ''Adapter'')"

definition core_device_set_powered :: "bool \<Rightarrow> ('act, 'w) core_device option \<Rightarrow> (gerror, 'w, unit) go" where
  "core_device_set_powered powered =
     core_do device_core ''Device.SetPowered'' ''failed setting iwd Device powered'' (\<lambda>r. vr_set_powered r powered)"

definition core_device_set_mode :: "mode \<Rightarrow> ('act, 'w) core_device option \<Rightarrow> (gerror, 'w, unit) go" where
  "core_device_set_mode m =
     core_checked_do device_core ''Device.SetMode'' ''failed setting iwd Device mode''
       (if \<not> valid_mode m
        then Inl (wrap_invalid_argument ResourceDevice ''Device.SetMode'' ''unknown mode''
                    (Errorf ''invalid mode %q'' [mode_string m] []))
        else Inr ())
       (\<lambda>r. vr_set_mode r m)"

definition normalize_device_properties :: "string \<Rightarrow> device_properties \<Rightarrow> gerror + device_properties" where
  "normalize_device_properties op raw =
     try_bind (required_text device_core op ''Name'' (vp_name raw)) (\<lambda>name.
     try_bind (required_text device_core op ''Address'' (vp_address raw)) (\<lambda>address.
     try_bind (required_text device_core op ''Adapter'' (vp_adapter raw)) (\<lambda>adapter.
     try_bind (validate_mode op (vp_mode raw)) (\<lambda>m.
     Inr \<lparr>vp_name = name, vp_address = address, vp_powered = vp_powered raw, vp_mode = m,
          vp_adapter = adapter\<rparr>))))"

definition core_device_properties :: "('act, 'w) core_device option \<Rightarrow> (gerror, 'w, device_properties) go" where
  "core_device_properties =
     core_get device_core ''Device.Properties'' ''failed querying iwd Device properties''
       vr_get_properties (normalize_device_properties ''Device.Properties'')"

definition core_device_subscribe_properties_changed ::
    "(properties_changed \<Rightarrow> 'act list) option \<Rightarrow> ('act, 'w) core_device option
      \<Rightarrow> (gerror, ('act, 'w) subs_state, subscription) go" where
  "core_device_subscribe_properties_changed =
     core_subscribe_all device_core ''Device.SubscribePropertiesChanged'' vr_subscribe_properties_changed"

definition core_device_subscribe_powered_changed ::
    "(bool \<Rightarrow> 'act list) option \<Rightarrow> ('act, 'w) core_device option
      \<Rightarrow> (gerror, ('act, 'w) subs_state, subscription) go" where
  "core_device_subscribe_powered_changed =
     core_subscribe device_core ''Device.SubscribePoweredChanged'' vr_subscribe_powered_changed"

definition core_device_subscribe_mode_changed ::
    "(mode \<Rightarrow> 'act list) option \<Rightarrow> ('act, 'w) core_device option
      \<Rightarrow> (gerror, ('act, 'w) subs_state, subscription) go" where
  "core_device_subscribe_mode_changed =
     core_subscribe device_core ''Device.SubscribeModeChanged'' vr_subscribe_mode_changed"

lemmas core_device_read_defs =
  core_device_name_def core_device_address_def core_device_powered_def
  core_device_mode_def core_device_adapter_def core_device_properties_def

subsection \<open>Reads and settings\<close>

lemma device_iwd_iface [simp]: "it_iface device_iwd = IwdDeviceIface"
  by (simp add: device_iwd_def)

lemma validate_mode_Inr_iff: "validate_mode op m = Inr n \<longleftrightarrow> n = m \<and> valid_mode m"
  by (auto simp: validate_mode_def)

lemma device_properties_agree:
  fixes g :: godbus
  assumes rep: "reports c IwdDeviceIface tab w" and live: "to_call d = Some c"
  defines "s \<equiv> new_core_device (Some (iwd_device_raw g d))"
  shows "core_device_properties s w = (Inr p, w) \<longleftrightarrow>
           core_device_name s w = (Inr (vp_name p), w)
         \<and> core_device_address s w = (Inr (vp_address p), w)
         \<and> core_device_powered s w = (Inr (vp_powered p), w)
         \<and> core_device_mode s w = (Inr (vp_mode p), w)
         \<and> core_device_adapter s w = (Inr (vp_adapter p), w)"
proof -
  note reads = reads_report [of c device_iwd, simplified, OF rep live]
  show ?thesis
    unfolding s_def new_core_device_def core_device_read_defs core_iffs iwd_device_raw_def
    by (cases p) (auto simp: iwd_device_read_defs reads decode_device_properties_def
        normalize_device_properties_def try_bind_Inr_iff core_iffs validate_mode_Inr_iff)
qed

end
