(* ===== verification/Adapter.thy ===== *)
theory Adapter
  imports Facade
begin

text \<open>
  Adapters, \<open>internal/iwdbus/adapter.go\<close> and \<open>internal/core/adapter.go\<close>.
\<close>

subsection \<open>The D-Bus layer\<close>

definition adapter_iwd :: iwd_type where
  "adapter_iwd = \<lparr>it_label = ''Adapter'', it_sentinel = AdapterObj, it_iface = IwdAdapterIface\<rparr>"

type_synonym ('act, 'w) iwd_adapter = "('act, 'w) typed_object"

definition iwd_new_adapter ::
    "godbus \<Rightarrow> 'w conn \<Rightarrow> (string \<Rightarrow> (raw_err, 'w, unit) go) option \<Rightarrow> string
      \<Rightarrow> (gerror, 'w, ('act, 'w) iwd_adapter) go" where
  "iwd_new_adapter = new_typed_object adapter_iwd"

text \<open>The supported modes: an array of strings, in either form.\<close>

definition supported_mode :: "string \<Rightarrow> gerror + mode" where
  "supported_mode s =
     (case parse_mode s of
        (m, ok) \<Rightarrow> if \<not> ok then Inl (wrap_variant ''SupportedModes'' (Errorf ''invalid mode %q'' [s] [])) else Inr m)"

definition supported_mode_elem :: "dval \<Rightarrow> gerror + mode" where
  "supported_mode_elem v =
     (case as_string v of
        None \<Rightarrow> Inl (expected ''SupportedModes'' ''string'' v)
      | Some s \<Rightarrow> supported_mode s)"

definition parse_supported_modes :: "dval \<Rightarrow> gerror + mode list" where
  "parse_supported_modes v =
     (case v of
        VStrs ss \<Rightarrow> collect supported_mode ss
      | VAnys vs \<Rightarrow> collect supported_mode_elem vs
      | _ \<Rightarrow> Inl (wrap_variant ''SupportedModes'' (Errorf ''unexpected type %T'' [go_type v] [])))"

definition is_mode_supported :: "mode list \<Rightarrow> mode \<Rightarrow> gerror + bool" where
  "is_mode_supported modes m =
     (if \<not> valid_mode m then Inl (Errorf ''invalid mode: %s'' [mode_string m] [])
      else Inr (m \<in> set modes))"

definition iwd_adapter_get_powered :: "('act, 'w) iwd_adapter \<Rightarrow> (gerror, 'w, bool) go" where
  "iwd_adapter_get_powered =
     get_property adapter_iwd ''Powered'' (expect_bool ''Powered'')"

definition iwd_adapter_set_powered :: "bool \<Rightarrow> ('act, 'w) iwd_adapter \<Rightarrow> (gerror, 'w, unit) go" where
  "iwd_adapter_set_powered v = set_property adapter_iwd ''Powered'' (VBool v)"

definition iwd_adapter_get_name :: "('act, 'w) iwd_adapter \<Rightarrow> (gerror, 'w, string) go" where
  "iwd_adapter_get_name =
     get_property adapter_iwd ''Name'' (expect_string ''Name'')"

definition iwd_adapter_get_model :: "('act, 'w) iwd_adapter \<Rightarrow> (gerror, 'w, string option) go" where
  "iwd_adapter_get_model =
     get_or_absent adapter_iwd ''Model'' None (optional_string ''Model'')"

definition iwd_adapter_get_vendor :: "('act, 'w) iwd_adapter \<Rightarrow> (gerror, 'w, string option) go" where
  "iwd_adapter_get_vendor =
     get_or_absent adapter_iwd ''Vendor'' None (optional_string ''Vendor'')"

definition iwd_adapter_get_supported_modes :: "('act, 'w) iwd_adapter \<Rightarrow> (gerror, 'w, mode list) go" where
  "iwd_adapter_get_supported_modes =
     get_property adapter_iwd ''SupportedModes'' parse_supported_modes"

record adapter_properties =
  ap_powered :: bool
  ap_name :: string
  ap_model :: "string option"
  ap_vendor :: "string option"
  ap_supported_modes :: "mode list"

definition decode_adapter_properties :: "properties \<Rightarrow> gerror + adapter_properties" where
  "decode_adapter_properties raw =
     try_bind (required_field adapter_iwd raw ''Powered'' (expect_bool ''Powered'')) (\<lambda>powered.
     try_bind (required_field adapter_iwd raw ''Name'' (expect_string ''Name'')) (\<lambda>name.
     try_bind (required_field adapter_iwd raw ''SupportedModes'' parse_supported_modes) (\<lambda>modes.
     try_bind (field_or raw ''Model'' None (optional_string ''Model'')) (\<lambda>model.
     try_bind (field_or raw ''Vendor'' None (optional_string ''Vendor'')) (\<lambda>vendor.
     Inr \<lparr>ap_powered = powered, ap_name = name, ap_model = model, ap_vendor = vendor,
          ap_supported_modes = modes\<rparr>)))))"

definition iwd_adapter_get_properties :: "('act, 'w) iwd_adapter \<Rightarrow> (gerror, 'w, adapter_properties) go" where
  "iwd_adapter_get_properties = get_all_properties adapter_iwd decode_adapter_properties"

definition iwd_adapter_supports_mode :: "mode \<Rightarrow> ('act, 'w) iwd_adapter \<Rightarrow> (gerror, 'w, bool) go" where
  "iwd_adapter_supports_mode m s =
     go_bind (typed_ready adapter_iwd s) (\<lambda>_.
     if m = ModeUnknown then go_fail (Errorf ''invalid mode: %s'' [mode_string m] [])
     else
       go_bind (iwd_adapter_get_supported_modes s) (\<lambda>modes.
       go_lift (is_mode_supported modes m)))"

definition iwd_adapter_supports_station :: "('act, 'w) iwd_adapter \<Rightarrow> (gerror, 'w, bool) go" where
  "iwd_adapter_supports_station = iwd_adapter_supports_mode ModeStation"

definition iwd_adapter_supports_ap :: "('act, 'w) iwd_adapter \<Rightarrow> (gerror, 'w, bool) go" where
  "iwd_adapter_supports_ap = iwd_adapter_supports_mode ModeAP"

definition iwd_adapter_supports_ad_hoc :: "('act, 'w) iwd_adapter \<Rightarrow> (gerror, 'w, bool) go" where
  "iwd_adapter_supports_ad_hoc = iwd_adapter_supports_mode ModeAdHoc"

definition iwd_adapter_subscribe_properties_changed ::
    "(properties_changed \<Rightarrow> 'act list) option \<Rightarrow> ('act, 'w) iwd_adapter
      \<Rightarrow> (gerror, ('act, 'w) subs_state, subscription) go" where
  "iwd_adapter_subscribe_properties_changed = subscribe_all adapter_iwd"

definition iwd_adapter_subscribe_powered_changed ::
    "(bool \<Rightarrow> 'act list) option \<Rightarrow> ('act, 'w) iwd_adapter
      \<Rightarrow> (gerror, ('act, 'w) subs_state, subscription) go" where
  "iwd_adapter_subscribe_powered_changed =
     subscribe_field adapter_iwd ''SubscribePoweredChanged'' (on_required_property ''Powered'' (expect_bool ''Powered''))"

definition iwd_adapter_firehose ::
    "(firehose_signal \<Rightarrow> 'act list) option \<Rightarrow> ('act, 'w) iwd_adapter
      \<Rightarrow> (gerror, ('act, 'w) subs_state, unit) go" where
  "iwd_adapter_firehose = typed_firehose"

lemmas iwd_adapter_read_defs =
  iwd_adapter_get_powered_def iwd_adapter_get_name_def iwd_adapter_get_model_def
  iwd_adapter_get_vendor_def iwd_adapter_get_supported_modes_def iwd_adapter_get_properties_def

subsection \<open>The core layer\<close>

record ('act, 'w) adapter_raw =
  ar_get_powered :: "(gerror, 'w, bool) go"
  ar_set_powered :: "bool \<Rightarrow> (gerror, 'w, unit) go"
  ar_get_name :: "(gerror, 'w, string) go"
  ar_get_model :: "(gerror, 'w, string option) go"
  ar_get_vendor :: "(gerror, 'w, string option) go"
  ar_get_supported_modes :: "(gerror, 'w, mode list) go"
  ar_get_properties :: "(gerror, 'w, adapter_properties) go"
  ar_supports_mode :: "mode \<Rightarrow> (gerror, 'w, bool) go"
  ar_supports_station :: "(gerror, 'w, bool) go"
  ar_supports_ap :: "(gerror, 'w, bool) go"
  ar_supports_ad_hoc :: "(gerror, 'w, bool) go"
  ar_subscribe_properties_changed ::
    "(properties_changed \<Rightarrow> 'act list) option \<Rightarrow> (gerror, ('act, 'w) subs_state, subscription) go"
  ar_subscribe_powered_changed ::
    "(bool \<Rightarrow> 'act list) option \<Rightarrow> (gerror, ('act, 'w) subs_state, subscription) go"

definition iwd_adapter_raw :: "('act, 'w) iwd_adapter \<Rightarrow> ('act, 'w) adapter_raw" where
  "iwd_adapter_raw x =
     \<lparr>ar_get_powered = iwd_adapter_get_powered x,
      ar_set_powered = (\<lambda>a. iwd_adapter_set_powered a x),
      ar_get_name = iwd_adapter_get_name x,
      ar_get_model = iwd_adapter_get_model x,
      ar_get_vendor = iwd_adapter_get_vendor x,
      ar_get_supported_modes = iwd_adapter_get_supported_modes x,
      ar_get_properties = iwd_adapter_get_properties x,
      ar_supports_mode = (\<lambda>a. iwd_adapter_supports_mode a x),
      ar_supports_station = iwd_adapter_supports_station x,
      ar_supports_ap = iwd_adapter_supports_ap x,
      ar_supports_ad_hoc = iwd_adapter_supports_ad_hoc x,
      ar_subscribe_properties_changed = (\<lambda>a. iwd_adapter_subscribe_properties_changed a x),
      ar_subscribe_powered_changed = (\<lambda>a. iwd_adapter_subscribe_powered_changed a x)\<rparr>"

type_synonym ('act, 'w) core_adapter = "('act, 'w) adapter_raw facade"

definition adapter_core :: core_type where
  "adapter_core =
     \<lparr>ct_resource = ResourceAdapter, ct_sentinel = AdapterWrapper, ct_label = ''adapter'',
      ct_name = ''Adapter'', ct_wrap = wrap_adapter_unavailable\<rparr>"

definition new_core_adapter :: "('act, 'w) adapter_raw option \<Rightarrow> ('act, 'w) core_adapter option" where
  "new_core_adapter = new_facade"

definition core_adapter_parse_mode :: "string \<Rightarrow> gerror + mode" where
  "core_adapter_parse_mode s =
     (case parse_mode s of
        (m, ok) \<Rightarrow>
          if \<not> ok then Inl (CoreError KindInvalidArgument ResourceAdapter ''Adapter.ParseMode''
                            (sprintf ''invalid mode %q'' [s]) (Sentinel ErrCore))
          else Inr m)"

definition validate_supported_modes :: "mode list \<Rightarrow> gerror + mode list" where
  "validate_supported_modes modes =
     collect (\<lambda>m.
       if \<not> valid_mode m
       then Inl (CoreError KindInvalidArgument ResourceAdapter ''Adapter.validateSupportedModes''
                   (sprintf ''unknown supported mode %q'' [mode_string m]) (Sentinel ErrCore))
       else Inr m) modes"

text \<open>A model or vendor is trimmed when present; a blank one stays present.\<close>

definition trim_optional :: "string option \<Rightarrow> string option" where
  "trim_optional s = (case s of None \<Rightarrow> None | Some t \<Rightarrow> Some (trim_space t))"

definition core_adapter_powered :: "('act, 'w) core_adapter option \<Rightarrow> (gerror, 'w, bool) go" where
  "core_adapter_powered =
     core_do adapter_core ''Adapter.Powered'' ''failed querying iwd Adapter powered'' ar_get_powered"

definition core_adapter_name :: "('act, 'w) core_adapter option \<Rightarrow> (gerror, 'w, string) go" where
  "core_adapter_name =
     core_get adapter_core ''Adapter.Name'' ''failed querying iwd Adapter name''
       ar_get_name (required_text adapter_core ''Adapter.Name'' ''Name'')"

definition core_adapter_model :: "('act, 'w) core_adapter option \<Rightarrow> (gerror, 'w, string option) go" where
  "core_adapter_model =
     core_get adapter_core ''Adapter.Model'' ''failed querying iwd Adapter model''
       ar_get_model (\<lambda>raw. Inr (trim_optional raw))"

definition core_adapter_vendor :: "('act, 'w) core_adapter option \<Rightarrow> (gerror, 'w, string option) go" where
  "core_adapter_vendor =
     core_get adapter_core ''Adapter.Vendor'' ''failed querying iwd Adapter vendor''
       ar_get_vendor (\<lambda>raw. Inr (trim_optional raw))"

definition core_adapter_supported_modes :: "('act, 'w) core_adapter option \<Rightarrow> (gerror, 'w, mode list) go" where
  "core_adapter_supported_modes =
     core_get adapter_core ''Adapter.SupportedModes'' ''failed querying iwd Adapter supported modes''
       ar_get_supported_modes (validate_supported_modes)"

definition core_adapter_set_powered :: "bool \<Rightarrow> ('act, 'w) core_adapter option \<Rightarrow> (gerror, 'w, unit) go" where
  "core_adapter_set_powered powered =
     core_do adapter_core ''Adapter.SetPowered'' ''failed setting iwd Adapter powered'' (\<lambda>r. ar_set_powered r powered)"

definition normalize_adapter_properties :: "string \<Rightarrow> adapter_properties \<Rightarrow> gerror + adapter_properties" where
  "normalize_adapter_properties op raw =
     try_bind (required_text adapter_core op ''Name'' (ap_name raw)) (\<lambda>name.
     try_bind (validate_supported_modes (ap_supported_modes raw)) (\<lambda>modes.
     Inr \<lparr>ap_powered = ap_powered raw, ap_name = name, ap_model = trim_optional (ap_model raw),
          ap_vendor = trim_optional (ap_vendor raw), ap_supported_modes = modes\<rparr>))"

definition core_adapter_properties :: "('act, 'w) core_adapter option \<Rightarrow> (gerror, 'w, adapter_properties) go" where
  "core_adapter_properties =
     core_get adapter_core ''Adapter.Properties'' ''failed querying iwd Adapter properties''
       ar_get_properties (normalize_adapter_properties ''Adapter.Properties'')"

definition core_adapter_supports_mode :: "mode \<Rightarrow> ('act, 'w) core_adapter option \<Rightarrow> (gerror, 'w, bool) go" where
  "core_adapter_supports_mode m =
     core_checked_do adapter_core ''Adapter.SupportsMode'' ''failed querying iwd Adapter supports mode''
       (if \<not> valid_mode m
        then Inl (wrap_invalid_argument ResourceAdapter ''Adapter.SupportsMode'' ''unknown mode''
                    (Errorf ''unknown supported mode %q'' [mode_string m] []))
        else Inr ())
       (\<lambda>r. ar_supports_mode r m)"

definition core_adapter_supports_station :: "('act, 'w) core_adapter option \<Rightarrow> (gerror, 'w, bool) go" where
  "core_adapter_supports_station =
     core_do adapter_core ''Adapter.SupportsStation'' ''failed querying iwd Adapter supports station'' ar_supports_station"

definition core_adapter_supports_ap :: "('act, 'w) core_adapter option \<Rightarrow> (gerror, 'w, bool) go" where
  "core_adapter_supports_ap =
     core_do adapter_core ''Adapter.SupportsAP'' ''failed querying iwd Adapter supports AP'' ar_supports_ap"

definition core_adapter_supports_ad_hoc :: "('act, 'w) core_adapter option \<Rightarrow> (gerror, 'w, bool) go" where
  "core_adapter_supports_ad_hoc =
     core_do adapter_core ''Adapter.SupportsAdHoc'' ''failed querying iwd Adapter supports ad-hoc'' ar_supports_ad_hoc"

definition core_adapter_subscribe_properties_changed ::
    "(properties_changed \<Rightarrow> 'act list) option \<Rightarrow> ('act, 'w) core_adapter option
      \<Rightarrow> (gerror, ('act, 'w) subs_state, subscription) go" where
  "core_adapter_subscribe_properties_changed =
     core_subscribe_all adapter_core ''Adapter.SubscribePropertiesChanged'' ar_subscribe_properties_changed"

definition core_adapter_subscribe_powered_changed ::
    "(bool \<Rightarrow> 'act list) option \<Rightarrow> ('act, 'w) core_adapter option
      \<Rightarrow> (gerror, ('act, 'w) subs_state, subscription) go" where
  "core_adapter_subscribe_powered_changed =
     core_subscribe adapter_core ''Adapter.SubscribePoweredChanged'' ar_subscribe_powered_changed"

lemmas core_adapter_read_defs =
  core_adapter_powered_def core_adapter_name_def core_adapter_model_def
  core_adapter_vendor_def core_adapter_supported_modes_def core_adapter_properties_def

subsection \<open>Reads\<close>

lemma adapter_iwd_iface [simp]: "it_iface adapter_iwd = IwdAdapterIface"
  by (simp add: adapter_iwd_def)

lemma validate_supported_modes_Inr_iff:
  "validate_supported_modes ms = Inr ns \<longleftrightarrow> ns = ms \<and> list_all valid_mode ms"
  unfolding validate_supported_modes_def
  by (induction ms arbitrary: ns) (auto simp: try_bind_Inr_iff)

lemma adapter_properties_agree:
  assumes rep: "reports c IwdAdapterIface tab w" and live: "to_call a = Some c"
  defines "s \<equiv> new_core_adapter (Some (iwd_adapter_raw a))"
  shows "core_adapter_properties s w = (Inr p, w) \<longleftrightarrow>
           core_adapter_powered s w = (Inr (ap_powered p), w)
         \<and> core_adapter_name s w = (Inr (ap_name p), w)
         \<and> core_adapter_model s w = (Inr (ap_model p), w)
         \<and> core_adapter_vendor s w = (Inr (ap_vendor p), w)
         \<and> core_adapter_supported_modes s w = (Inr (ap_supported_modes p), w)"
proof -
  note reads = reads_report [of c adapter_iwd, simplified, OF rep live]
  show ?thesis
    unfolding s_def new_core_adapter_def core_adapter_read_defs core_iffs iwd_adapter_raw_def
    by (cases p) (auto simp: iwd_adapter_read_defs reads decode_adapter_properties_def
        normalize_adapter_properties_def try_bind_Inr_iff core_iffs validate_supported_modes_Inr_iff)
qed

lemma supported_mode_Inr_iff: "supported_mode s = Inr m \<longleftrightarrow> m = s \<and> valid_mode s"
  by (auto simp: supported_mode_def parse_mode_def)

lemma collect_supported_mode:
  "collect supported_mode ss = Inr ms \<longleftrightarrow> ms = ss \<and> list_all valid_mode ss"
  by (induction ss arbitrary: ms) (auto simp: try_bind_Inr_iff supported_mode_Inr_iff)

lemma collect_supported_mode_elem:
  "collect supported_mode_elem vs = Inr ms \<Longrightarrow> vs = map VStr ms \<and> list_all valid_mode ms"
  by (induction vs arbitrary: ms)
    (auto simp: try_bind_Inr_iff supported_mode_elem_def supported_mode_Inr_iff split: option.splits)

lemma parse_supported_modes_valid: "parse_supported_modes v = Inr ms \<Longrightarrow> list_all valid_mode ms"
  by (auto simp: parse_supported_modes_def collect_supported_mode
      dest: collect_supported_mode_elem split: dval.splits)

text \<open>A mode is supported exactly when it is one of those listed.\<close>

lemma adapter_supports_listed_modes:
  assumes rep: "reports c IwdAdapterIface tab w" and live: "to_call a = Some c"
  defines "s \<equiv> new_core_adapter (Some (iwd_adapter_raw a))"
  shows "core_adapter_supports_mode m s w = (Inr b, w) \<longleftrightarrow>
           valid_mode m \<and> (\<exists>ms. core_adapter_supported_modes s w = (Inr ms, w) \<and> b = (m \<in> set ms))"
proof -
  note reads = reads_report [of c adapter_iwd, simplified, OF rep live]
  have "m \<noteq> ModeUnknown" if "valid_mode m" using that by (auto simp: mode_defs)
  then show ?thesis
    unfolding s_def new_core_adapter_def core_adapter_supports_mode_def core_adapter_supported_modes_def
      core_iffs iwd_adapter_raw_def
    by (auto simp: iwd_adapter_supports_mode_def iwd_adapter_get_supported_modes_def reads go_Inr_iffs
        typed_ready_live [OF live] is_mode_supported_def validate_supported_modes_Inr_iff required_field_Inr_iff
        dest: parse_supported_modes_valid)
qed

end
