(* ===== verification/Access_Point.thy ===== *)
theory Access_Point
  imports Facade
begin

text \<open>
  Access points, \<open>internal/iwdbus/accesspoint.go\<close> and \<open>internal/core/accesspoint.go\<close>. An access point lives on
  the path of its device, and iwd leaves out every property but \<open>Started\<close> while it is stopped.
\<close>

subsection \<open>The D-Bus layer\<close>

definition access_point_iwd :: iwd_type where
  "access_point_iwd = \<lparr>it_label = ''AccessPoint'', it_sentinel = AccessPointObj, it_iface = IwdAccessPointIface\<rparr>"

type_synonym ('act, 'w) iwd_access_point = "('act, 'w) typed_object"

definition iwd_new_access_point ::
    "godbus \<Rightarrow> 'w conn \<Rightarrow> (string \<Rightarrow> (raw_err, 'w, unit) go) option \<Rightarrow> string
      \<Rightarrow> (gerror, 'w, ('act, 'w) iwd_access_point) go" where
  "iwd_new_access_point = new_typed_object access_point_iwd"

text \<open>The optional properties; a nil or empty one is absent, and variants may be nested.\<close>

fun parse_optional_access_point_string :: "string \<Rightarrow> dval \<Rightarrow> gerror + string option" where
  "parse_optional_access_point_string field VNil = Inr None"
| "parse_optional_access_point_string field (VStr s) = (if s = '''' then Inr None else Inr (Some s))"
| "parse_optional_access_point_string field (VVariant v) = parse_optional_access_point_string field v"
| "parse_optional_access_point_string field v = Inl (expected field ''string'' v)"

fun parse_access_point_frequency :: "dval \<Rightarrow> gerror + int option" where
  "parse_access_point_frequency VNil = Inr None"
| "parse_access_point_frequency (VUint32 f) = Inr (Some f)"
| "parse_access_point_frequency (VVariant v) = parse_access_point_frequency v"
| "parse_access_point_frequency v = Inl (expected ''Frequency'' ''uint32'' v)"

text \<open>A nil slice and an empty one are both the empty list.\<close>

fun parse_access_point_ciphers :: "dval \<Rightarrow> gerror + string list" where
  "parse_access_point_ciphers VNil = Inr []"
| "parse_access_point_ciphers (VStrs c) = Inr c"
| "parse_access_point_ciphers (VVariant v) = parse_access_point_ciphers v"
| "parse_access_point_ciphers v = Inl (expected ''PairwiseCiphers'' ''string array'' v)"

definition iwd_access_point_get_started :: "('act, 'w) iwd_access_point \<Rightarrow> (gerror, 'w, bool) go" where
  "iwd_access_point_get_started =
     get_property access_point_iwd ''Started'' (expect_bool ''Started'')"

definition iwd_access_point_get_scanning :: "('act, 'w) iwd_access_point \<Rightarrow> (gerror, 'w, bool) go" where
  "iwd_access_point_get_scanning =
     get_or_absent access_point_iwd ''Scanning'' False (expect_bool ''Scanning'')"

definition iwd_access_point_get_name :: "('act, 'w) iwd_access_point \<Rightarrow> (gerror, 'w, string option) go" where
  "iwd_access_point_get_name =
     get_or_absent access_point_iwd ''Name'' None (parse_optional_access_point_string ''Name'')"

definition iwd_access_point_get_frequency :: "('act, 'w) iwd_access_point \<Rightarrow> (gerror, 'w, int option) go" where
  "iwd_access_point_get_frequency =
     get_or_absent access_point_iwd ''Frequency'' None parse_access_point_frequency"

definition iwd_access_point_get_pairwise_ciphers :: "('act, 'w) iwd_access_point \<Rightarrow> (gerror, 'w, string list) go" where
  "iwd_access_point_get_pairwise_ciphers =
     get_or_absent access_point_iwd ''PairwiseCiphers'' [] parse_access_point_ciphers"

definition iwd_access_point_get_group_cipher :: "('act, 'w) iwd_access_point \<Rightarrow> (gerror, 'w, string option) go" where
  "iwd_access_point_get_group_cipher =
     get_or_absent access_point_iwd ''GroupCipher'' None (parse_optional_access_point_string ''GroupCipher'')"

record access_point_properties =
  xp_started :: bool
  xp_scanning :: bool
  xp_name :: "string option"
  xp_frequency :: "int option"
  xp_pairwise_ciphers :: "string list"
  xp_group_cipher :: "string option"

definition decode_access_point_properties :: "properties \<Rightarrow> gerror + access_point_properties" where
  "decode_access_point_properties raw =
     try_bind (required_field access_point_iwd raw ''Started'' (expect_bool ''Started'')) (\<lambda>started.
     try_bind (field_or raw ''Scanning'' False (expect_bool ''Scanning'')) (\<lambda>scanning.
     try_bind (field_or raw ''Name'' None (parse_optional_access_point_string ''Name'')) (\<lambda>name.
     try_bind (field_or raw ''Frequency'' None parse_access_point_frequency) (\<lambda>freq.
     try_bind (field_or raw ''PairwiseCiphers'' [] parse_access_point_ciphers) (\<lambda>ciphers.
     try_bind (field_or raw ''GroupCipher'' None (parse_optional_access_point_string ''GroupCipher'')) (\<lambda>group.
     Inr \<lparr>xp_started = started, xp_scanning = scanning, xp_name = name, xp_frequency = freq,
          xp_pairwise_ciphers = ciphers, xp_group_cipher = group\<rparr>))))))"

definition iwd_access_point_get_properties ::
    "('act, 'w) iwd_access_point \<Rightarrow> (gerror, 'w, access_point_properties) go" where
  "iwd_access_point_get_properties = get_all_properties access_point_iwd decode_access_point_properties"

definition iwd_access_point_start :: "string \<Rightarrow> string \<Rightarrow> ('act, 'w) iwd_access_point \<Rightarrow> (gerror, 'w, unit) go" where
  "iwd_access_point_start ssid psk = call_ignoring_reply access_point_iwd ''Start'' [VStr ssid, VStr psk]"

definition iwd_access_point_start_profile :: "string \<Rightarrow> ('act, 'w) iwd_access_point \<Rightarrow> (gerror, 'w, unit) go" where
  "iwd_access_point_start_profile ssid = call_ignoring_reply access_point_iwd ''StartProfile'' [VStr ssid]"

definition iwd_access_point_stop :: "('act, 'w) iwd_access_point \<Rightarrow> (gerror, 'w, unit) go" where
  "iwd_access_point_stop = call_ignoring_reply access_point_iwd ''Stop'' []"

definition iwd_access_point_scan :: "('act, 'w) iwd_access_point \<Rightarrow> (gerror, 'w, unit) go" where
  "iwd_access_point_scan = call_ignoring_reply access_point_iwd ''Scan'' []"

text \<open>The networks heard by a scan. A type that iwd does not classify does not fail the listing.\<close>

record ap_ordered_network =
  xn_name :: string
  xn_signal_strength :: int
  xn_type :: network_type

definition expect_int16 :: "string \<Rightarrow> dval \<Rightarrow> gerror + int" where
  "expect_int16 field v = (case v of VInt16 i \<Rightarrow> Inr i | _ \<Rightarrow> Inl (expected field ''int16'' v))"

definition classified_type :: "dval \<Rightarrow> gerror + network_type" where
  "classified_type v =
     try_bind (expect_string ''Type'' v) (\<lambda>s.
     Inr (case parse_network_type (VStr s) of Inr t \<Rightarrow> t | Inl _ \<Rightarrow> NetworkTypeUnknown))"

definition parse_access_point_ordered_network :: "properties \<Rightarrow> gerror + ap_ordered_network" where
  "parse_access_point_ordered_network m =
     try_bind (field_or m ''Name'' '''' (expect_string ''Name'')) (\<lambda>name.
     try_bind (field_or m ''SignalStrength'' 0 (expect_int16 ''SignalStrength'')) (\<lambda>signal.
     try_bind (field_or m ''Type'' NetworkTypeUnknown classified_type) (\<lambda>t.
     Inr \<lparr>xn_name = name, xn_signal_strength = signal, xn_type = t\<rparr>)))"

definition iwd_access_point_get_ordered_networks ::
    "godbus \<Rightarrow> ('act, 'w) iwd_access_point \<Rightarrow> (gerror, 'w, ap_ordered_network list) go" where
  "iwd_access_point_get_ordered_networks g s =
     go_bind (call_method access_point_iwd ''GetOrderedNetworks'' [] s) (\<lambda>body.
     go_bind (go_lift (case store_dicts g body of
         Inl r \<Rightarrow> Inl (wrap_variant ''GetOrderedNetworks'' (Errorf ''unexpected reply shape: %w'' [] [Foreign r]))
       | Inr entries \<Rightarrow> Inr entries)) (\<lambda>entries.
     go_lift (collect parse_access_point_ordered_network entries)))"

definition iwd_access_point_subscribe_properties_changed ::
    "(properties_changed \<Rightarrow> 'act list) option \<Rightarrow> ('act, 'w) iwd_access_point
      \<Rightarrow> (gerror, ('act, 'w) subs_state, subscription) go" where
  "iwd_access_point_subscribe_properties_changed = subscribe_all access_point_iwd"

definition iwd_access_point_subscribe_started_changed ::
    "(bool \<Rightarrow> 'act list) option \<Rightarrow> ('act, 'w) iwd_access_point
      \<Rightarrow> (gerror, ('act, 'w) subs_state, subscription) go" where
  "iwd_access_point_subscribe_started_changed =
     subscribe_field access_point_iwd ''SubscribeStartedChanged'' (on_required_property ''Started'' (expect_bool ''Started''))"

definition iwd_access_point_subscribe_scanning_changed ::
    "(bool \<Rightarrow> 'act list) option \<Rightarrow> ('act, 'w) iwd_access_point
      \<Rightarrow> (gerror, ('act, 'w) subs_state, subscription) go" where
  "iwd_access_point_subscribe_scanning_changed =
     subscribe_field access_point_iwd ''SubscribeScanningChanged'' (on_required_property ''Scanning'' (expect_bool ''Scanning''))"

definition iwd_access_point_firehose ::
    "(firehose_signal \<Rightarrow> 'act list) option \<Rightarrow> ('act, 'w) iwd_access_point
      \<Rightarrow> (gerror, ('act, 'w) subs_state, unit) go" where
  "iwd_access_point_firehose = typed_firehose"

lemmas iwd_access_point_read_defs =
  iwd_access_point_get_started_def iwd_access_point_get_scanning_def iwd_access_point_get_name_def
  iwd_access_point_get_frequency_def iwd_access_point_get_pairwise_ciphers_def iwd_access_point_get_group_cipher_def
  iwd_access_point_get_properties_def

subsection \<open>The core layer\<close>

record ('act, 'w) access_point_raw =
  xr_get_started :: "(gerror, 'w, bool) go"
  xr_get_scanning :: "(gerror, 'w, bool) go"
  xr_get_name :: "(gerror, 'w, string option) go"
  xr_get_frequency :: "(gerror, 'w, int option) go"
  xr_get_pairwise_ciphers :: "(gerror, 'w, string list) go"
  xr_get_group_cipher :: "(gerror, 'w, string option) go"
  xr_get_properties :: "(gerror, 'w, access_point_properties) go"
  xr_start :: "string \<Rightarrow> string \<Rightarrow> (gerror, 'w, unit) go"
  xr_start_profile :: "string \<Rightarrow> (gerror, 'w, unit) go"
  xr_stop :: "(gerror, 'w, unit) go"
  xr_scan :: "(gerror, 'w, unit) go"
  xr_get_ordered_networks :: "(gerror, 'w, ap_ordered_network list) go"
  xr_subscribe_properties_changed ::
    "(properties_changed \<Rightarrow> 'act list) option \<Rightarrow> (gerror, ('act, 'w) subs_state, subscription) go"
  xr_subscribe_started_changed ::
    "(bool \<Rightarrow> 'act list) option \<Rightarrow> (gerror, ('act, 'w) subs_state, subscription) go"
  xr_subscribe_scanning_changed ::
    "(bool \<Rightarrow> 'act list) option \<Rightarrow> (gerror, ('act, 'w) subs_state, subscription) go"

definition iwd_access_point_raw :: "godbus \<Rightarrow> ('act, 'w) iwd_access_point \<Rightarrow> ('act, 'w) access_point_raw" where
  "iwd_access_point_raw g x =
     \<lparr>xr_get_started = iwd_access_point_get_started x,
      xr_get_scanning = iwd_access_point_get_scanning x,
      xr_get_name = iwd_access_point_get_name x,
      xr_get_frequency = iwd_access_point_get_frequency x,
      xr_get_pairwise_ciphers = iwd_access_point_get_pairwise_ciphers x,
      xr_get_group_cipher = iwd_access_point_get_group_cipher x,
      xr_get_properties = iwd_access_point_get_properties x,
      xr_start = (\<lambda>a b. iwd_access_point_start a b x),
      xr_start_profile = (\<lambda>a. iwd_access_point_start_profile a x),
      xr_stop = iwd_access_point_stop x,
      xr_scan = iwd_access_point_scan x,
      xr_get_ordered_networks = iwd_access_point_get_ordered_networks g x,
      xr_subscribe_properties_changed = (\<lambda>a. iwd_access_point_subscribe_properties_changed a x),
      xr_subscribe_started_changed = (\<lambda>a. iwd_access_point_subscribe_started_changed a x),
      xr_subscribe_scanning_changed = (\<lambda>a. iwd_access_point_subscribe_scanning_changed a x)\<rparr>"

type_synonym ('act, 'w) core_access_point = "('act, 'w) access_point_raw facade"

definition access_point_core :: core_type where
  "access_point_core =
     \<lparr>ct_resource = ResourceAccessPoint, ct_sentinel = AccessPointWrapper, ct_label = ''access point'',
      ct_name = ''AccessPoint'', ct_wrap = wrap_access_point_unavailable\<rparr>"

definition new_core_access_point :: "('act, 'w) access_point_raw option \<Rightarrow> ('act, 'w) core_access_point option" where
  "new_core_access_point = new_facade"

definition core_access_point_started :: "('act, 'w) core_access_point option \<Rightarrow> (gerror, 'w, bool) go" where
  "core_access_point_started =
     core_do access_point_core ''AccessPoint.Started'' ''failed querying iwd AccessPoint Started'' xr_get_started"

definition core_access_point_scanning :: "('act, 'w) core_access_point option \<Rightarrow> (gerror, 'w, bool) go" where
  "core_access_point_scanning =
     core_do access_point_core ''AccessPoint.Scanning'' ''failed querying iwd AccessPoint Scanning'' xr_get_scanning"

definition core_access_point_name :: "('act, 'w) core_access_point option \<Rightarrow> (gerror, 'w, string option) go" where
  "core_access_point_name =
     core_do access_point_core ''AccessPoint.Name'' ''failed querying iwd AccessPoint Name'' xr_get_name"

definition core_access_point_frequency :: "('act, 'w) core_access_point option \<Rightarrow> (gerror, 'w, int option) go" where
  "core_access_point_frequency =
     core_do access_point_core ''AccessPoint.Frequency'' ''failed querying iwd AccessPoint Frequency'' xr_get_frequency"

definition core_access_point_pairwise_ciphers :: "('act, 'w) core_access_point option \<Rightarrow> (gerror, 'w, string list) go" where
  "core_access_point_pairwise_ciphers =
     core_do access_point_core ''AccessPoint.PairwiseCiphers'' ''failed querying iwd AccessPoint PairwiseCiphers'' xr_get_pairwise_ciphers"

definition core_access_point_group_cipher :: "('act, 'w) core_access_point option \<Rightarrow> (gerror, 'w, string option) go" where
  "core_access_point_group_cipher =
     core_do access_point_core ''AccessPoint.GroupCipher'' ''failed querying iwd AccessPoint GroupCipher'' xr_get_group_cipher"

definition core_access_point_properties :: "('act, 'w) core_access_point option \<Rightarrow> (gerror, 'w, access_point_properties) go" where
  "core_access_point_properties =
     core_do access_point_core ''AccessPoint.Properties'' ''failed querying iwd AccessPoint properties'' xr_get_properties"

definition validate_access_point_ssid :: "string \<Rightarrow> string \<Rightarrow> gerror + unit" where
  "validate_access_point_ssid op ssid =
     (let l = length ssid in
      if l = 0 \<or> l > 32
      then Inl (wrap_invalid_argument ResourceAccessPoint op
                  (sprintf ''SSID must be 1-32 bytes, got %d'' [decimal (int l)]) (Sentinel ErrCore))
      else Inr ())"

definition check_passphrase :: "string \<Rightarrow> string \<Rightarrow> gerror + unit" where
  "check_passphrase op psk =
     (let l = length psk in
      if l < 8 \<or> l > 63
      then Inl (wrap_invalid_argument ResourceAccessPoint op
                  (sprintf ''passphrase must be 8-63 characters, got %d'' [decimal (int l)]) (Sentinel ErrCore))
      else Inr ())"

definition core_access_point_start ::
    "string \<Rightarrow> string \<Rightarrow> ('act, 'w) core_access_point option \<Rightarrow> (gerror, 'w, unit) go" where
  "core_access_point_start ssid psk =
     core_checked_do access_point_core ''AccessPoint.Start'' ''failed starting iwd AccessPoint''
       (try_bind (validate_access_point_ssid ''AccessPoint.Start'' ssid) (\<lambda>_. check_passphrase ''AccessPoint.Start'' psk))
       (\<lambda>r. xr_start r ssid psk)"

definition core_access_point_start_profile ::
    "string \<Rightarrow> ('act, 'w) core_access_point option \<Rightarrow> (gerror, 'w, unit) go" where
  "core_access_point_start_profile ssid =
     core_checked_do access_point_core ''AccessPoint.StartProfile'' ''failed starting iwd AccessPoint profile''
       (validate_access_point_ssid ''AccessPoint.StartProfile'' ssid) (\<lambda>r. xr_start_profile r ssid)"

definition core_access_point_stop :: "('act, 'w) core_access_point option \<Rightarrow> (gerror, 'w, unit) go" where
  "core_access_point_stop =
     core_do access_point_core ''AccessPoint.Stop'' ''failed stopping iwd AccessPoint'' xr_stop"

definition core_access_point_scan :: "('act, 'w) core_access_point option \<Rightarrow> (gerror, 'w, unit) go" where
  "core_access_point_scan =
     core_do access_point_core ''AccessPoint.Scan'' ''failed scheduling iwd AccessPoint scan'' xr_scan"

definition core_access_point_ordered_networks ::
    "('act, 'w) core_access_point option \<Rightarrow> (gerror, 'w, ap_ordered_network list) go" where
  "core_access_point_ordered_networks =
     core_do access_point_core ''AccessPoint.OrderedNetworks'' ''failed querying iwd AccessPoint ordered networks''
       xr_get_ordered_networks"

definition core_access_point_subscribe_properties_changed ::
    "(properties_changed \<Rightarrow> 'act list) option \<Rightarrow> ('act, 'w) core_access_point option
      \<Rightarrow> (gerror, ('act, 'w) subs_state, subscription) go" where
  "core_access_point_subscribe_properties_changed =
     core_subscribe_all access_point_core ''AccessPoint.SubscribePropertiesChanged'' xr_subscribe_properties_changed"

definition core_access_point_subscribe_started_changed ::
    "(bool \<Rightarrow> 'act list) option \<Rightarrow> ('act, 'w) core_access_point option
      \<Rightarrow> (gerror, ('act, 'w) subs_state, subscription) go" where
  "core_access_point_subscribe_started_changed =
     core_subscribe access_point_core ''AccessPoint.SubscribeStartedChanged'' xr_subscribe_started_changed"

definition core_access_point_subscribe_scanning_changed ::
    "(bool \<Rightarrow> 'act list) option \<Rightarrow> ('act, 'w) core_access_point option
      \<Rightarrow> (gerror, ('act, 'w) subs_state, subscription) go" where
  "core_access_point_subscribe_scanning_changed =
     core_subscribe access_point_core ''AccessPoint.SubscribeScanningChanged'' xr_subscribe_scanning_changed"

lemmas core_access_point_read_defs =
  core_access_point_started_def core_access_point_scanning_def core_access_point_name_def
  core_access_point_frequency_def core_access_point_pairwise_ciphers_def core_access_point_group_cipher_def
  core_access_point_properties_def

subsection \<open>Reads\<close>

lemma access_point_iwd_iface [simp]: "it_iface access_point_iwd = IwdAccessPointIface"
  by (simp add: access_point_iwd_def)

lemma access_point_properties_agree:
  fixes g :: godbus
  assumes rep: "reports c IwdAccessPointIface tab w" and live: "to_call a = Some c"
  defines "s \<equiv> new_core_access_point (Some (iwd_access_point_raw g a))"
  shows "core_access_point_properties s w = (Inr p, w) \<longleftrightarrow>
           core_access_point_started s w = (Inr (xp_started p), w)
         \<and> core_access_point_scanning s w = (Inr (xp_scanning p), w)
         \<and> core_access_point_name s w = (Inr (xp_name p), w)
         \<and> core_access_point_frequency s w = (Inr (xp_frequency p), w)
         \<and> core_access_point_pairwise_ciphers s w = (Inr (xp_pairwise_ciphers p), w)
         \<and> core_access_point_group_cipher s w = (Inr (xp_group_cipher p), w)"
proof -
  note reads = reads_report [of c access_point_iwd, simplified, OF rep live]
  show ?thesis
    unfolding s_def new_core_access_point_def core_access_point_read_defs core_iffs iwd_access_point_raw_def
    by (cases p) (auto simp: iwd_access_point_read_defs reads decode_access_point_properties_def try_bind_Inr_iff)
qed

subsection \<open>Arguments\<close>

lemma validate_access_point_ssid_iff:
  "validate_access_point_ssid op ssid = Inr () \<longleftrightarrow> 1 \<le> length ssid \<and> length ssid \<le> 32"
  by (cases ssid) (auto simp: validate_access_point_ssid_def Let_def)

lemma check_passphrase_iff: "check_passphrase op psk = Inr () \<longleftrightarrow> 8 \<le> length psk \<and> length psk \<le> 63"
  by (auto simp: check_passphrase_def Let_def)

end
