(* ===== verification/Wiring.thy ===== *)
theory Wiring
  imports Agents Daemon Bss Wsc Network Known_Network Device Adapter Access_Point
begin

text \<open>
  The composition root, \<open>internal/connect/wiring.go\<close>, \<open>bus.go\<close> and \<open>resolver.go\<close>: connecting to the bus,
  building core objects on iwd objects, and registering the two agents. The eight single-object
  constructors share one body. A nil \<open>*Wiring\<close>
  is \<open>None\<close>. \<open>connect\<close> stands for godbus's \<open>ConnectSystemBus\<close> or \<open>ConnectSessionBus\<close>. Exporting an
  object does not record its handler (\<open>conn_export\<close> has none); what the handlers do is in the theory on
  the agents. The nil results the code checks for (\<open>iwdX == nil\<close>) never come from the iwd constructors.
\<close>

record ('act, 'w) wiring =
  w_conn :: "'w conn option"
  w_daemon :: "'w core_daemon option"
  w_cleaned :: "(raw_err + unit) option"
  AdapterFactory :: "(string \<Rightarrow> (gerror, 'w, ('act, 'w) core_adapter option) go) option"
  DeviceFactory :: "(string \<Rightarrow> (gerror, 'w, ('act, 'w) core_device option) go) option"
  StationFactory :: "(string \<Rightarrow> (gerror, 'w, ('act, 'w) core_station option) go) option"
  BasicServiceSetFactory :: "(string \<Rightarrow> (gerror, 'w, 'w core_bss option) go) option"
  NetworkFactory :: "(string \<Rightarrow> (gerror, 'w, ('act, 'w) core_network option) go) option"
  KnownNetworkFactory :: "(string \<Rightarrow> (gerror, 'w, ('act, 'w) core_known_network option) go) option"
  AccessPointFactory :: "(string \<Rightarrow> (gerror, 'w, ('act, 'w) core_access_point option) go) option"
  SimpleConfigurationFactory :: "(string \<Rightarrow> (gerror, 'w, 'w core_wsc option) go) option"
  AgentFactory :: "('w credential_callbacks \<Rightarrow> (gerror, 'w, 'w core_agent) go) option"
  SignalLevelAgentFactory ::
    "(string \<Rightarrow> 'w signal_level_config \<Rightarrow> (gerror, 'w, 'w core_signal_level_agent) go) option"
  ResolverOverride :: "(gerror, 'w, managed_objects option) go option"

subsection \<open>Connecting\<close>

text \<open>The \<open>cleanup\<close> closure: the connection is closed once, later calls return the first result.\<close>

definition wiring_cleanup :: "(raw_err, ('act, 'w) wiring \<times> 'w, unit) go" where
  "wiring_cleanup = (\<lambda>(wr, w).
     case w_cleaned wr of
       Some r \<Rightarrow> (r, (wr, w))
     | None \<Rightarrow>
         (case w_conn wr of
            None \<Rightarrow> (Inr (), (wr, w))
          | Some c \<Rightarrow> (case conn_close c w of (r, w') \<Rightarrow> (r, (wr\<lparr>w_cleaned := Some r\<rparr>, w')))))"

definition new_conn ::
    "godbus \<Rightarrow> (raw_err, 'w, 'w conn) go \<Rightarrow> (gerror, 'w, ('act, 'w) wiring) go" where
  "new_conn g connect =
     (let op = ''Wiring.newConn'' in
      go_bind (go_wrap (\<lambda>r. wrap_daemon_unavailable op ''failed to connect to bus'' (Foreign r)) connect) (\<lambda>conn w.
      case iwd_new_daemon g conn w of
        (Inl err, w1) \<Rightarrow>
          (case conn_close conn w1 of
             (Inl err2, w2) \<Rightarrow>
               (Inl (Joined [err, wrap_daemon_unavailable op ''failed iwd daemon cleanup'' (Foreign err2)]), w2)
           | (Inr _, w2) \<Rightarrow> (Inl (wrap_daemon_unavailable op ''failed to get iwd daemon'' err), w2))
      | (Inr None, w1) \<Rightarrow>
          (case conn_close conn w1 of
             (Inl err, w2) \<Rightarrow>
               (Inl (Joined [Foreign err,
                  wrap_daemon_unavailable op ''failed iwd daemon cleanup'' (Foreign err)]), w2)
           | (Inr _, w2) \<Rightarrow>
               (Inl (wrap_daemon_unavailable op ''failed to get iwd daemon''
                  (Errorf ''iwd daemon interface not available'' [] [])), w2))
      | (Inr (Some iwd_daemon), w1) \<Rightarrow>
          (case new_core_daemon (Some (iwd_daemon_raw g iwd_daemon)) of
             None \<Rightarrow>
               (case conn_close conn w1 of
                  (Inl err, w2) \<Rightarrow>
                    (Inl (Joined [Foreign err, wrap_daemon_unavailable ''NewDaemon'' ''daemon unavailable''
                       (Errorf ''failed core daemon cleanup'' [] [])]), w2)
                | (Inr _, w2) \<Rightarrow>
                    (Inl (wrap_daemon_unavailable op ''daemon unavailable''
                       (Errorf ''core daemon interface not available'' [] [])), w2))
           | Some core_daemon \<Rightarrow>
               (Inr \<lparr>w_conn = Some conn, w_daemon = Some core_daemon, w_cleaned = None,
                     AdapterFactory = None, DeviceFactory = None, StationFactory = None,
                     BasicServiceSetFactory = None, NetworkFactory = None, KnownNetworkFactory = None,
                     AccessPointFactory = None, SimpleConfigurationFactory = None, AgentFactory = None,
                     SignalLevelAgentFactory = None, ResolverOverride = None\<rparr>, w1))))"

subsection \<open>Objects\<close>

text \<open>\<open>AddMatch\<close> on godbus's bus object.\<close>

definition bus_add_match :: "'w conn \<Rightarrow> string \<Rightarrow> (raw_err, 'w, unit) go" where
  "bus_add_match c rule =
     go_bind (conn_call c ''org.freedesktop.DBus'' ''/org/freedesktop/DBus''
                ''org.freedesktop.DBus.AddMatch'' [VStr rule]) (\<lambda>_. go_return ())"

text \<open>
  The body of the single-object constructors. \<open>label\<close> is the object's name in the messages, \<open>wrap\<close>
  core's wrapper for the resource, \<open>factory\<close> the override, \<open>new_iwd\<close> the iwd constructor and \<open>new_core\<close>
  the core one (a nil result of either being \<open>None\<close>).
\<close>

definition new_wired_object ::
    "string \<Rightarrow> string \<Rightarrow> resource \<Rightarrow> (string \<Rightarrow> string \<Rightarrow> gerror \<Rightarrow> gerror)
      \<Rightarrow> (('act, 'w) wiring \<Rightarrow> (string \<Rightarrow> (gerror, 'w, 'core option) go) option)
      \<Rightarrow> ('w conn \<Rightarrow> string \<Rightarrow> (gerror, 'w, 'iwd option) go) \<Rightarrow> ('iwd \<Rightarrow> 'core option)
      \<Rightarrow> ('act, 'w) wiring option \<Rightarrow> string \<Rightarrow> (gerror, 'w, 'core option) go" where
  "new_wired_object op label res wrap factory new_iwd new_core wr path =
     (case wr of
        None \<Rightarrow> go_fail (wrap_invalid_state ResourceClient op ''wiring cannot be nil'' (Sentinel ErrCore))
      | Some wr \<Rightarrow>
          if path = '''' then
            go_fail (wrap_invalid_argument res op (label @ '' path cannot be empty'') (Sentinel ErrCore))
          else if path ! 0 \<noteq> CHR ''/'' then
            go_fail (wrap_invalid_argument res op (label @ '' path must be absolute'') (Sentinel ErrCore))
          else
            (case factory wr of
               Some f \<Rightarrow> f path
             | None \<Rightarrow>
                 (case w_conn wr of
                    None \<Rightarrow> go_fail (wrap_invalid_state ResourceClient op ''D-Bus conn cannot be nil'' (Sentinel ErrCore))
                  | Some conn \<Rightarrow>
                      go_bind (go_wrap (wrap op (label @ '' unavailable'')) (new_iwd conn path)) (\<lambda>iwd.
                      case iwd of
                        None \<Rightarrow>
                          go_fail (wrap op (label @ '' unavailable'')
                            (wrap_introspection path (Errorf (''iwd '' @ label @ '' interface not available'') [] [])))
                      | Some i \<Rightarrow>
                          (case new_core i of
                             None \<Rightarrow> go_fail (wrap op (label @ '' unavailable'')
                                       (Errorf (''core '' @ label @ '' interface not available'') [] []))
                           | Some c \<Rightarrow> go_return (Some c))))))"

definition non_nil :: "(gerror, 'w, 'a) go \<Rightarrow> (gerror, 'w, 'a option) go" where
  "non_nil m = go_bind m (\<lambda>x. go_return (Some x))"

definition wiring_new_station ::
    "godbus \<Rightarrow> ('act, 'w) wiring option \<Rightarrow> string \<Rightarrow> (gerror, 'w, ('act, 'w) core_station option) go" where
  "wiring_new_station g =
     new_wired_object ''NewStation'' ''station'' ResourceStation wrap_station_unavailable StationFactory
       (\<lambda>conn path. non_nil (iwd_new_station g conn (Some (bus_add_match conn)) path))
       (\<lambda>s. new_core_station (Some (iwd_station_raw g s)))"

definition wiring_new_basic_service_set ::
    "godbus \<Rightarrow> ('act, 'w) wiring option \<Rightarrow> string \<Rightarrow> (gerror, 'w, 'w core_bss option) go" where
  "wiring_new_basic_service_set g =
     new_wired_object ''NewBasicServiceSet'' ''basic service set'' ResourceBasicServiceSet wrap_bss_unavailable
       BasicServiceSetFactory (\<lambda>conn path. non_nil (iwd_new_bss g conn path))
       (\<lambda>b. new_core_bss (Some (iwd_bss_raw b)))"

definition wiring_new_simple_configuration ::
    "godbus \<Rightarrow> ('act, 'w) wiring option \<Rightarrow> string \<Rightarrow> (gerror, 'w, 'w core_wsc option) go" where
  "wiring_new_simple_configuration g =
     new_wired_object ''NewSimpleConfiguration'' ''simple configuration'' ResourceSimpleConfiguration
       wrap_simple_configuration_unavailable SimpleConfigurationFactory
       (\<lambda>conn path. non_nil (iwd_new_wsc g conn path)) (\<lambda>s. new_core_wsc (Some (iwd_wsc_raw g s)))"

definition wiring_new_adapter ::
    "godbus \<Rightarrow> ('act, 'w) wiring option \<Rightarrow> string \<Rightarrow> (gerror, 'w, ('act, 'w) core_adapter option) go" where
  "wiring_new_adapter g =
     new_wired_object ''NewAdapter'' ''adapter'' ResourceAdapter wrap_adapter_unavailable AdapterFactory
       (\<lambda>conn path. non_nil (iwd_new_adapter g conn (Some (bus_add_match conn)) path))
       (\<lambda>x. new_core_adapter (Some (iwd_adapter_raw x)))"

definition wiring_new_device ::
    "godbus \<Rightarrow> ('act, 'w) wiring option \<Rightarrow> string \<Rightarrow> (gerror, 'w, ('act, 'w) core_device option) go" where
  "wiring_new_device g =
     new_wired_object ''NewDevice'' ''device'' ResourceDevice wrap_device_unavailable DeviceFactory
       (\<lambda>conn path. non_nil (iwd_new_device g conn (Some (bus_add_match conn)) path))
       (\<lambda>x. new_core_device (Some (iwd_device_raw g x)))"

definition wiring_new_access_point ::
    "godbus \<Rightarrow> ('act, 'w) wiring option \<Rightarrow> string \<Rightarrow> (gerror, 'w, ('act, 'w) core_access_point option) go" where
  "wiring_new_access_point g =
     new_wired_object ''NewAccessPoint'' ''access point'' ResourceAccessPoint wrap_access_point_unavailable AccessPointFactory
       (\<lambda>conn path. non_nil (iwd_new_access_point g conn (Some (bus_add_match conn)) path))
       (\<lambda>x. new_core_access_point (Some (iwd_access_point_raw g x)))"

definition wiring_new_network ::
    "godbus \<Rightarrow> ('act, 'w) wiring option \<Rightarrow> string \<Rightarrow> (gerror, 'w, ('act, 'w) core_network option) go" where
  "wiring_new_network g =
     new_wired_object ''NewNetwork'' ''network'' ResourceNetwork wrap_network_unavailable NetworkFactory
       (\<lambda>conn path. non_nil (iwd_new_network g conn (Some (bus_add_match conn)) path))
       (\<lambda>x. new_core_network (Some (iwd_network_raw g x)))"

definition wiring_new_known_network ::
    "godbus \<Rightarrow> ('act, 'w) wiring option \<Rightarrow> string \<Rightarrow> (gerror, 'w, ('act, 'w) core_known_network option) go" where
  "wiring_new_known_network g =
     new_wired_object ''NewKnownNetwork'' ''known network'' ResourceKnownNetwork wrap_known_network_unavailable KnownNetworkFactory
       (\<lambda>conn path. non_nil (iwd_new_known_network g conn (Some (bus_add_match conn)) path))
       (\<lambda>x. new_core_known_network (Some (iwd_known_network_raw x)))"

subsection \<open>Agents\<close>

definition agentObjectPath :: string where
  "agentObjectPath = ''/spiderw/agent''"

text \<open>\<open>if err != nil { _ = unexport(); return nil, wrap(err) }\<close>\<close>

definition or_unexport ::
    "(raw_err, 'w, unit) go \<Rightarrow> (gerror \<Rightarrow> gerror) \<Rightarrow> (gerror, 'w, 'a) go \<Rightarrow> (gerror, 'w, 'a) go" where
  "or_unexport unexp wrap m = (\<lambda>w.
     case m w of
       (Inl e, w') \<Rightarrow> (Inl (wrap e), snd (unexp w'))
     | (Inr x, w') \<Rightarrow> (Inr x, w'))"

definition wiring_new_agent ::
    "godbus \<Rightarrow> ('act, 'w) wiring option \<Rightarrow> 'w credential_callbacks \<Rightarrow> (gerror, 'w, 'w core_agent) go" where
  "wiring_new_agent g wr cc =
     (let op = ''NewAgent'' in
      case wr of
        None \<Rightarrow> go_fail (wrap_invalid_state ResourceClient op ''wiring cannot be nil'' (Sentinel ErrCore))
      | Some wr \<Rightarrow>
          (case AgentFactory wr of
             Some f \<Rightarrow> f cc
           | None \<Rightarrow>
               (case w_conn wr of
                  None \<Rightarrow> go_fail (wrap_invalid_state ResourceClient op ''D-Bus conn cannot be nil'' (Sentinel ErrCore))
                | Some conn \<Rightarrow>
                    go_bind (go_wrap (wrap_agent_unavailable op ''failed exporting agent object'')
                              (export_agent g (Some conn) agentObjectPath)) (\<lambda>unexp.
                    go_bind (or_unexport unexp (wrap_agent_unavailable op ''agent manager unavailable'')
                              (iwd_new_agent_manager g conn)) (\<lambda>manager.
                    go_bind (or_unexport unexp (wrap_agent_unavailable op ''failed registering agent'')
                              (iwd_register_agent manager agentObjectPath)) (\<lambda>_.
                    go_return (agent_bind (iwd_unregister_agent manager) agentObjectPath unexp
                                 (new_core_agent cc))))))))"

definition signalLevelAgentPathPrefix :: string where
  "signalLevelAgentPathPrefix = ''/spiderw/signalagent''"

definition signal_level_agent_object_path :: "string \<Rightarrow> string" where
  "signal_level_agent_object_path station_path = signalLevelAgentPathPrefix @ station_path"

definition wiring_new_signal_level_agent ::
    "godbus \<Rightarrow> ('act, 'w) wiring option \<Rightarrow> string \<Rightarrow> 'w signal_level_config
      \<Rightarrow> (gerror, 'w, 'w core_signal_level_agent) go" where
  "wiring_new_signal_level_agent g wr station_path cfg =
     (let op = ''NewSignalLevelAgent'' in
      case wr of
        None \<Rightarrow> go_fail (wrap_invalid_state ResourceClient op ''wiring cannot be nil'' (Sentinel ErrCore))
      | Some wr \<Rightarrow>
          (case SignalLevelAgentFactory wr of
             Some f \<Rightarrow> f station_path cfg
           | None \<Rightarrow>
               (case w_conn wr of
                  None \<Rightarrow> go_fail (wrap_invalid_state ResourceClient op ''D-Bus conn cannot be nil'' (Sentinel ErrCore))
                | Some conn \<Rightarrow>
                    if station_path = '''' \<or> station_path ! 0 \<noteq> CHR ''/'' then
                      go_fail (wrap_invalid_argument ResourceStation op ''station path must be absolute'' (Sentinel ErrCore))
                    else
                      go_bind (go_wrap (wrap_station_unavailable op ''station unavailable'')
                                (iwd_new_station g conn (Some (bus_add_match conn)) station_path))
                        (\<lambda>station :: ('act, 'w) iwd_station.
                      (let agent = new_core_signal_level_agent cfg;
                           agent_path = signal_level_agent_object_path station_path in
                       go_bind (go_wrap (wrap_station_unavailable op ''failed exporting signal level agent object'')
                                 (export_signal_level_agent g (Some conn) agent_path)) (\<lambda>unexp.
                       go_bind (or_unexport unexp (wrap_station_unavailable op ''failed registering signal level agent'')
                                 (iwd_station_register_signal_level_agent station agent_path (signal_levels agent))) (\<lambda>_.
                       go_return (sla_bind (iwd_station_unregister_signal_level_agent station) agent_path unexp agent))))))))"

subsection \<open>Friendly names (resolver.go)\<close>

text \<open>A \<open>Tree\<close> is the object tree; a \<open>Resolver\<close> is \<open>None\<close> when the wiring has no connection.\<close>

definition wiring_resolver ::
    "godbus \<Rightarrow> ('act, 'w) wiring option \<Rightarrow> (gerror, 'w, managed_objects option) go option" where
  "wiring_resolver g wr =
     (case wr of
        None \<Rightarrow> None
      | Some wr \<Rightarrow>
          (case ResolverOverride wr of
             Some r \<Rightarrow> Some r
           | None \<Rightarrow>
               (case w_conn wr of
                  None \<Rightarrow> None
                | Some c \<Rightarrow> Some (go_bind (fetch_object_tree g (Some c)) (\<lambda>t. go_return (Some t))))))"

definition tree_name :: "(managed_objects option \<Rightarrow> string \<Rightarrow> string option) \<Rightarrow> managed_objects option \<Rightarrow> string \<Rightarrow> string" where
  "tree_name look_up t path = (case look_up t path of None \<Rightarrow> '''' | Some s \<Rightarrow> s)"

definition tree_network_name :: "managed_objects option \<Rightarrow> string \<Rightarrow> string" where
  "tree_network_name = tree_name network_name"

definition tree_bss_address :: "managed_objects option \<Rightarrow> string \<Rightarrow> string" where
  "tree_bss_address = tree_name bss_address"

definition tree_device_name :: "managed_objects option \<Rightarrow> string \<Rightarrow> string" where
  "tree_device_name = tree_name device_name"

definition tree_adapter_name :: "managed_objects option \<Rightarrow> string \<Rightarrow> string" where
  "tree_adapter_name = tree_name adapter_name"

definition tree_known_network_name :: "managed_objects option \<Rightarrow> string \<Rightarrow> string" where
  "tree_known_network_name = tree_name known_network_name"

subsection \<open>What the constructors do\<close>

lemma or_unexport_Inr: "or_unexport u wrap m w = (Inr x, w') \<longleftrightarrow> m w = (Inr x, w')"
  by (auto simp: or_unexport_def split: prod.splits sum.splits)

lemma or_unexport_InlE:
  assumes "or_unexport u wrap m w = (Inl e, w')"
  obtains e0 w2 where "m w = (Inl e0, w2)" and "e = wrap e0" and "w' = snd (u w2)"
  using assms by (auto simp: or_unexport_def split: prod.splits sum.splits)

lemma go_bind_wrapped: "m w = (Inr x, w') \<Longrightarrow> go_bind (go_wrap wrap m) f w = f x w'"
  by (simp add: go_bind_def go_wrap_def)

lemma export_object_exports:
  assumes "path_ok g path" and "conn_export conn True path iface w = (Inr u, w1)"
  shows "export_object op invalid iface g (Some conn) path w = (Inr (conn_export conn False path iface), w1)"
  using assms by (simp add: export_object_def go_bind_def go_wrap_def)

text \<open>
  C29: Once the agent object is exported, \<open>NewAgent\<close> either returns an agent that is bound to the
  manager and to the call that removes the object, or it fails and the removal is the last thing it
  does on the bus.
\<close>

theorem new_agent_leaves_no_stray_export:
  assumes "AgentFactory wr = None" and "w_conn wr = Some conn" and "path_ok g agentObjectPath"
    and "conn_export conn True agentObjectPath IwdAgentIface w = (Inr u, w1)"
    and "wiring_new_agent g (Some wr) cc w = (r, w')"
  shows "(case r of
            Inl e \<Rightarrow> \<exists>w2. w' = snd (conn_export conn False agentObjectPath IwdAgentIface w2)
          | Inr a \<Rightarrow> registered a \<and> agent_path a = agentObjectPath
              \<and> unexport a = Some (conn_export conn False agentObjectPath IwdAgentIface)
              \<and> (\<exists>m. manager a = Some (iwd_unregister_agent m)))"
proof -
  let ?unexp = "conn_export conn False agentObjectPath IwdAgentIface"
  note ex = export_object_exports [OF assms(3,4)]
  have run: "go_bind (or_unexport ?unexp (wrap_agent_unavailable ''NewAgent'' ''agent manager unavailable'')
      (iwd_new_agent_manager g conn)) (\<lambda>manager.
    go_bind (or_unexport ?unexp (wrap_agent_unavailable ''NewAgent'' ''failed registering agent'')
      (iwd_register_agent manager agentObjectPath)) (\<lambda>_.
    go_return (agent_bind (iwd_unregister_agent manager) agentObjectPath ?unexp (new_core_agent cc)))) w1 = (r, w')"
    using assms(5)
    by (simp add: wiring_new_agent_def assms(1,2) export_agent_def go_bind_wrapped ex Let_def)
  show ?thesis
  proof (cases r)
    case (Inl e)
    with run show ?thesis
      by (auto elim!: go_bind_InlE or_unexport_InlE)
  next
    case (Inr a)
    with run show ?thesis
      by (auto simp: go_bind_Inr_iff or_unexport_Inr agent_bind_def)
  qed
qed

lemma new_station_method_ok:
  assumes "iwd_new_station g conn add path w0 = (Inr s, w1)"
    and "station_method s m args w = (Inr body, w')"
  shows "conn_call conn IwdService path (IwdStationIface @ ''.'' @ m) args w = (Inr body, w')"
proof -
  from assms(1) obtain c where c: "new_object g conn IwdStationIface path w0 = (Inr c, w1)"
    and s: "st_call s = Some c"
    by (auto simp: iwd_new_station_def go_bind_Inr_iff)
  from new_object_Inr [OF c] obtain i
    where "c = as_caller g i" "io_conn i = conn" "io_bus_name i = IwdService" "io_path i = path" .
  with s assms(2) show ?thesis
    by (simp add: station_method_def introspected_call_def go_wrap_Inr_iff)
qed

text \<open>
  A signal-level agent that \<open>NewSignalLevelAgent\<close> returns for a valid configuration is
  registered with iwd, on the station's own path, for exactly the configured thresholds and for the
  object path derived from the station's, and it holds the call that removes that object again.
\<close>

theorem signal_level_agent_registers_the_thresholds:
  fixes wr :: "('act, 'w) wiring"
  assumes "SignalLevelAgentFactory wr = None" and "w_conn wr = Some conn"
    and "validate_signal_level_config cfg op = Inr ()"
    and "wiring_new_signal_level_agent g (Some wr) station_path cfg w = (Inr a, w')"
  shows "\<exists>w2 body. conn_call conn IwdService station_path (IwdStationIface @ ''.RegisterSignalLevelAgent'')
             [VPath (''/spiderw/signalagent'' @ station_path), VLevels (Thresholds cfg)] w2 = (Inr body, w')
       \<and> sla_registered a
       \<and> sla_unexport a = Some (conn_export conn False (''/spiderw/signalagent'' @ station_path) IwdSignalLevelAgentIface)"
proof -
  let ?path = "''/spiderw/signalagent'' @ station_path"
  have levels: "signal_levels (new_core_signal_level_agent cfg) = Thresholds cfg"
    using assms(3) by (rule registered_levels)
  from assms(4) obtain s :: "('act, 'w) iwd_station" and unexp w1 w2 w3
    where s: "iwd_new_station g conn (Some (bus_add_match conn)) station_path w = (Inr s, w1)"
      and unexp: "export_signal_level_agent g (Some conn) ?path w1 = (Inr unexp, w2)"
      and reg: "iwd_station_register_signal_level_agent s ?path (Thresholds cfg) w2 = (Inr (), w3)"
      and a: "a = sla_bind (iwd_station_unregister_signal_level_agent s) ?path unexp (new_core_signal_level_agent cfg)"
      and w3: "w3 = w'"
    by (auto simp: wiring_new_signal_level_agent_def assms(1,2) Let_def levels go_bind_Inr_iff go_wrap_Inr_iff
        or_unexport_Inr signal_level_agent_object_path_def signalLevelAgentPathPrefix_def split: if_splits)
  from reg obtain body where "station_method s ''RegisterSignalLevelAgent'' [VPath ?path, VLevels (Thresholds cfg)] w2
      = (Inr body, w3)"
    by (auto simp: iwd_station_register_signal_level_agent_def go_bind_Inr_iff)
  from new_station_method_ok [OF s this] w3
  have "conn_call conn IwdService station_path (IwdStationIface @ ''.RegisterSignalLevelAgent'')
      [VPath ?path, VLevels (Thresholds cfg)] w2 = (Inr body, w')"
    by simp
  moreover have "unexp = conn_export conn False ?path IwdSignalLevelAgentIface"
    using unexp by (auto simp: export_signal_level_agent_def export_object_def go_bind_Inr_iff go_wrap_Inr_iff
        split: if_splits)
  ultimately show ?thesis by (auto simp: a sla_bind_def)
qed

lemma new_wired_object_refuses:
  assumes "path = [] \<or> hd path \<noteq> CHR ''/''"
  shows "refused pop (new_wired_object op label r wrap factory new_iwd new_core (Some wr) path) w"
  using assms by (cases path) (simp_all add: new_wired_object_def refused_invalid_argument)

text \<open>
  Building any of the eight objects for a path that is empty or relative fails with an
  invalid-argument error, whatever the wiring is made of, without touching the bus.
\<close>

theorem bad_object_path_never_reaches_the_bus:
  assumes "path = [] \<or> hd path \<noteq> CHR ''/''"
  shows "refused pop (wiring_new_adapter g (Some wr) path) w
       \<and> refused pop (wiring_new_device g (Some wr) path) w
       \<and> refused pop (wiring_new_station g (Some wr) path) w
       \<and> refused pop (wiring_new_access_point g (Some wr) path) w
       \<and> refused pop (wiring_new_basic_service_set g (Some wr) path) w
       \<and> refused pop (wiring_new_network g (Some wr) path) w
       \<and> refused pop (wiring_new_known_network g (Some wr) path) w
       \<and> refused pop (wiring_new_simple_configuration g (Some wr) path) w"
  unfolding wiring_new_adapter_def wiring_new_device_def wiring_new_station_def wiring_new_access_point_def
    wiring_new_basic_service_set_def wiring_new_network_def wiring_new_known_network_def
    wiring_new_simple_configuration_def
  by (intro conjI new_wired_object_refuses assms)

text \<open>
  An object that does not implement the station interface: building a station on it fails, the
  signal channel it had opened is removed again, and the error is of the internal category, not of
  the unavailable one.
\<close>

theorem absent_station_interface_is_internal:
  assumes "StationFactory wr = None" and "w_conn wr = Some conn" and "absolute path"
    and "conn_introspect conn IwdService path w = (Inr names, w1)" and "IwdStationIface \<notin> set names"
  shows "\<exists>e. wiring_new_station g (Some wr) path w = (Inl e, conn_remove_signal conn path (conn_signal conn path w1))
       \<and> errors_is (wrap_public_error pop e) ErrInternal \<and> \<not> errors_is (wrap_public_error pop e) ErrUnavailable"
proof -
  let ?absent = "Errorf ''object %s does not implement %s'' [path, IwdStationIface] []"
  have "new_object g conn IwdStationIface path w = (Inl ?absent, conn_remove_signal conn path (conn_signal conn path w1))"
    using assms(4,5)
    by (simp add: new_object_def new_introspected_object_def go_bind_def go_wrap_def introspected_has_interface_def
        introspected_close_def)
  then have "wiring_new_station g (Some wr) path w =
      (Inl (wrap_station_unavailable ''NewStation'' ''station unavailable'' ?absent),
       conn_remove_signal conn path (conn_signal conn path w1))"
    using assms(1-3)
    by (cases path) (simp_all add: wiring_new_station_def new_wired_object_def non_nil_def iwd_new_station_def
        go_bind_def go_wrap_def)
  then show ?thesis
    by (simp add: wpub.wrap_is public_adds_def wrap_station_unavailable_def errors_is_wrap_unavailable
        is_unavailable_dbus_error_def)
qed

text \<open>
  Connecting: a failure after the bus connection was made closes that connection, as the last
  thing it does; a success returns a wiring on the open connection, whose clean-up closes it exactly once
  however often it is called.
\<close>

theorem new_conn_owns_the_connection:
  fixes wr :: "('act, 'w) wiring"
  assumes "connect w = (Inr conn, w0)"
  shows "((new_conn g connect :: (gerror, 'w, ('act, 'w) wiring) go) w = (Inl e, w') \<longrightarrow>
            (\<exists>w2. w' = snd (conn_close conn w2)))
       \<and> ((new_conn g connect :: (gerror, 'w, ('act, 'w) wiring) go) w = (Inr wr, w') \<longrightarrow>
            w_conn wr = Some conn \<and> w_cleaned wr = None \<and> w_daemon wr \<noteq> None
            \<and> (\<exists>wr'. wiring_cleanup (wr, v) = (fst (conn_close conn v), (wr', snd (conn_close conn v)))
                 \<and> wiring_cleanup (wr', v') = (fst (conn_close conn v), (wr', v'))))"
proof -
  have start: "go_bind (go_wrap wrap connect) f w = f conn w0" for wrap :: "raw_err \<Rightarrow> gerror" and f
    using assms by (simp add: go_bind_def go_wrap_def)
  show ?thesis
    unfolding new_conn_def Let_def start
    by (auto simp: wiring_cleanup_def split: prod.splits sum.splits option.splits)
      (metis snd_conv)+
qed

subsection \<open>Instances\<close>

text \<open>A bus whose world tells whether an object is exported and the connection open.\<close>

definition flag_conn :: "string list \<Rightarrow> (raw_err + dval list) \<Rightarrow> (bool \<times> bool) conn" where
  "flag_conn names reply =
     \<lparr>conn_introspect = (\<lambda>_ _. go_return names),
      conn_call = (\<lambda>_ _ _ _. go_lift reply),
      conn_export = (\<lambda>on _ _ (_, open). (Inr (), (on, open))),
      conn_signal = (\<lambda>_ w. w), conn_remove_signal = (\<lambda>_ w. w),
      conn_close = (\<lambda>(on, _). (Inr (), (on, False)))\<rparr>"

definition flag_wiring :: "string list \<Rightarrow> (raw_err + dval list) \<Rightarrow> (nat, bool \<times> bool) wiring" where
  "flag_wiring names reply =
     \<lparr>w_conn = Some (flag_conn names reply), w_daemon = None, w_cleaned = None, AdapterFactory = None,
      DeviceFactory = None, StationFactory = None, BasicServiceSetFactory = None, NetworkFactory = None,
      KnownNetworkFactory = None, AccessPointFactory = None, SimpleConfigurationFactory = None, AgentFactory = None,
      SignalLevelAgentFactory = None, ResolverOverride = None\<rparr>"

lemma flag_wiring_simps [simp]:
  "w_conn (flag_wiring names reply) = Some (flag_conn names reply)"
  "StationFactory (flag_wiring names reply) = None"
  "AgentFactory (flag_wiring names reply) = None"
  "SignalLevelAgentFactory (flag_wiring names reply) = None"
  by (simp_all add: flag_wiring_def)

lemma flag_conn_simps [simp]:
  "conn_introspect (flag_conn names reply) i p = go_return names"
  "conn_export (flag_conn names reply) on p i w = (Inr (), (on, snd w))"
  "conn_call (flag_conn names reply) b p m args = go_lift reply"
  "conn_close (flag_conn names reply) w = (Inr (), (fst w, False))"
  "conn_signal (flag_conn names reply) p w = w"
  "conn_remove_signal (flag_conn names reply) p w = w"
  by (simp_all add: flag_conn_def split: prod.splits)

definition no_callbacks :: "(bool \<times> bool) credential_callbacks" where
  "no_callbacks = \<lparr>Passphrase = None, PrivateKeyPassphrase = None, UserNameAndPassword = None,
     UserPassword = None, OnCancel = None, OnRelease = None\<rparr>"

lemma agent_path_ok: "path_ok table_godbus agentObjectPath"
  by (simp add: agentObjectPath_def plain_def)

theorem new_agent_leaves_no_stray_export_witness:
  "case wiring_new_agent table_godbus (Some (flag_wiring [IwdAgentManagerIface] (Inl (OtherErr ''no'')))) no_callbacks
        (False, True) of
     (Inl e, w') \<Rightarrow> \<not> fst w' | (Inr a, w') \<Rightarrow> registered a"
proof -
  let ?wr = "flag_wiring [IwdAgentManagerIface] (Inl (OtherErr ''no''))"
  obtain r w' where run: "wiring_new_agent table_godbus (Some ?wr) no_callbacks (False, True) = (r, w')"
    by (metis prod.exhaust)
  have "conn_export (flag_conn [IwdAgentManagerIface] (Inl (OtherErr ''no''))) True agentObjectPath IwdAgentIface (False, True)
      = (Inr (), (True, True))" by simp
  note agent = new_agent_leaves_no_stray_export [OF _ _ agent_path_ok this run]
  show ?thesis
    using agent by (cases r) (auto simp: run)
qed

definition demo_levels :: "(bool \<times> bool) signal_level_config" where
  "demo_levels = \<lparr>Thresholds = [- 50, - 70], cfg_changed = Some (\<lambda>_ w. w), cfg_released = None\<rparr>"

lemma demo_levels_valid: "validate_signal_level_config demo_levels ''op'' = Inr ()"
  by (simp add: demo_levels_def validate_signal_level_config_def)

lemma demo_station:
  "\<exists>s. iwd_new_station table_godbus (flag_conn [IwdStationIface] (Inr [])) add ''/s'' w = (Inr (s :: (nat, bool \<times> bool) iwd_station), w)"
  by (simp add: iwd_new_station_def new_object_def new_introspected_object_def introspected_has_interface_def
      go_bind_def go_wrap_def)

lemma demo_agent_path: "path_ok table_godbus (signal_level_agent_object_path ''/s'')"
  by (simp add: signal_level_agent_object_path_def signalLevelAgentPathPrefix_def plain_def)

lemma demo_registers:
  assumes "iwd_new_station table_godbus (flag_conn [IwdStationIface] (Inr [])) add ''/s'' w
    = (Inr (s :: (nat, bool \<times> bool) iwd_station), w)"
  shows "iwd_station_register_signal_level_agent s p l w' = (Inr (), w')"
proof -
  from assms obtain c where c: "new_object table_godbus (flag_conn [IwdStationIface] (Inr [])) IwdStationIface ''/s'' w = (Inr c, w)"
    and s: "st_call s = Some c"
    by (auto simp: iwd_new_station_def go_bind_Inr_iff)
  from new_object_Inr [OF c] obtain i where "c = as_caller table_godbus i" "io_conn i = flag_conn [IwdStationIface] (Inr [])" .
  with s show ?thesis
    by (simp add: iwd_station_register_signal_level_agent_def station_method_def introspected_call_def go_bind_def go_wrap_def)
qed

lemma demo_new_signal_level_agent:
  "\<exists>a w'. wiring_new_signal_level_agent table_godbus (Some (flag_wiring [IwdStationIface] (Inr []))) ''/s'' demo_levels
     (False, True) = (Inr a, w')"
proof -
  let ?conn = "flag_conn [IwdStationIface] (Inr [])"
  obtain s :: "(nat, bool \<times> bool) iwd_station" where
    s: "iwd_new_station table_godbus ?conn (Some (bus_add_match ?conn)) ''/s'' (False, True) = (Inr s, (False, True))"
    using demo_station by blast
  have ex: "export_signal_level_agent table_godbus (Some ?conn) (signal_level_agent_object_path ''/s'') (False, True)
      = (Inr (conn_export ?conn False (signal_level_agent_object_path ''/s'') IwdSignalLevelAgentIface), (True, True))"
    unfolding export_signal_level_agent_def by (rule export_object_exports [OF demo_agent_path]) simp
  show ?thesis
    by (simp add: wiring_new_signal_level_agent_def Let_def go_bind_def go_wrap_def s ex
        or_unexport_def demo_registers [OF s]) blast
qed

theorem signal_level_agent_registers_the_thresholds_witness:
  "\<exists>a w'. wiring_new_signal_level_agent table_godbus (Some (flag_wiring [IwdStationIface] (Inr []))) ''/s'' demo_levels
     (False, True) = (Inr a, w') \<and> sla_registered a"
proof -
  obtain a w' where run: "wiring_new_signal_level_agent table_godbus (Some (flag_wiring [IwdStationIface] (Inr [])))
      ''/s'' demo_levels (False, True) = (Inr a, w')"
    using demo_new_signal_level_agent by blast
  from signal_level_agent_registers_the_thresholds [OF flag_wiring_simps(4,1) demo_levels_valid run] run
  show ?thesis by blast
qed

theorem bad_object_path_never_reaches_the_bus_witness:
  "refused ''op'' (wiring_new_network table_godbus (Some (flag_wiring [] (Inr []))) ''wlan0'') (False, True)"
proof -
  have "''wlan0'' = [] \<or> hd ''wlan0'' \<noteq> CHR ''/''" by simp
  note all = bad_object_path_never_reaches_the_bus [OF this, where g = table_godbus and w = "(False, True)"
      and wr = "flag_wiring [] (Inr [])" and pop = "''op''"]
  then show ?thesis by (elim conjE)
qed

theorem absent_station_interface_is_internal_witness:
  "\<exists>e. wiring_new_station table_godbus (Some (flag_wiring [] (Inr []))) ''/s'' (False, True) = (Inl e, (False, True))
     \<and> errors_is (wrap_public_error ''Client.Station'' e) ErrInternal"
proof -
  have "conn_introspect (flag_conn [] (Inr [])) IwdService ''/s'' (False, True) = (Inr [], (False, True))"
    and "absolute ''/s''" and "IwdStationIface \<notin> set []" by simp_all
  from absent_station_interface_is_internal [OF flag_wiring_simps(2,1) this(2,1,3)] show ?thesis
    by fastforce
qed

theorem new_conn_owns_the_connection_witness:
  "case (new_conn table_godbus (go_return (flag_conn [] (Inr []))) :: (gerror, bool \<times> bool, (nat, bool \<times> bool) wiring) go)
        (False, True) of
     (Inl e, w') \<Rightarrow> \<not> snd w' | (Inr wr, w') \<Rightarrow> w_daemon wr \<noteq> None"
proof -
  define r :: "(gerror + (nat, bool \<times> bool) wiring)" and w' where
    "r = fst (new_conn table_godbus (go_return (flag_conn [] (Inr []))) (False, True))"
    and "w' = snd ((new_conn table_godbus (go_return (flag_conn [] (Inr []))) :: (gerror, bool \<times> bool, (nat, bool \<times> bool) wiring) go) (False, True))"
  then have run: "(new_conn table_godbus (go_return (flag_conn [] (Inr [])))
      :: (gerror, bool \<times> bool, (nat, bool \<times> bool) wiring) go) (False, True) = (r, w')"
    by simp
  have conn: "go_return (flag_conn [] (Inr [])) (False, True) = (Inr (flag_conn [] (Inr [])), (False, True))" by simp
  note owns = new_conn_owns_the_connection [where connect = "go_return (flag_conn [] (Inr []))" and w = "(False, True)"
      and conn = "flag_conn [] (Inr [])" and ?w0.0 = "(False, True)" and g = table_godbus, OF conn]
  show ?thesis
  proof (cases r)
    case (Inl e)
    with run have failed: "(new_conn table_godbus (go_return (flag_conn [] (Inr [])))
      :: (gerror, bool \<times> bool, (nat, bool \<times> bool) wiring) go) (False, True) = (Inl e, w')" by simp
    from owns [THEN conjunct1, rule_format, OF failed] Inl run show ?thesis by auto
  next
    case (Inr wr)
    with run have ok: "(new_conn table_godbus (go_return (flag_conn [] (Inr [])))
      :: (gerror, bool \<times> bool, (nat, bool \<times> bool) wiring) go) (False, True) = (Inr wr, w')" by simp
    from owns [THEN conjunct2, rule_format, OF ok] Inr run show ?thesis by auto
  qed
qed

end
