(* ===== verification/Public.thy ===== *)
theory Public
  imports Wiring Complex_Main
begin

text \<open>
  What the public layer's objects share: \<open>call.go\<close>, \<open>resolve.go\<close> and the common shape of the structs
  of the package \<open>spiderw\<close>: the core facade, the object path, and for some the device's name or the
  resolver of friendly names. A nil pointer is \<open>None\<close>; a public object holds a core facade that is not
  nil, so it appears as \<open>Some c\<close> in the calls of core's operations.
\<close>

record 'core pub_object =
  po_core :: "'core option"
  po_path :: string

type_synonym 'w resolver = "(gerror, 'w, managed_objects option) go"

record ('core, 'w) resolved_object = "'core pub_object" +
  po_resolver :: "'w resolver option"

record 'core named_object = "'core pub_object" +
  po_name :: string

definition new_pub_object :: "'core option \<Rightarrow> string \<Rightarrow> 'core pub_object option" where
  "new_pub_object c path = (case c of None \<Rightarrow> None | Some c \<Rightarrow> Some \<lparr>po_core = Some c, po_path = path\<rparr>)"

definition pub_path :: "('core, 'z) pub_object_scheme option \<Rightarrow> string" where
  "pub_path s = (case s of None \<Rightarrow> '''' | Some x \<Rightarrow> po_path x)"

text \<open>The \<open>coreX\<close> methods: the facade, or an internal error for an uninitialised object.\<close>

definition pub_core :: "('core, 'z) pub_object_scheme option \<Rightarrow> string \<Rightarrow> (gerror, 'u, 'core) go" where
  "pub_core s op =
     (case s of
        None \<Rightarrow> go_fail (wrap_public_error op (Sentinel ErrInternal))
      | Some x \<Rightarrow>
          (case po_core x of
             None \<Rightarrow> go_fail (wrap_public_error op (Sentinel ErrInternal))
           | Some c \<Rightarrow> go_return c))"

subsection \<open>call.go\<close>

definition delegate ::
    "string \<Rightarrow> (string \<Rightarrow> (gerror, 'u, 'b) go) \<Rightarrow> ('b \<Rightarrow> (gerror, 'u, 't) go) \<Rightarrow> (gerror, 'u, 't) go" where
  "delegate op resolve fn =
     go_bind (resolve op) (\<lambda>backend. go_wrap (wrap_public_error op) (fn backend))"

definition do_op ::
    "string \<Rightarrow> (string \<Rightarrow> (gerror, 'u, 'b) go) \<Rightarrow> ('b \<Rightarrow> (gerror, 'u, unit) go) \<Rightarrow> (gerror, 'u, unit) go" where
  "do_op op resolve fn = delegate op resolve fn"

text \<open>An error literal \<open>&Error{...}\<close>; \<open>Op\<close> and \<open>Details\<close> are texts.\<close>

definition public_invalid :: "kind \<Rightarrow> resource \<Rightarrow> string \<Rightarrow> string \<Rightarrow> gerror" where
  "public_invalid k r op details = PublicError k r op details (Sentinel (sentinel_for_kind k))"

text \<open>The subscription methods: the callback is checked after the object.\<close>

definition pub_subscribe ::
    "string \<Rightarrow> resource \<Rightarrow> (('v \<Rightarrow> 'act list) option \<Rightarrow> 'core \<Rightarrow> (gerror, 'u, subscription) go)
      \<Rightarrow> ('v \<Rightarrow> 'act list) option \<Rightarrow> ('core, 'z) pub_object_scheme option \<Rightarrow> (gerror, 'u, subscription) go" where
  "pub_subscribe op r core_sub fn s =
     go_bind (pub_core s op) (\<lambda>c.
     case fn of
       None \<Rightarrow> go_fail (public_invalid KindInvalidArgument r op ''callback cannot be nil'')
     | Some f \<Rightarrow> go_wrap (wrap_public_error op) (core_sub (Some f) c))"

text \<open>
  The conversions from core's value sets to the public ones: the same string, checked; the refusal quotes
  \<open>String()\<close>, as \<open>%q\<close> does. A callback for
  such values drops those that do not convert.
\<close>

definition convert ::
    "(string \<Rightarrow> bool) \<Rightarrow> (string \<Rightarrow> string) \<Rightarrow> resource \<Rightarrow> string \<Rightarrow> string \<Rightarrow> string \<Rightarrow> gerror + string" where
  "convert valid to_string r op details v =
     (if \<not> valid v then Inl (public_invalid KindInvalidArgument r op (sprintf details [to_string v])) else Inr v)"

definition convert_network_type :: "network_type \<Rightarrow> gerror + network_type" where
  "convert_network_type =
     convert valid_network_type network_type_string ResourceNetwork ''Network.convertType'' ''invalid network type %q''"

definition convert_device_mode :: "mode \<Rightarrow> gerror + mode" where
  "convert_device_mode =
     convert valid_mode mode_string ResourceDevice ''Device.convertMode'' ''invalid mode %q''"

definition convert_supported_mode :: "mode \<Rightarrow> gerror + mode" where
  "convert_supported_mode =
     convert valid_mode mode_string ResourceAdapter ''Adapter.convertSupportedMode'' ''invalid mode %q''"

definition convert_supported_modes :: "mode list \<Rightarrow> gerror + mode list" where
  "convert_supported_modes ms = collect convert_supported_mode ms"

definition public_parse_mode :: "string \<Rightarrow> gerror + mode" where
  "public_parse_mode s =
     (case parse_mode s of
        (m, ok) \<Rightarrow>
          if \<not> ok then Inl (public_invalid KindInvalidArgument ResourceAdapter ''Adapter.ParseMode''
                              (sprintf ''invalid mode %q'' [s]))
          else Inr m)"

definition convert_station_state :: "station_state \<Rightarrow> gerror + station_state" where
  "convert_station_state =
     convert valid_station_state station_state_string ResourceStation ''Station.convertState'' ''invalid station state %q''"

definition on_converted :: "(string \<Rightarrow> gerror + string) \<Rightarrow> (string \<Rightarrow> 'act list) \<Rightarrow> string \<Rightarrow> 'act list" where
  "on_converted conv fn v = (case conv v of Inl _ \<Rightarrow> [] | Inr x \<Rightarrow> fn x)"

text \<open>A strength in dBm: the code divides by 100 in \<open>float64\<close>; the exact quotient stands for it.\<close>

definition dbm :: "int \<Rightarrow> rat" where
  "dbm s = rat_of_int s / 100"

subsection \<open>resolve.go\<close>

definition resolve_tree :: "'w resolver option \<Rightarrow> (gerror, 'w, managed_objects option) go" where
  "resolve_tree r = (case r of None \<Rightarrow> go_return None | Some m \<Rightarrow> m)"

definition ref_of :: "(managed_objects option \<Rightarrow> string \<Rightarrow> string) \<Rightarrow> managed_objects option \<Rightarrow> string \<Rightarrow> obj_ref" where
  "ref_of look_up tree path =
     \<lparr>ref_path = path, ref_name = (case tree of None \<Rightarrow> '''' | Some _ \<Rightarrow> look_up tree path)\<rparr>"

definition network_ref_of :: "managed_objects option \<Rightarrow> string \<Rightarrow> obj_ref" where
  "network_ref_of = ref_of tree_network_name"

definition bss_ref_of :: "managed_objects option \<Rightarrow> string \<Rightarrow> obj_ref" where
  "bss_ref_of = ref_of tree_bss_address"

definition device_ref_of :: "managed_objects option \<Rightarrow> string \<Rightarrow> obj_ref" where
  "device_ref_of = ref_of tree_device_name"

definition adapter_ref_of :: "managed_objects option \<Rightarrow> string \<Rightarrow> obj_ref" where
  "adapter_ref_of = ref_of tree_adapter_name"

subsection \<open>Objects that have a facade\<close>

lemma pub_core_simps [simp, go_simps]: "po_core x = Some c \<Longrightarrow> pub_core (Some x) op = go_return c"
  by (simp add: pub_core_def)

lemma delegate_Inr_iff:
  "po_core x = Some c \<Longrightarrow>
     delegate op (pub_core (Some x)) fn w = (Inr v, w') \<longleftrightarrow> fn c w = (Inr v, w')"
  by (simp add: delegate_def go_wrap_Inr_iff)

lemma delegate_Inl_iff:
  "po_core x = Some c \<Longrightarrow>
     delegate op (pub_core (Some x)) fn w = (Inl e, w') \<longleftrightarrow>
       (\<exists>e0. fn c w = (Inl e0, w') \<and> e = wrap_public_error op e0)"
  by (auto simp: delegate_def go_wrap_def split: prod.splits sum.splits)

lemma convert_Inr_iff [simp]: "convert valid ts r op d v = Inr u \<longleftrightarrow> u = v \<and> valid v"
  by (auto simp: convert_def)

lemma convert_supported_modes_Inr_iff:
  "convert_supported_modes ms = Inr ns \<longleftrightarrow> ns = ms \<and> list_all valid_mode ms"
  unfolding convert_supported_modes_def
  by (induction ms arbitrary: ns) (auto simp: try_bind_Inr_iff convert_supported_mode_def)

end
