(* ===== verification/Public_Objects.thy ===== *)
theory Public_Objects
  imports Public
begin

text \<open>
  The objects of the package \<open>spiderw\<close>, one file of the repository each: adapters, devices, networks,
  known networks, stations with their signal monitor and WSC handle, access points, basic service
  sets and the daemon. An operation delegates to core, converts what the value sets allow, and in
  \<open>Properties\<close> fills in the friendly names of the paths.
\<close>

definition object_resolver :: "('core, 'w, 'z) resolved_object_scheme option \<Rightarrow> 'w resolver option" where
  "object_resolver s = (case s of None \<Rightarrow> None | Some x \<Rightarrow> po_resolver x)"

subsection \<open>adapter.go\<close>

type_synonym ('act, 'w) public_adapter = "('act, 'w) core_adapter pub_object"

definition public_adapter_powered ::
    "('act, 'w) public_adapter option \<Rightarrow> (gerror, 'w, bool) go" where
  "public_adapter_powered s =
     delegate ''Adapter.Powered'' (pub_core s) (\<lambda>c. core_adapter_powered (Some c))"

definition public_adapter_set_powered ::
    "bool \<Rightarrow> ('act, 'w) public_adapter option \<Rightarrow> (gerror, 'w, unit) go" where
  "public_adapter_set_powered powered s =
     do_op ''Adapter.SetPowered'' (pub_core s) (\<lambda>c. core_adapter_set_powered powered (Some c))"

definition public_adapter_name ::
    "('act, 'w) public_adapter option \<Rightarrow> (gerror, 'w, string) go" where
  "public_adapter_name s =
     delegate ''Adapter.Name'' (pub_core s) (\<lambda>c. core_adapter_name (Some c))"

definition public_adapter_model ::
    "('act, 'w) public_adapter option \<Rightarrow> (gerror, 'w, string option) go" where
  "public_adapter_model s =
     delegate ''Adapter.Model'' (pub_core s) (\<lambda>c. core_adapter_model (Some c))"

definition public_adapter_vendor ::
    "('act, 'w) public_adapter option \<Rightarrow> (gerror, 'w, string option) go" where
  "public_adapter_vendor s =
     delegate ''Adapter.Vendor'' (pub_core s) (\<lambda>c. core_adapter_vendor (Some c))"

definition public_adapter_properties ::
    "('act, 'w) public_adapter option \<Rightarrow> (gerror, 'w, adapter_properties) go" where
  "public_adapter_properties s =
     delegate ''Adapter.Properties'' (pub_core s) (\<lambda>c. 
       go_bind (core_adapter_properties (Some c)) (\<lambda>cp.
       go_bind (go_lift (convert_supported_modes (ap_supported_modes cp))) (\<lambda>modes.
       go_return (cp\<lparr>ap_supported_modes := modes\<rparr>))))"

definition public_adapter_supported_modes ::
    "('act, 'w) public_adapter option \<Rightarrow> (gerror, 'w, mode list) go" where
  "public_adapter_supported_modes s =
     delegate ''Adapter.SupportedModes'' (pub_core s) (\<lambda>c. 
       go_bind (core_adapter_supported_modes (Some c)) (\<lambda>modes. go_lift (convert_supported_modes modes)))"

definition public_adapter_supports_mode ::
    "mode \<Rightarrow> ('act, 'w) public_adapter option \<Rightarrow> (gerror, 'w, bool) go" where
  "public_adapter_supports_mode m s =
     delegate ''Adapter.SupportsMode'' (pub_core s) (\<lambda>c. 
       go_bind (go_lift (convert_supported_mode m)) (\<lambda>m. core_adapter_supports_mode m (Some c)))"

definition public_adapter_supports_station ::
    "('act, 'w) public_adapter option \<Rightarrow> (gerror, 'w, bool) go" where
  "public_adapter_supports_station s =
     delegate ''Adapter.SupportsStation'' (pub_core s) (\<lambda>c. core_adapter_supports_station (Some c))"

definition public_adapter_supports_ap ::
    "('act, 'w) public_adapter option \<Rightarrow> (gerror, 'w, bool) go" where
  "public_adapter_supports_ap s =
     delegate ''Adapter.SupportsAP'' (pub_core s) (\<lambda>c. core_adapter_supports_ap (Some c))"

definition public_adapter_supports_ad_hoc ::
    "('act, 'w) public_adapter option \<Rightarrow> (gerror, 'w, bool) go" where
  "public_adapter_supports_ad_hoc s =
     delegate ''Adapter.SupportsAdHoc'' (pub_core s) (\<lambda>c. core_adapter_supports_ad_hoc (Some c))"

definition public_adapter_subscribe_properties_changed ::
    "(properties_changed \<Rightarrow> 'act list) option \<Rightarrow> ('act, 'w) public_adapter option
      \<Rightarrow> (gerror, ('act, 'w) subs_state, subscription) go" where
  "public_adapter_subscribe_properties_changed fn =
     pub_subscribe ''Adapter.SubscribePropertiesChanged'' ResourceAdapter (\<lambda>fn c. core_adapter_subscribe_properties_changed fn (Some c)) fn"

definition public_adapter_subscribe_powered_changed ::
    "(bool \<Rightarrow> 'act list) option \<Rightarrow> ('act, 'w) public_adapter option
      \<Rightarrow> (gerror, ('act, 'w) subs_state, subscription) go" where
  "public_adapter_subscribe_powered_changed fn =
     pub_subscribe ''Adapter.SubscribePoweredChanged'' ResourceAdapter (\<lambda>fn c. core_adapter_subscribe_powered_changed fn (Some c)) fn"

subsection \<open>device.go\<close>

type_synonym ('act, 'w) public_device = "(('act, 'w) core_device, 'w) resolved_object"

definition new_device :: "('act, 'w) core_device option \<Rightarrow> string \<Rightarrow> 'w resolver option \<Rightarrow> ('act, 'w) public_device option" where
  "new_device c path r =
     (case c of None \<Rightarrow> None | Some c \<Rightarrow> Some \<lparr>po_core = Some c, po_path = path, po_resolver = r\<rparr>)"

definition public_device_name ::
    "('act, 'w) public_device option \<Rightarrow> (gerror, 'w, string) go" where
  "public_device_name s =
     delegate ''Device.Name'' (pub_core s) (\<lambda>c. core_device_name (Some c))"

definition public_device_address ::
    "('act, 'w) public_device option \<Rightarrow> (gerror, 'w, string) go" where
  "public_device_address s =
     delegate ''Device.Address'' (pub_core s) (\<lambda>c. core_device_address (Some c))"

definition public_device_powered ::
    "('act, 'w) public_device option \<Rightarrow> (gerror, 'w, bool) go" where
  "public_device_powered s =
     delegate ''Device.Powered'' (pub_core s) (\<lambda>c. core_device_powered (Some c))"

definition public_device_set_powered ::
    "bool \<Rightarrow> ('act, 'w) public_device option \<Rightarrow> (gerror, 'w, unit) go" where
  "public_device_set_powered powered s =
     do_op ''Device.SetPowered'' (pub_core s) (\<lambda>c. core_device_set_powered powered (Some c))"

definition public_device_mode ::
    "('act, 'w) public_device option \<Rightarrow> (gerror, 'w, mode) go" where
  "public_device_mode s =
     delegate ''Device.Mode'' (pub_core s) (\<lambda>c. 
       go_bind (core_device_mode (Some c)) (\<lambda>m. go_lift (convert_device_mode m)))"

definition public_device_set_mode ::
    "mode \<Rightarrow> ('act, 'w) public_device option \<Rightarrow> (gerror, 'w, unit) go" where
  "public_device_set_mode m s =
     do_op ''Device.SetMode'' (pub_core s) (\<lambda>c. 
       go_bind (go_lift (convert_device_mode m)) (\<lambda>m. core_device_set_mode m (Some c)))"

definition public_device_adapter ::
    "('act, 'w) public_device option \<Rightarrow> (gerror, 'w, string) go" where
  "public_device_adapter s =
     delegate ''Device.Adapter'' (pub_core s) (\<lambda>c. core_device_adapter (Some c))"

record pub_device_properties =
  vq_name :: string
  vq_address :: string
  vq_powered :: bool
  vq_mode :: mode
  vq_adapter :: obj_ref

definition public_device_properties ::
    "('act, 'w) public_device option \<Rightarrow> (gerror, 'w, pub_device_properties) go" where
  "public_device_properties s =
     delegate ''Device.Properties'' (pub_core s) (\<lambda>c. 
       go_bind (core_device_properties (Some c)) (\<lambda>cp.
       go_bind (go_lift (convert_device_mode (vp_mode cp))) (\<lambda>m.
       go_bind (resolve_tree (object_resolver s)) (\<lambda>tree.
       go_return \<lparr>vq_name = vp_name cp, vq_address = vp_address cp, vq_powered = vp_powered cp, vq_mode = m,
         vq_adapter = adapter_ref_of tree (vp_adapter cp)\<rparr>))))"

definition public_device_subscribe_properties_changed ::
    "(properties_changed \<Rightarrow> 'act list) option \<Rightarrow> ('act, 'w) public_device option
      \<Rightarrow> (gerror, ('act, 'w) subs_state, subscription) go" where
  "public_device_subscribe_properties_changed fn =
     pub_subscribe ''Device.SubscribePropertiesChanged'' ResourceDevice (\<lambda>fn c. core_device_subscribe_properties_changed fn (Some c)) fn"

definition public_device_subscribe_powered_changed ::
    "(bool \<Rightarrow> 'act list) option \<Rightarrow> ('act, 'w) public_device option
      \<Rightarrow> (gerror, ('act, 'w) subs_state, subscription) go" where
  "public_device_subscribe_powered_changed fn =
     pub_subscribe ''Device.SubscribePoweredChanged'' ResourceDevice (\<lambda>fn c. core_device_subscribe_powered_changed fn (Some c)) fn"

definition public_device_subscribe_mode_changed ::
    "(mode \<Rightarrow> 'act list) option \<Rightarrow> ('act, 'w) public_device option
      \<Rightarrow> (gerror, ('act, 'w) subs_state, subscription) go" where
  "public_device_subscribe_mode_changed fn =
     pub_subscribe ''Device.SubscribeModeChanged'' ResourceDevice (\<lambda>fn c. core_device_subscribe_mode_changed fn (Some c)) (map_option (on_converted convert_device_mode) fn)"

subsection \<open>network.go\<close>

type_synonym ('act, 'w) public_network = "(('act, 'w) core_network, 'w) resolved_object"

definition new_network :: "('act, 'w) core_network option \<Rightarrow> string \<Rightarrow> 'w resolver option \<Rightarrow> ('act, 'w) public_network option" where
  "new_network c path r =
     (case c of None \<Rightarrow> None | Some c \<Rightarrow> Some \<lparr>po_core = Some c, po_path = path, po_resolver = r\<rparr>)"

definition public_network_name ::
    "('act, 'w) public_network option \<Rightarrow> (gerror, 'w, string) go" where
  "public_network_name s =
     delegate ''Network.Name'' (pub_core s) (\<lambda>c. core_network_name (Some c))"

definition public_network_connected ::
    "('act, 'w) public_network option \<Rightarrow> (gerror, 'w, bool) go" where
  "public_network_connected s =
     delegate ''Network.Connected'' (pub_core s) (\<lambda>c. core_network_connected (Some c))"

definition public_network_device ::
    "('act, 'w) public_network option \<Rightarrow> (gerror, 'w, string) go" where
  "public_network_device s =
     delegate ''Network.Device'' (pub_core s) (\<lambda>c. core_network_device (Some c))"

definition public_network_type ::
    "('act, 'w) public_network option \<Rightarrow> (gerror, 'w, network_type) go" where
  "public_network_type s =
     delegate ''Network.Type'' (pub_core s) (\<lambda>c. 
       go_bind (core_network_type (Some c)) (\<lambda>t. go_lift (convert_network_type t)))"

definition public_network_known_network ::
    "('act, 'w) public_network option \<Rightarrow> (gerror, 'w, string option) go" where
  "public_network_known_network s =
     delegate ''Network.KnownNetwork'' (pub_core s) (\<lambda>c. core_network_known_network (Some c))"

definition public_network_extended_service_set ::
    "('act, 'w) public_network option \<Rightarrow> (gerror, 'w, string list) go" where
  "public_network_extended_service_set s =
     delegate ''Network.ExtendedServiceSet'' (pub_core s) (\<lambda>c. core_network_extended_service_set (Some c))"

definition public_network_connect ::
    "('act, 'w) public_network option \<Rightarrow> (gerror, 'w, unit) go" where
  "public_network_connect s =
     do_op ''Network.Connect'' (pub_core s) (\<lambda>c. core_network_connect (Some c))"

record pub_network_properties =
  nq_name :: string
  nq_connected :: bool
  nq_device :: obj_ref
  nq_type :: network_type
  nq_known_network :: "string option"
  nq_ess :: "obj_ref list"

definition public_network_properties ::
    "('act, 'w) public_network option \<Rightarrow> (gerror, 'w, pub_network_properties) go" where
  "public_network_properties s =
     delegate ''Network.Properties'' (pub_core s) (\<lambda>c. 
       go_bind (core_network_properties (Some c)) (\<lambda>cp.
       go_bind (go_lift (convert_network_type (np_type cp))) (\<lambda>t.
       go_bind (resolve_tree (object_resolver s)) (\<lambda>tree.
       go_return \<lparr>nq_name = np_name cp, nq_connected = np_connected cp,
         nq_device = device_ref_of tree (np_device cp), nq_type = t,
         nq_known_network = np_known_network cp, nq_ess = map (bss_ref_of tree) (np_ess cp)\<rparr>))))"

definition public_network_subscribe_properties_changed ::
    "(properties_changed \<Rightarrow> 'act list) option \<Rightarrow> ('act, 'w) public_network option
      \<Rightarrow> (gerror, ('act, 'w) subs_state, subscription) go" where
  "public_network_subscribe_properties_changed fn =
     pub_subscribe ''Network.SubscribePropertiesChanged'' ResourceNetwork (\<lambda>fn c. core_network_subscribe_properties_changed fn (Some c)) fn"

definition public_network_subscribe_connected_changed ::
    "(bool \<Rightarrow> 'act list) option \<Rightarrow> ('act, 'w) public_network option
      \<Rightarrow> (gerror, ('act, 'w) subs_state, subscription) go" where
  "public_network_subscribe_connected_changed fn =
     pub_subscribe ''Network.SubscribeConnectedChanged'' ResourceNetwork (\<lambda>fn c. core_network_subscribe_connected_changed fn (Some c)) fn"

definition public_network_subscribe_known_network_changed ::
    "(string option \<Rightarrow> 'act list) option \<Rightarrow> ('act, 'w) public_network option
      \<Rightarrow> (gerror, ('act, 'w) subs_state, subscription) go" where
  "public_network_subscribe_known_network_changed fn =
     pub_subscribe ''Network.SubscribeKnownNetworkChanged'' ResourceNetwork (\<lambda>fn c. core_network_subscribe_known_network_changed fn (Some c)) fn"

definition public_network_subscribe_extended_service_set_changed ::
    "(string list \<Rightarrow> 'act list) option \<Rightarrow> ('act, 'w) public_network option
      \<Rightarrow> (gerror, ('act, 'w) subs_state, subscription) go" where
  "public_network_subscribe_extended_service_set_changed fn =
     pub_subscribe ''Network.SubscribeExtendedServiceSetChanged'' ResourceNetwork (\<lambda>fn c. core_network_subscribe_extended_service_set_changed fn (Some c)) fn"

subsection \<open>knownnetwork.go\<close>

type_synonym ('act, 'w) public_known_network = "('act, 'w) core_known_network pub_object"

definition public_known_network_name ::
    "('act, 'w) public_known_network option \<Rightarrow> (gerror, 'w, string) go" where
  "public_known_network_name s =
     delegate ''KnownNetwork.Name'' (pub_core s) (\<lambda>c. core_known_network_name (Some c))"

definition public_known_network_type ::
    "('act, 'w) public_known_network option \<Rightarrow> (gerror, 'w, network_type) go" where
  "public_known_network_type s =
     delegate ''KnownNetwork.Type'' (pub_core s) (\<lambda>c. 
       go_bind (core_known_network_type (Some c)) (\<lambda>t. go_lift (convert_network_type t)))"

definition public_known_network_hidden ::
    "('act, 'w) public_known_network option \<Rightarrow> (gerror, 'w, bool) go" where
  "public_known_network_hidden s =
     delegate ''KnownNetwork.Hidden'' (pub_core s) (\<lambda>c. core_known_network_hidden (Some c))"

definition public_known_network_last_connected_time ::
    "('act, 'w) public_known_network option \<Rightarrow> (gerror, 'w, string option) go" where
  "public_known_network_last_connected_time s =
     delegate ''KnownNetwork.LastConnectedTime'' (pub_core s) (\<lambda>c. core_known_network_last_connected_time (Some c))"

definition public_known_network_auto_connect ::
    "('act, 'w) public_known_network option \<Rightarrow> (gerror, 'w, bool) go" where
  "public_known_network_auto_connect s =
     delegate ''KnownNetwork.AutoConnect'' (pub_core s) (\<lambda>c. core_known_network_auto_connect (Some c))"

definition public_known_network_set_auto_connect ::
    "bool \<Rightarrow> ('act, 'w) public_known_network option \<Rightarrow> (gerror, 'w, unit) go" where
  "public_known_network_set_auto_connect auto s =
     do_op ''KnownNetwork.SetAutoConnect'' (pub_core s) (\<lambda>c. core_known_network_set_auto_connect auto (Some c))"

definition public_known_network_forget ::
    "('act, 'w) public_known_network option \<Rightarrow> (gerror, 'w, unit) go" where
  "public_known_network_forget s =
     do_op ''KnownNetwork.Forget'' (pub_core s) (\<lambda>c. core_known_network_forget (Some c))"

definition public_known_network_properties ::
    "('act, 'w) public_known_network option \<Rightarrow> (gerror, 'w, known_network_properties) go" where
  "public_known_network_properties s =
     delegate ''KnownNetwork.Properties'' (pub_core s) (\<lambda>c. 
       go_bind (core_known_network_properties (Some c)) (\<lambda>cp.
       go_bind (go_lift (convert_network_type (kp_type cp))) (\<lambda>t.
       go_return (cp\<lparr>kp_type := t\<rparr>))))"

definition public_known_network_subscribe_properties_changed ::
    "(properties_changed \<Rightarrow> 'act list) option \<Rightarrow> ('act, 'w) public_known_network option
      \<Rightarrow> (gerror, ('act, 'w) subs_state, subscription) go" where
  "public_known_network_subscribe_properties_changed fn =
     pub_subscribe ''KnownNetwork.SubscribePropertiesChanged'' ResourceKnownNetwork (\<lambda>fn c. core_known_network_subscribe_properties_changed fn (Some c)) fn"

definition public_known_network_subscribe_auto_connect_changed ::
    "(bool \<Rightarrow> 'act list) option \<Rightarrow> ('act, 'w) public_known_network option
      \<Rightarrow> (gerror, ('act, 'w) subs_state, subscription) go" where
  "public_known_network_subscribe_auto_connect_changed fn =
     pub_subscribe ''KnownNetwork.SubscribeAutoConnectChanged'' ResourceKnownNetwork (\<lambda>fn c. core_known_network_subscribe_auto_connect_changed fn (Some c)) fn"

definition public_known_network_subscribe_hidden_changed ::
    "(bool \<Rightarrow> 'act list) option \<Rightarrow> ('act, 'w) public_known_network option
      \<Rightarrow> (gerror, ('act, 'w) subs_state, subscription) go" where
  "public_known_network_subscribe_hidden_changed fn =
     pub_subscribe ''KnownNetwork.SubscribeHiddenChanged'' ResourceKnownNetwork (\<lambda>fn c. core_known_network_subscribe_hidden_changed fn (Some c)) fn"

definition public_known_network_subscribe_last_connected_time_changed ::
    "(string option \<Rightarrow> 'act list) option \<Rightarrow> ('act, 'w) public_known_network option
      \<Rightarrow> (gerror, ('act, 'w) subs_state, subscription) go" where
  "public_known_network_subscribe_last_connected_time_changed fn =
     pub_subscribe ''KnownNetwork.SubscribeLastConnectedTimeChanged'' ResourceKnownNetwork (\<lambda>fn c. core_known_network_subscribe_last_connected_time_changed fn (Some c)) fn"

subsection \<open>accesspoint.go\<close>

type_synonym ('act, 'w) public_access_point = "('act, 'w) core_access_point named_object"

definition new_access_point :: "('act, 'w) core_access_point option \<Rightarrow> string \<Rightarrow> string \<Rightarrow> ('act, 'w) public_access_point option" where
  "new_access_point c path name =
     (case c of None \<Rightarrow> None | Some c \<Rightarrow> Some \<lparr>po_core = Some c, po_path = path, po_name = name\<rparr>)"

definition public_access_point_name :: "('act, 'w) public_access_point option \<Rightarrow> string" where
  "public_access_point_name s = (case s of None \<Rightarrow> '''' | Some x \<Rightarrow> po_name x)"

definition public_access_point_started ::
    "('act, 'w) public_access_point option \<Rightarrow> (gerror, 'w, bool) go" where
  "public_access_point_started s =
     delegate ''AccessPoint.Started'' (pub_core s) (\<lambda>c. core_access_point_started (Some c))"

definition public_access_point_scanning ::
    "('act, 'w) public_access_point option \<Rightarrow> (gerror, 'w, bool) go" where
  "public_access_point_scanning s =
     delegate ''AccessPoint.Scanning'' (pub_core s) (\<lambda>c. core_access_point_scanning (Some c))"

definition public_access_point_ssid ::
    "('act, 'w) public_access_point option \<Rightarrow> (gerror, 'w, string option) go" where
  "public_access_point_ssid s =
     delegate ''AccessPoint.SSID'' (pub_core s) (\<lambda>c. core_access_point_name (Some c))"

definition public_access_point_frequency ::
    "('act, 'w) public_access_point option \<Rightarrow> (gerror, 'w, int option) go" where
  "public_access_point_frequency s =
     delegate ''AccessPoint.Frequency'' (pub_core s) (\<lambda>c. core_access_point_frequency (Some c))"

definition public_access_point_pairwise_ciphers ::
    "('act, 'w) public_access_point option \<Rightarrow> (gerror, 'w, string list) go" where
  "public_access_point_pairwise_ciphers s =
     delegate ''AccessPoint.PairwiseCiphers'' (pub_core s) (\<lambda>c. core_access_point_pairwise_ciphers (Some c))"

definition public_access_point_group_cipher ::
    "('act, 'w) public_access_point option \<Rightarrow> (gerror, 'w, string option) go" where
  "public_access_point_group_cipher s =
     delegate ''AccessPoint.GroupCipher'' (pub_core s) (\<lambda>c. core_access_point_group_cipher (Some c))"

text \<open>The public properties have core's fields, \<open>Name\<close> being called \<open>SSID\<close>.\<close>

definition public_access_point_properties ::
    "('act, 'w) public_access_point option \<Rightarrow> (gerror, 'w, access_point_properties) go" where
  "public_access_point_properties s =
     delegate ''AccessPoint.Properties'' (pub_core s) (\<lambda>c. core_access_point_properties (Some c))"

definition public_access_point_start ::
    "string \<Rightarrow> string \<Rightarrow> ('act, 'w) public_access_point option \<Rightarrow> (gerror, 'w, unit) go" where
  "public_access_point_start ssid psk s =
     do_op ''AccessPoint.Start'' (pub_core s) (\<lambda>c. core_access_point_start ssid psk (Some c))"

definition public_access_point_start_profile ::
    "string \<Rightarrow> ('act, 'w) public_access_point option \<Rightarrow> (gerror, 'w, unit) go" where
  "public_access_point_start_profile ssid s =
     do_op ''AccessPoint.StartProfile'' (pub_core s) (\<lambda>c. core_access_point_start_profile ssid (Some c))"

definition public_access_point_stop ::
    "('act, 'w) public_access_point option \<Rightarrow> (gerror, 'w, unit) go" where
  "public_access_point_stop s =
     do_op ''AccessPoint.Stop'' (pub_core s) (\<lambda>c. core_access_point_stop (Some c))"

definition public_access_point_scan ::
    "('act, 'w) public_access_point option \<Rightarrow> (gerror, 'w, unit) go" where
  "public_access_point_scan s =
     do_op ''AccessPoint.Scan'' (pub_core s) (\<lambda>c. core_access_point_scan (Some c))"

record public_ordered_network =
  xq_name :: string
  xq_signal_strength :: rat
  xq_type :: network_type

definition public_ordered_network_of :: "ap_ordered_network \<Rightarrow> public_ordered_network" where
  "public_ordered_network_of n =
     \<lparr>xq_name = xn_name n, xq_signal_strength = dbm (xn_signal_strength n),
      xq_type = (case convert_network_type (xn_type n) of Inl _ \<Rightarrow> NetworkTypeUnknown | Inr t \<Rightarrow> t)\<rparr>"

definition public_access_point_ordered_networks ::
    "('act, 'w) public_access_point option \<Rightarrow> (gerror, 'w, public_ordered_network list) go" where
  "public_access_point_ordered_networks s =
     delegate ''AccessPoint.OrderedNetworks'' (pub_core s) (\<lambda>c. 
       go_bind (core_access_point_ordered_networks (Some c)) (\<lambda>raw. go_return (map public_ordered_network_of raw)))"

definition public_access_point_subscribe_properties_changed ::
    "(properties_changed \<Rightarrow> 'act list) option \<Rightarrow> ('act, 'w) public_access_point option
      \<Rightarrow> (gerror, ('act, 'w) subs_state, subscription) go" where
  "public_access_point_subscribe_properties_changed fn =
     pub_subscribe ''AccessPoint.SubscribePropertiesChanged'' ResourceAccessPoint (\<lambda>fn c. core_access_point_subscribe_properties_changed fn (Some c)) fn"

definition public_access_point_subscribe_started_changed ::
    "(bool \<Rightarrow> 'act list) option \<Rightarrow> ('act, 'w) public_access_point option
      \<Rightarrow> (gerror, ('act, 'w) subs_state, subscription) go" where
  "public_access_point_subscribe_started_changed fn =
     pub_subscribe ''AccessPoint.SubscribeStartedChanged'' ResourceAccessPoint (\<lambda>fn c. core_access_point_subscribe_started_changed fn (Some c)) fn"

definition public_access_point_subscribe_scanning_changed ::
    "(bool \<Rightarrow> 'act list) option \<Rightarrow> ('act, 'w) public_access_point option
      \<Rightarrow> (gerror, ('act, 'w) subs_state, subscription) go" where
  "public_access_point_subscribe_scanning_changed fn =
     pub_subscribe ''AccessPoint.SubscribeScanningChanged'' ResourceAccessPoint (\<lambda>fn c. core_access_point_subscribe_scanning_changed fn (Some c)) fn"

subsection \<open>bss.go\<close>

type_synonym 'w public_bss = "'w core_bss pub_object"

definition public_bss_address ::
    "'w public_bss option \<Rightarrow> (gerror, 'w, string) go" where
  "public_bss_address s =
     delegate ''BasicServiceSet.Address'' (pub_core s) (\<lambda>c. core_bss_address (Some c))"

definition public_bss_properties ::
    "'w public_bss option \<Rightarrow> (gerror, 'w, bss_properties) go" where
  "public_bss_properties s =
     delegate ''BasicServiceSet.Properties'' (pub_core s) (\<lambda>c. core_bss_properties (Some c))"

subsection \<open>station.go\<close>

text \<open>The two hooks are the wiring's constructors of signal-level agents and WSC objects.\<close>

record ('act, 'w) public_station = "(('act, 'w) core_station, 'w) resolved_object" +
  st_name :: string
  registerSignalAgent ::
    "(string \<Rightarrow> 'w signal_level_config \<Rightarrow> (gerror, 'w, 'w core_signal_level_agent option) go) option"
  newSimpleConfig :: "(string \<Rightarrow> (gerror, 'w, 'w core_wsc option) go) option"

definition new_station :: "('act, 'w) core_station option \<Rightarrow> string \<Rightarrow> string \<Rightarrow> ('act, 'w) public_station option" where
  "new_station c path name =
     (case c of
        None \<Rightarrow> None
      | Some c \<Rightarrow> Some \<lparr>po_core = Some c, po_path = path, po_resolver = None, st_name = name,
          registerSignalAgent = None, newSimpleConfig = None\<rparr>)"

definition public_station_name :: "('act, 'w) public_station option \<Rightarrow> string" where
  "public_station_name s = (case s of None \<Rightarrow> '''' | Some x \<Rightarrow> st_name x)"

definition public_station_state ::
    "('act, 'w) public_station option \<Rightarrow> (gerror, 'w, station_state) go" where
  "public_station_state s =
     delegate ''Station.State'' (pub_core s) (\<lambda>c. 
       go_bind (core_station_state (Some c)) (\<lambda>t. go_lift (convert_station_state t)))"

definition public_station_scanning ::
    "('act, 'w) public_station option \<Rightarrow> (gerror, 'w, bool) go" where
  "public_station_scanning s =
     delegate ''Station.Scanning'' (pub_core s) (\<lambda>c. core_station_scanning (Some c))"

definition public_station_connected_network ::
    "('act, 'w) public_station option \<Rightarrow> (gerror, 'w, string option) go" where
  "public_station_connected_network s =
     delegate ''Station.ConnectedNetwork'' (pub_core s) (\<lambda>c. core_station_connected_network (Some c))"

definition public_station_connected_access_point ::
    "('act, 'w) public_station option \<Rightarrow> (gerror, 'w, string option) go" where
  "public_station_connected_access_point s =
     delegate ''Station.ConnectedAccessPoint'' (pub_core s) (\<lambda>c. core_station_connected_access_point (Some c))"

definition public_station_affinities ::
    "('act, 'w) public_station option \<Rightarrow> (gerror, 'w, string list option) go" where
  "public_station_affinities s =
     delegate ''Station.Affinities'' (pub_core s) (\<lambda>c. core_station_affinities (Some c))"

text \<open>An empty list of affinities stands for a nil one.\<close>

record pub_station_properties =
  sq_state :: station_state
  sq_scanning :: bool
  sq_connected_network :: "obj_ref option"
  sq_connected_access_point :: "obj_ref option"
  sq_affinities :: "obj_ref list"

definition public_station_properties ::
    "('act, 'w) public_station option \<Rightarrow> (gerror, 'w, pub_station_properties) go" where
  "public_station_properties s =
     delegate ''Station.Properties'' (pub_core s) (\<lambda>c. 
       go_bind (core_station_properties (Some c)) (\<lambda>cp.
       go_bind (go_lift (convert_station_state (State cp))) (\<lambda>state.
       go_bind (resolve_tree (object_resolver s)) (\<lambda>tree.
       go_return \<lparr>sq_state = state, sq_scanning = Scanning cp,
         sq_connected_network = map_option (network_ref_of tree) (ConnectedNetwork cp),
         sq_connected_access_point = map_option (bss_ref_of tree) (ConnectedAccessPoint cp),
         sq_affinities = (case Affinities cp of None \<Rightarrow> [] | Some ps \<Rightarrow> map (bss_ref_of tree) ps)\<rparr>))))"

definition public_station_scan ::
    "('act, 'w) public_station option \<Rightarrow> (gerror, 'w, unit) go" where
  "public_station_scan s =
     do_op ''Station.Scan'' (pub_core s) (\<lambda>c. core_station_scan (Some c))"

definition public_station_ordered_networks ::
    "('act, 'w) public_station option \<Rightarrow> (gerror, 'w, (obj_ref \<times> rat) list) go" where
  "public_station_ordered_networks s =
     delegate ''Station.OrderedNetworks'' (pub_core s) (\<lambda>c. 
       go_bind (core_station_ordered_networks (Some c)) (\<lambda>raw.
       go_bind (resolve_tree (object_resolver s)) (\<lambda>tree.
       go_return (map (\<lambda>(p, strength). (network_ref_of tree p, dbm strength)) raw))))"

definition public_station_set_affinities ::
    "string list \<Rightarrow> ('act, 'w) public_station option \<Rightarrow> (gerror, 'w, unit) go" where
  "public_station_set_affinities paths s =
     do_op ''Station.SetAffinities'' (pub_core s) (\<lambda>c. core_station_set_affinities (Some c) paths)"

definition public_station_disconnect ::
    "('act, 'w) public_station option \<Rightarrow> (gerror, 'w, unit) go" where
  "public_station_disconnect s =
     do_op ''Station.Disconnect'' (pub_core s) (\<lambda>c. core_station_disconnect (Some c))"

definition public_station_connect_hidden_network ::
    "string \<Rightarrow> ('act, 'w) public_station option \<Rightarrow> (gerror, 'w, unit) go" where
  "public_station_connect_hidden_network name s =
     do_op ''Station.ConnectHiddenNetwork'' (pub_core s) (\<lambda>c. core_station_connect_hidden_network (Some c) name)"

record public_hidden_access_point =
  hq_address :: string
  hq_strength :: rat
  hq_type :: network_type

definition public_hidden_access_point_of :: "hidden_access_point \<Rightarrow> gerror + public_hidden_access_point" where
  "public_hidden_access_point_of ap =
     try_bind (convert_network_type (hap_type ap)) (\<lambda>t.
     Inr \<lparr>hq_address = hap_address ap, hq_strength = dbm (hap_strength ap), hq_type = t\<rparr>)"

definition public_station_hidden_access_points ::
    "('act, 'w) public_station option \<Rightarrow> (gerror, 'w, public_hidden_access_point list) go" where
  "public_station_hidden_access_points s =
     delegate ''Station.HiddenAccessPoints'' (pub_core s) (\<lambda>c. 
       go_bind (core_station_hidden_access_points (Some c)) (\<lambda>raw. go_lift (collect public_hidden_access_point_of raw)))"

definition public_station_subscribe_properties_changed ::
    "(properties_changed \<Rightarrow> 'act list) option \<Rightarrow> ('act, 'w) public_station option
      \<Rightarrow> (gerror, ('act, 'w) subs_state, subscription) go" where
  "public_station_subscribe_properties_changed fn =
     pub_subscribe ''Station.SubscribePropertiesChanged'' ResourceStation (\<lambda>fn c. core_station_subscribe_properties_changed (Some c) fn) fn"

definition public_station_subscribe_state_changed ::
    "(station_state \<Rightarrow> 'act list) option \<Rightarrow> ('act, 'w) public_station option
      \<Rightarrow> (gerror, ('act, 'w) subs_state, subscription) go" where
  "public_station_subscribe_state_changed fn =
     pub_subscribe ''Station.SubscribeStateChanged'' ResourceStation (\<lambda>fn c. core_station_subscribe_state_changed (Some c) fn) (map_option (on_converted convert_station_state) fn)"

definition public_station_subscribe_scanning_changed ::
    "(bool \<Rightarrow> 'act list) option \<Rightarrow> ('act, 'w) public_station option
      \<Rightarrow> (gerror, ('act, 'w) subs_state, subscription) go" where
  "public_station_subscribe_scanning_changed fn =
     pub_subscribe ''Station.SubscribeScanningChanged'' ResourceStation (\<lambda>fn c. core_station_subscribe_scanning_changed (Some c) fn) fn"

definition public_station_subscribe_connected_network_changed ::
    "(string option \<Rightarrow> 'act list) option \<Rightarrow> ('act, 'w) public_station option
      \<Rightarrow> (gerror, ('act, 'w) subs_state, subscription) go" where
  "public_station_subscribe_connected_network_changed fn =
     pub_subscribe ''Station.SubscribeConnectedNetworkChanged'' ResourceStation (\<lambda>fn c. core_station_subscribe_connected_network_changed (Some c) fn) fn"

definition public_station_subscribe_connected_access_point_changed ::
    "(string option \<Rightarrow> 'act list) option \<Rightarrow> ('act, 'w) public_station option
      \<Rightarrow> (gerror, ('act, 'w) subs_state, subscription) go" where
  "public_station_subscribe_connected_access_point_changed fn =
     pub_subscribe ''Station.SubscribeConnectedAccessPointChanged'' ResourceStation (\<lambda>fn c. core_station_subscribe_connected_access_point_changed (Some c) fn) fn"

definition public_station_subscribe_affinities_changed ::
    "(string list option \<Rightarrow> 'act list) option \<Rightarrow> ('act, 'w) public_station option
      \<Rightarrow> (gerror, ('act, 'w) subs_state, subscription) go" where
  "public_station_subscribe_affinities_changed fn =
     pub_subscribe ''Station.SubscribeAffinitiesChanged'' ResourceStation (\<lambda>fn c. core_station_subscribe_affinities_changed (Some c) fn) fn"

subsection \<open>signalagent.go\<close>

text \<open>
  \<open>toCore\<close> copies the three fields, so the configuration is core's. The station's core facade is not
  consulted: only the hook and the path are.
\<close>

definition new_signal_level_agent ::
    "'w core_signal_level_agent option \<Rightarrow> 'w core_signal_level_agent option" where
  "new_signal_level_agent c = c"

definition signal_level_agent_unregister :: "(gerror, 'w core_signal_level_agent option \<times> 'w, unit) go" where
  "signal_level_agent_unregister = (\<lambda>(a, w).
     case a of
       None \<Rightarrow> (Inl (wrap_public_error ''SignalLevelAgent.Unregister'' (Sentinel ErrInternal)), (None, w))
     | Some _ \<Rightarrow> go_wrap (wrap_public_error ''SignalLevelAgent.Unregister'') sla_unregister (a, w))"

definition monitor_signal_level ::
    "('act, 'w) public_station option \<Rightarrow> 'w signal_level_config \<Rightarrow> (gerror, 'w, 'w core_signal_level_agent option) go" where
  "monitor_signal_level s cfg =
     (let op = ''Station.MonitorSignalLevel''; failed = wrap_public_error op in
      case s of
        None \<Rightarrow> go_fail (failed (Sentinel ErrInternal))
      | Some x \<Rightarrow>
          go_bind (go_wrap failed (go_lift (validate_signal_level_config cfg op))) (\<lambda>_.
          case registerSignalAgent x of
            None \<Rightarrow> go_fail (failed (Sentinel ErrInternal))
          | Some register \<Rightarrow>
              go_bind (go_wrap failed (register (po_path x) cfg)) (\<lambda>agent.
              case new_signal_level_agent agent of
                None \<Rightarrow> go_fail (failed (Sentinel ErrInternal))
              | Some pub \<Rightarrow> go_return (Some pub))))"

subsection \<open>wsc.go\<close>

type_synonym 'w public_wsc = "'w core_wsc"

definition wsc_call :: "string \<Rightarrow> ('w core_wsc \<Rightarrow> (gerror, 'w, 'a) go) \<Rightarrow> 'w public_wsc option \<Rightarrow> (gerror, 'w, 'a) go" where
  "wsc_call op fn c =
     (case c of
        None \<Rightarrow> go_fail (wrap_public_error op (Sentinel ErrInternal))
      | Some x \<Rightarrow> go_wrap (wrap_public_error op) (fn x))"

definition public_wsc_push_button :: "'w public_wsc option \<Rightarrow> (gerror, 'w, unit) go" where
  "public_wsc_push_button = wsc_call ''SimpleConfiguration.PushButton'' (\<lambda>x. core_wsc_push_button (Some x))"

definition public_wsc_generate_pin :: "'w public_wsc option \<Rightarrow> (gerror, 'w, string) go" where
  "public_wsc_generate_pin = wsc_call ''SimpleConfiguration.GeneratePin'' (\<lambda>x. core_wsc_generate_pin (Some x))"

definition public_wsc_start_pin :: "string \<Rightarrow> 'w public_wsc option \<Rightarrow> (gerror, 'w, unit) go" where
  "public_wsc_start_pin pin = wsc_call ''SimpleConfiguration.StartPin'' (\<lambda>x. core_wsc_start_pin (Some x) pin)"

definition public_wsc_cancel :: "'w public_wsc option \<Rightarrow> (gerror, 'w, unit) go" where
  "public_wsc_cancel = wsc_call ''SimpleConfiguration.Cancel'' (\<lambda>x. core_wsc_cancel (Some x))"

definition station_simple_configuration ::
    "('act, 'w) public_station option \<Rightarrow> (gerror, 'w, 'w public_wsc option) go" where
  "station_simple_configuration s =
     (let failed = wrap_public_error ''Station.SimpleConfiguration'' in
      case s of
        None \<Rightarrow> go_fail (failed (Sentinel ErrInternal))
      | Some x \<Rightarrow>
          (case newSimpleConfig x of
             None \<Rightarrow> go_fail (failed (Sentinel ErrInternal))
           | Some build \<Rightarrow>
               go_bind (go_wrap failed (build (po_path x))) (\<lambda>config.
               case config of
                 None \<Rightarrow> go_fail (failed (Sentinel ErrInternal))
               | Some c \<Rightarrow> go_return (Some c))))"

subsection \<open>daemon.go\<close>

text \<open>The daemon has no path of its own.\<close>

type_synonym 'w public_daemon = "'w core_daemon pub_object"

definition new_daemon :: "'w core_daemon option \<Rightarrow> 'w public_daemon option" where
  "new_daemon c = (case c of None \<Rightarrow> None | Some c \<Rightarrow> Some \<lparr>po_core = Some c, po_path = ''''\<rparr>)"

definition daemon_info_string :: "daemon_info option \<Rightarrow> string" where
  "daemon_info_string d =
     (case d of
        None \<Rightarrow> ''<nil>''
      | Some i \<Rightarrow> ''Version: '' @ Version i @ [CHR 0x0A] @ ''StateDirectory: '' @ StateDirectory i @ [CHR 0x0A]
          @ ''NetworkConfigurationEnabled: '' @ (if NetworkConfigurationEnabled i then ''true'' else ''false''))"

definition public_daemon_info ::
    "'w public_daemon option \<Rightarrow> (gerror, 'w, daemon_info) go" where
  "public_daemon_info s =
     delegate ''Daemon.Info'' (pub_core s) (\<lambda>c. core_daemon_info (Some c))"

definition public_daemon_version ::
    "'w public_daemon option \<Rightarrow> (gerror, 'w, string) go" where
  "public_daemon_version s =
     delegate ''Daemon.Version'' (pub_core s) (\<lambda>c. core_daemon_version (Some c))"

definition public_daemon_state_directory ::
    "'w public_daemon option \<Rightarrow> (gerror, 'w, string) go" where
  "public_daemon_state_directory s =
     delegate ''Daemon.StateDirectory'' (pub_core s) (\<lambda>c. core_daemon_state_directory (Some c))"

definition public_daemon_network_configuration_enabled ::
    "'w public_daemon option \<Rightarrow> (gerror, 'w, bool) go" where
  "public_daemon_network_configuration_enabled s =
     delegate ''Daemon.NetworkConfigurationEnabled'' (pub_core s) (\<lambda>c. core_daemon_network_configuration_enabled (Some c))"

definition public_daemon_adapters ::
    "'w public_daemon option \<Rightarrow> (gerror, 'w, obj_ref list) go" where
  "public_daemon_adapters s =
     delegate ''Daemon.Adapters'' (pub_core s) (\<lambda>c. core_daemon_adapters (Some c))"

definition public_daemon_devices ::
    "'w public_daemon option \<Rightarrow> (gerror, 'w, obj_ref list) go" where
  "public_daemon_devices s =
     delegate ''Daemon.Devices'' (pub_core s) (\<lambda>c. core_daemon_devices (Some c))"

definition public_daemon_stations ::
    "'w public_daemon option \<Rightarrow> (gerror, 'w, obj_ref list) go" where
  "public_daemon_stations s =
     delegate ''Daemon.Stations'' (pub_core s) (\<lambda>c. core_daemon_stations (Some c))"

definition public_daemon_access_points ::
    "'w public_daemon option \<Rightarrow> (gerror, 'w, obj_ref list) go" where
  "public_daemon_access_points s =
     delegate ''Daemon.AccessPoints'' (pub_core s) (\<lambda>c. core_daemon_access_points (Some c))"

definition public_daemon_basic_service_sets ::
    "'w public_daemon option \<Rightarrow> (gerror, 'w, obj_ref list) go" where
  "public_daemon_basic_service_sets s =
     delegate ''Daemon.BasicServiceSets'' (pub_core s) (\<lambda>c. core_daemon_basic_service_sets (Some c))"

definition public_daemon_networks ::
    "'w public_daemon option \<Rightarrow> (gerror, 'w, obj_ref list) go" where
  "public_daemon_networks s =
     delegate ''Daemon.Networks'' (pub_core s) (\<lambda>c. core_daemon_networks (Some c))"

definition public_daemon_known_networks ::
    "'w public_daemon option \<Rightarrow> (gerror, 'w, obj_ref list) go" where
  "public_daemon_known_networks s =
     delegate ''Daemon.KnownNetworks'' (pub_core s) (\<lambda>c. core_daemon_known_networks (Some c))"

end
