(* ===== verification/Client.thy ===== *)
theory Client
  imports Public_Objects
begin

text \<open>
  The root of the public API: \<open>client.go\<close>, \<open>clientgeneric.go\<close> and \<open>agent.go\<close>. A nil \<open>*Client\<close> is \<open>None\<close>.

  Agent handles are shared between the client's slot and the caller, so they live in a store of the
  client, \<open>cl_agents\<close>, and a handle is an index into it; the slot \<open>c.agent\<close> and the comparison of core
  pointers in the clear callback are then equalities of indices. \<open>ah_cleared\<close> is the \<open>clearOnce\<close> of a
  handle, \<open>cl_close_done\<close> and \<open>cl_close_err\<close> are \<open>closeOnce\<close> and \<open>closeErr\<close>. The field \<open>cleanup\<close> is the
  wiring's own clean-up, which \<open>newConn\<close> always sets, so the test for a nil one has no counterpart. A
  method runs under the client's lock; \<open>Close\<close> is the sequence of its locked part and what follows. How
  methods that overlap take their turns is in \<open>Client_Locks\<close>.
\<close>

record 'w agent_handle =
  ah_core :: "'w core_agent"
  ah_cleared :: bool

record ('act, 'w) client =
  cl_daemon :: "'w public_daemon option"
  cl_wire :: "('act, 'w) wiring option"
  cl_agents :: "'w agent_handle list"
  cl_agent :: "nat option"
  cl_closed :: bool
  cl_close_done :: bool
  cl_close_err :: "gerror option"

definition validate_client_wiring :: "string \<Rightarrow> ('act, 'w) wiring option \<Rightarrow> gerror + unit" where
  "validate_client_wiring op wr =
     (case wr of
        None \<Rightarrow> Inl (wrap_public_error op (Errorf ''nil wiring'' [] []))
      | Some w \<Rightarrow>
          if w_conn w = None then Inl (wrap_public_error op (Errorf ''nil connection in wiring'' [] []))
          else if w_daemon w = None then Inl (wrap_public_error op (Errorf ''nil daemon in wiring'' [] []))
          else Inr ())"

definition client_of :: "('act, 'w) wiring \<Rightarrow> ('act, 'w) client" where
  "client_of wr =
     \<lparr>cl_daemon = new_daemon (w_daemon wr), cl_wire = Some wr, cl_agents = [], cl_agent = None,
      cl_closed = False, cl_close_done = False, cl_close_err = None\<rparr>"

text \<open>\<open>dial True\<close> connects to the system bus, \<open>dial False\<close> to the session bus; a \<open>Bus\<close> is true for the latter.\<close>

definition SessionBus :: bool where
  "SessionBus = True"

definition bus_string :: "bool \<Rightarrow> string" where
  "bus_string b = (if b = SessionBus then ''session'' else ''system'')"

definition connect_bus ::
    "godbus \<Rightarrow> (bool \<Rightarrow> (raw_err, 'w, 'w conn) go) \<Rightarrow> bool \<Rightarrow> (gerror, 'w, ('act, 'w) wiring) go" where
  "connect_bus g dial system = new_conn g (dial system)"

definition new_client ::
    "godbus \<Rightarrow> (bool \<Rightarrow> (raw_err, 'w, 'w conn) go) \<Rightarrow> bool \<Rightarrow> (gerror, 'w, ('act, 'w) client) go" where
  "new_client g dial bus =
     go_bind (go_wrap (wrap_public_error ''NewClient'')
               (if bus = SessionBus then connect_bus g dial False else connect_bus g dial True)) (\<lambda>wire.
     go_bind (go_lift (validate_client_wiring ''NewClient'' (Some wire))) (\<lambda>_.
     go_return (client_of wire)))"

definition new_client_from_wiring :: "('act, 'w) wiring option \<Rightarrow> gerror + ('act, 'w) client" where
  "new_client_from_wiring wr =
     try_bind (validate_client_wiring ''newClientFromWiring'' wr) (\<lambda>_.
     case wr of None \<Rightarrow> Inl (Sentinel ErrInternal) | Some wr \<Rightarrow> Inr (client_of wr))"

definition client_daemon :: "('act, 'w) client option \<Rightarrow> 'w public_daemon option" where
  "client_daemon c = (case c of None \<Rightarrow> None | Some c \<Rightarrow> if cl_closed c then None else cl_daemon c)"

subsection \<open>Objects\<close>

text \<open>The errors of a nil, a closed and an unwired client, and an object that came out nil.\<close>

definition internal_error :: "string \<Rightarrow> gerror" where
  "internal_error op = wrap_public_error op (Sentinel ErrInternal)"

definition closed_error :: "string \<Rightarrow> gerror" where
  "closed_error op = public_invalid KindInvalidState ResourceClient op ''''"

definition not_nil :: "string \<Rightarrow> 'a option \<Rightarrow> (gerror, 'u, 'a) go" where
  "not_nil op x = (case x of None \<Rightarrow> go_fail (internal_error op) | Some y \<Rightarrow> go_return y)"

definition client_object ::
    "string \<Rightarrow> (('act, 'w) wiring option \<Rightarrow> string \<Rightarrow> (gerror, 'w, 'core option) go)
      \<Rightarrow> ('core option \<Rightarrow> string \<Rightarrow> 'pub option) \<Rightarrow> ('act, 'w) client option \<Rightarrow> string \<Rightarrow> (gerror, 'w, 'pub) go" where
  "client_object op build wrap c path =
     (case c of
        None \<Rightarrow> go_fail (internal_error op)
      | Some c \<Rightarrow>
          if cl_closed c then go_fail (closed_error op)
          else if cl_wire c = None then go_fail (internal_error op)
          else
            go_bind (go_wrap (wrap_public_error op) (build (cl_wire c) path)) (\<lambda>core.
            not_nil op (wrap core path)))"

text \<open>The enumerations: the daemon lists, then one object is built for every reference, in order.\<close>

primrec go_collect :: "('a \<Rightarrow> ('e, 'u, 'b) go) \<Rightarrow> 'a list \<Rightarrow> ('e, 'u, 'b list) go" where
  "go_collect f [] = go_return []"
| "go_collect f (x # xs) = go_bind (f x) (\<lambda>y. go_bind (go_collect f xs) (\<lambda>ys. go_return (y # ys)))"

definition client_all ::
    "string \<Rightarrow> ('w public_daemon option \<Rightarrow> (gerror, 'w, obj_ref list) go)
      \<Rightarrow> (('act, 'w) wiring option \<Rightarrow> string \<Rightarrow> (gerror, 'w, 'core option) go)
      \<Rightarrow> (('act, 'w) wiring option \<Rightarrow> 'core option \<Rightarrow> obj_ref \<Rightarrow> 'pub option)
      \<Rightarrow> ('act, 'w) client option \<Rightarrow> (gerror, 'w, 'pub list) go" where
  "client_all op list build wrap c =
     (case c of
        None \<Rightarrow> go_fail (internal_error op)
      | Some c \<Rightarrow>
          if cl_closed c then go_fail (closed_error op)
          else if cl_wire c = None \<or> cl_daemon c = None then go_fail (internal_error op)
          else
            go_bind (go_wrap (wrap_public_error op) (list (cl_daemon c))) (\<lambda>refs.
            go_collect (\<lambda>r.
              go_bind (go_wrap (wrap_public_error op) (build (cl_wire c) (ref_path r))) (\<lambda>core.
              not_nil op (wrap (cl_wire c) core r))) refs))"

text \<open>
  \<open>resolveStationName\<close> and \<open>resolveAccessPointName\<close>: the name that the daemon lists for the path, empty
  when the listing fails or has no such path.
\<close>

definition resolve_name ::
    "('w public_daemon option \<Rightarrow> (gerror, 'w, obj_ref list) go) \<Rightarrow> ('act, 'w) client option \<Rightarrow> string
      \<Rightarrow> (gerror, 'w, string) go" where
  "resolve_name list c path = (\<lambda>w.
     case c of
       None \<Rightarrow> (Inr '''', w)
     | Some c \<Rightarrow>
         if cl_daemon c = None then (Inr '''', w)
         else
           (case list (cl_daemon c) w of
              (Inl _, w') \<Rightarrow> (Inr '''', w')
            | (Inr refs, w') \<Rightarrow>
                (Inr (case find (\<lambda>r. ref_path r = path) refs of None \<Rightarrow> '''' | Some r \<Rightarrow> ref_name r), w')))"

definition client_wire :: "('act, 'w) client option \<Rightarrow> ('act, 'w) wiring option" where
  "client_wire c = (case c of None \<Rightarrow> None | Some c \<Rightarrow> cl_wire c)"

definition equip_station ::
    "godbus \<Rightarrow> ('act, 'w) wiring option \<Rightarrow> ('act, 'w) public_station \<Rightarrow> ('act, 'w) public_station" where
  "equip_station g wr st =
     st\<lparr>po_resolver := wiring_resolver g wr,
        registerSignalAgent := Some (\<lambda>path cfg. non_nil (wiring_new_signal_level_agent g wr path cfg)),
        newSimpleConfig := Some (wiring_new_simple_configuration g wr)\<rparr>"

definition client_adapter ::
    "godbus \<Rightarrow> ('act, 'w) client option \<Rightarrow> string \<Rightarrow> (gerror, 'w, ('act, 'w) public_adapter) go" where
  "client_adapter g c path =
     client_object ''Client.Adapter'' (wiring_new_adapter g) new_pub_object c path"

definition client_all_adapters ::
    "godbus \<Rightarrow> ('act, 'w) client option \<Rightarrow> (gerror, 'w, ('act, 'w) public_adapter list) go" where
  "client_all_adapters g c =
     client_all ''Client.AllAdapters'' public_daemon_adapters (wiring_new_adapter g)
       (\<lambda>wr core r. new_pub_object core (ref_path r)) c"

definition client_device ::
    "godbus \<Rightarrow> ('act, 'w) client option \<Rightarrow> string \<Rightarrow> (gerror, 'w, ('act, 'w) public_device) go" where
  "client_device g c path =
     go_bind (client_object ''Client.Device'' (wiring_new_device g) (\<lambda>core path. new_device core path None) c path) (\<lambda>d.
     go_return (d\<lparr>po_resolver := wiring_resolver g (client_wire c)\<rparr>))"

definition client_all_devices ::
    "godbus \<Rightarrow> ('act, 'w) client option \<Rightarrow> (gerror, 'w, ('act, 'w) public_device list) go" where
  "client_all_devices g c =
     client_all ''Client.AllDevices'' public_daemon_devices (wiring_new_device g)
       (\<lambda>wr core r. new_device core (ref_path r) (wiring_resolver g wr)) c"

definition client_station ::
    "godbus \<Rightarrow> ('act, 'w) client option \<Rightarrow> string \<Rightarrow> (gerror, 'w, ('act, 'w) public_station) go" where
  "client_station g c path =
     go_bind (client_object ''Client.Station'' (wiring_new_station g) (\<lambda>core path. new_station core path '''') c path) (\<lambda>st.
     go_bind (resolve_name public_daemon_stations c path) (\<lambda>name.
     go_return (equip_station g (client_wire c) (st\<lparr>st_name := name\<rparr>))))"

definition client_all_stations ::
    "godbus \<Rightarrow> ('act, 'w) client option \<Rightarrow> (gerror, 'w, ('act, 'w) public_station list) go" where
  "client_all_stations g c =
     client_all ''Client.AllStations'' public_daemon_stations (wiring_new_station g)
       (\<lambda>wr core r. map_option (equip_station g wr) (new_station core (ref_path r) (ref_name r))) c"

definition client_access_point ::
    "godbus \<Rightarrow> ('act, 'w) client option \<Rightarrow> string \<Rightarrow> (gerror, 'w, ('act, 'w) public_access_point) go" where
  "client_access_point g c path =
     go_bind (client_object ''Client.AccessPoint'' (wiring_new_access_point g) (\<lambda>core path. new_access_point core path '''') c path) (\<lambda>ap.
     go_bind (resolve_name public_daemon_access_points c path) (\<lambda>name.
     go_return (ap\<lparr>po_name := name\<rparr>)))"

definition client_all_access_points ::
    "godbus \<Rightarrow> ('act, 'w) client option \<Rightarrow> (gerror, 'w, ('act, 'w) public_access_point list) go" where
  "client_all_access_points g c =
     client_all ''Client.AllAccessPoints'' public_daemon_access_points (wiring_new_access_point g)
       (\<lambda>wr core r. new_access_point core (ref_path r) (ref_name r)) c"

definition client_basic_service_set ::
    "godbus \<Rightarrow> ('act, 'w) client option \<Rightarrow> string \<Rightarrow> (gerror, 'w, 'w public_bss) go" where
  "client_basic_service_set g c path =
     client_object ''Client.BasicServiceSet'' (wiring_new_basic_service_set g) new_pub_object c path"

definition client_all_basic_service_sets ::
    "godbus \<Rightarrow> ('act, 'w) client option \<Rightarrow> (gerror, 'w, 'w public_bss list) go" where
  "client_all_basic_service_sets g c =
     client_all ''Client.AllBasicServiceSets'' public_daemon_basic_service_sets (wiring_new_basic_service_set g)
       (\<lambda>wr core r. new_pub_object core (ref_path r)) c"

definition client_network ::
    "godbus \<Rightarrow> ('act, 'w) client option \<Rightarrow> string \<Rightarrow> (gerror, 'w, ('act, 'w) public_network) go" where
  "client_network g c path =
     go_bind (client_object ''Client.Network'' (wiring_new_network g) (\<lambda>core path. new_network core path None) c path) (\<lambda>d.
     go_return (d\<lparr>po_resolver := wiring_resolver g (client_wire c)\<rparr>))"

definition client_all_networks ::
    "godbus \<Rightarrow> ('act, 'w) client option \<Rightarrow> (gerror, 'w, ('act, 'w) public_network list) go" where
  "client_all_networks g c =
     client_all ''Client.AllNetworks'' public_daemon_networks (wiring_new_network g)
       (\<lambda>wr core r. new_network core (ref_path r) (wiring_resolver g wr)) c"

definition client_known_network ::
    "godbus \<Rightarrow> ('act, 'w) client option \<Rightarrow> string \<Rightarrow> (gerror, 'w, ('act, 'w) public_known_network) go" where
  "client_known_network g c path =
     client_object ''Client.KnownNetwork'' (wiring_new_known_network g) new_pub_object c path"

definition client_all_known_networks ::
    "godbus \<Rightarrow> ('act, 'w) client option \<Rightarrow> (gerror, 'w, ('act, 'w) public_known_network list) go" where
  "client_all_known_networks g c =
     client_all ''Client.AllKnownNetworks'' public_daemon_known_networks (wiring_new_known_network g)
       (\<lambda>wr core r. new_pub_object core (ref_path r)) c"

subsection \<open>The agent\<close>

text \<open>\<open>AgentConfig.toCore\<close> copies the callbacks, so the configuration is core's.\<close>

definition register_agent ::
    "godbus \<Rightarrow> 'w credential_callbacks \<Rightarrow> (gerror, ('act, 'w) client option \<times> 'w, nat) go" where
  "register_agent g cc = (\<lambda>(c, w).
     let op = ''Client.RegisterAgent'' in
     case c of
       None \<Rightarrow> (Inl (internal_error op), (None, w))
     | Some c \<Rightarrow>
         (case validate_credential_callbacks cc op of
            Inl e \<Rightarrow> (Inl (wrap_public_error op e), (Some c, w))
          | Inr _ \<Rightarrow>
              if cl_closed c then (Inl (closed_error op), (Some c, w))
              else if cl_wire c = None then (Inl (internal_error op), (Some c, w))
              else if cl_agent c \<noteq> None
              then (Inl (public_invalid KindInvalidState ResourceAgent op ''''), (Some c, w))
              else
                (case wiring_new_agent g (cl_wire c) cc w of
                   (Inl e, w') \<Rightarrow> (Inl (wrap_public_error op e), (Some c, w'))
                 | (Inr a, w') \<Rightarrow>
                     (let i = length (cl_agents c) in
                      (Inr i, (Some (c\<lparr>cl_agents := cl_agents c @ [\<lparr>ah_core = a, ah_cleared = False\<rparr>],
                                       cl_agent := Some i\<rparr>), w'))))))"

text \<open>The clear callback of the handle \<open>i\<close>, run once.\<close>

definition clear_handle :: "nat \<Rightarrow> ('act, 'w) client \<Rightarrow> ('act, 'w) client" where
  "clear_handle i c =
     (if ah_cleared (cl_agents c ! i) then c
      else c\<lparr>cl_agents := (cl_agents c)[i := (cl_agents c ! i)\<lparr>ah_cleared := True\<rparr>],
             cl_agent := (if cl_agent c = Some i then None else cl_agent c)\<rparr>)"

definition public_agent_unregister :: "nat \<Rightarrow> (gerror, ('act, 'w) client \<times> 'w, unit) go" where
  "public_agent_unregister i = (\<lambda>(c, w).
     if \<not> i < length (cl_agents c)
     then (Inl (public_invalid KindInvalidState ResourceAgent ''Agent.Unregister'' ''''), (c, w))
     else
       (case agent_unregister (Some (ah_core (cl_agents c ! i)), w) of
          (r, (a, w')) \<Rightarrow>
            (let h = (case a of None \<Rightarrow> cl_agents c ! i | Some b \<Rightarrow> (cl_agents c ! i)\<lparr>ah_core := b\<rparr>);
                 c' = clear_handle i (c\<lparr>cl_agents := (cl_agents c)[i := h]\<rparr>)
             in (case r of Inl e \<Rightarrow> Inl (wrap_public_error ''Agent.Unregister'' e) | Inr _ \<Rightarrow> Inr (), (c', w')))))"

subsection \<open>Close\<close>

definition close_result :: "('act, 'w) client \<Rightarrow> gerror + unit" where
  "close_result c = (case cl_close_err c of None \<Rightarrow> Inr () | Some e \<Rightarrow> Inl e)"

definition close_locked :: "('act, 'w) client \<Rightarrow> ('act, 'w) client" where
  "close_locked c = c\<lparr>cl_close_done := True, cl_closed := True, cl_daemon := None, cl_agent := None\<rparr>"

definition client_cleanup :: "('act, 'w) client \<times> 'w \<Rightarrow> ('act, 'w) client \<times> 'w" where
  "client_cleanup = (\<lambda>(c, w).
     case cl_wire c of
       None \<Rightarrow> (c, w)
     | Some wr \<Rightarrow>
         (case wiring_cleanup (wr, w) of
            (Inr _, (wr', w')) \<Rightarrow> (c\<lparr>cl_wire := Some wr'\<rparr>, w')
          | (Inl r, (wr', w')) \<Rightarrow>
              (c\<lparr>cl_wire := Some wr',
                 cl_close_err := Some (if is_public_error (Foreign r) then Foreign r
                                       else wrap_public_error ''Client.Close'' (Foreign r))\<rparr>, w')))"

definition client_close :: "(gerror, ('act, 'w) client option \<times> 'w, unit) go" where
  "client_close = (\<lambda>(c, w).
     case c of
       None \<Rightarrow> (Inr (), (None, w))
     | Some c \<Rightarrow>
         if cl_close_done c then (close_result c, (Some c, w))
         else
           (let (c1, w1) = (case cl_agent c of
                              None \<Rightarrow> (close_locked c, w)
                            | Some i \<Rightarrow> snd (public_agent_unregister i (close_locked c, w)));
                (c2, w2) = client_cleanup (c1, w1)
            in (close_result c2, (Some c2, w2))))"

end
