(* ===== verification/Objects.thy ===== *)
theory Objects
  imports Network Known_Network Device Adapter Access_Point Bss
begin

text \<open>
  Properties of networks, known networks, devices, adapters and access points: agreeing reads,
  settings that are read back, arguments that never reach the bus, and the outcome of failed calls.
\<close>

abbreviation network_on :: "godbus \<Rightarrow> ('act, 'w) iwd_network \<Rightarrow> ('act, 'w) core_network option" where
  "network_on g x \<equiv> new_core_network (Some (iwd_network_raw g x))"

abbreviation known_network_on :: "('act, 'w) iwd_known_network \<Rightarrow> ('act, 'w) core_known_network option" where
  "known_network_on x \<equiv> new_core_known_network (Some (iwd_known_network_raw x))"

abbreviation device_on :: "godbus \<Rightarrow> ('act, 'w) iwd_device \<Rightarrow> ('act, 'w) core_device option" where
  "device_on g x \<equiv> new_core_device (Some (iwd_device_raw g x))"

abbreviation adapter_on :: "('act, 'w) iwd_adapter \<Rightarrow> ('act, 'w) core_adapter option" where
  "adapter_on x \<equiv> new_core_adapter (Some (iwd_adapter_raw x))"

abbreviation access_point_on :: "godbus \<Rightarrow> ('act, 'w) iwd_access_point \<Rightarrow> ('act, 'w) core_access_point option" where
  "access_point_on g x \<equiv> new_core_access_point (Some (iwd_access_point_raw g x))"

subsection \<open>Instances\<close>

text \<open>A bus whose world is the table of one object's properties, which a write changes.\<close>

definition store_caller :: "properties caller" where
  "store_caller =
     \<lparr>c_call = (\<lambda>i m args. go_return []),
      c_get_property = (\<lambda>i p w. case map_of w p of
          None \<Rightarrow> (Inl (OtherErr ''Getting property value failed''), w) | Some v \<Rightarrow> (Inr v, w)),
      c_get_all = (\<lambda>i w. (Inr w, w)),
      c_set_property = (\<lambda>i p v w. (Inr (), (p, v) # w)),
      c_has_interface = (\<lambda>i. True)\<rparr>"

definition store_object :: "(nat, properties) typed_object" where
  "store_object = \<lparr>to_call = Some store_caller, to_signals = as_signals None ''/o''\<rparr>"

lemma store_object_simps [simp]: "to_call store_object = Some store_caller"
  by (simp add: store_object_def)

lemma store_reports: "reports store_caller iface w w"
  by (auto simp: reports_def store_caller_def absent_property_error split: option.splits)

lemma store_keeps: "keeps store_caller iface"
  by (simp add: keeps_def store_caller_def)

subsection \<open>Agreeing reads\<close>

lemma bss_properties_agree:
  assumes "reports c IwdBasicServiceSetIface tab w"
  shows "core_bss_properties (new_core_bss (Some (iwd_bss_raw \<lparr>bss_call = Some c\<rparr>))) w = (Inr p, w) \<longleftrightarrow>
           core_bss_address (new_core_bss (Some (iwd_bss_raw \<lparr>bss_call = Some c\<rparr>))) w = (Inr (Address p), w)"
  using bss_reads_agree [OF assms, of "Address p"] by (cases p) auto

text \<open>
  C34: When the bus reports one state of an object, \<open>Properties\<close> (a single \<open>GetAll\<close>) and the
  single-property getters agree: it succeeds exactly when each of them does, and returns what they
  return. This holds of networks, known networks, devices, adapters, access points and basic service sets.
\<close>

theorem object_properties_agree_with_the_getters:
  assumes "to_call n = Some nc" and "reports nc IwdNetworkIface nt w"
    and "to_call k = Some kc" and "reports kc IwdKnownNetworkIface kt w"
    and "to_call d = Some dc" and "reports dc IwdDeviceIface dt w"
    and "to_call a = Some ac" and "reports ac IwdAdapterIface at w"
    and "to_call x = Some xc" and "reports xc IwdAccessPointIface xt w"
    and "reports bc IwdBasicServiceSetIface bt w"
  shows "(core_network_properties (network_on g n) w = (Inr np, w) \<longleftrightarrow>
            core_network_name (network_on g n) w = (Inr (np_name np), w)
          \<and> core_network_connected (network_on g n) w = (Inr (np_connected np), w)
          \<and> core_network_device (network_on g n) w = (Inr (np_device np), w)
          \<and> core_network_type (network_on g n) w = (Inr (np_type np), w)
          \<and> core_network_known_network (network_on g n) w = (Inr (np_known_network np), w)
          \<and> core_network_extended_service_set (network_on g n) w = (Inr (np_ess np), w))
       \<and> (core_known_network_properties (known_network_on k) w = (Inr kp, w) \<longleftrightarrow>
            core_known_network_name (known_network_on k) w = (Inr (kp_name kp), w)
          \<and> core_known_network_type (known_network_on k) w = (Inr (kp_type kp), w)
          \<and> core_known_network_hidden (known_network_on k) w = (Inr (kp_hidden kp), w)
          \<and> core_known_network_last_connected_time (known_network_on k) w = (Inr (kp_last_connected_time kp), w)
          \<and> core_known_network_auto_connect (known_network_on k) w = (Inr (kp_auto_connect kp), w))
       \<and> (core_device_properties (device_on g d) w = (Inr dp, w) \<longleftrightarrow>
            core_device_name (device_on g d) w = (Inr (vp_name dp), w)
          \<and> core_device_address (device_on g d) w = (Inr (vp_address dp), w)
          \<and> core_device_powered (device_on g d) w = (Inr (vp_powered dp), w)
          \<and> core_device_mode (device_on g d) w = (Inr (vp_mode dp), w)
          \<and> core_device_adapter (device_on g d) w = (Inr (vp_adapter dp), w))
       \<and> (core_adapter_properties (adapter_on a) w = (Inr ap, w) \<longleftrightarrow>
            core_adapter_powered (adapter_on a) w = (Inr (ap_powered ap), w)
          \<and> core_adapter_name (adapter_on a) w = (Inr (ap_name ap), w)
          \<and> core_adapter_model (adapter_on a) w = (Inr (ap_model ap), w)
          \<and> core_adapter_vendor (adapter_on a) w = (Inr (ap_vendor ap), w)
          \<and> core_adapter_supported_modes (adapter_on a) w = (Inr (ap_supported_modes ap), w))
       \<and> (core_access_point_properties (access_point_on g x) w = (Inr xp, w) \<longleftrightarrow>
            core_access_point_started (access_point_on g x) w = (Inr (xp_started xp), w)
          \<and> core_access_point_scanning (access_point_on g x) w = (Inr (xp_scanning xp), w)
          \<and> core_access_point_name (access_point_on g x) w = (Inr (xp_name xp), w)
          \<and> core_access_point_frequency (access_point_on g x) w = (Inr (xp_frequency xp), w)
          \<and> core_access_point_pairwise_ciphers (access_point_on g x) w = (Inr (xp_pairwise_ciphers xp), w)
          \<and> core_access_point_group_cipher (access_point_on g x) w = (Inr (xp_group_cipher xp), w))
       \<and> (core_bss_properties (new_core_bss (Some (iwd_bss_raw \<lparr>bss_call = Some bc\<rparr>))) w = (Inr bp, w) \<longleftrightarrow>
            core_bss_address (new_core_bss (Some (iwd_bss_raw \<lparr>bss_call = Some bc\<rparr>))) w = (Inr (Address bp), w))"
  by (intro conjI network_properties_agree [OF assms(2,1)] known_network_properties_agree [OF assms(4,3)]
      device_properties_agree [OF assms(6,5)] adapter_properties_agree [OF assms(8,7)]
      access_point_properties_agree [OF assms(10,9)] bss_properties_agree [OF assms(11)])

theorem object_properties_agree_with_the_getters_witness:
  "core_access_point_properties (access_point_on table_godbus store_object) [(''Started'', VBool False)] =
     (Inr \<lparr>xp_started = False, xp_scanning = False, xp_name = None, xp_frequency = None,
           xp_pairwise_ciphers = [], xp_group_cipher = None\<rparr>, [(''Started'', VBool False)])"
  apply (rule object_properties_agree_with_the_getters [OF store_object_simps store_reports store_object_simps
      store_reports store_object_simps store_reports store_object_simps store_reports store_object_simps
      store_reports store_reports, THEN conjunct2, THEN conjunct2, THEN conjunct2, THEN conjunct2,
      THEN conjunct1, THEN iffD2])
  apply (simp add: core_access_point_read_defs new_core_access_point_def core_iffs iwd_access_point_raw_def
      iwd_access_point_read_defs reads_report [of store_caller access_point_iwd, simplified, OF store_reports store_object_simps]
      required_field_Inr_iff field_or_def expect_bool_Inr_iff)
  done

subsection \<open>Failed calls\<close>

lemma check_fails:
  fixes r :: "gerror + unit"
  assumes "r \<noteq> Inr ()"
  obtains e where "r = Inl e"
  using assms by (cases r) auto

lemma call_ignoring_reply_Inr_iff:
  assumes "new_typed_object t g conn add path w0 = (Inr s, w1)"
  shows "call_ignoring_reply t m args s w = (Inr (), w') \<longleftrightarrow>
           (\<exists>body. conn_call conn IwdService path (it_iface t @ ''.'' @ m) args w = (Inr body, w'))"
  by (simp add: call_ignoring_reply_def go_bind_Inr_iff call_method_Inr_iff [OF assms])

lemma call_ignoring_reply_Inl_iff:
  "call_ignoring_reply t m args s w = (Inl e, w') \<longleftrightarrow> call_method t m args s w = (Inl e, w')"
  by (auto simp: call_ignoring_reply_def go_bind_def split: prod.splits sum.splits)

lemmas failed_call =
  core_do_Inl_iff new_core_network_def new_core_known_network_def new_core_access_point_def
  iwd_network_raw_def iwd_known_network_raw_def iwd_access_point_raw_def call_ignoring_reply_Inl_iff

lemma network_connect_fails:
  assumes "iwd_new_network g conn add path w0 = (Inr n, w1)"
    and "core_network_connect (network_on g n) w = (Inl e, w')"
  shows "call_outcome conn path IwdNetworkIface ''Connect'' [] pop e w w'"
proof -
  from assms(2) obtain e0 d where e0: "call_method network_iwd ''Connect'' [] n w = (Inl e0, w')"
    and e: "e = wrap_network_unavailable ''Network.Connect'' d e0"
    by (auto simp: core_network_connect_def new_core_network_def iwd_network_raw_def iwd_network_connect_def
        call_ignoring_reply_Inl_iff go_simps elim!: go_wrap_InlE split: if_splits)
  from call_outcome [OF assms(1) [unfolded iwd_new_network_def] e0] show ?thesis
    by (simp add: e wrap_network_unavailable_def)
qed

lemma known_network_forget_fails:
  assumes "iwd_new_known_network g conn add path w0 = (Inr k, w1)"
    and "core_known_network_forget (known_network_on k) w = (Inl e, w')"
  shows "call_outcome conn path IwdKnownNetworkIface ''Forget'' [] pop e w w'"
  using assms(2)
  by (auto simp: core_known_network_forget_def failed_call iwd_known_network_forget_def known_network_core_def
      wrap_known_network_unavailable_def intro: call_outcome [OF assms(1) [unfolded iwd_new_known_network_def], simplified])

lemma access_point_call_fails:
  assumes "iwd_new_access_point g conn add path w0 = (Inr x, w1)"
  shows "core_access_point_stop (access_point_on g x) w = (Inl e, w') \<Longrightarrow>
           call_outcome conn path IwdAccessPointIface ''Stop'' [] pop e w w'"
    and "core_access_point_scan (access_point_on g x) w = (Inl e, w') \<Longrightarrow>
           call_outcome conn path IwdAccessPointIface ''Scan'' [] pop e w w'"
  by (auto simp: core_access_point_stop_def core_access_point_scan_def failed_call iwd_access_point_stop_def
      iwd_access_point_scan_def access_point_core_def wrap_access_point_unavailable_def
      intro: call_outcome [OF assms(1) [unfolded iwd_new_access_point_def], simplified])

text \<open>
  C35: When \<open>Connect\<close> of an opened network, \<open>Forget\<close> of an opened known network or one of an opened access point's
  \<open>Stop\<close> and \<open>Scan\<close> fails, the method was called on the object's own path, and the public error is of the unavailable
  category and matches the sentinel of the error iwd replied with (for \<open>Connect\<close> the missing agent
  among them) and no other of iwd's.
\<close>

theorem failed_object_call_reports_iwds_reason:
  "(iwd_new_network g conn add npath v = (Inr n, v') \<and> core_network_connect (network_on g n) w = (Inl e, w') \<longrightarrow>
      call_outcome conn npath IwdNetworkIface ''Connect'' [] pop e w w')
   \<and> (iwd_new_known_network g conn add kpath v = (Inr k, v') \<and> core_known_network_forget (known_network_on k) w = (Inl e, w') \<longrightarrow>
      call_outcome conn kpath IwdKnownNetworkIface ''Forget'' [] pop e w w')
   \<and> (iwd_new_access_point g conn add xpath v = (Inr x, v') \<longrightarrow>
        (core_access_point_stop (access_point_on g x) w = (Inl e, w') \<longrightarrow>
           call_outcome conn xpath IwdAccessPointIface ''Stop'' [] pop e w w')
      \<and> (core_access_point_scan (access_point_on g x) w = (Inl e, w') \<longrightarrow>
           call_outcome conn xpath IwdAccessPointIface ''Scan'' [] pop e w w'))"
proof (intro conjI impI)
  show "call_outcome conn npath IwdNetworkIface ''Connect'' [] pop e w w'"
    if "iwd_new_network g conn add npath v = (Inr n, v') \<and> core_network_connect (network_on g n) w = (Inl e, w')"
    using that by (elim conjE) (rule network_connect_fails)
  show "call_outcome conn kpath IwdKnownNetworkIface ''Forget'' [] pop e w w'"
    if "iwd_new_known_network g conn add kpath v = (Inr k, v') \<and> core_known_network_forget (known_network_on k) w = (Inl e, w')"
    using that by (elim conjE) (rule known_network_forget_fails)
  assume x: "iwd_new_access_point g conn add xpath v = (Inr x, v')"
  show "call_outcome conn xpath IwdAccessPointIface ''Stop'' [] pop e w w'"
    if "core_access_point_stop (access_point_on g x) w = (Inl e, w')"
    using x that by (rule access_point_call_fails)
  show "call_outcome conn xpath IwdAccessPointIface ''Scan'' [] pop e w w'"
    if "core_access_point_scan (access_point_on g x) w = (Inl e, w')"
    using x that by (rule access_point_call_fails)
qed

text \<open>An object with one interface, whose methods all fail with \<open>NoAgent\<close>.\<close>

definition refusing_conn :: "string \<Rightarrow> unit conn" where
  "refusing_conn iface = table_conn [(iface, [])] (\<lambda>_ _. Inl (DBusErr ''net.connman.iwd.NoAgent'' ''no agent''))"

lemma table_typed_object:
  assumes "it_iface t \<in> fst ` set ifaces"
  obtains s where "new_typed_object t g (table_conn ifaces reply) add path w = (Inr s, w)"
  using assms by (auto simp: new_typed_object_def new_object_def new_introspected_object_def table_conn_def
      introspected_has_interface_def go_bind_def go_wrap_def)

lemma refusing_conn_call [simp]:
  "conn_call (refusing_conn iface) b p m args w = (Inl (DBusErr ''net.connman.iwd.NoAgent'' ''no agent''), ())"
  by (simp add: refusing_conn_def table_conn_def go_lift_def)

lemma failed_run:
  fixes r :: "(gerror + unit) \<times> unit"
  assumes "r \<noteq> (Inr (), ())"
  obtains e where "r = (Inl e, ())"
  using assms by (cases r; cases "fst r") auto

theorem failed_object_call_reports_iwds_reason_witness:
  "(\<exists>e. call_outcome (refusing_conn IwdNetworkIface) ''/n'' IwdNetworkIface ''Connect'' [] ''Network.Connect'' e () ())
   \<and> (\<exists>e. call_outcome (refusing_conn IwdAccessPointIface) ''/d'' IwdAccessPointIface ''Scan'' [] ''AccessPoint.Scan'' e () ())"
proof
  obtain n :: "(nat, unit) iwd_network"
    where n: "iwd_new_network table_godbus (refusing_conn IwdNetworkIface) None ''/n'' () = (Inr n, ())"
    unfolding refusing_conn_def iwd_new_network_def by (rule table_typed_object) auto
  have "core_network_connect (network_on table_godbus n) () \<noteq> (Inr (), ())"
    using call_ignoring_reply_Inr_iff [OF n [unfolded iwd_new_network_def], of "''Connect''" "[]" "()" "()"]
    by (simp add: core_network_connect_def new_core_network_def iwd_network_raw_def iwd_network_connect_def
        go_simps go_wrap_Inr_iff)
  then obtain e where "core_network_connect (network_on table_godbus n) () = (Inl e, ())"
    by (rule failed_run)
  from failed_object_call_reports_iwds_reason [THEN conjunct1, THEN mp, OF conjI [OF n this]]
  show "\<exists>e. call_outcome (refusing_conn IwdNetworkIface) ''/n'' IwdNetworkIface ''Connect'' [] ''Network.Connect'' e () ()"
    by blast
  obtain x :: "(nat, unit) iwd_access_point"
    where x: "iwd_new_access_point table_godbus (refusing_conn IwdAccessPointIface) None ''/d'' () = (Inr x, ())"
    unfolding refusing_conn_def iwd_new_access_point_def by (rule table_typed_object) auto
  have "core_access_point_scan (access_point_on table_godbus x) () \<noteq> (Inr (), ())"
    using call_ignoring_reply_Inr_iff [OF x [unfolded iwd_new_access_point_def], of "''Scan''" "[]" "()" "()"]
    by (simp add: core_access_point_scan_def new_core_access_point_def iwd_access_point_raw_def iwd_access_point_scan_def
        core_do_Inr_iff)
  then obtain e where "core_access_point_scan (access_point_on table_godbus x) () = (Inl e, ())"
    by (rule failed_run)
  from failed_object_call_reports_iwds_reason [THEN conjunct2, THEN conjunct2, THEN mp, OF x, THEN conjunct2, THEN mp, OF this]
  show "\<exists>e. call_outcome (refusing_conn IwdAccessPointIface) ''/d'' IwdAccessPointIface ''Scan'' [] ''AccessPoint.Scan'' e () ()"
    by blast
qed

subsection \<open>Settings\<close>

lemma device_set_mode_iff:
  assumes "to_call d = Some c"
  shows "core_device_set_mode m (device_on g d) w = (Inr (), w') \<longleftrightarrow>
           valid_mode m \<and> set_property device_iwd ''Mode'' (VStr m) d w = (Inr (), w')"
  using assms
  by (auto simp: core_device_set_mode_def new_core_device_def core_iffs iwd_device_raw_def iwd_device_set_mode_def
      mode_string_def mode_defs)

text \<open>
  C36: On a bus that keeps what is set, a successful \<open>SetPowered\<close>, \<open>SetMode\<close> or \<open>SetAutoConnect\<close> is
  read back by the getter of the same property; and \<open>SetMode\<close> refuses a value that is not one of
  iwd's modes before the bus is touched.
\<close>

theorem settings_are_read_back:
  assumes "to_call d = Some dc" and "keeps dc IwdDeviceIface"
    and "to_call a = Some ac" and "keeps ac IwdAdapterIface"
    and "to_call k = Some kc" and "keeps kc IwdKnownNetworkIface"
  shows "(core_device_set_mode m (device_on g d) w = (Inr (), w') \<longrightarrow>
            core_device_mode (device_on g d) w' = (Inr m, w'))
       \<and> (core_device_set_powered b (device_on g d) w = (Inr (), w') \<longrightarrow>
            core_device_powered (device_on g d) w' = (Inr b, w'))
       \<and> (core_adapter_set_powered b (adapter_on a) w = (Inr (), w') \<longrightarrow>
            core_adapter_powered (adapter_on a) w' = (Inr b, w'))
       \<and> (core_known_network_set_auto_connect b (known_network_on k) w = (Inr (), w') \<longrightarrow>
            core_known_network_auto_connect (known_network_on k) w' = (Inr b, w'))
       \<and> (\<not> valid_mode m \<longrightarrow> refused pop (core_device_set_mode m (device_on g d)) w)"
proof (intro conjI impI)
  assume set_mode: "core_device_set_mode m (device_on g d) w = (Inr (), w')"
  then have "valid_mode m" and "set_property device_iwd ''Mode'' (VStr m) d w = (Inr (), w')"
    by (simp_all add: device_set_mode_iff [OF assms(1)])
  then show "core_device_mode (device_on g d) w' = (Inr m, w')"
    using set_then_get [of dc device_iwd d, simplified, OF assms(2,1), of "''Mode''" "VStr m" w w' parse_device_mode]
    by (simp add: core_device_mode_def new_core_device_def core_iffs
        iwd_device_raw_def iwd_device_get_mode_def parse_device_mode_def iwd_parse_mode_def parse_mode_def
        validate_mode_Inr_iff)
next
  assume "core_device_set_powered b (device_on g d) w = (Inr (), w')"
  then show "core_device_powered (device_on g d) w' = (Inr b, w')"
    using set_then_get [of dc device_iwd d, simplified, OF assms(2,1), of "''Powered''" "VBool b" w w' "expect_bool ''Powered''"]
    by (simp add: core_device_set_powered_def core_device_powered_def new_core_device_def core_iffs
        iwd_device_raw_def iwd_device_get_powered_def iwd_device_set_powered_def expect_bool_def)
next
  assume "core_adapter_set_powered b (adapter_on a) w = (Inr (), w')"
  then show "core_adapter_powered (adapter_on a) w' = (Inr b, w')"
    using set_then_get [of ac adapter_iwd a, simplified, OF assms(4,3), of "''Powered''" "VBool b" w w' "expect_bool ''Powered''"]
    by (simp add: core_adapter_set_powered_def core_adapter_powered_def new_core_adapter_def core_iffs
        iwd_adapter_raw_def iwd_adapter_get_powered_def iwd_adapter_set_powered_def expect_bool_def)
next
  assume "core_known_network_set_auto_connect b (known_network_on k) w = (Inr (), w')"
  then show "core_known_network_auto_connect (known_network_on k) w' = (Inr b, w')"
    using set_then_get [of kc known_network_iwd k, simplified, OF assms(6,5), of "''AutoConnect''" "VBool b" w w' "expect_bool ''AutoConnect''"]
    by (simp add: core_known_network_set_auto_connect_def core_known_network_auto_connect_def
        new_core_known_network_def core_iffs iwd_known_network_raw_def iwd_known_network_get_auto_connect_def
        iwd_known_network_set_auto_connect_def expect_bool_def)
next
  assume "\<not> valid_mode m"
  then show "refused pop (core_device_set_mode m (device_on g d)) w"
    by (auto simp: core_device_set_mode_def new_core_device_def intro!: core_checked_do_refuses
        invalid_argument_is_public)
qed

theorem settings_are_read_back_witness:
  "core_device_mode (device_on table_godbus store_object) [(''Mode'', VStr ''ap''), (''Mode'', VStr ''station'')]
     = (Inr ''ap'', [(''Mode'', VStr ''ap''), (''Mode'', VStr ''station'')])"
proof -
  have "core_device_set_mode ''ap'' (device_on table_godbus store_object) [(''Mode'', VStr ''station'')]
      = (Inr (), [(''Mode'', VStr ''ap''), (''Mode'', VStr ''station'')])"
    by (simp add: device_set_mode_iff [OF store_object_simps] mode_defs set_property_def store_caller_def
        go_wrap_Inr_iff)
  from settings_are_read_back [OF store_object_simps store_keeps store_object_simps store_keeps
      store_object_simps store_keeps, THEN conjunct1, THEN mp, OF this]
  show ?thesis .
qed

text \<open>
  \<open>SupportsMode\<close> answers yes exactly for the modes that \<open>SupportedModes\<close> lists, on a bus that
  reports one state of the adapter; a value that is no mode is refused before the bus is touched.
\<close>

lemma adapter_supports_exactly_the_listed_modes:
  assumes "to_call a = Some c" and "reports c IwdAdapterIface tab w"
  shows "(core_adapter_supports_mode m (adapter_on a) w = (Inr b, w) \<longleftrightarrow>
            valid_mode m \<and> (\<exists>ms. core_adapter_supported_modes (adapter_on a) w = (Inr ms, w) \<and> b = (m \<in> set ms)))
       \<and> (\<not> valid_mode m \<longrightarrow> refused pop (core_adapter_supports_mode m (adapter_on a)) w)"
proof (intro conjI impI)
  assume "\<not> valid_mode m"
  then show "refused pop (core_adapter_supports_mode m (adapter_on a)) w"
    by (auto simp: core_adapter_supports_mode_def new_core_adapter_def intro!: core_checked_do_refuses
        invalid_argument_is_public)
qed (rule adapter_supports_listed_modes [OF assms(2,1)])

subsection \<open>Access points\<close>

lemma access_point_start_checks:
  "(try_bind (validate_access_point_ssid op ssid) (\<lambda>_. check_passphrase op psk) = Inr ()) \<longleftrightarrow>
     1 \<le> length ssid \<and> length ssid \<le> 32 \<and> 8 \<le> length psk \<and> length psk \<le> 63"
  by (simp add: try_bind_Inr_iff validate_access_point_ssid_iff check_passphrase_iff)

lemma access_point_bad_argument:
  "validate_access_point_ssid op ssid = Inl e \<Longrightarrow> errors_is (wrap_public_error pop e) ErrInvalidArgument"
  "check_passphrase op psk = Inl e \<Longrightarrow> errors_is (wrap_public_error pop e) ErrInvalidArgument"
  by (auto simp: validate_access_point_ssid_def check_passphrase_def Let_def invalid_argument_is_public split: if_splits)

text \<open>
  C38: Starting an access point: an SSID of 1 to 32 bytes and a passphrase of 8 to 63 bytes reach iwd
  unchanged, and \<open>Start\<close> succeeds exactly when iwd's method does; any other pair, and any other SSID
  for \<open>StartProfile\<close>, is refused as an invalid argument before the bus is touched.
\<close>

theorem access_point_start_sends_only_valid_arguments:
  assumes "iwd_new_access_point g conn add path w0 = (Inr a, w1)"
  shows "(1 \<le> length ssid \<and> length ssid \<le> 32 \<and> 8 \<le> length psk \<and> length psk \<le> 63 \<longrightarrow>
            (core_access_point_start ssid psk (access_point_on g a) w = (Inr (), w') \<longleftrightarrow>
              (\<exists>body. conn_call conn IwdService path (IwdAccessPointIface @ ''.Start'') [VStr ssid, VStr psk] w
                 = (Inr body, w'))))
       \<and> (\<not> (1 \<le> length ssid \<and> length ssid \<le> 32 \<and> 8 \<le> length psk \<and> length psk \<le> 63) \<longrightarrow>
            refused pop (core_access_point_start ssid psk (access_point_on g a)) w)
       \<and> (1 \<le> length ssid \<and> length ssid \<le> 32 \<longrightarrow>
            (core_access_point_start_profile ssid (access_point_on g a) w = (Inr (), w') \<longleftrightarrow>
              (\<exists>body. conn_call conn IwdService path (IwdAccessPointIface @ ''.StartProfile'') [VStr ssid] w
                 = (Inr body, w'))))
       \<and> (\<not> (1 \<le> length ssid \<and> length ssid \<le> 32) \<longrightarrow>
            refused pop (core_access_point_start_profile ssid (access_point_on g a)) w)"
proof (intro conjI impI)
  note calls = call_ignoring_reply_Inr_iff [OF assms [unfolded iwd_new_access_point_def], simplified]
  note start = core_access_point_start_def new_core_access_point_def iwd_access_point_raw_def
    iwd_access_point_start_def
  note profile = core_access_point_start_profile_def new_core_access_point_def iwd_access_point_raw_def
    iwd_access_point_start_profile_def
  show "core_access_point_start ssid psk (access_point_on g a) w = (Inr (), w') \<longleftrightarrow>
      (\<exists>body. conn_call conn IwdService path (IwdAccessPointIface @ ''.Start'') [VStr ssid, VStr psk] w
         = (Inr body, w'))"
    if "1 \<le> length ssid \<and> length ssid \<le> 32 \<and> 8 \<le> length psk \<and> length psk \<le> 63"
    using that by (simp add: start core_iffs access_point_start_checks calls)
  show "core_access_point_start_profile ssid (access_point_on g a) w = (Inr (), w') \<longleftrightarrow>
      (\<exists>body. conn_call conn IwdService path (IwdAccessPointIface @ ''.StartProfile'') [VStr ssid] w
         = (Inr body, w'))" if "1 \<le> length ssid \<and> length ssid \<le> 32"
    using that by (simp add: profile core_iffs validate_access_point_ssid_iff calls)
  assume "\<not> (1 \<le> length ssid \<and> length ssid \<le> 32 \<and> 8 \<le> length psk \<and> length psk \<le> 63)"
  then have "try_bind (validate_access_point_ssid ''AccessPoint.Start'' ssid)
      (\<lambda>_. check_passphrase ''AccessPoint.Start'' psk) \<noteq> Inr ()"
    by (simp add: access_point_start_checks)
  then obtain e where e: "try_bind (validate_access_point_ssid ''AccessPoint.Start'' ssid)
      (\<lambda>_. check_passphrase ''AccessPoint.Start'' psk) = Inl e"
    by (rule check_fails)
  then have "errors_is (wrap_public_error pop e) ErrInvalidArgument"
    by (elim try_bind_InlE) (simp_all add: access_point_bad_argument)
  with e show "refused pop (core_access_point_start ssid psk (access_point_on g a)) w"
    by (auto simp: core_access_point_start_def new_core_access_point_def intro: core_checked_do_refuses)
next
  assume "\<not> (1 \<le> length ssid \<and> length ssid \<le> 32)"
  then have "validate_access_point_ssid ''AccessPoint.StartProfile'' ssid \<noteq> Inr ()"
    by (simp add: validate_access_point_ssid_iff)
  then obtain e where e: "validate_access_point_ssid ''AccessPoint.StartProfile'' ssid = Inl e"
    by (rule check_fails)
  with access_point_bad_argument(1) [OF e]
  show "refused pop (core_access_point_start_profile ssid (access_point_on g a)) w"
    by (auto simp: core_access_point_start_profile_def new_core_access_point_def intro: core_checked_do_refuses)
qed

text \<open>A bus whose methods all succeed, and an access point on it.\<close>

definition listing_conn :: "properties \<Rightarrow> unit conn" where
  "listing_conn entry = table_conn [(IwdAccessPointIface, [])] (\<lambda>_ _. Inr [VVarMap entry])"

lemma listing_access_point:
  obtains x :: "(nat, unit) iwd_access_point"
  where "iwd_new_access_point g (listing_conn entry) None ''/ap'' () = (Inr x, ())"
  unfolding listing_conn_def iwd_new_access_point_def by (rule table_typed_object) auto

lemma listing_conn_call [simp]: "conn_call (listing_conn entry) b p m args w = (Inr [VVarMap entry], ())"
  by (simp add: listing_conn_def table_conn_def go_lift_def)

theorem access_point_start_sends_only_valid_arguments_witness:
  "\<exists>x :: (nat, unit) iwd_access_point.
     core_access_point_start ''home'' ''12345678'' (access_point_on table_godbus x) () = (Inr (), ())
   \<and> refused ''AccessPoint.Start'' (core_access_point_start ''home'' ''1234567'' (access_point_on table_godbus x)) ()"
proof -
  obtain x :: "(nat, unit) iwd_access_point"
    where x: "iwd_new_access_point table_godbus (listing_conn []) None ''/ap'' () = (Inr x, ())"
    by (rule listing_access_point)
  note start = access_point_start_sends_only_valid_arguments [OF x, where w = "()" and w' = "()"]
  from start [where ssid = "''home''" and psk = "''12345678''"]
  have "core_access_point_start ''home'' ''12345678'' (access_point_on table_godbus x) () = (Inr (), ())" by simp
  moreover from start [where ssid = "''home''" and psk = "''1234567''" and pop = "''AccessPoint.Start''"]
  have "refused ''AccessPoint.Start'' (core_access_point_start ''home'' ''1234567'' (access_point_on table_godbus x)) ()"
    by simp
  ultimately show ?thesis by blast
qed

text \<open>One entry of the listing: its fields have the right types where they are present.\<close>

definition heard :: "properties \<Rightarrow> ap_ordered_network \<Rightarrow> bool" where
  "heard m n \<longleftrightarrow>
     (case map_of m ''Name'' of None \<Rightarrow> xn_name n = '''' | Some v \<Rightarrow> v = VStr (xn_name n))
   \<and> (case map_of m ''SignalStrength'' of None \<Rightarrow> xn_signal_strength n = 0 | Some v \<Rightarrow> v = VInt16 (xn_signal_strength n))
   \<and> (case map_of m ''Type'' of
        None \<Rightarrow> xn_type n = NetworkTypeUnknown
      | Some v \<Rightarrow> \<exists>s. v = VStr s \<and> xn_type n = (if valid_network_type s then s else NetworkTypeUnknown))"

lemma parse_access_point_ordered_network_iff:
  "parse_access_point_ordered_network m = Inr n \<longleftrightarrow> heard m n"
proof -
  have int16: "expect_int16 f v = Inr i \<longleftrightarrow> v = VInt16 i" for f v i
    by (auto simp: expect_int16_def split: dval.splits)
  have type: "classified_type v = Inr t \<longleftrightarrow>
      (\<exists>s. v = VStr s \<and> t = (if valid_network_type s then s else NetworkTypeUnknown))" for v t
    by (auto simp: classified_type_def try_bind_Inr_iff expect_string_Inr_iff parse_network_type_def nettype.parse_eq
        split: sum.splits)
  show ?thesis
    by (cases n) (auto simp: parse_access_point_ordered_network_def heard_def field_or_def try_bind_Inr_iff
        int16 type expect_string_Inr_iff split: option.splits)
qed

lemma collect_heard: "collect parse_access_point_ordered_network ms = Inr ns \<longleftrightarrow> list_all2 heard ms ns"
  by (induction ms arbitrary: ns)
    (auto simp: try_bind_Inr_iff parse_access_point_ordered_network_iff list_all2_Cons1)

text \<open>
  \<open>OrderedNetworks\<close> returns one network for every entry of iwd's reply, in iwd's order, with
  the entry's own name and signal strength; an entry without a type, or with one that iwd's values
  do not include, is listed with the unknown type. It fails when an entry has a field of a wrong type.
\<close>

theorem access_point_lists_every_network:
  assumes "iwd_new_access_point g conn add path w0 = (Inr x, w1)"
    and "conn_call conn IwdService path (IwdAccessPointIface @ ''.GetOrderedNetworks'') [] w = (Inr body, w')"
    and "store_dicts g body = Inr entries"
  shows "core_access_point_ordered_networks (access_point_on g x) w = (Inr ns, w') \<longleftrightarrow> list_all2 heard entries ns"
proof -
  have "call_method access_point_iwd ''GetOrderedNetworks'' [] x w = (Inr body, w')"
    using assms(2) call_method_Inr_iff [OF assms(1) [unfolded iwd_new_access_point_def]] by simp
  then show ?thesis
    by (auto simp: core_access_point_ordered_networks_def new_core_access_point_def iwd_access_point_raw_def
        core_iffs iwd_access_point_get_ordered_networks_def go_bind_Inr_iff go_lift_iff assms(3) collect_heard)
qed

theorem access_point_lists_every_network_witness:
  "\<exists>x :: (nat, unit) iwd_access_point.
     core_access_point_ordered_networks (access_point_on table_godbus x) () =
       (Inr [\<lparr>xn_name = ''cafe'', xn_signal_strength = - 6000, xn_type = NetworkTypeUnknown\<rparr>], ())"
proof -
  let ?entry = "[(''Name'', VStr ''cafe''), (''SignalStrength'', VInt16 (- 6000)), (''Type'', VStr ''owe'')]"
  obtain x :: "(nat, unit) iwd_access_point"
    where x: "iwd_new_access_point table_godbus (listing_conn ?entry) None ''/ap'' () = (Inr x, ())"
    by (rule listing_access_point)
  have "store_dicts table_godbus [VVarMap ?entry] = Inr [?entry]" by (simp add: table_godbus_def)
  note list = access_point_lists_every_network [OF x listing_conn_call this, THEN iffD2]
  show ?thesis by (rule exI, rule list) (simp add: heard_def network_type_defs)
qed

end
