(* ===== verification/Client_Runs.thy ===== *)
theory Client_Runs
  imports Client Objects
begin

text \<open>
  What the public client promises: its life from connecting to \<open>Close\<close>, its one agent slot, its
  enumerations, and the friendly names in the properties its objects return.
\<close>

subsection \<open>A closed client\<close>

lemma closed_client_object: "cl_closed c \<Longrightarrow> client_object op build wrap (Some c) path = go_fail (closed_error op)"
  by (simp add: client_object_def)

lemma closed_client_all: "cl_closed c \<Longrightarrow> client_all op list build wrap (Some c) = go_fail (closed_error op)"
  by (simp add: client_all_def)

lemma closed_error_is: "errors_is (closed_error op) x \<longleftrightarrow> x \<in> {ErrSpiderw, ErrInvalidState}"
  by (auto simp: closed_error_def public_invalid_def)

lemma close_done: "cl_close_done c \<Longrightarrow> client_close (Some c, w) = (close_result c, (Some c, w))"
  by (simp add: client_close_def)

subsection \<open>Runs of a client\<close>

text \<open>What iwd's calls to the exported agent object do to the core agent of a handle.\<close>

definition agent_event :: "'w core_agent \<times> 'w \<Rightarrow> 'w core_agent \<times> 'w \<Rightarrow> bool" where
  "agent_event s s' \<longleftrightarrow>
     (\<exists>reason. s' = handle_cancel reason s) \<or> s' = handle_release s
     \<or> (\<exists>fn :: nat \<Rightarrow> (raw_err, 'w, string) go. s' = snd (run_request fn s))"

lemma agent_event_registered: "agent_event (a, w) (b, w') \<Longrightarrow> registered b = registered a"
  by (auto simp: agent_event_def handle_cancel_def handle_release_def run_request_def begin_request_def
      end_request_def split_beta)

text \<open>
  A run: the client's own operations, calls of the exported agents, and anything else that only
  changes the world behind the bus (the operations on objects among it).
\<close>

inductive client_run :: "godbus \<Rightarrow> ('act, 'w) wiring \<Rightarrow> ('act, 'w) client \<Rightarrow> 'w \<Rightarrow> bool"
  for g :: godbus and wr :: "('act, 'w) wiring" where
  start: "client_run g wr (client_of wr) w"
| register: "client_run g wr c w \<Longrightarrow> register_agent g cc (Some c, w) = (r, (Some c', w')) \<Longrightarrow> client_run g wr c' w'"
| unregister: "client_run g wr c w \<Longrightarrow> public_agent_unregister i (c, w) = (r, (c', w')) \<Longrightarrow> client_run g wr c' w'"
| close: "client_run g wr c w \<Longrightarrow> client_close (Some c, w) = (r, (Some c', w')) \<Longrightarrow> client_run g wr c' w'"
| event: "client_run g wr c w \<Longrightarrow> i < length (cl_agents c) \<Longrightarrow> agent_event (ah_core (cl_agents c ! i), w) (a, w')
    \<Longrightarrow> client_run g wr (c\<lparr>cl_agents := (cl_agents c)[i := (cl_agents c ! i)\<lparr>ah_core := a\<rparr>]\<rparr>) w'"
| world: "client_run g wr c w \<Longrightarrow> client_run g wr c w'"

text \<open>The handles: the slot holds the only one that is not cleared, and a registered agent is not cleared.\<close>

definition handles_ok :: "nat option \<Rightarrow> 'w agent_handle list \<Rightarrow> bool" where
  "handles_ok sl hs \<longleftrightarrow>
     (\<forall>i. sl = Some i \<longrightarrow> i < length hs)
     \<and> (\<forall>i < length hs. \<not> ah_cleared (hs ! i) \<longleftrightarrow> sl = Some i)
     \<and> (\<forall>i < length hs. registered (ah_core (hs ! i)) \<longrightarrow> \<not> ah_cleared (hs ! i))"

definition client_ok :: "('act, 'w) wiring \<Rightarrow> ('act, 'w) client \<Rightarrow> bool" where
  "client_ok wr c \<longleftrightarrow>
     handles_ok (cl_agent c) (cl_agents c)
     \<and> (cl_closed c \<longleftrightarrow> cl_close_done c)
     \<and> (cl_closed c \<longrightarrow> cl_agent c = None \<and> cl_daemon c = None)
     \<and> (\<not> cl_closed c \<longrightarrow> cl_wire c = Some wr \<and> cl_close_err c = None)"

lemma handles_ok_append:
  "handles_ok None hs \<Longrightarrow> handles_ok (Some (length hs)) (hs @ [\<lparr>ah_core = a, ah_cleared = False\<rparr>])"
  by (auto simp: handles_ok_def nth_append less_Suc_eq)

lemma handles_ok_dead:
  assumes "handles_ok sl hs" and "i < length hs" and "\<not> registered b"
    and "sl' = (if sl = Some i then None else sl)"
  shows "handles_ok sl' (hs[i := \<lparr>ah_core = b, ah_cleared = True\<rparr>])"
  using assms by (auto simp: handles_ok_def nth_list_update)

lemma handles_ok_event:
  assumes "handles_ok sl hs" and "i < length hs" and "registered a = registered (ah_core (hs ! i))"
  shows "handles_ok sl (hs[i := (hs ! i)\<lparr>ah_core := a\<rparr>])"
  using assms by (auto simp: handles_ok_def nth_list_update)

text \<open>\<open>Unregister\<close> of a handle: its agent is dead and the slot is free of it afterwards.\<close>

lemma public_agent_unregister_eq:
  assumes "i < length (cl_agents c)"
  obtains b where "\<not> registered b"
    and "snd (public_agent_unregister i (c, w)) =
      (c\<lparr>cl_agents := (cl_agents c)[i := \<lparr>ah_core = b, ah_cleared = True\<rparr>],
         cl_agent := (if \<not> ah_cleared (cl_agents c ! i) \<and> cl_agent c = Some i then None else cl_agent c)\<rparr>,
       snd (snd (agent_unregister (Some (ah_core (cl_agents c ! i)), w))))"
proof -
  let ?h = "cl_agents c ! i"
  obtain r s w' where run: "agent_unregister (Some (ah_core ?h), w) = (r, (s, w'))" by (metis prod.exhaust)
  from agent_teardown.dies [OF run] obtain b where b: "s = Some b" "\<not> registered b" by blast
  have "snd (public_agent_unregister i (c, w)) =
      (c\<lparr>cl_agents := (cl_agents c)[i := \<lparr>ah_core = b, ah_cleared = True\<rparr>],
         cl_agent := (if \<not> ah_cleared ?h \<and> cl_agent c = Some i then None else cl_agent c)\<rparr>, w')"
    using assms run b by (cases ?h) (auto simp: public_agent_unregister_def clear_handle_def Let_def)
  with that b run show ?thesis by simp
qed

lemma client_cleanup_keeps:
  "client_cleanup (c, w) = (c', w') \<Longrightarrow>
     cl_agents c' = cl_agents c \<and> cl_agent c' = cl_agent c \<and> cl_closed c' = cl_closed c
     \<and> cl_close_done c' = cl_close_done c \<and> cl_daemon c' = cl_daemon c"
  by (auto simp: client_cleanup_def split: option.splits prod.splits sum.splits if_splits)

lemma close_locked_simps [simp]:
  "cl_agents (close_locked c) = cl_agents c"
  "cl_agent (close_locked c) = None"
  "cl_closed (close_locked c)"
  "cl_close_done (close_locked c)"
  "cl_daemon (close_locked c) = None"
  "cl_wire (close_locked c) = cl_wire c"
  "cl_close_err (close_locked c) = cl_close_err c"
  by (simp_all add: close_locked_def)

lemma clear_empty_slot:
  "cl_agent c = None \<Longrightarrow> c\<lparr>cl_agents := hs, cl_agent := None\<rparr> = c\<lparr>cl_agents := hs\<rparr>"
  by (cases c) simp

lemma same_agents: "cl_agents c = hs \<Longrightarrow> c\<lparr>cl_agents := hs\<rparr> = c"
  by (cases c) simp

lemma client_close_eq:
  assumes "\<not> cl_close_done c" and "handles_ok (cl_agent c) (cl_agents c)"
  obtains hs where "handles_ok None hs"
    and "client_close (Some c, w) =
      (let (c2, w2) = client_cleanup ((close_locked c)\<lparr>cl_agents := hs\<rparr>,
             case cl_agent c of None \<Rightarrow> w
             | Some i \<Rightarrow> snd (snd (agent_unregister (Some (ah_core (cl_agents c ! i)), w))))
       in (close_result c2, (Some c2, w2)))"
proof (cases "cl_agent c")
  case None
  have "(close_locked c)\<lparr>cl_agents := cl_agents c\<rparr> = close_locked c"
    by (simp add: same_agents)
  with assms that [of "cl_agents c"] None show ?thesis by (simp add: client_close_def)
next
  case (Some i)
  with assms(2) have i: "i < length (cl_agents (close_locked c))" by (simp add: handles_ok_def)
  from public_agent_unregister_eq [OF i, of w] obtain b where b: "\<not> registered b"
    and un: "snd (public_agent_unregister i (close_locked c, w)) =
      ((close_locked c)\<lparr>cl_agents := (cl_agents c)[i := \<lparr>ah_core = b, ah_cleared = True\<rparr>]\<rparr>,
       snd (snd (agent_unregister (Some (ah_core (cl_agents c ! i)), w))))"
    by (auto simp: clear_empty_slot)
  from assms(2) i b Some have "handles_ok None ((cl_agents c)[i := \<lparr>ah_core = b, ah_cleared = True\<rparr>])"
    by (intro handles_ok_dead) auto
  from that [OF this] show ?thesis by (simp add: client_close_def assms(1) Some un)
qed

lemma register_agent_ok:
  "client_ok wr c \<Longrightarrow> register_agent g cc (Some c, w) = (r, (c', w')) \<Longrightarrow>
     \<exists>d. c' = Some d \<and> client_ok wr d \<and> cl_closed d = cl_closed c"
  by (auto simp: client_ok_def register_agent_def Let_def handles_ok_append
      split: if_splits sum.splits prod.splits)

lemma unregister_ok:
  assumes ok: "client_ok wr c" and un: "public_agent_unregister i (c, w) = (r, (c', w'))"
  shows "client_ok wr c' \<and> cl_closed c' = cl_closed c"
proof (cases "i < length (cl_agents c)")
  case False
  with ok un show ?thesis by (auto simp: public_agent_unregister_def)
next
  case True
  from public_agent_unregister_eq [OF True, of w] un obtain b where "\<not> registered b"
    and "c' = c\<lparr>cl_agents := (cl_agents c)[i := \<lparr>ah_core = b, ah_cleared = True\<rparr>],
       cl_agent := (if \<not> ah_cleared (cl_agents c ! i) \<and> cl_agent c = Some i then None else cl_agent c)\<rparr>"
    by auto
  with ok True show ?thesis
    by (auto simp: client_ok_def intro!: handles_ok_dead) (auto simp: handles_ok_def)
qed

lemma client_run_ok: "client_run g wr c w \<Longrightarrow> client_ok wr c"
proof (induction rule: client_run.induct)
  case (start w)
  then show ?case by (simp add: client_ok_def client_of_def handles_ok_def)
next
  case (register c w cc r c' w')
  then show ?case using register_agent_ok by fastforce
next
  case (unregister c w i r c' w')
  show ?case using unregister_ok [OF unregister.IH unregister.hyps(2)] by simp
next
  case (close c w r c' w')
  show ?case
  proof (cases "cl_close_done c")
    case True
    with close show ?thesis by (simp add: close_done)
  next
    case False
    with close.IH have ok: "handles_ok (cl_agent c) (cl_agents c)" by (simp add: client_ok_def)
    obtain hs v where hs: "handles_ok None hs"
      and run: "client_cleanup ((close_locked c)\<lparr>cl_agents := hs\<rparr>, v) = (c', w')"
      by (rule client_close_eq [OF False ok, of w]) (use close.hyps(2) in \<open>auto simp: Let_def split: prod.splits\<close>)
    from client_cleanup_keeps [OF run] hs show ?thesis
      by (simp add: client_ok_def)
  qed
next
  case (event c w i a w')
  then show ?case
    by (auto simp: client_ok_def intro!: handles_ok_event dest: agent_event_registered)
qed

text \<open>
  C27: Through any run of a client, however its \<open>RegisterAgent\<close>, \<open>Unregister\<close>, \<open>Close\<close> and the calls
  iwd makes to the agents are ordered, at most one of the agents it handed out is registered, it is the one
  in the client's slot, and none is registered once the client is closed.
\<close>

theorem at_most_one_agent_is_registered:
  assumes "client_run g wr c w"
    and "i < length (cl_agents c)" and "registered (ah_core (cl_agents c ! i))"
  shows "cl_agent c = Some i \<and> \<not> cl_closed c
       \<and> (\<forall>j < length (cl_agents c). registered (ah_core (cl_agents c ! j)) \<longrightarrow> j = i)"
proof -
  from client_run_ok [OF assms(1)] have ok: "client_ok wr c" .
  then have live: "cl_agent c = Some j" if "j < length (cl_agents c)" "registered (ah_core (cl_agents c ! j))" for j
    using that by (auto simp: client_ok_def handles_ok_def)
  with ok live [OF assms(2,3)] show ?thesis by (auto simp: client_ok_def)
qed

text \<open>
  C40: The first \<open>Close\<close> of a client, whatever it was used for before, unregisters the agent in its
  slot, then closes the bus connection, and reports what that closing said; every further \<open>Close\<close>
  returns the same and does nothing. A closed client has no daemon, and refuses every object, every
  enumeration and every agent with an invalid-state error, without touching the bus.
\<close>

theorem closing_releases_everything_once:
  assumes "client_run g wr c w" and "\<not> cl_closed c" and "w_conn wr = Some conn" and "w_cleaned wr = None"
    and "client_close (Some c, w) = (r, (Some c', w'))"
  defines "w1 \<equiv> (case cl_agent c of
             None \<Rightarrow> w | Some i \<Rightarrow> snd (snd (agent_unregister (Some (ah_core (cl_agents c ! i)), w))))"
  shows "w' = snd (conn_close conn w1)
       \<and> (r = Inr () \<longleftrightarrow> (\<exists>u. fst (conn_close conn w1) = Inr u))
       \<and> client_close (Some c', v) = (r, (Some c', v))
       \<and> client_daemon (Some c') = None
       \<and> client_object op build wrap (Some c') path v = (Inl (closed_error op), v)
       \<and> client_all op list build_all wrap_all (Some c') v = (Inl (closed_error op), v)
       \<and> (validate_credential_callbacks cc ''Client.RegisterAgent'' = Inr () \<longrightarrow>
            register_agent g cc (Some c', v) = (Inl (closed_error ''Client.RegisterAgent''), (Some c', v)))
       \<and> errors_is (closed_error op) ErrInvalidState"
proof -
  from client_run_ok [OF assms(1)] assms(2) have ok: "handles_ok (cl_agent c) (cl_agents c)"
    and open_c: "\<not> cl_close_done c" "cl_wire c = Some wr" "cl_close_err c = None"
    by (auto simp: client_ok_def)
  obtain hs where run: "client_close (Some c, w) =
      (let (c2, w2) = client_cleanup ((close_locked c)\<lparr>cl_agents := hs\<rparr>, w1) in (close_result c2, (Some c2, w2)))"
    unfolding w1_def by (rule client_close_eq [OF open_c(1) ok])
  then have clean: "client_cleanup ((close_locked c)\<lparr>cl_agents := hs\<rparr>, w1) = (c', w')"
    and r: "r = close_result c'"
    using assms(5) by (auto simp: Let_def split: prod.splits)
  from client_cleanup_keeps [OF clean] have closed: "cl_closed c'" "cl_close_done c'" by simp_all
  have w': "w' = snd (conn_close conn w1)"
    and res: "close_result c' = Inr () \<longleftrightarrow> (\<exists>u. fst (conn_close conn w1) = Inr u)"
    using clean open_c(2,3) assms(3,4)
    by (auto simp: client_cleanup_def wiring_cleanup_def close_result_def split: prod.splits sum.splits)
  show ?thesis
    using w' res closed
    by (simp add: r close_done closed_client_object closed_client_all closed_error_is client_daemon_def
        register_agent_def Let_def)
qed

subsection \<open>Enumerations\<close>

lemma go_collect_Inr:
  "go_collect f xs w = (Inr ys, w') \<Longrightarrow> list_all2 (\<lambda>x y. \<exists>v v'. f x v = (Inr y, v')) xs ys"
  by (induction xs arbitrary: ys w) (auto elim!: go_bind_InrE, blast+)

lemma client_all_Inr:
  assumes "client_all op list build wrap (Some c) w = (Inr hs, w')"
  obtains refs w1 where "list (cl_daemon c) w = (Inr refs, w1)"
    and "list_all2 (\<lambda>r h. \<exists>core v v'. build (cl_wire c) (ref_path r) v = (Inr core, v') \<and> wrap (cl_wire c) core r = Some h)
           refs hs"
proof -
  from assms obtain refs w1 where refs: "list (cl_daemon c) w = (Inr refs, w1)"
    and all: "go_collect (\<lambda>r. go_bind (go_wrap (wrap_public_error op) (build (cl_wire c) (ref_path r)))
      (\<lambda>core. not_nil op (wrap (cl_wire c) core r))) refs w1 = (Inr hs, w')"
    by (auto simp: client_all_def split: if_splits elim!: go_bind_InrE go_wrap_InrE)
  from go_collect_Inr [OF all]
  have "list_all2 (\<lambda>r h. \<exists>core v v'. build (cl_wire c) (ref_path r) v = (Inr core, v') \<and> wrap (cl_wire c) core r = Some h)
      refs hs"
    by (rule list_all2_mono) (auto simp: not_nil_def split: option.splits elim!: go_bind_InrE go_wrap_InrE, blast)
  with refs that show ?thesis by blast
qed

text \<open>The handles \<open>hs\<close> are those of the references the daemon lists, in its order, with the same field.\<close>

definition enumerates ::
    "('w public_daemon option \<Rightarrow> (gerror, 'w, obj_ref list) go) \<Rightarrow> ('act, 'w) client
      \<Rightarrow> ('h \<Rightarrow> 'f) \<Rightarrow> (obj_ref \<Rightarrow> 'f) \<Rightarrow> (gerror + 'h list) \<times> 'w \<Rightarrow> 'w \<Rightarrow> bool" where
  "enumerates list c field of_ref result w \<longleftrightarrow>
     (case result of
        (Inl _, _) \<Rightarrow> True
      | (Inr hs, _) \<Rightarrow> \<exists>refs w1. list (cl_daemon c) w = (Inr refs, w1) \<and> map field hs = map of_ref refs)"

lemma client_all_enumerates:
  assumes "\<And>wr core r h. wrap wr core r = Some h \<Longrightarrow> field h = of_ref r"
  shows "enumerates list c field of_ref (client_all op list build wrap (Some c) w) w"
proof (cases "client_all op list build wrap (Some c) w")
  case (Pair res w')
  show ?thesis
  proof (cases res)
    case (Inl e)
    with Pair show ?thesis by (simp add: enumerates_def)
  next
    case (Inr hs)
    with Pair have "client_all op list build wrap (Some c) w = (Inr hs, w')" by simp
    then obtain refs w1 where refs: "list (cl_daemon c) w = (Inr refs, w1)"
      and all: "list_all2 (\<lambda>r h. \<exists>core v v'. build (cl_wire c) (ref_path r) v = (Inr core, v')
             \<and> wrap (cl_wire c) core r = Some h) refs hs"
      by (rule client_all_Inr)
    from all have "map field hs = map of_ref refs" by induction (auto dest: assms)
    with Pair Inr refs show ?thesis by (auto simp: enumerates_def)
  qed
qed

text \<open>
  Each of the seven enumerations that succeeds returns one handle for every object the daemon lists,
  in the order of the listing and for that object's path; stations and access points also carry
  the listed name.
\<close>

theorem enumerations_follow_the_listing:
  "enumerates public_daemon_adapters c po_path ref_path (client_all_adapters g (Some c) w) w
   \<and> enumerates public_daemon_devices c po_path ref_path (client_all_devices g (Some c) w) w
   \<and> enumerates public_daemon_stations c (\<lambda>h. (po_path h, st_name h)) (\<lambda>r. (ref_path r, ref_name r))
       (client_all_stations g (Some c) w) w
   \<and> enumerates public_daemon_access_points c (\<lambda>h. (po_path h, po_name h)) (\<lambda>r. (ref_path r, ref_name r))
       (client_all_access_points g (Some c) w) w
   \<and> enumerates public_daemon_basic_service_sets c po_path ref_path (client_all_basic_service_sets g (Some c) w) w
   \<and> enumerates public_daemon_networks c po_path ref_path (client_all_networks g (Some c) w) w
   \<and> enumerates public_daemon_known_networks c po_path ref_path (client_all_known_networks g (Some c) w) w"
  unfolding client_all_adapters_def client_all_devices_def client_all_stations_def client_all_access_points_def
    client_all_basic_service_sets_def client_all_networks_def client_all_known_networks_def
  by (intro conjI client_all_enumerates)
    (auto simp: new_pub_object_def new_device_def new_station_def new_access_point_def new_network_def
      equip_station_def split: option.splits)

subsection \<open>Friendly names\<close>

text \<open>The reference \<open>r\<close> is that of the object at \<open>path\<close>, named by its string property if the tree has it.\<close>

definition names :: "managed_objects option \<Rightarrow> string \<Rightarrow> string \<Rightarrow> string \<Rightarrow> obj_ref \<Rightarrow> bool" where
  "names tree iface prop path r \<longleftrightarrow>
     ref_path r = path
     \<and> ref_name r = (case string_prop tree path iface prop of None \<Rightarrow> [] | Some s \<Rightarrow> s)"

lemma ref_of_names:
  "names tree IwdNetworkIface ''Name'' p (network_ref_of tree p)"
  "names tree IwdBasicServiceSetIface ''Address'' p (bss_ref_of tree p)"
  "names tree IwdDeviceIface ''Name'' p (device_ref_of tree p)"
  "names tree IwdAdapterIface ''Name'' p (adapter_ref_of tree p)"
  by (auto simp: names_def network_ref_of_def bss_ref_of_def device_ref_of_def adapter_ref_of_def ref_of_def
      tree_network_name_def tree_bss_address_def tree_device_name_def tree_adapter_name_def tree_name_def
      network_name_def bss_address_def device_name_def adapter_name_def string_prop_def split: option.splits)

lemma map_ref_of_names:
  "list_all2 (names tree IwdBasicServiceSetIface ''Address'') ps (map (bss_ref_of tree) ps)"
  by (induction ps) (simp_all add: ref_of_names)

text \<open>Core's properties carry a recognised type and mode; a failed fetch of the tree is no core error.\<close>

lemma core_properties_valid:
  "core_network_properties s w = (Inr cp, w') \<Longrightarrow> valid_network_type (np_type cp)"
  "core_device_properties t u = (Inr vp, u') \<Longrightarrow> valid_mode (vp_mode vp)"
  by (auto simp: core_network_properties_def core_device_properties_def core_get_def go_bind_Inr_iff go_lift_iff
      normalize_network_properties_def normalize_device_properties_def try_bind_Inr_iff
      validate_network_type_Inr_iff validate_mode_Inr_iff)

lemma failed_resolution:
  "conn_call conn IwdService ''/'' DBusObjectManagerGetManagedObjects [] w = (Inl r, w') \<Longrightarrow>
     resolve_tree (Some (go_bind (fetch_object_tree g (Some conn)) (\<lambda>t. go_return (Some t)))) w =
       (Inl (wrap_introspection DBusObjectManagerGetManagedObjects (Foreign r)), w')"
  by (simp add: resolve_tree_def fetch_object_tree_def get_managed_objects_def go_wrap_def go_bind_def)

lemma unclassified_is_internal:
  "errors_is (wrap_public_error op (wrap_introspection path (Foreign r))) ErrInternal"
  "\<not> errors_is (wrap_public_error op (wrap_introspection path (Foreign r))) ErrUnavailable"
  by (simp_all add: wpub.wrap_is public_adds_def wrap_introspection_def)


subsection \<open>Instances\<close>

definition demo_wiring :: "(nat, bool \<times> bool) wiring" where
  "demo_wiring = flag_wiring [IwdAgentManagerIface] (Inr [])"

definition demo_credentials :: "(bool \<times> bool) credential_callbacks" where
  "demo_credentials = no_callbacks\<lparr>Passphrase := Some (\<lambda>ctx network. go_return ''secret'')\<rparr>"

lemma demo_agent_registers:
  obtains a where "wiring_new_agent table_godbus (Some demo_wiring) demo_credentials (False, True) = (Inr a, (True, True))"
    and "registered a"
proof -
  let ?conn = "flag_conn [IwdAgentManagerIface] (Inr [])"
  have ex: "export_agent table_godbus (Some ?conn) agentObjectPath (False, True)
      = (Inr (conn_export ?conn False agentObjectPath IwdAgentIface), (True, True))"
    unfolding export_agent_def by (rule export_object_exports [OF agent_path_ok]) simp
  have "wiring_new_agent table_godbus (Some demo_wiring) demo_credentials (False, True) =
      (Inr (agent_bind (iwd_unregister_agent \<lparr>am_conn = Some ?conn,
              am_intro = Some (as_caller table_godbus \<lparr>io_conn = ?conn, io_bus_name = IwdService,
                 io_path = IwdDaemonPath, io_ifaces = [IwdAgentManagerIface]\<rparr>)\<rparr>)
            agentObjectPath (conn_export ?conn False agentObjectPath IwdAgentIface) (new_core_agent demo_credentials)),
       (True, True))"
    by (simp add: wiring_new_agent_def demo_wiring_def Let_def go_bind_def go_wrap_def ex or_unexport_def
        iwd_new_agent_manager_def new_introspected_object_def introspected_has_interface_def
        iwd_register_agent_def agent_manager_method_def ensure_initialized_def introspected_call_def)
  with that show ?thesis by (simp add: agent_bind_def)
qed

theorem at_most_one_agent_is_registered_witness:
  "\<exists>c w. client_run table_godbus demo_wiring c w \<and> cl_agent c = Some 0 \<and> registered (ah_core (cl_agents c ! 0))
     \<and> \<not> cl_closed c"
proof -
  obtain a where a: "wiring_new_agent table_godbus (Some demo_wiring) demo_credentials (False, True) = (Inr a, (True, True))"
    and reg: "registered a" by (rule demo_agent_registers)
  let ?c = "(client_of demo_wiring)\<lparr>cl_agents := [\<lparr>ah_core = a, ah_cleared = False\<rparr>], cl_agent := Some 0\<rparr>"
  have "register_agent table_godbus demo_credentials (Some (client_of demo_wiring), (False, True)) =
      (Inr 0, (Some ?c, (True, True)))"
    using a by (simp add: register_agent_def Let_def client_of_def demo_credentials_def
        validate_credential_callbacks_def has_request_callback_def)
  from client_run.register [OF client_run.start this] have run: "client_run table_godbus demo_wiring ?c (True, True)" .
  from at_most_one_agent_is_registered [OF run, of 0] reg run show ?thesis by (auto intro!: exI)
qed

theorem closing_releases_everything_once_witness:
  "\<exists>c'. client_close (Some (client_of demo_wiring), (False, True)) = (Inr (), (Some c', (False, False)))
     \<and> client_close (Some c', (False, False)) = (Inr (), (Some c', (False, False)))"
proof -
  obtain r c' w' where run: "client_close (Some (client_of demo_wiring), (False, True)) = (r, (Some c', w'))"
    by (simp add: client_close_def client_of_def split_beta)
  have open_c: "\<not> cl_closed (client_of demo_wiring)" "cl_agent (client_of demo_wiring) = None"
    by (simp_all add: client_of_def)
  have wr: "w_conn demo_wiring = Some (flag_conn [IwdAgentManagerIface] (Inr []))" "w_cleaned demo_wiring = None"
    by (simp_all add: demo_wiring_def flag_wiring_def)
  note closing = closing_releases_everything_once [OF client_run.start open_c(1) wr run, where v = "(False, False)"]
  from closing [THEN conjunct1] have "w' = (False, False)" by (simp add: open_c(2))
  moreover from closing [THEN conjunct2, THEN conjunct1] have "r = Inr ()" by (simp add: open_c(2))
  moreover from closing [THEN conjunct2, THEN conjunct2, THEN conjunct1]
  have "client_close (Some c', (False, False)) = (r, (Some c', (False, False)))" .
  ultimately show ?thesis using run by blast
qed

definition demo_network_table :: properties where
  "demo_network_table =
     [(''Name'', VStr ''home''), (''Connected'', VBool True), (''Device'', VPath ''/d''),
      (''Type'', VStr ''open''), (''ExtendedServiceSet'', VPaths [])]"

lemma demo_network_core:
  "core_network_properties (network_on table_godbus store_object) demo_network_table =
     (Inr \<lparr>np_name = ''home'', np_connected = True, np_device = ''/d'', np_type = ''open'',
           np_known_network = None, np_ess = []\<rparr>, demo_network_table)"
proof -
  let ?p = "\<lparr>np_name = ''home'', np_connected = True, np_device = ''/d'', np_type = ''open'',
           np_known_network = None, np_ess = []\<rparr>"
  have trims: "trim_space ''home'' = ''home''" "trim_space ''/d'' = ''/d''"
    by (rule trim_space_plain; simp add: plain_def)+
  have "decode_network_properties table_godbus demo_network_table = Inr ?p"
    by (simp add: decode_network_properties_def demo_network_table_def required_field_def required_def field_or_def
        expect_string_def expect_bool_def parse_network_type_def parse_network_type_value_def network_type_defs
        plain_def)
  moreover have "normalize_network_properties ''Network.Properties'' ?p = Inr ?p"
    by (simp add: normalize_network_properties_def required_text_def Let_def trims validate_network_type_def
        network_type_defs normalize_path_list_def normalize_optional_string_def)
  ultimately show ?thesis
    unfolding core_network_properties_def new_core_network_def core_iffs iwd_network_raw_def
    by (auto simp: iwd_network_get_properties_def
        reads_report [of store_caller network_iwd, simplified, OF store_reports store_object_simps])
qed

definition demo_tree :: managed_objects where
  "demo_tree = [(''/d'', [(IwdDeviceIface, [(''Name'', VStr ''wlan0'')])])]"

definition demo_public_network :: "(nat, properties) public_network" where
  "demo_public_network =
     \<lparr>po_core = network_on table_godbus store_object, po_path = ''/n'',
      po_resolver = Some (go_return (Some demo_tree))\<rparr>"


end
