(* ===== verification/Client_Locks.thy ===== *)
theory Client_Locks
  imports Client_Runs
begin

text \<open>
  The locks of the public client (\<open>client.go\<close>, \<open>clientgeneric.go\<close>, \<open>agent.go\<close>) with any number of goroutines
  that call \<open>Close\<close>, \<open>RegisterAgent\<close>, \<open>Agent.Unregister\<close> and the methods that read the client, at the same time.

  A call is at a place of its code; \<open>goroutine\<close> is the piece that it does next, or nothing when it
  has to wait. \<open>closeMu\<close> is a \<open>sync.RWMutex\<close>: a writer first claims it, which keeps new readers out, and has it
  once the readers are gone. \<open>closeOnce\<close> and the \<open>clearOnce\<close> of a handle are done, running or not begun: they run
  while \<open>sc_closing\<close>, respectively while the handle is in \<open>sc_clearing\<close>. \<open>Agent.Unregister\<close> of core marks the agent
  under its own mutex and makes its two calls without it. The pieces on the client's data are those of the
  sequential definitions; a call on the bus is one piece, and what others do to the bus in
  between is the step \<open>world\<close>.
\<close>

subsection \<open>Calls and places\<close>

datatype called = CallClose | CallUnregister nat | CallRegister | CallRead

datatype purpose = ForCaller | ForClose

type_synonym ('act, 'w) body = "('act, 'w) client option \<Rightarrow> (gerror, 'w, unit) go"

datatype ('act, 'w) place =
    CloseOnce
  | CloseLock
  | CloseWait
  | CloseLocked
  | CloseCleanup
  | CloseLeave
  | UnregMark purpose nat
  | UnregTeardown purpose nat "'w core_agent"
  | UnregExport purpose nat "'w core_agent" "gerror option"
  | ClearOnce purpose nat "gerror + unit"
  | ClearLock purpose nat "gerror + unit"
  | ClearWait purpose nat "gerror + unit"
  | ClearLocked purpose nat "gerror + unit"
  | ClearLeave purpose nat "gerror + unit"
  | RegisterCheck "'w credential_callbacks"
  | RegisterLock "'w credential_callbacks"
  | RegisterWait "'w credential_callbacks"
  | RegisterLocked "'w credential_callbacks"
  | ReadLock "('act, 'w) body" "('act, 'w) body"
  | ReadLocked "('act, 'w) body" "('act, 'w) body"
  | Lookup "('act, 'w) body"
  | Returned called "gerror + unit"

text \<open>\<open>sc_cleanups\<close> counts (history only) how often the clean-up of the wiring was called.\<close>

record ('act, 'w) shared =
  sc_client :: "('act, 'w) client"
  sc_world :: 'w
  sc_writer :: "nat option"
  sc_readers :: nat
  sc_closing :: bool
  sc_clearing :: "nat set"
  sc_cleanups :: nat
  sc_calls :: "('act, 'w) place list"

definition init_shared :: "('act, 'w) wiring \<Rightarrow> 'w \<Rightarrow> ('act, 'w) shared" where
  "init_shared wr w =
     \<lparr>sc_client = client_of wr, sc_world = w, sc_writer = None, sc_readers = 0, sc_closing = False,
      sc_clearing = {}, sc_cleanups = 0, sc_calls = []\<rparr>"

subsection \<open>The pieces\<close>

text \<open>\<open>closeMu.Lock()\<close> of the call \<open>t\<close>: the claim, and the wait for the readers.\<close>

definition claim_lock :: "nat \<Rightarrow> ('act, 'w) shared \<Rightarrow> ('act, 'w) shared option" where
  "claim_lock t s = (if sc_writer s = None then Some (s\<lparr>sc_writer := Some t\<rparr>) else None)"

definition wait_readers :: "('act, 'w) shared \<Rightarrow> ('act, 'w) shared option" where
  "wait_readers s = (if sc_readers s = 0 then Some s else None)"

text \<open>The locked part of \<open>Close\<close>, up to \<open>closeMu.Unlock()\<close>; then the agent that was in the slot is unregistered.\<close>

definition close_section :: "('act, 'w) shared \<Rightarrow> ('act, 'w) place \<times> ('act, 'w) shared" where
  "close_section s =
     (case cl_agent (sc_client s) of None \<Rightarrow> CloseCleanup | Some i \<Rightarrow> UnregMark ForClose i,
      s\<lparr>sc_client := close_locked (sc_client s), sc_writer := None\<rparr>)"

definition cleanup_piece :: "('act, 'w) shared \<Rightarrow> ('act, 'w) shared" where
  "cleanup_piece s =
     (case client_cleanup (sc_client s, sc_world s) of
        (c, w) \<Rightarrow> s\<lparr>sc_client := c, sc_world := w, sc_cleanups := sc_cleanups s + 1\<rparr>)"

definition set_core :: "nat \<Rightarrow> 'w core_agent \<Rightarrow> ('act, 'w) client \<Rightarrow> ('act, 'w) client" where
  "set_core i a c = c\<lparr>cl_agents := (cl_agents c)[i := (cl_agents c ! i)\<lparr>ah_core := a\<rparr>]\<rparr>"

text \<open>\<open>Agent.Unregister\<close> of core: the part under its mutex, and after it the two calls.\<close>

definition mark_piece :: "purpose \<Rightarrow> nat \<Rightarrow> ('act, 'w) shared \<Rightarrow> ('act, 'w) place \<times> ('act, 'w) shared" where
  "mark_piece k i s =
     (let a = ah_core (cl_agents (sc_client s) ! i) in
      if \<not> registered a then (ClearOnce k i (Inr ()), s)
      else (UnregTeardown k i a, s\<lparr>sc_client := set_core i (a\<lparr>registered := False\<rparr>) (sc_client s)\<rparr>))"

definition teardown_piece ::
    "purpose \<Rightarrow> nat \<Rightarrow> 'w core_agent \<Rightarrow> ('act, 'w) shared \<Rightarrow> ('act, 'w) place \<times> ('act, 'w) shared" where
  "teardown_piece k i a s =
     (let b = cancel_ctx (currentCancel a) (ah_core (cl_agents (sc_client s) ! i));
          (unreg_err, w) = cleanup_call
            (wrap_agent_unavailable ''Agent.Unregister'' ''failed unregistering iwd agent'')
            (map_option (\<lambda>m. m (agent_path a)) (manager a)) (sc_world s)
      in (UnregExport k i a unreg_err, s\<lparr>sc_client := set_core i b (sc_client s), sc_world := w\<rparr>))"

definition export_piece ::
    "purpose \<Rightarrow> nat \<Rightarrow> 'w core_agent \<Rightarrow> gerror option \<Rightarrow> ('act, 'w) shared \<Rightarrow> ('act, 'w) place \<times> ('act, 'w) shared" where
  "export_piece k i a unreg_err s =
     (let (unexport_err, w) = cleanup_call
            (\<lambda>r. wrap_agent_unavailable ''Agent.Unregister'' ''failed unexporting agent object'' (Foreign r))
            (unexport a) (sc_world s)
      in (ClearOnce k i (join_errors unreg_err unexport_err), s\<lparr>sc_world := w\<rparr>))"

text \<open>The end of \<open>Agent.Unregister\<close>: back in \<open>Close\<close>, which drops the error, or to the caller.\<close>

definition unregister_ends :: "purpose \<Rightarrow> nat \<Rightarrow> gerror + unit \<Rightarrow> ('act, 'w) place" where
  "unregister_ends k i r =
     (case k of
        ForClose \<Rightarrow> CloseCleanup
      | ForCaller \<Rightarrow>
          Returned (CallUnregister i) (case r of Inl e \<Rightarrow> Inl (wrap_public_error ''Agent.Unregister'' e) | Inr _ \<Rightarrow> Inr ()))"

definition clear_once ::
    "purpose \<Rightarrow> nat \<Rightarrow> gerror + unit \<Rightarrow> ('act, 'w) shared \<Rightarrow> (('act, 'w) place \<times> ('act, 'w) shared) option" where
  "clear_once k i r s =
     (if i \<in> sc_clearing s then None
      else if ah_cleared (cl_agents (sc_client s) ! i) then Some (unregister_ends k i r, s)
      else Some (ClearLock k i r, s\<lparr>sc_clearing := insert i (sc_clearing s)\<rparr>))"

definition register_section ::
    "godbus \<Rightarrow> 'w credential_callbacks \<Rightarrow> ('act, 'w) shared \<Rightarrow> ('act, 'w) place \<times> ('act, 'w) shared" where
  "register_section g cc s =
     (case register_agent g cc (Some (sc_client s), sc_world s) of
        (r, (c, w)) \<Rightarrow>
          (Returned CallRegister (map_sum id (\<lambda>_. ()) r),
           s\<lparr>sc_client := (case c of None \<Rightarrow> sc_client s | Some d \<Rightarrow> d), sc_world := w, sc_writer := None\<rparr>))"

text \<open>A reading method runs its body under \<open>RLock\<close>; \<open>Station\<close> and \<open>AccessPoint\<close> look a name up after that, without it.\<close>

definition read_section ::
    "('act, 'w) body \<Rightarrow> ('act, 'w) body \<Rightarrow> ('act, 'w) shared \<Rightarrow> ('act, 'w) place \<times> ('act, 'w) shared" where
  "read_section f after s =
     (case f (Some (sc_client s)) (sc_world s) of
        (r, w) \<Rightarrow>
          (case r of Inl e \<Rightarrow> Returned CallRead (Inl e) | Inr _ \<Rightarrow> Lookup after,
           s\<lparr>sc_world := w, sc_readers := sc_readers s - 1\<rparr>))"

fun goroutine ::
    "godbus \<Rightarrow> nat \<Rightarrow> ('act, 'w) place \<Rightarrow> ('act, 'w) shared \<Rightarrow> (('act, 'w) place \<times> ('act, 'w) shared) option" where
  "goroutine g t CloseOnce s =
     (if sc_closing s then None
      else if cl_close_done (sc_client s) then Some (Returned CallClose (close_result (sc_client s)), s)
      else Some (CloseLock, s\<lparr>sc_closing := True\<rparr>))"
| "goroutine g t CloseLock s = map_option (Pair CloseWait) (claim_lock t s)"
| "goroutine g t CloseWait s = map_option (Pair CloseLocked) (wait_readers s)"
| "goroutine g t CloseLocked s = Some (close_section s)"
| "goroutine g t CloseCleanup s = Some (CloseLeave, cleanup_piece s)"
| "goroutine g t CloseLeave s =
     Some (Returned CallClose (close_result (sc_client s)), s\<lparr>sc_closing := False\<rparr>)"
| "goroutine g t (UnregMark k i) s = Some (mark_piece k i s)"
| "goroutine g t (UnregTeardown k i a) s = Some (teardown_piece k i a s)"
| "goroutine g t (UnregExport k i a e) s = Some (export_piece k i a e s)"
| "goroutine g t (ClearOnce k i r) s = clear_once k i r s"
| "goroutine g t (ClearLock k i r) s = map_option (Pair (ClearWait k i r)) (claim_lock t s)"
| "goroutine g t (ClearWait k i r) s = map_option (Pair (ClearLocked k i r)) (wait_readers s)"
| "goroutine g t (ClearLocked k i r) s =
     Some (ClearLeave k i r, s\<lparr>sc_client := clear_handle i (sc_client s), sc_writer := None\<rparr>)"
| "goroutine g t (ClearLeave k i r) s = Some (unregister_ends k i r, s\<lparr>sc_clearing := sc_clearing s - {i}\<rparr>)"
| "goroutine g t (RegisterCheck cc) s =
     Some (case validate_credential_callbacks cc ''Client.RegisterAgent'' of
             Inl e \<Rightarrow> Returned CallRegister (Inl (wrap_public_error ''Client.RegisterAgent'' e))
           | Inr _ \<Rightarrow> RegisterLock cc, s)"
| "goroutine g t (RegisterLock cc) s = map_option (Pair (RegisterWait cc)) (claim_lock t s)"
| "goroutine g t (RegisterWait cc) s = map_option (Pair (RegisterLocked cc)) (wait_readers s)"
| "goroutine g t (RegisterLocked cc) s = Some (register_section g cc s)"
| "goroutine g t (ReadLock f after) s =
     (if sc_writer s = None then Some (ReadLocked f after, s\<lparr>sc_readers := sc_readers s + 1\<rparr>) else None)"
| "goroutine g t (ReadLocked f after) s = Some (read_section f after s)"
| "goroutine g t (Lookup f) s =
     (case f (Some (sc_client s)) (sc_world s) of (r, w) \<Rightarrow> Some (Returned CallRead r, s\<lparr>sc_world := w\<rparr>))"
| "goroutine g t (Returned c r) s = None"

subsection \<open>Interleaving\<close>

inductive goroutine_step :: "godbus \<Rightarrow> ('act, 'w) shared \<Rightarrow> ('act, 'w) shared \<Rightarrow> bool" for g :: godbus where
  "t < length (sc_calls s) \<Longrightarrow> goroutine g t (sc_calls s ! t) s = Some (p, s')
     \<Longrightarrow> goroutine_step g s (s'\<lparr>sc_calls := (sc_calls s)[t := p]\<rparr>)"

text \<open>A call begins; something else happens to the bus; iwd calls an agent's object.\<close>

definition entry :: "('act, 'w) shared \<Rightarrow> ('act, 'w) place \<Rightarrow> bool" where
  "entry s p \<longleftrightarrow>
     p = CloseOnce \<or> (\<exists>i < length (cl_agents (sc_client s)). p = UnregMark ForCaller i)
     \<or> (\<exists>cc. p = RegisterCheck cc) \<or> (\<exists>f after. p = ReadLock f after)"

inductive outside_step :: "('act, 'w) shared \<Rightarrow> ('act, 'w) shared \<Rightarrow> bool" where
  begin_call: "entry s p \<Longrightarrow> outside_step s (s\<lparr>sc_calls := sc_calls s @ [p]\<rparr>)"
| world: "outside_step s (s\<lparr>sc_world := w\<rparr>)"
| event: "i < length (cl_agents (sc_client s)) \<Longrightarrow> agent_event (ah_core (cl_agents (sc_client s) ! i), sc_world s) (a, w)
    \<Longrightarrow> outside_step s (s\<lparr>sc_client := set_core i a (sc_client s), sc_world := w\<rparr>)"

inductive shared_reach :: "godbus \<Rightarrow> ('act, 'w) wiring \<Rightarrow> ('act, 'w) shared \<Rightarrow> bool"
  for g :: godbus and wr :: "('act, 'w) wiring" where
  init: "shared_reach g wr (init_shared wr w)"
| goroutine: "shared_reach g wr s \<Longrightarrow> goroutine_step g s t \<Longrightarrow> shared_reach g wr t"
| outside: "shared_reach g wr s \<Longrightarrow> outside_step s t \<Longrightarrow> shared_reach g wr t"

inductive_cases goroutine_stepE: "goroutine_step g s t"
inductive_cases outside_stepE: "outside_step s t"

lemmas lock_piece_defs = claim_lock_def wait_readers_def close_section_def cleanup_piece_def mark_piece_def
  teardown_piece_def export_piece_def unregister_ends_def clear_once_def register_section_def read_section_def

subsection \<open>Counting calls\<close>

definition calls_at :: "('p \<Rightarrow> bool) \<Rightarrow> 'p list \<Rightarrow> nat" where
  "calls_at P ps = length (filter P ps)"

lemma calls_at_append [simp]: "calls_at P (ps @ qs) = calls_at P ps + calls_at P qs"
  by (simp add: calls_at_def)

lemma calls_at_single [simp]: "calls_at P [p] = (if P p then 1 else 0)" "calls_at P [] = 0"
  by (simp_all add: calls_at_def)

lemma calls_at_split:
  assumes "t < length ps"
  shows "calls_at P ps = calls_at P (take t ps) + calls_at P (drop (Suc t) ps) + (if P (ps ! t) then 1 else 0)"
  by (subst id_take_nth_drop [OF assms], subst calls_at_append) (simp add: calls_at_def)

lemma calls_at_update:
  assumes "t < length ps"
  shows "calls_at P (ps[t := p]) + (if P (ps ! t) then 1 else 0) = calls_at P ps + (if P p then 1 else 0)"
  using calls_at_split [OF assms, of P] calls_at_split [of t "ps[t := p]" P] assms by simp

lemma calls_at_pos: "t < length ps \<Longrightarrow> P (ps ! t) \<Longrightarrow> 0 < calls_at P ps"
  using calls_at_split [of t ps P] by simp

lemma calls_at_ex: "0 < calls_at P ps \<Longrightarrow> \<exists>t < length ps. P (ps ! t)"
  by (auto simp: calls_at_def filter_empty_conv in_set_conv_nth)

lemma calls_at_unique:
  assumes "calls_at P ps \<le> 1" and "t < length ps" "P (ps ! t)" and "u < length ps" "P (ps ! u)"
  shows "u = t"
proof (rule ccontr)
  assume "u \<noteq> t"
  have "calls_at P (take t ps) + calls_at P (drop (Suc t) ps) = 0"
    using assms(1,3) calls_at_split [OF assms(2), of P] by simp
  then have "\<forall>p \<in> set (take t ps) \<union> set (drop (Suc t) ps). \<not> P p"
    by (auto simp: calls_at_def filter_empty_conv)
  moreover have "ps ! u \<in> set (take t ps) \<union> set (drop (Suc t) ps)"
  proof (cases "u < t")
    case True
    then show ?thesis using assms(2) by (force simp: in_set_conv_nth)
  next
    case False
    with \<open>u \<noteq> t\<close> have "drop (Suc t) ps ! (u - Suc t) = ps ! u" "u - Suc t < length (drop (Suc t) ps)"
      using assms(4) by auto
    then show ?thesis by (metis UnCI nth_mem)
  qed
  ultimately show False using assms(5) by blast
qed

subsection \<open>The locks\<close>

text \<open>Claims or holds \<open>closeMu\<close>; holds it; reads under it; is in the body of \<open>closeOnce\<close>, of the \<open>clearOnce\<close> of \<open>i\<close>.\<close>

fun writes :: "('act, 'w) place \<Rightarrow> bool" where
  "writes CloseWait \<longleftrightarrow> True" | "writes CloseLocked \<longleftrightarrow> True"
| "writes (ClearWait k i r) \<longleftrightarrow> True" | "writes (ClearLocked k i r) \<longleftrightarrow> True"
| "writes (RegisterWait cc) \<longleftrightarrow> True" | "writes (RegisterLocked cc) \<longleftrightarrow> True"
| "writes _ \<longleftrightarrow> False"

fun locked :: "('act, 'w) place \<Rightarrow> bool" where
  "locked CloseLocked \<longleftrightarrow> True" | "locked (ClearLocked k i r) \<longleftrightarrow> True" | "locked (RegisterLocked cc) \<longleftrightarrow> True"
| "locked _ \<longleftrightarrow> False"

fun reads :: "('act, 'w) place \<Rightarrow> bool" where
  "reads (ReadLocked f after) \<longleftrightarrow> True" | "reads _ \<longleftrightarrow> False"

fun closes :: "('act, 'w) place \<Rightarrow> bool" where
  "closes CloseLock \<longleftrightarrow> True" | "closes CloseWait \<longleftrightarrow> True" | "closes CloseLocked \<longleftrightarrow> True"
| "closes CloseCleanup \<longleftrightarrow> True" | "closes CloseLeave \<longleftrightarrow> True"
| "closes (UnregMark k i) \<longleftrightarrow> k = ForClose" | "closes (UnregTeardown k i a) \<longleftrightarrow> k = ForClose"
| "closes (UnregExport k i a e) \<longleftrightarrow> k = ForClose" | "closes (ClearOnce k i r) \<longleftrightarrow> k = ForClose"
| "closes (ClearLock k i r) \<longleftrightarrow> k = ForClose" | "closes (ClearWait k i r) \<longleftrightarrow> k = ForClose"
| "closes (ClearLocked k i r) \<longleftrightarrow> k = ForClose" | "closes (ClearLeave k i r) \<longleftrightarrow> k = ForClose"
| "closes _ \<longleftrightarrow> False"

fun clears :: "nat \<Rightarrow> ('act, 'w) place \<Rightarrow> bool" where
  "clears j (ClearLock k i r) \<longleftrightarrow> i = j" | "clears j (ClearWait k i r) \<longleftrightarrow> i = j"
| "clears j (ClearLocked k i r) \<longleftrightarrow> i = j" | "clears j (ClearLeave k i r) \<longleftrightarrow> i = j"
| "clears j _ \<longleftrightarrow> False"

definition lock_inv :: "('act, 'w) shared \<Rightarrow> bool" where
  "lock_inv s \<longleftrightarrow>
     (\<forall>t. sc_writer s = Some t \<longleftrightarrow> t < length (sc_calls s) \<and> writes (sc_calls s ! t))
     \<and> calls_at reads (sc_calls s) = sc_readers s
     \<and> (\<forall>t < length (sc_calls s). locked (sc_calls s ! t) \<longrightarrow> sc_readers s = 0)
     \<and> calls_at closes (sc_calls s) = (if sc_closing s then 1 else 0)
     \<and> (\<forall>i. calls_at (clears i) (sc_calls s) = (if i \<in> sc_clearing s then 1 else 0))"

lemma locked_writes: "locked p \<Longrightarrow> writes p"
  by (cases p) auto

lemma unregister_ends_simps [simp]:
  "\<not> writes (unregister_ends k i r)" "\<not> locked (unregister_ends k i r)" "\<not> reads (unregister_ends k i r)"
  "closes (unregister_ends k i r) \<longleftrightarrow> k = ForClose" "\<not> clears j (unregister_ends k i r)"
  by (cases k; simp add: unregister_ends_def)+

text \<open>How the locks and the place of a call change in one of its pieces.\<close>

lemma goroutine_locks:
  assumes "goroutine g t q s = Some (p, s')"
  shows "(sc_writer s' = sc_writer s \<and> writes p = writes q
          \<or> sc_writer s = None \<and> sc_writer s' = Some t \<and> writes p \<and> \<not> locked p \<and> \<not> writes q
          \<or> sc_writer s' = None \<and> writes q \<and> locked q \<and> \<not> writes p)
       \<and> (sc_readers s' = sc_readers s \<and> reads p = reads q
          \<or> sc_writer s = None \<and> sc_readers s' = sc_readers s + 1 \<and> reads p \<and> \<not> reads q \<and> \<not> writes q
          \<or> sc_readers s' = sc_readers s - 1 \<and> reads q \<and> \<not> reads p \<and> \<not> writes q)
       \<and> (locked p \<longrightarrow> sc_readers s = 0 \<and> sc_readers s' = 0)
       \<and> (sc_closing s' = sc_closing s \<and> closes p = closes q
          \<or> \<not> sc_closing s \<and> sc_closing s' \<and> closes p \<and> \<not> closes q
          \<or> \<not> sc_closing s' \<and> closes q \<and> \<not> closes p)
       \<and> (\<forall>i. (i \<in> sc_clearing s' \<longleftrightarrow> i \<in> sc_clearing s) \<and> clears i p = clears i q
          \<or> i \<notin> sc_clearing s \<and> i \<in> sc_clearing s' \<and> clears i p \<and> \<not> clears i q
          \<or> i \<notin> sc_clearing s' \<and> clears i q \<and> \<not> clears i p)"
  using assms
  by (cases q; hypsubst; auto simp: lock_piece_defs Let_def split: if_splits prod.splits option.splits sum.splits purpose.splits)

lemma lock_inv_goroutine:
  assumes inv: "lock_inv s" and t: "t < length (sc_calls s)" and run: "goroutine g t (sc_calls s ! t) s = Some (p, s')"
  shows "lock_inv (s'\<lparr>sc_calls := (sc_calls s)[t := p]\<rparr>)"
proof -
  let ?q = "sc_calls s ! t"
  note step = goroutine_locks [OF run]
  have writer: "sc_writer s = Some u \<longleftrightarrow> u < length (sc_calls s) \<and> writes (sc_calls s ! u)" for u
    using inv by (simp add: lock_inv_def)
  have readers: "calls_at reads (sc_calls s) = sc_readers s" using inv by (simp add: lock_inv_def)
  have alone: "sc_writer s = Some t" if "writes ?q" using writer [of t] t that by simp
  have "sc_writer s' = Some u \<longleftrightarrow> u < length (sc_calls s) \<and> writes ((sc_calls s)[t := p] ! u)" for u
    using step [THEN conjunct1] writer [of u] writer [of t] t by (auto simp: nth_list_update)
  moreover have "calls_at reads ((sc_calls s)[t := p]) = sc_readers s'"
    using step [THEN conjunct2, THEN conjunct1] calls_at_update [OF t, of reads p] readers by auto
  moreover have "sc_readers s' = 0" if u: "u < length (sc_calls s)" and l: "locked ((sc_calls s)[t := p] ! u)" for u
  proof (cases "u = t")
    case True
    with l t have "locked p" by simp
    with step show ?thesis by blast
  next
    case False
    with l have lu: "locked (sc_calls s ! u)" by simp
    then have wu: "sc_writer s = Some u" using writer [of u] u locked_writes by blast
    have "sc_readers s = 0" using inv u lu by (auto simp: lock_inv_def)
    with wu show ?thesis using step [THEN conjunct2, THEN conjunct1] by auto
  qed
  moreover have "calls_at closes ((sc_calls s)[t := p]) = (if sc_closing s' then 1 else 0)"
    using step [THEN conjunct2, THEN conjunct2, THEN conjunct2, THEN conjunct1] calls_at_update [OF t, of closes p] inv
    by (auto simp: lock_inv_def split: if_splits)
  moreover have "calls_at (clears i) ((sc_calls s)[t := p]) = (if i \<in> sc_clearing s' then 1 else 0)" for i
  proof -
    have "calls_at (clears i) (sc_calls s) = (if i \<in> sc_clearing s then 1 else 0)" using inv by (simp add: lock_inv_def)
    with step [THEN conjunct2, THEN conjunct2, THEN conjunct2, THEN conjunct2, THEN spec, of i]
      calls_at_update [OF t, of "clears i" p]
    show ?thesis by (auto split: if_splits)
  qed
  ultimately show ?thesis by (simp add: lock_inv_def)
qed

lemma lock_inv_outside: "outside_step s t \<Longrightarrow> lock_inv s \<Longrightarrow> lock_inv t"
proof (induction rule: outside_step.induct)
  case (begin_call s p)
  then have "\<not> writes p" "\<not> reads p" "\<not> locked p" "\<not> closes p" "\<not> clears i p" for i
    by (auto simp: entry_def)
  with begin_call.prems show ?case by (auto simp: lock_inv_def nth_append)
qed (auto simp: lock_inv_def)

lemma lock_inv_reach: "shared_reach g wr s \<Longrightarrow> lock_inv s"
proof (induction rule: shared_reach.induct)
  case (init w)
  then show ?case by (simp add: init_shared_def lock_inv_def)
next
  case (goroutine s t)
  from goroutine.hyps(2) show ?case by (rule goroutine_stepE) (simp add: lock_inv_goroutine goroutine.IH)
next
  case (outside s t)
  then show ?case by (blast intro: lock_inv_outside)
qed

subsection \<open>Every call ends\<close>

fun returned :: "('act, 'w) place \<Rightarrow> bool" where
  "returned (Returned c r) \<longleftrightarrow> True" | "returned _ \<longleftrightarrow> False"

text \<open>The pieces that a call still has to do, at most.\<close>

definition after_clear :: "purpose \<Rightarrow> nat" where
  "after_clear k = (case k of ForCaller \<Rightarrow> 0 | ForClose \<Rightarrow> 2)"

fun pieces_left :: "('act, 'w) place \<Rightarrow> nat" where
  "pieces_left CloseOnce = 14" | "pieces_left CloseLock = 13" | "pieces_left CloseWait = 12"
| "pieces_left CloseLocked = 11" | "pieces_left CloseCleanup = 2" | "pieces_left CloseLeave = 1"
| "pieces_left (UnregMark k i) = after_clear k + 8" | "pieces_left (UnregTeardown k i a) = after_clear k + 7"
| "pieces_left (UnregExport k i a e) = after_clear k + 6" | "pieces_left (ClearOnce k i r) = after_clear k + 5"
| "pieces_left (ClearLock k i r) = after_clear k + 4" | "pieces_left (ClearWait k i r) = after_clear k + 3"
| "pieces_left (ClearLocked k i r) = after_clear k + 2" | "pieces_left (ClearLeave k i r) = after_clear k + 1"
| "pieces_left (RegisterCheck cc) = 4" | "pieces_left (RegisterLock cc) = 3" | "pieces_left (RegisterWait cc) = 2"
| "pieces_left (RegisterLocked cc) = 1" | "pieces_left (ReadLock f after) = 3" | "pieces_left (ReadLocked f after) = 2"
| "pieces_left (Lookup f) = 1" | "pieces_left (Returned c r) = 0"

lemma pieces_left_bound: "pieces_left p \<le> 14"
  by (cases p) (auto simp: after_clear_def split: purpose.split)

lemma pieces_left_unregister_ends [simp]: "pieces_left (unregister_ends k i r) = after_clear k"
  by (cases k) (simp_all add: unregister_ends_def after_clear_def)

lemma goroutine_does_a_piece: "goroutine g t q s = Some (p, s') \<Longrightarrow> pieces_left p < pieces_left q"
  by (cases q; hypsubst; auto simp: lock_piece_defs Let_def after_clear_def
      split: if_splits prod.splits option.splits sum.splits purpose.splits)

definition all_left :: "('act, 'w) shared \<Rightarrow> nat" where
  "all_left s = sum_list (map pieces_left (sc_calls s))"

lemma sum_list_update_less: "t < length xs \<Longrightarrow> f p < f (xs ! t) \<Longrightarrow> sum_list (map f (xs[t := p])) < sum_list (map f xs)"
  for f :: "'p \<Rightarrow> nat"
proof (induction xs arbitrary: t)
  case (Cons x xs)
  then show ?case by (cases t) auto
qed simp

lemma goroutine_step_less: "goroutine_step g s u \<Longrightarrow> all_left u < all_left s \<and> length (sc_calls u) = length (sc_calls s)"
  by (erule goroutine_stepE) (auto simp: all_left_def intro!: sum_list_update_less dest: goroutine_does_a_piece)

lemma goroutine_steps_less:
  "(goroutine_step g ^^ n) s u \<Longrightarrow> n + all_left u \<le> all_left s \<and> length (sc_calls u) = length (sc_calls s)"
proof (induction n arbitrary: u)
  case (Suc n)
  then obtain v where "(goroutine_step g ^^ n) s v" "goroutine_step g v u" by auto
  with Suc.IH [of v] goroutine_step_less [of g v u] show ?case by auto
qed simp

lemma all_left_bound: "all_left s \<le> 14 * length (sc_calls s)"
proof -
  have "sum_list (map pieces_left ps) \<le> 14 * length ps" for ps :: "('act, 'w) place list"
    by (induction ps) (use pieces_left_bound in \<open>auto intro: add_mono\<close>)
  then show ?thesis by (simp add: all_left_def)
qed

text \<open>What a call can wait for.\<close>

lemma goroutine_waits:
  assumes "goroutine g t q s = None"
  shows "returned q \<or> sc_closing s \<and> q = CloseOnce
       \<or> (\<exists>k i r. q = ClearOnce k i r \<and> i \<in> sc_clearing s)
       \<or> sc_writer s \<noteq> None \<and> \<not> writes q \<and> \<not> reads q
       \<or> writes q \<and> \<not> locked q \<and> sc_readers s \<noteq> 0"
  using assms
  by (cases q; hypsubst; auto simp: claim_lock_def wait_readers_def clear_once_def split: if_splits prod.splits)

lemma no_deadlock:
  assumes inv: "lock_inv s" and t: "t < length (sc_calls s)" "\<not> returned (sc_calls s ! t)"
  shows "\<exists>u. goroutine_step g s u"
proof (rule ccontr)
  assume "\<nexists>u. goroutine_step g s u"
  then have stuck: "goroutine g v (sc_calls s ! v) s = None" if "v < length (sc_calls s)" for v
    using goroutine_step.intros [OF that] by (metis not_Some_eq surj_pair)
  have readers: "sc_readers s = 0"
  proof (rule ccontr)
    assume "sc_readers s \<noteq> 0"
    then have "0 < calls_at reads (sc_calls s)" using inv by (simp add: lock_inv_def)
    then obtain v where v: "v < length (sc_calls s)" "reads (sc_calls s ! v)" by (blast dest: calls_at_ex)
    with stuck [OF v(1)] show False by (cases "sc_calls s ! v") auto
  qed
  have writer: "sc_writer s = None"
  proof (rule ccontr)
    assume "sc_writer s \<noteq> None"
    then obtain v where v: "v < length (sc_calls s)" "writes (sc_calls s ! v)" using inv by (auto simp: lock_inv_def)
    from goroutine_waits [OF stuck [OF v(1)]] v(2) readers show False by (cases "sc_calls s ! v") auto
  qed
  have free: "i \<notin> sc_clearing s" for i
  proof
    assume "i \<in> sc_clearing s"
    then have "0 < calls_at (clears i) (sc_calls s)" using inv by (simp add: lock_inv_def)
    then obtain v where v: "v < length (sc_calls s)" "clears i (sc_calls s ! v)" by (blast dest: calls_at_ex)
    from goroutine_waits [OF stuck [OF v(1)]] v(2) readers writer show False by (cases "sc_calls s ! v") auto
  qed
  have "\<not> sc_closing s"
  proof
    assume "sc_closing s"
    then have "0 < calls_at closes (sc_calls s)" using inv by (simp add: lock_inv_def)
    then obtain v where v: "v < length (sc_calls s)" "closes (sc_calls s ! v)" by (blast dest: calls_at_ex)
    from goroutine_waits [OF stuck [OF v(1)]] v(2) readers writer free show False by (cases "sc_calls s ! v") auto
  qed
  with goroutine_waits [OF stuck [OF t(1)]] t(2) readers writer free show False by auto
qed

subsection \<open>What the calls leave behind\<close>

text \<open>The agents that are registered.\<close>

definition live :: "('act, 'w) client \<Rightarrow> nat set" where
  "live c = {i. i < length (cl_agents c) \<and> registered (ah_core (cl_agents c ! i))}"

text \<open>What a call knows at its place.\<close>

definition close_knows :: "purpose \<Rightarrow> nat set \<Rightarrow> ('act, 'w) shared \<Rightarrow> bool" where
  "close_knows k A s \<longleftrightarrow>
     k = ForClose \<longrightarrow> cl_close_done (sc_client s) \<and> sc_cleanups s = 0 \<and> live (sc_client s) \<subseteq> A"

definition handle_dead :: "nat \<Rightarrow> ('act, 'w) shared \<Rightarrow> bool" where
  "handle_dead i s \<longleftrightarrow> i < length (cl_agents (sc_client s)) \<and> i \<notin> live (sc_client s)"

definition handle_uncleared :: "nat \<Rightarrow> ('act, 'w) shared \<Rightarrow> bool" where
  "handle_uncleared i s \<longleftrightarrow> \<not> ah_cleared (cl_agents (sc_client s) ! i)"

fun place_ok :: "('act, 'w) place \<Rightarrow> ('act, 'w) shared \<Rightarrow> bool" where
  "place_ok CloseLock s \<longleftrightarrow> \<not> cl_close_done (sc_client s)"
| "place_ok CloseWait s \<longleftrightarrow> \<not> cl_close_done (sc_client s)"
| "place_ok CloseLocked s \<longleftrightarrow> \<not> cl_close_done (sc_client s)"
| "place_ok CloseCleanup s \<longleftrightarrow> close_knows ForClose {} s"
| "place_ok CloseLeave s \<longleftrightarrow> cl_close_done (sc_client s) \<and> sc_cleanups s = 1 \<and> live (sc_client s) = {}"
| "place_ok (UnregMark k i) s \<longleftrightarrow> i < length (cl_agents (sc_client s)) \<and> close_knows k {i} s"
| "place_ok (UnregTeardown k i a) s \<longleftrightarrow> handle_dead i s \<and> close_knows k {} s"
| "place_ok (UnregExport k i a e) s \<longleftrightarrow> handle_dead i s \<and> close_knows k {} s"
| "place_ok (ClearOnce k i r) s \<longleftrightarrow> handle_dead i s \<and> close_knows k {} s"
| "place_ok (ClearLock k i r) s \<longleftrightarrow> handle_dead i s \<and> handle_uncleared i s \<and> close_knows k {} s"
| "place_ok (ClearWait k i r) s \<longleftrightarrow> handle_dead i s \<and> handle_uncleared i s \<and> close_knows k {} s"
| "place_ok (ClearLocked k i r) s \<longleftrightarrow> handle_dead i s \<and> handle_uncleared i s \<and> close_knows k {} s"
| "place_ok (ClearLeave k i r) s \<longleftrightarrow> handle_dead i s \<and> close_knows k {} s"
| "place_ok (Returned c r) s \<longleftrightarrow>
     (c = CallClose \<longrightarrow> cl_close_done (sc_client s) \<and> \<not> sc_closing s \<and> r = close_result (sc_client s))"
| "place_ok _ s \<longleftrightarrow> True"

definition client_data :: "('act, 'w) shared \<Rightarrow> bool" where
  "client_data s \<longleftrightarrow>
     (let c = sc_client s in
      cl_closed c = cl_close_done c
      \<and> (cl_close_done c \<longrightarrow> cl_agent c = None)
      \<and> (\<forall>i. cl_agent c = Some i \<longrightarrow> i < length (cl_agents c) \<and> \<not> ah_cleared (cl_agents c ! i))
      \<and> (\<not> cl_close_done c \<longrightarrow> live c \<subseteq> set_option (cl_agent c) \<and> sc_cleanups s = 0)
      \<and> (cl_close_done c \<and> \<not> sc_closing s \<longrightarrow> live c = {} \<and> sc_cleanups s = 1))"

text \<open>How a piece may change the data: it keeps what the other calls know.\<close>

definition data_step :: "('act, 'w) place \<Rightarrow> ('act, 'w) shared \<Rightarrow> ('act, 'w) shared \<Rightarrow> bool" where
  "data_step q s s' \<longleftrightarrow>
     (let c = sc_client s; c' = sc_client s' in
      length (cl_agents c) \<le> length (cl_agents c')
      \<and> (\<forall>i < length (cl_agents c). i \<in> live c' \<longrightarrow> i \<in> live c)
      \<and> (cl_close_done c \<longrightarrow> cl_close_done c' \<and> live c' \<subseteq> live c)
      \<and> (\<not> closes q \<longrightarrow> cl_close_done c' = cl_close_done c \<and> sc_cleanups s' = sc_cleanups s)
      \<and> (\<forall>i < length (cl_agents c). \<not> clears i q \<longrightarrow> ah_cleared (cl_agents c' ! i) = ah_cleared (cl_agents c ! i))
      \<and> (\<not> closes q \<and> cl_close_done c \<and> \<not> sc_closing s \<longrightarrow> \<not> sc_closing s' \<and> close_result c' = close_result c))"

lemma data_step_place_ok:
  assumes "data_step q s s'" and "place_ok x s"
    and "closes x \<Longrightarrow> \<not> closes q" and "\<And>i. clears i x \<Longrightarrow> \<not> clears i q" and "closes q \<Longrightarrow> sc_closing s"
  shows "place_ok x s'"
  using assms
  by (cases x; hypsubst; force simp: data_step_def close_knows_def handle_dead_def handle_uncleared_def Let_def)

lemma nth_update: "xs[i := y] ! j = (if i = j \<and> i < length xs then y else xs ! j)"
  by (cases "i < length xs") (auto simp: list_update_beyond)

lemma live_simps [simp]:
  "live (close_locked c) = live c"
  "live (clear_handle i c) = live c"
  by (auto simp: live_def clear_handle_def nth_update split: if_splits)

lemma live_set_core: "registered b \<longrightarrow> registered (ah_core (cl_agents c ! i)) \<Longrightarrow>
    live (set_core i b c) = (if registered b then live c else live c - {i})"
  by (auto simp: live_def set_core_def nth_update split: if_splits)

lemma set_core_simps [simp]:
  "length (cl_agents (set_core i b c)) = length (cl_agents c)" "cl_agent (set_core i b c) = cl_agent c"
  "cl_closed (set_core i b c) = cl_closed c" "cl_close_done (set_core i b c) = cl_close_done c"
  "close_result (set_core i b c) = close_result c" "cl_wire (set_core i b c) = cl_wire c"
  "ah_cleared (cl_agents (set_core i b c) ! j) = ah_cleared (cl_agents c ! j)"
  by (auto simp: set_core_def close_result_def nth_update)

lemma clear_handle_simps [simp]:
  "length (cl_agents (clear_handle i c)) = length (cl_agents c)"
  "cl_closed (clear_handle i c) = cl_closed c" "cl_close_done (clear_handle i c) = cl_close_done c"
  "close_result (clear_handle i c) = close_result c"
  by (auto simp: clear_handle_def close_result_def)

text \<open>The pieces one by one.\<close>

lemma data_same: "sc_client s' = sc_client s \<Longrightarrow> sc_cleanups s' = sc_cleanups s \<Longrightarrow> sc_closing s' = sc_closing s \<Longrightarrow>
    data_step q s s' \<and> (client_data s' \<longleftrightarrow> client_data s)"
  by (simp add: data_step_def client_data_def Let_def)

lemma same_place_ok: "sc_client s' = sc_client s \<Longrightarrow> sc_cleanups s' = sc_cleanups s \<Longrightarrow> sc_closing s' = sc_closing s \<Longrightarrow>
    place_ok p s' \<longleftrightarrow> place_ok p s"
  by (cases p) (simp_all add: close_knows_def handle_dead_def handle_uncleared_def)

definition piece_fine :: "('act, 'w) place \<Rightarrow> ('act, 'w) place \<Rightarrow> ('act, 'w) shared \<Rightarrow> ('act, 'w) shared \<Rightarrow> bool" where
  "piece_fine q p s s' \<longleftrightarrow> data_step q s s' \<and> place_ok p s' \<and> client_data s'"

lemma fine_close_section:
  "client_data s \<Longrightarrow> place_ok CloseLocked s \<Longrightarrow> sc_closing s \<Longrightarrow> close_section s = (p, s') \<Longrightarrow> piece_fine CloseLocked p s s'"
  by (auto simp: piece_fine_def data_step_def client_data_def close_section_def close_knows_def Let_def split: option.splits)

lemma fine_cleanup:
  assumes "client_data s" "place_ok CloseCleanup s" "sc_closing s"
  shows "piece_fine CloseCleanup CloseLeave s (cleanup_piece s)"
proof -
  obtain c w where cw: "client_cleanup (sc_client s, sc_world s) = (c, w)" by (rule prod.exhaust)
  from client_cleanup_keeps [OF cw] have "live c = live (sc_client s)" by (simp add: live_def)
  with client_cleanup_keeps [OF cw] assms show ?thesis
    by (auto simp: piece_fine_def data_step_def client_data_def cleanup_piece_def cw close_knows_def Let_def)
qed

lemma fine_leave:
  "client_data s \<Longrightarrow> place_ok CloseLeave s \<Longrightarrow>
     piece_fine CloseLeave (Returned CallClose (close_result (sc_client s))) s (s\<lparr>sc_closing := False\<rparr>)"
  by (auto simp: piece_fine_def data_step_def client_data_def Let_def)

lemma fine_set_core:
  assumes "client_data s" and "registered b \<longrightarrow> registered (ah_core (cl_agents (sc_client s) ! i))"
  shows "data_step q s (s\<lparr>sc_client := set_core i b (sc_client s), sc_world := w\<rparr>)
       \<and> client_data (s\<lparr>sc_client := set_core i b (sc_client s), sc_world := w\<rparr>)"
  using assms by (auto simp: data_step_def client_data_def Let_def live_set_core split: if_splits)

lemma fine_mark:
  assumes "client_data s" "place_ok (UnregMark k i) s" "mark_piece k i s = (p, s')"
  shows "piece_fine (UnregMark k i) p s s'"
proof (cases "registered (ah_core (cl_agents (sc_client s) ! i))")
  case False
  with assms(3) have "s' = s" "p = ClearOnce k i (Inr ())" by (simp_all add: mark_piece_def Let_def)
  moreover have "i \<notin> live (sc_client s)" using False by (simp add: live_def)
  ultimately show ?thesis
    using assms(1,2) data_same [of s s "UnregMark k i"] by (auto simp: piece_fine_def handle_dead_def close_knows_def)
next
  case True
  let ?a = "ah_core (cl_agents (sc_client s) ! i)"
  from True assms(3) have s': "s' = s\<lparr>sc_client := set_core i (?a\<lparr>registered := False\<rparr>) (sc_client s), sc_world := sc_world s\<rparr>"
    and p: "p = UnregTeardown k i ?a" by (auto simp: mark_piece_def Let_def)
  have "live (set_core i (?a\<lparr>registered := False\<rparr>) (sc_client s)) = live (sc_client s) - {i}" by (simp add: live_set_core)
  with assms(2) have "place_ok p s'" by (auto simp: p s' handle_dead_def close_knows_def)
  with fine_set_core [OF assms(1), of "?a\<lparr>registered := False\<rparr>" i "UnregMark k i" "sc_world s"] show ?thesis
    by (simp add: piece_fine_def s')
qed

lemma fine_teardown:
  assumes "client_data s" "place_ok (UnregTeardown k i a) s" "teardown_piece k i a s = (p, s')"
  shows "piece_fine (UnregTeardown k i a) p s s'"
proof -
  let ?b = "cancel_ctx (currentCancel a) (ah_core (cl_agents (sc_client s) ! i))"
  obtain e w where p: "p = UnregExport k i a e" and s': "s' = s\<lparr>sc_client := set_core i ?b (sc_client s), sc_world := w\<rparr>"
    using assms(3) by (auto simp: teardown_piece_def Let_def split: prod.splits)
  have "\<not> registered ?b" using assms(2) by (auto simp: handle_dead_def live_def)
  then have "live (set_core i ?b (sc_client s)) = live (sc_client s)"
    using assms(2) by (auto simp: live_set_core handle_dead_def)
  with assms(2) have "place_ok p s'" by (auto simp: p s' handle_dead_def close_knows_def)
  with fine_set_core [OF assms(1), of ?b i "UnregTeardown k i a" w] show ?thesis
    by (simp add: piece_fine_def s')
qed

lemma fine_unregister_ends:
  "client_data s' \<Longrightarrow> close_knows k {} s' \<Longrightarrow> place_ok (unregister_ends k i r) s'"
  by (cases k) (simp_all add: unregister_ends_def)

lemma fine_clear_locked:
  assumes "client_data s" "place_ok (ClearLocked k i r) s"
  shows "piece_fine (ClearLocked k i r) (ClearLeave k i r) s
           (s\<lparr>sc_client := clear_handle i (sc_client s), sc_writer := None\<rparr>)"
proof -
  have i: "i < length (cl_agents (sc_client s))" "i \<notin> live (sc_client s)" "\<not> ah_cleared (cl_agents (sc_client s) ! i)"
    "close_knows k {} s" using assms(2) by (auto simp: handle_dead_def handle_uncleared_def)
  have c: "clear_handle i (sc_client s) = (sc_client s)
      \<lparr>cl_agents := (cl_agents (sc_client s))[i := (cl_agents (sc_client s) ! i)\<lparr>ah_cleared := True\<rparr>],
       cl_agent := (if cl_agent (sc_client s) = Some i then None else cl_agent (sc_client s))\<rparr>"
    using i(3) by (simp add: clear_handle_def)
  have "data_step (ClearLocked k i r) s (s\<lparr>sc_client := clear_handle i (sc_client s), sc_writer := None\<rparr>)"
    by (auto simp: data_step_def Let_def) (auto simp: c nth_update)
  moreover have "client_data (s\<lparr>sc_client := clear_handle i (sc_client s), sc_writer := None\<rparr>)"
    using assms(1) i by (auto simp: client_data_def Let_def) (auto simp: c nth_update split: if_splits)
  ultimately show ?thesis using i by (simp add: piece_fine_def handle_dead_def close_knows_def)
qed

lemma fine_register:
  assumes "client_data s" "register_section g cc s = (p, s')"
  shows "piece_fine (RegisterLocked cc) p s s'"
proof -
  obtain r c w where run: "register_agent g cc (Some (sc_client s), sc_world s) = (r, (c, w))" by (metis prod.exhaust)
  then consider "c = Some (sc_client s)"
    | a where "\<not> cl_closed (sc_client s)" "cl_agent (sc_client s) = None"
      "c = Some ((sc_client s)\<lparr>cl_agents := cl_agents (sc_client s) @ [\<lparr>ah_core = a, ah_cleared = False\<rparr>],
              cl_agent := Some (length (cl_agents (sc_client s)))\<rparr>)"
    by (auto simp: register_agent_def Let_def split: if_splits sum.splits prod.splits)
  then show ?thesis
  proof cases
    case 1
    with assms(2) run have "sc_client s' = sc_client s" "sc_cleanups s' = sc_cleanups s" "sc_closing s' = sc_closing s"
      and p: "p = Returned CallRegister (map_sum id (\<lambda>_. ()) r)"
      by (auto simp: register_section_def)
    from data_same [OF this(1-3)] assms(1) show ?thesis by (simp add: piece_fine_def p)
  next
    case (2 a)
    let ?d = "(sc_client s)\<lparr>cl_agents := cl_agents (sc_client s) @ [\<lparr>ah_core = a, ah_cleared = False\<rparr>],
              cl_agent := Some (length (cl_agents (sc_client s)))\<rparr>"
    have live: "live ?d \<subseteq> live (sc_client s) \<union> {length (cl_agents (sc_client s))}"
      by (auto simp: live_def nth_append less_Suc_eq split: if_splits)
    from assms(2) run 2(3) have s': "sc_client s' = ?d" "sc_cleanups s' = sc_cleanups s" "sc_closing s' = sc_closing s"
      and p: "p = Returned CallRegister (map_sum id (\<lambda>_. ()) r)" by (auto simp: register_section_def)
    from assms(1) 2(1,2) have open_c: "\<not> cl_close_done (sc_client s)" "live (sc_client s) = {}" "sc_cleanups s = 0"
      by (auto simp: client_data_def Let_def)
    have "data_step (RegisterLocked cc) s s'"
      using open_c live by (auto simp: data_step_def s' Let_def nth_append)
    moreover have "client_data s'"
      using assms(1) open_c 2(1) live by (auto simp: client_data_def s' Let_def nth_append)
    ultimately show ?thesis by (simp add: piece_fine_def p)
  qed
qed

lemma fine_same:
  assumes "client_data s" and "sc_client s' = sc_client s" "sc_cleanups s' = sc_cleanups s" "sc_closing s' = sc_closing s"
    and "place_ok p s"
  shows "piece_fine q p s s'"
  using data_same [OF assms(2-4)] same_place_ok [OF assms(2-4)] assms(1,5) by (simp add: piece_fine_def)

lemma goroutine_fine:
  assumes data: "client_data s" and q: "place_ok q s" and closing: "closes q \<Longrightarrow> sc_closing s"
    and run: "goroutine g t q s = Some (p, s')"
  shows "piece_fine q p s s'"
proof (cases q)
  case CloseOnce
  show ?thesis
  proof (cases "cl_close_done (sc_client s)")
    case True
    with run CloseOnce have "s' = s" "p = Returned CallClose (close_result (sc_client s))" "\<not> sc_closing s"
      by (auto split: if_splits)
    with True data show ?thesis by (intro fine_same) auto
  next
    case False
    with run CloseOnce have "s' = s\<lparr>sc_closing := True\<rparr>" "p = CloseLock" by (auto split: if_splits)
    with False data CloseOnce show ?thesis by (simp add: piece_fine_def data_step_def client_data_def Let_def)
  qed
next
  case CloseLocked
  with run closing data q show ?thesis by (auto intro!: fine_close_section)
next
  case CloseCleanup
  with run closing data q fine_cleanup show ?thesis by auto
next
  case CloseLeave
  with run data q fine_leave show ?thesis by auto
next
  case (UnregMark k i)
  with run data q show ?thesis by (auto intro!: fine_mark)
next
  case (UnregTeardown k i a)
  with run data q show ?thesis by (auto intro!: fine_teardown)
next
  case (ClearLocked k i r)
  with run data q show ?thesis by (auto intro!: fine_clear_locked)
next
  case (RegisterLocked cc)
  with run data fine_register show ?thesis by auto
next
  case (UnregExport k i a e)
  with run data q show ?thesis
    by (auto simp: export_piece_def Let_def split: prod.splits intro!: fine_same)
next
  case (ClearOnce k i r)
  with run data q show ?thesis
    by (auto simp: clear_once_def handle_uncleared_def fine_unregister_ends split: if_splits intro!: fine_same)
next
  case (ClearLock k i r)
  with run data q show ?thesis by (auto simp: claim_lock_def split: if_splits intro!: fine_same)
next
  case (ClearWait k i r)
  with run data q show ?thesis by (auto simp: wait_readers_def split: if_splits intro!: fine_same)
next
  case (ClearLeave k i r)
  with run data q show ?thesis by (auto simp: fine_unregister_ends intro!: fine_same)
next
  case CloseLock
  with run data q show ?thesis by (auto simp: claim_lock_def split: if_splits intro!: fine_same)
next
  case CloseWait
  with run data q show ?thesis by (auto simp: wait_readers_def split: if_splits intro!: fine_same)
next
  case (RegisterCheck cc)
  with run data show ?thesis by (auto split: sum.splits intro!: fine_same)
next
  case (RegisterLock cc)
  with run data show ?thesis by (auto simp: claim_lock_def split: if_splits intro!: fine_same)
next
  case (RegisterWait cc)
  with run data show ?thesis by (auto simp: wait_readers_def split: if_splits intro!: fine_same)
next
  case (ReadLock f after)
  with run data show ?thesis by (auto split: if_splits intro!: fine_same)
next
  case (ReadLocked f after)
  with run data show ?thesis by (auto simp: read_section_def split: prod.splits sum.splits intro!: fine_same)
next
  case (Lookup f)
  with run data show ?thesis by (auto split: prod.splits intro!: fine_same)
next
  case (Returned c r)
  with run show ?thesis by simp
qed

definition shared_inv :: "('act, 'w) shared \<Rightarrow> bool" where
  "shared_inv s \<longleftrightarrow> lock_inv s \<and> client_data s \<and> (\<forall>t < length (sc_calls s). place_ok (sc_calls s ! t) s)"

lemma shared_inv_goroutine:
  assumes inv: "shared_inv s" and t: "t < length (sc_calls s)" and run: "goroutine g t (sc_calls s ! t) s = Some (p, s')"
  shows "shared_inv (s'\<lparr>sc_calls := (sc_calls s)[t := p]\<rparr>)"
proof -
  let ?q = "sc_calls s ! t"
  from inv have locks: "lock_inv s" and data: "client_data s" and q: "place_ok ?q s" using t by (auto simp: shared_inv_def)
  have closing: "sc_closing s" if "closes ?q"
    using calls_at_pos [of t "sc_calls s" closes, OF t that] locks by (auto simp: lock_inv_def split: if_splits)
  from goroutine_fine [OF data q closing run] have step: "data_step ?q s s'" "place_ok p s'" "client_data s'"
    by (auto simp: piece_fine_def)
  have "place_ok ((sc_calls s)[t := p] ! u) s'" if u: "u < length (sc_calls s)" for u
  proof (cases "u = t")
    case True
    with step(2) t show ?thesis by simp
  next
    case False
    have "calls_at closes (sc_calls s) \<le> 1" "calls_at (clears i) (sc_calls s) \<le> 1" for i
      using locks by (auto simp: lock_inv_def)
    from calls_at_unique [OF this(1) u _ t] calls_at_unique [OF this(2) u _ t] False
    have "closes (sc_calls s ! u) \<Longrightarrow> \<not> closes ?q" "clears i (sc_calls s ! u) \<Longrightarrow> \<not> clears i ?q" for i by auto
    with data_step_place_ok [OF step(1), of "sc_calls s ! u"] inv u closing False show ?thesis
      by (auto simp: shared_inv_def)
  qed
  then have "place_ok ((sc_calls s)[t := p] ! u) (s'\<lparr>sc_calls := (sc_calls s)[t := p]\<rparr>)" if "u < length (sc_calls s)" for u
    using that by (subst same_place_ok [where s = s']) auto
  with lock_inv_goroutine [OF locks t run] step(3) data_same [of "s'\<lparr>sc_calls := (sc_calls s)[t := p]\<rparr>" s'] show ?thesis
    by (simp add: shared_inv_def)
qed

lemma shared_inv_outside: "outside_step s u \<Longrightarrow> shared_inv s \<Longrightarrow> shared_inv u"
proof (induction rule: outside_step.induct)
  case (begin_call s p)
  let ?u = "s\<lparr>sc_calls := sc_calls s @ [p]\<rparr>"
  have "lock_inv ?u" using begin_call lock_inv_outside outside_step.begin_call by (metis shared_inv_def)
  moreover have "client_data ?u" using begin_call.prems data_same [of ?u s] by (simp add: shared_inv_def)
  moreover have "place_ok p s" using begin_call.hyps by (auto simp: entry_def close_knows_def)
  then have "place_ok ((sc_calls s @ [p]) ! t) s" if "t < length (sc_calls s @ [p])" for t
    using begin_call.prems that by (auto simp: shared_inv_def nth_append less_Suc_eq)
  then have "place_ok ((sc_calls s @ [p]) ! t) ?u" if "t < length (sc_calls s @ [p])" for t
    using that by (subst same_place_ok [where s = s]) auto
  ultimately show ?case by (simp add: shared_inv_def)
next
  case (world s w)
  let ?u = "s\<lparr>sc_world := w\<rparr>"
  have "lock_inv ?u" using world lock_inv_outside outside_step.world by (metis shared_inv_def)
  moreover have "client_data ?u" using world data_same [of ?u s] by (simp add: shared_inv_def)
  moreover have "place_ok p ?u \<longleftrightarrow> place_ok p s" for p by (rule same_place_ok) simp_all
  ultimately show ?case using world by (simp add: shared_inv_def)
next
  case (event i s a w)
  let ?u = "s\<lparr>sc_client := set_core i a (sc_client s), sc_world := w\<rparr>"
  have locks: "lock_inv ?u" using event lock_inv_outside outside_step.event by (metis shared_inv_def)
  have "registered a = registered (ah_core (cl_agents (sc_client s) ! i))"
    using agent_event_registered [OF event.hyps(2)] .
  with fine_set_core [of s a i "RegisterCheck undefined" w] event.prems
  have step: "data_step (RegisterCheck undefined) s ?u" "client_data ?u" by (auto simp: shared_inv_def)
  then have "place_ok p ?u" if "place_ok p s" for p
    by (intro data_step_place_ok [OF step(1) that]) auto
  with locks step(2) event.prems show ?case by (simp add: shared_inv_def)
qed

lemma shared_inv_reach: "shared_reach g wr s \<Longrightarrow> shared_inv s"
proof (induction rule: shared_reach.induct)
  case (init w)
  then show ?case
    by (simp add: shared_inv_def init_shared_def lock_inv_def client_data_def client_of_def live_def)
next
  case (goroutine s t)
  from goroutine.hyps(2) show ?case by (rule goroutine_stepE) (simp add: shared_inv_goroutine goroutine.IH)
next
  case (outside s t)
  then show ?case by (blast intro: shared_inv_outside)
qed

subsection \<open>Properties\<close>

lemma close_result_known:
  assumes "shared_reach g wr s" and "t < length (sc_calls s)" and "sc_calls s ! t = Returned CallClose r"
  shows "cl_closed (sc_client s) \<and> sc_cleanups s = 1 \<and> live (sc_client s) = {} \<and> r = close_result (sc_client s)"
proof -
  from shared_inv_reach [OF assms(1)] assms(2) have "place_ok (sc_calls s ! t) s" and "client_data s"
    by (auto simp: shared_inv_def)
  with assms(3) show ?thesis by (auto simp: client_data_def Let_def)
qed

lemma closer_exists: "lock_inv s \<Longrightarrow> sc_closing s \<Longrightarrow> \<exists>t < length (sc_calls s). closes (sc_calls s ! t)"
  using calls_at_ex [of closes "sc_calls s"] by (simp add: lock_inv_def)

lemma closer_live: "closes p \<Longrightarrow> place_ok p s \<Longrightarrow> cl_close_done (sc_client s) \<Longrightarrow>
    sc_cleanups s \<le> 1 \<and> (\<exists>i. live (sc_client s) \<subseteq> {i})"
  by (cases p) (auto simp: close_knows_def)

lemma one_live_agent:
  assumes "shared_reach g wr s"
  shows "sc_cleanups s \<le> 1 \<and> (\<exists>i. live (sc_client s) \<subseteq> {i})"
proof -
  from shared_inv_reach [OF assms] have inv: "lock_inv s" "client_data s"
    "\<And>t. t < length (sc_calls s) \<Longrightarrow> place_ok (sc_calls s ! t) s" by (auto simp: shared_inv_def)
  show ?thesis
  proof (cases "cl_close_done (sc_client s)")
    case True
    with inv closer_exists [OF inv(1)] closer_live [of _ s] show ?thesis
      by (cases "sc_closing s") (auto simp: client_data_def Let_def)
  next
    case False
    with inv(2) have "live (sc_client s) \<subseteq> set_option (cl_agent (sc_client s))" "sc_cleanups s = 0"
      by (auto simp: client_data_def Let_def)
    then show ?thesis by (cases "cl_agent (sc_client s)") auto
  qed
qed

text \<open>
  C13: However many goroutines call \<open>Close\<close>, \<open>RegisterAgent\<close>, \<open>Unregister\<close> and the reading methods at the same time, and
  however they interleave: at most one agent is registered at any time; nobody else writes or reads the
  client while one holds its lock; the wiring's clean-up is called at most once; and as soon as any \<open>Close\<close> has
  returned, whichever it is, the clean-up is done, no agent is registered any more and none will be, and
  every \<open>Close\<close> that returns gives the same result.
\<close>

theorem overlapping_closes_release_everything_once:
  assumes "shared_reach g wr s"
  shows "(\<exists>i. \<forall>j < length (cl_agents (sc_client s)). registered (ah_core (cl_agents (sc_client s) ! j)) \<longrightarrow> j = i)
       \<and> (\<forall>t u. t < length (sc_calls s) \<longrightarrow> u < length (sc_calls s) \<longrightarrow> locked (sc_calls s ! t) \<longrightarrow>
            (locked (sc_calls s ! u) \<longrightarrow> u = t) \<and> \<not> reads (sc_calls s ! u))
       \<and> sc_cleanups s \<le> 1
       \<and> (\<forall>r. Returned CallClose r \<in> set (sc_calls s) \<longrightarrow>
            cl_closed (sc_client s) \<and> sc_cleanups s = 1 \<and> r = close_result (sc_client s)
            \<and> (\<forall>j < length (cl_agents (sc_client s)). \<not> registered (ah_core (cl_agents (sc_client s) ! j))))"
proof -
  have locks: "lock_inv s" by (rule lock_inv_reach [OF assms])
  have "(locked (sc_calls s ! u) \<longrightarrow> u = t) \<and> \<not> reads (sc_calls s ! u)"
    if "t < length (sc_calls s)" "u < length (sc_calls s)" "locked (sc_calls s ! t)" for t u
  proof -
    have writer: "sc_writer s = Some v" if "v < length (sc_calls s)" "locked (sc_calls s ! v)" for v
      using locks that locked_writes by (auto simp: lock_inv_def)
    have "calls_at reads (sc_calls s) = 0" using locks that by (auto simp: lock_inv_def)
    with calls_at_pos [of u "sc_calls s" reads] that have "\<not> reads (sc_calls s ! u)" by auto
    with writer [of t] writer [of u] that show ?thesis by auto
  qed
  moreover have "\<exists>i. \<forall>j < length (cl_agents (sc_client s)). registered (ah_core (cl_agents (sc_client s) ! j)) \<longrightarrow> j = i"
    using one_live_agent [OF assms] by (fastforce simp: live_def)
  moreover have "cl_closed (sc_client s) \<and> sc_cleanups s = 1 \<and> r = close_result (sc_client s)
      \<and> (\<forall>j < length (cl_agents (sc_client s)). \<not> registered (ah_core (cl_agents (sc_client s) ! j)))"
    if "Returned CallClose r \<in> set (sc_calls s)" for r
    using that close_result_known [OF assms, of _ r] by (auto simp: in_set_conv_nth live_def)
  ultimately show ?thesis using one_live_agent [OF assms] by blast
qed

lemma steps_reach: "(goroutine_step g ^^ n) s u \<Longrightarrow> shared_reach g wr s \<Longrightarrow> shared_reach g wr u"
proof (induction n arbitrary: u)
  case (Suc n)
  then show ?case by (auto intro: shared_reach.goroutine)
qed simp

text \<open>
  C16: No call of the client waits for ever: in every reachable state in which some call has not returned,
  some goroutine can go on, so there is no deadlock on \<open>closeMu\<close>, \<open>closeOnce\<close> and the \<open>clearOnce\<close>s; and however the
  goroutines are scheduled, the calls begun so far do at most 14 pieces each until all have returned,
  provided the calls on the bus return.
\<close>

theorem every_call_returns:
  assumes "shared_reach g wr s" and "(goroutine_step g ^^ n) s u"
  shows "n \<le> 14 * length (sc_calls s)
       \<and> ((\<nexists>v. goroutine_step g u v) \<longleftrightarrow> (\<forall>p \<in> set (sc_calls u). returned p))"
proof -
  have reach: "shared_reach g wr u" by (rule steps_reach [OF assms(2,1)])
  have "returned p \<Longrightarrow> goroutine g t p u = None" for t p by (cases p) auto
  then have "\<forall>p \<in> set (sc_calls u). returned p \<Longrightarrow> \<nexists>v. goroutine_step g u v"
    by (metis goroutine_stepE nth_mem option.distinct(1))
  moreover have "\<nexists>v. goroutine_step g u v \<Longrightarrow> \<forall>p \<in> set (sc_calls u). returned p"
    using no_deadlock [OF lock_inv_reach [OF reach]] by (metis in_set_conv_nth)
  ultimately show ?thesis
    using goroutine_steps_less [OF assms(2)] all_left_bound [of s] by auto
qed

subsection \<open>Schedules\<close>

text \<open>The next piece of each call of a list in turn, as long as none of them has to wait.\<close>

fun run_schedule :: "godbus \<Rightarrow> nat list \<Rightarrow> ('act, 'w) shared \<Rightarrow> ('act, 'w) shared option" where
  "run_schedule g [] s = Some s"
| "run_schedule g (t # ts) s =
     (if t < length (sc_calls s)
      then (case goroutine g t (sc_calls s ! t) s of
              None \<Rightarrow> None
            | Some (p, s') \<Rightarrow> run_schedule g ts (s'\<lparr>sc_calls := (sc_calls s)[t := p]\<rparr>))
      else None)"

definition begin_calls :: "('act, 'w) place list \<Rightarrow> ('act, 'w) shared \<Rightarrow> ('act, 'w) shared" where
  "begin_calls ps s = s\<lparr>sc_calls := sc_calls s @ ps\<rparr>"

lemma run_schedule_steps: "run_schedule g ts s = Some u \<Longrightarrow> (goroutine_step g ^^ length ts) s u"
proof (induction ts arbitrary: s)
  case (Cons t ts)
  then obtain p s' where t: "t < length (sc_calls s)" and run: "goroutine g t (sc_calls s ! t) s = Some (p, s')"
    and rest: "run_schedule g ts (s'\<lparr>sc_calls := (sc_calls s)[t := p]\<rparr>) = Some u"
    by (auto split: if_splits option.splits)
  have "(goroutine_step g ^^ Suc (length ts)) s u"
    by (rule relpowp_Suc_I2 [OF goroutine_step.intros [OF t run] Cons.IH [OF rest]])
  then show ?case by (simp only: length_Cons)
qed simp

lemma run_schedule_reach: "run_schedule g ts s = Some u \<Longrightarrow> shared_reach g wr s \<Longrightarrow> shared_reach g wr u"
  by (blast dest: run_schedule_steps intro: steps_reach)

lemma begin_calls_reach: "shared_reach g wr s \<Longrightarrow> \<forall>p \<in> set ps. entry s p \<Longrightarrow> shared_reach g wr (begin_calls ps s)"
proof (induction ps arbitrary: s)
  case (Cons p ps)
  let ?s = "s\<lparr>sc_calls := sc_calls s @ [p]\<rparr>"
  have "shared_reach g wr ?s" using Cons.prems by (auto intro: shared_reach.outside outside_step.begin_call)
  moreover have "\<forall>q \<in> set ps. entry ?s q" using Cons.prems by (simp add: entry_def)
  ultimately have "shared_reach g wr (begin_calls ps ?s)" by (rule Cons.IH)
  then show ?case by (simp add: begin_calls_def)
qed (simp add: begin_calls_def)

subsection \<open>A call that is alone\<close>

text \<open>No other call is in progress, and the only one is at \<open>p\<close>.\<close>

definition alone :: "('act, 'w) place \<Rightarrow> ('act, 'w) client \<Rightarrow> 'w \<Rightarrow> nat \<Rightarrow> ('act, 'w) shared" where
  "alone p c w n =
     \<lparr>sc_client = c, sc_world = w, sc_writer = None, sc_readers = 0, sc_closing = False, sc_clearing = {},
      sc_cleanups = n, sc_calls = [p]\<rparr>"

text \<open>The call runs to its end with the result \<open>r\<close>, leaving \<open>c'\<close> and \<open>w'\<close>.\<close>

definition runs_to :: "godbus \<Rightarrow> ('act, 'w) shared \<Rightarrow> called \<Rightarrow> gerror + unit \<Rightarrow> ('act, 'w) client \<Rightarrow> 'w \<Rightarrow> bool" where
  "runs_to g s k r c' w' \<longleftrightarrow> (\<exists>ts n. run_schedule g ts s = Some (alone (Returned k r) c' w' n))"

lemma run_schedule_append:
  "run_schedule g ts s = Some u \<Longrightarrow> run_schedule g (ts @ us) s = run_schedule g us u"
  by (induction ts arbitrary: s) (auto split: if_splits option.splits)

lemma set_core_twice: "i < length (cl_agents c) \<Longrightarrow> set_core i b (set_core i a c) = set_core i b c"
  by (simp add: set_core_def)

lemma unregister_pieces:
  assumes i: "i < length (cl_agents c)"
    and run: "agent_unregister (Some (ah_core (cl_agents c ! i)), w) = (r, (Some b, w'))"
  shows "\<exists>ts. run_schedule g ts
           \<lparr>sc_client = c, sc_world = w, sc_writer = None, sc_readers = 0, sc_closing = cl, sc_clearing = {},
            sc_cleanups = n, sc_calls = [UnregMark k i]\<rparr>
       = Some \<lparr>sc_client = clear_handle i (set_core i b c), sc_world = w', sc_writer = None, sc_readers = 0,
               sc_closing = cl, sc_clearing = {}, sc_cleanups = n, sc_calls = [unregister_ends k i r]\<rparr>"
proof -
  let ?s = "\<lambda>c w p. \<lparr>sc_client = c, sc_world = w, sc_writer = None, sc_readers = 0, sc_closing = cl, sc_clearing = {},
            sc_cleanups = n, sc_calls = [p]\<rparr>"
  let ?a = "ah_core (cl_agents c ! i)"
  have "\<exists>ts. run_schedule g ts (?s c w (UnregMark k i)) = Some (?s (set_core i b c) w' (ClearOnce k i r))"
  proof (cases "registered ?a")
    case False
    with run have "b = ?a" "r = Inr ()" "w' = w" by (auto simp: agent_unregister_def)
    then have "run_schedule g [0] (?s c w (UnregMark k i)) = Some (?s (set_core i b c) w' (ClearOnce k i r))"
      using False by (simp add: mark_piece_def set_core_def)
    then show ?thesis by blast
  next
    case True
    then have "run_schedule g [0, 0, 0] (?s c w (UnregMark k i)) = Some (?s (set_core i b c) w' (ClearOnce k i r))"
      using run i
      by (auto simp: mark_piece_def teardown_piece_def export_piece_def agent_unregister_def Let_def set_core_def
          split: prod.splits)
    then show ?thesis by blast
  qed
  then obtain ts where ts: "run_schedule g ts (?s c w (UnregMark k i)) = Some (?s (set_core i b c) w' (ClearOnce k i r))" ..
  have "\<exists>us. run_schedule g us (?s d w' (ClearOnce k i r)) = Some (?s (clear_handle i d) w' (unregister_ends k i r))" for d
  proof (cases "ah_cleared (cl_agents d ! i)")
    case True
    then have "run_schedule g [0] (?s d w' (ClearOnce k i r)) = Some (?s (clear_handle i d) w' (unregister_ends k i r))"
      by (simp add: clear_once_def clear_handle_def)
    then show ?thesis by blast
  next
    case False
    then have "run_schedule g [0, 0, 0, 0, 0] (?s d w' (ClearOnce k i r)) =
        Some (?s (clear_handle i d) w' (unregister_ends k i r))"
      by (simp add: clear_once_def claim_lock_def wait_readers_def)
    then show ?thesis by blast
  qed
  then obtain us where "run_schedule g us (?s (set_core i b c) w' (ClearOnce k i r)) =
      Some (?s (clear_handle i (set_core i b c)) w' (unregister_ends k i r))" by blast
  with run_schedule_append [OF ts, of us] show ?thesis by metis
qed

lemma agent_unregister_result: obtains r b w' where "agent_unregister (Some a, w) = (r, (Some b, w'))"
  using agent_teardown.dies [of a w] by (metis prod.exhaust)

lemma unregister_alone:
  assumes i: "i < length (cl_agents c)"
  shows "\<exists>r c' w'. public_agent_unregister i (c, w) = (r, (c', w'))
     \<and> runs_to g (alone (UnregMark ForCaller i) c w n) (CallUnregister i) r c' w'"
proof -
  obtain r b w' where run: "agent_unregister (Some (ah_core (cl_agents c ! i)), w) = (r, (Some b, w'))"
    by (rule agent_unregister_result)
  from unregister_pieces [OF i run, of g False n ForCaller] obtain ts where
    "run_schedule g ts (alone (UnregMark ForCaller i) c w n) =
       Some (alone (unregister_ends ForCaller i r) (clear_handle i (set_core i b c)) w' n)"
    by (auto simp: alone_def)
  then have "runs_to g (alone (UnregMark ForCaller i) c w n) (CallUnregister i)
      (case r of Inl e \<Rightarrow> Inl (wrap_public_error ''Agent.Unregister'' e) | Inr _ \<Rightarrow> Inr ()) (clear_handle i (set_core i b c)) w'"
    by (auto simp: runs_to_def unregister_ends_def)
  moreover have "public_agent_unregister i (c, w) =
      (case r of Inl e \<Rightarrow> Inl (wrap_public_error ''Agent.Unregister'' e) | Inr _ \<Rightarrow> Inr (), (clear_handle i (set_core i b c), w'))"
    using i run by (simp add: public_agent_unregister_def set_core_def Let_def)
  ultimately show ?thesis by blast
qed

lemma register_alone:
  "\<exists>r c' w'. register_agent g cc (Some c, w) = (r, (Some c', w'))
     \<and> runs_to g (alone (RegisterCheck cc) c w n) CallRegister (map_sum id (\<lambda>_. ()) r) c' w'"
proof (cases "validate_credential_callbacks cc ''Client.RegisterAgent''")
  case (Inl e)
  then have "run_schedule g [0] (alone (RegisterCheck cc) c w n) =
      Some (alone (Returned CallRegister (Inl (wrap_public_error ''Client.RegisterAgent'' e))) c w n)"
    by (simp add: alone_def)
  then have "runs_to g (alone (RegisterCheck cc) c w n) CallRegister (Inl (wrap_public_error ''Client.RegisterAgent'' e)) c w"
    unfolding runs_to_def by blast
  with Inl show ?thesis by (simp add: register_agent_def Let_def)
next
  case (Inr u)
  obtain r d w' where run: "register_agent g cc (Some c, w) = (r, (Some d, w'))"
  proof -
    obtain r x w' where "register_agent g cc (Some c, w) = (r, (x, w'))" by (metis prod.exhaust)
    moreover from this have "x \<noteq> None" by (auto simp: register_agent_def Let_def split: if_splits sum.splits prod.splits)
    ultimately show thesis using that by blast
  qed
  then have "run_schedule g [0, 0, 0, 0] (alone (RegisterCheck cc) c w n) =
      Some (alone (Returned CallRegister (map_sum id (\<lambda>_. ()) r)) d w' n)"
    using Inr by (simp add: alone_def claim_lock_def wait_readers_def register_section_def)
  then have "runs_to g (alone (RegisterCheck cc) c w n) CallRegister (map_sum id (\<lambda>_. ()) r) d w'"
    unfolding runs_to_def by blast
  with run show ?thesis by blast
qed

lemma close_alone:
  assumes "\<And>i. cl_agent c = Some i \<Longrightarrow> i < length (cl_agents c)"
  shows "\<exists>r c' w'. client_close (Some c, w) = (r, (Some c', w')) \<and> runs_to g (alone CloseOnce c w n) CallClose r c' w'"
proof (cases "cl_close_done c")
  case True
  then have "run_schedule g [0] (alone CloseOnce c w n) = Some (alone (Returned CallClose (close_result c)) c w n)"
    by (simp add: alone_def)
  then have "runs_to g (alone CloseOnce c w n) CallClose (close_result c) c w" unfolding runs_to_def by blast
  with True show ?thesis by (auto simp: close_done)
next
  case False
  let ?s = "\<lambda>p c w. (alone p c w n)\<lparr>sc_closing := True\<rparr>"
  let ?first = "case cl_agent c of None \<Rightarrow> CloseCleanup | Some i \<Rightarrow> UnregMark ForClose i"
  from False have first: "run_schedule g [0, 0, 0, 0] (alone CloseOnce c w n) = Some (?s ?first (close_locked c) w)"
    by (simp add: alone_def claim_lock_def wait_readers_def close_section_def)
  obtain d v ts where unreg: "run_schedule g ts (?s ?first (close_locked c) w) = Some (?s CloseCleanup d v)"
    and d: "(case cl_agent c of None \<Rightarrow> (close_locked c, w) | Some i \<Rightarrow> snd (public_agent_unregister i (close_locked c, w))) = (d, v)"
  proof (cases "cl_agent c")
    case None
    then show thesis by (intro that [of "[]" "close_locked c" w]) simp_all
  next
    case (Some i)
    with assms have i: "i < length (cl_agents (close_locked c))" by simp
    obtain r b w' where run: "agent_unregister (Some (ah_core (cl_agents (close_locked c) ! i)), w) = (r, (Some b, w'))"
      by (rule agent_unregister_result)
    from unregister_pieces [OF i run, of g True n ForClose] obtain ts where
      "run_schedule g ts (?s (UnregMark ForClose i) (close_locked c) w) =
         Some (?s CloseCleanup (clear_handle i (set_core i b (close_locked c))) w')"
      by (auto simp: alone_def unregister_ends_def)
    then show thesis
      using i run Some by (intro that) (auto simp: public_agent_unregister_def set_core_def Let_def)
  qed
  obtain c2 w2 where clean: "client_cleanup (d, v) = (c2, w2)" by (rule prod.exhaust)
  then have "run_schedule g [0, 0] (?s CloseCleanup d v) = Some (alone (Returned CallClose (close_result c2)) c2 w2 (n + 1))"
    by (simp add: alone_def cleanup_piece_def)
  with run_schedule_append [OF first, of "ts @ [0, 0]"] run_schedule_append [OF unreg, of "[0, 0]"]
  have "runs_to g (alone CloseOnce c w n) CallClose (close_result c2) c2 w2" unfolding runs_to_def by metis
  moreover have "client_close (Some c, w) = (close_result c2, (Some c2, w2))"
    using False d clean by (simp add: client_close_def)
  ultimately show ?thesis by blast
qed

text \<open>
  C28: The pieces are the methods: a \<open>Close\<close>, an \<open>Unregister\<close> or a \<open>RegisterAgent\<close> that no other call overlaps runs to
  its end without waiting, and leaves the client, the bus and the result that the sequential definition
  of the method gives.
\<close>

theorem a_call_alone_is_the_method:
  assumes "\<And>j. cl_agent c = Some j \<Longrightarrow> j < length (cl_agents c)" and "i < length (cl_agents c)"
  shows "(\<exists>r c' w'. client_close (Some c, w) = (r, (Some c', w')) \<and> runs_to g (alone CloseOnce c w n) CallClose r c' w')
       \<and> (\<exists>r c' w'. public_agent_unregister i (c, w) = (r, (c', w'))
            \<and> runs_to g (alone (UnregMark ForCaller i) c w n) (CallUnregister i) r c' w')
       \<and> (\<exists>r c' w'. register_agent g cc (Some c, w) = (r, (Some c', w'))
            \<and> runs_to g (alone (RegisterCheck cc) c w n) CallRegister (map_sum id (\<lambda>_. ()) r) c' w')"
  by (intro conjI register_alone unregister_alone [OF assms(2)]; rule close_alone; rule assms(1))

text \<open>A client in a bus whose world tells whether an agent object is exported and the connection open; two calls of \<open>Close\<close>.\<close>

definition demo_closes :: "(nat, bool \<times> bool) shared" where
  "demo_closes = begin_calls [CloseOnce, CloseOnce] (init_shared demo_wiring (False, True))"

lemma demo_closes_reach: "shared_reach table_godbus demo_wiring demo_closes"
  unfolding demo_closes_def by (rule begin_calls_reach [OF shared_reach.init]) (simp add: entry_def)

lemma demo_closes_run:
  obtains s where "run_schedule table_godbus [1, 1, 1, 1, 1, 1, 0] demo_closes = Some s"
    and "sc_calls s = [Returned CallClose (Inr ()), Returned CallClose (Inr ())]"
  by (simp add: demo_closes_def begin_calls_def init_shared_def claim_lock_def wait_readers_def close_section_def
      cleanup_piece_def client_cleanup_def wiring_cleanup_def client_of_def close_locked_def close_result_def
      demo_wiring_def flag_wiring_def flag_conn_def)

lemma overlapping_closes_release_everything_once_witness:
  "\<exists>s. run_schedule table_godbus [1, 1, 1, 1, 1, 1, 0] demo_closes = Some s \<and> cl_closed (sc_client s) \<and> sc_cleanups s = 1"
proof -
  obtain s where run: "run_schedule table_godbus [1, 1, 1, 1, 1, 1, 0] demo_closes = Some s"
    and calls: "sc_calls s = [Returned CallClose (Inr ()), Returned CallClose (Inr ())]" by (rule demo_closes_run)
  from overlapping_closes_release_everything_once [OF run_schedule_reach [OF run demo_closes_reach]] calls run
  show ?thesis by simp
qed

lemma every_call_returns_witness:
  "\<exists>s. (goroutine_step table_godbus ^^ 7) demo_closes s \<and> (\<nexists>v. goroutine_step table_godbus s v)"
proof -
  obtain s where run: "run_schedule table_godbus [1, 1, 1, 1, 1, 1, 0] demo_closes = Some s"
    and calls: "sc_calls s = [Returned CallClose (Inr ()), Returned CallClose (Inr ())]" by (rule demo_closes_run)
  have "length [1, 1, 1, 1, 1, 1, 0 :: nat] = 7" by simp
  with run_schedule_steps [OF run] have "(goroutine_step table_godbus ^^ 7) demo_closes s" by (simp only:)
  from every_call_returns [OF demo_closes_reach this] this calls show ?thesis by auto
qed

subsection \<open>Overlapping calls of Unregister\<close>

definition demo_agent :: "(bool \<times> bool) core_agent" where
  "demo_agent =
     (let conn = flag_conn [IwdAgentManagerIface] (Inr []);
          manager = \<lparr>am_conn = Some conn,
                     am_intro = Some (as_caller table_godbus \<lparr>io_conn = conn, io_bus_name = IwdService,
                       io_path = IwdDaemonPath, io_ifaces = [IwdAgentManagerIface]\<rparr>)\<rparr>
      in agent_bind (iwd_unregister_agent manager) agentObjectPath (conn_export conn False agentObjectPath IwdAgentIface)
           (new_core_agent demo_credentials))"

lemma demo_register:
  assumes "cl_agent c = None" "\<not> cl_closed c" "cl_wire c = Some demo_wiring"
  shows "register_agent table_godbus demo_credentials (Some c, (e, True)) =
     (Inr (length (cl_agents c)),
      (Some (c\<lparr>cl_agents := cl_agents c @ [\<lparr>ah_core = demo_agent, ah_cleared = False\<rparr>],
               cl_agent := Some (length (cl_agents c))\<rparr>), (True, True)))"
proof -
  let ?conn = "flag_conn [IwdAgentManagerIface] (Inr [])"
  have ex: "export_agent table_godbus (Some ?conn) agentObjectPath (e, True)
      = (Inr (conn_export ?conn False agentObjectPath IwdAgentIface), (True, True))"
    unfolding export_agent_def by (rule export_object_exports [OF agent_path_ok]) simp
  have "wiring_new_agent table_godbus (Some demo_wiring) demo_credentials (e, True) = (Inr demo_agent, (True, True))"
    by (simp add: wiring_new_agent_def demo_wiring_def demo_agent_def Let_def go_bind_def go_wrap_def ex or_unexport_def
        iwd_new_agent_manager_def new_introspected_object_def introspected_has_interface_def
        iwd_register_agent_def agent_manager_method_def ensure_initialized_def introspected_call_def)
  then show ?thesis
    using assms by (simp add: register_agent_def Let_def demo_credentials_def validate_credential_callbacks_def
        has_request_callback_def)
qed

lemma demo_agent_simps [simp]: "registered demo_agent" "currentCancel demo_agent = None"
  by (simp_all add: demo_agent_def agent_bind_def new_core_agent_def Let_def)

lemma demo_unregisters: "cleanup_call wrap (map_option (\<lambda>m. m (agent_path demo_agent)) (manager demo_agent)) w = (None, w)"
  by (simp add: demo_agent_def agent_bind_def Let_def cleanup_call_def iwd_unregister_agent_def agent_manager_method_def
      ensure_initialized_def introspected_call_def go_bind_def go_wrap_def)

lemma demo_unexports: "cleanup_call wrap (unexport demo_agent) (e, b) = (None, (False, b))"
  by (simp add: demo_agent_def agent_bind_def Let_def cleanup_call_def)

text \<open>
  The calls 1 and 2 unregister the agent that call 0 registered, and call 3 registers the next one. Call 1 has
  asked iwd to forget the agent and has yet to remove its object when call 2, which finds the agent
  unregistered, frees the slot; then call 3 runs, and call 1 last.
\<close>

definition demo_first :: "(nat, bool \<times> bool) shared" where
  "demo_first = begin_calls [RegisterCheck demo_credentials] (init_shared demo_wiring (False, True))"

definition demo_registered :: "(nat, bool \<times> bool) shared" where
  "demo_registered =
     (init_shared demo_wiring (True, True))
       \<lparr>sc_client := (client_of demo_wiring)\<lparr>cl_agents := [\<lparr>ah_core = demo_agent, ah_cleared = False\<rparr>], cl_agent := Some 0\<rparr>,
        sc_calls := [Returned CallRegister (Inr ())]\<rparr>"

lemma demo_validates: "validate_credential_callbacks demo_credentials op = Inr ()"
  by (simp add: demo_credentials_def validate_credential_callbacks_def has_request_callback_def)

lemma demo_first_run: "run_schedule table_godbus [0, 0, 0, 0] demo_first = Some demo_registered"
  by (simp add: demo_first_def demo_registered_def begin_calls_def init_shared_def demo_validates claim_lock_def
      wait_readers_def register_section_def demo_register client_of_def)

lemma demo_registered_reach: "shared_reach table_godbus demo_wiring demo_registered"
  by (rule run_schedule_reach [OF demo_first_run])
    (simp add: demo_first_def begin_calls_reach shared_reach.init entry_def)

definition demo_overlap :: "(nat, bool \<times> bool) shared" where
  "demo_overlap =
     begin_calls [UnregMark ForCaller 0, UnregMark ForCaller 0, RegisterCheck demo_credentials] demo_registered"

lemma demo_overlap_reach: "shared_reach table_godbus demo_wiring demo_overlap"
  unfolding demo_overlap_def
  by (rule begin_calls_reach [OF demo_registered_reach]) (simp add: entry_def demo_registered_def)

lemma demo_overlap_run:
  obtains s where "run_schedule table_godbus ([1, 1] @ [2, 2, 2, 2, 2, 2] @ [3, 3, 3, 3] @ [1, 1]) demo_overlap = Some s"
    and "list_all returned (sc_calls s)" and "cl_agent (sc_client s) = Some 1" and "\<not> cl_closed (sc_client s)"
    and "registered (ah_core (cl_agents (sc_client s) ! 1))" and "sc_world s = (False, True)"
  by (simp add: demo_overlap_def demo_registered_def begin_calls_def init_shared_def mark_piece_def Let_def
      teardown_piece_def demo_unregisters demo_unexports export_piece_def set_core_def cancel_ctx_def clear_once_def
      claim_lock_def wait_readers_def clear_handle_def unregister_ends_def demo_validates register_section_def
      demo_register client_of_def)

text \<open>
  C30: Two calls of \<open>Unregister\<close> on the same handle that overlap can ruin the next agent: the second returns and frees
  the slot while the first still has its calls on the bus to make, so the next \<open>RegisterAgent\<close> is
  accepted, and the first call then removes the object that it exported, since every agent is exported at the same
  path. All calls have returned, the new agent is in the slot and registered, and its object is
  not exported.
\<close>

theorem overlapping_unregisters_ruin_the_next_agent:
  "\<exists>s. shared_reach table_godbus demo_wiring s \<and> list_all returned (sc_calls s)
     \<and> cl_agent (sc_client s) = Some 1 \<and> registered (ah_core (cl_agents (sc_client s) ! 1))
     \<and> \<not> cl_closed (sc_client s) \<and> sc_world s = (False, True)"
proof -
  obtain s where run: "run_schedule table_godbus ([1, 1] @ [2, 2, 2, 2, 2, 2] @ [3, 3, 3, 3] @ [1, 1]) demo_overlap = Some s"
    and "list_all returned (sc_calls s)" "cl_agent (sc_client s) = Some 1" "\<not> cl_closed (sc_client s)"
      "registered (ah_core (cl_agents (sc_client s) ! 1))" "sc_world s = (False, True)"
    by (rule demo_overlap_run)
  with run_schedule_reach [OF run demo_overlap_reach] show ?thesis by blast
qed

lemma a_call_alone_is_the_method_witness:
  "\<exists>r c' w'. public_agent_unregister 0 (sc_client demo_registered, (True, True)) = (r, (c', w'))
     \<and> runs_to table_godbus (alone (UnregMark ForCaller 0) (sc_client demo_registered) (True, True) 0) (CallUnregister 0) r c' w'"
proof -
  have "cl_agent (sc_client demo_registered) = Some j \<Longrightarrow> j < length (cl_agents (sc_client demo_registered))" for j
    by (simp add: demo_registered_def)
  moreover have "0 < length (cl_agents (sc_client demo_registered))" by (simp add: demo_registered_def)
  ultimately show ?thesis
    using a_call_alone_is_the_method [of "sc_client demo_registered" 0 "(True, True)" table_godbus 0 demo_credentials] by blast
qed

end
