(* ===== verification/Cli_Text.thy ===== *)
theory Cli_Text
  imports Go_Prelude Complex_Main
begin

text \<open>
  What the command line uses of Go's standard library to read and to print: \<open>strconv\<close>, the parser of
  \<open>flag\<close>, \<open>time.ParseDuration\<close>, \<open>encoding/json\<close>'s encoder, \<open>bufio.Scanner\<close> and the verbs of \<open>fmt\<close> that
  occur in printed text. Strings are byte strings; bytes outside ASCII are taken to belong to printable
  UTF-8 text, and letters outside ASCII to have no case, except the four whose case folding meets ASCII.
\<close>

named_theorems cli_simps \<open>rewrites of the command line's bodies\<close>

subsection \<open>Characters\<close>

definition newline :: string where
  "newline = [CHR 0x0A]"

definition tab :: string where
  "tab = [CHR 0x09]"

definition is_digit :: "char \<Rightarrow> bool" where
  "is_digit c \<longleftrightarrow> 48 \<le> code c \<and> code c \<le> 57"

definition digit_value :: "char \<Rightarrow> nat" where
  "digit_value c = code c - 48"

definition lower_char :: "char \<Rightarrow> char" where
  "lower_char c = (if 65 \<le> code c \<and> code c \<le> 90 then char_of (code c + 32) else c)"

text \<open>\<open>strings.ToLower\<close>: U+0130 becomes an \<open>i\<close> and U+212A a \<open>k\<close>.\<close>

fun to_lower :: "string \<Rightarrow> string" where
  "to_lower [] = []"
| "to_lower (c # s) =
     (if code c = 196 \<and> prefix (utf8 [176]) s then CHR ''i'' # to_lower (drop 1 s)
      else if code c = 226 \<and> prefix (utf8 [132, 170]) s then CHR ''k'' # to_lower (drop 2 s)
      else lower_char c # to_lower s)"

text \<open>\<open>strings.EqualFold\<close>: U+212A folds to \<open>k\<close> and U+017F to \<open>s\<close>.\<close>

fun fold_case :: "string \<Rightarrow> string" where
  "fold_case [] = []"
| "fold_case (c # s) =
     (if code c = 226 \<and> prefix (utf8 [132, 170]) s then CHR ''k'' # fold_case (drop 2 s)
      else if code c = 197 \<and> prefix (utf8 [191]) s then CHR ''s'' # fold_case (drop 1 s)
      else lower_char c # fold_case s)"

definition equal_fold :: "string \<Rightarrow> string \<Rightarrow> bool" where
  "equal_fold s t \<longleftrightarrow> fold_case s = fold_case t"

definition join :: "string \<Rightarrow> string list \<Rightarrow> string" where
  "join sep xs = (case xs of [] \<Rightarrow> [] | x # ys \<Rightarrow> x @ concat (map (\<lambda>y. sep @ y) ys))"

definition bool_text :: "bool \<Rightarrow> string" where
  "bool_text b = (if b then ''true'' else ''false'')"

text \<open>\<open>%-12s\<close> and its like, for the ASCII labels they are used on.\<close>

definition pad_right :: "nat \<Rightarrow> string \<Rightarrow> string" where
  "pad_right n s = s @ replicate (n - length s) (CHR '' '')"

text \<open>\<open>%g\<close> of a strength in dBm, a multiple of 1/100.\<close>

definition dbm_text :: "rat \<Rightarrow> string" where
  "dbm_text x =
     (let n = \<lfloor>x * 100\<rfloor>; a = nat \<bar>n\<bar>; f = a mod 100 in
      (if n < 0 then ''-'' else '''') @ decimal_nat (a div 100)
      @ (if f = 0 then ''''
         else if f mod 10 = 0 then CHR ''.'' # decimal_nat (f div 10)
         else CHR ''.'' # decimal_nat (f div 10) @ decimal_nat (f mod 10)))"

subsection \<open>Numbers\<close>

text \<open>\<open>strconv.ParseBool\<close> and \<open>strconv.Atoi\<close>\<close>

definition parse_bool :: "string \<Rightarrow> bool option" where
  "parse_bool s =
     (if s \<in> set [''1'', ''t'', ''T'', ''true'', ''TRUE'', ''True''] then Some True
      else if s \<in> set [''0'', ''f'', ''F'', ''false'', ''FALSE'', ''False''] then Some False
      else None)"

definition digits_value :: "string \<Rightarrow> nat" where
  "digits_value s = foldl (\<lambda>n c. n * 10 + digit_value c) 0 s"

definition atoi :: "string \<Rightarrow> int option" where
  "atoi s =
     (let neg = prefix ''-'' s; ds = (if neg \<or> prefix ''+'' s then tl s else s) in
      if ds = [] \<or> \<not> list_all is_digit ds then None
      else
        (let n = (if neg then - int (digits_value ds) else int (digits_value ds)) in
         if - (2 ^ 63) \<le> n \<and> n < 2 ^ 63 then Some n else None))"

text \<open>
  \<open>time.ParseDuration\<close>, in nanoseconds. A fraction is multiplied out exactly where the library uses
  \<open>float64\<close>.
\<close>

fun leading_int :: "nat \<Rightarrow> string \<Rightarrow> (nat \<times> string) option" where
  "leading_int x [] = Some (x, [])"
| "leading_int x (c # s) =
     (if \<not> is_digit c then Some (x, c # s)
      else if x > 2 ^ 63 div 10 then None
      else if x * 10 + digit_value c > 2 ^ 63 then None
      else leading_int (x * 10 + digit_value c) s)"

fun leading_fraction :: "nat \<Rightarrow> nat \<Rightarrow> bool \<Rightarrow> string \<Rightarrow> nat \<times> nat \<times> string" where
  "leading_fraction x scale overflow [] = (x, scale, [])"
| "leading_fraction x scale overflow (c # s) =
     (if \<not> is_digit c then (x, scale, c # s)
      else if overflow then leading_fraction x scale True s
      else if x > (2 ^ 63 - 1) div 10 then leading_fraction x scale True s
      else if x * 10 + digit_value c > 2 ^ 63 then leading_fraction x scale True s
      else leading_fraction (x * 10 + digit_value c) (scale * 10) False s)"

definition duration_units :: "(string \<times> nat) list" where
  "duration_units =
     [(''ns'', 1), (''us'', 1000), (utf8 [194, 181] @ ''s'', 1000), (utf8 [206, 188] @ ''s'', 1000),
      (''ms'', 1000000), (''s'', 1000000000), (''m'', 60000000000), (''h'', 3600000000000)]"

definition is_unit_char :: "char \<Rightarrow> bool" where
  "is_unit_char c \<longleftrightarrow> c \<noteq> CHR ''.'' \<and> \<not> is_digit c"

text \<open>The fraction after the digits, if any: its digits, their scale and whether there was one.\<close>

definition fraction_part :: "string \<Rightarrow> nat \<times> nat \<times> bool \<times> string" where
  "fraction_part s =
     (if prefix ''.'' s
      then (case leading_fraction 0 1 False (tl s) of
              (f, scale, t) \<Rightarrow> (f, scale, length (tl s) \<noteq> length t, t))
      else (0, 1, False, s))"

text \<open>The unit, and the value of a term in it.\<close>

definition unit_part :: "nat \<Rightarrow> nat \<Rightarrow> nat \<Rightarrow> string \<Rightarrow> (nat \<times> string) option" where
  "unit_part v f scale s =
     (let u = takeWhile is_unit_char s in
      if u = [] then None
      else
        (case map_of duration_units u of
           None \<Rightarrow> None
         | Some ns \<Rightarrow>
             if v > 2 ^ 63 div ns then None
             else if f > 0 \<and> v * ns + f * ns div scale > 2 ^ 63 then None
             else Some (v * ns + (if f > 0 then f * ns div scale else 0), dropWhile is_unit_char s)))"

text \<open>One term of a duration: its nanoseconds and what follows it.\<close>

definition duration_term :: "string \<Rightarrow> (nat \<times> string) option" where
  "duration_term s =
     (if s = [] \<or> \<not> (hd s = CHR ''.'' \<or> is_digit (hd s)) then None
      else
        (case leading_int 0 s of
           None \<Rightarrow> None
         | Some (v, s1) \<Rightarrow>
             (case fraction_part s1 of
                (f, scale, post, s2) \<Rightarrow>
                  if length s = length s1 \<and> \<not> post then None else unit_part v f scale s2)))"

lemma leading_int_length: "leading_int x s = Some (v, t) \<Longrightarrow> length t \<le> length s"
  by (induction x s rule: leading_int.induct) (auto split: if_splits)

lemma leading_fraction_length: "leading_fraction x sc ov s = (f, sc', t) \<Longrightarrow> length t \<le> length s"
  by (induction x sc ov s rule: leading_fraction.induct) (auto split: if_splits)

lemma fraction_part_length: "fraction_part s = (f, scale, post, t) \<Longrightarrow> length t \<le> length s"
  by (cases s) (auto simp: fraction_part_def split: if_splits prod.splits dest: leading_fraction_length)

text \<open>A term is never empty, so reading terms ends.\<close>

lemma unit_part_length:
  assumes "unit_part v f scale s = Some (d, t)"
  shows "length t < length s"
proof -
  have "takeWhile is_unit_char s \<noteq> []" and t: "t = dropWhile is_unit_char s"
    using assms by (auto simp: unit_part_def Let_def split: if_splits option.splits)
  then have "0 < length (takeWhile is_unit_char s)" by simp
  moreover have "length (takeWhile is_unit_char s) + length t = length s"
    unfolding t by (simp flip: length_append)
  ultimately show ?thesis by linarith
qed

lemma duration_term_consumes:
  assumes "duration_term s = Some (d, t)"
  shows "length t < length s"
proof -
  from assms obtain v s1 f scale post s2
    where 1: "leading_int 0 s = Some (v, s1)" and 2: "fraction_part s1 = (f, scale, post, s2)"
      and 3: "unit_part v f scale s2 = Some (d, t)"
    by (auto simp: duration_term_def split: if_splits option.splits prod.splits)
  from leading_int_length [OF 1] fraction_part_length [OF 2] unit_part_length [OF 3]
  show ?thesis by linarith
qed

function duration_terms :: "nat \<Rightarrow> string \<Rightarrow> nat option" where
  "duration_terms d s =
     (if s = [] then Some d
      else
        (case duration_term s of
           None \<Rightarrow> None
         | Some (v, t) \<Rightarrow> if d + v > 2 ^ 63 then None else duration_terms (d + v) t))"
  by pat_completeness auto
termination
  by (relation "measure (\<lambda>(d, s). length s)") (auto simp: duration_term_consumes)

declare duration_terms.simps [simp del]

definition parse_duration :: "string \<Rightarrow> int option" where
  "parse_duration orig =
     (let neg = prefix ''-'' orig; s = (if neg \<or> prefix ''+'' orig then tl orig else orig) in
      if s = ''0'' then Some 0
      else if s = [] then None
      else
        (case duration_terms 0 s of
           None \<Rightarrow> None
         | Some d \<Rightarrow> if neg then Some (- int d) else if d > 2 ^ 63 - 1 then None else Some (int d)))"

text \<open>
  \<open>Duration.String\<close>: below a second the largest unit that fits, else hours, minutes and seconds; a fraction
  loses its trailing zeros.
\<close>

definition trim_zeros :: "string \<Rightarrow> string" where
  "trim_zeros s = rev (dropWhile (\<lambda>c. c = CHR ''0'') (rev s))"

definition fraction_text :: "nat \<Rightarrow> nat \<Rightarrow> string" where
  "fraction_text prec v =
     (let digits = decimal_nat (v mod 10 ^ prec);
          f = trim_zeros (replicate (prec - length digits) (CHR ''0'') @ digits)
      in if f = [] then [] else CHR ''.'' # f)"

definition clock_text :: "nat \<Rightarrow> string" where
  "clock_text v =
     (let s = v div 10 ^ 9; m = s div 60; h = m div 60 in
      (if h > 0 then decimal_nat h @ ''h'' else [])
      @ (if m > 0 then decimal_nat (m mod 60) @ ''m'' else [])
      @ decimal_nat (s mod 60) @ fraction_text 9 v @ ''s'')"

definition duration_text :: "int \<Rightarrow> string" where
  "duration_text d =
     (let v = nat \<bar>d\<bar> in
      (if d < 0 then ''-'' else [])
      @ (if v = 0 then ''0s''
         else if v < 10 ^ 3 then decimal_nat v @ ''ns''
         else if v < 10 ^ 6 then decimal_nat (v div 10 ^ 3) @ fraction_text 3 v @ utf8 [194, 181] @ ''s''
         else if v < 10 ^ 9 then decimal_nat (v div 10 ^ 6) @ fraction_text 6 v @ ''ms''
         else clock_text v))"

subsection \<open>Package flag\<close>

text \<open>
  \<open>FlagSet.Parse\<close>: \<open>formal\<close> lists the defined flags, \<open>given\<close> the values given so far, the last first. A
  value is checked when it is given. \<open>FlagHelp\<close> is \<open>flag.ErrHelp\<close>; a \<open>FlagFailure\<close> is the error of
  \<open>failf\<close>, its format and arguments.
\<close>

datatype flag_kind = BoolFlag | StringFlag | DurationFlag

datatype flag_error = FlagHelp | FlagFailure string "string list"

fun flag_value_ok :: "flag_kind \<Rightarrow> string \<Rightarrow> bool" where
  "flag_value_ok BoolFlag v \<longleftrightarrow> parse_bool v \<noteq> None"
| "flag_value_ok StringFlag v \<longleftrightarrow> True"
| "flag_value_ok DurationFlag v \<longleftrightarrow> parse_duration v \<noteq> None"

definition flag_name :: "string \<Rightarrow> string" where
  "flag_name s = drop (if prefix ''--'' s then 2 else 1) s"

definition split_value :: "string \<Rightarrow> string \<times> string option" where
  "split_value name =
     (takeWhile (\<lambda>c. c \<noteq> CHR ''='') name,
      case dropWhile (\<lambda>c. c \<noteq> CHR ''='') name of [] \<Rightarrow> None | _ # v \<Rightarrow> Some v)"

definition give_flag ::
    "string \<Rightarrow> flag_kind \<Rightarrow> string \<Rightarrow> string \<Rightarrow> (string \<times> string) list \<Rightarrow> flag_error + (string \<times> string) list" where
  "give_flag fmt kind v name given =
     (if flag_value_ok kind v then Inr ((name, v) # given)
      else Inl (FlagFailure fmt [v, name, ''parse error'']))"

text \<open>\<open>parseOne\<close> on the argument \<open>s\<close>: an error, the end of the flags, or a flag and the arguments after it.\<close>

datatype flag_step = FlagsEnd "string list" | FlagSeen "(string \<times> string) list" "string list"

definition parse_one ::
    "(string \<times> flag_kind) list \<Rightarrow> (string \<times> string) list \<Rightarrow> string \<Rightarrow> string list \<Rightarrow> flag_error + flag_step" where
  "parse_one formal given s args =
     (if length s < 2 \<or> hd s \<noteq> CHR ''-'' then Inr (FlagsEnd (s # args))
      else if s = ''--'' then Inr (FlagsEnd args)
      else if flag_name s = [] \<or> hd (flag_name s) = CHR ''-'' \<or> hd (flag_name s) = CHR ''=''
      then Inl (FlagFailure ''bad flag syntax: %s'' [s])
      else
        (case split_value (flag_name s) of
           (name, value) \<Rightarrow>
             (case map_of formal name of
                None \<Rightarrow>
                  if name = ''help'' \<or> name = ''h'' then Inl FlagHelp
                  else Inl (FlagFailure ''flag provided but not defined: -%s'' [name])
              | Some BoolFlag \<Rightarrow>
                  try_bind (give_flag ''invalid boolean value %q for -%s: %v'' BoolFlag
                             (case value of None \<Rightarrow> ''true'' | Some v \<Rightarrow> v) name given) (\<lambda>given'.
                  Inr (FlagSeen given' args))
              | Some kind \<Rightarrow>
                  (case value of
                     Some v \<Rightarrow>
                       try_bind (give_flag ''invalid value %q for flag -%s: %v'' kind v name given) (\<lambda>given'.
                       Inr (FlagSeen given' args))
                   | None \<Rightarrow>
                       (case args of
                          [] \<Rightarrow> Inl (FlagFailure ''flag needs an argument: -%s'' [name])
                        | v # rest \<Rightarrow>
                            try_bind (give_flag ''invalid value %q for flag -%s: %v'' kind v name given) (\<lambda>given'.
                            Inr (FlagSeen given' rest)))))))"

text \<open>What is left after a flag is a suffix of the arguments that followed it.\<close>

lemma parse_one_seen: "parse_one formal given s args = Inr (FlagSeen given' rest) \<Longrightarrow> suffix rest args"
  by (auto simp: parse_one_def try_bind_def suffix_def split: if_splits option.splits list.splits prod.splits
      flag_kind.splits sum.splits)

lemma parse_one_end: "parse_one formal given s args = Inr (FlagsEnd rest) \<Longrightarrow> suffix rest (s # args)"
  by (auto simp: parse_one_def try_bind_def suffix_def split: if_splits option.splits list.splits prod.splits
      flag_kind.splits sum.splits)

function parse_flags ::
    "(string \<times> flag_kind) list \<Rightarrow> (string \<times> string) list \<Rightarrow> string list
      \<Rightarrow> flag_error + ((string \<times> string) list \<times> string list)" where
  "parse_flags formal given [] = Inr (given, [])"
| "parse_flags formal given (s # args) =
     (case parse_one formal given s args of
        Inl e \<Rightarrow> Inl e
      | Inr (FlagsEnd rest) \<Rightarrow> Inr (given, rest)
      | Inr (FlagSeen given' rest) \<Rightarrow> parse_flags formal given' rest)"
  by pat_completeness auto
termination
  by (relation "measure (\<lambda>(formal, given, args). length args)")
    (auto dest!: parse_one_seen suffix_length_le)

text \<open>The value of a flag after parsing, and whether \<open>Visit\<close> reports it as given.\<close>

definition bool_flag :: "(string \<times> string) list \<Rightarrow> string \<Rightarrow> bool" where
  "bool_flag given name = (case map_of given name of None \<Rightarrow> False | Some v \<Rightarrow> parse_bool v = Some True)"

definition string_flag :: "(string \<times> string) list \<Rightarrow> string \<Rightarrow> string" where
  "string_flag given name = (case map_of given name of None \<Rightarrow> '''' | Some v \<Rightarrow> v)"

definition duration_flag :: "(string \<times> string) list \<Rightarrow> string \<Rightarrow> int \<Rightarrow> int" where
  "duration_flag given name dflt =
     (case map_of given name of
        None \<Rightarrow> dflt
      | Some v \<Rightarrow> (case parse_duration v of None \<Rightarrow> dflt | Some d \<Rightarrow> d))"

definition flag_given :: "(string \<times> string) list \<Rightarrow> string \<Rightarrow> bool" where
  "flag_given given name \<longleftrightarrow> map_of given name \<noteq> None"

text \<open>What parsing leaves: a suffix of the arguments, and values that are valid for defined flags.\<close>

lemma parse_flags_rest: "parse_flags formal given args = Inr (given', rest) \<Longrightarrow> suffix rest args"
proof (induction formal given args rule: parse_flags.induct)
  case (2 formal given s args)
  show ?case
  proof (cases "parse_one formal given s args")
    case (Inr st)
    then show ?thesis
    proof (cases st)
      case (FlagsEnd r)
      with Inr "2.prems" show ?thesis by (auto dest: parse_one_end)
    next
      case (FlagSeen g r)
      with Inr "2.prems" have "suffix rest r" by (auto intro: "2.IH")
      moreover have "suffix r args" using Inr FlagSeen by (auto dest: parse_one_seen)
      ultimately show ?thesis by (meson suffix_Cons suffix_order.trans)
    qed
  qed (use "2.prems" in simp)
qed simp

definition flags_valid :: "(string \<times> flag_kind) list \<Rightarrow> (string \<times> string) list \<Rightarrow> bool" where
  "flags_valid formal given \<longleftrightarrow>
     list_all (\<lambda>(n, v). case map_of formal n of None \<Rightarrow> False | Some k \<Rightarrow> flag_value_ok k v) given"

lemma parse_one_valid:
  "parse_one formal given s args = Inr (FlagSeen given' rest) \<Longrightarrow> flags_valid formal given \<Longrightarrow> flags_valid formal given'"
  by (auto simp: parse_one_def give_flag_def try_bind_def flags_valid_def split: if_splits option.splits list.splits
      prod.splits flag_kind.splits sum.splits)

lemma parse_flags_valid:
  "parse_flags formal given args = Inr (given', rest) \<Longrightarrow> flags_valid formal given \<Longrightarrow> flags_valid formal given'"
proof (induction formal given args rule: parse_flags.induct)
  case (2 formal given s args)
  show ?case
  proof (cases "parse_one formal given s args")
    case (Inr st)
    with 2 show ?thesis by (cases st) (auto dest: parse_one_valid)
  qed (use "2.prems" in simp)
qed simp

subsection \<open>Package encoding/json\<close>

datatype json =
    JNull
  | JBool bool
  | JNum string
  | JStr string
  | JArr "json list"
  | JObj "(string \<times> json) list"

definition json_escape :: "nat \<Rightarrow> string" where
  "json_escape n = CHR 0x5C # ''u00'' @ [hex_digit (n div 16), hex_digit (n mod 16)]"

fun json_chars :: "string \<Rightarrow> string" where
  "json_chars [] = []"
| "json_chars (c # s) =
     (if code c = 226 \<and> prefix (utf8 [128, 168]) s then CHR 0x5C # ''u2028'' @ json_chars (drop 2 s)
      else if code c = 226 \<and> prefix (utf8 [128, 169]) s then CHR 0x5C # ''u2029'' @ json_chars (drop 2 s)
      else
        (if c = CHR 0x22 \<or> c = CHR 0x5C then [CHR 0x5C, c]
         else if code c = 8 then CHR 0x5C # ''b''
         else if code c = 12 then CHR 0x5C # ''f''
         else if code c = 10 then CHR 0x5C # ''n''
         else if code c = 13 then CHR 0x5C # ''r''
         else if code c = 9 then CHR 0x5C # ''t''
         else if code c < 32 \<or> c \<in> set ''<>&'' then json_escape (code c)
         else [c]) @ json_chars s)"

definition json_string :: "string \<Rightarrow> string" where
  "json_string s = CHR 0x22 # json_chars s @ [CHR 0x22]"

text \<open>\<open>Encode\<close> without and with \<open>SetIndent("", "  ")\<close>; the final newline is the caller's.\<close>

fun json_compact :: "json \<Rightarrow> string" where
  "json_compact JNull = ''null''"
| "json_compact (JBool b) = bool_text b"
| "json_compact (JNum n) = n"
| "json_compact (JStr s) = json_string s"
| "json_compact (JArr xs) = ''['' @ join '','' (map json_compact xs) @ '']''"
| "json_compact (JObj kvs) =
     ''{'' @ join '','' (map (\<lambda>kv. json_string (fst kv) @ '':'' @ json_compact (snd kv)) kvs) @ ''}''"

definition json_block :: "char \<Rightarrow> char \<Rightarrow> string \<Rightarrow> string list \<Rightarrow> string" where
  "json_block l r ind items =
     (if items = [] then [l, r]
      else l # newline @ join ('','' @ newline) (map (\<lambda>x. ind @ ''  '' @ x) items) @ newline @ ind @ [r])"

fun json_indent :: "string \<Rightarrow> json \<Rightarrow> string" where
  "json_indent ind (JArr xs) = json_block (CHR ''['') (CHR '']'') ind (map (json_indent (ind @ ''  '')) xs)"
| "json_indent ind (JObj kvs) =
     json_block (CHR ''{'') (CHR ''}'') ind
       (map (\<lambda>kv. json_string (fst kv) @ '': '' @ json_indent (ind @ ''  '') (snd kv)) kvs)"
| "json_indent ind JNull = json_compact JNull"
| "json_indent ind (JBool b) = json_compact (JBool b)"
| "json_indent ind (JNum n) = json_compact (JNum n)"
| "json_indent ind (JStr s) = json_compact (JStr s)"

subsection \<open>Package bufio\<close>

text \<open>
  The first \<open>Scan\<close> of a \<open>Scanner\<close> over a reader that delivers \<open>content\<close> and then ends: the first line
  without its line end. A line that does not fit the scanner's buffer of 64 KiB is an error.
\<close>

datatype scan_result = Token string | TooLong | NoToken

definition drop_cr :: "string \<Rightarrow> string" where
  "drop_cr s = (if s \<noteq> [] \<and> last s = CHR 0x0D then butlast s else s)"

definition scan_line :: "string \<Rightarrow> scan_result" where
  "scan_line content =
     (if CHR 0x0A \<in> set (take 65536 content) then Token (drop_cr (takeWhile (\<lambda>c. c \<noteq> CHR 0x0A) content))
      else if length content \<ge> 65536 then TooLong
      else if content = [] then NoToken
      else Token (drop_cr content))"

end
