(* ===== verification/Cli_Base.thy ===== *)
theory Cli_Base
  imports Cli_Text Client
begin

text \<open>
  The frame of the command line (\<open>cmd/spiderw/cli\<close>): the interfaces of \<open>api.go\<close> behind which the commands
  see the public API, the \<open>App\<close> with its injected writers, reader, prompt and client factory, and what the
  commands share: \<open>withClient\<close>, \<open>printOutput\<close>, references (\<open>refs.go\<close>) and monitors.

  A command runs on the world \<open>'w\<close>, which has the terminal and the bus, and from dialing to \<open>Close\<close> also on
  the state \<open>'c\<close> of its client. The closures that the monitors hand to the subscriptions are named by the
  constructors of \<open>watch\<close>; \<open>app_signals\<close> are the values the bus delivers to the command's subscription until
  Ctrl-C, or until the time to wait is over. A context is the background one, or is cancelled by Ctrl-C only.
  Standard error receives texts, and errors and flag usages whose rendering is left out.
\<close>

type_synonym ('c, 'w, 'a) cli = "(gerror, 'c \<times> 'w, 'a) go"

datatype chunk = Text string | ErrorText gerror | FlagUsage string

datatype watch =
    AdapterPowered string
  | DevicePowered string
  | DeviceMode string
  | StationState string
  | StationScanning string
  | StationNetwork string
  | StationAccessPoint string
  | StationAffinities string
  | ScanDone
  | AccessPointStarted string
  | AccessPointScanning string
  | NetworkConnected string
  | NetworkKnown string
  | NetworkBSSes string
  | KnownNetworkAutoConnect string
  | KnownNetworkHidden string
  | KnownNetworkLastConnected string

datatype delivered =
    GotBool bool
  | GotText string
  | GotPath "string option"
  | GotPaths "string list"
  | GotLevel int

text \<open>A subscription returns the closure that undoes it; the commands drop its error.\<close>

type_synonym ('c, 'w) unsub = "'c \<times> 'w \<Rightarrow> 'c \<times> 'w"

type_synonym ('c, 'w) subscribe = "watch \<Rightarrow> ('c, 'w, ('c, 'w) unsub) cli"

subsection \<open>api.go\<close>

record ('c, 'w) agent_api =
  ag_unregister :: "('c, 'w, unit) cli"

record ('c, 'w) daemon_api =
  dm_info :: "('c, 'w, daemon_info) cli"
  dm_version :: "('c, 'w, string) cli"
  dm_state_directory :: "('c, 'w, string) cli"
  dm_network_configuration_enabled :: "('c, 'w, bool) cli"
  dm_adapters :: "('c, 'w, obj_ref list) cli"
  dm_devices :: "('c, 'w, obj_ref list) cli"
  dm_stations :: "('c, 'w, obj_ref list) cli"
  dm_access_points :: "('c, 'w, obj_ref list) cli"
  dm_basic_service_sets :: "('c, 'w, obj_ref list) cli"
  dm_networks :: "('c, 'w, obj_ref list) cli"
  dm_known_networks :: "('c, 'w, obj_ref list) cli"

record ('c, 'w) adapter_api =
  ad_path :: string
  ad_powered :: "('c, 'w, bool) cli"
  ad_set_powered :: "bool \<Rightarrow> ('c, 'w, unit) cli"
  ad_name :: "('c, 'w, string) cli"
  ad_model :: "('c, 'w, string option) cli"
  ad_vendor :: "('c, 'w, string option) cli"
  ad_supported_modes :: "('c, 'w, mode list) cli"
  ad_supports_mode :: "mode \<Rightarrow> ('c, 'w, bool) cli"
  ad_supports_station :: "('c, 'w, bool) cli"
  ad_supports_ap :: "('c, 'w, bool) cli"
  ad_supports_ad_hoc :: "('c, 'w, bool) cli"
  ad_properties :: "('c, 'w, adapter_properties) cli"
  ad_subscribe_powered :: "('c, 'w) subscribe"

record ('c, 'w) device_api =
  dv_path :: string
  dv_powered :: "('c, 'w, bool) cli"
  dv_set_powered :: "bool \<Rightarrow> ('c, 'w, unit) cli"
  dv_name :: "('c, 'w, string) cli"
  dv_address :: "('c, 'w, string) cli"
  dv_mode :: "('c, 'w, mode) cli"
  dv_set_mode :: "mode \<Rightarrow> ('c, 'w, unit) cli"
  dv_adapter :: "('c, 'w, string) cli"
  dv_properties :: "('c, 'w, pub_device_properties) cli"
  dv_subscribe_powered :: "('c, 'w) subscribe"
  dv_subscribe_mode :: "('c, 'w) subscribe"

record ('c, 'w) wsc_api =
  ws_push_button :: "('c, 'w, unit) cli"
  ws_generate_pin :: "('c, 'w, string) cli"
  ws_start_pin :: "string \<Rightarrow> ('c, 'w, unit) cli"
  ws_cancel :: "('c, 'w, unit) cli"

record ('c, 'w) station_api =
  st_path :: string
  st_display :: string
  st_properties :: "('c, 'w, pub_station_properties) cli"
  st_affinities :: "('c, 'w, string list option) cli"
  st_scan :: "('c, 'w, unit) cli"
  st_ordered_networks :: "('c, 'w, (obj_ref \<times> rat) list) cli"
  st_set_affinities :: "string list \<Rightarrow> ('c, 'w, unit) cli"
  st_disconnect :: "('c, 'w, unit) cli"
  st_connect_hidden :: "string \<Rightarrow> ('c, 'w, unit) cli"
  st_hidden_access_points :: "('c, 'w, public_hidden_access_point list) cli"
  st_subscribe_scanning :: "('c, 'w) subscribe"
  st_subscribe_state :: "('c, 'w) subscribe"
  st_subscribe_network :: "('c, 'w) subscribe"
  st_subscribe_access_point :: "('c, 'w) subscribe"
  st_subscribe_affinities :: "('c, 'w) subscribe"
  st_monitor_signal :: "'w signal_level_config \<Rightarrow> ('c, 'w, ('c, 'w) agent_api) cli"
  st_wsc :: "('c, 'w, ('c, 'w) wsc_api) cli"

record ('c, 'w) access_point_api =
  ax_path :: string
  ax_display :: string
  ax_properties :: "('c, 'w, access_point_properties) cli"
  ax_start :: "string \<Rightarrow> string \<Rightarrow> ('c, 'w, unit) cli"
  ax_start_profile :: "string \<Rightarrow> ('c, 'w, unit) cli"
  ax_stop :: "('c, 'w, unit) cli"
  ax_scan :: "('c, 'w, unit) cli"
  ax_ordered_networks :: "('c, 'w, public_ordered_network list) cli"
  ax_subscribe_scanning :: "('c, 'w) subscribe"
  ax_subscribe_started :: "('c, 'w) subscribe"

record ('c, 'w) bss_api =
  bs_path :: string
  bs_address :: "('c, 'w, string) cli"
  bs_properties :: "('c, 'w, bss_properties) cli"

record ('c, 'w) network_api =
  nw_path :: string
  nw_name :: "('c, 'w, string) cli"
  nw_connected :: "('c, 'w, bool) cli"
  nw_device :: "('c, 'w, string) cli"
  nw_type :: "('c, 'w, network_type) cli"
  nw_known_network :: "('c, 'w, string option) cli"
  nw_ess :: "('c, 'w, string list) cli"
  nw_connect :: "('c, 'w, unit) cli"
  nw_properties :: "('c, 'w, pub_network_properties) cli"
  nw_subscribe_connected :: "('c, 'w) subscribe"
  nw_subscribe_known :: "('c, 'w) subscribe"
  nw_subscribe_ess :: "('c, 'w) subscribe"

record ('c, 'w) known_network_api =
  kn_path :: string
  kn_name :: "('c, 'w, string) cli"
  kn_type :: "('c, 'w, network_type) cli"
  kn_hidden :: "('c, 'w, bool) cli"
  kn_last_connected :: "('c, 'w, string option) cli"
  kn_auto_connect :: "('c, 'w, bool) cli"
  kn_set_auto_connect :: "bool \<Rightarrow> ('c, 'w, unit) cli"
  kn_forget :: "('c, 'w, unit) cli"
  kn_properties :: "('c, 'w, known_network_properties) cli"
  kn_subscribe_auto_connect :: "('c, 'w) subscribe"
  kn_subscribe_hidden :: "('c, 'w) subscribe"
  kn_subscribe_last_connected :: "('c, 'w) subscribe"

text \<open>\<open>Daemon\<close> may be nil, as a closed client's is. The callbacks of an agent run on the world.\<close>

record ('c, 'w) client_api =
  api_daemon :: "'c \<times> 'w \<Rightarrow> ('c, 'w) daemon_api option"
  api_adapter :: "string \<Rightarrow> ('c, 'w, ('c, 'w) adapter_api) cli"
  api_device :: "string \<Rightarrow> ('c, 'w, ('c, 'w) device_api) cli"
  api_station :: "string \<Rightarrow> ('c, 'w, ('c, 'w) station_api) cli"
  api_access_point :: "string \<Rightarrow> ('c, 'w, ('c, 'w) access_point_api) cli"
  api_basic_service_set :: "string \<Rightarrow> ('c, 'w, ('c, 'w) bss_api) cli"
  api_network :: "string \<Rightarrow> ('c, 'w, ('c, 'w) network_api) cli"
  api_known_network :: "string \<Rightarrow> ('c, 'w, ('c, 'w) known_network_api) cli"
  api_all_adapters :: "('c, 'w, ('c, 'w) adapter_api list) cli"
  api_all_devices :: "('c, 'w, ('c, 'w) device_api list) cli"
  api_all_stations :: "('c, 'w, ('c, 'w) station_api list) cli"
  api_all_access_points :: "('c, 'w, ('c, 'w) access_point_api list) cli"
  api_all_basic_service_sets :: "('c, 'w, ('c, 'w) bss_api list) cli"
  api_all_networks :: "('c, 'w, ('c, 'w) network_api list) cli"
  api_all_known_networks :: "('c, 'w, ('c, 'w) known_network_api list) cli"
  api_register_agent :: "'w credential_callbacks \<Rightarrow> ('c, 'w, ('c, 'w) agent_api) cli"
  api_close :: "('c, 'w, unit) cli"

subsection \<open>client.go, output.go and prompt.go\<close>

record ('c, 'w) app =
  app_session :: bool
  app_help :: bool
  app_json :: bool
  app_stdout :: "string \<Rightarrow> (gerror, 'w, unit) go"
  app_stderr :: "chunk \<Rightarrow> 'w \<Rightarrow> 'w"
  app_stdin :: "'w \<Rightarrow> (string \<times> raw_err option) \<times> 'w"
  app_prompt :: "string \<Rightarrow> (raw_err, 'w, string) go"
  app_new_client :: "bool \<Rightarrow> (gerror, 'w, 'c \<times> ('c, 'w) client_api) go"
  app_signals :: "delivered list"

text \<open>A call that touches the world only, seen from a command that has a client.\<close>

definition on_world :: "('e, 'w, 'a) go \<Rightarrow> ('e, 'c \<times> 'w, 'a) go" where
  "on_world m = (\<lambda>(c, w). case m w of (r, w') \<Rightarrow> (r, (c, w')))"

definition with_client ::
    "('c, 'w) app \<Rightarrow> (('c, 'w) client_api \<Rightarrow> ('c, 'w, unit) cli) \<Rightarrow> (gerror, 'w, unit) go" where
  "with_client app fn = (\<lambda>w.
     case app_new_client app (app_session app) w of
       (Inl e, w') \<Rightarrow> (Inl e, w')
     | (Inr (c, client), w') \<Rightarrow>
         (case fn client (c, w') of
            (r, s) \<Rightarrow> (case api_close client s of (_, (_, w'')) \<Rightarrow> (r, w''))))"

text \<open>What a result prints as: its \<open>String()\<close> and its JSON form.\<close>

record cli_output =
  out_text :: string
  out_json :: json

definition print_output :: "('c, 'w) app \<Rightarrow> cli_output \<Rightarrow> ('c, 'w, unit) cli" where
  "print_output app v =
     on_world (app_stdout app
       ((if app_json app then json_indent '''' (out_json v) else out_text v) @ newline))"

text \<open>The line of a monitor: compact JSON, or the property and its value.\<close>

definition write_line :: "('c, 'w) app \<Rightarrow> string \<Rightarrow> json \<Rightarrow> (gerror, 'w, unit) go" where
  "write_line app text j = app_stdout app ((if app_json app then json_compact j else text) @ newline)"

definition print_line :: "('c, 'w) app \<Rightarrow> string \<Rightarrow> json \<Rightarrow> ('c, 'w, unit) cli" where
  "print_line app text j = on_world (write_line app text j)"

text \<open>A deferred call, whose error is dropped, and the deferred end of a subscription.\<close>

definition deferred :: "('c, 'w, unit) cli \<Rightarrow> ('c, 'w, 'a) cli \<Rightarrow> ('c, 'w, 'a) cli" where
  "deferred d m = (\<lambda>s. case m s of (r, s') \<Rightarrow> (r, snd (d s')))"

definition deferred_unsub :: "('c, 'w) unsub \<Rightarrow> ('c, 'w, 'a) cli \<Rightarrow> ('c, 'w, 'a) cli" where
  "deferred_unsub u m = (\<lambda>s. case m s of (r, s') \<Rightarrow> (r, u s'))"

text \<open>\<open>defaultPromptPassphrase\<close>, over a terminal that reads without echo.\<close>

definition default_prompt_passphrase ::
    "bool \<Rightarrow> (raw_err, 'w, string) go \<Rightarrow> (chunk \<Rightarrow> 'w \<Rightarrow> 'w) \<Rightarrow> string \<Rightarrow> (raw_err, 'w, string) go" where
  "default_prompt_passphrase is_terminal read_password stderr prompt = (\<lambda>w.
     if \<not> is_terminal
     then (Inl (OtherErr ''cannot prompt for passphrase: stdin is not a terminal; use --passphrase or --passphrase-stdin''), w)
     else
       (case read_password (stderr (Text prompt) w) of
          (r, w') \<Rightarrow>
            (case r of
               Inl e \<Rightarrow> Inl (OtherErr (sprintf ''reading passphrase: %v'' [err_text e]))
             | Inr secret \<Rightarrow> Inr secret, stderr (Text newline) w')))"

subsection \<open>Usage errors\<close>

definition usage :: "string \<Rightarrow> gerror" where
  "usage text = Errorf ''usage: %s'' [text] []"


end
