(* ===== verification/Cli_Refs.thy ===== *)
theory Cli_Refs
  imports Cli_Base
begin

text \<open>
  References to objects on the command line: \<open>refs.go\<close>, and for every kind of object its \<open><kind>Refs\<close>,
  \<open><kind>ByRef\<close>, \<open>with<Kind>\<close> and \<open>list\<close> command. A reference is an object path or a name; a \<open>nameRef\<close> and
  an \<open>addrRef\<close> are the pairs of path and name (address) that the public API resolves.
\<close>

subsection \<open>refs.go\<close>

definition readable :: "obj_ref \<Rightarrow> string" where
  "readable r = (if ref_name r \<noteq> '''' then ref_name r else ref_path r)"

definition to_ref :: "string \<Rightarrow> string \<Rightarrow> obj_ref" where
  "to_ref name path = \<lparr>ref_path = path, ref_name = name\<rparr>"

definition name_ref_json :: "obj_ref \<Rightarrow> json" where
  "name_ref_json r = JObj [(''Name'', JStr (ref_name r)), (''Path'', JStr (ref_path r))]"

definition addr_ref_json :: "obj_ref \<Rightarrow> json" where
  "addr_ref_json r = JObj [(''Address'', JStr (ref_name r)), (''Path'', JStr (ref_path r))]"

definition to_addr_refs :: "obj_ref list \<Rightarrow> obj_ref list" where
  "to_addr_refs rs = map (\<lambda>r. to_ref (ref_name r) (ref_path r)) rs"

definition readable_addr_refs :: "obj_ref list \<Rightarrow> string" where
  "readable_addr_refs rs = (if rs = [] then ''-'' else join '', '' (map readable rs))"

definition optional_path_text :: "string option \<Rightarrow> string \<Rightarrow> string" where
  "optional_path_text path absent =
     (case path of None \<Rightarrow> absent | Some p \<Rightarrow> if p = '''' then absent else p)"

definition path_list_text :: "string list \<Rightarrow> string" where
  "path_list_text paths = (if paths = [] then ''none'' else join '', '' paths)"

definition optional_json :: "('a \<Rightarrow> json) \<Rightarrow> 'a option \<Rightarrow> json" where
  "optional_json f x = (case x of None \<Rightarrow> JNull | Some y \<Rightarrow> f y)"

definition readable_ref :: "obj_ref option \<Rightarrow> string \<Rightarrow> string" where
  "readable_ref r absent = (case r of None \<Rightarrow> absent | Some r \<Rightarrow> readable r)"

definition ref_of_ref :: "obj_ref option \<Rightarrow> obj_ref option" where
  "ref_of_ref r = (case r of None \<Rightarrow> None | Some r \<Rightarrow> Some (to_ref (ref_name r) (ref_path r)))"

text \<open>
  \<open>monitorResolver\<close>: the name behind a path a subscription delivers, the bare path when anything fails.
  \<open>friendly\<close> is the pattern of its methods: fetch the object, then read the name off it.
\<close>

definition friendly ::
    "('c, 'w) client_api option \<Rightarrow> (('c, 'w) client_api \<Rightarrow> string \<Rightarrow> ('c, 'w, 'obj) cli)
      \<Rightarrow> ('obj \<Rightarrow> ('c, 'w, string) cli) \<Rightarrow> string option \<Rightarrow> 'c \<times> 'w \<Rightarrow> obj_ref option \<times> ('c \<times> 'w)" where
  "friendly client get name_of path s =
     (case path of
        None \<Rightarrow> (None, s)
      | Some p \<Rightarrow>
          if p = '''' then (None, s)
          else
            (case client of
               None \<Rightarrow> (Some (to_ref '''' p), s)
             | Some c \<Rightarrow>
                 (case get c p s of
                    (Inl _, s') \<Rightarrow> (Some (to_ref '''' p), s')
                  | (Inr obj, s') \<Rightarrow>
                      (case name_of obj s' of
                         (Inl _, s'') \<Rightarrow> (Some (to_ref '''' p), s'')
                       | (Inr n, s'') \<Rightarrow> (Some (to_ref n p), s'')))))"

definition resolver_network_ref ::
    "('c, 'w) client_api option \<Rightarrow> string option \<Rightarrow> 'c \<times> 'w \<Rightarrow> obj_ref option \<times> ('c \<times> 'w)" where
  "resolver_network_ref client = friendly client api_network nw_name"

definition resolver_bss_ref ::
    "('c, 'w) client_api option \<Rightarrow> string option \<Rightarrow> 'c \<times> 'w \<Rightarrow> obj_ref option \<times> ('c \<times> 'w)" where
  "resolver_bss_ref client = friendly client api_basic_service_set bs_address"

definition resolver_known_network_ref ::
    "('c, 'w) client_api option \<Rightarrow> string option \<Rightarrow> 'c \<times> 'w \<Rightarrow> obj_ref option \<times> ('c \<times> 'w)" where
  "resolver_known_network_ref client = friendly client api_known_network kn_name"

text \<open>A slice that may be nil is an option: JSON prints a nil one as \<open>null\<close>.\<close>

primrec resolver_each ::
    "('c, 'w) client_api option \<Rightarrow> string list \<Rightarrow> 'c \<times> 'w \<Rightarrow> obj_ref list \<times> ('c \<times> 'w)" where
  "resolver_each client [] s = ([], s)"
| "resolver_each client (p # ps) s =
     (case resolver_bss_ref client (Some p) s of
        (r, s') \<Rightarrow>
          (case resolver_each client ps s' of
             (rs, s'') \<Rightarrow> ((case r of None \<Rightarrow> rs | Some x \<Rightarrow> x # rs), s'')))"

definition resolver_bss_refs ::
    "('c, 'w) client_api option \<Rightarrow> string list \<Rightarrow> 'c \<times> 'w \<Rightarrow> obj_ref list option \<times> ('c \<times> 'w)" where
  "resolver_bss_refs client paths s =
     (if paths = [] then (None, s)
      else (case resolver_each client paths s of (rs, s') \<Rightarrow> (Some rs, s')))"

definition slice_json :: "('a \<Rightarrow> json) \<Rightarrow> 'a list option \<Rightarrow> json" where
  "slice_json f xs = (case xs of None \<Rightarrow> JNull | Some ys \<Rightarrow> JArr (map f ys))"

definition slice :: "'a list option \<Rightarrow> 'a list" where
  "slice xs = (case xs of None \<Rightarrow> [] | Some ys \<Rightarrow> ys)"

subsection \<open>Listing and finding objects\<close>

definition listed_refs ::
    "(('c, 'w) daemon_api \<Rightarrow> ('c, 'w, obj_ref list) cli) \<Rightarrow> ('c, 'w) client_api option
      \<Rightarrow> ('c, 'w, obj_ref list) cli" where
  "listed_refs list client = (\<lambda>s.
     case client of
       None \<Rightarrow> (Inl (Errorf ''client not available'' [] []), s)
     | Some c \<Rightarrow>
         (case api_daemon c s of
            None \<Rightarrow> (Inl (Errorf ''daemon not available'' [] []), s)
          | Some d \<Rightarrow> list d s))"

text \<open>
  The messages of the finders are the noun of a missing reference, the text for an empty listing, the
  noun of an unknown reference, and the rest of the message for an ambiguous one.
\<close>

record find_texts =
  ft_required :: string
  ft_none :: string
  ft_unknown :: string
  ft_ambiguous :: string

definition matches_ref :: "string \<Rightarrow> obj_ref \<Rightarrow> bool" where
  "matches_ref ref candidate \<longleftrightarrow> ref_path candidate = ref \<or> ref_name candidate = ref"

definition object_by_ref ::
    "find_texts \<Rightarrow> ('c, 'w, obj_ref list) cli \<Rightarrow> (string \<Rightarrow> ('c, 'w, 'obj) cli) \<Rightarrow> string \<Rightarrow> ('c, 'w, 'obj) cli" where
  "object_by_ref texts refs get raw =
     (let ref = trim_space raw in
      if ref = '''' then go_fail (Errorf (ft_required texts) [] [])
      else
        go_bind refs (\<lambda>rs.
        if rs = [] then go_fail (Errorf (ft_none texts) [] [])
        else
          (case filter (matches_ref ref) rs of
             [] \<Rightarrow> go_fail (Errorf (ft_unknown texts) [ref] [])
           | [m] \<Rightarrow> get (ref_path m)
           | _ \<Rightarrow> go_fail (Errorf (ft_ambiguous texts) [ref] []))))"

text \<open>The \<open>list\<close> commands: one line for every reference, the name and the path, or only the path.\<close>

definition ref_line :: "obj_ref \<Rightarrow> string" where
  "ref_line r = (if ref_name r = '''' then ref_path r else ref_name r @ tab @ ref_path r)"

definition ref_result_json :: "string \<Rightarrow> obj_ref \<Rightarrow> json" where
  "ref_result_json name_key r = JObj [(''Path'', JStr (ref_path r)), (name_key, JStr (ref_name r))]"

definition list_result :: "string \<Rightarrow> string \<Rightarrow> (obj_ref \<Rightarrow> string) \<Rightarrow> obj_ref list \<Rightarrow> cli_output" where
  "list_result none name_key line rs =
     \<lparr>out_text = (if rs = [] then none else join newline (map line rs)),
      out_json = JArr (map (ref_result_json name_key) rs)\<rparr>"

definition run_list ::
    "string \<Rightarrow> (obj_ref list \<Rightarrow> cli_output)
      \<Rightarrow> (('c, 'w) client_api option \<Rightarrow> ('c, 'w, obj_ref list) cli) \<Rightarrow> ('c, 'w) app \<Rightarrow> string list
      \<Rightarrow> (gerror, 'w, unit) go" where
  "run_list unknown result refs app args =
     (case args of
        a # _ \<Rightarrow> go_fail (Errorf unknown [a] [])
      | [] \<Rightarrow> with_client app (\<lambda>client. go_bind (refs (Some client)) (\<lambda>rs. print_output app (result rs))))"

text \<open>The \<open>status\<close> commands: an entry for every object, or for the one referred to.\<close>

definition run_status ::
    "string \<Rightarrow> (('c, 'w) client_api \<Rightarrow> ('c, 'w, 'obj list) cli) \<Rightarrow> ('obj \<Rightarrow> ('c, 'w, 'entry) cli)
      \<Rightarrow> ('entry list \<Rightarrow> cli_output) \<Rightarrow> ('c, 'w) app \<Rightarrow> string list \<Rightarrow> (gerror, 'w, unit) go" where
  "run_status unknown all entry_of result app args =
     (case args of
        a # _ \<Rightarrow> go_fail (Errorf unknown [a] [])
      | [] \<Rightarrow>
          with_client app (\<lambda>client.
            go_bind (all client) (\<lambda>objs.
            go_bind (go_collect entry_of objs) (\<lambda>entries.
            print_output app (result entries)))))"

text \<open>\<open>with<Kind>\<close>, and a command without arguments on one object.\<close>

definition with_object ::
    "(('c, 'w) client_api option \<Rightarrow> string \<Rightarrow> ('c, 'w, 'obj) cli) \<Rightarrow> ('c, 'w) app \<Rightarrow> string
      \<Rightarrow> ('obj \<Rightarrow> ('c, 'w, unit) cli) \<Rightarrow> (gerror, 'w, unit) go" where
  "with_object by_ref app ref fn =
     with_client app (\<lambda>client. go_bind (by_ref (Some client) ref) fn)"

definition no_args :: "string \<Rightarrow> string list \<Rightarrow> (gerror, 'w, unit) go \<Rightarrow> (gerror, 'w, unit) go" where
  "no_args text args m = (if args \<noteq> [] then go_fail (usage text) else m)"

text \<open>A command that reads one value and prints it.\<close>

definition show_value ::
    "('c, 'w) app \<Rightarrow> ('obj \<Rightarrow> ('c, 'w, 'v) cli) \<Rightarrow> ('v \<Rightarrow> cli_output) \<Rightarrow> 'obj \<Rightarrow> ('c, 'w, unit) cli" where
  "show_value app get result obj = go_bind (get obj) (\<lambda>v. print_output app (result v))"

text \<open>A line of a status block, and the blocks of a status.\<close>

definition field :: "nat \<Rightarrow> string \<Rightarrow> string \<Rightarrow> string" where
  "field width label v = pad_right width (label @ '':'') @ v"

definition or_dash :: "string \<Rightarrow> string" where
  "or_dash v = (if v = '''' then ''-'' else v)"

definition or_unnamed :: "string \<Rightarrow> string" where
  "or_unnamed v = (if v = '''' then ''(unnamed)'' else v)"

definition status_text :: "string \<Rightarrow> ('entry \<Rightarrow> string list) \<Rightarrow> 'entry list \<Rightarrow> string" where
  "status_text none lines entries =
     (if entries = [] then none
      else join (newline @ newline) (map (\<lambda>e. join newline (lines e)) entries))"

subsection \<open>adapter\<close>

definition adapter_refs :: "('c, 'w) client_api option \<Rightarrow> ('c, 'w, obj_ref list) cli" where
  "adapter_refs = listed_refs dm_adapters"

definition adapter_by_ref :: "('c, 'w) client_api option \<Rightarrow> string \<Rightarrow> ('c, 'w, ('c, 'w) adapter_api) cli" where
  "adapter_by_ref client ref =
     object_by_ref
       \<lparr>ft_required = ''adapter reference required'', ft_none = ''no adapters available'',
        ft_unknown = ''adapter %q not found'', ft_ambiguous = ''adapter reference %q is ambiguous; use an adapter path''\<rparr>
       (adapter_refs client) (\<lambda>path. case client of None \<Rightarrow> go_fail (Errorf ''client not available'' [] []) | Some c \<Rightarrow> api_adapter c path)
       ref"

definition with_adapter ::
    "('c, 'w) app \<Rightarrow> string \<Rightarrow> (('c, 'w) adapter_api \<Rightarrow> ('c, 'w, unit) cli) \<Rightarrow> (gerror, 'w, unit) go" where
  "with_adapter = with_object adapter_by_ref"

definition adapter_list_result :: "obj_ref list \<Rightarrow> cli_output" where
  "adapter_list_result = list_result ''no adapters available'' ''Name'' ref_line"

definition run_adapter_list :: "('c, 'w) app \<Rightarrow> string list \<Rightarrow> (gerror, 'w, unit) go" where
  "run_adapter_list = run_list ''unknown adapter list argument: %s'' adapter_list_result adapter_refs"

subsection \<open>device\<close>

definition device_refs :: "('c, 'w) client_api option \<Rightarrow> ('c, 'w, obj_ref list) cli" where
  "device_refs = listed_refs dm_devices"

definition device_by_ref :: "('c, 'w) client_api option \<Rightarrow> string \<Rightarrow> ('c, 'w, ('c, 'w) device_api) cli" where
  "device_by_ref client ref =
     object_by_ref
       \<lparr>ft_required = ''device reference required'', ft_none = ''no devices available'',
        ft_unknown = ''device %q not found'', ft_ambiguous = ''device reference %q is ambiguous; use a device path''\<rparr>
       (device_refs client) (\<lambda>path. case client of None \<Rightarrow> go_fail (Errorf ''client not available'' [] []) | Some c \<Rightarrow> api_device c path)
       ref"

definition with_device ::
    "('c, 'w) app \<Rightarrow> string \<Rightarrow> (('c, 'w) device_api \<Rightarrow> ('c, 'w, unit) cli) \<Rightarrow> (gerror, 'w, unit) go" where
  "with_device = with_object device_by_ref"

definition device_list_result :: "obj_ref list \<Rightarrow> cli_output" where
  "device_list_result = list_result ''no devices available'' ''Name'' ref_line"

definition run_device_list :: "('c, 'w) app \<Rightarrow> string list \<Rightarrow> (gerror, 'w, unit) go" where
  "run_device_list = run_list ''unknown device list argument: %s'' device_list_result device_refs"

subsection \<open>bss\<close>

definition bss_refs :: "('c, 'w) client_api option \<Rightarrow> ('c, 'w, obj_ref list) cli" where
  "bss_refs = listed_refs dm_basic_service_sets"

definition bss_by_ref :: "('c, 'w) client_api option \<Rightarrow> string \<Rightarrow> ('c, 'w, ('c, 'w) bss_api) cli" where
  "bss_by_ref client ref =
     object_by_ref
       \<lparr>ft_required = ''basic service set reference required'', ft_none = ''no basic service sets available'',
        ft_unknown = ''basic service set %q not found'', ft_ambiguous = ''basic service set reference %q is ambiguous; use a path''\<rparr>
       (bss_refs client) (\<lambda>path. case client of None \<Rightarrow> go_fail (Errorf ''client not available'' [] []) | Some c \<Rightarrow> api_basic_service_set c path)
       ref"

definition with_bss ::
    "('c, 'w) app \<Rightarrow> string \<Rightarrow> (('c, 'w) bss_api \<Rightarrow> ('c, 'w, unit) cli) \<Rightarrow> (gerror, 'w, unit) go" where
  "with_bss = with_object bss_by_ref"

definition bss_list_result :: "obj_ref list \<Rightarrow> cli_output" where
  "bss_list_result = list_result ''no basic service sets available'' ''Address'' ref_line"

definition run_bss_list :: "('c, 'w) app \<Rightarrow> string list \<Rightarrow> (gerror, 'w, unit) go" where
  "run_bss_list = run_list ''unknown bss list argument: %s'' bss_list_result bss_refs"

subsection \<open>network\<close>

definition network_refs :: "('c, 'w) client_api option \<Rightarrow> ('c, 'w, obj_ref list) cli" where
  "network_refs = listed_refs dm_networks"

definition network_by_ref :: "('c, 'w) client_api option \<Rightarrow> string \<Rightarrow> ('c, 'w, ('c, 'w) network_api) cli" where
  "network_by_ref client ref =
     object_by_ref
       \<lparr>ft_required = ''network reference required'', ft_none = ''no networks available'',
        ft_unknown = ''network %q not found'', ft_ambiguous = ''network reference %q is ambiguous; use a network path''\<rparr>
       (network_refs client) (\<lambda>path. case client of None \<Rightarrow> go_fail (Errorf ''client not available'' [] []) | Some c \<Rightarrow> api_network c path)
       ref"

definition with_network ::
    "('c, 'w) app \<Rightarrow> string \<Rightarrow> (('c, 'w) network_api \<Rightarrow> ('c, 'w, unit) cli) \<Rightarrow> (gerror, 'w, unit) go" where
  "with_network = with_object network_by_ref"

definition network_list_result :: "obj_ref list \<Rightarrow> cli_output" where
  "network_list_result = list_result ''no networks available'' ''Name'' ref_line"

definition run_network_list :: "('c, 'w) app \<Rightarrow> string list \<Rightarrow> (gerror, 'w, unit) go" where
  "run_network_list = run_list ''unknown network list argument: %s'' network_list_result network_refs"

subsection \<open>known-network\<close>

definition known_network_refs :: "('c, 'w) client_api option \<Rightarrow> ('c, 'w, obj_ref list) cli" where
  "known_network_refs = listed_refs dm_known_networks"

definition known_network_by_ref :: "('c, 'w) client_api option \<Rightarrow> string \<Rightarrow> ('c, 'w, ('c, 'w) known_network_api) cli" where
  "known_network_by_ref client ref =
     object_by_ref
       \<lparr>ft_required = ''known-network reference required'', ft_none = ''no known networks available'',
        ft_unknown = ''known network %q not found'', ft_ambiguous = ''known-network reference %q is ambiguous; use a path''\<rparr>
       (known_network_refs client) (\<lambda>path. case client of None \<Rightarrow> go_fail (Errorf ''client not available'' [] []) | Some c \<Rightarrow> api_known_network c path)
       ref"

definition with_known_network ::
    "('c, 'w) app \<Rightarrow> string \<Rightarrow> (('c, 'w) known_network_api \<Rightarrow> ('c, 'w, unit) cli) \<Rightarrow> (gerror, 'w, unit) go" where
  "with_known_network = with_object known_network_by_ref"

definition known_network_list_result :: "obj_ref list \<Rightarrow> cli_output" where
  "known_network_list_result = list_result ''no known networks available'' ''Name'' ref_line"

definition run_known_network_list :: "('c, 'w) app \<Rightarrow> string list \<Rightarrow> (gerror, 'w, unit) go" where
  "run_known_network_list = run_list ''unknown known-network list argument: %s'' known_network_list_result known_network_refs"

subsection \<open>station\<close>

definition station_refs :: "('c, 'w) client_api option \<Rightarrow> ('c, 'w, obj_ref list) cli" where
  "station_refs = listed_refs dm_stations"

definition station_by_ref :: "('c, 'w) client_api option \<Rightarrow> string \<Rightarrow> ('c, 'w, ('c, 'w) station_api) cli" where
  "station_by_ref client ref =
     object_by_ref
       \<lparr>ft_required = ''station reference required'', ft_none = ''no stations available'',
        ft_unknown = ''station %q not found'', ft_ambiguous = ''station reference %q is ambiguous; use a station path''\<rparr>
       (station_refs client) (\<lambda>path. case client of None \<Rightarrow> go_fail (Errorf ''client not available'' [] []) | Some c \<Rightarrow> api_station c path)
       ref"

definition with_station ::
    "('c, 'w) app \<Rightarrow> string \<Rightarrow> (('c, 'w) station_api \<Rightarrow> ('c, 'w, unit) cli) \<Rightarrow> (gerror, 'w, unit) go" where
  "with_station = with_object station_by_ref"

definition station_list_result :: "obj_ref list \<Rightarrow> cli_output" where
  "station_list_result = list_result ''no stations available'' ''Name'' ref_line"

definition run_station_list :: "('c, 'w) app \<Rightarrow> string list \<Rightarrow> (gerror, 'w, unit) go" where
  "run_station_list = run_list ''unknown station list argument: %s'' station_list_result station_refs"

subsection \<open>access-point\<close>

definition access_point_refs :: "('c, 'w) client_api option \<Rightarrow> ('c, 'w, obj_ref list) cli" where
  "access_point_refs = listed_refs dm_access_points"

definition access_point_by_ref :: "('c, 'w) client_api option \<Rightarrow> string \<Rightarrow> ('c, 'w, ('c, 'w) access_point_api) cli" where
  "access_point_by_ref client ref =
     object_by_ref
       \<lparr>ft_required = ''access point reference required'', ft_none = ''no access points available'',
        ft_unknown = ''access point %q not found'', ft_ambiguous = ''access point reference %q is ambiguous; use an object path''\<rparr>
       (access_point_refs client) (\<lambda>path. case client of None \<Rightarrow> go_fail (Errorf ''client not available'' [] []) | Some c \<Rightarrow> api_access_point c path)
       ref"

definition with_access_point ::
    "('c, 'w) app \<Rightarrow> string \<Rightarrow> (('c, 'w) access_point_api \<Rightarrow> ('c, 'w, unit) cli) \<Rightarrow> (gerror, 'w, unit) go" where
  "with_access_point = with_object access_point_by_ref"

text \<open>An access point without a name still gets the tab.\<close>

definition access_point_list_result :: "obj_ref list \<Rightarrow> cli_output" where
  "access_point_list_result = list_result ''no access points'' ''Name'' (\<lambda>r. ref_name r @ tab @ ref_path r)"

definition run_access_point_list :: "('c, 'w) app \<Rightarrow> string list \<Rightarrow> (gerror, 'w, unit) go" where
  "run_access_point_list = run_list ''unknown access-point list argument: %s'' access_point_list_result access_point_refs"

end
