(* ===== verification/Cli_Monitor.thy ===== *)
theory Cli_Monitor
  imports Cli_Refs
begin

text \<open>
  The monitor commands: the line each prints, the closures that print it when a value is delivered
  (\<open>run_watch\<close>), the streams, which print the current value before they subscribe, and the wait for Ctrl-C.
  A line takes the mutex of its monitor, so the lines of a monitor are printed one after the other.
\<close>

definition bool_result :: "string \<Rightarrow> string \<Rightarrow> string \<Rightarrow> bool \<Rightarrow> cli_output" where
  "bool_result kind ref key b =
     \<lparr>out_text = bool_text b, out_json = JObj [(kind, JStr ref), (key, JBool b)]\<rparr>"

definition text_result :: "string \<Rightarrow> string \<Rightarrow> string \<Rightarrow> string \<Rightarrow> cli_output" where
  "text_result kind ref key v =
     \<lparr>out_text = v, out_json = JObj [(kind, JStr ref), (key, JStr v)]\<rparr>"

subsection \<open>The printed lines\<close>

definition adapter_powered_result :: "string \<Rightarrow> bool \<Rightarrow> cli_output" where
  "adapter_powered_result ref b = bool_result ''Adapter'' ref ''Powered'' b"

definition print_adapter_powered_line :: "('c, 'w) app \<Rightarrow> string \<Rightarrow> bool \<Rightarrow> ('c, 'w, unit) cli" where
  "print_adapter_powered_line app ref b =
     print_line app (''powered='' @ bool_text b) (out_json (adapter_powered_result ref b))"

definition device_powered_result :: "string \<Rightarrow> bool \<Rightarrow> cli_output" where
  "device_powered_result ref b = bool_result ''Device'' ref ''Powered'' b"

definition device_mode_result :: "string \<Rightarrow> string \<Rightarrow> cli_output" where
  "device_mode_result ref m = text_result ''Device'' ref ''Mode'' m"

definition print_device_powered_line :: "('c, 'w) app \<Rightarrow> string \<Rightarrow> bool \<Rightarrow> ('c, 'w, unit) cli" where
  "print_device_powered_line app ref b =
     print_line app (''powered='' @ bool_text b) (out_json (device_powered_result ref b))"

definition print_device_mode_line :: "('c, 'w) app \<Rightarrow> string \<Rightarrow> string \<Rightarrow> ('c, 'w, unit) cli" where
  "print_device_mode_line app ref m = print_line app (''mode='' @ m) (out_json (device_mode_result ref m))"

definition print_station_state_line :: "('c, 'w) app \<Rightarrow> string \<Rightarrow> station_state \<Rightarrow> ('c, 'w, unit) cli" where
  "print_station_state_line app ref st =
     print_line app (''state='' @ station_state_string st)
       (JObj [(''Station'', JStr ref), (''State'', JStr (station_state_string st))])"

definition print_station_scanning_line :: "('c, 'w) app \<Rightarrow> string \<Rightarrow> bool \<Rightarrow> ('c, 'w, unit) cli" where
  "print_station_scanning_line app ref b =
     print_line app (''scanning='' @ bool_text b) (JObj [(''Station'', JStr ref), (''Scanning'', JBool b)])"

definition print_station_connected_network_line ::
    "('c, 'w) app \<Rightarrow> string \<Rightarrow> obj_ref option \<Rightarrow> ('c, 'w, unit) cli" where
  "print_station_connected_network_line app ref net =
     print_line app (''network='' @ readable_ref net ''none (disconnected)'')
       (JObj [(''Station'', JStr ref), (''ConnectedNetwork'', optional_json name_ref_json net)])"

definition print_station_connected_ap_line ::
    "('c, 'w) app \<Rightarrow> string \<Rightarrow> obj_ref option \<Rightarrow> ('c, 'w, unit) cli" where
  "print_station_connected_ap_line app ref bss =
     print_line app (''access-point='' @ readable_ref bss ''none (not associated)'')
       (JObj [(''Station'', JStr ref), (''ConnectedAccessPoint'', optional_json addr_ref_json bss)])"

definition print_station_affinities_line ::
    "('c, 'w) app \<Rightarrow> string \<Rightarrow> obj_ref list option \<Rightarrow> ('c, 'w, unit) cli" where
  "print_station_affinities_line app ref bsses =
     print_line app
       (''affinities='' @ (if slice bsses \<noteq> [] then readable_addr_refs (slice bsses) else ''none''))
       (JObj [(''Station'', JStr ref), (''Affinities'', slice_json addr_ref_json bsses)])"

definition print_access_point_started_line :: "('c, 'w) app \<Rightarrow> string \<Rightarrow> bool \<Rightarrow> ('c, 'w, unit) cli" where
  "print_access_point_started_line app ref b =
     print_line app (''started='' @ bool_text b) (JObj [(''AccessPoint'', JStr ref), (''Started'', JBool b)])"

definition print_access_point_scanning_line :: "('c, 'w) app \<Rightarrow> string \<Rightarrow> bool \<Rightarrow> ('c, 'w, unit) cli" where
  "print_access_point_scanning_line app ref b =
     print_line app (''scanning='' @ bool_text b) (JObj [(''AccessPoint'', JStr ref), (''Scanning'', JBool b)])"

definition network_connected_result :: "string \<Rightarrow> bool \<Rightarrow> cli_output" where
  "network_connected_result ref b = bool_result ''Network'' ref ''Connected'' b"

definition network_bsses_result :: "string \<Rightarrow> string list \<Rightarrow> cli_output" where
  "network_bsses_result ref paths =
     \<lparr>out_text = (if paths = [] then ''no basic service sets available'' else join newline paths),
      out_json = JObj [(''Network'', JStr ref), (''ExtendedServiceSet'', JArr (map JStr paths))]\<rparr>"

definition print_network_connected_line :: "('c, 'w) app \<Rightarrow> string \<Rightarrow> bool \<Rightarrow> ('c, 'w, unit) cli" where
  "print_network_connected_line app ref b =
     print_line app (''connected='' @ bool_text b) (out_json (network_connected_result ref b))"

definition print_network_known_network_line ::
    "('c, 'w) app \<Rightarrow> string \<Rightarrow> obj_ref option \<Rightarrow> ('c, 'w, unit) cli" where
  "print_network_known_network_line app ref kn =
     print_line app (''known-network='' @ readable_ref kn ''none (not saved)'')
       (JObj [(''Network'', JStr ref), (''KnownNetwork'', optional_json name_ref_json kn)])"

definition print_network_bsses_line :: "('c, 'w) app \<Rightarrow> string \<Rightarrow> string list \<Rightarrow> ('c, 'w, unit) cli" where
  "print_network_bsses_line app ref paths =
     print_line app (''bsses='' @ path_list_text paths) (out_json (network_bsses_result ref paths))"

definition known_network_auto_connect_result :: "string \<Rightarrow> bool \<Rightarrow> cli_output" where
  "known_network_auto_connect_result ref b = bool_result ''KnownNetwork'' ref ''AutoConnect'' b"

definition print_known_network_auto_connect_line :: "('c, 'w) app \<Rightarrow> string \<Rightarrow> bool \<Rightarrow> ('c, 'w, unit) cli" where
  "print_known_network_auto_connect_line app ref b =
     print_line app (''autoconnect='' @ bool_text b) (out_json (known_network_auto_connect_result ref b))"

definition print_known_network_hidden_line :: "('c, 'w) app \<Rightarrow> string \<Rightarrow> bool \<Rightarrow> ('c, 'w, unit) cli" where
  "print_known_network_hidden_line app ref b =
     print_line app (''hidden='' @ bool_text b) (JObj [(''KnownNetwork'', JStr ref), (''Hidden'', JBool b)])"

definition print_known_network_last_connected_line ::
    "('c, 'w) app \<Rightarrow> string \<Rightarrow> string option \<Rightarrow> ('c, 'w, unit) cli" where
  "print_known_network_last_connected_line app ref ts =
     print_line app (''last-connected='' @ optional_path_text ts ''never'')
       (JObj [(''KnownNetwork'', JStr ref), (''LastConnectedTime'', optional_json JStr ts)])"

subsection \<open>Deliveries\<close>

text \<open>The callbacks drop the error of their printing; a value of another type does not reach them.\<close>

definition on_bool :: "(bool \<Rightarrow> ('c, 'w, unit) cli) \<Rightarrow> delivered \<Rightarrow> 'c \<times> 'w \<Rightarrow> 'c \<times> 'w" where
  "on_bool print v s = (case v of GotBool b \<Rightarrow> snd (print b s) | _ \<Rightarrow> s)"

definition on_text :: "(string \<Rightarrow> ('c, 'w, unit) cli) \<Rightarrow> delivered \<Rightarrow> 'c \<times> 'w \<Rightarrow> 'c \<times> 'w" where
  "on_text print v s = (case v of GotText t \<Rightarrow> snd (print t s) | _ \<Rightarrow> s)"

definition on_path ::
    "(string option \<Rightarrow> 'c \<times> 'w \<Rightarrow> 'r \<times> ('c \<times> 'w)) \<Rightarrow> ('r \<Rightarrow> ('c, 'w, unit) cli) \<Rightarrow> delivered
      \<Rightarrow> 'c \<times> 'w \<Rightarrow> 'c \<times> 'w" where
  "on_path resolve print v s =
     (case v of GotPath p \<Rightarrow> (case resolve p s of (r, s') \<Rightarrow> snd (print r s')) | _ \<Rightarrow> s)"

definition on_paths ::
    "(string list \<Rightarrow> 'c \<times> 'w \<Rightarrow> 'r \<times> ('c \<times> 'w)) \<Rightarrow> ('r \<Rightarrow> ('c, 'w, unit) cli) \<Rightarrow> delivered
      \<Rightarrow> 'c \<times> 'w \<Rightarrow> 'c \<times> 'w" where
  "on_paths resolve print v s =
     (case v of GotPaths ps \<Rightarrow> (case resolve ps s of (r, s') \<Rightarrow> snd (print r s')) | _ \<Rightarrow> s)"

primrec run_watch ::
    "('c, 'w) app \<Rightarrow> ('c, 'w) client_api \<Rightarrow> watch \<Rightarrow> delivered \<Rightarrow> 'c \<times> 'w \<Rightarrow> 'c \<times> 'w" where
  "run_watch app client (AdapterPowered ref) = on_bool (print_adapter_powered_line app ref)"
| "run_watch app client (DevicePowered ref) = on_bool (print_device_powered_line app ref)"
| "run_watch app client (DeviceMode ref) = on_text (\<lambda>m. print_device_mode_line app ref (mode_string m))"
| "run_watch app client (StationState ref) = on_text (print_station_state_line app ref)"
| "run_watch app client (StationScanning ref) = on_bool (print_station_scanning_line app ref)"
| "run_watch app client (StationNetwork ref) =
     on_path (resolver_network_ref (Some client)) (print_station_connected_network_line app ref)"
| "run_watch app client (StationAccessPoint ref) =
     on_path (resolver_bss_ref (Some client)) (print_station_connected_ap_line app ref)"
| "run_watch app client (StationAffinities ref) =
     on_paths (resolver_bss_refs (Some client)) (print_station_affinities_line app ref)"
| "run_watch app client ScanDone = (\<lambda>_ s. s)"
| "run_watch app client (AccessPointStarted ref) = on_bool (print_access_point_started_line app ref)"
| "run_watch app client (AccessPointScanning ref) = on_bool (print_access_point_scanning_line app ref)"
| "run_watch app client (NetworkConnected ref) = on_bool (print_network_connected_line app ref)"
| "run_watch app client (NetworkKnown ref) =
     on_path (resolver_known_network_ref (Some client)) (print_network_known_network_line app ref)"
| "run_watch app client (NetworkBSSes ref) = on_paths Pair (print_network_bsses_line app ref)"
| "run_watch app client (KnownNetworkAutoConnect ref) = on_bool (print_known_network_auto_connect_line app ref)"
| "run_watch app client (KnownNetworkHidden ref) = on_bool (print_known_network_hidden_line app ref)"
| "run_watch app client (KnownNetworkLastConnected ref) =
     on_path Pair (print_known_network_last_connected_line app ref)"

subsection \<open>Targets\<close>

text \<open>\<open>parse<Kind>MonitorTarget\<close>: the target is checked before anything is dialed.\<close>

definition parse_monitor_target :: "string \<Rightarrow> string list \<Rightarrow> string list \<Rightarrow> gerror + string" where
  "parse_monitor_target text targets args =
     (case args of
        [a] \<Rightarrow>
          if a \<in> set [''--help'', ''-h'', ''help''] then Inl (usage text)
          else if a \<notin> set targets then Inl (usage text)
          else Inr a
      | _ \<Rightarrow> Inl (usage text))"

definition stationMonitorUsage :: string where
  "stationMonitorUsage = ''spiderw station <station> monitor <state|scanning|network|access-point|affinities>''"

definition stationMonitorTargets :: "string list" where
  "stationMonitorTargets = [''state'', ''scanning'', ''network'', ''access-point'', ''affinities'']"

definition parse_station_monitor_target :: "string list \<Rightarrow> gerror + string" where
  "parse_station_monitor_target = parse_monitor_target stationMonitorUsage stationMonitorTargets"

definition networkMonitorUsage :: string where
  "networkMonitorUsage = ''spiderw network <network> monitor <connected|known-network|bsses>''"

definition networkMonitorTargets :: "string list" where
  "networkMonitorTargets = [''connected'', ''known-network'', ''bsses'']"

definition parse_network_monitor_target :: "string list \<Rightarrow> gerror + string" where
  "parse_network_monitor_target = parse_monitor_target networkMonitorUsage networkMonitorTargets"

definition knownNetworkMonitorUsage :: string where
  "knownNetworkMonitorUsage =
     ''spiderw known-network <known-network> monitor <autoconnect|hidden|last-connected>''"

definition knownNetworkMonitorTargets :: "string list" where
  "knownNetworkMonitorTargets = [''autoconnect'', ''hidden'', ''last-connected'']"

definition parse_known_network_monitor_target :: "string list \<Rightarrow> gerror + string" where
  "parse_known_network_monitor_target = parse_monitor_target knownNetworkMonitorUsage knownNetworkMonitorTargets"

definition accessPointMonitorUsage :: string where
  "accessPointMonitorUsage = ''spiderw access-point <ap> monitor <started|scanning>''"

definition accessPointMonitorTargets :: "string list" where
  "accessPointMonitorTargets = [''started'', ''scanning'']"

definition parse_access_point_monitor_target :: "string list \<Rightarrow> gerror + string" where
  "parse_access_point_monitor_target = parse_monitor_target accessPointMonitorUsage accessPointMonitorTargets"

subsection \<open>Streams\<close>

text \<open>
  A stream prints the current value and then subscribes. Its result is the closure it subscribed, and the
  closure that ends the subscription.
\<close>

type_synonym ('c, 'w) stream = "('c, 'w, watch \<times> ('c, 'w) unsub) cli"

definition subscribe_watch :: "('c, 'w) subscribe \<Rightarrow> watch \<Rightarrow> ('c, 'w) stream" where
  "subscribe_watch sub w = go_bind (sub w) (\<lambda>u. go_return (w, u))"

definition seed_then_subscribe ::
    "('c, 'w, 'v) cli \<Rightarrow> ('v \<Rightarrow> ('c, 'w, unit) cli) \<Rightarrow> ('c, 'w) subscribe \<Rightarrow> watch \<Rightarrow> ('c, 'w) stream" where
  "seed_then_subscribe read print sub w =
     go_bind read (\<lambda>v. go_bind (print v) (\<lambda>_. subscribe_watch sub w))"

definition stream_station_property ::
    "('c, 'w) app \<Rightarrow> string \<Rightarrow> string \<Rightarrow> ('c, 'w) station_api \<Rightarrow> ('c, 'w) stream" where
  "stream_station_property app ref what st =
     go_bind (st_properties st) (\<lambda>props.
     if what = ''state''
     then go_bind (print_station_state_line app ref (sq_state props)) (\<lambda>_.
          subscribe_watch (st_subscribe_state st) (StationState ref))
     else if what = ''scanning''
     then go_bind (print_station_scanning_line app ref (sq_scanning props)) (\<lambda>_.
          subscribe_watch (st_subscribe_scanning st) (StationScanning ref))
     else if what = ''network''
     then go_bind (print_station_connected_network_line app ref (ref_of_ref (sq_connected_network props))) (\<lambda>_.
          subscribe_watch (st_subscribe_network st) (StationNetwork ref))
     else if what = ''access-point''
     then go_bind (print_station_connected_ap_line app ref (ref_of_ref (sq_connected_access_point props))) (\<lambda>_.
          subscribe_watch (st_subscribe_access_point st) (StationAccessPoint ref))
     else if what = ''affinities''
     then go_bind (print_station_affinities_line app ref (Some (to_addr_refs (sq_affinities props)))) (\<lambda>_.
          subscribe_watch (st_subscribe_affinities st) (StationAffinities ref))
     else go_fail (usage stationMonitorUsage))"

definition stream_network_property ::
    "('c, 'w) app \<Rightarrow> ('c, 'w) client_api option \<Rightarrow> string \<Rightarrow> string \<Rightarrow> ('c, 'w) network_api \<Rightarrow> ('c, 'w) stream" where
  "stream_network_property app client ref what n =
     (if what = ''connected''
      then seed_then_subscribe (nw_connected n) (print_network_connected_line app ref)
             (nw_subscribe_connected n) (NetworkConnected ref)
      else if what = ''known-network''
      then seed_then_subscribe (nw_known_network n)
             (\<lambda>kn s. case resolver_known_network_ref client kn s of
                       (r, s') \<Rightarrow> print_network_known_network_line app ref r s')
             (nw_subscribe_known n) (NetworkKnown ref)
      else if what = ''bsses''
      then seed_then_subscribe (nw_ess n) (print_network_bsses_line app ref)
             (nw_subscribe_ess n) (NetworkBSSes ref)
      else go_fail (usage networkMonitorUsage))"

definition stream_known_network_property ::
    "('c, 'w) app \<Rightarrow> string \<Rightarrow> string \<Rightarrow> ('c, 'w) known_network_api \<Rightarrow> ('c, 'w) stream" where
  "stream_known_network_property app ref what k =
     (if what = ''autoconnect''
      then seed_then_subscribe (kn_auto_connect k) (print_known_network_auto_connect_line app ref)
             (kn_subscribe_auto_connect k) (KnownNetworkAutoConnect ref)
      else if what = ''hidden''
      then seed_then_subscribe (kn_hidden k) (print_known_network_hidden_line app ref)
             (kn_subscribe_hidden k) (KnownNetworkHidden ref)
      else if what = ''last-connected''
      then seed_then_subscribe (kn_last_connected k) (print_known_network_last_connected_line app ref)
             (kn_subscribe_last_connected k) (KnownNetworkLastConnected ref)
      else go_fail (usage knownNetworkMonitorUsage))"

definition stream_access_point_property ::
    "('c, 'w) app \<Rightarrow> string \<Rightarrow> string \<Rightarrow> ('c, 'w) access_point_api \<Rightarrow> ('c, 'w) stream" where
  "stream_access_point_property app ref what a =
     go_bind (ax_properties a) (\<lambda>props.
     if what = ''started''
     then go_bind (print_access_point_started_line app ref (xp_started props)) (\<lambda>_.
          subscribe_watch (ax_subscribe_started a) (AccessPointStarted ref))
     else if what = ''scanning''
     then go_bind (print_access_point_scanning_line app ref (xp_scanning props)) (\<lambda>_.
          subscribe_watch (ax_subscribe_scanning a) (AccessPointScanning ref))
     else go_fail (usage accessPointMonitorUsage))"

subsection \<open>The monitors\<close>

text \<open>Find the object, open the stream, print what is delivered until Ctrl-C, unsubscribe, close.\<close>

definition watch_until_interrupt ::
    "('c, 'w) app \<Rightarrow> ('c, 'w) client_api \<Rightarrow> watch \<times> ('c, 'w) unsub \<Rightarrow> ('c, 'w, unit) cli" where
  "watch_until_interrupt app client sub =
     (\<lambda>s. (Inr (), snd sub (fold (run_watch app client (fst sub)) (app_signals app) s)))"

definition monitor_object ::
    "(('c, 'w) client_api option \<Rightarrow> string \<Rightarrow> ('c, 'w, 'obj) cli)
      \<Rightarrow> (('c, 'w) client_api \<Rightarrow> 'obj \<Rightarrow> ('c, 'w) stream) \<Rightarrow> ('c, 'w) app \<Rightarrow> string \<Rightarrow> (gerror, 'w, unit) go" where
  "monitor_object by_ref stream app ref =
     with_client app (\<lambda>client.
       go_bind (by_ref (Some client) ref) (\<lambda>obj.
       go_bind (stream client obj) (watch_until_interrupt app client)))"

definition monitor_station :: "('c, 'w) app \<Rightarrow> string \<Rightarrow> string list \<Rightarrow> (gerror, 'w, unit) go" where
  "monitor_station app ref args =
     go_bind (go_lift (parse_station_monitor_target args)) (\<lambda>what.
     monitor_object station_by_ref (\<lambda>_. stream_station_property app ref what) app ref)"

definition monitor_network :: "('c, 'w) app \<Rightarrow> string \<Rightarrow> string list \<Rightarrow> (gerror, 'w, unit) go" where
  "monitor_network app ref args =
     go_bind (go_lift (parse_network_monitor_target args)) (\<lambda>what.
     monitor_object network_by_ref (\<lambda>client. stream_network_property app (Some client) ref what) app ref)"

definition monitor_known_network :: "('c, 'w) app \<Rightarrow> string \<Rightarrow> string list \<Rightarrow> (gerror, 'w, unit) go" where
  "monitor_known_network app ref args =
     go_bind (go_lift (parse_known_network_monitor_target args)) (\<lambda>what.
     monitor_object known_network_by_ref (\<lambda>_. stream_known_network_property app ref what) app ref)"

definition monitor_access_point :: "('c, 'w) app \<Rightarrow> string \<Rightarrow> string list \<Rightarrow> (gerror, 'w, unit) go" where
  "monitor_access_point app ref args =
     go_bind (go_lift (parse_access_point_monitor_target args)) (\<lambda>what.
     monitor_object access_point_by_ref (\<lambda>_. stream_access_point_property app ref what) app ref)"

definition monitor_adapter_powered :: "('c, 'w) app \<Rightarrow> string \<Rightarrow> string list \<Rightarrow> (gerror, 'w, unit) go" where
  "monitor_adapter_powered app ref args =
     (if args \<noteq> [''powered''] then go_fail (usage ''spiderw adapter <adapter> monitor powered'')
      else
        monitor_object adapter_by_ref
          (\<lambda>_ a. seed_then_subscribe (ad_powered a) (print_adapter_powered_line app ref)
                  (ad_subscribe_powered a) (AdapterPowered ref)) app ref)"

definition monitor_device :: "('c, 'w) app \<Rightarrow> string \<Rightarrow> string list \<Rightarrow> (gerror, 'w, unit) go" where
  "monitor_device app ref args =
     (if length args \<noteq> 1 \<or> (hd args \<noteq> ''powered'' \<and> hd args \<noteq> ''mode'')
      then go_fail (usage ''spiderw device <device> monitor <powered|mode>'')
      else
        monitor_object device_by_ref
          (\<lambda>_ d. if hd args = ''powered''
                  then seed_then_subscribe (dv_powered d) (print_device_powered_line app ref)
                         (dv_subscribe_powered d) (DevicePowered ref)
                  else seed_then_subscribe (dv_mode d) (\<lambda>m. print_device_mode_line app ref (mode_string m))
                         (dv_subscribe_mode d) (DeviceMode ref)) app ref)"

end
