(* ===== verification/Cli_Command.thy ===== *)
theory Cli_Command
  imports Cli_Base
begin

text \<open>
  The command tree of \<open>command.go\<close>: nodes with subcommands, leaves that get the remaining arguments, and the
  usage texts; and \<open>parseGlobalFlags\<close>. The maps of a node are association lists with distinct keys. No
  command defines flags of its own, so a node's flag set only sees \<open>--\<close> and undefined flags; it exits the
  process on an error, which is the result \<open>OsExit\<close>.
\<close>

datatype 'w command =
  Command (cmd_name: string) (cmd_description: string)
    (cmd_execute: "(string list \<Rightarrow> (gerror, 'w, unit) go) option")
    (cmd_sub_usage: "(string \<times> string) list")
    (cmd_subcommands: "(string \<times> 'w command) list")
    (cmd_help_text: string)

datatype run_error = HelpShown | OsExit nat | Failed gerror

subsection \<open>Usage\<close>

definition write_out :: "('c, 'w) app \<Rightarrow> string \<Rightarrow> 'w \<Rightarrow> 'w" where
  "write_out app text w = snd (app_stdout app text w)"

definition usage_chunks :: "string \<Rightarrow> string \<Rightarrow> (string \<times> string) list \<Rightarrow> string \<Rightarrow> string list" where
  "usage_chunks name desc subs help =
     [desc @ newline @ newline, ''Usage:'' @ newline @ ''  spiderw '' @ name]
     @ (if subs \<noteq> [] \<or> help \<noteq> '''' then ['' <command>''] else [])
     @ [newline, newline]
     @ (if subs \<noteq> []
        then (''Commands:'' @ newline)
          # map (\<lambda>(n, d). ''  '' @ pad_right 12 n @ '' '' @ d @ newline) (sort_key fst subs)
        else [])
     @ (if help \<noteq> '''' then [help @ newline] else [])"

text \<open>\<open>printUsage\<close> drops the errors of its writes.\<close>

definition print_usage :: "('c, 'w) app \<Rightarrow> 'w command \<Rightarrow> 'w \<Rightarrow> 'w" where
  "print_usage app c w =
     fold (write_out app)
       (usage_chunks (cmd_name c) (cmd_description c)
         (map (\<lambda>(n, sub). (n, cmd_description sub)) (cmd_subcommands c)) (cmd_help_text c)) w"

subsection \<open>Running a command\<close>

definition fail_run :: "gerror \<Rightarrow> 'w \<Rightarrow> (run_error + unit) \<times> 'w" where
  "fail_run e w = (Inl (Failed e), w)"

definition unknown_command :: "'w command \<Rightarrow> string \<Rightarrow> gerror" where
  "unknown_command c a =
     (if cmd_name c = '''' then Errorf ''unknown command: %s'' [a] []
      else Errorf ''unknown subcommand for %s: %s'' [cmd_name c, a] [])"

definition missing_command :: "'w command \<Rightarrow> gerror" where
  "missing_command c =
     (if cmd_name c = '''' then Errorf ''missing command'' [] []
      else Errorf ''missing subcommand for %s'' [cmd_name c] [])"

text \<open>What a node's flag set does with its arguments: the positional ones, or the end of the process.\<close>

definition node_args :: "('c, 'w) app \<Rightarrow> 'w command \<Rightarrow> string list \<Rightarrow> (run_error, 'w, string list) go" where
  "node_args app c args = (\<lambda>w.
     case parse_flags [] [] args of
       Inr (_, rest) \<Rightarrow> (Inr rest, w)
     | Inl FlagHelp \<Rightarrow> (Inl (OsExit 0), print_usage app c w)
     | Inl (FlagFailure fmt fargs) \<Rightarrow>
         (Inl (OsExit 2), print_usage app c (app_stderr app (ErrorText (Errorf fmt fargs [])) w)))"

text \<open>A leaf with arguments, under \<open>--help\<close> and otherwise.\<close>

definition leaf_help :: "('c, 'w) app \<Rightarrow> 'w command \<Rightarrow> string list \<Rightarrow> (run_error, 'w, unit) go" where
  "leaf_help app c rest = (\<lambda>w.
     case map_of (cmd_sub_usage c) (last rest) of
       Some text \<Rightarrow> (Inl HelpShown, write_out app (text @ newline) w)
     | None \<Rightarrow> (Inl HelpShown, print_usage app c w))"

definition execute ::
    "(string list \<Rightarrow> (gerror, 'w, unit) go) \<Rightarrow> string list \<Rightarrow> (run_error, 'w, unit) go" where
  "execute f rest = go_wrap Failed (f rest)"

definition run_leaf :: "('c, 'w) app \<Rightarrow> 'w command \<Rightarrow> string list \<Rightarrow> (run_error, 'w, unit) go" where
  "run_leaf app c rest =
     (if app_help app then leaf_help app c rest
      else
        (case cmd_execute c of
           Some f \<Rightarrow> execute f rest
         | None \<Rightarrow>
             (\<lambda>w. fail_run (Errorf ''command not executable: %s'' [cmd_name c] []) (print_usage app c w))))"

definition run_bare :: "('c, 'w) app \<Rightarrow> 'w command \<Rightarrow> (run_error, 'w, unit) go" where
  "run_bare app c =
     (if app_help app then (\<lambda>w. (Inl HelpShown, print_usage app c w))
      else
        (case cmd_execute c of
           Some f \<Rightarrow> execute f []
         | None \<Rightarrow> (\<lambda>w. fail_run (missing_command c) (print_usage app c w))))"

definition unknown_subcommand :: "('c, 'w) app \<Rightarrow> 'w command \<Rightarrow> string \<Rightarrow> (run_error, 'w, unit) go" where
  "unknown_subcommand app c a = (\<lambda>w.
     if app_help app then (Inl HelpShown, print_usage app c w)
     else fail_run (unknown_command c a) (print_usage app c w))"

function command_run :: "('c, 'w) app \<Rightarrow> 'w command \<Rightarrow> string list \<Rightarrow> (run_error, 'w, unit) go" where
  "command_run app c args =
     (case parse_flags [] [] args of
        Inl _ \<Rightarrow> go_bind (node_args app c args) (\<lambda>_. go_return ())
      | Inr (_, []) \<Rightarrow> run_bare app c
      | Inr (_, a # rest) \<Rightarrow>
          if cmd_subcommands c = [] then run_leaf app c (a # rest)
          else
            (case map_of (cmd_subcommands c) a of
               Some sub \<Rightarrow> command_run app sub rest
             | None \<Rightarrow> unknown_subcommand app c a))"
  by pat_completeness auto
termination
  by (relation "measure (\<lambda>(app, c, args). length args)")
    (auto dest!: parse_flags_rest suffix_length_le)

declare command_run.simps [simp del]

subsection \<open>global_flags.go\<close>

text \<open>The global flags are taken out of the arguments wherever they stand.\<close>

definition json_flags :: "string list" where
  "json_flags = [''--json'', ''-json'']"

definition session_flags :: "string list" where
  "session_flags = [''--session'', ''-session'']"

definition help_flags :: "string list" where
  "help_flags = [''--help'', ''-help'', ''-h'']"

primrec parse_global_flags :: "string list \<Rightarrow> ('c, 'w) app \<Rightarrow> ('c, 'w) app \<times> string list" where
  "parse_global_flags [] app = (app, [])"
| "parse_global_flags (arg # args) app =
     (if arg \<in> set json_flags then parse_global_flags args (app\<lparr>app_json := True\<rparr>)
      else if arg \<in> set session_flags then parse_global_flags args (app\<lparr>app_session := True\<rparr>)
      else if arg \<in> set help_flags then parse_global_flags args (app\<lparr>app_help := True\<rparr>)
      else (case parse_global_flags args app of (app', out) \<Rightarrow> (app', arg # out)))"

definition help_lines :: "string list \<Rightarrow> string" where
  "help_lines ls = join newline ls"

text \<open>The flags of an operation: an error is printed with the usage of the flags, and returned.\<close>

definition operation_flags ::
    "('c, 'w) app \<Rightarrow> string \<Rightarrow> (string \<times> flag_kind) list \<Rightarrow> string list
      \<Rightarrow> (gerror, 'w, (string \<times> string) list \<times> string list) go" where
  "operation_flags app name formal args = (\<lambda>w.
     case parse_flags formal [] args of
       Inr r \<Rightarrow> (Inr r, w)
     | Inl FlagHelp \<Rightarrow> (Inl (Errorf ''flag: help requested'' [] []), app_stderr app (FlagUsage name) w)
     | Inl (FlagFailure fmt fargs) \<Rightarrow>
         (Inl (Errorf fmt fargs []),
          app_stderr app (FlagUsage name) (app_stderr app (ErrorText (Errorf fmt fargs [])) w)))"

end
