(* ===== verification/Cli_Objects.thy ===== *)
theory Cli_Objects
  imports Cli_Monitor Cli_Command
begin

text \<open>
  The commands \<open>adapter\<close>, \<open>device\<close> and \<open>bss\<close>: their results with what they print as, their operations, and
  the dispatch of the words after the command.
\<close>

subsection \<open>Shared by the commands\<close>

text \<open>The words that stand for a truth value.\<close>

definition bool_word :: "string \<Rightarrow> bool option" where
  "bool_word raw =
     (let arg = to_lower (trim_space raw) in
      if arg \<in> set [''true'', ''1'', ''yes'', ''y'', ''on'', ''enable'', ''enabled''] then Some True
      else if arg \<in> set [''false'', ''0'', ''no'', ''n'', ''off'', ''disable'', ''disabled''] then Some False
      else None)"

text \<open>A leaf of the command tree; its usage does not depend on what it executes.\<close>

definition usage_leaf :: "string \<Rightarrow> string \<Rightarrow> string \<Rightarrow> 'w command" where
  "usage_leaf name desc help = Command name desc None [] [] help"

definition fail_with_usage :: "(('w \<Rightarrow> 'w)) \<Rightarrow> gerror \<Rightarrow> (gerror, 'w, unit) go" where
  "fail_with_usage show e = (\<lambda>w. (Inl e, show w))"

subsection \<open>adapter.go\<close>

definition adapter_bool_result :: "string \<Rightarrow> bool \<Rightarrow> cli_output" where
  "adapter_bool_result ref b = bool_result ''Adapter'' ref ''Value'' b"

definition adapter_string_result :: "string \<Rightarrow> string \<Rightarrow> cli_output" where
  "adapter_string_result ref v = text_result ''Adapter'' ref ''Value'' v"

definition adapter_optional_string_result :: "string \<Rightarrow> string option \<Rightarrow> cli_output" where
  "adapter_optional_string_result ref v =
     \<lparr>out_text = (case v of None \<Rightarrow> '''' | Some x \<Rightarrow> x),
      out_json = JObj [(''Adapter'', JStr ref), (''Value'', optional_json JStr v)]\<rparr>"

definition adapter_supported_modes_result :: "string \<Rightarrow> string list \<Rightarrow> cli_output" where
  "adapter_supported_modes_result ref ms =
     \<lparr>out_text = join newline ms,
      out_json = JObj [(''Adapter'', JStr ref), (''SupportedModes'', JArr (map JStr ms))]\<rparr>"

definition parse_mode_arg :: "string \<Rightarrow> gerror + mode" where
  "parse_mode_arg raw =
     (let m = to_lower (trim_space raw) in
      if m \<in> set [''station'', ''sta''] then Inr ModeStation
      else if m \<in> set [''ap'', ''access-point'', ''accesspoint''] then Inr ModeAP
      else if m \<in> set [''ad-hoc'', ''adhoc'', ''ad_hoc'', ''ibss''] then Inr ModeAdHoc
      else Inl (Errorf ''invalid mode %q (expected station, ap, or ad-hoc)'' [raw] []))"

definition get_adapter_bool ::
    "('c, 'w) app \<Rightarrow> string \<Rightarrow> string \<Rightarrow> string list \<Rightarrow> (('c, 'w) adapter_api \<Rightarrow> ('c, 'w, bool) cli)
      \<Rightarrow> (gerror, 'w, unit) go" where
  "get_adapter_bool app ref text args get =
     no_args text args (with_adapter app ref (show_value app get (adapter_bool_result ref)))"

record adapter_status_entry =
  ase_path :: string
  ase_name :: string
  ase_powered :: bool
  ase_model :: "string option"
  ase_vendor :: "string option"
  ase_modes :: "string list"

definition dash_optional :: "string option \<Rightarrow> string" where
  "dash_optional v = (case v of None \<Rightarrow> ''-'' | Some x \<Rightarrow> or_dash x)"

definition adapter_status_lines :: "adapter_status_entry \<Rightarrow> string list" where
  "adapter_status_lines e =
     [field 16 ''Name'' (or_unnamed (ase_name e)), field 16 ''Path'' (ase_path e),
      field 16 ''Powered'' (bool_text (ase_powered e)), field 16 ''Model'' (dash_optional (ase_model e)),
      field 16 ''Vendor'' (dash_optional (ase_vendor e)),
      field 16 ''SupportedModes'' (if ase_modes e = [] then ''-'' else join '', '' (ase_modes e))]"

definition adapter_status_json :: "adapter_status_entry \<Rightarrow> json" where
  "adapter_status_json e =
     JObj [(''Path'', JStr (ase_path e)), (''Name'', JStr (ase_name e)), (''Powered'', JBool (ase_powered e)),
       (''Model'', optional_json JStr (ase_model e)), (''Vendor'', optional_json JStr (ase_vendor e)),
       (''SupportedModes'', JArr (map JStr (ase_modes e)))]"

definition adapter_status_result :: "adapter_status_entry list \<Rightarrow> cli_output" where
  "adapter_status_result es =
     \<lparr>out_text = status_text ''no adapters available'' adapter_status_lines es,
      out_json = JArr (map adapter_status_json es)\<rparr>"

definition adapter_status_entry_from_adapter ::
    "('c, 'w) adapter_api \<Rightarrow> ('c, 'w, adapter_status_entry) cli" where
  "adapter_status_entry_from_adapter a =
     go_bind (ad_properties a) (\<lambda>props.
     go_return \<lparr>ase_path = ad_path a, ase_name = ap_name props, ase_powered = ap_powered props,
       ase_model = ap_model props, ase_vendor = ap_vendor props,
       ase_modes = map mode_string (ap_supported_modes props)\<rparr>)"

definition run_adapter_status :: "('c, 'w) app \<Rightarrow> string list \<Rightarrow> (gerror, 'w, unit) go" where
  "run_adapter_status =
     run_status ''unknown adapter status argument: %s'' api_all_adapters adapter_status_entry_from_adapter
       adapter_status_result"

definition run_adapter_single_status :: "('c, 'w) app \<Rightarrow> string \<Rightarrow> string list \<Rightarrow> (gerror, 'w, unit) go" where
  "run_adapter_single_status app ref args =
     no_args ''spiderw adapter <adapter> status'' args
       (with_adapter app ref (show_value app adapter_status_entry_from_adapter (\<lambda>e. adapter_status_result [e])))"

definition run_adapter_powered :: "('c, 'w) app \<Rightarrow> string \<Rightarrow> string list \<Rightarrow> (gerror, 'w, unit) go" where
  "run_adapter_powered app ref args =
     (if length args > 1 then go_fail (usage ''spiderw adapter <adapter> powered [true|false]'')
      else
        with_adapter app ref (\<lambda>a.
          case args of
            [] \<Rightarrow> show_value app ad_powered (adapter_powered_result ref) a
          | arg # _ \<Rightarrow>
              (case bool_word arg of
                 None \<Rightarrow>
                   go_fail (Errorf ''invalid value for adapter powered: %q (expected true|false)'' [arg] [])
               | Some powered \<Rightarrow>
                   go_bind (ad_set_powered a powered) (\<lambda>_.
                   show_value app ad_powered (adapter_powered_result ref) a))))"

definition run_adapter_string ::
    "('c, 'w) app \<Rightarrow> string \<Rightarrow> string list \<Rightarrow> string \<Rightarrow> (('c, 'w) adapter_api \<Rightarrow> ('c, 'w, string) cli)
      \<Rightarrow> (gerror, 'w, unit) go" where
  "run_adapter_string app ref args text get =
     no_args text args (with_adapter app ref (show_value app get (adapter_string_result ref)))"

definition run_adapter_optional_string ::
    "('c, 'w) app \<Rightarrow> string \<Rightarrow> string list \<Rightarrow> string \<Rightarrow> (('c, 'w) adapter_api \<Rightarrow> ('c, 'w, string option) cli)
      \<Rightarrow> (gerror, 'w, unit) go" where
  "run_adapter_optional_string app ref args text get =
     no_args text args (with_adapter app ref (show_value app get (adapter_optional_string_result ref)))"

definition run_adapter_supported_modes :: "('c, 'w) app \<Rightarrow> string \<Rightarrow> string list \<Rightarrow> (gerror, 'w, unit) go" where
  "run_adapter_supported_modes app ref args =
     no_args ''spiderw adapter <adapter> supported-modes'' args
       (with_adapter app ref
         (show_value app ad_supported_modes (\<lambda>ms. adapter_supported_modes_result ref (map mode_string ms))))"

definition run_adapter_supports_mode :: "('c, 'w) app \<Rightarrow> string \<Rightarrow> string list \<Rightarrow> (gerror, 'w, unit) go" where
  "run_adapter_supports_mode app ref args =
     (if length args \<noteq> 1 then go_fail (usage ''spiderw adapter <adapter> supports-mode <station|ap|ad-hoc>'')
      else
        go_bind (go_lift (parse_mode_arg (hd args))) (\<lambda>m.
        with_adapter app ref (show_value app (\<lambda>a. ad_supports_mode a m) (adapter_bool_result ref))))"

definition adapterHelpText :: string where
  "adapterHelpText = help_lines
     [''Commands:'',
      ''  list                              List adapters (name and path)'',
      ''  status                            Show a snapshot of every adapter'',
      ''  <adapter> status                  Show a snapshot of one adapter'',
      ''  <adapter> powered [true|false]    Get or set the adapter's powered state'',
      ''  <adapter> name                    Show the adapter name'',
      ''  <adapter> model                   Show the adapter model'',
      ''  <adapter> vendor                  Show the adapter vendor'',
      ''  <adapter> supported-modes         List the adapter's supported modes'',
      ''  <adapter> supports-mode <mode>    Check whether a mode is supported'',
      ''  <adapter> supports-station        Check station-mode support'',
      ''  <adapter> supports-ap             Check access-point-mode support'',
      ''  <adapter> supports-ad-hoc         Check ad-hoc-mode support'',
      ''  <adapter> monitor powered         Stream powered-state changes'']"

definition print_adapter_usage :: "('c, 'w) app \<Rightarrow> 'w \<Rightarrow> 'w" where
  "print_adapter_usage app =
     print_usage app (usage_leaf ''adapter'' ''Inspect and query iwd adapters'' adapterHelpText)"

definition run_adapter_with_ref :: "('c, 'w) app \<Rightarrow> string list \<Rightarrow> (gerror, 'w, unit) go" where
  "run_adapter_with_ref app args =
     (if length args < 2
      then fail_with_usage (print_adapter_usage app) (Errorf ''missing adapter command for %q'' [hd args] [])
      else
        (let ref = hd args; op = args ! 1; rest = drop 2 args in
         if op = ''status'' then run_adapter_single_status app ref rest
         else if op = ''powered'' then run_adapter_powered app ref rest
         else if op = ''name'' then run_adapter_string app ref rest ''spiderw adapter <adapter> name'' ad_name
         else if op = ''model''
         then run_adapter_optional_string app ref rest ''spiderw adapter <adapter> model'' ad_model
         else if op = ''vendor''
         then run_adapter_optional_string app ref rest ''spiderw adapter <adapter> vendor'' ad_vendor
         else if op = ''supported-modes'' then run_adapter_supported_modes app ref rest
         else if op = ''supports-mode'' then run_adapter_supports_mode app ref rest
         else if op = ''supports-station''
         then get_adapter_bool app ref ''spiderw adapter <adapter> supports-station'' rest ad_supports_station
         else if op = ''supports-ap''
         then get_adapter_bool app ref ''spiderw adapter <adapter> supports-ap'' rest ad_supports_ap
         else if op = ''supports-adhoc'' \<or> op = ''supports-ad-hoc''
         then get_adapter_bool app ref ''spiderw adapter <adapter> supports-ad-hoc'' rest ad_supports_ad_hoc
         else if op = ''monitor'' then monitor_adapter_powered app ref rest
         else
           fail_with_usage (print_adapter_usage app)
             (Errorf ''unknown adapter command %q for adapter %q'' [op, ref] [])))"

definition run_adapter :: "('c, 'w) app \<Rightarrow> string list \<Rightarrow> (gerror, 'w, unit) go" where
  "run_adapter app args =
     (case args of
        [] \<Rightarrow> fail_with_usage (print_adapter_usage app) (Errorf ''missing adapter command'' [] [])
      | a # rest \<Rightarrow>
          if a = ''list'' then run_adapter_list app rest
          else if a = ''status'' then run_adapter_status app rest
          else run_adapter_with_ref app args)"

definition adapter_command :: "('c, 'w) app \<Rightarrow> 'w command" where
  "adapter_command app =
     Command ''adapter'' ''Inspect and query iwd adapters'' (Some (run_adapter app)) [] [] adapterHelpText"

subsection \<open>device.go\<close>

record device_status_entry =
  dse_path :: string
  dse_name :: string
  dse_address :: string
  dse_powered :: bool
  dse_mode :: string
  dse_adapter :: obj_ref

definition device_status_lines :: "device_status_entry \<Rightarrow> string list" where
  "device_status_lines e =
     [field 12 ''Name'' (or_unnamed (dse_name e)), field 12 ''Path'' (dse_path e),
      field 12 ''Address'' (or_dash (dse_address e)), field 12 ''Powered'' (bool_text (dse_powered e)),
      field 12 ''Mode'' (or_dash (dse_mode e)), field 12 ''Adapter'' (readable (dse_adapter e))]"

definition device_status_json :: "device_status_entry \<Rightarrow> json" where
  "device_status_json e =
     JObj [(''Path'', JStr (dse_path e)), (''Name'', JStr (dse_name e)), (''Address'', JStr (dse_address e)),
       (''Powered'', JBool (dse_powered e)), (''Mode'', JStr (dse_mode e)),
       (''Adapter'', name_ref_json (dse_adapter e))]"

definition device_status_result :: "device_status_entry list \<Rightarrow> cli_output" where
  "device_status_result es =
     \<lparr>out_text = status_text ''no devices available'' device_status_lines es,
      out_json = JArr (map device_status_json es)\<rparr>"

definition device_status_entry_from_device ::
    "('c, 'w) device_api \<Rightarrow> ('c, 'w, device_status_entry) cli" where
  "device_status_entry_from_device d =
     go_bind (dv_properties d) (\<lambda>props.
     go_return \<lparr>dse_path = dv_path d, dse_name = vq_name props, dse_address = vq_address props,
       dse_powered = vq_powered props, dse_mode = mode_string (vq_mode props),
       dse_adapter = to_ref (ref_name (vq_adapter props)) (ref_path (vq_adapter props))\<rparr>)"

definition run_device_status :: "('c, 'w) app \<Rightarrow> string list \<Rightarrow> (gerror, 'w, unit) go" where
  "run_device_status =
     run_status ''unknown device status argument: %s'' api_all_devices device_status_entry_from_device
       device_status_result"

definition run_device_single_status :: "('c, 'w) app \<Rightarrow> string \<Rightarrow> string list \<Rightarrow> (gerror, 'w, unit) go" where
  "run_device_single_status app ref args =
     no_args ''spiderw device <device> status'' args
       (with_device app ref (show_value app device_status_entry_from_device (\<lambda>e. device_status_result [e])))"

definition device_string_result :: "string \<Rightarrow> string \<Rightarrow> cli_output" where
  "device_string_result ref v = text_result ''Device'' ref ''Value'' v"

definition run_device_powered :: "('c, 'w) app \<Rightarrow> string \<Rightarrow> string list \<Rightarrow> (gerror, 'w, unit) go" where
  "run_device_powered app ref args =
     (if length args > 1 then go_fail (usage ''spiderw device <device> powered [true|false]'')
      else
        with_device app ref (\<lambda>d.
          case args of
            [] \<Rightarrow> show_value app dv_powered (device_powered_result ref) d
          | arg # _ \<Rightarrow>
              (case bool_word arg of
                 None \<Rightarrow>
                   go_fail (Errorf ''invalid value for device powered: %q (expected true|false)'' [arg] [])
               | Some powered \<Rightarrow>
                   go_bind (dv_set_powered d powered) (\<lambda>_.
                   show_value app dv_powered (device_powered_result ref) d))))"

definition run_device_mode :: "('c, 'w) app \<Rightarrow> string \<Rightarrow> string list \<Rightarrow> (gerror, 'w, unit) go" where
  "run_device_mode app ref args =
     (if length args > 1 then go_fail (usage ''spiderw device <device> mode [station|ap|ad-hoc]'')
      else
        with_device app ref (\<lambda>d.
          case args of
            [] \<Rightarrow> show_value app dv_mode (\<lambda>m. device_mode_result ref (mode_string m)) d
          | arg # _ \<Rightarrow>
              go_bind (go_lift (parse_mode_arg arg)) (\<lambda>m.
              go_bind (dv_set_mode d m) (\<lambda>_.
              show_value app dv_mode (\<lambda>m. device_mode_result ref (mode_string m)) d))))"

definition run_device_string ::
    "('c, 'w) app \<Rightarrow> string \<Rightarrow> string list \<Rightarrow> string \<Rightarrow> (('c, 'w) device_api \<Rightarrow> ('c, 'w, string) cli)
      \<Rightarrow> (gerror, 'w, unit) go" where
  "run_device_string app ref args text get =
     no_args text args (with_device app ref (show_value app get (device_string_result ref)))"

definition deviceHelpText :: string where
  "deviceHelpText = help_lines
     [''Commands:'',
      ''  list                                 List devices (name and path)'',
      ''  status                               Show a snapshot of every device'',
      ''  <device> status                      Show a snapshot of one device'',
      ''  <device> powered [true|false]        Get or set the device's powered state'',
      ''  <device> mode [station|ap|ad-hoc]    Get or set the device's mode'',
      ''  <device> name                        Show the device name'',
      ''  <device> address                     Show the device hardware (MAC) address'',
      ''  <device> adapter                     Show the owning adapter object path'',
      ''  <device> monitor <powered|mode>      Stream powered or mode changes'']"

definition print_device_usage :: "('c, 'w) app \<Rightarrow> 'w \<Rightarrow> 'w" where
  "print_device_usage app =
     print_usage app (usage_leaf ''device'' ''Inspect and query iwd devices'' deviceHelpText)"

definition run_device_with_ref :: "('c, 'w) app \<Rightarrow> string list \<Rightarrow> (gerror, 'w, unit) go" where
  "run_device_with_ref app args =
     (if length args < 2
      then fail_with_usage (print_device_usage app) (Errorf ''missing device command for %q'' [hd args] [])
      else
        (let ref = hd args; op = args ! 1; rest = drop 2 args in
         if op = ''status'' then run_device_single_status app ref rest
         else if op = ''powered'' then run_device_powered app ref rest
         else if op = ''mode'' then run_device_mode app ref rest
         else if op = ''name'' then run_device_string app ref rest ''spiderw device <device> name'' dv_name
         else if op = ''address''
         then run_device_string app ref rest ''spiderw device <device> address'' dv_address
         else if op = ''adapter''
         then run_device_string app ref rest ''spiderw device <device> adapter'' dv_adapter
         else if op = ''monitor'' then monitor_device app ref rest
         else
           fail_with_usage (print_device_usage app)
             (Errorf ''unknown device command %q for device %q'' [op, ref] [])))"

definition run_device :: "('c, 'w) app \<Rightarrow> string list \<Rightarrow> (gerror, 'w, unit) go" where
  "run_device app args =
     (case args of
        [] \<Rightarrow> fail_with_usage (print_device_usage app) (Errorf ''missing device command'' [] [])
      | a # rest \<Rightarrow>
          if a = ''list'' then run_device_list app rest
          else if a = ''status'' then run_device_status app rest
          else run_device_with_ref app args)"

definition device_command :: "('c, 'w) app \<Rightarrow> 'w command" where
  "device_command app =
     Command ''device'' ''Inspect and query iwd devices'' (Some (run_device app)) [] [] deviceHelpText"

subsection \<open>bss.go\<close>

record bss_status_entry =
  bse_path :: string
  bse_address :: string

definition bss_status_lines :: "bss_status_entry \<Rightarrow> string list" where
  "bss_status_lines e = [field 12 ''Path'' (bse_path e), field 12 ''Address'' (or_dash (bse_address e))]"

definition bss_status_json :: "bss_status_entry \<Rightarrow> json" where
  "bss_status_json e = JObj [(''Path'', JStr (bse_path e)), (''Address'', JStr (bse_address e))]"

definition bss_status_result :: "bss_status_entry list \<Rightarrow> cli_output" where
  "bss_status_result es =
     \<lparr>out_text = status_text ''no basic service sets available'' bss_status_lines es,
      out_json = JArr (map bss_status_json es)\<rparr>"

definition bss_status_entry_from_bss :: "('c, 'w) bss_api \<Rightarrow> ('c, 'w, bss_status_entry) cli" where
  "bss_status_entry_from_bss b =
     go_bind (bs_properties b) (\<lambda>props.
     go_return \<lparr>bse_path = bs_path b, bse_address = Address props\<rparr>)"

definition run_bss_status :: "('c, 'w) app \<Rightarrow> string list \<Rightarrow> (gerror, 'w, unit) go" where
  "run_bss_status =
     run_status ''unknown bss status argument: %s'' api_all_basic_service_sets bss_status_entry_from_bss
       bss_status_result"

definition run_bss_single_status :: "('c, 'w) app \<Rightarrow> string \<Rightarrow> string list \<Rightarrow> (gerror, 'w, unit) go" where
  "run_bss_single_status app ref args =
     no_args ''spiderw bss <bss> status'' args
       (with_bss app ref (show_value app bss_status_entry_from_bss (\<lambda>e. bss_status_result [e])))"

definition bss_string_result :: "string \<Rightarrow> string \<Rightarrow> cli_output" where
  "bss_string_result ref v = text_result ''BSS'' ref ''Value'' v"

definition run_bss_address :: "('c, 'w) app \<Rightarrow> string \<Rightarrow> string list \<Rightarrow> (gerror, 'w, unit) go" where
  "run_bss_address app ref args =
     no_args ''spiderw bss <bss> address'' args
       (with_bss app ref (show_value app bs_address (bss_string_result ref)))"

definition bssHelpText :: string where
  "bssHelpText = help_lines
     [''Commands:'',
      ''  list                  List basic service sets (address and path)'',
      ''  status                Show a snapshot of every basic service set'',
      ''  <bss> status          Show a snapshot of one basic service set'',
      ''  <bss> address         Show the basic service set hardware (BSSID) address'']"

definition print_bss_usage :: "('c, 'w) app \<Rightarrow> 'w \<Rightarrow> 'w" where
  "print_bss_usage app =
     print_usage app (usage_leaf ''bss'' ''Inspect and query iwd basic service sets'' bssHelpText)"

definition run_bss_with_ref :: "('c, 'w) app \<Rightarrow> string list \<Rightarrow> (gerror, 'w, unit) go" where
  "run_bss_with_ref app args =
     (if length args < 2
      then fail_with_usage (print_bss_usage app) (Errorf ''missing bss command for %q'' [hd args] [])
      else
        (let ref = hd args; op = args ! 1; rest = drop 2 args in
         if op = ''status'' then run_bss_single_status app ref rest
         else if op = ''address'' then run_bss_address app ref rest
         else
           fail_with_usage (print_bss_usage app)
             (Errorf ''unknown bss command %q for basic service set %q'' [op, ref] [])))"

definition run_bss :: "('c, 'w) app \<Rightarrow> string list \<Rightarrow> (gerror, 'w, unit) go" where
  "run_bss app args =
     (case args of
        [] \<Rightarrow> fail_with_usage (print_bss_usage app) (Errorf ''missing bss command'' [] [])
      | a # rest \<Rightarrow>
          if a = ''list'' then run_bss_list app rest
          else if a = ''status'' then run_bss_status app rest
          else run_bss_with_ref app args)"

definition bss_command :: "('c, 'w) app \<Rightarrow> 'w command" where
  "bss_command app =
     Command ''bss'' ''Inspect and query iwd basic service sets'' (Some (run_bss app)) [] [] bssHelpText"

end
