(* ===== verification/Cli_Networks.thy ===== *)
theory Cli_Networks
  imports Cli_Objects
begin

text \<open>
  The commands \<open>network\<close> and \<open>known-network\<close>, with the connecting of a network that needs a passphrase and
  the sources the passphrase comes from.
\<close>

subsection \<open>network.go\<close>

record network_status_entry =
  nse_path :: string
  nse_name :: string
  nse_connected :: bool
  nse_type :: string
  nse_device :: obj_ref
  nse_known_network :: "string option"
  nse_ess :: "obj_ref list"

definition network_status_lines :: "network_status_entry \<Rightarrow> string list" where
  "network_status_lines e =
     [field 16 ''Name'' (or_unnamed (nse_name e)), field 16 ''Path'' (nse_path e),
      field 16 ''Connected'' (bool_text (nse_connected e)), field 16 ''Type'' (or_dash (nse_type e)),
      field 16 ''Device'' (readable (nse_device e)),
      field 16 ''KnownNetwork'' (case nse_known_network e of None \<Rightarrow> ''-'' | Some k \<Rightarrow> k),
      field 16 ''BasicServiceSets'' (readable_addr_refs (nse_ess e))]"

definition network_status_json :: "network_status_entry \<Rightarrow> json" where
  "network_status_json e =
     JObj [(''Path'', JStr (nse_path e)), (''Name'', JStr (nse_name e)), (''Connected'', JBool (nse_connected e)),
       (''Type'', JStr (nse_type e)), (''Device'', name_ref_json (nse_device e)),
       (''KnownNetwork'', optional_json JStr (nse_known_network e)),
       (''ExtendedServiceSet'', JArr (map addr_ref_json (nse_ess e)))]"

definition network_status_result :: "network_status_entry list \<Rightarrow> cli_output" where
  "network_status_result es =
     \<lparr>out_text = status_text ''no networks available'' network_status_lines es,
      out_json = JArr (map network_status_json es)\<rparr>"

definition network_status_entry_from_network ::
    "('c, 'w) network_api \<Rightarrow> ('c, 'w, network_status_entry) cli" where
  "network_status_entry_from_network n =
     go_bind (nw_properties n) (\<lambda>props.
     go_return \<lparr>nse_path = nw_path n, nse_name = nq_name props, nse_connected = nq_connected props,
       nse_type = network_type_string (nq_type props),
       nse_device = to_ref (ref_name (nq_device props)) (ref_path (nq_device props)),
       nse_known_network = nq_known_network props, nse_ess = to_addr_refs (nq_ess props)\<rparr>)"

definition run_network_status :: "('c, 'w) app \<Rightarrow> string list \<Rightarrow> (gerror, 'w, unit) go" where
  "run_network_status =
     run_status ''unknown network status argument: %s'' api_all_networks network_status_entry_from_network
       network_status_result"

definition run_network_single_status :: "('c, 'w) app \<Rightarrow> string \<Rightarrow> string list \<Rightarrow> (gerror, 'w, unit) go" where
  "run_network_single_status app ref args =
     no_args ''spiderw network <network> status'' args
       (with_network app ref (show_value app network_status_entry_from_network (\<lambda>e. network_status_result [e])))"

definition network_string_result :: "string \<Rightarrow> string \<Rightarrow> cli_output" where
  "network_string_result ref v = text_result ''Network'' ref ''Value'' v"

subsection \<open>Passphrases\<close>

text \<open>What is left of standard input counts from the moment of reading.\<close>

definition read_passphrase_stdin :: "('c, 'w) app \<Rightarrow> (raw_err, 'w, string) go" where
  "read_passphrase_stdin app = (\<lambda>w.
     case app_stdin app w of
       ((content, err), w') \<Rightarrow>
         (case scan_line content of
            Token secret \<Rightarrow> Inr secret
          | TooLong \<Rightarrow> Inl (OtherErr (sprintf ''reading passphrase from stdin: %v'' [''bufio.Scanner: token too long'']))
          | NoToken \<Rightarrow>
              (case err of
                 Some e \<Rightarrow> Inl (OtherErr (sprintf ''reading passphrase from stdin: %v'' [err_text e]))
               | None \<Rightarrow> Inl (OtherErr ''no passphrase provided on stdin'')), w'))"

definition resolve_connect_passphrase ::
    "('c, 'w) app \<Rightarrow> string \<Rightarrow> bool \<Rightarrow> string \<Rightarrow> bool \<Rightarrow> (raw_err, 'w, string) go" where
  "resolve_connect_passphrase app ref passphrase_set passphrase pass_stdin =
     (if passphrase_set then go_return passphrase
      else if pass_stdin then read_passphrase_stdin app
      else app_prompt app (''Passphrase for '' @ ref @ '': ''))"

text \<open>The flags of \<open>connect\<close> and \<open>connect-hidden\<close>: whether a passphrase was given, it, and \<open>--passphrase-stdin\<close>.\<close>

definition connect_flags :: "(string \<times> flag_kind) list" where
  "connect_flags = [(''passphrase'', StringFlag), (''passphrase-stdin'', BoolFlag)]"

definition connect_options ::
    "('c, 'w) app \<Rightarrow> string \<Rightarrow> string \<Rightarrow> string list \<Rightarrow> (gerror, 'w, bool \<times> string \<times> bool) go" where
  "connect_options app name text args =
     go_bind (operation_flags app name connect_flags args) (\<lambda>(given, rest).
     if rest \<noteq> [] then go_fail (usage text)
     else if flag_given given ''passphrase'' \<and> bool_flag given ''passphrase-stdin''
     then go_fail (Errorf ''specify only one of --passphrase or --passphrase-stdin'' [] [])
     else
       go_return (flag_given given ''passphrase'', string_flag given ''passphrase'',
                  bool_flag given ''passphrase-stdin''))"

text \<open>An agent that answers passphrase requests and no others.\<close>

definition passphrase_agent :: "(raw_err, 'w, string) go \<Rightarrow> 'w credential_callbacks" where
  "passphrase_agent answer =
     \<lparr>Passphrase = Some (\<lambda>_ _. answer), PrivateKeyPassphrase = None, UserNameAndPassword = None,
      UserPassword = None, OnCancel = None, OnRelease = None\<rparr>"

definition network_needs_agent :: "('c, 'w) network_api \<Rightarrow> ('c, 'w, bool) cli" where
  "network_needs_agent n =
     go_bind (nw_properties n) (\<lambda>props.
     go_return (nq_type props \<noteq> NetworkTypeOpen \<and> nq_known_network props = None))"

definition networkConnectUsage :: string where
  "networkConnectUsage =
     ''spiderw network <network> connect [--passphrase=<secret> | --passphrase-stdin]''"

text \<open>What follows once an agent is registered, if one is needed.\<close>

definition connect_and_report :: "('c, 'w) app \<Rightarrow> string \<Rightarrow> ('c, 'w) network_api \<Rightarrow> ('c, 'w, unit) cli" where
  "connect_and_report app ref n =
     go_bind (nw_connect n) (\<lambda>_. show_value app nw_connected (network_connected_result ref) n)"

definition run_network_connect :: "('c, 'w) app \<Rightarrow> string \<Rightarrow> string list \<Rightarrow> (gerror, 'w, unit) go" where
  "run_network_connect app ref args =
     go_bind (connect_options app ''connect'' networkConnectUsage args) (\<lambda>(passphrase_set, passphrase, pass_stdin).
     with_client app (\<lambda>client.
       go_bind (network_by_ref (Some client) ref) (\<lambda>n.
       go_bind (network_needs_agent n) (\<lambda>needs_agent.
       if needs_agent
       then
         go_bind (go_wrap Foreign (on_world
           (resolve_connect_passphrase app ref passphrase_set passphrase pass_stdin))) (\<lambda>secret.
         go_bind (api_register_agent client (passphrase_agent (go_return secret))) (\<lambda>agent.
         deferred (ag_unregister agent) (connect_and_report app ref n)))
       else connect_and_report app ref n))))"

subsection \<open>The operations of a network\<close>

definition run_network_connected :: "('c, 'w) app \<Rightarrow> string \<Rightarrow> string list \<Rightarrow> (gerror, 'w, unit) go" where
  "run_network_connected app ref args =
     no_args ''spiderw network <network> connected'' args
       (with_network app ref (show_value app nw_connected (network_connected_result ref)))"

definition run_network_string ::
    "('c, 'w) app \<Rightarrow> string \<Rightarrow> string list \<Rightarrow> string \<Rightarrow> (('c, 'w) network_api \<Rightarrow> ('c, 'w, string) cli)
      \<Rightarrow> (gerror, 'w, unit) go" where
  "run_network_string app ref args text get =
     no_args text args (with_network app ref (show_value app get (network_string_result ref)))"

definition run_network_known_network :: "('c, 'w) app \<Rightarrow> string \<Rightarrow> string list \<Rightarrow> (gerror, 'w, unit) go" where
  "run_network_known_network app ref args =
     no_args ''spiderw network <network> known-network'' args
       (with_network app ref
         (show_value app nw_known_network
           (\<lambda>known. network_string_result ref (case known of None \<Rightarrow> '''' | Some k \<Rightarrow> k))))"

definition run_network_bsses :: "('c, 'w) app \<Rightarrow> string \<Rightarrow> string list \<Rightarrow> (gerror, 'w, unit) go" where
  "run_network_bsses app ref args =
     no_args ''spiderw network <network> bsses'' args
       (with_network app ref (show_value app nw_ess (network_bsses_result ref)))"

definition networkHelpText :: string where
  "networkHelpText = help_lines
     [''Commands:'',
      ''  list                             List networks (name and path)'',
      ''  status                           Show a snapshot of every network'',
      ''  <network> status                 Show a snapshot of one network'',
      ''  <network> connect                Connect to the network; for a secured network'',
      ''                                   supply --passphrase=<secret>, --passphrase-stdin,'',
      ''                                   or answer the interactive prompt'',
      ''  <network> connected              Show whether the network is connected'',
      ''  <network> type                   Show the network type'',
      ''  <network> device                 Show the owning device object path'',
      ''  <network> name                   Show the network SSID'',
      ''  <network> known-network          Show the known-network object path, if any'',
      ''  <network> bsses                  List the network's basic service set paths'',
      ''  <network> monitor connected          Stream the connected flag until Ctrl-C'',
      ''  <network> monitor known-network      Stream the saved-profile link; fires when'',
      ''                                       the network is saved or forgotten'',
      ''  <network> monitor bsses              Stream the network's BSS list'']"

definition networkDescription :: string where
  "networkDescription = ''Inspect, query, and connect to iwd networks''"

definition print_network_usage :: "('c, 'w) app \<Rightarrow> 'w \<Rightarrow> 'w" where
  "print_network_usage app = print_usage app (usage_leaf ''network'' networkDescription networkHelpText)"

definition run_network_with_ref :: "('c, 'w) app \<Rightarrow> string list \<Rightarrow> (gerror, 'w, unit) go" where
  "run_network_with_ref app args =
     (if length args < 2
      then fail_with_usage (print_network_usage app) (Errorf ''missing network command for %q'' [hd args] [])
      else
        (let ref = hd args; op = args ! 1; rest = drop 2 args in
         if op = ''status'' then run_network_single_status app ref rest
         else if op = ''connect'' then run_network_connect app ref rest
         else if op = ''connected'' then run_network_connected app ref rest
         else if op = ''type''
         then run_network_string app ref rest ''spiderw network <network> type''
                (\<lambda>n. go_bind (nw_type n) (\<lambda>t. go_return (network_type_string t)))
         else if op = ''device''
         then run_network_string app ref rest ''spiderw network <network> device'' nw_device
         else if op = ''name'' then run_network_string app ref rest ''spiderw network <network> name'' nw_name
         else if op = ''known-network'' then run_network_known_network app ref rest
         else if op = ''bsses'' then run_network_bsses app ref rest
         else if op = ''monitor'' then monitor_network app ref rest
         else
           fail_with_usage (print_network_usage app)
             (Errorf ''unknown network command %q for network %q'' [op, ref] [])))"

definition run_network :: "('c, 'w) app \<Rightarrow> string list \<Rightarrow> (gerror, 'w, unit) go" where
  "run_network app args =
     (case args of
        [] \<Rightarrow> fail_with_usage (print_network_usage app) (Errorf ''missing network command'' [] [])
      | a # rest \<Rightarrow>
          if a = ''list'' then run_network_list app rest
          else if a = ''status'' then run_network_status app rest
          else run_network_with_ref app args)"

definition network_command :: "('c, 'w) app \<Rightarrow> 'w command" where
  "network_command app =
     Command ''network'' networkDescription (Some (run_network app))
       [(''monitor'', ''usage: '' @ networkMonitorUsage)] [] networkHelpText"

subsection \<open>knownnetwork.go\<close>

definition parse_bool_arg :: "string \<Rightarrow> gerror + bool" where
  "parse_bool_arg raw =
     (case bool_word raw of
        Some b \<Rightarrow> Inr b
      | None \<Rightarrow> Inl (Errorf ''invalid boolean value %q'' [raw] []))"

record known_network_status_entry =
  kse_path :: string
  kse_name :: string
  kse_type :: string
  kse_hidden :: bool
  kse_last_connected :: "string option"
  kse_auto_connect :: bool

definition known_network_status_lines :: "known_network_status_entry \<Rightarrow> string list" where
  "known_network_status_lines e =
     [field 20 ''Name'' (or_unnamed (kse_name e)), field 20 ''Path'' (kse_path e),
      field 20 ''Type'' (or_dash (kse_type e)), field 20 ''Hidden'' (bool_text (kse_hidden e)),
      field 20 ''LastConnectedTime'' (case kse_last_connected e of None \<Rightarrow> ''-'' | Some t \<Rightarrow> t),
      field 20 ''AutoConnect'' (bool_text (kse_auto_connect e))]"

definition known_network_status_json :: "known_network_status_entry \<Rightarrow> json" where
  "known_network_status_json e =
     JObj [(''Path'', JStr (kse_path e)), (''Name'', JStr (kse_name e)), (''Type'', JStr (kse_type e)),
       (''Hidden'', JBool (kse_hidden e)),
       (''LastConnectedTime'', optional_json JStr (kse_last_connected e)),
       (''AutoConnect'', JBool (kse_auto_connect e))]"

definition known_network_status_result :: "known_network_status_entry list \<Rightarrow> cli_output" where
  "known_network_status_result es =
     \<lparr>out_text = status_text ''no known networks available'' known_network_status_lines es,
      out_json = JArr (map known_network_status_json es)\<rparr>"

definition known_network_status_entry_from ::
    "('c, 'w) known_network_api \<Rightarrow> ('c, 'w, known_network_status_entry) cli" where
  "known_network_status_entry_from k =
     go_bind (kn_properties k) (\<lambda>props.
     go_return \<lparr>kse_path = kn_path k, kse_name = kp_name props, kse_type = network_type_string (kp_type props),
       kse_hidden = kp_hidden props, kse_last_connected = kp_last_connected_time props,
       kse_auto_connect = kp_auto_connect props\<rparr>)"

definition run_known_network_status :: "('c, 'w) app \<Rightarrow> string list \<Rightarrow> (gerror, 'w, unit) go" where
  "run_known_network_status =
     run_status ''unknown known-network status argument: %s'' api_all_known_networks
       known_network_status_entry_from known_network_status_result"

definition run_known_network_single_status :: "('c, 'w) app \<Rightarrow> string \<Rightarrow> string list \<Rightarrow> (gerror, 'w, unit) go" where
  "run_known_network_single_status app ref args =
     no_args ''spiderw known-network <known-network> status'' args
       (with_known_network app ref
         (show_value app known_network_status_entry_from (\<lambda>e. known_network_status_result [e])))"

definition known_network_string_result :: "string \<Rightarrow> string \<Rightarrow> cli_output" where
  "known_network_string_result ref v = text_result ''KnownNetwork'' ref ''Value'' v"

definition known_network_forget_result :: "string \<Rightarrow> cli_output" where
  "known_network_forget_result ref =
     \<lparr>out_text = ''forgotten '' @ ref, out_json = JObj [(''KnownNetwork'', JStr ref), (''Forgotten'', JBool True)]\<rparr>"

text \<open>The value that was set is reported, not one that is read back.\<close>

definition run_known_network_auto_connect :: "('c, 'w) app \<Rightarrow> string \<Rightarrow> string list \<Rightarrow> (gerror, 'w, unit) go" where
  "run_known_network_auto_connect app ref args =
     (if length args > 1
      then go_fail (usage ''spiderw known-network <known-network> autoconnect [true|false]'')
      else
        with_known_network app ref (\<lambda>k.
          case args of
            [] \<Rightarrow> show_value app kn_auto_connect (known_network_auto_connect_result ref) k
          | arg # _ \<Rightarrow>
              (case parse_bool_arg arg of
                 Inl _ \<Rightarrow> go_fail (Errorf ''invalid value for autoconnect: %q (expected true|false)'' [arg] [])
               | Inr auto \<Rightarrow>
                   go_bind (kn_set_auto_connect k auto) (\<lambda>_.
                   print_output app (known_network_auto_connect_result ref auto)))))"

definition run_known_network_forget :: "('c, 'w) app \<Rightarrow> string \<Rightarrow> string list \<Rightarrow> (gerror, 'w, unit) go" where
  "run_known_network_forget app ref args =
     no_args ''spiderw known-network <known-network> forget'' args
       (with_known_network app ref (\<lambda>k.
         go_bind (kn_forget k) (\<lambda>_. print_output app (known_network_forget_result ref))))"

definition run_known_network_hidden :: "('c, 'w) app \<Rightarrow> string \<Rightarrow> string list \<Rightarrow> (gerror, 'w, unit) go" where
  "run_known_network_hidden app ref args =
     no_args ''spiderw known-network <known-network> hidden'' args
       (with_known_network app ref
         (show_value app kn_hidden (\<lambda>h. known_network_string_result ref (bool_text h))))"

definition run_known_network_last_connected ::
    "('c, 'w) app \<Rightarrow> string \<Rightarrow> string list \<Rightarrow> (gerror, 'w, unit) go" where
  "run_known_network_last_connected app ref args =
     no_args ''spiderw known-network <known-network> last-connected'' args
       (with_known_network app ref
         (show_value app kn_last_connected
           (\<lambda>lt. known_network_string_result ref (case lt of None \<Rightarrow> '''' | Some t \<Rightarrow> t))))"

definition run_known_network_string ::
    "('c, 'w) app \<Rightarrow> string \<Rightarrow> string list \<Rightarrow> string \<Rightarrow> (('c, 'w) known_network_api \<Rightarrow> ('c, 'w, string) cli)
      \<Rightarrow> (gerror, 'w, unit) go" where
  "run_known_network_string app ref args text get =
     no_args text args (with_known_network app ref (show_value app get (known_network_string_result ref)))"

definition knownNetworkHelpText :: string where
  "knownNetworkHelpText = help_lines
     [''Commands:'',
      ''  list                                       List known networks (name and path)'',
      ''  status                                     Show a snapshot of every known network'',
      ''  <known-network> status                     Show a snapshot of one known network'',
      ''  <known-network> name                       Show the known network name'',
      ''  <known-network> type                       Show the known network type'',
      ''  <known-network> hidden                     Show whether the network is hidden'',
      ''  <known-network> last-connected             Show the last-connected timestamp, if any'',
      ''  <known-network> autoconnect [true|false]   Get or set auto-connect'',
      ''  <known-network> forget                     Forget (remove) the known network'',
      ''  <known-network> monitor autoconnect  Stream the auto-connect flag until Ctrl-C'',
      ''  <known-network> monitor hidden       Stream the hidden flag. This reports how'',
      ''                                      the profile was provisioned (connected to'',
      ''                                      by SSID because it was not broadcasting),'',
      ''                                      not whether the AP is hiding its SSID now'',
      ''  <known-network> monitor last-connected'',
      ''                                      Stream the last-connected timestamp; fires'',
      ''                                      on each successful connect'']"

definition knownNetworkDescription :: string where
  "knownNetworkDescription = ''Inspect and manage iwd known networks''"

definition print_known_network_usage :: "('c, 'w) app \<Rightarrow> 'w \<Rightarrow> 'w" where
  "print_known_network_usage app =
     print_usage app (usage_leaf ''known-network'' knownNetworkDescription knownNetworkHelpText)"

definition run_known_network_with_ref :: "('c, 'w) app \<Rightarrow> string list \<Rightarrow> (gerror, 'w, unit) go" where
  "run_known_network_with_ref app args =
     (if length args < 2
      then fail_with_usage (print_known_network_usage app)
             (Errorf ''missing known-network command for %q'' [hd args] [])
      else
        (let ref = hd args; op = args ! 1; rest = drop 2 args in
         if op = ''status'' then run_known_network_single_status app ref rest
         else if op = ''name''
         then run_known_network_string app ref rest ''spiderw known-network <known-network> name'' kn_name
         else if op = ''type''
         then run_known_network_string app ref rest ''spiderw known-network <known-network> type''
                (\<lambda>k. go_bind (kn_type k) (\<lambda>t. go_return (network_type_string t)))
         else if op = ''hidden'' then run_known_network_hidden app ref rest
         else if op = ''last-connected'' then run_known_network_last_connected app ref rest
         else if op = ''autoconnect'' then run_known_network_auto_connect app ref rest
         else if op = ''forget'' then run_known_network_forget app ref rest
         else if op = ''monitor'' then monitor_known_network app ref rest
         else
           fail_with_usage (print_known_network_usage app)
             (Errorf ''unknown known-network command %q for known network %q'' [op, ref] [])))"

definition run_known_network :: "('c, 'w) app \<Rightarrow> string list \<Rightarrow> (gerror, 'w, unit) go" where
  "run_known_network app args =
     (case args of
        [] \<Rightarrow> fail_with_usage (print_known_network_usage app) (Errorf ''missing known-network command'' [] [])
      | a # rest \<Rightarrow>
          if a = ''list'' then run_known_network_list app rest
          else if a = ''status'' then run_known_network_status app rest
          else run_known_network_with_ref app args)"

definition known_network_command :: "('c, 'w) app \<Rightarrow> 'w command" where
  "known_network_command app =
     Command ''known-network'' knownNetworkDescription (Some (run_known_network app))
       [(''monitor'', ''usage: '' @ knownNetworkMonitorUsage)] [] knownNetworkHelpText"

end
