(* ===== verification/Cli_Station.thy ===== *)
theory Cli_Station
  imports Cli_Networks
begin

text \<open>
  The commands \<open>station\<close> and \<open>access-point\<close>: scanning with and without waiting, affinities, hidden networks,
  the signal monitor and WSC. A duration is a number of nanoseconds.
\<close>

subsection \<open>Scanning\<close>

definition scanWaitTimeout :: int where
  "scanWaitTimeout = 15000000000"

definition scan_flags :: "(string \<times> flag_kind) list" where
  "scan_flags = [(''no-wait'', BoolFlag), (''timeout'', DurationFlag)]"

text \<open>Whether not to wait, and the time to wait.\<close>

definition scan_options ::
    "('c, 'w) app \<Rightarrow> string \<Rightarrow> string list \<Rightarrow> (gerror, 'w, bool \<times> int) go" where
  "scan_options app text args =
     go_bind (operation_flags app ''scan'' scan_flags args) (\<lambda>(given, rest).
     let no_wait = bool_flag given ''no-wait''; timeout = duration_flag given ''timeout'' scanWaitTimeout in
     if rest \<noteq> [] then go_fail (usage text)
     else if no_wait \<and> flag_given given ''timeout''
     then go_fail (Errorf ''--timeout has no effect with --no-wait'' [] [])
     else if timeout \<le> 0 then go_fail (Errorf ''--timeout must be positive'' [] [])
     else go_return (no_wait, timeout))"

text \<open>
  The wait: the callback puts a token on the channel when scanning turns false, and the channel keeps one,
  so the wait ends well exactly if such a value is delivered before the time is over. The context of a scan
  is the background one, which is never done.
\<close>

definition await_scan :: "('c, 'w) app \<Rightarrow> int \<Rightarrow> ('c, 'w, unit) cli" where
  "await_scan app timeout =
     (if GotBool False \<in> set (app_signals app) then go_return ()
      else go_fail (Errorf ''timed out waiting for scan to finish after %s'' [duration_text timeout] []))"

text \<open>Both scans: subscribe, start, say so, wait, print what was found.\<close>

definition scan_and_wait ::
    "('c, 'w) app \<Rightarrow> ('c, 'w) subscribe \<Rightarrow> ('c, 'w, unit) cli \<Rightarrow> cli_output \<Rightarrow> int \<Rightarrow> ('c, 'w, unit) cli
      \<Rightarrow> ('c, 'w, unit) cli" where
  "scan_and_wait app sub scan started timeout print_networks =
     go_bind (sub ScanDone) (\<lambda>unsub.
     deferred_unsub unsub
       (go_bind scan (\<lambda>_.
        go_bind (print_output app started) (\<lambda>_.
        go_bind (await_scan app timeout) (\<lambda>_. print_networks)))))"

subsection \<open>station.go: status, scan and networks\<close>

record station_status_entry =
  sse_path :: string
  sse_name :: string
  sse_state :: string
  sse_scanning :: bool
  sse_network :: "obj_ref option"
  sse_access_point :: "obj_ref option"
  sse_affinities :: "obj_ref list"

definition station_status_lines :: "station_status_entry \<Rightarrow> string list" where
  "station_status_lines e =
     [field 22 ''Path'' (sse_path e), field 22 ''Name'' (or_dash (sse_name e)),
      field 22 ''State'' (or_dash (sse_state e)), field 22 ''Scanning'' (bool_text (sse_scanning e)),
      field 22 ''ConnectedNetwork'' (readable_ref (sse_network e) ''-''),
      field 22 ''ConnectedAccessPoint'' (readable_ref (sse_access_point e) ''-''),
      field 22 ''Affinities'' (readable_addr_refs (sse_affinities e))]"

definition station_status_json :: "station_status_entry \<Rightarrow> json" where
  "station_status_json e =
     JObj [(''Path'', JStr (sse_path e)), (''Name'', JStr (sse_name e)), (''State'', JStr (sse_state e)),
       (''Scanning'', JBool (sse_scanning e)),
       (''ConnectedNetwork'', optional_json name_ref_json (sse_network e)),
       (''ConnectedAccessPoint'', optional_json addr_ref_json (sse_access_point e)),
       (''Affinities'', JArr (map addr_ref_json (sse_affinities e)))]"

definition station_status_result :: "station_status_entry list \<Rightarrow> cli_output" where
  "station_status_result es =
     \<lparr>out_text = status_text ''no stations available'' station_status_lines es,
      out_json = JArr (map station_status_json es)\<rparr>"

definition station_status_entry_from_station ::
    "('c, 'w) station_api \<Rightarrow> ('c, 'w, station_status_entry) cli" where
  "station_status_entry_from_station st =
     go_bind (st_properties st) (\<lambda>props.
     go_return \<lparr>sse_path = st_path st, sse_name = st_display st,
       sse_state = station_state_string (sq_state props), sse_scanning = sq_scanning props,
       sse_network = ref_of_ref (sq_connected_network props),
       sse_access_point = ref_of_ref (sq_connected_access_point props),
       sse_affinities = to_addr_refs (sq_affinities props)\<rparr>)"

definition run_station_status :: "('c, 'w) app \<Rightarrow> string list \<Rightarrow> (gerror, 'w, unit) go" where
  "run_station_status =
     run_status ''unknown station status argument: %s'' api_all_stations station_status_entry_from_station
       station_status_result"

definition run_station_single_status :: "('c, 'w) app \<Rightarrow> string \<Rightarrow> string list \<Rightarrow> (gerror, 'w, unit) go" where
  "run_station_single_status app ref args =
     no_args ''spiderw station <station> status'' args
       (with_station app ref (show_value app station_status_entry_from_station (\<lambda>e. station_status_result [e])))"

definition station_scan_result :: "string \<Rightarrow> cli_output" where
  "station_scan_result ref =
     \<lparr>out_text = ''scan started'', out_json = JObj [(''Station'', JStr ref), (''Started'', JBool True)]\<rparr>"

definition station_scan_started_result :: "string \<Rightarrow> cli_output" where
  "station_scan_started_result ref =
     \<lparr>out_text = ''station '' @ go_quote ref @ '': scan started; waiting for it to finish...'',
      out_json = JObj [(''Station'', JStr ref)]\<rparr>"

definition station_networks_result :: "(obj_ref \<times> rat) list \<Rightarrow> cli_output" where
  "station_networks_result ns =
     \<lparr>out_text =
        (if ns = [] then ''no networks available''
         else join newline (map (\<lambda>(r, dbm). readable r @ tab @ dbm_text dbm @ '' dBm'') ns)),
      out_json =
        JArr (map (\<lambda>(r, dbm). JObj [(''Name'', JStr (ref_name r)), (''Path'', JStr (ref_path r)),
                                    (''SignalDBm'', JNum (dbm_text dbm))]) ns)\<rparr>"

definition print_station_networks :: "('c, 'w) app \<Rightarrow> ('c, 'w) station_api \<Rightarrow> ('c, 'w, unit) cli" where
  "print_station_networks app st = show_value app st_ordered_networks station_networks_result st"

definition run_station_scan :: "('c, 'w) app \<Rightarrow> string \<Rightarrow> string list \<Rightarrow> (gerror, 'w, unit) go" where
  "run_station_scan app ref args =
     go_bind (scan_options app ''spiderw station <station> scan [--no-wait] [--timeout=<duration>]'' args)
       (\<lambda>(no_wait, timeout).
     with_station app ref (\<lambda>st.
       if no_wait then go_bind (st_scan st) (\<lambda>_. print_output app (station_scan_result ref))
       else scan_and_wait app (st_subscribe_scanning st) (st_scan st) (station_scan_started_result ref) timeout
              (print_station_networks app st)))"

definition run_station_networks :: "('c, 'w) app \<Rightarrow> string \<Rightarrow> string list \<Rightarrow> (gerror, 'w, unit) go" where
  "run_station_networks app ref args =
     no_args ''spiderw station <station> networks'' args (with_station app ref (print_station_networks app))"

subsection \<open>station.go: affinities\<close>

definition station_affinities_result :: "obj_ref list option \<Rightarrow> cli_output" where
  "station_affinities_result rs =
     \<lparr>out_text = (if slice rs = [] then ''no affinities set'' else join newline (map readable (slice rs))),
      out_json = slice_json addr_ref_json rs\<rparr>"

text \<open>One argument: a path is taken as it is, an address is looked up in the listing.\<close>

definition affinity_ref :: "obj_ref list \<Rightarrow> string \<Rightarrow> gerror + obj_ref" where
  "affinity_ref bsses a =
     (if prefix ''/'' a
      then Inr (to_ref (case find (\<lambda>b. ref_path b = a) bsses of None \<Rightarrow> '''' | Some b \<Rightarrow> ref_name b) a)
      else
        (let found = (case find (\<lambda>b. equal_fold (ref_name b) a) bsses of None \<Rightarrow> '''' | Some b \<Rightarrow> ref_path b) in
         if found = '''' then Inl (Errorf ''no basic service set found with address %q'' [a] [])
         else Inr (to_ref a found)))"

text \<open>The listing is fetched once, for the first argument that is not blank.\<close>

primrec affinity_refs ::
    "('c, 'w) daemon_api \<Rightarrow> obj_ref list option \<Rightarrow> string list \<Rightarrow> ('c, 'w, obj_ref list) cli" where
  "affinity_refs d fetched [] = go_return []"
| "affinity_refs d fetched (raw # args) =
     (let a = trim_space raw in
      if a = '''' then go_fail (Errorf ''empty affinity reference'' [] [])
      else
        go_bind (case fetched of Some b \<Rightarrow> go_return b | None \<Rightarrow> dm_basic_service_sets d) (\<lambda>bsses.
        go_bind (go_lift (affinity_ref bsses a)) (\<lambda>r.
        go_bind (affinity_refs d (Some bsses) args) (\<lambda>rs. go_return (r # rs)))))"

definition resolve_affinity_refs :: "('c, 'w) client_api \<Rightarrow> string list \<Rightarrow> ('c, 'w, obj_ref list) cli" where
  "resolve_affinity_refs client args = (\<lambda>s.
     case api_daemon client s of
       None \<Rightarrow> (Inl (Errorf ''daemon not available'' [] []), s)
     | Some d \<Rightarrow> affinity_refs d None args s)"

definition affinityWarning :: string where
  "affinityWarning =
     ''warning: iwd releases this affinity when the setting process exits, so the CLI cannot hold it ''
     @ ''persistently; only a long-lived client can''"

definition run_station_affinities_set :: "('c, 'w) app \<Rightarrow> string \<Rightarrow> string list \<Rightarrow> (gerror, 'w, unit) go" where
  "run_station_affinities_set app ref args =
     (if args = []
      then go_fail (usage ''spiderw station <station> affinities set <bss> [<bss>...] (BSS MAC or object path)'')
      else
        with_client app (\<lambda>client.
          go_bind (station_by_ref (Some client) ref) (\<lambda>st.
          go_bind (resolve_affinity_refs client args) (\<lambda>refs.
          go_bind (st_set_affinities st (map ref_path refs)) (\<lambda>_.
          go_bind (on_world (\<lambda>w. (Inr (), app_stderr app (Text (affinityWarning @ newline)) w))) (\<lambda>_.
          print_output app (station_affinities_result (Some refs))))))))"

definition run_station_affinities :: "('c, 'w) app \<Rightarrow> string \<Rightarrow> string list \<Rightarrow> (gerror, 'w, unit) go" where
  "run_station_affinities app ref args =
     (if args \<noteq> [] \<and> hd args = ''set'' then run_station_affinities_set app ref (tl args)
      else if args \<noteq> [] \<and> hd args = ''clear''
      then
        (if length args \<noteq> 1 then go_fail (usage ''spiderw station <station> affinities clear'')
         else
           with_station app ref (\<lambda>st.
             go_bind (st_set_affinities st []) (\<lambda>_. print_output app (station_affinities_result None))))
      else if args \<noteq> [] then go_fail (usage ''spiderw station <station> affinities [set <bss>... | clear]'')
      else
        with_station app ref
          (show_value app st_properties
            (\<lambda>props. station_affinities_result (Some (to_addr_refs (sq_affinities props))))))"

subsection \<open>station.go: connections and hidden networks\<close>

definition station_disconnect_result :: "string \<Rightarrow> cli_output" where
  "station_disconnect_result ref = \<lparr>out_text = ''disconnected'', out_json = JObj [(''Station'', JStr ref)]\<rparr>"

definition run_station_disconnect :: "('c, 'w) app \<Rightarrow> string \<Rightarrow> string list \<Rightarrow> (gerror, 'w, unit) go" where
  "run_station_disconnect app ref args =
     no_args ''spiderw station <station> disconnect'' args
       (with_station app ref (\<lambda>st.
         go_bind (st_disconnect st) (\<lambda>_. print_output app (station_disconnect_result ref))))"

definition station_connect_hidden_result :: "string \<Rightarrow> string \<Rightarrow> cli_output" where
  "station_connect_hidden_result ref ssid =
     \<lparr>out_text = ''connected to '' @ ssid,
      out_json = JObj [(''Station'', JStr ref), (''Network'', JStr ssid), (''Connected'', JBool True)]\<rparr>"

definition stationConnectHiddenUsage :: string where
  "stationConnectHiddenUsage =
     ''spiderw station <station> connect-hidden <ssid> [--passphrase=<secret> | --passphrase-stdin]''"

text \<open>The agent is registered for any network; the passphrase is only looked for when iwd asks.\<close>

definition run_station_connect_hidden :: "('c, 'w) app \<Rightarrow> string \<Rightarrow> string list \<Rightarrow> (gerror, 'w, unit) go" where
  "run_station_connect_hidden app ref args =
     (if args = [] \<or> prefix ''-'' (hd args) then go_fail (usage stationConnectHiddenUsage)
      else
        (let ssid = hd args in
         go_bind (connect_options app ''connect-hidden'' stationConnectHiddenUsage (tl args))
           (\<lambda>(passphrase_set, passphrase, pass_stdin).
         with_client app (\<lambda>client.
           go_bind (station_by_ref (Some client) ref) (\<lambda>st.
           go_bind (api_register_agent client (passphrase_agent
             (resolve_connect_passphrase app ssid passphrase_set passphrase pass_stdin))) (\<lambda>agent.
           deferred (ag_unregister agent)
             (go_bind (st_connect_hidden st ssid) (\<lambda>_.
              print_output app (station_connect_hidden_result ref ssid)))))))))"

definition station_hidden_aps_result :: "public_hidden_access_point list \<Rightarrow> cli_output" where
  "station_hidden_aps_result aps =
     \<lparr>out_text =
        (if aps = [] then ''no hidden access points available''
         else join newline
           (map (\<lambda>ap. hq_address ap @ tab @ dbm_text (hq_strength ap) @ '' dBm'' @ tab
                      @ network_type_string (hq_type ap)) aps)),
      out_json =
        JArr (map (\<lambda>ap. JObj [(''Address'', JStr (hq_address ap)), (''SignalDBm'', JNum (dbm_text (hq_strength ap))),
                              (''Type'', JStr (network_type_string (hq_type ap)))]) aps)\<rparr>"

definition run_station_hidden_aps :: "('c, 'w) app \<Rightarrow> string \<Rightarrow> string list \<Rightarrow> (gerror, 'w, unit) go" where
  "run_station_hidden_aps app ref args =
     no_args ''spiderw station <station> hidden-aps'' args
       (with_station app ref (show_value app st_hidden_access_points station_hidden_aps_result))"

subsection \<open>station.go: the signal monitor\<close>

fun check_descending :: "int list \<Rightarrow> gerror + unit" where
  "check_descending (t # u # ts) =
     (if u \<ge> t
      then Inl (Errorf ''signal thresholds must be strictly descending (highest dBm first), got %d after %d''
                  [decimal u, decimal t] [])
      else check_descending (u # ts))"
| "check_descending _ = Inr ()"

definition parse_signal_threshold :: "string \<Rightarrow> gerror + int" where
  "parse_signal_threshold a =
     (case atoi (trim_space a) of
        None \<Rightarrow> Inl (Errorf ''invalid signal threshold %q: must be an integer dBm value'' [a] [])
      | Some v \<Rightarrow> Inr v)"

definition parse_signal_thresholds :: "string list \<Rightarrow> gerror + int list" where
  "parse_signal_thresholds args =
     try_bind (collect parse_signal_threshold args) (\<lambda>ts.
     try_bind (check_descending ts) (\<lambda>_. Inr ts))"

text \<open>The band of a level: its lower bound, which belongs to it, and its upper bound, which does not.\<close>

definition signal_band :: "int \<Rightarrow> int list \<Rightarrow> int option \<times> int option" where
  "signal_band level ts =
     (if level \<le> 0 then (Some (ts ! 0), None)
      else if level \<ge> int (length ts) then (None, Some (ts ! (length ts - 1)))
      else (Some (ts ! nat level), Some (ts ! (nat level - 1))))"

definition signal_band_range :: "int \<Rightarrow> int list \<Rightarrow> string" where
  "signal_band_range level ts =
     (case signal_band level ts of
        (Some lo, None) \<Rightarrow> ''>= '' @ decimal lo @ '' dBm''
      | (None, Some hi) \<Rightarrow> ''< '' @ decimal hi @ '' dBm''
      | (Some lo, Some hi) \<Rightarrow> decimal lo @ '' to '' @ decimal hi @ '' dBm''
      | (None, None) \<Rightarrow> '''')"

definition print_signal_level_line :: "('c, 'w) app \<Rightarrow> string \<Rightarrow> int \<Rightarrow> int list \<Rightarrow> (gerror, 'w, unit) go" where
  "print_signal_level_line app ref level ts =
     write_line app (''level='' @ decimal level @ '' ('' @ signal_band_range level ts @ '')'')
       (JObj [(''Station'', JStr ref), (''Level'', JNum (decimal level)),
              (''Range'', JStr (signal_band_range level ts))])"

text \<open>The agent's callback prints; it runs for every level that is delivered until Ctrl-C.\<close>

definition signal_changed :: "('c, 'w) app \<Rightarrow> string \<Rightarrow> int list \<Rightarrow> int \<Rightarrow> 'w \<Rightarrow> 'w" where
  "signal_changed app ref ts level w = snd (print_signal_level_line app ref level ts w)"

definition deliver_levels :: "(int \<Rightarrow> 'w \<Rightarrow> 'w) \<Rightarrow> delivered list \<Rightarrow> 'w \<Rightarrow> 'w" where
  "deliver_levels on_level = fold (\<lambda>v w. case v of GotLevel l \<Rightarrow> on_level l w | _ \<Rightarrow> w)"

definition run_station_monitor_signal :: "('c, 'w) app \<Rightarrow> string \<Rightarrow> string list \<Rightarrow> (gerror, 'w, unit) go" where
  "run_station_monitor_signal app ref args =
     (if args = []
      then go_fail (usage ''spiderw station <station> monitor-signal <dBm> [<dBm>...] (RSSI thresholds in dBm, descending)'')
      else
        go_bind (go_lift (parse_signal_thresholds args)) (\<lambda>ts.
        with_client app (\<lambda>client.
          go_bind (station_by_ref (Some client) ref) (\<lambda>st.
          go_bind (st_monitor_signal st
            \<lparr>Thresholds = ts, cfg_changed = Some (signal_changed app ref ts), cfg_released = None\<rparr>) (\<lambda>agent.
          deferred (ag_unregister agent)
            (on_world (\<lambda>w. (Inr (), deliver_levels (signal_changed app ref ts) (app_signals app) w))))))))"

subsection \<open>station.go: WSC\<close>

definition wsc_pin_result :: "string \<Rightarrow> string \<Rightarrow> cli_output" where
  "wsc_pin_result ref pin =
     \<lparr>out_text = ''WSC PIN '' @ pin @ '' (enter this at the access point within the WSC walk time)'',
      out_json = JObj [(''Station'', JStr ref), (''Pin'', JStr pin)]\<rparr>"

definition wsc_push_button_result :: "string \<Rightarrow> cli_output" where
  "wsc_push_button_result ref =
     \<lparr>out_text = ''station '' @ go_quote ref @ '': press the WPS button on your access point now'',
      out_json = JObj [(''Station'', JStr ref)]\<rparr>"

definition wsc_result :: "string \<Rightarrow> string \<Rightarrow> cli_output" where
  "wsc_result ref action =
     \<lparr>out_text = (if action = ''cancel'' then ''WSC operation canceled'' else ''connected via WSC''),
      out_json = JObj [(''Station'', JStr ref), (''Action'', JStr action)]\<rparr>"

definition unknown_wsc :: "string \<Rightarrow> gerror" where
  "unknown_wsc sub = Errorf ''unknown wsc subcommand %q (want push-button, pin, or cancel)'' [sub] []"

definition run_wsc_op ::
    "('c, 'w) app \<Rightarrow> string \<Rightarrow> ('c, 'w) wsc_api \<Rightarrow> string \<Rightarrow> string list \<Rightarrow> ('c, 'w, unit) cli" where
  "run_wsc_op app ref wsc sub rest =
     (if sub = ''push-button''
      then
        (if rest \<noteq> [] then go_fail (usage ''spiderw station <station> wsc push-button'')
         else
           go_bind (print_output app (wsc_push_button_result ref)) (\<lambda>_.
           go_bind (ws_push_button wsc) (\<lambda>_. print_output app (wsc_result ref ''push-button''))))
      else if sub = ''pin''
      then
        (if length rest > 1 then go_fail (usage ''spiderw station <station> wsc pin [<pin>]'')
         else
           go_bind (if length rest = 1 then go_return (hd rest) else ws_generate_pin wsc) (\<lambda>pin.
           go_bind (print_output app (wsc_pin_result ref pin)) (\<lambda>_.
           go_bind (ws_start_pin wsc pin) (\<lambda>_. print_output app (wsc_result ref ''pin'')))))
      else if sub = ''cancel''
      then
        (if rest \<noteq> [] then go_fail (usage ''spiderw station <station> wsc cancel'')
         else go_bind (ws_cancel wsc) (\<lambda>_. print_output app (wsc_result ref ''cancel'')))
      else go_fail (unknown_wsc sub))"

definition run_station_wsc :: "('c, 'w) app \<Rightarrow> string \<Rightarrow> string list \<Rightarrow> (gerror, 'w, unit) go" where
  "run_station_wsc app ref args =
     (case args of
        [] \<Rightarrow> go_fail (usage ''spiderw station <station> wsc <push-button | pin [<pin>] | cancel>'')
      | sub # rest \<Rightarrow>
          if sub \<notin> set [''push-button'', ''pin'', ''cancel''] then go_fail (unknown_wsc sub)
          else
            with_station app ref (\<lambda>st.
              go_bind (st_wsc st) (\<lambda>wsc. run_wsc_op app ref wsc sub rest)))"

subsection \<open>station.go: dispatch\<close>

definition stationHelpText :: string where
  "stationHelpText = help_lines
     [''Commands:'',
      ''  list                                  List stations (object paths)'',
      ''  status                                Show a snapshot of every station'',
      ''  <station> status                      Show a snapshot of one station (by path)'',
      ''  <station> scan [--no-wait] [--timeout=<dur>]'',
      ''                                        Scan for networks (waits for completion,'',
      ''                                        then lists results, unless --no-wait;'',
      ''                                        --timeout bounds the wait, default 15s)'',
      ''  <station> networks                    List networks from the last scan'',
      ''  <station> disconnect                  Disconnect from the current network'',
      ''  <station> connect-hidden <ssid> [--passphrase=<s> | --passphrase-stdin]'',
      ''                                        Connect to a hidden network by SSID'',
      ''  <station> hidden-aps                  List hidden access points from the scan'',
      ''  <station> affinities                  Show the station's affinity BSSes (MACs)'',
      ''  <station> affinities set <bss>...     Set affinities by BSS MAC or object path'',
      ''  <station> affinities clear            Remove all affinities'',
      ''  <station> monitor state               Stream the connection state until Ctrl-C'',
      ''  <station> monitor scanning            Stream the scanning flag'',
      ''  <station> monitor network             Stream the connected network's SSID'',
      ''  <station> monitor access-point        Stream the associated BSS (MAC). This is'',
      ''                                        how roaming is watched: the BSS changes'',
      ''                                        while the state stays connected and the'',
      ''                                        network does not change'',
      ''  <station> monitor affinities          Stream the roaming affinity BSSes (MACs)'',
      ''  <station> monitor-signal <dBm>...     Monitor connected-network signal. Args'',
      ''                                        are RSSI thresholds in dBm, highest'',
      ''                                        first (e.g. -60 -70 -80); prints the band'',
      ''                                        index (0 = strongest) and its dBm range on'',
      ''                                        each crossing, until Ctrl-C'',
      ''  <station> wsc push-button             Join an access point via WSC (WPS)'',
      ''                                        push-button; press the AP's WPS button'',
      ''                                        first, then run this within ~2 minutes'',
      ''  <station> wsc pin [<pin>]             Join via WSC PIN; with no <pin> a PIN is'',
      ''                                        generated and printed to enter at the AP'',
      ''  <station> wsc cancel                  Cancel an in-progress WSC operation'',
      '''',
      ''A station is a device in station mode. Connecting to a *visible* network is done'',
      ''via 'network <ssid> connect'.'']"

definition stationDescription :: string where
  "stationDescription = ''Inspect iwd station (station-mode device) connection state''"

definition print_station_usage :: "('c, 'w) app \<Rightarrow> 'w \<Rightarrow> 'w" where
  "print_station_usage app = print_usage app (usage_leaf ''station'' stationDescription stationHelpText)"

definition run_station_with_ref :: "('c, 'w) app \<Rightarrow> string list \<Rightarrow> (gerror, 'w, unit) go" where
  "run_station_with_ref app args =
     (if length args < 2
      then fail_with_usage (print_station_usage app) (Errorf ''missing station command for %q'' [hd args] [])
      else
        (let ref = hd args; op = args ! 1; rest = drop 2 args in
         if op = ''status'' then run_station_single_status app ref rest
         else if op = ''scan'' then run_station_scan app ref rest
         else if op = ''networks'' then run_station_networks app ref rest
         else if op = ''affinities'' then run_station_affinities app ref rest
         else if op = ''disconnect'' then run_station_disconnect app ref rest
         else if op = ''connect-hidden'' then run_station_connect_hidden app ref rest
         else if op = ''hidden-aps'' then run_station_hidden_aps app ref rest
         else if op = ''monitor-signal'' then run_station_monitor_signal app ref rest
         else if op = ''wsc'' then run_station_wsc app ref rest
         else if op = ''monitor'' then monitor_station app ref rest
         else
           fail_with_usage (print_station_usage app)
             (Errorf ''unknown station command %q for station %q'' [op, ref] [])))"

definition run_station :: "('c, 'w) app \<Rightarrow> string list \<Rightarrow> (gerror, 'w, unit) go" where
  "run_station app args =
     (case args of
        [] \<Rightarrow> fail_with_usage (print_station_usage app) (Errorf ''missing station command'' [] [])
      | a # rest \<Rightarrow>
          if a = ''list'' then run_station_list app rest
          else if a = ''status'' then run_station_status app rest
          else run_station_with_ref app args)"

definition station_command :: "('c, 'w) app \<Rightarrow> 'w command" where
  "station_command app =
     Command ''station'' stationDescription (Some (run_station app))
       [(''monitor'', ''usage: '' @ stationMonitorUsage)] [] stationHelpText"

subsection \<open>accesspoint.go\<close>

record access_point_status_entry =
  xse_path :: string
  xse_name :: string
  xse_started :: bool
  xse_scanning :: bool
  xse_ssid :: "string option"
  xse_frequency :: "int option"
  xse_pairwise :: "string list"
  xse_group :: "string option"

definition optional_line :: "string \<Rightarrow> ('a \<Rightarrow> string) \<Rightarrow> 'a option \<Rightarrow> string" where
  "optional_line label f x = (case x of None \<Rightarrow> '''' | Some y \<Rightarrow> newline @ label @ f y)"

definition access_point_status_block :: "access_point_status_entry \<Rightarrow> string" where
  "access_point_status_block e =
     xse_name e @ '' ('' @ xse_path e @ '')'' @ newline @ ''  Started:  '' @ bool_text (xse_started e)
     @ (if xse_started e then newline @ ''  Scanning: '' @ bool_text (xse_scanning e) else '''')
     @ optional_line ''  SSID:     '' (\<lambda>x. x) (xse_ssid e)
     @ optional_line ''  Frequency: '' (\<lambda>f. decimal f @ '' MHz'') (xse_frequency e)
     @ (if xse_pairwise e \<noteq> [] then newline @ ''  Pairwise: '' @ join '', '' (xse_pairwise e) else '''')
     @ optional_line ''  Group:    '' (\<lambda>x. x) (xse_group e)"

definition omit_empty :: "string \<Rightarrow> ('a \<Rightarrow> json) \<Rightarrow> 'a option \<Rightarrow> (string \<times> json) list" where
  "omit_empty key f x = (case x of None \<Rightarrow> [] | Some y \<Rightarrow> [(key, f y)])"

definition access_point_status_json :: "access_point_status_entry \<Rightarrow> json" where
  "access_point_status_json e =
     JObj ([(''Path'', JStr (xse_path e)), (''Name'', JStr (xse_name e)), (''Started'', JBool (xse_started e)),
        (''Scanning'', JBool (xse_scanning e))]
       @ omit_empty ''SSID'' JStr (xse_ssid e)
       @ omit_empty ''Frequency'' (\<lambda>f. JNum (decimal f)) (xse_frequency e)
       @ (if xse_pairwise e = [] then [] else [(''PairwiseCiphers'', JArr (map JStr (xse_pairwise e)))])
       @ omit_empty ''GroupCipher'' JStr (xse_group e))"

definition access_point_status_result :: "access_point_status_entry list \<Rightarrow> cli_output" where
  "access_point_status_result es =
     \<lparr>out_text =
        (if es = [] then ''no access points''
         else join (newline @ newline) (map access_point_status_block es)),
      out_json = JArr (map access_point_status_json es)\<rparr>"

definition access_point_status_entry_from ::
    "('c, 'w) access_point_api \<Rightarrow> ('c, 'w, access_point_status_entry) cli" where
  "access_point_status_entry_from a =
     go_bind (ax_properties a) (\<lambda>props.
     go_return \<lparr>xse_path = ax_path a, xse_name = ax_display a, xse_started = xp_started props,
       xse_scanning = xp_scanning props, xse_ssid = xp_name props, xse_frequency = xp_frequency props,
       xse_pairwise = xp_pairwise_ciphers props, xse_group = xp_group_cipher props\<rparr>)"

definition run_access_point_status :: "('c, 'w) app \<Rightarrow> string list \<Rightarrow> (gerror, 'w, unit) go" where
  "run_access_point_status =
     run_status ''unknown access-point status argument: %s'' api_all_access_points access_point_status_entry_from
       access_point_status_result"

definition run_access_point_single_status :: "('c, 'w) app \<Rightarrow> string \<Rightarrow> string list \<Rightarrow> (gerror, 'w, unit) go" where
  "run_access_point_single_status app ref args =
     no_args ''spiderw access-point <ap> status'' args
       (with_access_point app ref
         (show_value app access_point_status_entry_from (\<lambda>e. access_point_status_result [e])))"

definition access_point_scan_started_result :: "string \<Rightarrow> cli_output" where
  "access_point_scan_started_result ref =
     \<lparr>out_text = ''access point '' @ go_quote ref @ '': scan started; waiting for it to finish...'',
      out_json = JObj [(''AccessPoint'', JStr ref)]\<rparr>"

definition access_point_result :: "string \<Rightarrow> string \<Rightarrow> cli_output" where
  "access_point_result ref action =
     \<lparr>out_text =
        (if action = ''stop'' then ''access point stopped''
         else if action = ''scan'' then ''scan started''
         else ''access point started''),
      out_json = JObj [(''AccessPoint'', JStr ref), (''Action'', JStr action)]\<rparr>"

definition run_access_point_start :: "('c, 'w) app \<Rightarrow> string \<Rightarrow> string list \<Rightarrow> (gerror, 'w, unit) go" where
  "run_access_point_start app ref args =
     (if length args \<noteq> 2 then go_fail (usage ''spiderw access-point <ap> start <ssid> <passphrase>'')
      else
        with_access_point app ref (\<lambda>a.
          go_bind (ax_start a (args ! 0) (args ! 1)) (\<lambda>_. print_output app (access_point_result ref ''start''))))"

definition run_access_point_start_profile :: "('c, 'w) app \<Rightarrow> string \<Rightarrow> string list \<Rightarrow> (gerror, 'w, unit) go" where
  "run_access_point_start_profile app ref args =
     (if length args \<noteq> 1 then go_fail (usage ''spiderw access-point <ap> start-profile <ssid>'')
      else
        with_access_point app ref (\<lambda>a.
          go_bind (ax_start_profile a (args ! 0)) (\<lambda>_.
          print_output app (access_point_result ref ''start-profile''))))"

definition run_access_point_stop :: "('c, 'w) app \<Rightarrow> string \<Rightarrow> string list \<Rightarrow> (gerror, 'w, unit) go" where
  "run_access_point_stop app ref args =
     no_args ''spiderw access-point <ap> stop'' args
       (with_access_point app ref (\<lambda>a.
         go_bind (ax_stop a) (\<lambda>_. print_output app (access_point_result ref ''stop''))))"

definition access_point_networks_result :: "public_ordered_network list \<Rightarrow> cli_output" where
  "access_point_networks_result ns =
     \<lparr>out_text =
        (if ns = [] then ''no networks available''
         else join newline
           (map (\<lambda>n. xq_name n @ tab @ dbm_text (xq_signal_strength n) @ '' dBm'' @ tab
                     @ network_type_string (xq_type n)) ns)),
      out_json =
        JArr (map (\<lambda>n. JObj [(''Name'', JStr (xq_name n)), (''SignalDBm'', JNum (dbm_text (xq_signal_strength n))),
                             (''Type'', JStr (network_type_string (xq_type n)))]) ns)\<rparr>"

definition print_access_point_networks ::
    "('c, 'w) app \<Rightarrow> ('c, 'w) access_point_api \<Rightarrow> ('c, 'w, unit) cli" where
  "print_access_point_networks app a = show_value app ax_ordered_networks access_point_networks_result a"

definition run_access_point_scan :: "('c, 'w) app \<Rightarrow> string \<Rightarrow> string list \<Rightarrow> (gerror, 'w, unit) go" where
  "run_access_point_scan app ref args =
     go_bind (scan_options app ''spiderw access-point <ap> scan [--no-wait] [--timeout=<duration>]'' args)
       (\<lambda>(no_wait, timeout).
     with_access_point app ref (\<lambda>a.
       if no_wait then go_bind (ax_scan a) (\<lambda>_. print_output app (access_point_result ref ''scan''))
       else scan_and_wait app (ax_subscribe_scanning a) (ax_scan a) (access_point_scan_started_result ref) timeout
              (print_access_point_networks app a)))"

definition run_access_point_networks :: "('c, 'w) app \<Rightarrow> string \<Rightarrow> string list \<Rightarrow> (gerror, 'w, unit) go" where
  "run_access_point_networks app ref args =
     no_args ''spiderw access-point <ap> networks'' args
       (with_access_point app ref (print_access_point_networks app))"

definition accessPointHelpText :: string where
  "accessPointHelpText = help_lines
     [''Commands:'',
      ''  list                                  List access points (device in AP mode)'',
      ''  status                                Show a snapshot of every access point'',
      ''  <ap> status                           Show a snapshot of one access point'',
      ''  <ap> start <ssid> <passphrase>        Start a PSK access point'',
      ''  <ap> start-profile <ssid>             Start an access point from a stored profile'',
      ''  <ap> stop                             Stop the access point'',
      ''  <ap> scan [--no-wait] [--timeout=<dur>]  Scan for nearby networks (waits for the'',
      ''                                        scan to finish, then lists results, unless'',
      ''                                        --no-wait; --timeout bounds the wait,'',
      ''                                        default 15s)'',
      ''  <ap> networks                         List networks from the last scan'',
      ''  <ap> monitor started                  Stream the started flag until Ctrl-C'',
      ''  <ap> monitor scanning                 Stream the scanning flag until Ctrl-C'',
      '''',
      ''An access point is a device in AP mode (Device.SetMode '' @ [CHR 0x22] @ ''ap'' @ [CHR 0x22]
        @ ''); it is referenced by'',
      ''its device name (e.g. '' @ [CHR 0x22] @ ''wlan1'' @ [CHR 0x22] @ '') or object path.'']"

definition accessPointDescription :: string where
  "accessPointDescription = ''Inspect and control iwd access points (AP-mode devices)''"

definition print_access_point_usage :: "('c, 'w) app \<Rightarrow> 'w \<Rightarrow> 'w" where
  "print_access_point_usage app =
     print_usage app (usage_leaf ''access-point'' accessPointDescription accessPointHelpText)"

definition run_access_point_with_ref :: "('c, 'w) app \<Rightarrow> string list \<Rightarrow> (gerror, 'w, unit) go" where
  "run_access_point_with_ref app args =
     (if length args < 2
      then fail_with_usage (print_access_point_usage app)
             (Errorf ''missing access-point command for %q'' [hd args] [])
      else
        (let ref = hd args; op = args ! 1; rest = drop 2 args in
         if op = ''status'' then run_access_point_single_status app ref rest
         else if op = ''start'' then run_access_point_start app ref rest
         else if op = ''start-profile'' then run_access_point_start_profile app ref rest
         else if op = ''stop'' then run_access_point_stop app ref rest
         else if op = ''scan'' then run_access_point_scan app ref rest
         else if op = ''networks'' then run_access_point_networks app ref rest
         else if op = ''monitor'' then monitor_access_point app ref rest
         else
           fail_with_usage (print_access_point_usage app)
             (Errorf ''unknown access-point command %q for access point %q'' [op, ref] [])))"

definition run_access_point :: "('c, 'w) app \<Rightarrow> string list \<Rightarrow> (gerror, 'w, unit) go" where
  "run_access_point app args =
     (case args of
        [] \<Rightarrow> fail_with_usage (print_access_point_usage app) (Errorf ''missing access-point command'' [] [])
      | a # rest \<Rightarrow>
          if a = ''list'' then run_access_point_list app rest
          else if a = ''status'' then run_access_point_status app rest
          else run_access_point_with_ref app args)"

definition access_point_command :: "('c, 'w) app \<Rightarrow> 'w command" where
  "access_point_command app =
     Command ''access-point'' accessPointDescription (Some (run_access_point app))
       [(''monitor'', ''usage: '' @ accessPointMonitorUsage)] [] accessPointHelpText"

end
