(* ===== verification/Cli.thy ===== *)
theory Cli
  imports Cli_Station
begin

text \<open>
  The whole command line: \<open>daemon\<close> and \<open>version\<close>, the root of the command tree, and \<open>Run\<close>, which takes the
  global flags out of the arguments and turns the outcome into a process exit code.
\<close>

subsection \<open>daemon.go\<close>

definition daemon_info_output :: "daemon_info \<Rightarrow> cli_output" where
  "daemon_info_output i =
     \<lparr>out_text = daemon_info_string (Some i),
      out_json = JObj [(''Version'', JStr (Version i)), (''StateDirectory'', JStr (StateDirectory i)),
        (''NetworkConfigurationEnabled'', JBool (NetworkConfigurationEnabled i))]\<rparr>"

definition daemon_version_result :: "string \<Rightarrow> cli_output" where
  "daemon_version_result v = \<lparr>out_text = v, out_json = JObj [(''Version'', JStr v)]\<rparr>"

definition daemon_state_dir_result :: "string \<Rightarrow> cli_output" where
  "daemon_state_dir_result d = \<lparr>out_text = d, out_json = JObj [(''StateDirectory'', JStr d)]\<rparr>"

definition daemon_net_conf_result :: "bool \<Rightarrow> cli_output" where
  "daemon_net_conf_result b =
     \<lparr>out_text = bool_text b, out_json = JObj [(''NetworkConfigurationEnabled'', JBool b)]\<rparr>"

text \<open>
  These commands do not look whether the client has a daemon: a call on a nil one panics, which is the
  error \<open>nil_daemon_panic\<close>. The deferred \<open>Close\<close> runs all the same, and the process exits with 2 once the
  panic is written to standard error.
\<close>

definition nil_daemon_panic :: gerror where
  "nil_daemon_panic = Errorf ''runtime error: invalid memory address or nil pointer dereference'' [] []"

definition daemon_query ::
    "string \<Rightarrow> (('c, 'w) daemon_api \<Rightarrow> ('c, 'w, 'v) cli) \<Rightarrow> ('v \<Rightarrow> cli_output) \<Rightarrow> ('c, 'w) app \<Rightarrow> string list
      \<Rightarrow> (gerror, 'w, unit) go" where
  "daemon_query unknown get result app args =
     (case args of
        a # _ \<Rightarrow> go_fail (Errorf unknown [a] [])
      | [] \<Rightarrow>
          with_client app (\<lambda>client s.
            case api_daemon client s of
              None \<Rightarrow> (Inl nil_daemon_panic, s)
            | Some d \<Rightarrow> show_value app get result d s))"

definition daemon_info_command :: "('c, 'w) app \<Rightarrow> 'w command" where
  "daemon_info_command app =
     Command ''daemon info'' ''Show full daemon information''
       (Some (daemon_query ''unknown daemon info argument: %s'' dm_info daemon_info_output app)) [] [] ''''"

definition daemon_version_command :: "('c, 'w) app \<Rightarrow> 'w command" where
  "daemon_version_command app =
     Command ''daemon version'' ''Print daemon version''
       (Some (daemon_query ''unknown daemon version argument: %s'' dm_version daemon_version_result app)) [] [] ''''"

definition daemon_state_dir_command :: "('c, 'w) app \<Rightarrow> 'w command" where
  "daemon_state_dir_command app =
     Command ''daemon state-dir'' ''Print daemon state directory''
       (Some (daemon_query ''unknown daemon state-dir argument: %s'' dm_state_directory daemon_state_dir_result app))
       [] [] ''''"

definition daemon_net_conf_command :: "('c, 'w) app \<Rightarrow> 'w command" where
  "daemon_net_conf_command app =
     Command ''daemon net-conf'' ''Check network configuration support''
       (Some (daemon_query ''unknown daemon net-conf argument: %s'' dm_network_configuration_enabled
                daemon_net_conf_result app)) [] [] ''''"

definition daemon_command :: "('c, 'w) app \<Rightarrow> 'w command" where
  "daemon_command app =
     Command ''daemon'' ''Inspect and query the iwd daemon'' None []
       [(''info'', daemon_info_command app), (''version'', daemon_version_command app),
        (''state-dir'', daemon_state_dir_command app), (''net-conf'', daemon_net_conf_command app)] ''''"

subsection \<open>version.go\<close>

text \<open>The stamped version is empty in a local build; the build info may be absent.\<close>

definition resolve_version :: "string \<Rightarrow> string option \<Rightarrow> string" where
  "resolve_version stamped build_info =
     (if stamped \<noteq> '''' then stamped
      else
        (case build_info of
           Some v \<Rightarrow> if v \<noteq> '''' then v else ''unknown''
         | None \<Rightarrow> ''unknown''))"

definition version_command :: "string \<Rightarrow> string option \<Rightarrow> ('c, 'w) app \<Rightarrow> 'w command" where
  "version_command stamped build_info app =
     Command ''version'' ''Print the spiderw CLI version''
       (Some (\<lambda>args.
          if args \<noteq> [] then go_fail (usage ''spiderw version'')
          else app_stdout app (resolve_version stamped build_info @ newline))) [] [] ''''"

subsection \<open>The root command, and run.go\<close>

definition root_command :: "string \<Rightarrow> string option \<Rightarrow> ('c, 'w) app \<Rightarrow> 'w command" where
  "root_command stamped build_info app =
     Command '''' ''spiderw - a safe Go interface to iwd'' None []
       [(''daemon'', daemon_command app), (''adapter'', adapter_command app), (''device'', device_command app),
        (''station'', station_command app), (''access-point'', access_point_command app),
        (''bss'', bss_command app), (''network'', network_command app),
        (''known-network'', known_network_command app), (''version'', version_command stamped build_info app)] ''''"

definition run_app :: "string \<Rightarrow> string option \<Rightarrow> ('c, 'w) app \<Rightarrow> string list \<Rightarrow> 'w \<Rightarrow> nat \<times> 'w" where
  "run_app stamped build_info app args w =
     (case command_run app (root_command stamped build_info app) args w of
        (Inr _, w') \<Rightarrow> (0, w')
      | (Inl HelpShown, w') \<Rightarrow> (0, w')
      | (Inl (OsExit n), w') \<Rightarrow> (n, w')
      | (Inl (Failed e), w') \<Rightarrow> (if e = nil_daemon_panic then 2 else 1, app_stderr app (ErrorText e) w'))"

definition cli_run :: "string \<Rightarrow> string option \<Rightarrow> ('c, 'w) app \<Rightarrow> string list \<Rightarrow> 'w \<Rightarrow> nat \<times> 'w" where
  "cli_run stamped build_info app args w =
     (case parse_global_flags args app of (app', rest) \<Rightarrow> run_app stamped build_info app' rest w)"

end
