(* ===== verification/Cli_Session.thy ===== *)
theory Cli_Session
  imports Cli
begin

text \<open>
  What the commands rely on in a client: the interface of \<open>api.go\<close> as a locale. Its law is that every
  operation, and every operation of an object it returns, keeps a predicate \<open>ok\<close> of the client's state; then
  the finders, the resolvers and the streams keep it too, and so does whatever a command does before it
  closes its client. \<open>tidy P m\<close> says that \<open>m\<close> keeps the predicate \<open>P\<close> of the world.
\<close>

definition yields :: "('c \<Rightarrow> bool) \<Rightarrow> ('a \<Rightarrow> bool) \<Rightarrow> ('c, 'w, 'a) cli \<Rightarrow> bool" where
  "yields ok Q m \<longleftrightarrow>
     (\<forall>c w. ok c \<longrightarrow> ok (fst (snd (m (c, w)))) \<and> (\<forall>x. fst (m (c, w)) = Inr x \<longrightarrow> Q x))"

abbreviation holds :: "('c \<Rightarrow> bool) \<Rightarrow> ('c, 'w, 'a) cli \<Rightarrow> bool" where
  "holds ok m \<equiv> yields ok (\<lambda>_. True) m"

definition keeps_state :: "('c \<Rightarrow> bool) \<Rightarrow> ('c \<times> 'w \<Rightarrow> 'c \<times> 'w) \<Rightarrow> bool" where
  "keeps_state ok f \<longleftrightarrow> (\<forall>c w. ok c \<longrightarrow> ok (fst (f (c, w))))"

named_theorems keeping \<open>rules that follow a command through its calls\<close>

lemma yields_return [keeping]: "Q x \<Longrightarrow> yields ok Q (go_return x)"
  by (simp add: yields_def)

lemma yields_fail [keeping]: "yields ok Q (go_fail e)"
  by (simp add: yields_def)

lemma yields_bind [keeping]:
  assumes "yields ok Q m" and "\<And>x. Q x \<Longrightarrow> yields ok R (f x)"
  shows "yields ok R (go_bind m f)"
proof -
  have "ok (fst (snd (go_bind m f (c, w)))) \<and> (\<forall>y. fst (go_bind m f (c, w)) = Inr y \<longrightarrow> R y)"
    if "ok c" for c w
  proof -
    obtain r c' w' where m: "m (c, w) = (r, (c', w'))" by (cases "m (c, w)") auto
    with assms(1) that have s: "ok c'" "\<And>x. r = Inr x \<Longrightarrow> Q x"
      unfolding yields_def by (metis fst_conv snd_conv)+
    show ?thesis
    proof (cases r)
      case (Inl e)
      with m s show ?thesis by (simp add: go_bind_Inl)
    next
      case (Inr x)
      with s assms(2) have "yields ok R (f x)" by simp
      with s m Inr show ?thesis by (simp add: go_bind_Inr yields_def)
    qed
  qed
  then show ?thesis by (simp add: yields_def)
qed

lemma yields_keeps: "yields ok Q m \<Longrightarrow> holds ok m"
  by (simp add: yields_def)

lemma yields_on_world [keeping]: "holds ok (on_world m)"
  by (simp add: yields_def on_world_def split: prod.splits)

lemma yields_wrap [keeping]: "yields ok Q m \<Longrightarrow> yields ok Q (go_wrap g m)"
  by (auto simp: yields_def go_wrap_def split_beta split: sum.splits)

lemma yields_lift [keeping]: "(\<And>x. r = Inr x \<Longrightarrow> Q x) \<Longrightarrow> yields ok Q (go_lift r)"
  by (simp add: yields_def go_lift_def)

lemma yields_deferred [keeping]:
  assumes d: "holds ok d" and m: "holds ok m"
  shows "holds ok (deferred d m)"
proof -
  have "ok (fst (snd (deferred d m (c, w))))" if "ok c" for c w
  proof -
    from m that have "ok (fst (snd (m (c, w))))" by (simp add: yields_def)
    with d have "ok (fst (snd (d (snd (m (c, w))))))" by (cases "snd (m (c, w))") (simp add: yields_def)
    then show ?thesis by (simp add: deferred_def split_beta)
  qed
  then show ?thesis by (simp add: yields_def)
qed

lemma yields_deferred_unsub [keeping]:
  assumes u: "keeps_state ok u" and m: "holds ok m"
  shows "holds ok (deferred_unsub u m)"
proof -
  have "ok (fst (snd (deferred_unsub u m (c, w))))" if "ok c" for c w
  proof -
    from m that have "ok (fst (snd (m (c, w))))" by (simp add: yields_def)
    with u have "ok (fst (u (snd (m (c, w)))))" by (cases "snd (m (c, w))") (simp add: keeps_state_def)
    then show ?thesis by (simp add: deferred_unsub_def split_beta)
  qed
  then show ?thesis by (simp add: yields_def)
qed

lemma yields_collect [keeping]: "(\<And>x. x \<in> set xs \<Longrightarrow> holds ok (f x)) \<Longrightarrow> holds ok (go_collect f xs)"
  by (induction xs) (auto intro!: keeping)

lemma yields_print_output [keeping]: "holds ok (print_output app v)"
  by (simp add: print_output_def yields_on_world)

lemma yields_print_line [keeping]: "holds ok (print_line app t j)"
  by (simp add: print_line_def yields_on_world)

lemma yields_show_value [keeping]: "yields ok Q (get obj) \<Longrightarrow> holds ok (show_value app get result obj)"
  unfolding show_value_def by (rule yields_bind, assumption, rule yields_print_output)

lemma keeps_state_fold: "(\<And>v. keeps_state ok (f v)) \<Longrightarrow> keeps_state ok (fold f vs)"
proof (induction vs)
  case Nil
  then show ?case by (simp add: keeps_state_def)
next
  case (Cons v vs)
  then show ?case by (simp add: keeps_state_def) (metis prod.collapse)
qed

lemma keeps_state_snd: "holds ok m \<Longrightarrow> keeps_state ok (\<lambda>s. snd (m s))"
  by (simp add: yields_def keeps_state_def)

subsection \<open>The contracts of the interfaces\<close>

definition subscribe_keeps :: "('c \<Rightarrow> bool) \<Rightarrow> ('c, 'w) subscribe \<Rightarrow> bool" where
  "subscribe_keeps ok sub \<longleftrightarrow> (\<forall>w. yields ok (keeps_state ok) (sub w))"

definition agent_keeps :: "('c \<Rightarrow> bool) \<Rightarrow> ('c, 'w) agent_api \<Rightarrow> bool" where
  "agent_keeps ok a \<longleftrightarrow> holds ok (ag_unregister a)"

definition daemon_keeps :: "('c \<Rightarrow> bool) \<Rightarrow> ('c, 'w) daemon_api \<Rightarrow> bool" where
  "daemon_keeps ok d \<longleftrightarrow>
     holds ok (dm_info d) \<and> holds ok (dm_version d) \<and> holds ok (dm_state_directory d)
     \<and> holds ok (dm_network_configuration_enabled d)
     \<and> holds ok (dm_adapters d) \<and> holds ok (dm_devices d) \<and> holds ok (dm_stations d)
     \<and> holds ok (dm_access_points d) \<and> holds ok (dm_basic_service_sets d) \<and> holds ok (dm_networks d)
     \<and> holds ok (dm_known_networks d)"

definition adapter_keeps :: "('c \<Rightarrow> bool) \<Rightarrow> ('c, 'w) adapter_api \<Rightarrow> bool" where
  "adapter_keeps ok a \<longleftrightarrow>
     holds ok (ad_powered a) \<and> (\<forall>b. holds ok (ad_set_powered a b)) \<and> holds ok (ad_name a)
     \<and> holds ok (ad_model a) \<and> holds ok (ad_vendor a) \<and> holds ok (ad_supported_modes a)
     \<and> (\<forall>m. holds ok (ad_supports_mode a m)) \<and> holds ok (ad_supports_station a)
     \<and> holds ok (ad_supports_ap a) \<and> holds ok (ad_supports_ad_hoc a) \<and> holds ok (ad_properties a)
     \<and> subscribe_keeps ok (ad_subscribe_powered a)"

definition device_keeps :: "('c \<Rightarrow> bool) \<Rightarrow> ('c, 'w) device_api \<Rightarrow> bool" where
  "device_keeps ok d \<longleftrightarrow>
     holds ok (dv_powered d) \<and> (\<forall>b. holds ok (dv_set_powered d b)) \<and> holds ok (dv_name d)
     \<and> holds ok (dv_address d) \<and> holds ok (dv_mode d) \<and> (\<forall>m. holds ok (dv_set_mode d m))
     \<and> holds ok (dv_adapter d) \<and> holds ok (dv_properties d)
     \<and> subscribe_keeps ok (dv_subscribe_powered d) \<and> subscribe_keeps ok (dv_subscribe_mode d)"

definition wsc_keeps :: "('c \<Rightarrow> bool) \<Rightarrow> ('c, 'w) wsc_api \<Rightarrow> bool" where
  "wsc_keeps ok x \<longleftrightarrow>
     holds ok (ws_push_button x) \<and> holds ok (ws_generate_pin x) \<and> (\<forall>p. holds ok (ws_start_pin x p))
     \<and> holds ok (ws_cancel x)"

definition station_keeps :: "('c \<Rightarrow> bool) \<Rightarrow> ('c, 'w) station_api \<Rightarrow> bool" where
  "station_keeps ok st \<longleftrightarrow>
     holds ok (st_properties st) \<and> holds ok (st_affinities st) \<and> holds ok (st_scan st)
     \<and> holds ok (st_ordered_networks st) \<and> (\<forall>ps. holds ok (st_set_affinities st ps))
     \<and> holds ok (st_disconnect st) \<and> (\<forall>n. holds ok (st_connect_hidden st n))
     \<and> holds ok (st_hidden_access_points st)
     \<and> subscribe_keeps ok (st_subscribe_scanning st) \<and> subscribe_keeps ok (st_subscribe_state st)
     \<and> subscribe_keeps ok (st_subscribe_network st) \<and> subscribe_keeps ok (st_subscribe_access_point st)
     \<and> subscribe_keeps ok (st_subscribe_affinities st)
     \<and> (\<forall>cfg. yields ok (agent_keeps ok) (st_monitor_signal st cfg)) \<and> yields ok (wsc_keeps ok) (st_wsc st)"

definition access_point_keeps :: "('c \<Rightarrow> bool) \<Rightarrow> ('c, 'w) access_point_api \<Rightarrow> bool" where
  "access_point_keeps ok a \<longleftrightarrow>
     holds ok (ax_properties a) \<and> (\<forall>s p. holds ok (ax_start a s p)) \<and> (\<forall>s. holds ok (ax_start_profile a s))
     \<and> holds ok (ax_stop a) \<and> holds ok (ax_scan a) \<and> holds ok (ax_ordered_networks a)
     \<and> subscribe_keeps ok (ax_subscribe_scanning a) \<and> subscribe_keeps ok (ax_subscribe_started a)"

definition bss_keeps :: "('c \<Rightarrow> bool) \<Rightarrow> ('c, 'w) bss_api \<Rightarrow> bool" where
  "bss_keeps ok b \<longleftrightarrow> holds ok (bs_address b) \<and> holds ok (bs_properties b)"

definition network_keeps :: "('c \<Rightarrow> bool) \<Rightarrow> ('c, 'w) network_api \<Rightarrow> bool" where
  "network_keeps ok n \<longleftrightarrow>
     holds ok (nw_name n) \<and> holds ok (nw_connected n) \<and> holds ok (nw_device n) \<and> holds ok (nw_type n)
     \<and> holds ok (nw_known_network n) \<and> holds ok (nw_ess n) \<and> holds ok (nw_connect n)
     \<and> holds ok (nw_properties n) \<and> subscribe_keeps ok (nw_subscribe_connected n)
     \<and> subscribe_keeps ok (nw_subscribe_known n) \<and> subscribe_keeps ok (nw_subscribe_ess n)"

definition known_network_keeps :: "('c \<Rightarrow> bool) \<Rightarrow> ('c, 'w) known_network_api \<Rightarrow> bool" where
  "known_network_keeps ok k \<longleftrightarrow>
     holds ok (kn_name k) \<and> holds ok (kn_type k) \<and> holds ok (kn_hidden k) \<and> holds ok (kn_last_connected k)
     \<and> holds ok (kn_auto_connect k) \<and> (\<forall>b. holds ok (kn_set_auto_connect k b)) \<and> holds ok (kn_forget k)
     \<and> holds ok (kn_properties k) \<and> subscribe_keeps ok (kn_subscribe_auto_connect k)
     \<and> subscribe_keeps ok (kn_subscribe_hidden k) \<and> subscribe_keeps ok (kn_subscribe_last_connected k)"

lemmas contract_defs = agent_keeps_def daemon_keeps_def adapter_keeps_def device_keeps_def wsc_keeps_def
  station_keeps_def access_point_keeps_def bss_keeps_def network_keeps_def known_network_keeps_def

named_theorems contract_rules \<open>the operations of an interface keep its predicate\<close>

lemma agent_rules [contract_rules]:
  "agent_keeps ok a \<Longrightarrow> holds ok (ag_unregister a)"
  by (simp_all add: agent_keeps_def)

lemma daemon_rules [contract_rules]:
  "daemon_keeps ok d \<Longrightarrow> holds ok (dm_info d)"
  "daemon_keeps ok d \<Longrightarrow> holds ok (dm_version d)"
  "daemon_keeps ok d \<Longrightarrow> holds ok (dm_state_directory d)"
  "daemon_keeps ok d \<Longrightarrow> holds ok (dm_network_configuration_enabled d)"
  "daemon_keeps ok d \<Longrightarrow> holds ok (dm_adapters d)"
  "daemon_keeps ok d \<Longrightarrow> holds ok (dm_devices d)"
  "daemon_keeps ok d \<Longrightarrow> holds ok (dm_stations d)"
  "daemon_keeps ok d \<Longrightarrow> holds ok (dm_access_points d)"
  "daemon_keeps ok d \<Longrightarrow> holds ok (dm_basic_service_sets d)"
  "daemon_keeps ok d \<Longrightarrow> holds ok (dm_networks d)"
  "daemon_keeps ok d \<Longrightarrow> holds ok (dm_known_networks d)"
  by (simp_all add: daemon_keeps_def)

lemma adapter_rules [contract_rules]:
  "adapter_keeps ok a \<Longrightarrow> holds ok (ad_powered a)"
  "adapter_keeps ok a \<Longrightarrow> holds ok (ad_set_powered a b)"
  "adapter_keeps ok a \<Longrightarrow> holds ok (ad_name a)"
  "adapter_keeps ok a \<Longrightarrow> holds ok (ad_model a)"
  "adapter_keeps ok a \<Longrightarrow> holds ok (ad_vendor a)"
  "adapter_keeps ok a \<Longrightarrow> holds ok (ad_supported_modes a)"
  "adapter_keeps ok a \<Longrightarrow> holds ok (ad_supports_mode a m)"
  "adapter_keeps ok a \<Longrightarrow> holds ok (ad_supports_station a)"
  "adapter_keeps ok a \<Longrightarrow> holds ok (ad_supports_ap a)"
  "adapter_keeps ok a \<Longrightarrow> holds ok (ad_supports_ad_hoc a)"
  "adapter_keeps ok a \<Longrightarrow> holds ok (ad_properties a)"
  "adapter_keeps ok a \<Longrightarrow> subscribe_keeps ok (ad_subscribe_powered a)"
  by (simp_all add: adapter_keeps_def)

lemma device_rules [contract_rules]:
  "device_keeps ok d \<Longrightarrow> holds ok (dv_powered d)"
  "device_keeps ok d \<Longrightarrow> holds ok (dv_set_powered d b)"
  "device_keeps ok d \<Longrightarrow> holds ok (dv_name d)"
  "device_keeps ok d \<Longrightarrow> holds ok (dv_address d)"
  "device_keeps ok d \<Longrightarrow> holds ok (dv_mode d)"
  "device_keeps ok d \<Longrightarrow> holds ok (dv_set_mode d m)"
  "device_keeps ok d \<Longrightarrow> holds ok (dv_adapter d)"
  "device_keeps ok d \<Longrightarrow> holds ok (dv_properties d)"
  "device_keeps ok d \<Longrightarrow> subscribe_keeps ok (dv_subscribe_powered d)"
  "device_keeps ok d \<Longrightarrow> subscribe_keeps ok (dv_subscribe_mode d)"
  by (simp_all add: device_keeps_def)

lemma wsc_rules [contract_rules]:
  "wsc_keeps ok x \<Longrightarrow> holds ok (ws_push_button x)"
  "wsc_keeps ok x \<Longrightarrow> holds ok (ws_generate_pin x)"
  "wsc_keeps ok x \<Longrightarrow> holds ok (ws_start_pin x p)"
  "wsc_keeps ok x \<Longrightarrow> holds ok (ws_cancel x)"
  by (simp_all add: wsc_keeps_def)

lemma station_rules [contract_rules]:
  "station_keeps ok st \<Longrightarrow> holds ok (st_properties st)"
  "station_keeps ok st \<Longrightarrow> holds ok (st_affinities st)"
  "station_keeps ok st \<Longrightarrow> holds ok (st_scan st)"
  "station_keeps ok st \<Longrightarrow> holds ok (st_ordered_networks st)"
  "station_keeps ok st \<Longrightarrow> holds ok (st_set_affinities st ps)"
  "station_keeps ok st \<Longrightarrow> holds ok (st_disconnect st)"
  "station_keeps ok st \<Longrightarrow> holds ok (st_connect_hidden st n)"
  "station_keeps ok st \<Longrightarrow> holds ok (st_hidden_access_points st)"
  "station_keeps ok st \<Longrightarrow> subscribe_keeps ok (st_subscribe_scanning st)"
  "station_keeps ok st \<Longrightarrow> subscribe_keeps ok (st_subscribe_state st)"
  "station_keeps ok st \<Longrightarrow> subscribe_keeps ok (st_subscribe_network st)"
  "station_keeps ok st \<Longrightarrow> subscribe_keeps ok (st_subscribe_access_point st)"
  "station_keeps ok st \<Longrightarrow> subscribe_keeps ok (st_subscribe_affinities st)"
  "station_keeps ok st \<Longrightarrow> yields ok (agent_keeps ok) (st_monitor_signal st cfg)"
  "station_keeps ok st \<Longrightarrow> yields ok (wsc_keeps ok) (st_wsc st)"
  by (simp_all add: station_keeps_def)

lemma access_point_rules [contract_rules]:
  "access_point_keeps ok a \<Longrightarrow> holds ok (ax_properties a)"
  "access_point_keeps ok a \<Longrightarrow> holds ok (ax_start a s p)"
  "access_point_keeps ok a \<Longrightarrow> holds ok (ax_start_profile a s)"
  "access_point_keeps ok a \<Longrightarrow> holds ok (ax_stop a)"
  "access_point_keeps ok a \<Longrightarrow> holds ok (ax_scan a)"
  "access_point_keeps ok a \<Longrightarrow> holds ok (ax_ordered_networks a)"
  "access_point_keeps ok a \<Longrightarrow> subscribe_keeps ok (ax_subscribe_scanning a)"
  "access_point_keeps ok a \<Longrightarrow> subscribe_keeps ok (ax_subscribe_started a)"
  by (simp_all add: access_point_keeps_def)

lemma bss_rules [contract_rules]:
  "bss_keeps ok b \<Longrightarrow> holds ok (bs_address b)"
  "bss_keeps ok b \<Longrightarrow> holds ok (bs_properties b)"
  by (simp_all add: bss_keeps_def)

lemma network_rules [contract_rules]:
  "network_keeps ok n \<Longrightarrow> holds ok (nw_name n)"
  "network_keeps ok n \<Longrightarrow> holds ok (nw_connected n)"
  "network_keeps ok n \<Longrightarrow> holds ok (nw_device n)"
  "network_keeps ok n \<Longrightarrow> holds ok (nw_type n)"
  "network_keeps ok n \<Longrightarrow> holds ok (nw_known_network n)"
  "network_keeps ok n \<Longrightarrow> holds ok (nw_ess n)"
  "network_keeps ok n \<Longrightarrow> holds ok (nw_connect n)"
  "network_keeps ok n \<Longrightarrow> holds ok (nw_properties n)"
  "network_keeps ok n \<Longrightarrow> subscribe_keeps ok (nw_subscribe_connected n)"
  "network_keeps ok n \<Longrightarrow> subscribe_keeps ok (nw_subscribe_known n)"
  "network_keeps ok n \<Longrightarrow> subscribe_keeps ok (nw_subscribe_ess n)"
  by (simp_all add: network_keeps_def)

lemma known_network_rules [contract_rules]:
  "known_network_keeps ok k \<Longrightarrow> holds ok (kn_name k)"
  "known_network_keeps ok k \<Longrightarrow> holds ok (kn_type k)"
  "known_network_keeps ok k \<Longrightarrow> holds ok (kn_hidden k)"
  "known_network_keeps ok k \<Longrightarrow> holds ok (kn_last_connected k)"
  "known_network_keeps ok k \<Longrightarrow> holds ok (kn_auto_connect k)"
  "known_network_keeps ok k \<Longrightarrow> holds ok (kn_set_auto_connect k b)"
  "known_network_keeps ok k \<Longrightarrow> holds ok (kn_forget k)"
  "known_network_keeps ok k \<Longrightarrow> holds ok (kn_properties k)"
  "known_network_keeps ok k \<Longrightarrow> subscribe_keeps ok (kn_subscribe_auto_connect k)"
  "known_network_keeps ok k \<Longrightarrow> subscribe_keeps ok (kn_subscribe_hidden k)"
  "known_network_keeps ok k \<Longrightarrow> subscribe_keeps ok (kn_subscribe_last_connected k)"
  by (simp_all add: known_network_keeps_def)

locale cli_session =
  fixes ok :: "'c \<Rightarrow> bool" and client :: "('c, 'w) client_api"
  assumes daemon: "api_daemon client s = Some d \<Longrightarrow> daemon_keeps ok d"
    and adapter: "yields ok (adapter_keeps ok) (api_adapter client p)"
    and device: "yields ok (device_keeps ok) (api_device client p)"
    and station: "yields ok (station_keeps ok) (api_station client p)"
    and access_point: "yields ok (access_point_keeps ok) (api_access_point client p)"
    and bss: "yields ok (bss_keeps ok) (api_basic_service_set client p)"
    and network: "yields ok (network_keeps ok) (api_network client p)"
    and known_network: "yields ok (known_network_keeps ok) (api_known_network client p)"
    and adapters: "yields ok (list_all (adapter_keeps ok)) (api_all_adapters client)"
    and devices: "yields ok (list_all (device_keeps ok)) (api_all_devices client)"
    and stations: "yields ok (list_all (station_keeps ok)) (api_all_stations client)"
    and access_points: "yields ok (list_all (access_point_keeps ok)) (api_all_access_points client)"
    and bsses: "yields ok (list_all (bss_keeps ok)) (api_all_basic_service_sets client)"
    and networks: "yields ok (list_all (network_keeps ok)) (api_all_networks client)"
    and known_networks: "yields ok (list_all (known_network_keeps ok)) (api_all_known_networks client)"
    and register_agent: "yields ok (agent_keeps ok) (api_register_agent client cb)"
begin

lemma refs: "(\<And>d. daemon_keeps ok d \<Longrightarrow> holds ok (list d)) \<Longrightarrow> holds ok (listed_refs list (Some client))"
  by (auto simp: yields_def listed_refs_def split: option.splits dest!: daemon)

lemma by_ref:
  assumes "holds ok rs" and "\<And>p. yields ok Q (get p)"
  shows "yields ok Q (object_by_ref texts rs get ref)"
  using assms by (auto simp: object_by_ref_def Let_def split: list.splits intro!: keeping)

lemma finders:
  "yields ok (adapter_keeps ok) (adapter_by_ref (Some client) ref)"
  "yields ok (device_keeps ok) (device_by_ref (Some client) ref)"
  "yields ok (bss_keeps ok) (bss_by_ref (Some client) ref)"
  "yields ok (network_keeps ok) (network_by_ref (Some client) ref)"
  "yields ok (known_network_keeps ok) (known_network_by_ref (Some client) ref)"
  "yields ok (station_keeps ok) (station_by_ref (Some client) ref)"
  "yields ok (access_point_keeps ok) (access_point_by_ref (Some client) ref)"
  by (auto simp: adapter_by_ref_def device_by_ref_def bss_by_ref_def network_by_ref_def known_network_by_ref_def
      station_by_ref_def access_point_by_ref_def adapter_refs_def device_refs_def bss_refs_def network_refs_def
      known_network_refs_def station_refs_def access_point_refs_def daemon_keeps_def
      intro!: by_ref refs adapter device bss network known_network station access_point)

text \<open>The resolvers, whose failures are dropped.\<close>

lemma friendly:
  assumes get: "\<And>p. yields ok Q (get client p)" and name_of: "\<And>x. Q x \<Longrightarrow> holds ok (name_of x)" and "ok c"
  shows "ok (fst (snd (friendly (Some client) get name_of path (c, w))))"
proof (cases path)
  case None
  with assms(3) show ?thesis by (simp add: friendly_def)
next
  case (Some p)
  obtain r c1 w1 where m: "get client p (c, w) = (r, (c1, w1))" by (cases "get client p (c, w)") auto
  with get [of p] assms(3) have 1: "ok c1" "\<And>x. r = Inr x \<Longrightarrow> Q x"
    unfolding yields_def by (metis fst_conv snd_conv)+
  show ?thesis
  proof (cases r)
    case (Inl e)
    with Some m 1 assms(3) show ?thesis by (simp add: friendly_def)
  next
    case (Inr x)
    with 1 name_of have "holds ok (name_of x)" by simp
    with 1 have "ok (fst (snd (name_of x (c1, w1))))" by (simp add: yields_def)
    with Some m Inr assms(3) show ?thesis by (auto simp: friendly_def split_beta split: sum.splits)
  qed
qed

lemma resolvers:
  "ok c \<Longrightarrow> ok (fst (snd (resolver_network_ref (Some client) path (c, w))))"
  "ok c \<Longrightarrow> ok (fst (snd (resolver_bss_ref (Some client) path (c, w))))"
  "ok c \<Longrightarrow> ok (fst (snd (resolver_known_network_ref (Some client) path (c, w))))"
  unfolding resolver_network_ref_def resolver_bss_ref_def resolver_known_network_ref_def
  by (rule friendly, rule network bss known_network, simp add: contract_defs, assumption)+

lemma resolver_each: "ok c \<Longrightarrow> ok (fst (snd (resolver_each (Some client) paths (c, w))))"
proof (induction paths arbitrary: c w)
  case Nil
  then show ?case by simp
next
  case (Cons p ps)
  obtain r c1 w1 where 1: "resolver_bss_ref (Some client) (Some p) (c, w) = (r, (c1, w1))"
    by (cases "resolver_bss_ref (Some client) (Some p) (c, w)") auto
  with resolvers(2) [OF Cons.prems, of "Some p" w] have "ok c1" by simp
  from Cons.IH [OF this] 1 show ?case by (simp add: split_beta)
qed

lemma resolver_list: "ok c \<Longrightarrow> ok (fst (snd (resolver_bss_refs (Some client) paths (c, w))))"
  using resolver_each [of c paths w] by (simp add: resolver_bss_refs_def split_beta)

text \<open>The callbacks of the monitors.\<close>

lemma on_path_keeps:
  assumes "\<And>c w p. ok c \<Longrightarrow> ok (fst (snd (resolve p (c, w))))" and "\<And>r. holds ok (print r)"
  shows "keeps_state ok (on_path resolve print v)"
proof -
  have "ok (fst (on_path resolve print v (c, w)))" if c: "ok c" for c w
  proof (cases v)
    case (GotPath p)
    from assms(1) [OF c, of p w] have "ok (fst (snd (resolve p (c, w))))" .
    with assms(2) GotPath show ?thesis
      by (cases "snd (resolve p (c, w))") (simp add: on_path_def split_beta yields_def)
  qed (use c in \<open>simp_all add: on_path_def\<close>)
  then show ?thesis by (simp add: keeps_state_def)
qed

lemma on_paths_keeps:
  assumes "\<And>c w p. ok c \<Longrightarrow> ok (fst (snd (resolve p (c, w))))" and "\<And>r. holds ok (print r)"
  shows "keeps_state ok (on_paths resolve print v)"
proof -
  have "ok (fst (on_paths resolve print v (c, w)))" if c: "ok c" for c w
  proof (cases v)
    case (GotPaths p)
    from assms(1) [OF c, of p w] have "ok (fst (snd (resolve p (c, w))))" .
    with assms(2) GotPaths show ?thesis
      by (cases "snd (resolve p (c, w))") (simp add: on_paths_def split_beta yields_def)
  qed (use c in \<open>simp_all add: on_paths_def\<close>)
  then show ?thesis by (simp add: keeps_state_def)
qed

lemma on_bool_keeps: "(\<And>b. holds ok (print b)) \<Longrightarrow> keeps_state ok (on_bool print v)"
  by (cases v) (auto simp: on_bool_def keeps_state_def yields_def)

lemma on_text_keeps: "(\<And>b. holds ok (print b)) \<Longrightarrow> keeps_state ok (on_text print v)"
  by (cases v) (auto simp: on_text_def keeps_state_def yields_def)

end

lemmas line_defs = print_adapter_powered_line_def print_device_powered_line_def print_device_mode_line_def
  print_station_state_line_def print_station_scanning_line_def print_station_connected_network_line_def
  print_station_connected_ap_line_def print_station_affinities_line_def print_access_point_started_line_def
  print_access_point_scanning_line_def print_network_connected_line_def print_network_known_network_line_def
  print_network_bsses_line_def print_known_network_auto_connect_line_def print_known_network_hidden_line_def
  print_known_network_last_connected_line_def

context cli_session
begin

lemma run_watch_keeps: "keeps_state ok (run_watch app client w v)"
proof (cases w)
  case ScanDone
  then show ?thesis by (simp add: keeps_state_def)
qed (auto simp: line_defs intro!: on_bool_keeps on_text_keeps on_path_keeps on_paths_keeps yields_print_line
      resolvers resolver_list)

lemma resolved_seed:
  assumes "\<And>r. holds ok (print r)"
  shows "holds ok (\<lambda>s. case resolver_known_network_ref (Some client) kn s of (r, s') \<Rightarrow> print r s')"
proof -
  have "ok (fst (snd (case resolver_known_network_ref (Some client) kn (c, w) of (r, s') \<Rightarrow> print r s')))"
    if c: "ok c" for c w
    using resolvers(3) [OF c, of kn w] assms
    by (cases "snd (resolver_known_network_ref (Some client) kn (c, w))") (simp add: split_beta yields_def)
  then show ?thesis by (simp add: yields_def)
qed

lemma watch_until_interrupt_keeps:
  assumes "keeps_state ok (snd sub)"
  shows "holds ok (watch_until_interrupt app client sub)"
proof -
  have "ok (fst (snd sub (fold (run_watch app client (fst sub)) (app_signals app) (c, w))))" if "ok c" for c w
  proof -
    from keeps_state_fold [of ok "run_watch app client (fst sub)", OF run_watch_keeps] that
    have "ok (fst (fold (run_watch app client (fst sub)) (app_signals app) (c, w)))" by (simp add: keeps_state_def)
    with assms show ?thesis
      by (cases "fold (run_watch app client (fst sub)) (app_signals app) (c, w)") (simp add: keeps_state_def)
  qed
  then show ?thesis by (simp add: yields_def watch_until_interrupt_def)
qed

end

end
