(* ===== verification/Cli_Tidy.thy ===== *)
theory Cli_Tidy
  imports Cli_Session
begin

text \<open>
  Every command leaves the world as tidy as it found it: with a client factory whose clients satisfy the
  contract and whose \<open>Close\<close> establishes a predicate \<open>P\<close> of the world, a run of the command line keeps \<open>P\<close>,
  whatever its arguments, whatever the bus answers and whatever is delivered to its subscriptions.
\<close>

definition tidy :: "('w \<Rightarrow> bool) \<Rightarrow> ('e, 'w, 'a) go \<Rightarrow> bool" where
  "tidy P m \<longleftrightarrow> (\<forall>w. P w \<longrightarrow> P (snd (m w)))"

definition factory_tidy :: "('w \<Rightarrow> bool) \<Rightarrow> (bool \<Rightarrow> (gerror, 'w, 'c \<times> ('c, 'w) client_api) go) \<Rightarrow> bool" where
  "factory_tidy P new \<longleftrightarrow>
     (\<forall>b w. P w \<longrightarrow>
        (case new b w of
           (Inl _, w') \<Rightarrow> P w'
         | (Inr (c, client), _) \<Rightarrow>
             (\<exists>ok. ok c \<and> cli_session ok client
                \<and> (\<forall>c' w'. ok c' \<longrightarrow> P (snd (snd (api_close client (c', w'))))))))"

definition app_tidy :: "('w \<Rightarrow> bool) \<Rightarrow> ('c, 'w) app \<Rightarrow> bool" where
  "app_tidy P app \<longleftrightarrow>
     (\<forall>t. tidy P (app_stdout app t)) \<and> (\<forall>ch w. P w \<longrightarrow> P (app_stderr app ch w))
     \<and> factory_tidy P (app_new_client app)"

named_theorems tidying \<open>rules that follow a run\<close>

lemma tidy_return [tidying]: "tidy P (go_return x)"
  by (simp add: tidy_def)

lemma tidy_fail [tidying]: "tidy P (go_fail e)"
  by (simp add: tidy_def)

lemma tidy_lift [tidying]: "tidy P (go_lift r)"
  by (simp add: tidy_def go_lift_def)

lemma tidy_bind [tidying]: "tidy P m \<Longrightarrow> (\<And>x. tidy P (f x)) \<Longrightarrow> tidy P (go_bind m f)"
  by (fastforce simp: tidy_def go_bind_def split_beta split: sum.splits)

lemma tidy_wrap [tidying]: "tidy P m \<Longrightarrow> tidy P (go_wrap g m)"
  by (auto simp: tidy_def go_wrap_def split_beta split: sum.splits)

lemma tidy_no_args [tidying]: "tidy P m \<Longrightarrow> tidy P (no_args t args m)"
  by (simp add: no_args_def tidy_fail)

lemma tidy_with_client [tidying]:
  assumes app: "app_tidy P app" and fn: "\<And>ok client. cli_session ok client \<Longrightarrow> holds ok (fn client)"
  shows "tidy P (with_client app fn)"
proof -
  have "P (snd (with_client app fn w))" if "P w" for w
  proof -
    obtain r w1 where new: "app_new_client app (app_session app) w = (r, w1)"
      by (cases "app_new_client app (app_session app) w")
    have "factory_tidy P (app_new_client app)" using app by (simp add: app_tidy_def)
    note at = this [unfolded factory_tidy_def, rule_format, OF that, of "app_session app"]
    show ?thesis
    proof (cases r)
      case (Inl e)
      with at new have "P w1" by simp
      with Inl new show ?thesis by (simp add: with_client_def)
    next
      case (Inr x)
      obtain c client where x: "x = (c, client)" by (cases x)
      with at new Inr obtain ok where ok: "ok c" "cli_session ok client"
        "\<forall>c' w'. ok c' \<longrightarrow> P (snd (snd (api_close client (c', w'))))"
        by auto
      obtain q c1 w2 where run: "fn client (c, w1) = (q, (c1, w2))" by (cases "fn client (c, w1)") auto
      with fn [OF ok(2)] ok(1) have "ok c1" unfolding yields_def by (metis fst_conv snd_conv)
      with ok(3) have "P (snd (snd (api_close client (c1, w2))))" by simp
      with new Inr x run show ?thesis by (simp add: with_client_def split_beta)
    qed
  qed
  then show ?thesis by (simp add: tidy_def)
qed

lemma tidy_run_list [tidying]:
  assumes "app_tidy P app"
    and "\<And>ok client. cli_session ok client \<Longrightarrow> holds ok (refs (Some client))"
  shows "tidy P (run_list unknown result refs app args)"
  unfolding run_list_def using assms
  by (auto split: list.splits intro!: tidying keeping)

lemma tidy_run_status [tidying]:
  assumes "app_tidy P app"
    and "\<And>ok client. cli_session ok client \<Longrightarrow> yields ok (list_all (K ok)) (all client)"
    and "\<And>ok x. K ok x \<Longrightarrow> holds ok (entry_of x)"
  shows "tidy P (run_status unknown all entry_of result app args)"
  unfolding run_status_def
  by (auto split: list.splits simp: list_all_iff intro!: tidying keeping assms yields_bind [OF assms(2)])

lemma tidy_with_object:
  assumes "app_tidy P app"
    and "\<And>ok client. cli_session ok client \<Longrightarrow> yields ok (K ok) (by_ref (Some client) ref)"
    and "\<And>ok x. K ok x \<Longrightarrow> holds ok (fn x)"
  shows "tidy P (with_object by_ref app ref fn)"
  unfolding with_object_def
  by (intro tidy_with_client yields_bind [OF assms(2)] assms(1) assms(3))

lemmas with_defs = with_adapter_def with_device_def with_bss_def with_network_def with_known_network_def
  with_station_def with_access_point_def

lemma tidy_with_adapter [tidying]:
  "app_tidy P app \<Longrightarrow> (\<And>ok x. adapter_keeps ok x \<Longrightarrow> holds ok (fn x)) \<Longrightarrow> tidy P (with_adapter app ref fn)"
  unfolding with_defs by (rule tidy_with_object [where K = adapter_keeps]) (auto intro: cli_session.finders)

lemma tidy_with_device [tidying]:
  "app_tidy P app \<Longrightarrow> (\<And>ok x. device_keeps ok x \<Longrightarrow> holds ok (fn x)) \<Longrightarrow> tidy P (with_device app ref fn)"
  unfolding with_defs by (rule tidy_with_object [where K = device_keeps]) (auto intro: cli_session.finders)

lemma tidy_with_bss [tidying]:
  "app_tidy P app \<Longrightarrow> (\<And>ok x. bss_keeps ok x \<Longrightarrow> holds ok (fn x)) \<Longrightarrow> tidy P (with_bss app ref fn)"
  unfolding with_defs by (rule tidy_with_object [where K = bss_keeps]) (auto intro: cli_session.finders)

lemma tidy_with_network [tidying]:
  "app_tidy P app \<Longrightarrow> (\<And>ok x. network_keeps ok x \<Longrightarrow> holds ok (fn x)) \<Longrightarrow> tidy P (with_network app ref fn)"
  unfolding with_defs by (rule tidy_with_object [where K = network_keeps]) (auto intro: cli_session.finders)

lemma tidy_with_known_network [tidying]:
  "app_tidy P app \<Longrightarrow> (\<And>ok x. known_network_keeps ok x \<Longrightarrow> holds ok (fn x)) \<Longrightarrow> tidy P (with_known_network app ref fn)"
  unfolding with_defs by (rule tidy_with_object [where K = known_network_keeps]) (auto intro: cli_session.finders)

lemma tidy_with_station [tidying]:
  "app_tidy P app \<Longrightarrow> (\<And>ok x. station_keeps ok x \<Longrightarrow> holds ok (fn x)) \<Longrightarrow> tidy P (with_station app ref fn)"
  unfolding with_defs by (rule tidy_with_object [where K = station_keeps]) (auto intro: cli_session.finders)

lemma tidy_with_access_point [tidying]:
  "app_tidy P app \<Longrightarrow> (\<And>ok x. access_point_keeps ok x \<Longrightarrow> holds ok (fn x)) \<Longrightarrow> tidy P (with_access_point app ref fn)"
  unfolding with_defs by (rule tidy_with_object [where K = access_point_keeps]) (auto intro: cli_session.finders)

subsection \<open>Monitors\<close>

abbreviation stream_keeps :: "('c \<Rightarrow> bool) \<Rightarrow> ('c, 'w) stream \<Rightarrow> bool" where
  "stream_keeps ok m \<equiv> yields ok (\<lambda>sub. keeps_state ok (snd sub)) m"

lemma stream_subscribe [keeping]: "subscribe_keeps ok sub \<Longrightarrow> stream_keeps ok (subscribe_watch sub w)"
  unfolding subscribe_watch_def subscribe_keeps_def
  by (rule yields_bind [where Q = "keeps_state ok"]) (auto intro: yields_return)

lemma stream_seed [keeping]:
  "holds ok read \<Longrightarrow> (\<And>v. holds ok (print v)) \<Longrightarrow> subscribe_keeps ok sub \<Longrightarrow>
     stream_keeps ok (seed_then_subscribe read print sub w)"
  unfolding seed_then_subscribe_def by (intro yields_bind [where Q = "\<lambda>_. True"] stream_subscribe)

lemma tidy_monitor:
  fixes app :: "('b, 'a) app"
  assumes "app_tidy P app"
    and "\<And>ok client. cli_session ok client \<Longrightarrow> yields ok (K ok) (by_ref (Some client) ref)"
    and "\<And>ok client x. cli_session ok client \<Longrightarrow> K ok x \<Longrightarrow> stream_keeps ok (stream client x)"
  shows "tidy P (monitor_object by_ref stream app ref)"
  unfolding monitor_object_def
proof (rule tidy_with_client [OF assms(1)])
  fix ok and client :: "('b, 'a) client_api"
  assume s: "cli_session ok client"
  show "holds ok (go_bind (by_ref (Some client) ref) (\<lambda>obj. go_bind (stream client obj) (watch_until_interrupt app client)))"
    by (intro yields_bind [OF assms(2) [OF s]] yields_bind [OF assms(3) [OF s]]
        cli_session.watch_until_interrupt_keeps [OF s])
qed

subsection \<open>The commands\<close>

lemmas stream_defs = stream_station_property_def stream_network_property_def stream_known_network_property_def
  stream_access_point_property_def

lemma tidy_monitors [tidying]:
  assumes "app_tidy P app"
  shows "tidy P (monitor_adapter_powered app ref args)" and "tidy P (monitor_device app ref args)"
    and "tidy P (monitor_station app ref args)" and "tidy P (monitor_network app ref args)"
    and "tidy P (monitor_known_network app ref args)" and "tidy P (monitor_access_point app ref args)"
proof -
  note lines = line_defs yields_print_line
  show "tidy P (monitor_adapter_powered app ref args)"
    unfolding monitor_adapter_powered_def
    by (auto simp: lines adapter_keeps_def intro!: tidying keeping
        tidy_monitor [OF assms, where K = adapter_keeps] cli_session.finders)
  show "tidy P (monitor_device app ref args)"
    unfolding monitor_device_def
    by (auto simp: lines device_keeps_def intro!: tidying keeping
        tidy_monitor [OF assms, where K = device_keeps] cli_session.finders)
  show "tidy P (monitor_station app ref args)"
    unfolding monitor_station_def stream_station_property_def
    by (auto simp: lines station_keeps_def intro!: tidying keeping
        tidy_monitor [OF assms, where K = station_keeps] cli_session.finders)
  show "tidy P (monitor_known_network app ref args)"
    unfolding monitor_known_network_def stream_known_network_property_def
    by (auto simp: lines known_network_keeps_def intro!: tidying keeping
        tidy_monitor [OF assms, where K = known_network_keeps] cli_session.finders)
  show "tidy P (monitor_access_point app ref args)"
    unfolding monitor_access_point_def stream_access_point_property_def
    by (auto simp: lines access_point_keeps_def intro!: tidying keeping
        tidy_monitor [OF assms, where K = access_point_keeps] cli_session.finders)
  show "tidy P (monitor_network app ref args)"
    unfolding monitor_network_def stream_network_property_def
    by (auto simp: lines network_keeps_def intro!: tidying keeping
        tidy_monitor [OF assms, where K = network_keeps] cli_session.finders cli_session.resolved_seed)
qed

lemma tidy_lists [tidying]:
  assumes "app_tidy P app"
  shows "tidy P (run_adapter_list app args)" and "tidy P (run_device_list app args)"
    and "tidy P (run_bss_list app args)" and "tidy P (run_network_list app args)"
    and "tidy P (run_known_network_list app args)" and "tidy P (run_station_list app args)"
    and "tidy P (run_access_point_list app args)"
  unfolding run_adapter_list_def run_device_list_def run_bss_list_def run_network_list_def
    run_known_network_list_def run_station_list_def run_access_point_list_def
    adapter_refs_def device_refs_def bss_refs_def network_refs_def known_network_refs_def station_refs_def
    access_point_refs_def
  by (rule tidy_run_list [OF assms], erule cli_session.refs, simp add: daemon_keeps_def)+

lemmas entry_defs = adapter_status_entry_from_adapter_def device_status_entry_from_device_def
  bss_status_entry_from_bss_def network_status_entry_from_network_def known_network_status_entry_from_def
  station_status_entry_from_station_def access_point_status_entry_from_def

lemma entries_keep [keeping]:
  "adapter_keeps ok a \<Longrightarrow> holds ok (adapter_status_entry_from_adapter a)"
  "device_keeps ok d \<Longrightarrow> holds ok (device_status_entry_from_device d)"
  "bss_keeps ok b \<Longrightarrow> holds ok (bss_status_entry_from_bss b)"
  "network_keeps ok n \<Longrightarrow> holds ok (network_status_entry_from_network n)"
  "known_network_keeps ok k \<Longrightarrow> holds ok (known_network_status_entry_from k)"
  "station_keeps ok st \<Longrightarrow> holds ok (station_status_entry_from_station st)"
  "access_point_keeps ok x \<Longrightarrow> holds ok (access_point_status_entry_from x)"
  unfolding entry_defs contract_defs by (auto intro!: keeping)

lemma tidy_statuses [tidying]:
  assumes "app_tidy P app"
  shows "tidy P (run_adapter_status app args)" and "tidy P (run_device_status app args)"
    and "tidy P (run_bss_status app args)" and "tidy P (run_network_status app args)"
    and "tidy P (run_known_network_status app args)" and "tidy P (run_station_status app args)"
    and "tidy P (run_access_point_status app args)"
  unfolding run_adapter_status_def run_device_status_def run_bss_status_def run_network_status_def
    run_known_network_status_def run_station_status_def run_access_point_status_def
  by (rule tidy_run_status [OF assms], erule cli_session.adapters cli_session.devices cli_session.bsses
      cli_session.networks cli_session.known_networks cli_session.stations cli_session.access_points,
      erule entries_keep)+

lemma tidy_single_statuses [tidying]:
  assumes "app_tidy P app"
  shows "tidy P (run_adapter_single_status app ref args)" and "tidy P (run_device_single_status app ref args)"
    and "tidy P (run_bss_single_status app ref args)" and "tidy P (run_network_single_status app ref args)"
    and "tidy P (run_known_network_single_status app ref args)" and "tidy P (run_station_single_status app ref args)"
    and "tidy P (run_access_point_single_status app ref args)"
  unfolding run_adapter_single_status_def run_device_single_status_def run_bss_single_status_def
    run_network_single_status_def run_known_network_single_status_def run_station_single_status_def
    run_access_point_single_status_def
  using assms by (auto intro!: tidying keeping)

lemma app_stdout_tidy [tidying]: "app_tidy P app \<Longrightarrow> tidy P (app_stdout app t)"
  by (simp add: app_tidy_def)

lemma app_stderr_tidy: "app_tidy P app \<Longrightarrow> P w \<Longrightarrow> P (app_stderr app ch w)"
  by (simp add: app_tidy_def)

lemma tidy_operation_flags [tidying]: "app_tidy P app \<Longrightarrow> tidy P (operation_flags app name formal args)"
  by (auto simp: tidy_def operation_flags_def app_stderr_tidy split: sum.splits flag_error.splits)

lemma tidy_options [tidying]:
  assumes "app_tidy P app"
  shows "tidy P (connect_options app name t args)" and "tidy P (scan_options app t args)"
  unfolding connect_options_def scan_options_def using assms
  by (auto simp: Let_def split: prod.splits intro!: tidying)

lemma print_usage_tidy: "app_tidy P app \<Longrightarrow> P w \<Longrightarrow> P (print_usage app c w)"
proof -
  assume app: "app_tidy P app" and "P w"
  then have "P (fold (write_out app) chunks w)" for chunks
  proof (induction chunks arbitrary: w)
    case (Cons t ts)
    then have "P (write_out app t w)" by (simp add: write_out_def app_tidy_def tidy_def)
    with Cons show ?case by simp
  qed simp
  then show ?thesis by (simp add: print_usage_def)
qed

lemma usages_tidy [tidying]:
  assumes "app_tidy P app"
  shows "tidy P (fail_with_usage (print_adapter_usage app) e)"
    and "tidy P (fail_with_usage (print_device_usage app) e)"
    and "tidy P (fail_with_usage (print_bss_usage app) e)"
    and "tidy P (fail_with_usage (print_network_usage app) e)"
    and "tidy P (fail_with_usage (print_known_network_usage app) e)"
    and "tidy P (fail_with_usage (print_station_usage app) e)"
    and "tidy P (fail_with_usage (print_access_point_usage app) e)"
  using assms by (auto simp: tidy_def fail_with_usage_def print_adapter_usage_def print_device_usage_def print_bss_usage_def print_network_usage_def print_known_network_usage_def print_station_usage_def print_access_point_usage_def
      intro: print_usage_tidy)

lemma tidy_if [tidying]: "tidy P m \<Longrightarrow> tidy P n \<Longrightarrow> tidy P (if b then m else n)"
  by simp

lemma tidy_case_list [tidying]:
  "tidy P m \<Longrightarrow> (\<And>x xs. tidy P (f x xs)) \<Longrightarrow> tidy P (case l of [] \<Rightarrow> m | x # xs \<Rightarrow> f x xs)"
  by (simp split: list.splits)

lemma yields_if [keeping]: "yields ok Q m \<Longrightarrow> yields ok Q n \<Longrightarrow> yields ok Q (if b then m else n)"
  by simp

lemma yields_case_list [keeping]:
  "yields ok Q m \<Longrightarrow> (\<And>x xs. yields ok Q (f x xs)) \<Longrightarrow> yields ok Q (case l of [] \<Rightarrow> m | x # xs \<Rightarrow> f x xs)"
  by (simp split: list.splits)

lemma yields_case_option [keeping]:
  "yields ok Q m \<Longrightarrow> (\<And>x. yields ok Q (f x)) \<Longrightarrow> yields ok Q (case x of None \<Rightarrow> m | Some y \<Rightarrow> f y)"
  by (simp split: option.splits)

lemma yields_case_sum [keeping]:
  "(\<And>x. yields ok Q (f x)) \<Longrightarrow> (\<And>x. yields ok Q (g x)) \<Longrightarrow> yields ok Q (case x of Inl y \<Rightarrow> f y | Inr y \<Rightarrow> g y)"
  by (simp split: sum.splits)

text \<open>The rules without a result predicate, for the bodies of the commands.\<close>

lemma holds_bind: "holds ok m \<Longrightarrow> (\<And>x. holds ok (f x)) \<Longrightarrow> holds ok (go_bind m f)"
  by (rule yields_bind [where Q = "\<lambda>_. True"])

lemma holds_show_value: "holds ok (get obj) \<Longrightarrow> holds ok (show_value app get result obj)"
  by (rule yields_show_value [where Q = "\<lambda>_. True"])

lemma holds_return: "holds ok (go_return x)" and holds_fail: "holds ok (go_fail e)" and holds_lift: "holds ok (go_lift r)"
  by (simp_all add: yields_def go_lift_def)

lemmas holding = holds_bind holds_show_value holds_return holds_fail holds_lift yields_print_output yields_print_line
  yields_on_world yields_if yields_case_list yields_case_option yields_case_sum

text \<open>\<open>adapter\<close>, \<open>device\<close> and \<open>bss\<close>\<close>

lemma tidy_adapter_ops [tidying]:
  assumes "app_tidy P app"
  shows "tidy P (run_adapter_powered app ref args)" and "tidy P (run_adapter_supported_modes app ref args)"
    and "tidy P (run_adapter_supports_mode app ref args)"
  unfolding run_adapter_powered_def run_adapter_supported_modes_def run_adapter_supports_mode_def
  by (intro tidying holding contract_rules assms | assumption)+

lemma tidy_adapter_gets [tidying]:
  "app_tidy P app \<Longrightarrow> (\<And>ok a. adapter_keeps ok a \<Longrightarrow> holds ok (get a)) \<Longrightarrow> tidy P (get_adapter_bool app ref t args get)"
  "app_tidy P app \<Longrightarrow> (\<And>ok a. adapter_keeps ok a \<Longrightarrow> holds ok (gets a)) \<Longrightarrow> tidy P (run_adapter_string app ref args t gets)"
  "app_tidy P app \<Longrightarrow> (\<And>ok a. adapter_keeps ok a \<Longrightarrow> holds ok (geto a)) \<Longrightarrow>
     tidy P (run_adapter_optional_string app ref args t geto)"
  unfolding get_adapter_bool_def run_adapter_string_def run_adapter_optional_string_def
  by (intro tidying holding | assumption)+

lemma tidy_run_adapter [tidying]: "app_tidy P app \<Longrightarrow> tidy P (run_adapter app args)"
  unfolding run_adapter_def run_adapter_with_ref_def Let_def
  by (intro tidying contract_rules | assumption)+

lemma tidy_device_ops [tidying]:
  assumes "app_tidy P app"
  shows "tidy P (run_device_powered app ref args)" and "tidy P (run_device_mode app ref args)"
    and "(\<And>ok d. device_keeps ok d \<Longrightarrow> holds ok (get d)) \<Longrightarrow> tidy P (run_device_string app ref args t get)"
  unfolding run_device_powered_def run_device_mode_def run_device_string_def
  by (intro tidying holding contract_rules assms | assumption)+

lemma tidy_run_device [tidying]: "app_tidy P app \<Longrightarrow> tidy P (run_device app args)"
  unfolding run_device_def run_device_with_ref_def Let_def
  by (intro tidying contract_rules | assumption)+

lemma tidy_run_bss [tidying]: "app_tidy P app \<Longrightarrow> tidy P (run_bss app args)"
  unfolding run_bss_def run_bss_with_ref_def run_bss_address_def Let_def
  by (intro tidying holding contract_rules | assumption)+

text \<open>\<open>network\<close> and \<open>known-network\<close>\<close>

lemma tidy_network_ops [tidying]:
  assumes "app_tidy P app"
  shows "tidy P (run_network_connected app ref args)" and "tidy P (run_network_known_network app ref args)"
    and "tidy P (run_network_bsses app ref args)"
    and "(\<And>ok n. network_keeps ok n \<Longrightarrow> holds ok (get n)) \<Longrightarrow> tidy P (run_network_string app ref args t get)"
  unfolding run_network_connected_def run_network_known_network_def run_network_bsses_def run_network_string_def
  by (intro tidying holding contract_rules assms | assumption)+

lemma connect_and_report_keeps: "network_keeps ok n \<Longrightarrow> holds ok (connect_and_report app ref n)"
  unfolding connect_and_report_def by (intro holding contract_rules)

lemma network_needs_agent_keeps: "network_keeps ok n \<Longrightarrow> holds ok (network_needs_agent n)"
  unfolding network_needs_agent_def by (intro holding contract_rules)

lemma agent_session:
  assumes "cli_session ok client" and "holds ok m"
  shows "holds ok (go_bind (api_register_agent client cb) (\<lambda>agent. deferred (ag_unregister agent) m))"
  by (rule yields_bind [OF cli_session.register_agent [OF assms(1)]])
    (rule yields_deferred, erule agent_rules, rule assms(2))

lemma holds_wrap_on_world: "holds ok (go_wrap g (on_world m))"
  by (auto simp: yields_def go_wrap_def on_world_def split_beta split: sum.splits)

lemma tidy_run_network_connect [tidying]:
  "app_tidy P app \<Longrightarrow> tidy P (run_network_connect app ref args)"
  unfolding run_network_connect_def split_beta
  by (intro tidy_bind tidying tidy_with_client, assumption+, rule yields_bind, erule cli_session.finders)
    (intro holds_bind yields_if network_needs_agent_keeps connect_and_report_keeps holds_wrap_on_world
      agent_session | assumption)+

lemma tidy_run_network [tidying]: "app_tidy P app \<Longrightarrow> tidy P (run_network app args)"
  unfolding run_network_def run_network_with_ref_def Let_def
  by (intro tidying holding contract_rules | assumption)+

lemma tidy_known_network_ops [tidying]:
  assumes "app_tidy P app"
  shows "tidy P (run_known_network_auto_connect app ref args)" and "tidy P (run_known_network_forget app ref args)"
    and "tidy P (run_known_network_hidden app ref args)" and "tidy P (run_known_network_last_connected app ref args)"
    and "(\<And>ok k. known_network_keeps ok k \<Longrightarrow> holds ok (get k)) \<Longrightarrow>
           tidy P (run_known_network_string app ref args t get)"
  unfolding run_known_network_auto_connect_def run_known_network_forget_def run_known_network_hidden_def
    run_known_network_last_connected_def run_known_network_string_def
  by (intro tidying holding contract_rules assms | assumption)+

lemma tidy_run_known_network [tidying]: "app_tidy P app \<Longrightarrow> tidy P (run_known_network app args)"
  unfolding run_known_network_def run_known_network_with_ref_def Let_def
  by (intro tidying holding contract_rules | assumption)+

text \<open>\<open>station\<close> and \<open>access-point\<close>\<close>

lemma scan_and_wait_keeps [keeping]:
  assumes "subscribe_keeps ok sub" and "holds ok scan" and "holds ok pr"
  shows "holds ok (scan_and_wait app sub scan started timeout pr)"
  unfolding scan_and_wait_def await_scan_def
  using assms(1) [unfolded subscribe_keeps_def]
  by (intro yields_bind [where Q = "keeps_state ok"] yields_deferred_unsub holding assms | blast)+

lemma print_networks_keep [keeping]:
  "station_keeps ok st \<Longrightarrow> holds ok (print_station_networks app st)"
  "access_point_keeps ok x \<Longrightarrow> holds ok (print_access_point_networks app x)"
  unfolding print_station_networks_def print_access_point_networks_def by (intro holding contract_rules; assumption)+

lemma tidy_station_ops [tidying]:
  assumes "app_tidy P app"
  shows "tidy P (run_station_networks app ref args)" and "tidy P (run_station_disconnect app ref args)"
    and "tidy P (run_station_hidden_aps app ref args)"
  unfolding run_station_networks_def run_station_disconnect_def run_station_hidden_aps_def
  by (intro tidying holding print_networks_keep contract_rules assms | assumption)+

lemma tidy_run_station_scan [tidying]: "app_tidy P app \<Longrightarrow> tidy P (run_station_scan app ref args)"
  unfolding run_station_scan_def split_beta
  by (intro tidying holding scan_and_wait_keeps print_networks_keep contract_rules | assumption)+

lemma affinity_refs_keep: "daemon_keeps ok d \<Longrightarrow> holds ok (affinity_refs d fetched args)"
  by (induction args arbitrary: fetched) (auto simp: Let_def split: option.splits intro!: holding daemon_rules)

lemma resolve_affinity_refs_keeps: "cli_session ok client \<Longrightarrow> holds ok (resolve_affinity_refs client args)"
  using affinity_refs_keep cli_session.daemon
  by (fastforce simp: resolve_affinity_refs_def yields_def split: option.splits)

lemma tidy_run_station_affinities [tidying]: "app_tidy P app \<Longrightarrow> tidy P (run_station_affinities app ref args)"
proof -
  assume app: "app_tidy P app"
  have "tidy P (run_station_affinities_set app ref args')" for args'
    unfolding run_station_affinities_set_def
    by (intro tidying app, rule yields_bind, erule cli_session.finders)
      (intro holding resolve_affinity_refs_keeps contract_rules | assumption)+
  then show ?thesis
    unfolding run_station_affinities_def
    by (intro tidying holding contract_rules app | assumption)+
qed

lemma tidy_run_station_connect_hidden [tidying]:
  "app_tidy P app \<Longrightarrow> tidy P (run_station_connect_hidden app ref args)"
  unfolding run_station_connect_hidden_def split_beta Let_def
  by (intro tidying tidy_with_client, assumption+, rule yields_bind, erule cli_session.finders)
    (intro holding agent_session contract_rules | assumption)+

lemma tidy_run_station_monitor_signal [tidying]:
  "app_tidy P app \<Longrightarrow> tidy P (run_station_monitor_signal app ref args)"
  unfolding run_station_monitor_signal_def
  by (intro tidying tidy_with_client, assumption+, rule yields_bind, erule cli_session.finders,
      rule yields_bind, erule station_rules)
    (intro yields_deferred yields_on_world agent_rules | assumption)+

lemma run_wsc_op_keeps: "wsc_keeps ok x \<Longrightarrow> holds ok (run_wsc_op app ref x sub rest)"
  unfolding run_wsc_op_def by (intro holding wsc_rules | assumption)+

lemma tidy_run_station_wsc [tidying]: "app_tidy P app \<Longrightarrow> tidy P (run_station_wsc app ref args)"
  unfolding run_station_wsc_def
  by (intro tidying | assumption)+ (rule yields_bind, erule station_rules, erule run_wsc_op_keeps)

lemma tidy_run_station [tidying]: "app_tidy P app \<Longrightarrow> tidy P (run_station app args)"
  unfolding run_station_def run_station_with_ref_def Let_def
  by (intro tidying | assumption)+

lemma tidy_access_point_ops [tidying]:
  assumes "app_tidy P app"
  shows "tidy P (run_access_point_start app ref args)" and "tidy P (run_access_point_start_profile app ref args)"
    and "tidy P (run_access_point_stop app ref args)" and "tidy P (run_access_point_networks app ref args)"
  unfolding run_access_point_start_def run_access_point_start_profile_def run_access_point_stop_def
    run_access_point_networks_def
  by (intro tidying holding print_networks_keep contract_rules assms | assumption)+

lemma tidy_run_access_point_scan [tidying]: "app_tidy P app \<Longrightarrow> tidy P (run_access_point_scan app ref args)"
  unfolding run_access_point_scan_def split_beta
  by (intro tidying holding scan_and_wait_keeps print_networks_keep contract_rules | assumption)+

lemma tidy_run_access_point [tidying]: "app_tidy P app \<Longrightarrow> tidy P (run_access_point app args)"
  unfolding run_access_point_def run_access_point_with_ref_def Let_def
  by (intro tidying | assumption)+

text \<open>\<open>daemon\<close> and \<open>version\<close>\<close>

lemma tidy_daemon_query [tidying]:
  assumes app: "app_tidy P app" and get: "\<And>ok d. daemon_keeps ok d \<Longrightarrow> holds ok (get d)"
  shows "tidy P (daemon_query unknown get result app args)"
proof -
  have "holds ok (\<lambda>s. case api_daemon client s of None \<Rightarrow> (Inl nil_daemon_panic, s)
                    | Some d \<Rightarrow> show_value app get result d s)"
    if s: "cli_session ok client" for ok client
  proof -
    have "holds ok (show_value app get result d)" if "api_daemon client t = Some d" for t d
      by (rule holds_show_value, rule get, rule cli_session.daemon [OF s], rule that)
    then show ?thesis by (auto simp: yields_def split: option.splits)
  qed
  then show ?thesis
    unfolding daemon_query_def by (auto split: list.split intro!: tidying app)
qed

subsection \<open>The command tree\<close>

text \<open>A command is tidy if everything that its tree executes is.\<close>

inductive tidy_command :: "('w \<Rightarrow> bool) \<Rightarrow> 'w command \<Rightarrow> bool" for P where
  node: "\<lbrakk>\<And>f args. cmd_execute c = Some f \<Longrightarrow> tidy P (f args);
          \<And>n sub. (n, sub) \<in> set (cmd_subcommands c) \<Longrightarrow> tidy_command P sub\<rbrakk> \<Longrightarrow> tidy_command P c"

lemma tidy_execute: "tidy_command P c \<Longrightarrow> cmd_execute c = Some f \<Longrightarrow> tidy P (execute f args)"
  by (auto simp: execute_def elim: tidy_command.cases intro: tidy_wrap)

lemma write_out_tidy: "app_tidy P app \<Longrightarrow> P w \<Longrightarrow> P (write_out app t w)"
  by (simp add: write_out_def app_tidy_def tidy_def)

lemma tidy_leaf_help: "app_tidy P app \<Longrightarrow> tidy P (leaf_help app c rest)"
  by (auto simp: tidy_def leaf_help_def print_usage_tidy write_out_tidy split: option.split)

lemma tidy_node_args: "app_tidy P app \<Longrightarrow> tidy P (node_args app c args)"
  by (auto simp: tidy_def node_args_def print_usage_tidy app_stderr_tidy split: sum.split flag_error.split)

lemma tidy_command_run: "app_tidy P app \<Longrightarrow> tidy_command P c \<Longrightarrow> tidy P (command_run app c args)"
proof (induction app c args rule: command_run.induct)
  case (1 app c args)
  have usages: "tidy P (\<lambda>w. (r, print_usage app c w))" for r :: "run_error + unit"
    using 1(2) by (simp add: tidy_def print_usage_tidy)
  have leaf: "tidy P (run_leaf app c rest)" and bare: "tidy P (run_bare app c)" for rest
    using 1(2,3) usages
    by (auto simp: run_leaf_def run_bare_def fail_run_def tidy_leaf_help split: option.split intro: tidy_execute)
  have unknown: "tidy P (unknown_subcommand app c a)" for a
    using usages by (cases "app_help app") (simp_all add: unknown_subcommand_def fail_run_def)
  have sub: "tidy P (command_run app sub rest)"
    if "parse_flags [] [] args = Inr (given, a # rest)" "cmd_subcommands c \<noteq> []"
      "map_of (cmd_subcommands c) a = Some sub" for given a rest sub
    using 1(1) [OF that(1) refl refl that(2,3) 1(2)] 1(3) map_of_SomeD [OF that(3)]
    by (auto elim: tidy_command.cases)
  show ?case
    unfolding command_run.simps [of app c args]
    using sub leaf bare unknown tidy_node_args [OF 1(2)]
    by (auto split: sum.split prod.split list.split option.split intro!: tidy_bind tidy_return)
qed

lemma tidy_leaf: "(\<And>args. tidy P (f args)) \<Longrightarrow> tidy_command P (Command n d (Some f) u [] h)"
  by (rule node) auto

lemma tidy_root: "app_tidy P app \<Longrightarrow> tidy_command P (root_command stamped build_info app)"
  unfolding root_command_def
  by (rule node)
    (auto simp: daemon_command_def daemon_info_command_def daemon_version_command_def daemon_state_dir_command_def
      daemon_net_conf_command_def adapter_command_def device_command_def station_command_def
      access_point_command_def bss_command_def network_command_def known_network_command_def version_command_def
      intro!: tidy_leaf tidying daemon_rules intro: node)

lemma global_flags_keep:
  assumes "app_tidy P app"
  shows "app_tidy P (fst (parse_global_flags args app))"
  using assms by (induction args arbitrary: app) (auto simp: app_tidy_def split_beta)

theorem run_tidy:
  assumes app: "app_tidy P app" and w: "P w"
  shows "P (snd (cli_run stamped build_info app args w))"
proof -
  obtain app' rest where args: "parse_global_flags args app = (app', rest)" by fastforce
  with global_flags_keep [OF app, of args] have app': "app_tidy P app'" by simp
  note run = tidy_command_run [OF app' tidy_root [OF app']]
  obtain r w' where c: "command_run app' (root_command stamped build_info app') rest w = (r, w')" by fastforce
  with run [of stamped build_info rest] w have "P w'" unfolding tidy_def by (metis snd_conv)
  with args c app_stderr_tidy [OF app'] show ?thesis
    by (simp add: cli_run_def run_app_def split: sum.split run_error.split)
qed

end
