(* ===== verification/Cli_Client.thy ===== *)
theory Cli_Client
  imports Cli_Tidy Client_Runs
begin

text \<open>
  \<open>realClient\<close> (\<open>api.go\<close>): the public client behind the interfaces that the commands use. Its state is the
  client and the registry of the signal handlers of its connection, whose handlers run the closures named
  by \<open>watch\<close>. The handle of a signal agent is captured by value, since a command unregisters it once. The
  interpretation at the end shows that the real client satisfies the contract of the commands.
\<close>

type_synonym watch_act = "watch \<times> delivered"

type_synonym 'w session = "(watch_act, 'w) client option \<times> watch_act handler registry"

text \<open>The three kinds of call: on the world, on the world and the registry, on the world and the client.\<close>

definition real_read :: "((watch_act, 'w) client option \<Rightarrow> (gerror, 'w, 'a) go) \<Rightarrow> ('w session, 'w, 'a) cli" where
  "real_read m = (\<lambda>((c, reg), w). case m c w of (r, w') \<Rightarrow> (r, ((c, reg), w')))"

definition on_registry ::
    "(gerror, watch_act handler registry \<times> 'w, 'a) go \<Rightarrow> ('w session, 'w, 'a) cli" where
  "on_registry m = (\<lambda>((c, reg), w). case m (reg, w) of (r, (reg', w')) \<Rightarrow> (r, ((c, reg'), w')))"

definition on_client ::
    "(gerror, (watch_act, 'w) client option \<times> 'w, 'a) go \<Rightarrow> ('w session, 'w, 'a) cli" where
  "on_client m = (\<lambda>((c, reg), w). case m (c, w) of (r, (c', w')) \<Rightarrow> (r, ((c', reg), w')))"

text \<open>A subscription registers the closure with what it is called with, and returns its \<open>UnsubscribeFunc\<close>.\<close>

definition real_subscribe ::
    "(('v \<Rightarrow> watch_act list) option \<Rightarrow> (gerror, (watch_act, 'w) subs_state, subscription) go)
      \<Rightarrow> ('v \<Rightarrow> delivered) \<Rightarrow> ('w session, 'w) subscribe" where
  "real_subscribe sub got watch =
     go_bind (on_registry (sub (Some (\<lambda>v. [(watch, got v)])))) (\<lambda>t.
     go_return (\<lambda>((c, reg), w). ((c, unsubscribe t reg), w)))"

subsection \<open>The objects\<close>

definition real_daemon :: "'w public_daemon \<Rightarrow> ('w session, 'w) daemon_api" where
  "real_daemon d =
     \<lparr>dm_info = on_world (public_daemon_info (Some d)), dm_version = on_world (public_daemon_version (Some d)),
      dm_state_directory = on_world (public_daemon_state_directory (Some d)),
      dm_network_configuration_enabled = on_world (public_daemon_network_configuration_enabled (Some d)),
      dm_adapters = on_world (public_daemon_adapters (Some d)),
      dm_devices = on_world (public_daemon_devices (Some d)),
      dm_stations = on_world (public_daemon_stations (Some d)),
      dm_access_points = on_world (public_daemon_access_points (Some d)),
      dm_basic_service_sets = on_world (public_daemon_basic_service_sets (Some d)),
      dm_networks = on_world (public_daemon_networks (Some d)),
      dm_known_networks = on_world (public_daemon_known_networks (Some d))\<rparr>"

definition real_adapter :: "(watch_act, 'w) public_adapter \<Rightarrow> ('w session, 'w) adapter_api" where
  "real_adapter a =
     \<lparr>ad_path = po_path a, ad_powered = on_world (public_adapter_powered (Some a)),
      ad_set_powered = (\<lambda>b. on_world (public_adapter_set_powered b (Some a))),
      ad_name = on_world (public_adapter_name (Some a)), ad_model = on_world (public_adapter_model (Some a)),
      ad_vendor = on_world (public_adapter_vendor (Some a)),
      ad_supported_modes = on_world (public_adapter_supported_modes (Some a)),
      ad_supports_mode = (\<lambda>m. on_world (public_adapter_supports_mode m (Some a))),
      ad_supports_station = on_world (public_adapter_supports_station (Some a)),
      ad_supports_ap = on_world (public_adapter_supports_ap (Some a)),
      ad_supports_ad_hoc = on_world (public_adapter_supports_ad_hoc (Some a)),
      ad_properties = on_world (public_adapter_properties (Some a)),
      ad_subscribe_powered =
        real_subscribe (\<lambda>fn. public_adapter_subscribe_powered_changed fn (Some a)) GotBool\<rparr>"

definition real_device :: "(watch_act, 'w) public_device \<Rightarrow> ('w session, 'w) device_api" where
  "real_device d =
     \<lparr>dv_path = po_path d, dv_powered = on_world (public_device_powered (Some d)),
      dv_set_powered = (\<lambda>b. on_world (public_device_set_powered b (Some d))),
      dv_name = on_world (public_device_name (Some d)), dv_address = on_world (public_device_address (Some d)),
      dv_mode = on_world (public_device_mode (Some d)),
      dv_set_mode = (\<lambda>m. on_world (public_device_set_mode m (Some d))),
      dv_adapter = on_world (public_device_adapter (Some d)),
      dv_properties = on_world (public_device_properties (Some d)),
      dv_subscribe_powered =
        real_subscribe (\<lambda>fn. public_device_subscribe_powered_changed fn (Some d)) GotBool,
      dv_subscribe_mode =
        real_subscribe (\<lambda>fn. public_device_subscribe_mode_changed fn (Some d)) GotText\<rparr>"

definition real_wsc :: "'w public_wsc option \<Rightarrow> ('w session, 'w) wsc_api" where
  "real_wsc x =
     \<lparr>ws_push_button = on_world (public_wsc_push_button x), ws_generate_pin = on_world (public_wsc_generate_pin x),
      ws_start_pin = (\<lambda>pin. on_world (public_wsc_start_pin pin x)), ws_cancel = on_world (public_wsc_cancel x)\<rparr>"

definition real_signal_agent :: "'w core_signal_level_agent option \<Rightarrow> ('w session, 'w) agent_api" where
  "real_signal_agent a =
     \<lparr>ag_unregister = on_world (\<lambda>w. case signal_level_agent_unregister (a, w) of (r, (_, w')) \<Rightarrow> (r, w'))\<rparr>"

definition real_station :: "(watch_act, 'w) public_station \<Rightarrow> ('w session, 'w) station_api" where
  "real_station s =
     \<lparr>st_path = po_path s, st_display = public_station_name (Some s),
      st_properties = on_world (public_station_properties (Some s)),
      st_affinities = on_world (public_station_affinities (Some s)),
      st_scan = on_world (public_station_scan (Some s)),
      st_ordered_networks = on_world (public_station_ordered_networks (Some s)),
      st_set_affinities = (\<lambda>ps. on_world (public_station_set_affinities ps (Some s))),
      st_disconnect = on_world (public_station_disconnect (Some s)),
      st_connect_hidden = (\<lambda>n. on_world (public_station_connect_hidden_network n (Some s))),
      st_hidden_access_points = on_world (public_station_hidden_access_points (Some s)),
      st_subscribe_scanning =
        real_subscribe (\<lambda>fn. public_station_subscribe_scanning_changed fn (Some s)) GotBool,
      st_subscribe_state =
        real_subscribe (\<lambda>fn. public_station_subscribe_state_changed fn (Some s)) GotText,
      st_subscribe_network =
        real_subscribe (\<lambda>fn. public_station_subscribe_connected_network_changed fn (Some s)) GotPath,
      st_subscribe_access_point =
        real_subscribe (\<lambda>fn. public_station_subscribe_connected_access_point_changed fn (Some s)) GotPath,
      st_subscribe_affinities =
        real_subscribe (\<lambda>fn. public_station_subscribe_affinities_changed fn (Some s)) (\<lambda>ps. GotPaths (nil_slice ps)),
      st_monitor_signal = (\<lambda>cfg. go_bind (on_world (monitor_signal_level (Some s) cfg)) (\<lambda>a. go_return (real_signal_agent a))),
      st_wsc = go_bind (on_world (station_simple_configuration (Some s))) (\<lambda>x. go_return (real_wsc x))\<rparr>"

definition real_access_point :: "(watch_act, 'w) public_access_point \<Rightarrow> ('w session, 'w) access_point_api" where
  "real_access_point a =
     \<lparr>ax_path = po_path a, ax_display = public_access_point_name (Some a),
      ax_properties = on_world (public_access_point_properties (Some a)),
      ax_start = (\<lambda>s p. on_world (public_access_point_start s p (Some a))),
      ax_start_profile = (\<lambda>s. on_world (public_access_point_start_profile s (Some a))),
      ax_stop = on_world (public_access_point_stop (Some a)), ax_scan = on_world (public_access_point_scan (Some a)),
      ax_ordered_networks = on_world (public_access_point_ordered_networks (Some a)),
      ax_subscribe_scanning =
        real_subscribe (\<lambda>fn. public_access_point_subscribe_scanning_changed fn (Some a)) GotBool,
      ax_subscribe_started =
        real_subscribe (\<lambda>fn. public_access_point_subscribe_started_changed fn (Some a)) GotBool\<rparr>"

definition real_bss :: "'w public_bss \<Rightarrow> ('w session, 'w) bss_api" where
  "real_bss b =
     \<lparr>bs_path = po_path b, bs_address = on_world (public_bss_address (Some b)),
      bs_properties = on_world (public_bss_properties (Some b))\<rparr>"

definition real_network :: "(watch_act, 'w) public_network \<Rightarrow> ('w session, 'w) network_api" where
  "real_network n =
     \<lparr>nw_path = po_path n, nw_name = on_world (public_network_name (Some n)),
      nw_connected = on_world (public_network_connected (Some n)),
      nw_device = on_world (public_network_device (Some n)), nw_type = on_world (public_network_type (Some n)),
      nw_known_network = on_world (public_network_known_network (Some n)),
      nw_ess = on_world (public_network_extended_service_set (Some n)),
      nw_connect = on_world (public_network_connect (Some n)),
      nw_properties = on_world (public_network_properties (Some n)),
      nw_subscribe_connected =
        real_subscribe (\<lambda>fn. public_network_subscribe_connected_changed fn (Some n)) GotBool,
      nw_subscribe_known =
        real_subscribe (\<lambda>fn. public_network_subscribe_known_network_changed fn (Some n)) GotPath,
      nw_subscribe_ess =
        real_subscribe (\<lambda>fn. public_network_subscribe_extended_service_set_changed fn (Some n)) GotPaths\<rparr>"

definition real_known_network :: "(watch_act, 'w) public_known_network \<Rightarrow> ('w session, 'w) known_network_api" where
  "real_known_network k =
     \<lparr>kn_path = po_path k, kn_name = on_world (public_known_network_name (Some k)),
      kn_type = on_world (public_known_network_type (Some k)),
      kn_hidden = on_world (public_known_network_hidden (Some k)),
      kn_last_connected = on_world (public_known_network_last_connected_time (Some k)),
      kn_auto_connect = on_world (public_known_network_auto_connect (Some k)),
      kn_set_auto_connect = (\<lambda>b. on_world (public_known_network_set_auto_connect b (Some k))),
      kn_forget = on_world (public_known_network_forget (Some k)),
      kn_properties = on_world (public_known_network_properties (Some k)),
      kn_subscribe_auto_connect =
        real_subscribe (\<lambda>fn. public_known_network_subscribe_auto_connect_changed fn (Some k)) GotBool,
      kn_subscribe_hidden =
        real_subscribe (\<lambda>fn. public_known_network_subscribe_hidden_changed fn (Some k)) GotBool,
      kn_subscribe_last_connected =
        real_subscribe (\<lambda>fn. public_known_network_subscribe_last_connected_time_changed fn (Some k)) GotPath\<rparr>"

subsection \<open>The client\<close>

text \<open>One object, and all of a kind.\<close>

definition real_object ::
    "((watch_act, 'w) client option \<Rightarrow> string \<Rightarrow> (gerror, 'w, 'o) go) \<Rightarrow> ('o \<Rightarrow> 'api) \<Rightarrow> string \<Rightarrow> ('w session, 'w, 'api) cli" where
  "real_object get api path = go_bind (real_read (\<lambda>c. get c path)) (\<lambda>x. go_return (api x))"

definition real_all ::
    "((watch_act, 'w) client option \<Rightarrow> (gerror, 'w, 'o list) go) \<Rightarrow> ('o \<Rightarrow> 'api) \<Rightarrow> ('w session, 'w, 'api list) cli" where
  "real_all all api = go_bind (real_read all) (\<lambda>xs. go_return (map api xs))"

text \<open>The agent of a handle; a client that hands out handles is not nil.\<close>

definition real_agent :: "nat \<Rightarrow> ('w session, 'w) agent_api" where
  "real_agent i =
     \<lparr>ag_unregister = on_client (\<lambda>(c, w).
        case c of
          None \<Rightarrow> (Inl (public_invalid KindInvalidState ResourceAgent ''Agent.Unregister'' ''''), (None, w))
        | Some c \<Rightarrow> (case public_agent_unregister i (c, w) of (r, (c', w')) \<Rightarrow> (r, (Some c', w'))))\<rparr>"

definition real_client :: "godbus \<Rightarrow> ('w session, 'w) client_api" where
  "real_client g =
     \<lparr>api_daemon = (\<lambda>((c, reg), w). map_option real_daemon (client_daemon c)),
      api_adapter = real_object (client_adapter g) real_adapter,
      api_device = real_object (client_device g) real_device,
      api_station = real_object (client_station g) real_station,
      api_access_point = real_object (client_access_point g) real_access_point,
      api_basic_service_set = real_object (client_basic_service_set g) real_bss,
      api_network = real_object (client_network g) real_network,
      api_known_network = real_object (client_known_network g) real_known_network,
      api_all_adapters = real_all (client_all_adapters g) real_adapter,
      api_all_devices = real_all (client_all_devices g) real_device,
      api_all_stations = real_all (client_all_stations g) real_station,
      api_all_access_points = real_all (client_all_access_points g) real_access_point,
      api_all_basic_service_sets = real_all (client_all_basic_service_sets g) real_bss,
      api_all_networks = real_all (client_all_networks g) real_network,
      api_all_known_networks = real_all (client_all_known_networks g) real_known_network,
      api_register_agent = (\<lambda>cb. go_bind (on_client (register_agent g cb)) (\<lambda>i. go_return (real_agent i))),
      api_close = on_client client_close\<rparr>"

text \<open>\<open>defaultClientFactory\<close>. A new connection has no signal handlers.\<close>

definition default_client_factory ::
    "godbus \<Rightarrow> (bool \<Rightarrow> (raw_err, 'w, 'w conn) go) \<Rightarrow> bool \<Rightarrow> (gerror, 'w, 'w session \<times> ('w session, 'w) client_api) go" where
  "default_client_factory g dial bus =
     go_bind (new_client g dial bus) (\<lambda>c. go_return ((Some c, empty_registry), real_client g))"

subsection \<open>The contract holds\<close>

text \<open>
  What a session keeps: its client is there, open and wired to \<open>wr\<close>, and its agent slot is sound.
\<close>

definition session_ok :: "(watch_act, 'w) wiring \<Rightarrow> 'w session \<Rightarrow> bool" where
  "session_ok wr s \<longleftrightarrow> (\<exists>c. fst s = Some c \<and> client_ok wr c \<and> \<not> cl_closed c)"

lemma keeps_real_read: "holds ok (real_read m)"
  by (auto simp: yields_def real_read_def split: prod.split)

lemma keeps_on_registry: "holds (session_ok wr) (on_registry m)"
  by (auto simp: yields_def on_registry_def session_ok_def split: prod.split)

lemma keeps_subscribe: "subscribe_keeps (session_ok wr) (real_subscribe sub got)"
  unfolding subscribe_keeps_def real_subscribe_def
  by (auto intro!: yields_bind [OF keeps_on_registry] yields_return simp: keeps_state_def session_ok_def)

lemma keeps_agent: "agent_keeps (session_ok wr) (real_agent i)"
  unfolding agent_keeps_def real_agent_def yields_def on_client_def session_ok_def
  by (auto split: prod.splits) (metis unregister_ok)+

lemma keeps_signal_agent: "agent_keeps ok (real_signal_agent a)"
  by (simp add: agent_keeps_def real_signal_agent_def yields_on_world)

lemma keeps_wsc: "wsc_keeps ok (real_wsc x)"
  by (simp add: wsc_keeps_def real_wsc_def yields_on_world)

lemmas real_object_defs = real_daemon_def real_adapter_def real_device_def real_station_def real_access_point_def
  real_bss_def real_network_def real_known_network_def

lemma keeps_objects:
  "daemon_keeps (session_ok wr) (real_daemon d)"
  "adapter_keeps (session_ok wr) (real_adapter a)"
  "device_keeps (session_ok wr) (real_device v)"
  "station_keeps (session_ok wr) (real_station s)"
  "access_point_keeps (session_ok wr) (real_access_point x)"
  "bss_keeps (session_ok wr) (real_bss b)"
  "network_keeps (session_ok wr) (real_network n)"
  "known_network_keeps (session_ok wr) (real_known_network k)"
  unfolding contract_defs real_object_defs
  by (auto intro!: yields_on_world keeps_subscribe yields_return yields_bind [OF yields_on_world]
      simp: keeps_signal_agent [unfolded contract_defs] keeps_wsc [unfolded contract_defs])

lemma keeps_real_object: "(\<And>x. K (api x)) \<Longrightarrow> yields ok K (real_object get api path)"
  unfolding real_object_def by (rule yields_bind [OF keeps_real_read]) (rule yields_return)

lemma keeps_real_all: "(\<And>x. K (api x)) \<Longrightarrow> yields ok (list_all K) (real_all all api)"
  unfolding real_all_def by (rule yields_bind [OF keeps_real_read], rule yields_return) (simp add: list_all_iff)

lemma keeps_register_agent:
  "yields (session_ok wr) (agent_keeps (session_ok wr)) (api_register_agent (real_client g) cb)"
proof -
  have "holds (session_ok wr) (on_client (register_agent g cb))"
    by (auto simp: yields_def on_client_def session_ok_def split: prod.split dest: register_agent_ok)
  then show ?thesis
    unfolding real_client_def client_api.simps
    by (rule yields_bind) (intro yields_return keeps_agent)
qed

interpretation real: cli_session "session_ok wr" "real_client g" for wr g
  by unfold_locales
    (use keeps_register_agent [of wr g] in
      \<open>auto simp: real_client_def keeps_objects intro!: keeps_real_object keeps_real_all\<close>)

subsection \<open>The connection\<close>

lemma session_close:
  assumes "session_ok wr s" and "w_conn wr = Some conn" and "w_cleaned wr = None"
  shows "\<exists>v. snd (snd (api_close (real_client g) (s, w))) = snd (conn_close conn v)"
proof -
  obtain c reg where s: "s = (Some c, reg)" and ok: "client_ok wr c" "\<not> cl_closed c"
    using assms(1) by (cases s) (auto simp: session_ok_def)
  then have "\<not> cl_close_done c" and handles: "handles_ok (cl_agent c) (cl_agents c)" and wire: "cl_wire c = Some wr"
    by (auto simp: client_ok_def)
  obtain hs v where run: "client_close (Some c, w) =
      (let (c2, w2) = client_cleanup ((close_locked c)\<lparr>cl_agents := hs\<rparr>, v) in (close_result c2, (Some c2, w2)))"
    by (rule client_close_eq [OF \<open>\<not> cl_close_done c\<close> handles]) blast
  have "snd (client_cleanup ((close_locked c)\<lparr>cl_agents := hs\<rparr>, v)) = snd (conn_close conn v)"
    using wire assms(2,3) by (auto simp: client_cleanup_def wiring_cleanup_def split: prod.splits sum.splits)
  with s run show ?thesis
    by (auto simp: real_client_def on_client_def split: prod.split)
qed

lemma client_of_ok: "session_ok wr (Some (client_of wr), reg)"
  by (simp add: session_ok_def client_ok_def client_of_def handles_ok_def)

text \<open>\<open>newConn\<close> hands out an uncleaned wiring over the connection it dialed, or closes that connection.\<close>

lemma new_conn_closes:
  assumes "new_conn g dial w = (r, w')"
  shows "case r of
           Inl _ \<Rightarrow> (\<exists>e. dial w = (Inl e, w'))
               \<or> (\<exists>conn w1 v. dial w = (Inr conn, w1) \<and> w' = snd (conn_close conn v))
         | Inr wr \<Rightarrow> \<exists>conn w1. dial w = (Inr conn, w1) \<and> w_conn wr = Some conn
                         \<and> w_cleaned wr = None \<and> w_daemon wr \<noteq> None"
  using assms
  by (cases "dial w") (auto simp: new_conn_def Let_def go_bind_def go_wrap_def
      split: sum.splits prod.splits option.splits; metis snd_conv)

lemma factory_closes:
  fixes dial :: "bool \<Rightarrow> (raw_err, 'w, 'w conn) go"
  assumes dial_ok: "\<And>sys w conn w'. dial sys w = (Inr conn, w') \<Longrightarrow> \<forall>v. P (snd (conn_close conn v))"
    and dial_fails: "\<And>sys w e w'. P w \<Longrightarrow> dial sys w = (Inl e, w') \<Longrightarrow> P w'"
  shows "factory_tidy P (default_client_factory g dial)"
  unfolding factory_tidy_def
proof (intro allI impI)
  fix bus w
  assume w: "P w"
  let ?dial = "dial (\<not> bus)"
  obtain r :: "gerror + (watch_act, 'w) wiring" and w' where run: "new_conn g ?dial w = (r, w')" by fastforce
  show "case default_client_factory g dial bus w of
          (Inl _, w') \<Rightarrow> P w'
        | (Inr (c, client), _) \<Rightarrow>
            \<exists>ok. ok c \<and> cli_session ok client \<and> (\<forall>c' w'. ok c' \<longrightarrow> P (snd (snd (api_close client (c', w')))))"
  proof (cases r)
    case (Inl e)
    with new_conn_closes [OF run] w dial_ok dial_fails have "P w'" by fastforce
    with Inl run show ?thesis
      by (cases bus) (simp_all add: default_client_factory_def new_client_def connect_bus_def SessionBus_def go_bind_def go_wrap_def)
  next
    case (Inr wr)
    with new_conn_closes [OF run] obtain conn w1 where d: "?dial w = (Inr conn, w1)"
      and conn: "w_conn wr = Some conn" "w_cleaned wr = None" and "w_daemon wr \<noteq> None" by auto
    then have valid: "validate_client_wiring ''NewClient'' (Some wr) = Inr ()" by (simp add: validate_client_wiring_def)
    have closes: "P (snd (snd (api_close (real_client g) (s, v))))" if "session_ok wr s" for s v
      using session_close [OF that conn, of g v] dial_ok [OF d] by auto
    from run Inr show ?thesis
      using client_of_ok [of wr empty_registry] real.cli_session_axioms [of wr g] closes
      by (cases bus)
        (auto simp: valid default_client_factory_def new_client_def connect_bus_def SessionBus_def go_bind_def go_wrap_def
          go_lift_def go_return_def intro!: exI [where x = "session_ok wr"])
  qed
qed

text \<open>\<open>newApp\<close> with the writers of \<open>Run\<close>: the terminal, the bus it dials, and what its subscription gets.\<close>

definition new_app ::
    "godbus \<Rightarrow> (bool \<Rightarrow> (raw_err, 'w, 'w conn) go) \<Rightarrow> (string \<Rightarrow> (gerror, 'w, unit) go) \<Rightarrow> (chunk \<Rightarrow> 'w \<Rightarrow> 'w)
      \<Rightarrow> ('w \<Rightarrow> (string \<times> raw_err option) \<times> 'w) \<Rightarrow> (string \<Rightarrow> (raw_err, 'w, string) go) \<Rightarrow> delivered list
      \<Rightarrow> ('w session, 'w) app" where
  "new_app g dial out err input prompt signals =
     \<lparr>app_session = False, app_help = False, app_json = False, app_stdout = out, app_stderr = err, app_stdin = input,
      app_prompt = prompt, app_new_client = default_client_factory g dial, app_signals = signals\<rparr>"

end
