(* ===== verification/Cli_Runs.thy ===== *)
theory Cli_Runs
  imports Cli_Client
begin

text \<open>
  What holds of every run of the command line: the connection it dials is closed again, the global flags
  stand anywhere, \<open>--help\<close> never acts, and the descent through the command tree ends.
\<close>

subsection \<open>The connection\<close>

text \<open>
  C31: Whatever its arguments are, whatever iwd answers and whatever is delivered to its subscriptions, a
  run of the command line leaves no connection open: any predicate of the world that closing a dialed connection
  establishes (such as not being connected), and that a failed dial and the terminal's writers keep, holds
  after the run if it held before, also when connecting to iwd fails half way and when the command fails.
\<close>

theorem every_run_closes_its_connection:
  assumes "\<And>sys w conn w'. dial sys w = (Inr conn, w') \<Longrightarrow> \<forall>v. P (snd (conn_close conn v))"
    and "\<And>sys w e w'. P w \<Longrightarrow> dial sys w = (Inl e, w') \<Longrightarrow> P w'"
    and "\<And>t w. P w \<Longrightarrow> P (snd (out t w))" and "\<And>ch w. P w \<Longrightarrow> P (err ch w)"
    and "P w"
  shows "P (snd (cli_run stamped build_info (new_app g dial out err input prompt signals) args w))"
  by (rule run_tidy)
    (use assms factory_closes [of dial P g] in \<open>auto simp: app_tidy_def new_app_def tidy_def\<close>)

subsection \<open>Global flags\<close>

lemma global_flags_eq:
  "parse_global_flags args app =
     (app\<lparr>app_session := app_session app \<or> list_ex (\<lambda>a. a \<in> set session_flags) args,
          app_help := app_help app \<or> list_ex (\<lambda>a. a \<in> set help_flags) args,
          app_json := app_json app \<or> list_ex (\<lambda>a. a \<in> set json_flags) args\<rparr>,
      filter (\<lambda>a. a \<notin> set (json_flags @ session_flags @ help_flags)) args)"
  by (induction args arbitrary: app) (auto simp: json_flags_def session_flags_def help_flags_def)

text \<open>
  C32: The global flags stand anywhere: two argument lists with the same words, whose other words are in the
  same order, run alike; a flag may be repeated, and its position, even among the arguments of an operation,
  does not matter.
\<close>

theorem global_flags_stand_anywhere:
  assumes "set args = set args'"
    and "filter (\<lambda>a. a \<notin> set (json_flags @ session_flags @ help_flags)) args =
         filter (\<lambda>a. a \<notin> set (json_flags @ session_flags @ help_flags)) args'"
  shows "cli_run stamped build_info app args w = cli_run stamped build_info app args' w"
proof -
  have "list_ex p args = list_ex p args'" for p using assms(1) by (simp add: list_ex_iff)
  with assms(2) show ?thesis by (simp add: cli_run_def global_flags_eq)
qed

subsection \<open>Help\<close>

text \<open>A command tree without what it executes: all that a run under \<open>--help\<close> looks at.\<close>

primrec bare_tree :: "'w command \<Rightarrow> 'w command" where
  "bare_tree (Command n d e u s h) = Command n d None u (map (map_prod id bare_tree) s) h"

lemma bare_tree_simps [simp]:
  "cmd_name (bare_tree c) = cmd_name c" "cmd_description (bare_tree c) = cmd_description c"
  "cmd_sub_usage (bare_tree c) = cmd_sub_usage c" "cmd_help_text (bare_tree c) = cmd_help_text c"
  "cmd_subcommands (bare_tree c) = map (map_prod id bare_tree) (cmd_subcommands c)"
  by (cases c; simp)+

lemma map_of_bare: "map_of (map (map_prod id f) xs) a = map_option f (map_of xs a)"
  by (induction xs) auto

lemma bare_descriptions:
  "map (\<lambda>(n, sub). (n, cmd_description sub)) (map (map_prod id bare_tree) subs) =
     map (\<lambda>(n, sub). (n, cmd_description sub)) subs"
  by (induction subs) auto

lemma print_usage_bare: "print_usage app (bare_tree c) = print_usage app c"
  unfolding print_usage_def bare_tree_simps bare_descriptions ..

lemma command_run_bare:
  "app_help app \<Longrightarrow> command_run app (bare_tree c) args = command_run app c args"
proof (induction app c args rule: command_run.induct)
  case (1 app c args)
  have node: "node_args app (bare_tree c) args = node_args app c args"
    by (intro ext) (auto simp: node_args_def print_usage_bare split: sum.split flag_error.split)
  have leaf: "run_leaf app (bare_tree c) rest = run_leaf app c rest"
    and bare: "run_bare app (bare_tree c) = run_bare app c"
    and unknown: "unknown_subcommand app (bare_tree c) a = unknown_subcommand app c a" for rest a
    using 1(2) by (auto simp: run_leaf_def leaf_help_def run_bare_def unknown_subcommand_def print_usage_bare
        intro!: ext split: option.split)
  show ?case
    unfolding command_run.simps [of app c args] command_run.simps [of app "bare_tree c" args]
    using 1 by (auto simp: node leaf bare unknown map_of_bare split: sum.split prod.split list.split option.split)
qed

lemma command_run_help_same:
  fixes app :: "('c, 'w) app" and app' :: "('d, 'w) app"
  assumes "app_help app" and "app_help app'" and "app_stdout app' = app_stdout app" and "app_stderr app' = app_stderr app"
  shows "command_run app' c args = command_run app c args"
  using assms
proof (induction app c args rule: command_run.induct)
  case (1 app c args)
  have out: "write_out app' = write_out app" using 1(4) by (intro ext) (simp add: write_out_def)
  then have usage: "print_usage app' d = print_usage app d" for d by (intro ext) (simp add: print_usage_def)
  have node: "node_args app' c args = node_args app c args"
    using 1(5) by (intro ext) (auto simp: node_args_def usage split: sum.split flag_error.split)
  have leaf: "run_leaf app' c rest = run_leaf app c rest" and bare: "run_bare app' c = run_bare app c"
    and unknown: "unknown_subcommand app' c a = unknown_subcommand app c a" for rest a
    using 1(2,3) by (auto simp: run_leaf_def leaf_help_def run_bare_def unknown_subcommand_def usage out
        intro!: ext split: option.split)
  show ?case
    unfolding command_run.simps [of app c args] command_run.simps [of app' c args]
    using 1 by (auto simp: node leaf bare unknown split: sum.split prod.split list.split option.split)
qed

lemma bare_root:
  fixes app :: "('c, 'w) app" and app' :: "('d, 'w) app"
  shows "bare_tree (root_command stamped build_info app') = bare_tree (root_command stamped build_info app)"
  by (simp add: root_command_def daemon_command_def daemon_info_command_def daemon_version_command_def
      daemon_state_dir_command_def daemon_net_conf_command_def adapter_command_def device_command_def
      station_command_def access_point_command_def bss_command_def network_command_def known_network_command_def
      version_command_def)

text \<open>A step goes from a node and its arguments to the subcommand that the first of them names.\<close>

inductive command_step :: "'w command \<times> string list \<Rightarrow> 'w command \<times> string list \<Rightarrow> bool" where
  "\<lbrakk>parse_flags [] [] args = Inr (given, a # rest); cmd_subcommands c \<noteq> [];
    map_of (cmd_subcommands c) a = Some sub\<rbrakk> \<Longrightarrow> command_step (c, args) (sub, rest)"

inductive_cases command_stepE: "command_step (c, args) (d, rest)"

inductive_simps command_step_iff: "command_step (c, args) (d, rest)"

lemma command_step_run: "command_step (c, args) (d, rest) \<Longrightarrow> command_run app c args = command_run app d rest"
  by (erule command_stepE) (simp add: command_run.simps [of app c args])

lemma command_step_shrinks: "command_step (c, args) (d, rest) \<Longrightarrow> suffix rest args \<and> length rest < length args"
  by (erule command_stepE) (auto dest!: parse_flags_rest simp: suffix_def)

text \<open>The descent reaches a node whose flag set refuses its arguments.\<close>

definition refuses_flags :: "'w command \<Rightarrow> string list \<Rightarrow> bool" where
  "refuses_flags c args \<longleftrightarrow>
     (\<exists>d rest fmt fargs. command_step\<^sup>*\<^sup>* (c, args) (d, rest) \<and> parse_flags [] [] rest = Inl (FlagFailure fmt fargs))"

lemma refuses_flags_step: "command_step (c, args) (d, rest) \<Longrightarrow> refuses_flags c args \<longleftrightarrow> refuses_flags d rest"
proof -
  assume step: "command_step (c, args) (d, rest)"
  have "refuses_flags c args" if "refuses_flags d rest"
    using that step unfolding refuses_flags_def by (meson converse_rtranclp_into_rtranclp)
  moreover have "refuses_flags d rest" if "refuses_flags c args"
  proof -
    from that obtain e r fmt fargs where run: "command_step\<^sup>*\<^sup>* (c, args) (e, r)"
      and bad: "parse_flags [] [] r = Inl (FlagFailure fmt fargs)" by (auto simp: refuses_flags_def)
    from run have "command_step\<^sup>*\<^sup>* (d, rest) (e, r)"
    proof (cases rule: converse_rtranclpE)
      case base
      with step bad show ?thesis by (auto simp: command_step_iff)
    next
      case (step y)
      then show ?thesis using \<open>command_step (c, args) (d, rest)\<close>
        by (cases y) (auto simp: command_step_iff)
    qed
    with bad show ?thesis by (auto simp: refuses_flags_def)
  qed
  ultimately show ?thesis by blast
qed

lemma refuses_flags_end:
  assumes "\<And>d rest. \<not> command_step (c, args) (d, rest)"
  shows "refuses_flags c args \<longleftrightarrow> (\<exists>fmt fargs. parse_flags [] [] args = Inl (FlagFailure fmt fargs))"
  using assms by (auto simp: refuses_flags_def elim: converse_rtranclpE)

lemma command_run_help_result:
  "app_help app \<Longrightarrow> (refuses_flags c args \<longrightarrow> fst (command_run app c args w) = Inl (OsExit 2))
   \<and> (\<not> refuses_flags c args \<longrightarrow> fst (command_run app c args w) \<in> {Inl HelpShown, Inl (OsExit 0)})"
proof (induction app c args arbitrary: w rule: command_run.induct)
  case (1 app c args)
  show ?case
  proof (cases "\<exists>d rest. command_step (c, args) (d, rest)")
    case True
    then obtain d rest where step: "command_step (c, args) (d, rest)" by blast
    then obtain given a where parse: "parse_flags [] [] args = Inr (given, a # rest)" "cmd_subcommands c \<noteq> []"
      "map_of (cmd_subcommands c) a = Some d" by (rule command_stepE)
    from "1.IH" [OF parse(1) refl refl parse(2,3) "1.prems"] show ?thesis
      unfolding refuses_flags_step [OF step] command_step_run [OF step] .
  next
    case False
    then have ends: "refuses_flags c args \<longleftrightarrow> (\<exists>fmt fargs. parse_flags [] [] args = Inl (FlagFailure fmt fargs))"
      by (intro refuses_flags_end) blast
    have "fst (run_leaf app c rest w) = Inl HelpShown" "fst (run_bare app c w) = Inl HelpShown"
      "fst (unknown_subcommand app c a w) = Inl HelpShown" for rest a
      using "1.prems" by (auto simp: run_leaf_def leaf_help_def run_bare_def unknown_subcommand_def split: option.split)
    with False show ?thesis
      unfolding command_run.simps [of app c args] ends
      by (auto simp: node_args_def go_bind_def command_step_iff
          split: sum.split prod.split list.split option.split flag_error.split)
  qed
qed

text \<open>Which flags are refused does not depend on what the commands execute.\<close>

lemma command_step_bare: "command_step (c, args) (d, rest) \<Longrightarrow> command_step (bare_tree c, args) (bare_tree d, rest)"
  by (auto simp: command_step_iff map_of_bare)

lemma command_step_of_bare:
  "command_step (bare_tree c, args) (e, rest) \<Longrightarrow> \<exists>d. e = bare_tree d \<and> command_step (c, args) (d, rest)"
  by (auto simp: command_step_iff map_of_bare)

lemma refuses_flags_bare: "refuses_flags (bare_tree c) args \<longleftrightarrow> refuses_flags c args"
proof -
  have "command_step\<^sup>*\<^sup>* x y \<Longrightarrow> command_step\<^sup>*\<^sup>* (bare_tree (fst x), snd x) (bare_tree (fst y), snd y)"
    for x y :: "'a command \<times> string list"
  proof (induction rule: rtranclp_induct)
    case (step y z)
    from step(2) have "command_step (bare_tree (fst y), snd y) (bare_tree (fst z), snd z)"
      using command_step_bare [of "fst y" "snd y" "fst z" "snd z"] by simp
    with step(3) show ?case by (rule rtranclp.rtrancl_into_rtrancl)
  qed simp
  then have down: "refuses_flags c args \<Longrightarrow> refuses_flags (bare_tree c) args"
    unfolding refuses_flags_def by fastforce
  have "command_step\<^sup>*\<^sup>* x y \<Longrightarrow> x = (bare_tree c, args) \<Longrightarrow>
      \<exists>d. fst y = bare_tree d \<and> command_step\<^sup>*\<^sup>* (c, args) (d, snd y)" for x y :: "'a command \<times> string list"
  proof (induction rule: rtranclp_induct)
    case (step y z)
    then obtain d where d: "fst y = bare_tree d" "command_step\<^sup>*\<^sup>* (c, args) (d, snd y)" by blast
    from step(2) d(1) have "command_step (bare_tree d, snd y) (fst z, snd z)" by (metis prod.collapse)
    from command_step_of_bare [OF this] obtain e where "fst z = bare_tree e" "command_step (d, snd y) (e, snd z)" by blast
    with d(2) show ?case by (meson rtranclp.rtrancl_into_rtrancl)
  qed auto
  with down show ?thesis unfolding refuses_flags_def by fastforce
qed

text \<open>
  C33: A help flag anywhere among the arguments keeps the command line from acting: the run depends on nothing
  but the two writers, so it neither dials nor reads a passphrase nor does what the other arguments say. The exit
  code is 2 when a node of the command tree that the other words lead to refuses its flags, and 0 otherwise.
\<close>

theorem help_never_acts:
  fixes app :: "('c, 'w) app" and app' :: "('d, 'w) app"
  assumes "list_ex (\<lambda>a. a \<in> set help_flags) args"
    and "app_stdout app' = app_stdout app" and "app_stderr app' = app_stderr app"
  shows "cli_run stamped build_info app' args w = cli_run stamped build_info app args w
       \<and> fst (cli_run stamped build_info app args w) =
           (if \<exists>d rest fmt fargs.
                 command_step\<^sup>*\<^sup>* (root_command stamped build_info app,
                     filter (\<lambda>a. a \<notin> set (json_flags @ session_flags @ help_flags)) args) (d, rest)
                 \<and> parse_flags [] [] rest = Inl (FlagFailure fmt fargs)
            then 2 else 0)"
proof -
  obtain a rest where a: "parse_global_flags args app = (a, rest)" by fastforce
  obtain b rest' where b: "parse_global_flags args app' = (b, rest')" by fastforce
  have flags: "app_help a" "app_help b" "app_stdout b = app_stdout a" "app_stderr b = app_stderr a" "rest' = rest"
    using a b assms by (auto simp: global_flags_eq)
  have "command_run b (root_command stamped build_info b) rest w =
      command_run b (bare_tree (root_command stamped build_info a)) rest w"
    using command_run_bare [OF flags(2)] bare_root [of stamped build_info a b] by metis
  also have "\<dots> = command_run a (root_command stamped build_info a) rest w"
    using command_run_help_same [OF flags(1-4)] command_run_bare [OF flags(1)] by metis
  finally have same: "command_run b (root_command stamped build_info b) rest w =
      command_run a (root_command stamped build_info a) rest w" .
  have rest: "rest = filter (\<lambda>a. a \<notin> set (json_flags @ session_flags @ help_flags)) args"
    using a by (simp add: global_flags_eq)
  have "fst (cli_run stamped build_info app args w) =
      (if refuses_flags (root_command stamped build_info a) rest then 2 else 0)"
    using command_run_help_result [OF flags(1), of "root_command stamped build_info a" rest w]
    by (auto simp: cli_run_def a run_app_def split: prod.split if_splits)
  also have "refuses_flags (root_command stamped build_info a) rest = refuses_flags (root_command stamped build_info app) rest"
    using refuses_flags_bare [of "root_command stamped build_info a" rest]
      refuses_flags_bare [of "root_command stamped build_info app" rest] bare_root [of stamped build_info a app] by simp
  finally have "fst (cli_run stamped build_info app args w) =
      (if refuses_flags (root_command stamped build_info app) rest then 2 else 0)" .
  with same a b flags show ?thesis unfolding rest [symmetric] refuses_flags_def [symmetric]
    by (simp add: cli_run_def run_app_def split: prod.split sum.split run_error.split)
qed

subsection \<open>The descent through the command tree\<close>

lemma descent_run:
  assumes "(command_step ^^ n) (c, args) (d, rest)"
  shows "n + length rest \<le> length args" and "suffix rest args" and "command_run app c args = command_run app d rest"
proof -
  have "n + length rest \<le> length args \<and> suffix rest args \<and> command_run app c args = command_run app d rest"
    using assms
  proof (induction n arbitrary: d rest)
    case (Suc n)
    then obtain e mid where n: "(command_step ^^ n) (c, args) (e, mid)" and step: "command_step (e, mid) (d, rest)"
      by auto
    from Suc.IH [OF n] command_step_shrinks [OF step] command_step_run [OF step, of app] show ?case
      by (auto intro: suffix_order.trans)
  qed simp
  then show "n + length rest \<le> length args" "suffix rest args" "command_run app c args = command_run app d rest"
    by simp_all
qed

lemma descent_stops:
  "\<exists>n d rest. (command_step ^^ n) (c, args) (d, rest) \<and> (\<forall>e more. \<not> command_step (d, rest) (e, more))"
proof (induction "length args" arbitrary: c args rule: less_induct)
  case less
  show ?case
  proof (cases "\<exists>e more. command_step (c, args) (e, more)")
    case False
    then have "(command_step ^^ 0) (c, args) (c, args) \<and> (\<forall>e more. \<not> command_step (c, args) (e, more))" by simp
    then show ?thesis by blast
  next
    case True
    then obtain e more where step: "command_step (c, args) (e, more)" by blast
    with command_step_shrinks have "length more < length args" by blast
    from less [OF this] obtain n d rest where "(command_step ^^ n) (e, more) (d, rest)"
      and ends: "\<forall>e more. \<not> command_step (d, rest) (e, more)" by blast
    with step have "(command_step ^^ Suc n) (c, args) (d, rest)" by (meson relpowp_Suc_I2)
    with ends show ?thesis by blast
  qed
qed

text \<open>
  C37: The descent through the command tree, whatever the tree and without \<open>--help\<close>, ends and loses nothing: it
  reaches a node that no step leads on from, after at most as many steps as there are arguments; what that node has
  left is an end of the argument list, and the run is what it makes of it. A leaf's operation runs with all the words after
  its flags and nothing else; so does, with no words, that of a node where the words have ended; a word that is no
  subcommand, and the lack of one, are errors.
\<close>

theorem command_descent_ends:
  assumes "\<not> app_help app"
  shows "(\<exists>n d rest. (command_step ^^ n) (c, args) (d, rest) \<and> (\<forall>e more. \<not> command_step (d, rest) (e, more)))
   \<and> (\<forall>n d rest. (command_step ^^ n) (c, args) (d, rest) \<longrightarrow>
        n + length rest \<le> length args \<and> suffix rest args
      \<and> (\<forall>given ws f. parse_flags [] [] rest = Inr (given, ws) \<and> cmd_execute d = Some f
           \<and> (ws = [] \<or> cmd_subcommands d = []) \<longrightarrow> command_run app c args = go_wrap Failed (f ws))
      \<and> (\<forall>given. parse_flags [] [] rest = Inr (given, []) \<and> cmd_execute d = None \<longrightarrow>
           (\<forall>w. fst (command_run app c args w) = Inl (Failed (missing_command d))))
      \<and> (\<forall>given a ws. parse_flags [] [] rest = Inr (given, a # ws) \<and> cmd_subcommands d \<noteq> []
           \<and> map_of (cmd_subcommands d) a = None \<longrightarrow>
           (\<forall>w. fst (command_run app c args w) = Inl (Failed (unknown_command d a)))))"
proof (intro conjI allI impI)
  show "\<exists>n d rest. (command_step ^^ n) (c, args) (d, rest) \<and> (\<forall>e more. \<not> command_step (d, rest) (e, more))"
    by (rule descent_stops)
  fix n d rest
  assume "(command_step ^^ n) (c, args) (d, rest)"
  note descent = descent_run [OF this]
  show "n + length rest \<le> length args" "suffix rest args" using descent by simp_all
  note run = descent(3) [of app] command_run.simps [of app d rest]
  show "command_run app c args = go_wrap Failed (f ws)"
    if "parse_flags [] [] rest = Inr (given, ws) \<and> cmd_execute d = Some f \<and> (ws = [] \<or> cmd_subcommands d = [])" for given ws f
    using that assms by (auto simp: run run_bare_def run_leaf_def execute_def split: list.split)
  show "fst (command_run app c args w) = Inl (Failed (missing_command d))"
    if "parse_flags [] [] rest = Inr (given, []) \<and> cmd_execute d = None" for given w
    using that assms by (simp add: run run_bare_def fail_run_def)
  show "fst (command_run app c args w) = Inl (Failed (unknown_command d a))"
    if "parse_flags [] [] rest = Inr (given, a # ws) \<and> cmd_subcommands d \<noteq> [] \<and> map_of (cmd_subcommands d) a = None" for given a ws w
    using that assms by (simp add: run unknown_subcommand_def fail_run_def)
qed

subsection \<open>Concrete runs\<close>

text \<open>
  A bus whose world is whether it is connected; it answers nothing, and closing it disconnects.
\<close>

definition demo_bus_conn :: "bool conn" where
  "demo_bus_conn =
     \<lparr>conn_introspect = (\<lambda>_ _ w. (Inl (OtherErr ''no object''), w)),
      conn_call = (\<lambda>_ _ _ _ w. (Inl (OtherErr ''no method''), w)), conn_export = (\<lambda>_ _ _ w. (Inr (), w)),
      conn_signal = (\<lambda>_ w. w), conn_remove_signal = (\<lambda>_ w. w), conn_close = (\<lambda>_. (Inr (), False))\<rparr>"

definition demo_dial :: "bool \<Rightarrow> (raw_err, bool, bool conn) go" where
  "demo_dial sys w = (if sys then (Inr demo_bus_conn, True) else (Inl (OtherErr ''no session bus''), w))"

lemma every_run_closes_its_connection_witness:
  "\<not> snd (cli_run '''' None (new_app table_godbus demo_dial (\<lambda>_ w. (Inr (), w)) (\<lambda>_ w. w)
       (\<lambda>w. (('''', None), w)) (\<lambda>_ w. (Inr '''', w)) [GotBool True]) [''adapter'', ''list''] False)"
  by (rule every_run_closes_its_connection [where P = Not and dial = demo_dial])
    (auto simp: demo_dial_def demo_bus_conn_def split: if_splits)

definition demo_app :: "(unit, string list) app" where
  "demo_app =
     \<lparr>app_session = False, app_help = False, app_json = False, app_stdout = (\<lambda>t w. (Inr (), w @ [t])),
      app_stderr = (\<lambda>_ w. w @ [''error'']), app_stdin = (\<lambda>w. (('''', None), w)),
      app_prompt = (\<lambda>_ w. (Inr '''', w)), app_new_client = (\<lambda>_ w. (Inl (Sentinel ErrInternal), w)),
      app_signals = []\<rparr>"

lemma global_flags_stand_anywhere_witness:
  "cli_run '''' None demo_app [''--json'', ''version''] [] = cli_run '''' None demo_app [''version'', ''--json'', ''--json''] []"
  by (rule global_flags_stand_anywhere) (auto simp: json_flags_def session_flags_def help_flags_def)

text \<open>A word that leads nowhere is fine under \<open>--help\<close>; an undefined flag is not.\<close>

lemma help_never_acts_witness:
  "cli_run '''' None (demo_app\<lparr>app_prompt := \<lambda>_ w. (Inr ''x'', w @ [''asked''])\<rparr>) [''connect'', ''-h''] []
     = cli_run '''' None demo_app [''connect'', ''-h''] []
   \<and> fst (cli_run '''' None demo_app [''connect'', ''-h''] []) = 0
   \<and> fst (cli_run '''' None demo_app [''-h'', ''--bogus''] []) = 2"
proof (intro conjI)
  let ?root = "root_command '''' None demo_app"
  have words: "filter (\<lambda>a. a \<notin> set (json_flags @ session_flags @ help_flags)) [''connect'', ''-h''] = [''connect'']"
    "filter (\<lambda>a. a \<notin> set (json_flags @ session_flags @ help_flags)) [''-h'', ''--bogus''] = [''--bogus'']"
    by (simp_all add: json_flags_def session_flags_def help_flags_def)
  have asked: "list_ex (\<lambda>a. a \<in> set help_flags) [''connect'', ''-h'']" "list_ex (\<lambda>a. a \<in> set help_flags) [''-h'', ''--bogus'']"
    by (simp_all add: help_flags_def)
  have out: "app_stdout (demo_app\<lparr>app_prompt := \<lambda>_ w. (Inr ''x'', w @ [''asked''])\<rparr>) = app_stdout demo_app"
    "app_stderr (demo_app\<lparr>app_prompt := \<lambda>_ w. (Inr ''x'', w @ [''asked''])\<rparr>) = app_stderr demo_app" by simp_all
  note connect = help_never_acts [OF asked(1) out, where stamped = "''''" and build_info = None and w = "[]"]
  note bogus = help_never_acts [OF asked(2) out, where stamped = "''''" and build_info = None and w = "[]"]
  from connect show "cli_run '''' None (demo_app\<lparr>app_prompt := \<lambda>_ w. (Inr ''x'', w @ [''asked''])\<rparr>) [''connect'', ''-h''] []
     = cli_run '''' None demo_app [''connect'', ''-h''] []" by (rule conjunct1)
  have parse: "parse_flags [] [] [''connect''] = Inr ([], [''connect''])" by (simp add: parse_one_def)
  then have "\<not> command_step (?root, [''connect'']) x" for x
    by (cases x) (auto simp: command_step_iff root_command_def)
  then have stays: "command_step\<^sup>*\<^sup>* (?root, [''connect'']) (d, rest) \<Longrightarrow> rest = [''connect'']" for d rest
    by (auto elim: converse_rtranclpE)
  have "\<not> (\<exists>d rest fmt fargs. command_step\<^sup>*\<^sup>* (?root, [''connect'']) (d, rest)
      \<and> parse_flags [] [] rest = Inl (FlagFailure fmt fargs))"
    using stays parse by fastforce
  with connect [THEN conjunct2] show "fst (cli_run '''' None demo_app [''connect'', ''-h''] []) = 0"
    unfolding words by simp
  have "\<exists>fmt fargs. parse_flags [] [] [''--bogus''] = Inl (FlagFailure fmt fargs)"
    by (simp add: parse_one_def flag_name_def split_value_def)
  then have "\<exists>d rest fmt fargs. command_step\<^sup>*\<^sup>* (?root, [''--bogus'']) (d, rest)
      \<and> parse_flags [] [] rest = Inl (FlagFailure fmt fargs)" by blast
  with bogus [THEN conjunct2] show "fst (cli_run '''' None demo_app [''-h'', ''--bogus''] []) = 2"
    unfolding words by simp
qed

lemma command_descent_ends_witness:
  "\<exists>f. cmd_execute (daemon_info_command demo_app) = Some f
     \<and> command_run demo_app (daemon_command demo_app) [''info'', ''x'', ''y''] = go_wrap Failed (f [''x'', ''y''])"
proof -
  have "parse_flags [] [] [''info'', ''x'', ''y''] = Inr ([], ''info'' # [''x'', ''y''])"
    by (simp add: parse_one_def)
  then have "command_step (daemon_command demo_app, [''info'', ''x'', ''y'']) (daemon_info_command demo_app, [''x'', ''y''])"
    by (rule command_step.intros) (simp_all add: daemon_command_def)
  then have step: "(command_step ^^ 1) (daemon_command demo_app, [''info'', ''x'', ''y'']) (daemon_info_command demo_app, [''x'', ''y''])"
    by (simp add: eq_OO)
  obtain f where f: "cmd_execute (daemon_info_command demo_app) = Some f" by (simp add: daemon_info_command_def)
  have leaf: "parse_flags [] [] [''x'', ''y''] = Inr ([], [''x'', ''y''])" "cmd_subcommands (daemon_info_command demo_app) = []"
    by (simp_all add: parse_one_def daemon_info_command_def)
  have "\<not> app_help demo_app" by (simp add: demo_app_def)
  from command_descent_ends [OF this, THEN conjunct2, rule_format, OF step] leaf f
  have "command_run demo_app (daemon_command demo_app) [''info'', ''x'', ''y''] = go_wrap Failed (f [''x'', ''y''])"
    by blast
  with f show ?thesis by blast
qed

end
