(* ===== verification/Cli_Queries.thy ===== *)
theory Cli_Queries
  imports Cli_Runs
begin

text \<open>
  What single commands promise: how a reference finds its object, what the arguments of \<open>scan\<close>,
  \<open>affinities set\<close> and \<open>monitor-signal\<close> come to, when \<open>connect\<close> asks for a passphrase, and the shape of the
  lines that a monitor prints.
\<close>

subsection \<open>References\<close>

lemma filter_singleton: "filter p xs = [m] \<Longrightarrow> \<exists>i < length xs. xs ! i = m \<and> (\<forall>j < length xs. p (xs ! j) \<longleftrightarrow> j = i)"
proof (induction xs)
  case (Cons x xs)
  show ?case
  proof (cases "p x")
    case True
    with Cons.prems have "m = x" and none: "filter p xs = []" by auto
    from none have "\<not> p (xs ! j)" if "j < length xs" for j using that by (simp add: filter_empty_conv)
    with True \<open>m = x\<close> show ?thesis by (intro exI [of _ 0]) (auto simp: nth_Cons split: nat.split)
  next
    case False
    with Cons obtain i where "i < length xs" "xs ! i = m" "\<forall>j < length xs. p (xs ! j) \<longleftrightarrow> j = i" by auto
    with False show ?thesis by (intro exI [of _ "Suc i"]) (auto simp: nth_Cons split: nat.split)
  qed
qed simp

lemma filter_one_index:
  "i < length xs \<Longrightarrow> (\<And>j. j < length xs \<Longrightarrow> p (xs ! j) \<longleftrightarrow> j = i) \<Longrightarrow> filter p xs = [xs ! i]"
proof (induction xs arbitrary: i)
  case (Cons x xs)
  show ?case
  proof (cases i)
    case 0
    have "\<not> p (xs ! j)" if "j < length xs" for j using Cons.prems(2) [of "Suc j"] that 0 by simp
    then have "filter p xs = []" by (auto simp: filter_empty_conv in_set_conv_nth)
    with Cons.prems(2) [of 0] 0 show ?thesis by simp
  next
    case (Suc k)
    with Cons.prems(1) have "k < length xs" by simp
    moreover have "p (xs ! j) \<longleftrightarrow> j = k" if "j < length xs" for j using Cons.prems(2) [of "Suc j"] that Suc by simp
    ultimately have "filter p xs = [xs ! k]" by (rule Cons.IH)
    with Cons.prems(2) [of 0] Suc show ?thesis by simp
  qed
qed simp

text \<open>
  C2: A reference finds an object exactly when, blanks around it aside, it is not empty and is the path or
  the name of just one entry of the daemon's listing, and the object at that entry's path can be had; so the path
  of an entry always finds that entry when no two entries share a path and no entry has that path for a name.
\<close>

theorem reference_finds_its_only_match:
  assumes "refs s = (Inr rs, s1)"
  shows "((\<exists>t. object_by_ref texts refs get ref s = (Inr obj, t)) \<longleftrightarrow>
            trim_space ref \<noteq> '''' \<and>
            (\<exists>i < length rs. (\<forall>j < length rs.
                   ref_path (rs ! j) = trim_space ref \<or> ref_name (rs ! j) = trim_space ref \<longleftrightarrow> j = i)
               \<and> (\<exists>t. get (ref_path (rs ! i)) s1 = (Inr obj, t))))
       \<and> (distinct (map ref_path rs) \<and> r \<in> set rs \<and> (\<forall>q \<in> set rs. ref_name q \<noteq> ref_path r)
            \<and> trim_space (ref_path r) = ref_path r \<and> ref_path r \<noteq> ''''
            \<longrightarrow> object_by_ref texts refs get (ref_path r) s = get (ref_path r) s1)"
  unfolding matches_ref_def [symmetric]
proof (rule conjI; (rule iffI | rule impI))
  assume "\<exists>t. object_by_ref texts refs get ref s = (Inr obj, t)"
  then obtain m t where ne: "trim_space ref \<noteq> ''''" and m: "filter (matches_ref (trim_space ref)) rs = [m]"
    and get: "get (ref_path m) s1 = (Inr obj, t)"
    using assms by (auto simp: object_by_ref_def Let_def go_bind_Inr split: if_splits list.splits)
  with filter_singleton [OF m] show "trim_space ref \<noteq> '''' \<and>
      (\<exists>i < length rs. (\<forall>j < length rs. matches_ref (trim_space ref) (rs ! j) \<longleftrightarrow> j = i)
         \<and> (\<exists>t. get (ref_path (rs ! i)) s1 = (Inr obj, t)))"
    by blast
next
  assume "trim_space ref \<noteq> '''' \<and>
      (\<exists>i < length rs. (\<forall>j < length rs. matches_ref (trim_space ref) (rs ! j) \<longleftrightarrow> j = i)
         \<and> (\<exists>t. get (ref_path (rs ! i)) s1 = (Inr obj, t)))"
  then obtain i t where ne: "trim_space ref \<noteq> ''''" and i: "i < length rs"
    "filter (matches_ref (trim_space ref)) rs = [rs ! i]" and "get (ref_path (rs ! i)) s1 = (Inr obj, t)"
    using filter_one_index by metis
  then show "\<exists>t. object_by_ref texts refs get ref s = (Inr obj, t)"
    using assms by (auto simp: object_by_ref_def Let_def go_bind_Inr)
next
  assume r: "distinct (map ref_path rs) \<and> r \<in> set rs \<and> (\<forall>q \<in> set rs. ref_name q \<noteq> ref_path r)
      \<and> trim_space (ref_path r) = ref_path r \<and> ref_path r \<noteq> ''''"
  then obtain i where i: "i < length rs" "rs ! i = r" by (metis in_set_conv_nth)
  have "matches_ref (ref_path r) (rs ! j) \<longleftrightarrow> j = i" if "j < length rs" for j
    using r i that by (auto simp: matches_ref_def distinct_conv_nth)
  from filter_one_index [OF i(1) this] have "filter (matches_ref (ref_path r)) rs = [r]" using i by simp
  with r show "object_by_ref texts refs get (ref_path r) s = get (ref_path r) s1"
    using assms by (auto simp: object_by_ref_def Let_def go_bind_Inr)
qed

definition demo_texts :: find_texts where
  "demo_texts = \<lparr>ft_required = '''', ft_none = '''', ft_unknown = ''%q'', ft_ambiguous = ''%q''\<rparr>"

definition demo_refs :: "obj_ref list" where
  "demo_refs = [to_ref ''wlan0'' ''/a'', to_ref ''wlan1'' ''/b'']"

lemma reference_finds_its_only_match_witness:
  "object_by_ref demo_texts (\<lambda>s. (Inr demo_refs, s)) (\<lambda>p s. (Inr p, s)) ''/b'' ((), ()) = (Inr ''/b'', ((), ()))
   \<and> (\<exists>t. object_by_ref demo_texts (\<lambda>s. (Inr demo_refs, s)) (\<lambda>p s. (Inr p, s)) ''wlan1'' ((), ()) = (Inr ''/b'', t))"
proof -
  have trim: "trim_space ''/b'' = ''/b''" "trim_space ''wlan1'' = ''wlan1''"
    by (rule trim_space_plain; simp add: plain_def)+
  note found = reference_finds_its_only_match [of "\<lambda>s. (Inr demo_refs, s)" "((), ())" demo_refs "((), ())" demo_texts
      "\<lambda>p s. (Inr p, s)" _ _ "to_ref ''wlan1'' ''/b''", OF refl]
  have "\<exists>t. object_by_ref demo_texts (\<lambda>s. (Inr demo_refs, s)) (\<lambda>p s. (Inr p, s)) ''wlan1'' ((), ()) = (Inr ''/b'', t)"
    unfolding found [THEN conjunct1] using trim
    by (auto simp: demo_refs_def to_ref_def less_Suc_eq intro!: exI [of _ 1])
  with found [THEN conjunct2] trim show ?thesis by (simp add: demo_refs_def to_ref_def)
qed

subsection \<open>Signal thresholds\<close>

definition in_band :: "int \<Rightarrow> int option \<times> int option \<Rightarrow> bool" where
  "in_band x b \<longleftrightarrow> (case fst b of None \<Rightarrow> True | Some lo \<Rightarrow> lo \<le> x) \<and> (case snd b of None \<Rightarrow> True | Some hi \<Rightarrow> x < hi)"

lemma check_descending_sorted: "check_descending ts = Inr () \<longleftrightarrow> sorted_wrt (>) ts"
proof (induction ts rule: check_descending.induct)
  case (1 t u ts)
  then show ?case by auto
qed simp_all

lemma collect_Inr_length: "collect f xs = Inr ys \<Longrightarrow> length ys = length xs"
  by (induction xs arbitrary: ys) (auto simp: try_bind_def split: sum.splits)

lemma above_prefix:
  assumes "sorted_wrt (>) ts" and "l \<le> length ts"
  shows "length (filter (\<lambda>t. x < t) ts) = l \<longleftrightarrow> (\<forall>i < l. x < ts ! i) \<and> (\<forall>i. l \<le> i \<and> i < length ts \<longrightarrow> ts ! i \<le> (x :: int))"
  using assms
proof (induction ts arbitrary: l)
  case (Cons t ts)
  show ?case
  proof (cases "x < t")
    case True
    show ?thesis
    proof (cases l)
      case 0
      with True show ?thesis by auto
    next
      case (Suc k)
      with Cons.prems have "sorted_wrt (>) ts" "k \<le> length ts" by auto
      from Cons.IH [OF this] True Suc show ?thesis
        by (auto simp: nth_Cons split: nat.splits)
    qed
  next
    case False
    with Cons.prems have none: "filter (\<lambda>t. x < t) ts = []" by (fastforce simp: filter_empty_conv)
    have le: "ts ! i \<le> x" if "i < length ts" for i using none that by (auto simp: filter_empty_conv not_less)
    show ?thesis
      using none False le by (cases l) (auto simp: nth_Cons split: nat.splits)
  qed
qed simp

lemma signal_band_above:
  assumes "sorted_wrt (>) ts" and "ts \<noteq> []" and "l \<le> length ts"
  shows "in_band x (signal_band (int l) ts) \<longleftrightarrow> length (filter (\<lambda>t. x < t) ts) = l"
proof -
  have less: "ts ! j < ts ! i" if "i < j" "j < length ts" for i j
    using assms(1) that by (simp add: sorted_wrt_iff_nth_less)
  have "(\<forall>i < l. x < ts ! i) \<longleftrightarrow> l = 0 \<or> x < ts ! (l - 1)"
    using less [of _ "l - 1"] assms(3) by (cases l) (auto simp: less_Suc_eq intro: less_trans)
  moreover have "(\<forall>i. l \<le> i \<and> i < length ts \<longrightarrow> ts ! i \<le> x) \<longleftrightarrow> l = length ts \<or> ts ! l \<le> x"
    using less [of l] assms(3) by (auto simp: le_less intro: order_trans less_imp_le) (metis le_less order_trans)
  ultimately show ?thesis
    using assms by (auto simp: above_prefix [OF assms(1,3)] in_band_def signal_band_def nat_diff_distrib)
qed

text \<open>
  C6: The thresholds that \<open>monitor-signal\<close> accepts, one for each argument, descend strictly, and the bands that
  the levels are printed with divide the strengths: a strength lies in the band of a level exactly when that many
  thresholds are above it (which is the level that iwd reports), so it lies in one band and no other.
\<close>

theorem signal_bands_divide_the_strengths:
  assumes "parse_signal_thresholds args = Inr ts" and "args \<noteq> []"
  shows "length ts = length args \<and> sorted_wrt (>) ts
       \<and> (\<forall>x. \<forall>l \<le> length ts. in_band x (signal_band (int l) ts) \<longleftrightarrow> l = length (filter (\<lambda>t. x < t) ts))
       \<and> (\<forall>x. \<exists>!l. l \<le> length ts \<and> in_band x (signal_band (int l) ts))"
proof -
  from assms(1) have len: "length ts = length args" and desc: "sorted_wrt (>) ts"
    by (auto simp: parse_signal_thresholds_def try_bind_def check_descending_sorted [symmetric]
        dest: collect_Inr_length split: sum.splits)
  with assms(2) have "ts \<noteq> []" by auto
  from signal_band_above [OF desc this] have
    bands: "in_band x (signal_band (int l) ts) \<longleftrightarrow> l = length (filter (\<lambda>t. x < t) ts)" if "l \<le> length ts" for x l
    using that by auto
  moreover have "\<exists>!l. l \<le> length ts \<and> in_band x (signal_band (int l) ts)" for x
    using bands [of _ x] length_filter_le [of "\<lambda>t. x < t" ts] by blast
  ultimately show ?thesis using len desc by blast
qed

lemma signal_bands_divide_the_strengths_witness:
  "\<exists>!l. l \<le> length [- 60, - 70 :: int] \<and> in_band (- 70) (signal_band (int l) [- 60, - 70])"
proof -
  have "trim_space ''-60'' = ''-60''" "trim_space ''-70'' = ''-70''" by (rule trim_space_plain; simp add: plain_def)+
  then have "parse_signal_thresholds [''-60'', ''-70''] = Inr [- 60, - 70]"
    by (simp add: parse_signal_thresholds_def parse_signal_threshold_def atoi_def Let_def digits_value_def
        is_digit_def digit_value_def code_def try_bind_def)
  from signal_bands_divide_the_strengths [OF this] show ?thesis by simp
qed

subsection \<open>Durations, and the options of a scan\<close>

lemma duration_terms_bound: "duration_terms d s = Some n \<Longrightarrow> d \<le> 2 ^ 63 \<Longrightarrow> n \<le> 2 ^ 63"
proof (induction d s rule: duration_terms.induct)
  case (1 d s)
  show ?case
  proof (cases "s = []")
    case True
    with 1 show ?thesis by (simp add: duration_terms.simps [of d "[]"])
  next
    case False
    with 1 show ?thesis by (auto simp: duration_terms.simps [of d s] split: option.splits if_splits)
  qed
qed

lemma parse_duration_bounds: "parse_duration s = Some d \<Longrightarrow> - (2 ^ 63) \<le> d \<and> d < 2 ^ 63"
  by (auto simp: parse_duration_def Let_def split: if_splits option.splits dest!: duration_terms_bound)

lemma scan_options_other_client: "scan_options (app\<lparr>app_new_client := new\<rparr>) t args = scan_options app t args"
proof -
  have "operation_flags (app\<lparr>app_new_client := new\<rparr>) = operation_flags app"
    by (intro ext) (auto simp: operation_flags_def split: sum.split flag_error.split)
  then show ?thesis by (simp add: scan_options_def)
qed

text \<open>
  The options of a scan: when they are accepted, no argument is left over and nothing was touched; the
  wait is positive and at most the longest duration there is, it is the default of 15 seconds unless \<open>--timeout\<close> was
  given, and \<open>--timeout\<close> was not given together with \<open>--no-wait\<close>. When they are not, the scan fails without
  dialing: its outcome does not depend on the client.
\<close>

theorem scan_options_are_bounded:
  fixes app :: "('c, 'w) app"
  shows "(\<forall>no_wait timeout w'. scan_options app text args w = (Inr (no_wait, timeout), w') \<longrightarrow>
            w' = w \<and> 0 < timeout \<and> timeout < 2 ^ 63
            \<and> (\<exists>given. parse_flags scan_flags [] args = Inr (given, []) \<and> no_wait = bool_flag given ''no-wait''
                 \<and> (no_wait \<longrightarrow> \<not> flag_given given ''timeout'')
                 \<and> (\<not> flag_given given ''timeout'' \<longrightarrow> timeout = scanWaitTimeout)))
       \<and> (\<forall>e w'. scan_options app ''spiderw station <station> scan [--no-wait] [--timeout=<duration>]'' args w = (Inl e, w') \<longrightarrow>
            run_station_scan (app\<lparr>app_new_client := new\<rparr>) ref args w = (Inl e, w'))"
proof (intro conjI allI impI)
  fix no_wait timeout w'
  assume "scan_options app text args w = (Inr (no_wait, timeout), w')"
  then obtain given where flags: "parse_flags scan_flags [] args = Inr (given, [])" and w': "w' = w"
    and given: "no_wait = bool_flag given ''no-wait''" "timeout = duration_flag given ''timeout'' scanWaitTimeout"
    and ok: "0 < timeout" "no_wait \<longrightarrow> \<not> flag_given given ''timeout''"
    by (auto simp: scan_options_def operation_flags_def Let_def split_beta elim!: go_bind_InrE
        split: sum.splits flag_error.splits if_splits)
  have "timeout < 2 ^ 63"
    using given(2) by (auto simp: duration_flag_def scanWaitTimeout_def split: option.splits dest: parse_duration_bounds)
  moreover have "\<not> flag_given given ''timeout'' \<longrightarrow> timeout = scanWaitTimeout"
    using given(2) by (auto simp: duration_flag_def flag_given_def)
  ultimately show "w' = w" "0 < timeout" "timeout < 2 ^ 63"
    "\<exists>given. parse_flags scan_flags [] args = Inr (given, []) \<and> no_wait = bool_flag given ''no-wait''
       \<and> (no_wait \<longrightarrow> \<not> flag_given given ''timeout'')
       \<and> (\<not> flag_given given ''timeout'' \<longrightarrow> timeout = scanWaitTimeout)"
    using flags w' given(1) ok by auto
next
  fix e w'
  assume "scan_options app ''spiderw station <station> scan [--no-wait] [--timeout=<duration>]'' args w = (Inl e, w')"
  then show "run_station_scan (app\<lparr>app_new_client := new\<rparr>) ref args w = (Inl e, w')"
    by (simp add: run_station_scan_def go_bind_Inl scan_options_other_client)
qed

lemma scan_options_are_bounded_witness:
  "scan_options demo_app ''spiderw station <station> scan [--no-wait] [--timeout=<duration>]'' [''x''] []
     = (Inl (usage ''spiderw station <station> scan [--no-wait] [--timeout=<duration>]''), [])
   \<and> run_station_scan demo_app ''wlan0'' [''x''] []
     = (Inl (usage ''spiderw station <station> scan [--no-wait] [--timeout=<duration>]''), [])"
proof -
  have e: "scan_options demo_app ''spiderw station <station> scan [--no-wait] [--timeout=<duration>]'' [''x''] []
     = (Inl (usage ''spiderw station <station> scan [--no-wait] [--timeout=<duration>]''), [])"
    by (simp add: scan_options_def operation_flags_def parse_flags.simps parse_one_def go_bind_def go_fail_def)
  then have "run_station_scan (demo_app\<lparr>app_new_client := app_new_client demo_app\<rparr>) ''wlan0'' [''x''] []
     = (Inl (usage ''spiderw station <station> scan [--no-wait] [--timeout=<duration>]''), [])"
    using scan_options_are_bounded [of demo_app "''spiderw station <station> scan [--no-wait] [--timeout=<duration>]''"
        "[''x'']" "[]" "app_new_client demo_app" "''wlan0''"] by blast
  with e show ?thesis by simp
qed

subsection \<open>Affinities\<close>

text \<open>What an argument of \<open>affinities set\<close> stands for, given the listed basic service sets.\<close>

definition affinity_of :: "obj_ref list \<Rightarrow> string \<Rightarrow> obj_ref \<Rightarrow> bool" where
  "affinity_of bsses raw r \<longleftrightarrow>
     (let a = trim_space raw in
      a \<noteq> '''' \<and>
      (if prefix ''/'' a then ref_path r = a
       else ref_path r \<noteq> '''' \<and> (\<exists>b \<in> set bsses. ref_path b = ref_path r \<and> equal_fold (ref_name b) a)))"

lemma affinity_ref_Inr: "affinity_ref bsses (trim_space raw) = Inr r \<Longrightarrow> trim_space raw \<noteq> '''' \<Longrightarrow> affinity_of bsses raw r"
  by (auto simp: affinity_ref_def affinity_of_def Let_def to_ref_def find_Some_iff split: if_splits option.splits;
      metis nth_mem)

lemma affinity_refs_listed:
  "snd (affinity_refs d (Some bsses) args s) = s
   \<and> (\<forall>rs. fst (affinity_refs d (Some bsses) args s) = Inr rs \<longrightarrow> list_all2 (affinity_of bsses) args rs)
   \<and> ((\<forall>a \<in> set args. prefix ''/'' (trim_space a)) \<longrightarrow> (\<exists>rs. fst (affinity_refs d (Some bsses) args s) = Inr rs))"
proof (induction args)
  case Nil
  then show ?case by (simp add: go_return_def)
next
  case (Cons raw args)
  show ?case
  proof (cases "trim_space raw = ''''")
    case True
    then show ?thesis by (auto simp: go_fail_def Let_def)
  next
    case False
    obtain r s' where rest: "affinity_refs d (Some bsses) args s = (r, s')" by (rule prod.exhaust)
    have "prefix ''/'' (trim_space raw) \<Longrightarrow> \<exists>x. affinity_ref bsses (trim_space raw) = Inr x"
      by (simp add: affinity_ref_def)
    with Cons rest False show ?thesis
      by (cases r; cases "affinity_ref bsses (trim_space raw)")
        (auto simp: go_bind_def go_return_def go_fail_def go_lift_def Let_def dest: affinity_ref_Inr)
  qed
qed

text \<open>
  The arguments of \<open>affinities set\<close>: the basic service sets are listed once, whatever the number of arguments,
  and when all arguments resolve, each gives one reference, in order: a path is taken as it is, even when
  it is not listed, and anything else has to be the address of a listed basic service set, upper and lower
  case aside, whose path is then the reference's. Paths alone always resolve.
\<close>

theorem affinities_follow_their_arguments:
  assumes "api_daemon client s = Some d" and "dm_basic_service_sets d s = (Inr bsses, s1)"
    and "args \<noteq> []" and "trim_space (hd args) \<noteq> ''''"
  shows "snd (resolve_affinity_refs client args s) = s1
       \<and> (\<forall>rs. fst (resolve_affinity_refs client args s) = Inr rs \<longrightarrow> list_all2 (affinity_of bsses) args rs)
       \<and> ((\<forall>a \<in> set args. prefix ''/'' (trim_space a)) \<longrightarrow> (\<exists>rs. fst (resolve_affinity_refs client args s) = Inr rs))"
proof -
  from assms(3,4) have "resolve_affinity_refs client args s = affinity_refs d (Some bsses) args s1"
    by (cases args) (simp_all add: resolve_affinity_refs_def assms(1,2) go_bind_def go_return_def Let_def)
  with affinity_refs_listed [of d bsses args s1] show ?thesis by simp
qed

text \<open>A client over a counter of the listings of basic service sets.\<close>

definition demo_daemon_api :: "(nat, 'w) daemon_api" where
  "demo_daemon_api =
     \<lparr>dm_info = (\<lambda>s. (Inl (Sentinel ErrInternal), s)),
       dm_version = (\<lambda>s. (Inl (Sentinel ErrInternal), s)),
       dm_state_directory = (\<lambda>s. (Inl (Sentinel ErrInternal), s)),
       dm_network_configuration_enabled = (\<lambda>s. (Inl (Sentinel ErrInternal), s)),
       dm_adapters = (\<lambda>s. (Inr [], s)), dm_devices = (\<lambda>s. (Inr [], s)), dm_stations = (\<lambda>s. (Inr [], s)),
       dm_access_points = (\<lambda>s. (Inr [], s)), dm_basic_service_sets = (\<lambda>(n, w). (Inr [to_ref ''aa:bb'' ''/x''], (n + 1, w))),
       dm_networks = (\<lambda>s. (Inr [to_ref ''home'' ''/n''], s)), dm_known_networks = (\<lambda>s. (Inr [], s))\<rparr>"

definition demo_client_api :: "(nat, 'w) client_api" where
  "demo_client_api =
     \<lparr>api_daemon = (\<lambda>_. Some demo_daemon_api),
      api_adapter = (\<lambda>_. go_fail (Sentinel ErrInternal)), api_device = (\<lambda>_. go_fail (Sentinel ErrInternal)),
      api_station = (\<lambda>_. go_fail (Sentinel ErrInternal)), api_access_point = (\<lambda>_. go_fail (Sentinel ErrInternal)),
      api_basic_service_set = (\<lambda>_. go_fail (Sentinel ErrInternal)), api_network = (\<lambda>_. go_fail (Sentinel ErrInternal)),
      api_known_network = (\<lambda>_. go_fail (Sentinel ErrInternal)), api_all_adapters = go_return [],
      api_all_devices = go_return [], api_all_stations = go_return [], api_all_access_points = go_return [],
      api_all_basic_service_sets = go_return [], api_all_networks = go_return [], api_all_known_networks = go_return [],
      api_register_agent = (\<lambda>_. go_return \<lparr>ag_unregister = go_return ()\<rparr>), api_close = go_return ()\<rparr>"

lemma affinities_follow_their_arguments_witness:
  "snd (resolve_affinity_refs demo_client_api [''AA:BB'', ''/y''] (0, ())) = (1, ())"
proof -
  have "trim_space (hd [''AA:BB'', ''/y'']) = ''AA:BB''"
    unfolding list.sel by (rule trim_space_plain; simp add: plain_def)
  then show ?thesis
    using affinities_follow_their_arguments [of demo_client_api "(0, ())" demo_daemon_api "[to_ref ''aa:bb'' ''/x'']"
        "(1, ())" "[''AA:BB'', ''/y'']"]
    by (simp add: demo_client_api_def demo_daemon_api_def Let_def)
qed

subsection \<open>Connecting\<close>

text \<open>What \<open>with_client\<close> does after the body of the command: the client is closed, its error dropped.\<close>

definition closing :: "('c, 'w) client_api \<Rightarrow> (gerror + unit) \<times> ('c \<times> 'w) \<Rightarrow> (gerror + unit) \<times> 'w" where
  "closing client rs = (fst rs, snd (snd (api_close client (snd rs))))"

lemma with_client_session:
  "app_new_client app (app_session app) w = (Inr (c, client), w1) \<Longrightarrow> with_client app fn w = closing client (fn client (c, w1))"
  by (simp add: with_client_def closing_def split_beta)

text \<open>
  C25: Connecting to a network found on the bus. If it is open or already known, no passphrase is read
  or asked for and no agent is registered. Otherwise the passphrase is had first, from the flag, from standard
  input or from the prompt in this order; if there is none, nothing is registered and iwd is not asked to
  connect. Then an agent that answers requests for a passphrase with this one, and no other request, is registered; if that works,
  the network is connected and its state printed, the agent is unregistered whatever came of it, and the error is the connecting's. The client is closed last in every case.
\<close>

theorem connecting_keeps_the_agent_for_the_call:
  assumes "connect_options app ''connect'' networkConnectUsage args w0 = (Inr (given, secret, from_stdin), w)"
    and "app_new_client app (app_session app) w = (Inr (c, client), w1)"
    and "network_by_ref (Some client) ref (c, w1) = (Inr n, s)"
    and "nw_properties n s = (Inr props, (c2, w2))"
  defines "needs \<equiv> nq_type props \<noteq> NetworkTypeOpen \<and> nq_known_network props = None"
    and "asked \<equiv> (if given then (Inr secret, w2)
                  else if from_stdin then read_passphrase_stdin app w2
                  else app_prompt app (''Passphrase for '' @ ref @ '': '') w2)"
    and "connect \<equiv> go_bind (nw_connect n) (\<lambda>_. show_value app nw_connected (network_connected_result ref) n)"
  shows "run_network_connect app ref args w0 =
           closing client
             (if \<not> needs then connect (c2, w2)
              else
                (case asked of
                   (Inl e, w3) \<Rightarrow> (Inl (Foreign e), (c2, w3))
                 | (Inr pass, w3) \<Rightarrow>
                     (case api_register_agent client
                             \<lparr>Passphrase = Some (\<lambda>_ _ u. (Inr pass, u)), PrivateKeyPassphrase = None,
                              UserNameAndPassword = None, UserPassword = None, OnCancel = None, OnRelease = None\<rparr>
                             (c2, w3) of
                        (Inl e, t) \<Rightarrow> (Inl e, t)
                      | (Inr agent, t) \<Rightarrow>
                          (case connect t of
                             (r, t') \<Rightarrow> (r, snd (ag_unregister agent t'))))))"
proof -
  have body: "run_network_connect app ref args w0 = closing client
      ((if needs
        then go_bind (go_wrap Foreign (on_world (resolve_connect_passphrase app ref given secret from_stdin))) (\<lambda>pass.
             go_bind (api_register_agent client (passphrase_agent (go_return pass))) (\<lambda>agent.
             deferred (ag_unregister agent) (connect_and_report app ref n)))
        else connect_and_report app ref n) (c2, w2))"
    using assms(1,3,4) with_client_session [OF assms(2)]
    by (simp add: run_network_connect_def go_bind_Inr network_needs_agent_def go_return_def needs_def)
  have agent: "passphrase_agent (go_return p) =
      \<lparr>Passphrase = Some (\<lambda>_ _ u. (Inr p, u)), PrivateKeyPassphrase = None, UserNameAndPassword = None,
       UserPassword = None, OnCancel = None, OnRelease = None\<rparr>" for p :: string
    by (simp add: passphrase_agent_def go_return_def)
  have connect: "connect_and_report app ref n = connect" by (simp add: connect_and_report_def connect_def)
  have pass: "go_wrap Foreign (on_world (resolve_connect_passphrase app ref given secret from_stdin)) (c2, w2) =
      (case asked of (Inl e, w3) \<Rightarrow> (Inl (Foreign e), (c2, w3)) | (Inr p, w3) \<Rightarrow> (Inr p, (c2, w3)))"
    by (auto simp: asked_def resolve_connect_passphrase_def go_wrap_def on_world_def go_return_def split: prod.split sum.split)
  show ?thesis
    unfolding body connect agent
    by (auto simp: go_bind_def pass deferred_def split: prod.split sum.split)
qed

text \<open>A network that needs an agent, on a world that logs what is done; its client is \<open>demo_client_api\<close> otherwise.\<close>

definition demo_log :: "string \<Rightarrow> 'c \<times> string list \<Rightarrow> 'c \<times> string list" where
  "demo_log e s = (fst s, snd s @ [e])"

definition demo_network_api :: "(nat, string list) network_api" where
  "demo_network_api =
     \<lparr>nw_path = ''/n'', nw_name = go_return ''home'', nw_connected = go_return True, nw_device = go_return ''/d'',
      nw_type = go_return NetworkTypePSK, nw_known_network = go_return None, nw_ess = go_return [],
      nw_connect = (\<lambda>s. (Inr (), demo_log ''connect'' s)),
      nw_properties = go_return
        \<lparr>nq_name = ''home'', nq_connected = False, nq_device = to_ref '''' ''/d'', nq_type = NetworkTypePSK,
         nq_known_network = None, nq_ess = []\<rparr>,
      nw_subscribe_connected = (\<lambda>_. go_fail (Sentinel ErrInternal)),
      nw_subscribe_known = (\<lambda>_. go_fail (Sentinel ErrInternal)),
      nw_subscribe_ess = (\<lambda>_. go_fail (Sentinel ErrInternal))\<rparr>"

definition demo_connecting :: "(nat, string list) client_api" where
  "demo_connecting = demo_client_api
     \<lparr>api_network := (\<lambda>_. go_return demo_network_api),
      api_register_agent := (\<lambda>cc s. (Inr \<lparr>ag_unregister = (\<lambda>s. (Inr (), demo_log ''unregister'' s))\<rparr>,
        demo_log (case Passphrase cc of None \<Rightarrow> ''no passphrase''
                  | Some f \<Rightarrow> (case fst (f 0 ''/n'' (snd s)) of Inl _ \<Rightarrow> ''refused'' | Inr p \<Rightarrow> ''agent with '' @ p)) s)),
      api_close := (\<lambda>s. (Inr (), demo_log ''close'' s))\<rparr>"

definition demo_connect_app :: "(nat, string list) app" where
  "demo_connect_app =
     \<lparr>app_session = False, app_help = False, app_json = False, app_stdout = (\<lambda>t w. (Inr (), w @ [t])),
      app_stderr = (\<lambda>_ w. w), app_stdin = (\<lambda>w. (('''', None), w)), app_prompt = (\<lambda>_ w. (Inr '''', w)),
      app_new_client = (\<lambda>_ w. (Inr (0, demo_connecting), w @ [''dial''])), app_signals = []\<rparr>"

lemma demo_connect_options:
  "connect_options demo_connect_app ''connect'' networkConnectUsage [''--passphrase=secret''] []
     = (Inr (True, ''secret'', False), [])"
  by (simp add: connect_options_def operation_flags_def connect_flags_def parse_one_def flag_name_def split_value_def
      give_flag_def go_bind_Inr flag_given_def bool_flag_def string_flag_def go_return_def try_bind_def)

lemma demo_network_found:
  "network_by_ref (Some demo_connecting) ''home'' (0, [''dial'']) = (Inr demo_network_api, (0, [''dial'']))"
proof -
  have "trim_space ''home'' = ''home''" by (rule trim_space_plain; simp add: plain_def)
  then show ?thesis
    by (simp add: network_by_ref_def network_refs_def listed_refs_def object_by_ref_def demo_connecting_def
        demo_client_api_def demo_daemon_api_def go_bind_def go_return_def matches_ref_def to_ref_def)
qed

lemma connecting_keeps_the_agent_for_the_call_witness:
  "run_network_connect demo_connect_app ''home'' [''--passphrase=secret''] [] =
     (Inr (), [''dial'', ''agent with secret'', ''connect'', ''true'' @ newline, ''unregister'', ''close''])"
proof -
  have new: "app_new_client demo_connect_app (app_session demo_connect_app) [] = (Inr (0, demo_connecting), [''dial''])"
    by (simp add: demo_connect_app_def)
  have props: "\<exists>p. nw_properties demo_network_api (0, [''dial'']) = (Inr p, (0, [''dial'']))
      \<and> nq_type p = NetworkTypePSK \<and> nq_known_network p = None"
    by (simp add: demo_network_api_def go_return_def)
  then obtain p where p: "nw_properties demo_network_api (0, [''dial'']) = (Inr p, (0, [''dial'']))"
    "nq_type p = NetworkTypePSK" "nq_known_network p = None" by blast
  show ?thesis
    unfolding connecting_keeps_the_agent_for_the_call [OF demo_connect_options new demo_network_found p(1)]
    using p(2,3)
    by (simp add: closing_def demo_connecting_def demo_network_api_def connect_and_report_def show_value_def
        go_bind_def go_return_def print_output_def on_world_def demo_connect_app_def
        network_connected_result_def bool_result_def bool_text_def demo_log_def NetworkTypePSK_def NetworkTypeOpen_def)
qed

subsection \<open>The lines of a monitor\<close>

fun plain_numbers :: "json \<Rightarrow> bool" where
  "plain_numbers (JNum n) \<longleftrightarrow> CHR 0x0A \<notin> set n"
| "plain_numbers (JArr xs) \<longleftrightarrow> (\<forall>x \<in> set xs. plain_numbers x)"
| "plain_numbers (JObj kvs) \<longleftrightarrow> (\<forall>kv \<in> set kvs. plain_numbers (snd kv))"
| "plain_numbers _ \<longleftrightarrow> True"

lemma hex_digit_no_newline: "n < 16 \<Longrightarrow> hex_digit n \<noteq> CHR 0x0A"
  by (auto simp: hex_digit_def char_of_eq_iff take_bit_eq_mod)

lemma json_chars_no_newline: "CHR 0x0A \<notin> set (json_chars s)"
proof (induction s rule: json_chars.induct)
  case (2 c s)
  have "code c div 16 < 16" unfolding code_def by (rule less_mult_imp_div_less) simp
  then have esc: "CHR 0x0A \<notin> set (json_escape (code c))"
    using hex_digit_no_newline [of "code c div 16"] hex_digit_no_newline [of "code c mod 16"]
    by (simp add: json_escape_def eq_commute [of "CHR 0x0A"])
  have plain: "CHR 0x0A \<noteq> c" if "code c \<noteq> 10" using that by (auto simp: code_def)
  show ?case using 2 esc plain by (simp split: if_split)
qed simp

lemma join_no_newline:
  "CHR 0x0A \<notin> set sep \<Longrightarrow> (\<And>x. x \<in> set xs \<Longrightarrow> CHR 0x0A \<notin> set x) \<Longrightarrow> CHR 0x0A \<notin> set (join sep xs)"
  by (cases xs) (auto simp: join_def)

lemma json_compact_no_newline: "plain_numbers j \<Longrightarrow> CHR 0x0A \<notin> set (json_compact j)"
proof (induction j rule: json_compact.induct)
  case (5 xs)
  then show ?case using join_no_newline [of "'',''" "map json_compact xs"] by auto
next
  case (6 kvs)
  then have "CHR 0x0A \<notin> set (join '','' (map (\<lambda>kv. json_string (fst kv) @ '':'' @ json_compact (snd kv)) kvs))"
    by (intro join_no_newline) (auto simp: json_string_def json_chars_no_newline)
  then show ?case by simp
qed (auto simp: bool_text_def json_string_def json_chars_no_newline)

lemma decimal_nat_no_newline: "CHR 0x0A \<notin> set (decimal_nat n)"
proof (induction n rule: decimal_nat.induct)
  case (1 n)
  have "char_of (48 + k) \<noteq> CHR 0x0A" if "k < 10" for k :: nat
    using that by (simp add: char_of_eq_iff take_bit_eq_mod)
  then have "CHR 0x0A \<noteq> char_of (48 + k)" if "k < 10" for k :: nat using that by metis
  with 1 show ?case by (simp add: decimal_nat.simps [of n])
qed

lemma decimal_no_newline: "CHR 0x0A \<notin> set (decimal n)"
  by (simp add: decimal_def decimal_nat_no_newline)

text \<open>Under \<open>--json\<close> a line is written with a text that has its only line end at its end.\<close>

definition agree_on_lines :: "('c, 'w) app \<Rightarrow> (string \<Rightarrow> (gerror, 'w, unit) go) \<Rightarrow> bool" where
  "agree_on_lines app out \<longleftrightarrow> app_json app \<and> (\<forall>t. CHR 0x0A \<notin> set t \<longrightarrow> out (t @ newline) = app_stdout app (t @ newline))"

lemma write_line_agrees:
  "agree_on_lines app out \<Longrightarrow> plain_numbers j \<Longrightarrow> write_line (app\<lparr>app_stdout := out\<rparr>) t j = write_line app t j"
  by (simp add: agree_on_lines_def write_line_def json_compact_no_newline)

lemma plain_optional: "(\<And>y. plain_numbers (f y)) \<Longrightarrow> plain_numbers (optional_json f x)"
  by (simp add: optional_json_def split: option.split)

lemma plain_slice: "(\<And>y. plain_numbers (f y)) \<Longrightarrow> plain_numbers (slice_json f x)"
  by (auto simp: slice_json_def split: option.split)

lemma print_lines_agree:
  assumes "agree_on_lines app out"
  defines "app' \<equiv> app\<lparr>app_stdout := out\<rparr>"
  shows "print_adapter_powered_line app' = print_adapter_powered_line app"
    and "print_device_powered_line app' = print_device_powered_line app"
    and "print_device_mode_line app' = print_device_mode_line app"
    and "print_station_state_line app' = print_station_state_line app"
    and "print_station_scanning_line app' = print_station_scanning_line app"
    and "print_station_connected_network_line app' = print_station_connected_network_line app"
    and "print_station_connected_ap_line app' = print_station_connected_ap_line app"
    and "print_station_affinities_line app' = print_station_affinities_line app"
    and "print_access_point_started_line app' = print_access_point_started_line app"
    and "print_access_point_scanning_line app' = print_access_point_scanning_line app"
    and "print_network_connected_line app' = print_network_connected_line app"
    and "print_network_known_network_line app' = print_network_known_network_line app"
    and "print_network_bsses_line app' = print_network_bsses_line app"
    and "print_known_network_auto_connect_line app' = print_known_network_auto_connect_line app"
    and "print_known_network_hidden_line app' = print_known_network_hidden_line app"
    and "print_known_network_last_connected_line app' = print_known_network_last_connected_line app"
  by (intro ext; simp add: line_defs print_line_def app'_def write_line_agrees [OF assms(1)] plain_optional plain_slice
      name_ref_json_def addr_ref_json_def adapter_powered_result_def device_powered_result_def device_mode_result_def
      network_connected_result_def network_bsses_result_def known_network_auto_connect_result_def bool_result_def
      text_result_def)+

lemma run_watch_agrees: "agree_on_lines app out \<Longrightarrow> run_watch (app\<lparr>app_stdout := out\<rparr>) client wt = run_watch app client wt"
  by (cases wt) (simp_all add: print_lines_agree)

lemma watch_until_interrupt_agrees:
  "agree_on_lines app out \<Longrightarrow> watch_until_interrupt (app\<lparr>app_stdout := out\<rparr>) client = watch_until_interrupt app client"
  by (intro ext) (simp add: watch_until_interrupt_def run_watch_agrees)

lemma monitor_object_agrees:
  "agree_on_lines app out \<Longrightarrow> monitor_object by_ref stream (app\<lparr>app_stdout := out\<rparr>) ref = monitor_object by_ref stream app ref"
  by (intro ext) (simp add: monitor_object_def watch_until_interrupt_agrees with_client_def)

text \<open>
  C39: Under \<open>--json\<close> the output of a monitor is line-delimited JSON: every text it writes, for the current value and
  for every change it hears of, whatever names and addresses iwd reports, is one line with its line end. So
  a writer is only ever given such texts: two writers that agree on them give the same run.
\<close>

theorem json_monitors_write_single_lines:
  assumes "agree_on_lines app out"
  shows "monitor_adapter_powered (app\<lparr>app_stdout := out\<rparr>) ref args = monitor_adapter_powered app ref args
       \<and> monitor_device (app\<lparr>app_stdout := out\<rparr>) ref args = monitor_device app ref args
       \<and> monitor_station (app\<lparr>app_stdout := out\<rparr>) ref args = monitor_station app ref args
       \<and> monitor_network (app\<lparr>app_stdout := out\<rparr>) ref args = monitor_network app ref args
       \<and> monitor_known_network (app\<lparr>app_stdout := out\<rparr>) ref args = monitor_known_network app ref args
       \<and> monitor_access_point (app\<lparr>app_stdout := out\<rparr>) ref args = monitor_access_point app ref args
       \<and> run_station_monitor_signal (app\<lparr>app_stdout := out\<rparr>) ref args = run_station_monitor_signal app ref args"
proof -
  note lines = print_lines_agree [OF assms] monitor_object_agrees [OF assms]
  have level: "signal_changed (app\<lparr>app_stdout := out\<rparr>) = signal_changed app"
    by (intro ext) (simp add: signal_changed_def print_signal_level_line_def write_line_agrees [OF assms] decimal_no_newline)
  have "monitor_adapter_powered (app\<lparr>app_stdout := out\<rparr>) ref args = monitor_adapter_powered app ref args"
    by (simp add: monitor_adapter_powered_def lines)
  moreover have "monitor_device (app\<lparr>app_stdout := out\<rparr>) ref args = monitor_device app ref args"
    by (simp add: monitor_device_def lines cong: if_cong)
  moreover have "monitor_station (app\<lparr>app_stdout := out\<rparr>) ref args = monitor_station app ref args"
    by (simp add: monitor_station_def stream_station_property_def [abs_def] lines cong: if_cong)
  moreover have "monitor_network (app\<lparr>app_stdout := out\<rparr>) ref args = monitor_network app ref args"
    by (simp add: monitor_network_def stream_network_property_def [abs_def] lines cong: if_cong)
  moreover have "monitor_known_network (app\<lparr>app_stdout := out\<rparr>) ref args = monitor_known_network app ref args"
    by (simp add: monitor_known_network_def stream_known_network_property_def [abs_def] lines cong: if_cong)
  moreover have "monitor_access_point (app\<lparr>app_stdout := out\<rparr>) ref args = monitor_access_point app ref args"
    by (simp add: monitor_access_point_def stream_access_point_property_def [abs_def] lines cong: if_cong)
  moreover have "run_station_monitor_signal (app\<lparr>app_stdout := out\<rparr>) ref args = run_station_monitor_signal app ref args"
    by (simp add: run_station_monitor_signal_def level with_client_def)
  ultimately show ?thesis by simp
qed

text \<open>A writer that breaks every text but single lines.\<close>

definition demo_line_writer :: "string \<Rightarrow> (gerror, string list, unit) go" where
  "demo_line_writer t w =
     (if t \<noteq> [] \<and> last t = CHR 0x0A \<and> CHR 0x0A \<notin> set (butlast t) then (Inr (), w @ [t]) else (Inl (Sentinel ErrInternal), w))"

lemma json_monitors_write_single_lines_witness:
  "run_station_monitor_signal (demo_connect_app\<lparr>app_json := True, app_stdout := demo_line_writer\<rparr>) ''wlan0'' [''-60''] []
     = run_station_monitor_signal (demo_connect_app\<lparr>app_json := True\<rparr>) ''wlan0'' [''-60''] []"
proof -
  have "agree_on_lines (demo_connect_app\<lparr>app_json := True\<rparr>) demo_line_writer"
    by (auto simp: agree_on_lines_def demo_line_writer_def demo_connect_app_def newline_def butlast_append intro!: ext)
  from json_monitors_write_single_lines [OF this, of "''wlan0''" "[''-60'']"]
  show ?thesis by simp
qed

end
