(* ===== verification/Error_Text.thy ===== *)
theory Error_Text
  imports Agents
begin

text \<open>
  What the \<open>Error()\<close> methods of the three structured error types print (\<open>internal/iwdbus/errors.go\<close>,
  \<open>internal/core/errors.go\<close>, \<open>errors.go\<close>), the texts of the sentinels, and the labels of kinds and
  resources (\<open>internal/failure/kind.go\<close>).

  The lemmas show which text survives the layers. \<open>text_wrapper\<close> is the contract of a wrapper that
  prints all it wraps; the D-Bus layer and core keep it. The public type does not print
  the frame of the core error it wraps, only that error's cause, so its text repeats nothing, and
  shows one failure of two when core joined them.
\<close>

subsection \<open>Labels and sentinels\<close>

fun kind_text :: "kind \<Rightarrow> string" where
  "kind_text KindUnavailable = ''unavailable''"
| "kind_text KindInvalidState = ''invalid state''"
| "kind_text KindInvalidArgument = ''invalid argument''"
| "kind_text KindOperationFailed = ''operation failed''"
| "kind_text KindInternal = ''internal error''"

fun resource_text :: "resource \<Rightarrow> string" where
  "resource_text ResourceUnknown = ''''"
| "resource_text ResourceClient = ''client''"
| "resource_text ResourceDaemon = ''daemon''"
| "resource_text ResourceAdapter = ''adapter''"
| "resource_text ResourceDevice = ''device''"
| "resource_text ResourceBasicServiceSet = ''basic service set''"
| "resource_text ResourceStation = ''station''"
| "resource_text ResourceNetwork = ''network''"
| "resource_text ResourceKnownNetwork = ''known network''"
| "resource_text ResourceAgent = ''agent''"
| "resource_text ResourceSimpleConfiguration = ''simple configuration''"
| "resource_text ResourceAccessPoint = ''access point''"

definition error_label :: "kind \<Rightarrow> resource \<Rightarrow> string" where
  "error_label k r =
     (if r = ResourceUnknown then kind_text k else resource_text r @ '' '' @ kind_text k)"

definition public_error_label :: "kind \<Rightarrow> resource \<Rightarrow> string" where
  "public_error_label k r =
     (if r = ResourceUnknown then kind_text k else resource_text r @ '' '' @ kind_text k)"

fun dbus_kind_text :: "dbus_kind \<Rightarrow> string" where
  "dbus_kind_text ErrDBusConnection = ''dbus connection error''"
| "dbus_kind_text ErrDBusMethod = ''dbus method error''"
| "dbus_kind_text ErrDBusProperty = ''dbus property error''"
| "dbus_kind_text ErrDBusIntrospection = ''dbus introspection error''"
| "dbus_kind_text ErrDBusVariant = ''dbus variant conversion error''"

fun uninitialized_text :: "iwdbus_object \<Rightarrow> string" where
  "uninitialized_text DaemonObj = ''daemon not initialized''"
| "uninitialized_text AdapterObj = ''adapter is not initialized''"
| "uninitialized_text DeviceObj = ''device is not initialized''"
| "uninitialized_text StationObj = ''station is not initialized''"
| "uninitialized_text BasicServiceSetObj = ''basic service set is not initialized''"
| "uninitialized_text NetworkObj = ''network is not initialized''"
| "uninitialized_text KnownNetworkObj = ''known network is not initialized''"
| "uninitialized_text AgentManagerObj = ''agent manager is not initialized''"
| "uninitialized_text SimpleConfigurationObj = ''simple configuration is not initialized''"
| "uninitialized_text AccessPointObj = ''access point is not initialized''"

fun not_initialized_text :: "core_object \<Rightarrow> string" where
  "not_initialized_text DaemonWrapper = ''daemon not initialized''"
| "not_initialized_text AdapterWrapper = ''adapter not initialized''"
| "not_initialized_text DeviceWrapper = ''device not initialized''"
| "not_initialized_text BasicServiceSetWrapper = ''basic service set not initialized''"
| "not_initialized_text StationWrapper = ''station not initialized''"
| "not_initialized_text NetworkWrapper = ''network not initialized''"
| "not_initialized_text KnownNetworkWrapper = ''known network not initialized''"
| "not_initialized_text AgentWrapper = ''agent not initialized''"
| "not_initialized_text SignalLevelAgentWrapper = ''signal level agent not initialized''"
| "not_initialized_text SimpleConfigurationWrapper = ''simple configuration not initialized''"
| "not_initialized_text AccessPointWrapper = ''access point not initialized''"

fun iwd_sentinel_text :: "iwd_sentinel \<Rightarrow> string" where
  "iwd_sentinel_text ErrNoAgent = ''no credentials agent registered''"
| "iwd_sentinel_text ErrAborted = ''iwd operation aborted''"
| "iwd_sentinel_text ErrBusy = ''iwd is busy''"
| "iwd_sentinel_text ErrFailed = ''iwd operation failed''"
| "iwd_sentinel_text ErrNotSupported = ''iwd operation not supported''"
| "iwd_sentinel_text ErrTimeout = ''iwd operation timed out''"
| "iwd_sentinel_text ErrInProgress = ''iwd operation already in progress''"
| "iwd_sentinel_text ErrNotConfigured = ''iwd network not configured''"
| "iwd_sentinel_text ErrNotFound = ''iwd object not found''"
| "iwd_sentinel_text ErrAlreadyExists = ''iwd object already exists''"
| "iwd_sentinel_text ErrInvalidArguments = ''iwd invalid arguments''"
| "iwd_sentinel_text ErrInvalidFormat = ''iwd invalid format''"
| "iwd_sentinel_text ErrNotConnected = ''iwd not connected''"
| "iwd_sentinel_text ErrNotImplemented = ''iwd operation not implemented''"
| "iwd_sentinel_text ErrServiceSetOverlap = ''iwd service set overlap''"
| "iwd_sentinel_text ErrAlreadyProvisioned = ''iwd network already provisioned''"
| "iwd_sentinel_text ErrNotHidden = ''iwd network not hidden''"
| "iwd_sentinel_text ErrNotAvailable = ''iwd operation not available''"
| "iwd_sentinel_text ErrPermissionDenied = ''iwd permission denied''"
| "iwd_sentinel_text ErrWSCSessionOverlap = ''iwd WSC session overlap''"
| "iwd_sentinel_text ErrWSCNoCredentials = ''iwd WSC obtained no usable credentials''"
| "iwd_sentinel_text ErrWSCNotReachable = ''iwd WSC network not reachable''"
| "iwd_sentinel_text ErrWSCWalkTimeExpired = ''iwd WSC walk time expired''"
| "iwd_sentinel_text ErrWSCTimeExpired = ''iwd WSC time expired''"

fun sentinel_text :: "sentinel \<Rightarrow> string" where
  "sentinel_text (DBusS k) = dbus_kind_text k"
| "sentinel_text (UninitializedS x) = uninitialized_text x"
| "sentinel_text (NotInitializedS x) = not_initialized_text x"
| "sentinel_text (IwdS i) = iwd_sentinel_text i"
| "sentinel_text ErrAgentCanceled = ''credentials request canceled''"
| "sentinel_text ErrCore = ''core error''"
| "sentinel_text ErrSpiderw = ''spiderw api error''"
| "sentinel_text ErrUnavailable = ''unavailable''"
| "sentinel_text ErrInvalidState = ''invalid state''"
| "sentinel_text ErrInvalidArgument = ''invalid argument''"
| "sentinel_text ErrInternal = ''internal error''"

subsection \<open>The texts of errors\<close>

text \<open>\<open>errors.Join\<close> prints its errors one per line.\<close>

fun join_lines :: "string list \<Rightarrow> string" where
  "join_lines [] = []"
| "join_lines [s] = s"
| "join_lines (s # t # ts) = s @ CHR 0x0A # join_lines (t # ts)"

text \<open>The part that the structured types of core and of the public package print alike.\<close>

definition framed :: "string \<Rightarrow> string \<Rightarrow> string \<Rightarrow> string \<Rightarrow> string" where
  "framed label op cause details =
     label @ '': Op='' @ op @ '': '' @ cause @ (if details \<noteq> '''' then '' ('' @ details @ '')'' else '''')"

lemma core_error_is_part:
  "CoreError k r op d c \<in> set (chain e) \<Longrightarrow> size c < size e"
proof (induction e rule: chain.induct)
  case (3 f args es)
  then show ?case by (fastforce dest: size_list_estimation [of _ _ _ size] simp: less_Suc_eq)
next
  case (4 es)
  then show ?case by (fastforce dest: size_list_estimation [of _ _ _ size] simp: less_Suc_eq)
qed auto

lemma first_some_mem: "first_some f xs = Some y \<Longrightarrow> \<exists>x \<in> set xs. f x = Some y"
  by (induction xs) (auto split: option.splits)

lemma as_core_error_is_part:
  assumes "as_core_error e = Some (k, r, op, d, c)"
  shows "size c < size e"
proof -
  from first_some_mem [OF assms [unfolded as_core_error_def]] obtain x
    where x: "x \<in> set (chain e)" and y: "(case x of CoreError k r op d c \<Rightarrow> Some (k, r, op, d, c) | _ \<Rightarrow> None) = Some (k, r, op, d, c)"
    by blast
  from y have "x = CoreError k r op d c" by (cases x) simp_all
  with x have "CoreError k r op d c \<in> set (chain e)" by simp
  then show ?thesis by (rule core_error_is_part)
qed

function error_text :: "gerror \<Rightarrow> string" where
  "error_text (Sentinel s) = sentinel_text s"
| "error_text (Foreign r) = err_text r"
| "error_text (Errorf f args es) = format_text f args (map error_text es)"
| "error_text (Joined es) = join_lines (map error_text es)"
| "error_text (IwdbusError k ctx e) = dbus_kind_text k @ '': '' @ ctx @ '': '' @ error_text e"
| "error_text (CoreError k r op d e) = framed (error_label k r) op (error_text e) d"
| "error_text (PublicError k r op d e) =
     framed (public_error_label k r) op
       (case as_core_error e of Some (_, _, _, _, cause) \<Rightarrow> error_text cause | None \<Rightarrow> error_text e) d"
  by pat_completeness auto

termination
  by (relation "measure size") (auto dest: as_core_error_is_part size_list_estimation [of _ _ _ size] simp: less_Suc_eq_le intro: size_list_estimation')

subsection \<open>Text that survives wrapping\<close>

text \<open>A wrapper whose text contains all of the wrapped error's.\<close>

locale text_wrapper =
  fixes wrap :: "gerror \<Rightarrow> gerror"
  assumes shows_all: "sublist (error_text e) (error_text (wrap e))"
begin

lemma keeps_text: "sublist s (error_text e) \<Longrightarrow> sublist s (error_text (wrap e))"
  by (rule sublist_order.order_trans [OF _ shows_all])

end

lemma sublist_framed [simp]: "sublist c (framed l op c d)"
proof -
  have "framed l op c d = (l @ '': Op='' @ op @ '': '') @ c @ (if d \<noteq> '''' then '' ('' @ d @ '')'' else '''')"
    by (simp add: framed_def)
  then show ?thesis by (metis sublist_appendI)
qed

lemma sublist_after: "sublist s (xs @ s)"
  by (metis append.right_neutral sublist_appendI)

lemma iwdbus_error_shows: "sublist (error_text e) (error_text (IwdbusError k ctx e))"
  using sublist_after [of "error_text e" "dbus_kind_text k @ '': '' @ ctx @ '': ''"] by simp

lemma format_wrap_text: "format_text ''%w: %w'' [] [s, t] = s @ '': '' @ t"
  by simp

lemma recognised_shows: "sublist (error_text e) (error_text (Errorf ''%w: %w'' [] [Sentinel s, e]))"
  using sublist_after [of "error_text e" "sentinel_text s @ '': ''"] by simp

interpretation tm: text_wrapper "wrap_method i m" for i m
  by unfold_locales (simp only: wrap_method_def iwdbus_error_shows)

interpretation tp: text_wrapper "wrap_property i p" for i p
  by unfold_locales (simp only: wrap_property_def iwdbus_error_shows)

interpretation tc: text_wrapper "wrap_connection op" for op
  by unfold_locales (simp only: wrap_connection_def iwdbus_error_shows)

interpretation ti: text_wrapper "wrap_introspection path" for path
  by unfold_locales (simp only: wrap_introspection_def iwdbus_error_shows)

interpretation tv: text_wrapper "wrap_variant name" for name
  by unfold_locales (simp only: wrap_variant_def iwdbus_error_shows)

lemma iwdbus_recognised_shows:
  "sublist (error_text e) (error_text (IwdbusError k ctx (Errorf ''%w: %w'' [] [Sentinel s, e])))"
  using recognised_shows iwdbus_error_shows by (rule sublist_order.order_trans)

interpretation tim: text_wrapper "wrap_iwd_method i m" for i m
  by unfold_locales
    (auto simp only: wrap_iwd_method_def iwdbus_recognised_shows tm.shows_all split: option.splits)

interpretation tip: text_wrapper "wrap_iwd_property i p" for i p
  by unfold_locales
    (auto simp only: wrap_iwd_property_def iwdbus_recognised_shows tp.shows_all split: option.splits)

lemma error_text_wrap_unavailable:
  "error_text (wrap_unavailable op d e p) =
     framed (error_label (if is_unavailable_dbus_error e (includeDBusProperty p) then KindUnavailable
                          else KindOperationFailed) (policy_resource p)) op (error_text e) d"
  by (simp add: wrap_unavailable_def new_error_def)

interpretation tun: text_wrapper "\<lambda>e. wrap_unavailable op d e p" for op d p
  by unfold_locales (simp add: error_text_wrap_unavailable)

subsection \<open>The public text\<close>

lemma public_text_of_core:
  assumes "as_core_error e = Some (k, r, cop, d, c)" and "\<not> is_public_error e"
  shows "error_text (wrap_public_error op e) = framed (error_label (public_kind k) r) op (error_text c) d"
  using assms
  by (simp add: wrap_public_error_def map_core_kind_def map_core_resource_def public_error_label_def error_label_def)

text \<open>
  A public error prints as its core error would with the public operation in place of core's: nothing is
  printed twice, and all that core's cause prints is there.
\<close>

theorem public_text_replaces_the_core_frame:
  assumes "\<not> is_public_error c"
  shows "error_text (wrap_public_error op (CoreError k r cop d c)) = error_text (CoreError (public_kind k) r op d c)"
    and "sublist (error_text c) (error_text (wrap_public_error op (CoreError k r cop d c)))"
  using assms by (simp_all add: public_text_of_core)

definition method_context :: "string \<Rightarrow> string \<Rightarrow> string" where
  "method_context iface method = ''dbus method error: iface='' @ iface @ '', method='' @ method @ '': ''"

definition recognised_prefix :: "raw_err \<Rightarrow> string" where
  "recognised_prefix r =
     (case iwd_error_sentinel (Foreign r) of None \<Rightarrow> '''' | Some i \<Rightarrow> iwd_sentinel_text i @ '': '')"

lemma error_text_wrap_method:
  "error_text (wrap_method i m e) = method_context i m @ error_text e"
  by (simp add: wrap_method_def method_context_def)

lemma error_text_wrap_iwd_method:
  "error_text (wrap_iwd_method i m (wrap_method i m (Foreign r))) =
     method_context i m @ recognised_prefix r @ method_context i m @ err_text r"
proof -
  have "iwd_error_sentinel (wrap_method i m (Foreign r)) = iwd_error_sentinel (Foreign r)"
    by (simp add: iwd_error_sentinel_def wrap_method_def)
  then show ?thesis
    by (auto simp: wrap_iwd_method_def recognised_prefix_def error_text_wrap_method method_context_def
        split: option.splits)
qed

text \<open>
  C21: What a user reads, byte for byte, when a method call on an iwd object fails: the resource and the public
  category, the public operation, the interface and the method, iwd's reason where its error name is known, the
  text of the bus's own error, and the details in parentheses when there are any; a refused \<open>Scan\<close> is written out. The context of the D-Bus layer is there twice, because both the
  introspected object and the typed wrapper above it add it.
\<close>

theorem failed_call_reads:
  "error_text (wrap_public_error op (wrap_unavailable cop d
      (wrap_iwd_method iface m (wrap_method iface m (Foreign r))) p)) =
     (if policy_resource p = ResourceUnknown then '''' else resource_text (policy_resource p) @ '' '')
     @ ''unavailable: Op='' @ op
     @ '': dbus method error: iface='' @ iface @ '', method='' @ m @ '': ''
     @ (case iwd_error_sentinel (Foreign r) of None \<Rightarrow> '''' | Some i \<Rightarrow> iwd_sentinel_text i @ '': '')
     @ ''dbus method error: iface='' @ iface @ '', method='' @ m @ '': ''
     @ err_text r @ (if d = '''' then '''' else '' ('' @ d @ '')'')
   \<and> error_text (wrap_public_error ''Station.Scan'' (wrap_station_unavailable ''Scan'' ''failed scanning''
       (wrap_iwd_method ''i'' ''Scan'' (wrap_method ''i'' ''Scan''
         (Foreign (DBusErr ''net.connman.iwd.Busy'' ''try later'')))))) =
     ''station unavailable: Op=Station.Scan: dbus method error: iface=i, method=Scan: iwd is busy: ''
     @ ''dbus method error: iface=i, method=Scan: try later (failed scanning)''"
    (is "?general \<and> ?scan")
proof
  have reads: "error_text (wrap_public_error op (wrap_unavailable cop d
      (wrap_iwd_method iface m (wrap_method iface m (Foreign r))) p)) =
     framed (error_label KindUnavailable (policy_resource p)) op
       (method_context iface m @ recognised_prefix r @ method_context iface m @ err_text r) d"
    for op cop d iface m r p
  proof -
    let ?e = "wrap_iwd_method iface m (wrap_method iface m (Foreign r))"
    have "is_unavailable_dbus_error ?e b" for b
      by (simp add: is_unavailable_dbus_error_def wim.wrap_is)
    moreover have "\<not> is_public_error ?e"
      by (simp add: wrap_iwd_method_def wrap_method_def split: option.splits)
    ultimately show ?thesis
      by (simp add: public_text_of_core error_text_wrap_iwd_method)
  qed
  show ?general
    by (simp add: reads framed_def error_label_def method_context_def recognised_prefix_def)
  have "iwd_error_sentinel (Foreign (DBusErr ''net.connman.iwd.Busy'' ''try later'')) = Some ErrBusy"
    by (simp add: iwd_error_sentinel_Foreign iwd_error_sentinels_def IwdService_def)
  then show ?scan
    by (simp add: wrap_station_unavailable_def reads framed_def error_label_def method_context_def
        recognised_prefix_def station_unavailable_policy_def)
qed

subsection \<open>Two failures at once\<close>

lemma as_core_error_Joined [simp]: "as_core_error (Joined (CoreError k r op d c # es)) = Some (k, r, op, d, c)"
  by (simp add: as_core_error_def)

definition both_fail_agent :: "(gerror \<times> raw_err) core_agent" where
  "both_fail_agent =
     agent_bind (\<lambda>_ w. (Inl (fst w), w)) ''/agent'' (\<lambda>w. (Inl (snd w), w))
       (new_core_agent \<lparr>Passphrase = None, PrivateKeyPassphrase = None, UserNameAndPassword = None,
          UserPassword = None, OnCancel = None, OnRelease = None\<rparr>)"

text \<open>
  C26: When iwd refuses the \<open>UnregisterAgent\<close> of a bound agent and the removal of its object fails too, the public
  error of \<open>Unregister\<close> still matches whatever iwd's failure matches, and core's own error prints both
  failures; but the public one prints the first only, as if the second had not happened, since \<open>Error()\<close>
  prints the cause of the first core error it finds in what it wraps.
\<close>

theorem public_text_shows_the_first_of_two_failures:
  assumes "a = agent_bind unreg path unexp a0"
    and "unreg path w = (Inl e1, w1)" and "unexp w1 = (Inl r2, w2)" and "\<not> is_public_error e1"
    and "agent_unregister (Some a, w) = (Inl e, (s, w'))"
  shows "sublist (error_text e1) (error_text e) \<and> sublist (err_text r2) (error_text e)
       \<and> (errors_is e1 x \<longrightarrow> errors_is (wrap_public_error op e) x)
       \<and> error_text (wrap_public_error op e) =
           error_text (wrap_public_error op
             (wrap_agent_unavailable ''Agent.Unregister'' ''failed unregistering iwd agent'' e1))"
proof -
  define c1 where "c1 = wrap_agent_unavailable ''Agent.Unregister'' ''failed unregistering iwd agent'' e1"
  define c2 where "c2 = wrap_agent_unavailable ''Agent.Unregister'' ''failed unexporting agent object'' (Foreign r2)"
  have e: "e = Joined [c1, c2]"
    using assms(2,3,5) by (auto simp: assms(1) agent_unregister_def agent_bind_def cleanup_call_eq join_errors_def c1_def c2_def)
  define k where "k = (if is_unavailable_dbus_error e1 False then KindUnavailable else KindOperationFailed)"
  have c1: "c1 = CoreError k ResourceAgent ''Agent.Unregister'' ''failed unregistering iwd agent'' e1"
    by (simp add: c1_def k_def wrap_agent_unavailable_def wrap_unavailable_def new_error_def agent_unavailable_policy_def)
  have np: "\<not> is_public_error c1" "\<not> is_public_error e"
    using assms(4) by (simp_all add: e c1 c2_def wrap_agent_unavailable_def)
  have lines: "error_text e = error_text c1 @ CHR 0x0A # error_text c2"
    by (simp add: e)
  have "sublist (error_text e1) (error_text c1)" and "sublist (err_text r2) (error_text c2)"
    using tun.shows_all [of "Foreign r2"] by (simp_all add: c1 c2_def wrap_agent_unavailable_def)
  then have "sublist (error_text e1) (error_text e)" and "sublist (err_text r2) (error_text e)"
    by (simp_all add: lines sublist_append sublist_Cons_right)
  moreover have "errors_is e1 x \<longrightarrow> errors_is (wrap_public_error op e) x"
    using np(2) by (simp add: wpub.wrap_is e c1)
  moreover have "error_text (wrap_public_error op e) = error_text (wrap_public_error op c1)"
    using public_text_of_core [OF _ np(1)] public_text_of_core [OF _ np(2)] by (simp add: e c1)
  ultimately show ?thesis by (simp add: c1_def)
qed

theorem public_text_shows_the_first_of_two_failures_witness:
  "\<exists>e s w'. agent_unregister (Some both_fail_agent, (Foreign (OtherErr ''gone''), OtherErr ''closed'')) = (Inl e, (s, w'))
     \<and> error_text (wrap_public_error ''Agent.Unregister'' e) =
         ''agent internal error: Op=Agent.Unregister: gone (failed unregistering iwd agent)''"
proof -
  let ?w = "(Foreign (OtherErr ''gone''), OtherErr ''closed'')"
  obtain e s w' where run: "agent_unregister (Some both_fail_agent, ?w) = (Inl e, (s, w'))"
    by (auto simp: both_fail_agent_def agent_bind_def agent_unregister_def cleanup_call_eq join_errors_def)
  have "error_text (wrap_public_error ''Agent.Unregister'' e) =
      error_text (wrap_public_error ''Agent.Unregister''
        (wrap_agent_unavailable ''Agent.Unregister'' ''failed unregistering iwd agent'' (Foreign (OtherErr ''gone''))))"
    using public_text_shows_the_first_of_two_failures [OF both_fail_agent_def _ _ _ run] by simp
  with run show ?thesis
    by (auto simp: wrap_agent_unavailable_def public_text_of_core framed_def error_label_def agent_unavailable_policy_def
        is_unavailable_dbus_error_def)
qed

end
