(* ===== verification/Mock_State.thy ===== *)
theory Mock_State
  imports Agents Wsc
begin

text \<open>
  The state of the mock iwd (\<open>tools/test-mocks/iwdmock\<close>), the service that the integration tests run the client
  against: its flags, its objects, the registries the object manager reads, the handlers exported on the
  bus, the agent registries, the goroutines started by a scan or a registration, and the signals emitted.

  A pointer to an object is its index in the list of the objects of its kind: objects are made when the
  mock starts, except known networks, which connecting to a network can add; a registry is a list
  of such indices. A handler is one function of the state: what it does when no other runs meanwhile. The program
  does not make handlers exclude each other: \<open>switchDeviceMode\<close> and \<open>provisionKnownNetwork\<close> release their lock
  before they export. The theory \<open>Mock_Races\<close> has their pieces, and what overlapping ones do. What is godbus's or
  the bus's is the record \<open>mock_env\<close>.
\<close>

subsection \<open>Flags (utils.go, main.go)\<close>

record mock_flags =
  omitDaemon :: bool
  omitDaemonVersion :: bool
  omitDaemonStateDir :: bool
  omitDaemonNetConf :: bool
  daemonBadVersion :: bool
  daemonBadStateDir :: bool
  daemonBadNetConf :: bool
  daemonExtraField :: bool
  daemonBadPayload :: bool
  daemonFailCalls :: bool
  adapterBadModes :: bool
  omitDevice :: bool
  omitBSS :: bool
  omitNetwork :: bool
  omitKnownNetwork :: bool
  omitAgent :: bool
  omitStation :: bool
  omitWSC :: bool
  omitAccessPoint :: bool

subsection \<open>Objects\<close>

record mock_adapter =
  ma_path :: string
  ma_powered :: bool
  ma_name :: string
  ma_model :: "string option"
  ma_vendor :: "string option"
  ma_modes :: "string list"

record mock_device =
  md_path :: string
  md_name :: string
  md_address :: string
  md_powered :: bool
  md_mode :: string
  md_adapter :: string
  HasStation :: bool
  StationState :: string
  StationScanning :: bool
  StationConnectedNetwork :: string
  StationConnectedAccessPoint :: string
  StationAffinities :: "string list"
  HasAccessPoint :: bool
  APStarted :: bool
  APScanning :: bool
  APName :: string
  APFrequency :: int
  APPairwiseCiphers :: "string list"
  APGroupCipher :: string

record mock_bss =
  mb_path :: string
  mb_address :: string

text \<open>An empty \<open>mn_known\<close> means that the network is not known.\<close>

record mock_network =
  mn_path :: string
  mn_name :: string
  mn_connected :: bool
  mn_device :: string
  mn_type :: string
  mn_known :: string
  mn_ess :: "string list"

record mock_known =
  mk_path :: string
  mk_name :: string
  mk_type :: string
  mk_hidden :: bool
  mk_last_connected :: string
  mk_auto_connect :: bool

subsection \<open>Handlers, agents, goroutines, signals\<close>

text \<open>
  What is exported at a path under an interface. An introspection stub is the list of the interfaces its
  XML names; the root object holds whether there is a daemon.
\<close>

datatype mock_handler =
    DaemonHandler
  | AdapterHandler nat
  | DeviceHandler nat
  | AccessPointHandler nat
  | BSSHandler nat
  | NetworkHandler nat
  | KnownNetworkHandler nat
  | IntrospectStub "string list"
  | ObjectManager bool

record agent_registry =
  ar_bound :: bool
  ar_sender :: string
  ar_path :: string
  ar_set :: bool

record signal_level_reg =
  sr_sender :: string
  sr_path :: string
  sr_levels :: "int list"

text \<open>The goroutines that a handler leaves behind: the ends of two scans and the first \<open>Changed\<close>.\<close>

datatype mock_goroutine =
    StationScanDone nat
  | AccessPointScanDone nat
  | FirstChanged string

datatype mock_signal =
    PropertiesChanged string string properties "string list"
  | InterfacesAdded string interfaces
  | InterfacesRemoved string "string list"

record mock =
  flags :: mock_flags
  session_bus :: bool
  mock_connected :: bool
  adapters :: "mock_adapter list"
  devices :: "mock_device list"
  bsses :: "mock_bss list"
  networks :: "mock_network list"
  knowns :: "mock_known list"
  exportedAdapters :: "nat list"
  exportedDevices :: "nat list"
  exportedBSSes :: "nat list"
  exportedNetworks :: "nat list"
  exportedKnownNetworks :: "nat list"
  exports :: "string \<Rightarrow> string \<Rightarrow> mock_handler option"
  agents :: agent_registry
  signal_agents_bound :: bool
  by_station :: "string \<Rightarrow> signal_level_reg option"
  questions :: nat
  goroutines :: "mock_goroutine list"
  emitted :: "mock_signal list"
  delivered :: "(string \<times> string \<times> string \<times> int) list"

text \<open>
  The mock before \<open>main\<close> exports anything; \<open>bus\<close> tells whether the emitter's own connections to the session bus succeed.
\<close>

definition empty_mock :: "mock_flags \<Rightarrow> bool \<Rightarrow> mock" where
  "empty_mock f bus =
     \<lparr>flags = f, session_bus = bus, mock_connected = False, adapters = [], devices = [], bsses = [],
      networks = [], knowns = [], exportedAdapters = [], exportedDevices = [], exportedBSSes = [],
      exportedNetworks = [], exportedKnownNetworks = [], exports = (\<lambda>_ _. None),
      agents = \<lparr>ar_bound = False, ar_sender = '''', ar_path = '''', ar_set = False\<rparr>,
      signal_agents_bound = False, by_station = (\<lambda>_. None), questions = 0, goroutines = [], emitted = [], delivered = []\<rparr>"

text \<open>
  \<open>me_unknown path iface method\<close> is godbus's reply to a call that no export answers, \<open>me_invalid_args\<close> its
  reply to arguments of the wrong types; \<open>me_ask sender path network n\<close> is what the call of \<open>RequestPassphrase\<close> on
  the registered agent returns when it is the \<open>n\<close>-th the mock makes.
\<close>

record mock_env =
  me_path_ok :: "string \<Rightarrow> bool"
  me_unknown :: "string \<Rightarrow> string \<Rightarrow> string \<Rightarrow> raw_err"
  me_invalid_args :: raw_err
  me_ask :: "string \<Rightarrow> string \<Rightarrow> string \<Rightarrow> nat \<Rightarrow> raw_err + string"

subsection \<open>Errors of a handler\<close>

text \<open>\<open>dbus.MakeFailedError\<close> and \<open>dbus.NewError\<close> with a one-string body.\<close>

definition failed_error :: "string \<Rightarrow> raw_err" where
  "failed_error text = DBusErr ''org.freedesktop.DBus.Error.Failed'' text"

definition iwd_error :: "string \<Rightarrow> string \<Rightarrow> raw_err" where
  "iwd_error name text = DBusErr (IwdService @ name) text"

definition unknown_property :: "string \<Rightarrow> raw_err" where
  "unknown_property p = failed_error (sprintf ''unknown property %q'' [p])"

definition getter_declined :: raw_err where
  "getter_declined = failed_error ''getting property value failed''"

subsection \<open>Exports and emissions\<close>

definition PropertiesIface :: string where
  "PropertiesIface = ''org.freedesktop.DBus.Properties''"

definition IntrospectableIface :: string where
  "IntrospectableIface = ''org.freedesktop.DBus.Introspectable''"

definition ObjectManagerIface :: string where
  "ObjectManagerIface = ''org.freedesktop.DBus.ObjectManager''"

text \<open>\<open>conn.Export\<close> refuses an invalid path; a nil handler removes the export.\<close>

definition set_export :: "string \<Rightarrow> string \<Rightarrow> mock_handler option \<Rightarrow> mock \<Rightarrow> mock" where
  "set_export path iface h m = m\<lparr>exports := (exports m)(path := (exports m path)(iface := h))\<rparr>"

definition export :: "mock_env \<Rightarrow> mock_handler option \<Rightarrow> string \<Rightarrow> string \<Rightarrow> (raw_err, mock, unit) go" where
  "export env h path iface = (\<lambda>m.
     if me_path_ok env path then (Inr (), set_export path iface h m)
     else (Inl (OtherErr ''dbus: invalid path name''), m))"

text \<open>A call whose error the program drops.\<close>

definition ignoring :: "(raw_err, mock, unit) go \<Rightarrow> mock \<Rightarrow> mock" where
  "ignoring f m = snd (f m)"

definition emit :: "mock_signal \<Rightarrow> mock \<Rightarrow> mock" where
  "emit s m = m\<lparr>emitted := emitted m @ [s]\<rparr>"

definition emit_properties_changed ::
    "string \<Rightarrow> string \<Rightarrow> properties \<Rightarrow> string list \<Rightarrow> mock \<Rightarrow> mock" where
  "emit_properties_changed path iface props invalid m =
     (if session_bus m then emit (PropertiesChanged path iface props invalid) m else m)"

definition emit_interfaces_added :: "string \<Rightarrow> interfaces \<Rightarrow> mock \<Rightarrow> mock" where
  "emit_interfaces_added path ifaces m =
     (if mock_connected m then emit (InterfacesAdded path ifaces) m else m)"

definition emit_interfaces_removed :: "string \<Rightarrow> string list \<Rightarrow> mock \<Rightarrow> mock" where
  "emit_interfaces_removed path ifaces m =
     (if mock_connected m then emit (InterfacesRemoved path ifaces) m else m)"

definition unexport_object :: "mock_env \<Rightarrow> string \<Rightarrow> string list \<Rightarrow> mock \<Rightarrow> mock" where
  "unexport_object env path ifaces m =
     (if mock_connected m
      then fold (\<lambda>i. ignoring (export env None path i)) (ifaces @ [PropertiesIface, IntrospectableIface]) m
      else m)"

subsection \<open>The sequence of fallible steps\<close>

text \<open>\<open>for _, x := range xs { if err := f(x); err != nil { return err } }\<close>\<close>

fun for_each :: "('a \<Rightarrow> (raw_err, mock, unit) go) \<Rightarrow> 'a list \<Rightarrow> (raw_err, mock, unit) go" where
  "for_each f [] = go_return ()"
| "for_each f (x # xs) = go_bind (f x) (\<lambda>_. for_each f xs)"

definition modify :: "(mock \<Rightarrow> mock) \<Rightarrow> (raw_err, mock, unit) go" where
  "modify f = (\<lambda>m. (Inr (), f m))"

definition guarded :: "bool \<Rightarrow> (raw_err, mock, unit) go \<Rightarrow> (raw_err, mock, unit) go" where
  "guarded b f = (if b then f else go_return ())"

subsection \<open>Updates of one object\<close>

definition device_update :: "nat \<Rightarrow> (mock_device \<Rightarrow> mock_device) \<Rightarrow> mock \<Rightarrow> mock" where
  "device_update i f m = m\<lparr>devices := (devices m)[i := f (devices m ! i)]\<rparr>"

definition network_update :: "nat \<Rightarrow> (mock_network \<Rightarrow> mock_network) \<Rightarrow> mock \<Rightarrow> mock" where
  "network_update i f m = m\<lparr>networks := (networks m)[i := f (networks m ! i)]\<rparr>"

definition known_update :: "nat \<Rightarrow> (mock_known \<Rightarrow> mock_known) \<Rightarrow> mock \<Rightarrow> mock" where
  "known_update i f m = m\<lparr>knowns := (knowns m)[i := f (knowns m ! i)]\<rparr>"

definition adapter_update :: "nat \<Rightarrow> (mock_adapter \<Rightarrow> mock_adapter) \<Rightarrow> mock \<Rightarrow> mock" where
  "adapter_update i f m = m\<lparr>adapters := (adapters m)[i := f (adapters m ! i)]\<rparr>"

end
