(* ===== verification/Mock_Objects.thy ===== *)
theory Mock_Objects
  imports Mock_State "HOL-Library.AList"
begin

text \<open>
  The objects of the mock iwd: what each reports as its properties, the introspection data, the fixtures,
  and \<open>main\<close>'s exports (\<open>adapter.go\<close>, \<open>bss.go\<close>, \<open>daemon.go\<close>, \<open>device.go\<close>, \<open>export.go\<close>, \<open>knownnetwork.go\<close>,
  \<open>network.go\<close>, \<open>objectmanager.go\<close> and the property maps of \<open>station.go\<close> and \<open>accesspoint.go\<close>). A value is the
  one the client decodes: a Go \<open>int\<close> arrives as an \<open>int32\<close>, a slice of variants as one.
\<close>

subsection \<open>Paths\<close>

definition adapterPath :: string where
  "adapterPath = ''/net/connman/iwd/0''"

definition adapter1Path :: string where
  "adapter1Path = ''/net/connman/iwd/1''"

definition devicePath :: string where
  "devicePath = ''/net/connman/iwd/0/3''"

definition device1Path :: string where
  "device1Path = ''/net/connman/iwd/1/4''"

definition known_net_path :: string where
  "known_net_path = devicePath @ ''/4b6e6f776e4e6574_psk''"

definition open_net_path :: string where
  "open_net_path = devicePath @ ''/4f70656e4e6574_open''"

definition secured_net_path :: string where
  "secured_net_path = devicePath @ ''/536563757265644e6574_psk''"

definition known_net_bss :: string where
  "known_net_bss = known_net_path @ ''/deadbeefcafe''"

definition known_net_profile :: string where
  "known_net_profile = ''/net/connman/iwd/4b6e6f776e4e6574_psk''"

definition guest_hotspot_profile :: string where
  "guest_hotspot_profile = ''/net/connman/iwd/4775657374486f7473706f74_hotspot''"

lemmas path_defs =
  adapterPath_def adapter1Path_def devicePath_def device1Path_def known_net_path_def open_net_path_def
  secured_net_path_def known_net_bss_def known_net_profile_def guest_hotspot_profile_def IwdDaemonPath_def

subsection \<open>What the flags leave out\<close>

definition agent_manager_exported :: "mock_flags \<Rightarrow> bool" where
  "agent_manager_exported f \<longleftrightarrow> \<not> omitAgent f"

definition station_exported :: "mock_flags \<Rightarrow> bool" where
  "station_exported f \<longleftrightarrow> \<not> omitStation f"

definition access_point_exported :: "mock_flags \<Rightarrow> bool" where
  "access_point_exported f \<longleftrightarrow> \<not> omitAccessPoint f"

subsection \<open>Property maps\<close>

definition bad_modes_payload :: dval where
  "bad_modes_payload = VOther ''[]dbus.Variant''"

definition adapter_prop_map :: "mock_flags \<Rightarrow> mock_adapter \<Rightarrow> properties" where
  "adapter_prop_map f a =
     [(''Powered'', VBool (ma_powered a)), (''Name'', VStr (ma_name a)),
      (''SupportedModes'', if adapterBadModes f then bad_modes_payload else VStrs (ma_modes a))]
     @ (case ma_model a of None \<Rightarrow> [] | Some s \<Rightarrow> [(''Model'', VStr s)])
     @ (case ma_vendor a of None \<Rightarrow> [] | Some s \<Rightarrow> [(''Vendor'', VStr s)])"

definition device_prop_map :: "mock_device \<Rightarrow> properties" where
  "device_prop_map d =
     [(''Name'', VStr (md_name d)), (''Address'', VStr (md_address d)), (''Powered'', VBool (md_powered d)),
      (''Mode'', VStr (md_mode d)), (''Adapter'', VPath (md_adapter d))]"

definition station_prop_map :: "mock_device \<Rightarrow> properties" where
  "station_prop_map d =
     [(''State'', VStr (StationState d)), (''Scanning'', VBool (StationScanning d)),
      (''ConnectedNetwork'', VPath (StationConnectedNetwork d)),
      (''ConnectedAccessPoint'', VPath (StationConnectedAccessPoint d)),
      (''Affinities'', VPaths (StationAffinities d))]"

definition access_point_prop_map :: "mock_device \<Rightarrow> properties" where
  "access_point_prop_map d =
     (''Started'', VBool (APStarted d)) #
     (if APStarted d
      then [(''Scanning'', VBool (APScanning d)), (''Name'', VStr (APName d)),
            (''Frequency'', VUint32 (APFrequency d)), (''PairwiseCiphers'', VStrs (APPairwiseCiphers d)),
            (''GroupCipher'', VStr (APGroupCipher d))]
      else [])"

definition bss_prop_map :: "mock_bss \<Rightarrow> properties" where
  "bss_prop_map b = [(''Address'', VStr (mb_address b))]"

definition network_prop_map :: "mock_network \<Rightarrow> properties" where
  "network_prop_map n =
     [(''Name'', VStr (mn_name n)), (''Connected'', VBool (mn_connected n)), (''Device'', VPath (mn_device n)),
      (''Type'', VStr (mn_type n)), (''ExtendedServiceSet'', VPaths (mn_ess n))]
     @ (if mn_known n \<noteq> '''' then [(''KnownNetwork'', VPath (mn_known n))] else [])"

definition known_prop_map :: "mock_known \<Rightarrow> properties" where
  "known_prop_map k =
     [(''Name'', VStr (mk_name k)), (''Type'', VStr (mk_type k)), (''Hidden'', VBool (mk_hidden k)),
      (''AutoConnect'', VBool (mk_auto_connect k))]
     @ (if mk_last_connected k \<noteq> '''' then [(''LastConnectedTime'', VStr (mk_last_connected k))] else [])"

lemmas property_map_defs =
  adapter_prop_map_def device_prop_map_def station_prop_map_def access_point_prop_map_def
  bss_prop_map_def network_prop_map_def known_prop_map_def

subsection \<open>The daemon\<close>

definition daemon_get_info :: "mock_flags \<Rightarrow> raw_err + properties" where
  "daemon_get_info f =
     (if daemonFailCalls f then Inl (failed_error ''mock daemon failure'')
      else if daemonBadPayload f
      then Inr [(''Version'', VOther ''int32''), (''StateDirectory'', VBool False),
                (''NetworkConfigurationEnabled'', VStr ''bad''), (''ExtraField'', VOther ''[]int32'')]
      else Inr
        ((if omitDaemonVersion f then []
          else [(''Version'', if daemonBadVersion f then VOther ''int32'' else VStr ''1.0.0'')])
         @ (if omitDaemonStateDir f then []
            else [(''StateDirectory'', if daemonBadStateDir f then VBool False else VStr ''/test/iwd/state'')])
         @ (if omitDaemonNetConf f then []
            else [(''NetworkConfigurationEnabled'', if daemonBadNetConf f then VStr ''yes'' else VBool True)])
         @ (if daemonExtraField f then [(''ExtraField'', VStr ''ignored'')] else [])))"

text \<open>\<open>props, _ := d.GetInfo()\<close>\<close>

definition daemon_get_all :: "mock_flags \<Rightarrow> properties" where
  "daemon_get_all f = (case daemon_get_info f of Inl _ \<Rightarrow> [] | Inr props \<Rightarrow> props)"

text \<open>An absent property is the zero \<open>Variant\<close>, which godbus cannot marshal: the caller gets no value.\<close>

definition daemon_get :: "mock_flags \<Rightarrow> string \<Rightarrow> dval" where
  "daemon_get f p = (case map_of (daemon_get_all f) p of Some v \<Rightarrow> v | None \<Rightarrow> VNil)"

subsection \<open>Get and GetAll\<close>

definition property_of :: "(string \<Rightarrow> raw_err) \<Rightarrow> properties \<Rightarrow> string \<Rightarrow> raw_err + dval" where
  "property_of absent props p = (case map_of props p of Some v \<Rightarrow> Inr v | None \<Rightarrow> Inl (absent p))"

definition get_all_of :: "string \<Rightarrow> properties \<Rightarrow> string \<Rightarrow> raw_err + properties" where
  "get_all_of own props iface = (if iface \<noteq> own then Inl (unknown_property iface) else Inr props)"

definition get_of :: "string \<Rightarrow> (string \<Rightarrow> raw_err) \<Rightarrow> properties \<Rightarrow> string \<Rightarrow> string \<Rightarrow> raw_err + dval" where
  "get_of own absent props iface p =
     (if iface \<noteq> own then Inl (unknown_property iface) else property_of absent props p)"

definition adapter_get_all :: "mock_flags \<Rightarrow> mock_adapter \<Rightarrow> string \<Rightarrow> raw_err + properties" where
  "adapter_get_all f a = get_all_of IwdAdapterIface (adapter_prop_map f a)"

definition adapter_get :: "mock_flags \<Rightarrow> mock_adapter \<Rightarrow> string \<Rightarrow> string \<Rightarrow> raw_err + dval" where
  "adapter_get f a =
     get_of IwdAdapterIface
       (\<lambda>p. if p = ''Model'' \<or> p = ''Vendor'' then getter_declined else unknown_property p) (adapter_prop_map f a)"

definition bss_get_all :: "mock_bss \<Rightarrow> string \<Rightarrow> raw_err + properties" where
  "bss_get_all b = get_all_of IwdBasicServiceSetIface (bss_prop_map b)"

definition bss_get :: "mock_bss \<Rightarrow> string \<Rightarrow> string \<Rightarrow> raw_err + dval" where
  "bss_get b = get_of IwdBasicServiceSetIface (\<lambda>_. getter_declined) (bss_prop_map b)"

definition network_get_all :: "mock_network \<Rightarrow> string \<Rightarrow> raw_err + properties" where
  "network_get_all n = get_all_of IwdNetworkIface (network_prop_map n)"

definition network_get :: "mock_network \<Rightarrow> string \<Rightarrow> string \<Rightarrow> raw_err + dval" where
  "network_get n = get_of IwdNetworkIface (\<lambda>_. getter_declined) (network_prop_map n)"

definition known_get_all :: "mock_known \<Rightarrow> string \<Rightarrow> raw_err + properties" where
  "known_get_all k = get_all_of IwdKnownNetworkIface (known_prop_map k)"

definition known_get :: "mock_known \<Rightarrow> string \<Rightarrow> string \<Rightarrow> raw_err + dval" where
  "known_get k = get_of IwdKnownNetworkIface (\<lambda>_. getter_declined) (known_prop_map k)"

text \<open>The device's object serves the interface of its mode too.\<close>

definition device_get_all :: "mock_device \<Rightarrow> string \<Rightarrow> raw_err + properties" where
  "device_get_all d iface =
     (if iface = IwdDeviceIface then Inr (device_prop_map d)
      else if iface = IwdStationIface
      then (if \<not> HasStation d then Inl (unknown_property iface) else Inr (station_prop_map d))
      else if iface = IwdAccessPointIface
      then (if \<not> HasAccessPoint d then Inl (unknown_property iface) else Inr (access_point_prop_map d))
      else Inl (unknown_property iface))"

definition device_get :: "mock_device \<Rightarrow> string \<Rightarrow> string \<Rightarrow> raw_err + dval" where
  "device_get d iface p =
     try_bind (device_get_all d iface) (\<lambda>props.
       property_of (\<lambda>p. if iface = IwdAccessPointIface then getter_declined else unknown_property p) props p)"

lemmas getter_defs =
  adapter_get_all_def adapter_get_def bss_get_all_def bss_get_def network_get_all_def network_get_def
  known_get_all_def known_get_def device_get_all_def device_get_def get_all_of_def get_of_def property_of_def

subsection \<open>Introspection (export.go)\<close>

definition daemon_interfaces :: "mock_flags \<Rightarrow> string list" where
  "daemon_interfaces f =
     [IntrospectableIface, IwdDaemonIface, PropertiesIface]
     @ (if agent_manager_exported f then [IwdAgentManagerIface] else [])"

definition device_interfaces :: "bool \<Rightarrow> bool \<Rightarrow> bool \<Rightarrow> string list" where
  "device_interfaces with_station with_wsc with_access_point =
     [IntrospectableIface, IwdDeviceIface, PropertiesIface]
     @ (if with_station then IwdStationIface # (if with_wsc then [IwdSimpleConfigurationIface] else []) else [])
     @ (if with_access_point then [IwdAccessPointIface] else [])"

definition plain_interfaces :: "string \<Rightarrow> string list" where
  "plain_interfaces iface = [IntrospectableIface, iface, PropertiesIface]"

definition export_device_introspection ::
    "mock_env \<Rightarrow> string \<Rightarrow> bool \<Rightarrow> bool \<Rightarrow> bool \<Rightarrow> (raw_err, mock, unit) go" where
  "export_device_introspection env path with_station with_wsc with_access_point =
     export env (Some (IntrospectStub (device_interfaces with_station with_wsc with_access_point)))
       path IntrospectableIface"

text \<open>The three exports of an object: its own interface, its properties, its introspection.\<close>

definition export_object_at ::
    "mock_env \<Rightarrow> mock_handler \<Rightarrow> string \<Rightarrow> string \<Rightarrow> (raw_err, mock, unit) go" where
  "export_object_at env h path iface =
     go_bind (export env (Some h) path iface) (\<lambda>_.
     go_bind (export env (Some h) path PropertiesIface) (\<lambda>_.
     export env (Some (IntrospectStub (plain_interfaces iface))) path IntrospectableIface))"

subsection \<open>Fixtures\<close>

definition accessPointHostedSSID :: string where
  "accessPointHostedSSID = ''MockAP''"

definition accessPointFrequency :: int where
  "accessPointFrequency = 5180"

definition accessPointPairwiseCiphers :: "string list" where
  "accessPointPairwiseCiphers = [''CCMP'']"

definition accessPointGroupCipher :: string where
  "accessPointGroupCipher = ''CCMP''"

definition adapter_fixtures :: "string option \<Rightarrow> string option \<Rightarrow> mock_adapter list" where
  "adapter_fixtures model vendor =
     [\<lparr>ma_path = adapterPath, ma_powered = True, ma_name = ''phy0'', ma_model = model, ma_vendor = vendor,
       ma_modes = [''station'', ''ap'']\<rparr>,
      \<lparr>ma_path = adapter1Path, ma_powered = True, ma_name = ''phy1'', ma_model = model, ma_vendor = vendor,
       ma_modes = [''station'']\<rparr>]"

definition device_fixtures :: "mock_flags \<Rightarrow> mock_device list" where
  "device_fixtures f =
     [\<lparr>md_path = devicePath, md_name = ''wlan0'', md_address = ''aa:bb:cc:dd:ee:ff'', md_powered = True,
       md_mode = ''station'', md_adapter = adapterPath, HasStation = station_exported f,
       StationState = ''connected'', StationScanning = False, StationConnectedNetwork = known_net_path,
       StationConnectedAccessPoint = known_net_bss, StationAffinities = [known_net_bss],
       HasAccessPoint = False, APStarted = False, APScanning = False, APName = '''', APFrequency = 0,
       APPairwiseCiphers = [], APGroupCipher = ''''\<rparr>,
      \<lparr>md_path = device1Path, md_name = ''wlan1'', md_address = ''11:22:33:44:55:66'', md_powered = True,
       md_mode = ''ap'', md_adapter = adapter1Path, HasStation = False,
       StationState = '''', StationScanning = False, StationConnectedNetwork = '''',
       StationConnectedAccessPoint = '''', StationAffinities = [],
       HasAccessPoint = access_point_exported f, APStarted = True, APScanning = False,
       APName = accessPointHostedSSID, APFrequency = accessPointFrequency,
       APPairwiseCiphers = accessPointPairwiseCiphers, APGroupCipher = accessPointGroupCipher\<rparr>]"

definition bss_fixtures :: "mock_bss list" where
  "bss_fixtures =
     [\<lparr>mb_path = known_net_bss, mb_address = ''de:ad:be:ef:ca:fe''\<rparr>,
      \<lparr>mb_path = open_net_path @ ''/112233445566'', mb_address = ''11:22:33:44:55:66''\<rparr>,
      \<lparr>mb_path = open_net_path @ ''/778899aabbcc'', mb_address = ''77:88:99:aa:bb:cc''\<rparr>]"

definition network_fixtures :: "mock_network list" where
  "network_fixtures =
     [\<lparr>mn_path = known_net_path, mn_name = ''KnownNet'', mn_connected = False, mn_device = devicePath,
       mn_type = ''psk'', mn_known = known_net_profile, mn_ess = [known_net_bss]\<rparr>,
      \<lparr>mn_path = open_net_path, mn_name = ''OpenNet'', mn_connected = False, mn_device = devicePath,
       mn_type = ''open'', mn_known = '''',
       mn_ess = [open_net_path @ ''/112233445566'', open_net_path @ ''/778899aabbcc'']\<rparr>,
      \<lparr>mn_path = secured_net_path, mn_name = ''SecuredNet'', mn_connected = False, mn_device = devicePath,
       mn_type = ''psk'', mn_known = '''', mn_ess = []\<rparr>]"

definition known_fixtures :: "mock_known list" where
  "known_fixtures =
     [\<lparr>mk_path = known_net_profile, mk_name = ''KnownNet'', mk_type = ''psk'', mk_hidden = False,
       mk_last_connected = ''2024-01-02T03:04:05Z'', mk_auto_connect = True\<rparr>,
      \<lparr>mk_path = guest_hotspot_profile, mk_name = ''GuestHotspot'', mk_type = ''hotspot'', mk_hidden = False,
       mk_last_connected = '''', mk_auto_connect = False\<rparr>]"

lemmas fixture_defs =
  adapter_fixtures_def device_fixtures_def bss_fixtures_def network_fixtures_def known_fixtures_def

subsection \<open>The exports of \<open>main\<close>\<close>

definition export_daemon :: "mock_env \<Rightarrow> (raw_err, mock, unit) go" where
  "export_daemon env = (\<lambda>m.
     if omitDaemon (flags m) then (Inr (), m)
     else
       go_bind (export env (Some DaemonHandler) IwdDaemonPath IwdDaemonIface) (\<lambda>_.
       go_bind (export env (Some DaemonHandler) IwdDaemonPath PropertiesIface) (\<lambda>_.
       go_bind (guarded (agent_manager_exported (flags m))
         (go_bind (export env (Some DaemonHandler) IwdDaemonPath IwdAgentManagerIface) (\<lambda>_.
          modify (\<lambda>m. m\<lparr>agents := (agents m)\<lparr>ar_bound := True\<rparr>\<rparr>)))) (\<lambda>_.
       go_bind (modify (\<lambda>m. m\<lparr>signal_agents_bound := True\<rparr>)) (\<lambda>_.
       export env (Some (IntrospectStub (daemon_interfaces (flags m)))) IwdDaemonPath IntrospectableIface)))) m)"

definition export_adapter :: "mock_env \<Rightarrow> string option \<Rightarrow> string option \<Rightarrow> (raw_err, mock, unit) go" where
  "export_adapter env model vendor =
     go_bind (modify (\<lambda>m. m\<lparr>adapters := adapter_fixtures model vendor, exportedAdapters := []\<rparr>)) (\<lambda>_.
     for_each (\<lambda>(i, a).
         go_bind (export_object_at env (AdapterHandler i) (ma_path a) IwdAdapterIface) (\<lambda>_.
         modify (\<lambda>m. m\<lparr>exportedAdapters := exportedAdapters m @ [i]\<rparr>)))
       (enumerate 0 (adapter_fixtures model vendor)))"

definition export_one_device :: "mock_env \<Rightarrow> mock_flags \<Rightarrow> nat \<times> mock_device \<Rightarrow> (raw_err, mock, unit) go" where
  "export_one_device env f = (\<lambda>(i, d).
     (let with_wsc = HasStation d \<and> \<not> omitWSC f in
      go_bind (export env (Some (DeviceHandler i)) (md_path d) IwdDeviceIface) (\<lambda>_.
      go_bind (export env (Some (DeviceHandler i)) (md_path d) PropertiesIface) (\<lambda>_.
      go_bind (guarded (HasStation d)
        (go_bind (export env (Some (DeviceHandler i)) (md_path d) IwdStationIface) (\<lambda>_.
         guarded with_wsc (export env (Some (DeviceHandler i)) (md_path d) IwdSimpleConfigurationIface)))) (\<lambda>_.
      go_bind (guarded (HasAccessPoint d)
        (export env (Some (AccessPointHandler i)) (md_path d) IwdAccessPointIface)) (\<lambda>_.
      go_bind (export_device_introspection env (md_path d) (HasStation d) with_wsc (HasAccessPoint d)) (\<lambda>_.
      modify (\<lambda>m. m\<lparr>exportedDevices := exportedDevices m @ [i]\<rparr>))))))))"

definition export_device :: "mock_env \<Rightarrow> (raw_err, mock, unit) go" where
  "export_device env = (\<lambda>m.
     if omitDevice (flags m) then (Inr (), m)
     else for_each (export_one_device env (flags m)) (enumerate 0 (device_fixtures (flags m)))
       (m\<lparr>devices := device_fixtures (flags m), exportedDevices := []\<rparr>))"

definition export_bss :: "mock_env \<Rightarrow> (raw_err, mock, unit) go" where
  "export_bss env = (\<lambda>m.
     if omitBSS (flags m) then (Inr (), m)
     else for_each (\<lambda>(i, b).
         go_bind (export_object_at env (BSSHandler i) (mb_path b) IwdBasicServiceSetIface) (\<lambda>_.
         modify (\<lambda>m. m\<lparr>exportedBSSes := exportedBSSes m @ [i]\<rparr>)))
       (enumerate 0 bss_fixtures) (m\<lparr>bsses := bss_fixtures, exportedBSSes := []\<rparr>))"

definition export_network :: "mock_env \<Rightarrow> (raw_err, mock, unit) go" where
  "export_network env = (\<lambda>m.
     if omitNetwork (flags m) then (Inr (), m)
     else for_each (\<lambda>(i, n).
         go_bind (export_object_at env (NetworkHandler i) (mn_path n) IwdNetworkIface) (\<lambda>_.
         modify (\<lambda>m. m\<lparr>exportedNetworks := exportedNetworks m @ [i]\<rparr>)))
       (enumerate 0 network_fixtures) (m\<lparr>networks := network_fixtures, exportedNetworks := []\<rparr>))"

definition export_known_network :: "mock_env \<Rightarrow> (raw_err, mock, unit) go" where
  "export_known_network env = (\<lambda>m.
     if omitKnownNetwork (flags m) then (Inr (), m)
     else for_each (\<lambda>(i, k).
         go_bind (export_object_at env (KnownNetworkHandler i) (mk_path k) IwdKnownNetworkIface) (\<lambda>_.
         modify (\<lambda>m. m\<lparr>exportedKnownNetworks := exportedKnownNetworks m @ [i]\<rparr>)))
       (enumerate 0 known_fixtures) (m\<lparr>knowns := known_fixtures, exportedKnownNetworks := []\<rparr>))"

definition export_object_manager :: "mock_env \<Rightarrow> (raw_err, mock, unit) go" where
  "export_object_manager env = (\<lambda>m.
     export env (Some (ObjectManager (\<not> omitDaemon (flags m)))) ''/'' ObjectManagerIface (m\<lparr>mock_connected := True\<rparr>))"

text \<open>The sequence of \<open>main\<close>; \<open>omit\<close> is \<open>--omit-optionals\<close>. A failure ends the process.\<close>

definition mock_start :: "mock_env \<Rightarrow> bool \<Rightarrow> (raw_err, mock, unit) go" where
  "mock_start env omit =
     go_bind (export_daemon env) (\<lambda>_.
     go_bind (if omit then export_adapter env None None
              else export_adapter env (Some ''MockModel'') (Some ''MockVendor'')) (\<lambda>_.
     go_bind (export_device env) (\<lambda>_.
     go_bind (export_bss env) (\<lambda>_.
     go_bind (export_network env) (\<lambda>_.
     go_bind (export_known_network env) (\<lambda>_.
     export_object_manager env))))))"

subsection \<open>The object manager\<close>

definition put_objects :: "(string \<times> interfaces) list \<Rightarrow> managed_objects \<Rightarrow> managed_objects" where
  "put_objects entries objects = fold (\<lambda>(p, ifaces). AList.update p ifaces) entries objects"

definition device_entry :: "mock_device \<Rightarrow> string \<times> interfaces" where
  "device_entry d =
     (md_path d,
      [(IwdDeviceIface, device_prop_map d)]
      @ (if HasStation d then [(IwdStationIface, station_prop_map d)] else [])
      @ (if HasAccessPoint d then [(IwdAccessPointIface, access_point_prop_map d)] else []))"

definition get_managed :: "bool \<Rightarrow> mock \<Rightarrow> managed_objects" where
  "get_managed has_daemon m =
     put_objects (map (\<lambda>i. let k = knowns m ! i in (mk_path k, [(IwdKnownNetworkIface, known_prop_map k)]))
       (exportedKnownNetworks m))
     (put_objects (map (\<lambda>i. let n = networks m ! i in (mn_path n, [(IwdNetworkIface, network_prop_map n)]))
       (exportedNetworks m))
     (put_objects (map (\<lambda>i. let b = bsses m ! i in (mb_path b, [(IwdBasicServiceSetIface, bss_prop_map b)]))
       (exportedBSSes m))
     (put_objects (map (\<lambda>i. device_entry (devices m ! i)) (exportedDevices m))
     (put_objects (map (\<lambda>i. let a = adapters m ! i in (ma_path a, [(IwdAdapterIface, adapter_prop_map (flags m) a)]))
       (exportedAdapters m))
     (put_objects (if has_daemon then [(IwdDaemonPath, [(IwdDaemonIface, daemon_get_all (flags m))])] else [])
       [])))))"

end
