(* ===== verification/Mock_Service.thy ===== *)
theory Mock_Service
  imports Mock_Objects
begin

text \<open>
  What the mock iwd does: the objects that come and go (\<open>lifecycle.go\<close>), the agent registries (\<open>agent.go\<close>,
  \<open>signalagent.go\<close>), the methods of networks, known networks, stations, access points and WSC, the
  settings of properties, and the dispatch of a call to the handler exported at its path and interface.
\<close>

subsection \<open>Known networks come and go (lifecycle.go)\<close>

definition provisionedLastConnectedTime :: string where
  "provisionedLastConnectedTime = ''2026-01-01T00:00:00Z''"

definition hex_ssid :: "string \<Rightarrow> string" where
  "hex_ssid ssid = concat (map (\<lambda>b. [hex_digit (code b div 16), hex_digit (code b mod 16)]) ssid)"

definition known_network_path_for :: "mock_network \<Rightarrow> string" where
  "known_network_path_for n = ''/net/connman/iwd/'' @ hex_ssid (mn_name n) @ ''_'' @ mn_type n"

text \<open>\<open>removeKnownNetwork(k)\<close>: the networks that lose the link are told one by one, in the order of the registry.\<close>

definition unlink_network :: "string \<Rightarrow> mock_network \<Rightarrow> mock_network" where
  "unlink_network path n = (if mn_known n = path then n\<lparr>mn_known := ''''\<rparr> else n)"

definition remove_known_network :: "mock_env \<Rightarrow> nat \<Rightarrow> mock \<Rightarrow> mock" where
  "remove_known_network env k m =
     (let path = mk_path (knowns m ! k);
          unlinked = filter (\<lambda>i. mn_known (networks m ! i) = path) (exportedNetworks m);
          m1 = m\<lparr>exportedKnownNetworks := filter (\<lambda>c. c \<noteq> k) (exportedKnownNetworks m)\<rparr>;
          m2 = fold (\<lambda>i. network_update i (unlink_network path)) (exportedNetworks m1) m1;
          m3 = fold (\<lambda>i m. emit_properties_changed (mn_path (networks m ! i)) IwdNetworkIface [] [''KnownNetwork''] m) unlinked m2
      in emit_interfaces_removed path [IwdKnownNetworkIface] (unexport_object env path [IwdKnownNetworkIface] m3))"

definition new_known :: "mock_network \<Rightarrow> mock_known" where
  "new_known n =
     \<lparr>mk_path = known_network_path_for n, mk_name = mn_name n, mk_type = mn_type n, mk_hidden = False,
      mk_last_connected = provisionedLastConnectedTime, mk_auto_connect = True\<rparr>"

definition provision_known_network :: "mock_env \<Rightarrow> nat \<Rightarrow> mock \<Rightarrow> mock" where
  "provision_known_network env i m =
     (let n = networks m ! i in
      if mn_known n \<noteq> '''' then m
      else
        (let k = new_known n;
             j = length (knowns m)
         in case guarded (mock_connected m) (export_object_at env (KnownNetworkHandler j) (mk_path k) IwdKnownNetworkIface)
                   (m\<lparr>knowns := knowns m @ [k]\<rparr>) of
              (Inl _, m1) \<Rightarrow> m1
            | (Inr _, m1) \<Rightarrow>
                emit_properties_changed (mn_path n) IwdNetworkIface [(''KnownNetwork'', VPath (mk_path k))] []
                  (emit_interfaces_added (mk_path k) [(IwdKnownNetworkIface, known_prop_map k)]
                    (network_update i (\<lambda>n. n\<lparr>mn_known := mk_path k\<rparr>)
                      (m1\<lparr>exportedKnownNetworks := exportedKnownNetworks m1 @ [j]\<rparr>)))))"

subsection \<open>The mode of a device (lifecycle.go)\<close>

definition mode_interfaces :: "mock_flags \<Rightarrow> string \<Rightarrow> mock_device \<Rightarrow> mock_device" where
  "mode_interfaces f mode d =
     (if mode = ''ap'' then d\<lparr>HasStation := False, HasAccessPoint := access_point_exported f\<rparr>
      else if mode = ''station'' then d\<lparr>HasStation := station_exported f, HasAccessPoint := False\<rparr>
      else d\<lparr>HasStation := False, HasAccessPoint := False\<rparr>)"

definition removed_interfaces :: "mock_flags \<Rightarrow> mock_device \<Rightarrow> mock_device \<Rightarrow> string list" where
  "removed_interfaces f old new =
     (if HasStation old \<and> \<not> HasStation new
      then IwdStationIface # (if \<not> omitWSC f then [IwdSimpleConfigurationIface] else []) else [])
     @ (if HasAccessPoint old \<and> \<not> HasAccessPoint new then [IwdAccessPointIface] else [])"

definition added_interfaces :: "mock_device \<Rightarrow> mock_device \<Rightarrow> interfaces" where
  "added_interfaces old new =
     (if \<not> HasStation old \<and> HasStation new then [(IwdStationIface, station_prop_map new)] else [])
     @ (if \<not> HasAccessPoint old \<and> HasAccessPoint new
        then [(IwdAccessPointIface, access_point_prop_map new)] else [])"

text \<open>What \<open>switchDeviceMode\<close> does to the exports of the device's path.\<close>

definition swap_exports :: "mock_env \<Rightarrow> nat \<Rightarrow> mock_device \<Rightarrow> mock_device \<Rightarrow> mock \<Rightarrow> mock" where
  "swap_exports env i old new m =
     (let path = md_path new;
          with_wsc = HasStation new \<and> \<not> omitWSC (flags m);
          m1 = fold (\<lambda>iface. ignoring (export env None path iface)) (removed_interfaces (flags m) old new) m;
          m2 = (if \<not> HasStation old \<and> HasStation new
                then (let m' = ignoring (export env (Some (DeviceHandler i)) path IwdStationIface) m1
                      in if with_wsc then ignoring (export env (Some (DeviceHandler i)) path IwdSimpleConfigurationIface) m'
                         else m')
                else m1);
          m3 = (if \<not> HasAccessPoint old \<and> HasAccessPoint new
                then ignoring (export env (Some (AccessPointHandler i)) path IwdAccessPointIface) m2 else m2)
      in ignoring (export_device_introspection env path (HasStation new) with_wsc (HasAccessPoint new)) m3)"

definition switch_device_mode :: "mock_env \<Rightarrow> nat \<Rightarrow> string \<Rightarrow> mock \<Rightarrow> mock" where
  "switch_device_mode env i mode m =
     (let old = devices m ! i;
          new = mode_interfaces (flags m) mode old;
          m1 = device_update i (mode_interfaces (flags m) mode) m
      in if HasStation old = HasStation new \<and> HasAccessPoint old = HasAccessPoint new then m1
         else
           (let removed = removed_interfaces (flags m) old new;
                with_added = added_interfaces old new;
                m2 = (if mock_connected m1 then swap_exports env i old new m1 else m1);
                m3 = (if removed \<noteq> [] then emit_interfaces_removed (md_path new) removed m2 else m2)
            in if with_added \<noteq> [] then emit_interfaces_added (md_path new) with_added m3 else m3))"

subsection \<open>The credentials agent (agent.go)\<close>

definition securedNetworkPassphrase :: string where
  "securedNetworkPassphrase = ''mock-secret-passphrase''"

definition agents_register :: "string \<Rightarrow> string \<Rightarrow> (raw_err, mock, unit) go" where
  "agents_register sender path = (\<lambda>m.
     if ar_set (agents m) then (Inl (iwd_error ''.AlreadyExists'' ''an agent is already registered''), m)
     else (Inr (), m\<lparr>agents := (agents m)\<lparr>ar_sender := sender, ar_path := path, ar_set := True\<rparr>\<rparr>))"

definition agents_unregister :: "string \<Rightarrow> string \<Rightarrow> (raw_err, mock, unit) go" where
  "agents_unregister sender path = (\<lambda>m.
     if \<not> ar_set (agents m) \<or> ar_path (agents m) \<noteq> path \<or> ar_sender (agents m) \<noteq> sender
     then (Inl (iwd_error ''.NotFound'' ''no such agent registered''), m)
     else (Inr (), m\<lparr>agents := (agents m)\<lparr>ar_set := False, ar_sender := '''', ar_path := ''''\<rparr>\<rparr>))"

text \<open>\<open>None\<close> is the answer with \<open>ok\<close> false.\<close>

definition request_passphrase :: "mock_env \<Rightarrow> string \<Rightarrow> mock \<Rightarrow> (raw_err + string) option \<times> mock" where
  "request_passphrase env network m =
     (if \<not> ar_set (agents m) \<or> \<not> ar_bound (agents m) then (None, m)
      else (Some (me_ask env (ar_sender (agents m)) (ar_path (agents m)) network (questions m)),
            m\<lparr>questions := questions m + 1\<rparr>))"

definition invalid_passphrase_error :: raw_err where
  "invalid_passphrase_error = iwd_error ''.Failed'' ''invalid passphrase for secured network''"

text \<open>The check that \<open>Network.Connect\<close> and \<open>ConnectHiddenNetwork\<close> share.\<close>

definition check_passphrase_with_agent :: "mock_env \<Rightarrow> string \<Rightarrow> (raw_err, mock, unit) go" where
  "check_passphrase_with_agent env network = (\<lambda>m.
     case request_passphrase env network m of
       (None, m') \<Rightarrow> (Inl (iwd_error ''.NoAgent'' ''No agent registered''), m')
     | (Some (Inl e), m') \<Rightarrow> (Inl (iwd_error ''.Failed'' (err_text e)), m')
     | (Some (Inr p), m') \<Rightarrow>
         (if p \<noteq> securedNetworkPassphrase then Inl invalid_passphrase_error else Inr (), m'))"

subsection \<open>Networks and known networks\<close>

definition mock_network_connect :: "mock_env \<Rightarrow> nat \<Rightarrow> (raw_err, mock, unit) go" where
  "mock_network_connect env i = (\<lambda>m.
     let n = networks m ! i in
     go_bind (guarded (mn_type n \<noteq> ''open'' \<and> mn_known n = '''') (check_passphrase_with_agent env (mn_path n))) (\<lambda>_.
     go_bind (modify (network_update i (\<lambda>n. n\<lparr>mn_connected := True\<rparr>))) (\<lambda>_.
     go_bind (guarded (mn_type n \<noteq> ''open'') (modify (provision_known_network env i))) (\<lambda>_.
     modify (emit_properties_changed (mn_path n) IwdNetworkIface [(''Connected'', VBool True)] [])))) m)"

definition mock_known_forget :: "mock_env \<Rightarrow> nat \<Rightarrow> (raw_err, mock, unit) go" where
  "mock_known_forget env k = modify (remove_known_network env k)"

subsection \<open>The station (station.go)\<close>

definition no_station :: raw_err where
  "no_station = failed_error ''device has no station interface''"

definition on_station :: "nat \<Rightarrow> (raw_err, mock, 'a) go \<Rightarrow> (raw_err, mock, 'a) go" where
  "on_station i f = (\<lambda>m. if \<not> HasStation (devices m ! i) then (Inl no_station, m) else f m)"

definition emit_station_changed :: "nat \<Rightarrow> properties \<Rightarrow> mock \<Rightarrow> mock" where
  "emit_station_changed i props m = emit_properties_changed (md_path (devices m ! i)) IwdStationIface props [] m"

definition mock_station_scan :: "nat \<Rightarrow> (raw_err, mock, unit) go" where
  "mock_station_scan i = on_station i (\<lambda>m.
     if StationScanning (devices m ! i)
     then (Inl (iwd_error ''.InProgress'' ''scan already in progress''), m)
     else
       (let m1 = emit_station_changed i [(''Scanning'', VBool True)] (device_update i (\<lambda>d. d\<lparr>StationScanning := True\<rparr>) m)
        in (Inr (), m1\<lparr>goroutines := goroutines m1 @ [StationScanDone i]\<rparr>)))"

definition station_scan_done :: "nat \<Rightarrow> mock \<Rightarrow> mock" where
  "station_scan_done i m =
     emit_station_changed i [(''Scanning'', VBool False)] (device_update i (\<lambda>d. d\<lparr>StationScanning := False\<rparr>) m)"

definition stationOrderedNetworks :: "(string \<times> int) list" where
  "stationOrderedNetworks = [(known_net_path, - 6000), (open_net_path, - 7200), (secured_net_path, - 8000)]"

definition mock_station_networks :: "nat \<Rightarrow> (raw_err, mock, (string \<times> int) list) go" where
  "mock_station_networks i = on_station i (go_return stationOrderedNetworks)"

definition set_station_affinities :: "nat \<Rightarrow> string list \<Rightarrow> mock \<Rightarrow> mock" where
  "set_station_affinities i paths m =
     emit_station_changed i [(''Affinities'', VPaths paths)] (device_update i (\<lambda>d. d\<lparr>StationAffinities := paths\<rparr>) m)"

definition mock_station_disconnect :: "nat \<Rightarrow> (raw_err, mock, unit) go" where
  "mock_station_disconnect i = on_station i (\<lambda>m.
     (Inr (), emit_properties_changed (md_path (devices m ! i)) IwdStationIface
        [(''State'', VStr ''disconnected'')] [''ConnectedNetwork'', ''ConnectedAccessPoint'']
        (device_update i (\<lambda>d. d\<lparr>StationState := ''disconnected'', StationConnectedNetwork := ''/'',
                             StationConnectedAccessPoint := ''/''\<rparr>) m)))"

definition hiddenConnectedNetworkPath :: string where
  "hiddenConnectedNetworkPath = devicePath @ ''/hidden0''"

definition hiddenNetworkTypes :: "(string \<times> string) list" where
  "hiddenNetworkTypes = [(''HiddenOpen'', ''open''), (''HiddenSecured'', ''psk'')]"

definition visibleNetworkNames :: "string list" where
  "visibleNetworkNames = [''KnownNet'', ''OpenNet'', ''SecuredNet'']"

definition mock_connect_hidden :: "mock_env \<Rightarrow> nat \<Rightarrow> string \<Rightarrow> (raw_err, mock, unit) go" where
  "mock_connect_hidden env i name = on_station i
     (case map_of hiddenNetworkTypes name of
        None \<Rightarrow>
          (if name \<in> set visibleNetworkNames then go_fail (iwd_error ''.NotHidden'' ''network is not hidden'')
           else go_fail (iwd_error ''.NotFound'' ''no such hidden network''))
      | Some sec \<Rightarrow>
          go_bind (guarded (sec \<noteq> ''open'') (check_passphrase_with_agent env hiddenConnectedNetworkPath)) (\<lambda>_.
          modify (\<lambda>m.
            emit_station_changed i
              [(''State'', VStr ''connected''), (''ConnectedNetwork'', VPath hiddenConnectedNetworkPath)]
              (device_update i (\<lambda>d. d\<lparr>StationState := ''connected'',
                                   StationConnectedNetwork := hiddenConnectedNetworkPath\<rparr>) m))))"

definition stationHiddenAccessPoints :: "(string \<times> int \<times> string) list" where
  "stationHiddenAccessPoints =
     [(''de:ad:be:ef:00:01'', - 6500, ''psk''), (''de:ad:be:ef:00:02'', - 8100, ''open'')]"

definition mock_station_hidden :: "nat \<Rightarrow> (raw_err, mock, (string \<times> int \<times> string) list) go" where
  "mock_station_hidden i = on_station i (go_return stationHiddenAccessPoints)"

subsection \<open>WSC (wsc.go)\<close>

definition on_wsc :: "nat \<Rightarrow> (raw_err, mock, 'a) go \<Rightarrow> (raw_err, mock, 'a) go" where
  "on_wsc i f = (\<lambda>m.
     if \<not> HasStation (devices m ! i) then (Inl (failed_error ''device has no simple configuration interface''), m) else f m)"

definition wscGeneratedPin :: string where
  "wscGeneratedPin = ''12345670''"

definition wscNoCredentialsPin :: string where
  "wscNoCredentialsPin = ''00000000''"

definition mock_wsc_push_button :: "nat \<Rightarrow> (raw_err, mock, unit) go" where
  "mock_wsc_push_button i = on_wsc i (go_return ())"

definition mock_wsc_generate_pin :: "nat \<Rightarrow> (raw_err, mock, string) go" where
  "mock_wsc_generate_pin i = on_wsc i (go_return wscGeneratedPin)"

definition mock_wsc_start_pin :: "nat \<Rightarrow> string \<Rightarrow> (raw_err, mock, unit) go" where
  "mock_wsc_start_pin i pin = on_wsc i
     (if pin = wscNoCredentialsPin
      then go_fail (iwd_error ''.SimpleConfiguration.NoCredentials'' ''no usable credentials obtained'')
      else go_return ())"

definition mock_wsc_cancel :: "nat \<Rightarrow> (raw_err, mock, unit) go" where
  "mock_wsc_cancel i = on_wsc i (go_return ())"

end
