(* ===== verification/Mock_Bus.thy ===== *)
theory Mock_Bus
  imports Mock_Service
begin

text \<open>
  The rest of the mock iwd's service (\<open>accesspoint.go\<close>, \<open>signalagent.go\<close>, the \<open>Set\<close> handlers, \<open>firehose.go\<close>), the
  dispatch of a call on the bus to the handler exported at its path and interface, and the mock as the
  connection the client talks to. godbus exports every method of a handler's type under each
  interface it is exported at, so the method is looked up in the handler alone.
\<close>

subsection \<open>Access points (accesspoint.go)\<close>

definition no_access_point :: raw_err where
  "no_access_point = failed_error ''device has no access point interface''"

definition on_access_point :: "nat \<Rightarrow> (raw_err, mock, 'a) go \<Rightarrow> (raw_err, mock, 'a) go" where
  "on_access_point i f = (\<lambda>m. if \<not> HasAccessPoint (devices m ! i) then (Inl no_access_point, m) else f m)"

definition emit_access_point_changed :: "nat \<Rightarrow> properties \<Rightarrow> mock \<Rightarrow> mock" where
  "emit_access_point_changed i props m =
     emit_properties_changed (md_path (devices m ! i)) IwdAccessPointIface props [] m"

definition start_ap_locked :: "string \<Rightarrow> mock_device \<Rightarrow> mock_device" where
  "start_ap_locked ssid d =
     d\<lparr>APStarted := True, APName := ssid, APFrequency := accessPointFrequency,
       APPairwiseCiphers := accessPointPairwiseCiphers, APGroupCipher := accessPointGroupCipher\<rparr>"

definition emit_access_point_started :: "nat \<Rightarrow> string \<Rightarrow> mock \<Rightarrow> mock" where
  "emit_access_point_started i ssid =
     emit_access_point_changed i
       [(''Started'', VBool True), (''Scanning'', VBool False), (''Name'', VStr ssid),
        (''Frequency'', VUint32 accessPointFrequency), (''PairwiseCiphers'', VStrs accessPointPairwiseCiphers),
        (''GroupCipher'', VStr accessPointGroupCipher)]"

definition mock_ap_start :: "nat \<Rightarrow> string \<Rightarrow> string \<Rightarrow> (raw_err, mock, unit) go" where
  "mock_ap_start i ssid psk = on_access_point i (\<lambda>m.
     if ssid = '''' \<or> length psk < 8 then (Inl (iwd_error ''.InvalidArguments'' ''invalid ssid or passphrase''), m)
     else if APStarted (devices m ! i) then (Inl (iwd_error ''.AlreadyExists'' ''access point already started''), m)
     else (Inr (), emit_access_point_started i ssid (device_update i (start_ap_locked ssid) m)))"

definition accessPointProfileSSID :: string where
  "accessPointProfileSSID = ''MockProfile''"

definition mock_ap_start_profile :: "nat \<Rightarrow> string \<Rightarrow> (raw_err, mock, unit) go" where
  "mock_ap_start_profile i ssid = on_access_point i (\<lambda>m.
     if APStarted (devices m ! i) then (Inl (iwd_error ''.AlreadyExists'' ''access point already started''), m)
     else if ssid \<noteq> accessPointProfileSSID then (Inl (iwd_error ''.NotFound'' ''no such profile''), m)
     else (Inr (), emit_access_point_started i ssid (device_update i (start_ap_locked ssid) m)))"

definition mock_ap_stop :: "nat \<Rightarrow> (raw_err, mock, unit) go" where
  "mock_ap_stop i = on_access_point i (\<lambda>m.
     (Inr (), emit_properties_changed (md_path (devices m ! i)) IwdAccessPointIface [(''Started'', VBool False)]
        [''Scanning'', ''Name'', ''Frequency'', ''PairwiseCiphers'', ''GroupCipher'']
        (device_update i (\<lambda>d. d\<lparr>APStarted := False, APName := '''', APFrequency := 0,
                             APPairwiseCiphers := [], APGroupCipher := ''''\<rparr>) m)))"

definition not_available :: raw_err where
  "not_available = iwd_error ''.NotAvailable'' ''Operation not available''"

definition mock_ap_scan :: "nat \<Rightarrow> (raw_err, mock, unit) go" where
  "mock_ap_scan i = on_access_point i (\<lambda>m.
     if \<not> APStarted (devices m ! i) then (Inl not_available, m)
     else if APScanning (devices m ! i) then (Inl (iwd_error ''.InProgress'' ''scan already in progress''), m)
     else
       (let m1 = emit_access_point_changed i [(''Scanning'', VBool True)] (device_update i (\<lambda>d. d\<lparr>APScanning := True\<rparr>) m)
        in (Inr (), m1\<lparr>goroutines := goroutines m1 @ [AccessPointScanDone i]\<rparr>)))"

definition ap_scan_done :: "nat \<Rightarrow> mock \<Rightarrow> mock" where
  "ap_scan_done i m =
     emit_access_point_changed i [(''Scanning'', VBool False)] (device_update i (\<lambda>d. d\<lparr>APScanning := False\<rparr>) m)"

definition accessPointOrderedNetworks :: "properties list" where
  "accessPointOrderedNetworks =
     [[(''Name'', VStr ''OpenNet''), (''SignalStrength'', VInt16 (- 6000)), (''Type'', VStr ''open'')],
      [(''Name'', VStr ''SecuredNet''), (''SignalStrength'', VInt16 (- 7200)), (''Type'', VStr ''psk'')],
      [(''Name'', VStr ''MysteryNet''), (''SignalStrength'', VInt16 (- 8100)), (''Type'', VStr '''')]]"

definition mock_ap_networks :: "nat \<Rightarrow> (raw_err, mock, properties list) go" where
  "mock_ap_networks i = on_access_point i (\<lambda>m.
     if \<not> APStarted (devices m ! i) then (Inl not_available, m) else (Inr accessPointOrderedNetworks, m))"

subsection \<open>Signal-level agents (signalagent.go)\<close>

definition initialSignalLevel :: int where
  "initialSignalLevel = 1"

definition signal_agents_register :: "string \<Rightarrow> string \<Rightarrow> string \<Rightarrow> int list \<Rightarrow> (raw_err, mock, unit) go" where
  "signal_agents_register sender station agent ls = (\<lambda>m.
     if by_station m station \<noteq> None
     then (Inl (iwd_error ''.AlreadyExists'' ''a signal level agent is already registered''), m)
     else (Inr (), m\<lparr>by_station := (by_station m)(station \<mapsto> \<lparr>sr_sender = sender, sr_path = agent, sr_levels = ls\<rparr>),
                     goroutines := goroutines m @ [FirstChanged station]\<rparr>))"

definition signal_agents_unregister :: "string \<Rightarrow> string \<Rightarrow> string \<Rightarrow> (raw_err, mock, unit) go" where
  "signal_agents_unregister sender station agent = (\<lambda>m.
     let missing = (Inl (iwd_error ''.NotFound'' ''no such signal level agent registered''), m) in
     case by_station m station of
       None \<Rightarrow> missing
     | Some reg \<Rightarrow>
         if sr_path reg \<noteq> agent \<or> sr_sender reg \<noteq> sender then missing
         else (Inr (), m\<lparr>by_station := (by_station m)(station := None)\<rparr>))"

definition emit_level_changed :: "string \<Rightarrow> int \<Rightarrow> mock \<Rightarrow> mock" where
  "emit_level_changed station level m =
     (case by_station m station of
        None \<Rightarrow> m
      | Some reg \<Rightarrow>
          if signal_agents_bound m
          then m\<lparr>delivered := delivered m @ [(sr_sender reg, sr_path reg, station, level)]\<rparr> else m)"

text \<open>The goroutines run on their own, each once.\<close>

definition run_mock_goroutine :: "mock_goroutine \<Rightarrow> mock \<Rightarrow> mock" where
  "run_mock_goroutine g m =
     (let m1 = m\<lparr>goroutines := remove1 g (goroutines m)\<rparr> in
      case g of
        StationScanDone i \<Rightarrow> station_scan_done i m1
      | AccessPointScanDone i \<Rightarrow> ap_scan_done i m1
      | FirstChanged station \<Rightarrow> emit_level_changed station initialSignalLevel m1)"

subsection \<open>Settings\<close>

text \<open>
  \<open>%T\<close> of the argument \<open>v\<close> itself, a \<open>dbus.Variant\<close> whatever it holds; for \<open>Affinities\<close> the code
  prints the type of what it holds.
\<close>

definition must_be :: "string \<Rightarrow> string \<Rightarrow> string \<Rightarrow> raw_err" where
  "must_be p what got = failed_error (sprintf (''property '' @ p @ '' must be '' @ what @ '', got %T'') [got])"

definition cannot_set :: "string \<Rightarrow> raw_err" where
  "cannot_set p = failed_error (sprintf ''cannot set property %q'' [p])"

definition adapter_set :: "nat \<Rightarrow> string \<Rightarrow> string \<Rightarrow> dval \<Rightarrow> (raw_err, mock, unit) go" where
  "adapter_set i iface p v = (\<lambda>m.
     if iface \<noteq> IwdAdapterIface then (Inr (), m)
     else if p = ''Powered''
     then (case as_bool v of
             None \<Rightarrow> (Inl (must_be ''Powered'' ''a bool'' ''dbus.Variant''), m)
           | Some b \<Rightarrow> (Inr (), emit_properties_changed (ma_path (adapters m ! i)) IwdAdapterIface
                                [(''Powered'', VBool b)] [] (adapter_update i (\<lambda>a. a\<lparr>ma_powered := b\<rparr>) m)))
     else (Inl (cannot_set p), m))"

definition known_set :: "nat \<Rightarrow> string \<Rightarrow> string \<Rightarrow> dval \<Rightarrow> (raw_err, mock, unit) go" where
  "known_set i iface p v = (\<lambda>m.
     if iface \<noteq> IwdKnownNetworkIface then (Inr (), m)
     else if p \<noteq> ''AutoConnect'' then (Inl (cannot_set p), m)
     else (case as_bool v of
             None \<Rightarrow> (Inl (must_be ''AutoConnect'' ''a bool'' ''dbus.Variant''), m)
           | Some b \<Rightarrow> (Inr (), emit_properties_changed (mk_path (knowns m ! i)) IwdKnownNetworkIface
                                [(''AutoConnect'', VBool b)] [] (known_update i (\<lambda>k. k\<lparr>mk_auto_connect := b\<rparr>) m))))"

definition device_set :: "mock_env \<Rightarrow> nat \<Rightarrow> string \<Rightarrow> string \<Rightarrow> dval \<Rightarrow> (raw_err, mock, unit) go" where
  "device_set env i iface p v = (\<lambda>m.
     if iface = IwdStationIface
     then
       (if \<not> HasStation (devices m ! i) then (Inl no_station, m)
        else if p \<noteq> ''Affinities'' then (Inl (failed_error (sprintf ''cannot set station property %q'' [p])), m)
        else (case v of
                VPaths paths \<Rightarrow> (Inr (), set_station_affinities i paths m)
              | _ \<Rightarrow> (Inl (must_be ''Affinities'' ''an object-path array'' (go_type v)), m)))
     else if iface \<noteq> IwdDeviceIface then (Inr (), m)
     else if p = ''Powered''
     then (case as_bool v of
             None \<Rightarrow> (Inl (must_be ''Powered'' ''a bool'' ''dbus.Variant''), m)
           | Some b \<Rightarrow> (Inr (), emit_properties_changed (md_path (devices m ! i)) IwdDeviceIface
                                [(''Powered'', VBool b)] [] (device_update i (\<lambda>d. d\<lparr>md_powered := b\<rparr>) m)))
     else if p = ''Mode''
     then (case as_string v of
             None \<Rightarrow> (Inl (must_be ''Mode'' ''a string'' ''dbus.Variant''), m)
           | Some s \<Rightarrow> (Inr (), switch_device_mode env i s
                                (emit_properties_changed (md_path (devices m ! i)) IwdDeviceIface
                                  [(''Mode'', VStr s)] [] (device_update i (\<lambda>d. d\<lparr>md_mode := s\<rparr>) m))))
     else (Inl (cannot_set p), m))"

subsection \<open>Dispatch\<close>

type_synonym reply = "(raw_err, mock, dval list) go"

definition answer :: "(raw_err, mock, 'a) go \<Rightarrow> ('a \<Rightarrow> dval list) \<Rightarrow> reply" where
  "answer f body = go_bind f (\<lambda>x. go_return (body x))"

definition answer_unit :: "(raw_err, mock, unit) go \<Rightarrow> reply" where
  "answer_unit f = answer f (\<lambda>_. [])"

text \<open>\<open>Get\<close>, \<open>GetAll\<close> and \<open>Set\<close>; a handler without \<open>Set\<close> has none.\<close>

definition property_method ::
    "mock_env \<Rightarrow> (mock \<Rightarrow> string \<Rightarrow> raw_err + properties) \<Rightarrow> (mock \<Rightarrow> string \<Rightarrow> string \<Rightarrow> raw_err + dval)
      \<Rightarrow> (string \<Rightarrow> string \<Rightarrow> dval \<Rightarrow> (raw_err, mock, unit) go) option \<Rightarrow> string \<Rightarrow> dval list \<Rightarrow> reply option" where
  "property_method env all one set_it method args =
     (let invalid = Some (go_fail (me_invalid_args env)) in
      if method = ''GetAll''
      then (case args of
              [VStr i] \<Rightarrow> Some (\<lambda>m. answer (go_lift (all m i)) (\<lambda>props. [VVarMap props]) m)
            | _ \<Rightarrow> invalid)
      else if method = ''Get''
      then (case args of
              [VStr i, VStr p] \<Rightarrow> Some (\<lambda>m. answer (go_lift (one m i p)) (\<lambda>v. [VVariant v]) m)
            | _ \<Rightarrow> invalid)
      else if method = ''Set''
      then (case set_it of
              None \<Rightarrow> None
            | Some f \<Rightarrow>
                (case args of
                   [VStr i, VStr p, VVariant v] \<Rightarrow> Some (answer_unit (f i p v))
                 | _ \<Rightarrow> invalid))
      else None)"

definition no_argument :: "mock_env \<Rightarrow> reply \<Rightarrow> dval list \<Rightarrow> reply option" where
  "no_argument env f args = Some (if args = [] then f else go_fail (me_invalid_args env))"

definition string_argument :: "mock_env \<Rightarrow> (string \<Rightarrow> reply) \<Rightarrow> dval list \<Rightarrow> reply option" where
  "string_argument env f args =
     Some (case args of [VStr s] \<Rightarrow> f s | _ \<Rightarrow> go_fail (me_invalid_args env))"

definition path_argument :: "mock_env \<Rightarrow> (string \<Rightarrow> reply) \<Rightarrow> dval list \<Rightarrow> reply option" where
  "path_argument env f args =
     Some (case args of [VPath p] \<Rightarrow> f p | _ \<Rightarrow> go_fail (me_invalid_args env))"

text \<open>The bodies of the replies that are not one basic value: \<open>a(on)\<close>, \<open>a(sns)\<close> and the managed objects.\<close>

definition networks_body :: "(string \<times> int) list \<Rightarrow> dval list" where
  "networks_body ns = [VAnys (map (\<lambda>(p, s). VAnys [VPath p, VInt16 s]) ns)]"

definition hidden_body :: "(string \<times> int \<times> string) list \<Rightarrow> dval list" where
  "hidden_body hs = [VAnys (map (\<lambda>(a, s, t). VAnys [VStr a, VInt16 s, VStr t]) hs)]"

definition dicts_body :: "properties list \<Rightarrow> dval list" where
  "dicts_body ds = [VAnys (map VVarMap ds)]"

definition objects_body :: "managed_objects \<Rightarrow> dval list" where
  "objects_body objects =
     [VAnys (map (\<lambda>(p, ifaces). VAnys [VPath p, VAnys (map (\<lambda>(i, props). VAnys [VStr i, VVarMap props]) ifaces)]) objects)]"

definition daemon_method :: "mock_env \<Rightarrow> string \<Rightarrow> string \<Rightarrow> dval list \<Rightarrow> reply option" where
  "daemon_method env sender method args =
     (if method = ''GetInfo''
      then no_argument env (\<lambda>m. answer (go_lift (daemon_get_info (flags m))) (\<lambda>props. [VVarMap props]) m) args
      else if method = ''RegisterAgent'' then path_argument env (\<lambda>p. answer_unit (agents_register sender p)) args
      else if method = ''UnregisterAgent'' then path_argument env (\<lambda>p. answer_unit (agents_unregister sender p)) args
      else property_method env (\<lambda>m _. Inr (daemon_get_all (flags m))) (\<lambda>m _ p. Inr (daemon_get (flags m) p))
             (Some (\<lambda>_ _ _. go_return ())) method args)"

definition device_method :: "mock_env \<Rightarrow> string \<Rightarrow> nat \<Rightarrow> string \<Rightarrow> dval list \<Rightarrow> reply option" where
  "device_method env sender i method args =
     (if method = ''Scan'' then no_argument env (answer_unit (mock_station_scan i)) args
      else if method = ''GetOrderedNetworks'' then no_argument env (answer (mock_station_networks i) networks_body) args
      else if method = ''Disconnect'' then no_argument env (answer_unit (mock_station_disconnect i)) args
      else if method = ''ConnectHiddenNetwork''
      then string_argument env (\<lambda>name. answer_unit (mock_connect_hidden env i name)) args
      else if method = ''GetHiddenAccessPoints'' then no_argument env (answer (mock_station_hidden i) hidden_body) args
      else if method = ''PushButton'' then no_argument env (answer_unit (mock_wsc_push_button i)) args
      else if method = ''GeneratePin'' then no_argument env (answer (mock_wsc_generate_pin i) (\<lambda>pin. [VStr pin])) args
      else if method = ''StartPin'' then string_argument env (\<lambda>pin. answer_unit (mock_wsc_start_pin i pin)) args
      else if method = ''Cancel'' then no_argument env (answer_unit (mock_wsc_cancel i)) args
      else if method = ''RegisterSignalLevelAgent''
      then Some (case args of
                   [VPath p, VLevels ls] \<Rightarrow>
                     (\<lambda>m. answer_unit (signal_agents_register sender (md_path (devices m ! i)) p ls) m)
                 | _ \<Rightarrow> go_fail (me_invalid_args env))
      else if method = ''UnregisterSignalLevelAgent''
      then path_argument env (\<lambda>p m. answer_unit (signal_agents_unregister sender (md_path (devices m ! i)) p) m) args
      else property_method env (\<lambda>m. device_get_all (devices m ! i)) (\<lambda>m. device_get (devices m ! i))
             (Some (device_set env i)) method args)"

definition access_point_method :: "mock_env \<Rightarrow> nat \<Rightarrow> string \<Rightarrow> dval list \<Rightarrow> reply option" where
  "access_point_method env i method args =
     (if method = ''Start''
      then Some (case args of
                   [VStr ssid, VStr psk] \<Rightarrow> answer_unit (mock_ap_start i ssid psk)
                 | _ \<Rightarrow> go_fail (me_invalid_args env))
      else if method = ''StartProfile'' then string_argument env (\<lambda>s. answer_unit (mock_ap_start_profile i s)) args
      else if method = ''Stop'' then no_argument env (answer_unit (mock_ap_stop i)) args
      else if method = ''Scan'' then no_argument env (answer_unit (mock_ap_scan i)) args
      else if method = ''GetOrderedNetworks'' then no_argument env (answer (mock_ap_networks i) dicts_body) args
      else None)"

fun handler_method :: "mock_env \<Rightarrow> string \<Rightarrow> mock_handler \<Rightarrow> string \<Rightarrow> dval list \<Rightarrow> reply option" where
  "handler_method env sender DaemonHandler method args = daemon_method env sender method args"
| "handler_method env sender (AdapterHandler i) method args =
     property_method env (\<lambda>m. adapter_get_all (flags m) (adapters m ! i)) (\<lambda>m. adapter_get (flags m) (adapters m ! i))
       (Some (adapter_set i)) method args"
| "handler_method env sender (DeviceHandler i) method args = device_method env sender i method args"
| "handler_method env sender (AccessPointHandler i) method args = access_point_method env i method args"
| "handler_method env sender (BSSHandler i) method args =
     property_method env (\<lambda>m. bss_get_all (bsses m ! i)) (\<lambda>m. bss_get (bsses m ! i)) None method args"
| "handler_method env sender (NetworkHandler i) method args =
     (if method = ''Connect'' then no_argument env (answer_unit (mock_network_connect env i)) args
      else property_method env (\<lambda>m. network_get_all (networks m ! i)) (\<lambda>m. network_get (networks m ! i)) None method args)"
| "handler_method env sender (KnownNetworkHandler i) method args =
     (if method = ''Forget'' then no_argument env (answer_unit (mock_known_forget env i)) args
      else property_method env (\<lambda>m. known_get_all (knowns m ! i)) (\<lambda>m. known_get (knowns m ! i))
             (Some (known_set i)) method args)"
| "handler_method env sender (IntrospectStub names) method args =
     (if method = ''Introspect'' then no_argument env (go_return [VStrs names]) args else None)"
| "handler_method env sender (ObjectManager has_daemon) method args =
     (if method = ''GetManagedObjects''
      then no_argument env (\<lambda>m. (Inr (objects_body (get_managed has_daemon m)), m)) args else None)"

text \<open>The interface and the method of a full method name.\<close>

definition split_method :: "string \<Rightarrow> string \<times> string" where
  "split_method full =
     (let r = rev full in
      (rev (drop 1 (dropWhile (\<lambda>c. c \<noteq> CHR ''.'') r)), rev (takeWhile (\<lambda>c. c \<noteq> CHR ''.'') r)))"

definition mock_call :: "mock_env \<Rightarrow> string \<Rightarrow> string \<Rightarrow> string \<Rightarrow> dval list \<Rightarrow> reply" where
  "mock_call env sender path full args = (\<lambda>m.
     let (iface, method) = split_method full;
         unknown = (Inl (me_unknown env path iface method), m)
     in case exports m path iface of
          None \<Rightarrow> unknown
        | Some h \<Rightarrow> (case handler_method env sender h method args of None \<Rightarrow> unknown | Some f \<Rightarrow> f m))"

subsection \<open>The mock as the client's bus\<close>

text \<open>
  The connection of the client whose unique name is \<open>sender\<close>. godbus answers the introspection of a path without
  an export with a node that names no interface of it. What the client exports lives on its own
  connection; the mock reaches it by \<open>me_ask\<close> alone.
\<close>

definition mock_conn :: "mock_env \<Rightarrow> string \<Rightarrow> mock conn" where
  "mock_conn env sender =
     \<lparr>conn_introspect = (\<lambda>bus path m.
        case exports m path IntrospectableIface of
          Some (IntrospectStub names) \<Rightarrow> (Inr names, m)
        | _ \<Rightarrow> (Inr [], m)),
      conn_call = (\<lambda>bus path full args. mock_call env sender path full args),
      conn_export = (\<lambda>_ _ _. go_return ()),
      conn_signal = (\<lambda>_ m. m),
      conn_remove_signal = (\<lambda>_ m. m),
      conn_close = go_return ()\<rparr>"

subsection \<open>The fire hose (firehose.go)\<close>

text \<open>One round of each emitter; \<open>b\<close> and \<open>c\<close> are the random bits.\<close>

definition firehose_daemon :: "nat \<Rightarrow> bool \<Rightarrow> mock \<Rightarrow> mock" where
  "firehose_daemon i b =
     emit_properties_changed IwdDaemonPath IwdDaemonIface
       [(''Version'', VStr (sprintf ''1.0.%d'' [decimal (int (i mod 50))])),
        (''NetworkConfigurationEnabled'', VBool b)] []"

definition firehose_adapter :: "bool \<Rightarrow> mock \<Rightarrow> mock" where
  "firehose_adapter b =
     emit_properties_changed adapterPath IwdAdapterIface
       [(''Powered'', VBool b), (''SupportedModes'', VStrs [''station'', ''ap'', ''ad-hoc''])] []"

definition firehose_device :: "nat \<Rightarrow> bool \<Rightarrow> mock \<Rightarrow> mock" where
  "firehose_device i b =
     (let modes = [''station'', ''ap'', ''ad-hoc''] in
      emit_properties_changed devicePath IwdDeviceIface
        [(''Powered'', VBool b), (''Mode'', VStr (modes ! (i mod length modes)))] [])"

definition firehose_network :: "bool \<Rightarrow> mock \<Rightarrow> mock" where
  "firehose_network b = emit_properties_changed open_net_path IwdNetworkIface [(''Connected'', VBool b)] []"

definition firehose_known_network :: "bool \<Rightarrow> mock \<Rightarrow> mock" where
  "firehose_known_network b =
     emit_properties_changed known_net_profile IwdKnownNetworkIface [(''AutoConnect'', VBool b)] []"

subsection \<open>What godbus decodes\<close>

text \<open>
  godbus's \<open>Store\<close> gives back what the other side marshalled, for the replies the mock sends. This is all that
  the lemmas below ask of the client's \<open>godbus\<close>; \<open>mirror_godbus\<close> is one that does it.
\<close>

definition decodes :: "godbus \<Rightarrow> bool" where
  "decodes g \<longleftrightarrow>
     (\<forall>v. store_variant g [VVariant v] = Inr v)
     \<and> (\<forall>props. store_props g [VVarMap props] = Inr props)
     \<and> (\<forall>objects. store_objects g (objects_body objects) = Inr objects)
     \<and> (\<forall>ns. store_networks g (networks_body ns) = Inr ns)
     \<and> (\<forall>hs. store_hidden g (hidden_body hs) = Inr hs)
     \<and> (\<forall>ds. store_dicts g (dicts_body ds) = Inr ds)
     \<and> (\<forall>s. store_string g [VStr s] = Inr s)"

fun mirror_network :: "dval \<Rightarrow> string \<times> int" where
  "mirror_network (VAnys [VPath p, VInt16 s]) = (p, s)"
| "mirror_network _ = ('''', 0)"

fun mirror_hidden :: "dval \<Rightarrow> string \<times> int \<times> string" where
  "mirror_hidden (VAnys [VStr a, VInt16 s, VStr t]) = (a, s, t)"
| "mirror_hidden _ = ('''', 0, '''')"

fun mirror_dict :: "dval \<Rightarrow> properties" where
  "mirror_dict (VVarMap m) = m"
| "mirror_dict _ = []"

fun mirror_interface :: "dval \<Rightarrow> string \<times> properties" where
  "mirror_interface (VAnys [VStr i, VVarMap m]) = (i, m)"
| "mirror_interface _ = ('''', [])"

fun mirror_object :: "dval \<Rightarrow> string \<times> interfaces" where
  "mirror_object (VAnys [VPath p, VAnys is]) = (p, map mirror_interface is)"
| "mirror_object _ = ('''', [])"

definition mirror_list :: "(dval \<Rightarrow> 'a) \<Rightarrow> dval list \<Rightarrow> raw_err + 'a list" where
  "mirror_list f body = (case body of [VAnys vs] \<Rightarrow> Inr (map f vs) | _ \<Rightarrow> Inl (OtherErr ''store''))"

definition mirror_godbus :: "(string \<Rightarrow> bool) \<Rightarrow> godbus" where
  "mirror_godbus ok =
     \<lparr>path_ok = ok,
      store_variant = (\<lambda>body. case body of [VVariant v] \<Rightarrow> Inr v | _ \<Rightarrow> Inl (OtherErr ''store'')),
      store_props = (\<lambda>body. case body of [VVarMap m] \<Rightarrow> Inr m | _ \<Rightarrow> Inl (OtherErr ''store'')),
      store_objects = mirror_list mirror_object, store_networks = mirror_list mirror_network,
      store_hidden = mirror_list mirror_hidden, store_dicts = mirror_list mirror_dict,
      store_string = (\<lambda>body. case body of [VStr s] \<Rightarrow> Inr s | _ \<Rightarrow> Inl (OtherErr ''store''))\<rparr>"

lemma mirror_inverts: "(\<And>x. f (e x) = x) \<Longrightarrow> mirror_list f [VAnys (map e xs)] = Inr xs"
  by (simp add: mirror_list_def comp_def)

lemma mirror_decodes: "decodes (mirror_godbus ok)"
proof -
  have "map mirror_interface (map (\<lambda>(i, props). VAnys [VStr i, VVarMap props]) ifaces) = ifaces" for ifaces
    by (induction ifaces) auto
  then have "mirror_object (case x of (p, ifaces) \<Rightarrow>
      VAnys [VPath p, VAnys (map (\<lambda>(i, props). VAnys [VStr i, VVarMap props]) ifaces)]) = x" for x
    by (cases x) simp
  then have "mirror_list mirror_object (objects_body objects) = Inr objects" for objects
    unfolding objects_body_def by (rule mirror_inverts)
  moreover have "mirror_list mirror_network (networks_body ns) = Inr ns" for ns
    unfolding networks_body_def by (rule mirror_inverts) auto
  moreover have "mirror_list mirror_hidden (hidden_body hs) = Inr hs" for hs
    unfolding hidden_body_def by (rule mirror_inverts) auto
  moreover have "mirror_list mirror_dict (dicts_body ds) = Inr ds" for ds
    unfolding dicts_body_def by (rule mirror_inverts) simp
  ultimately show ?thesis by (simp add: decodes_def mirror_godbus_def)
qed

end
