(* ===== verification/Mock_Runs.thy ===== *)
theory Mock_Runs
  imports Mock_Bus
begin

text \<open>
  The runs of the mock iwd whose handlers are served one after another: requests from any client, the goroutines that
  scans and registrations leave behind, and the fire hose. The lemmas show what holds in every state that a run reaches: what a
  device's object answers, what its introspection names and what the object manager lists follow its mode, and
  the known networks that exist are those the registry, the exports and the links of the networks name.
\<close>

subsection \<open>Steps\<close>

inductive firehose_step :: "mock \<Rightarrow> mock \<Rightarrow> bool" where
  daemon: "firehose_step m (firehose_daemon i b m)"
| adapter: "firehose_step m (firehose_adapter b m)"
| device: "firehose_step m (firehose_device i b m)"
| network: "firehose_step m (firehose_network b m)"
| known_network: "firehose_step m (firehose_known_network b m)"

inductive mock_reach :: "mock_env \<Rightarrow> mock \<Rightarrow> bool" for env where
  start: "mock_start env omit (empty_mock f bus) = (Inr (), m) \<Longrightarrow> mock_reach env m"
| request: "mock_reach env m \<Longrightarrow> mock_call env sender path full args m = (r, m') \<Longrightarrow> mock_reach env m'"
| goroutine: "mock_reach env m \<Longrightarrow> g \<in> set (goroutines m) \<Longrightarrow> mock_reach env (run_mock_goroutine g m)"
| firehose: "mock_reach env m \<Longrightarrow> firehose_step m m' \<Longrightarrow> mock_reach env m'"

subsection \<open>The shape of a state\<close>

text \<open>What the exports, the introspection and the links depend on.\<close>

definition device_shape :: "mock_device \<Rightarrow> string \<times> bool \<times> bool" where
  "device_shape d = (md_path d, HasStation d, HasAccessPoint d)"

definition network_shape :: "mock_network \<Rightarrow> string \<times> string \<times> string \<times> string" where
  "network_shape n = (mn_path n, mn_name n, mn_type n, mn_known n)"

record mock_shape =
  sh_flags :: mock_flags
  sh_connected :: bool
  sh_devices :: "(string \<times> bool \<times> bool) list"
  sh_modes :: "string list"
  sh_networks :: "(string \<times> string \<times> string \<times> string) list"
  sh_knowns :: "string list"
  sh_exported_devices :: "nat list"
  sh_exported_networks :: "nat list"
  sh_exported_knowns :: "nat list"
  sh_exports :: "string \<Rightarrow> string \<Rightarrow> mock_handler option"

definition shape :: "mock \<Rightarrow> mock_shape" where
  "shape m =
     \<lparr>sh_flags = flags m, sh_connected = mock_connected m, sh_devices = map device_shape (devices m),
      sh_modes = map md_mode (devices m), sh_networks = map network_shape (networks m), sh_knowns = map mk_path (knowns m),
      sh_exported_devices = exportedDevices m, sh_exported_networks = exportedNetworks m,
      sh_exported_knowns = exportedKnownNetworks m, sh_exports = exports m\<rparr>"

text \<open>Operations that leave the shape alone.\<close>

definition shapeless :: "(raw_err, mock, 'a) go \<Rightarrow> bool" where
  "shapeless f \<longleftrightarrow> (\<forall>m. shape (snd (f m)) = shape m)"

lemma shape_emit [simp]:
  "shape (emit s m) = shape m"
  "shape (emit_properties_changed p i props gone m) = shape m"
  "shape (emit_interfaces_added p ifaces m) = shape m"
  "shape (emit_interfaces_removed p is m) = shape m"
  by (simp_all add: shape_def emit_def emit_properties_changed_def emit_interfaces_added_def emit_interfaces_removed_def)

lemma shape_simple [simp]:
  "shape (m\<lparr>agents := a\<rparr>) = shape m"
  "shape (m\<lparr>questions := q\<rparr>) = shape m"
  "shape (m\<lparr>goroutines := gs\<rparr>) = shape m"
  "shape (m\<lparr>by_station := t\<rparr>) = shape m"
  "shape (m\<lparr>delivered := ds\<rparr>) = shape m"
  "shape (adapter_update i fa m) = shape m"
  by (simp_all add: shape_def adapter_update_def)

lemma map_update_core: "(\<And>x. c (f x) = c x) \<Longrightarrow> map c (xs[i := f (xs ! i)]) = map c xs"
  by (cases "i < length xs") (auto simp: map_update list_update_same_conv list_update_beyond)

lemma shape_device_update:
  "(\<And>d. device_shape (fd d) = device_shape d) \<Longrightarrow> (\<And>d. md_mode (fd d) = md_mode d) \<Longrightarrow>
   shape (device_update i fd m) = shape m"
  by (simp add: shape_def device_update_def map_update_core)

lemma shape_network_update:
  "(\<And>n. network_shape (fn n) = network_shape n) \<Longrightarrow> shape (network_update i fn m) = shape m"
  by (simp add: shape_def network_update_def map_update_core)

lemma shape_known_update:
  "(\<And>k. mk_path (fk k) = mk_path k) \<Longrightarrow> shape (known_update i fk m) = shape m"
  by (simp add: shape_def known_update_def map_update_core)

lemmas shape_updates = shape_device_update shape_network_update shape_known_update

lemma shapeless_basic [simp]:
  "shapeless (go_return x)" "shapeless (go_fail e)" "shapeless (go_lift r)"
  by (simp_all add: shapeless_def go_lift_def)

lemma shapeless_bind: "shapeless f \<Longrightarrow> (\<And>x. shapeless (h x)) \<Longrightarrow> shapeless (go_bind f h)"
  by (simp add: shapeless_def go_bind_def split: prod.splits sum.splits) (metis sndI)

lemma shapeless_answer [intro]: "shapeless f \<Longrightarrow> shapeless (answer f body)" "shapeless g \<Longrightarrow> shapeless (answer_unit g)"
  by (simp_all add: answer_def answer_unit_def shapeless_bind)

subsection \<open>Which requests leave the shape alone\<close>

lemma shapeless_on:
  "shapeless f \<Longrightarrow> shapeless (on_station i f)"
  "shapeless f \<Longrightarrow> shapeless (on_wsc i f)"
  "shapeless f \<Longrightarrow> shapeless (on_access_point i f)"
  by (simp_all add: shapeless_def on_station_def on_wsc_def on_access_point_def)

lemma shapeless_check_passphrase: "shapeless (check_passphrase_with_agent env n)"
  by (auto simp: shapeless_def check_passphrase_with_agent_def request_passphrase_def split: sum.splits)

lemma shapeless_connect_hidden: "shapeless (mock_connect_hidden env i name)"
proof -
  have "shapeless (modify (\<lambda>m. emit_station_changed i ps (device_update i (\<lambda>d. d\<lparr>StationState := s,
      StationConnectedNetwork := p\<rparr>) m)))" for ps s p
    by (simp add: shapeless_def modify_def emit_station_changed_def shape_updates device_shape_def)
  then show ?thesis
    by (auto simp: mock_connect_hidden_def guarded_def split: option.split
        intro!: shapeless_on shapeless_bind shapeless_check_passphrase)
qed

lemma shapeless_station:
  "shapeless (mock_station_scan i)" "shapeless (mock_station_networks i)" "shapeless (mock_station_disconnect i)"
  "shapeless (mock_station_hidden i)" "shapeless (mock_wsc_push_button i)" "shapeless (mock_wsc_generate_pin i)"
  "shapeless (mock_wsc_start_pin i pin)" "shapeless (mock_wsc_cancel i)"
  by (auto simp: mock_station_scan_def mock_station_networks_def mock_station_disconnect_def mock_station_hidden_def
      mock_wsc_push_button_def mock_wsc_generate_pin_def mock_wsc_start_pin_def mock_wsc_cancel_def
      intro!: shapeless_on)
    (simp_all add: shapeless_def Let_def emit_station_changed_def shape_updates device_shape_def)

lemma shapeless_access_point:
  "shapeless (mock_ap_start i ssid psk)" "shapeless (mock_ap_start_profile i ssid)" "shapeless (mock_ap_stop i)"
  "shapeless (mock_ap_scan i)" "shapeless (mock_ap_networks i)"
  by (auto simp: mock_ap_start_def mock_ap_start_profile_def mock_ap_stop_def mock_ap_scan_def mock_ap_networks_def
      intro!: shapeless_on)
    (simp_all add: shapeless_def Let_def emit_access_point_started_def emit_access_point_changed_def shape_updates
      device_shape_def start_ap_locked_def)

lemma shapeless_agents:
  "shapeless (agents_register sender path)" "shapeless (agents_unregister sender path)"
  "shapeless (signal_agents_register sender station agent ls)"
  "shapeless (signal_agents_unregister sender station agent)"
  by (auto simp: shapeless_def agents_register_def agents_unregister_def signal_agents_register_def
      signal_agents_unregister_def Let_def split: option.splits)

lemma shapeless_settings:
  "shapeless (adapter_set i iface p v)" "shapeless (known_set i iface p v)"
  by (auto simp: shapeless_def adapter_set_def known_set_def shape_updates split: option.splits)

lemma shape_goroutine [simp]: "shape (run_mock_goroutine g m) = shape m"
  by (cases g) (simp_all add: Let_def run_mock_goroutine_def station_scan_done_def ap_scan_done_def emit_level_changed_def
      emit_station_changed_def emit_access_point_changed_def shape_updates device_shape_def split: option.split)

lemma shape_firehose: "firehose_step m m' \<Longrightarrow> shape m' = shape m"
  by (induction rule: firehose_step.induct)
    (simp_all add: firehose_daemon_def firehose_adapter_def firehose_device_def firehose_network_def
      firehose_known_network_def Let_def)

text \<open>
  A request changes the shape only if it is \<open>Network.Connect\<close>, \<open>KnownNetwork.Forget\<close> or the setting of a
  device's mode: the induction principle of the invariants below.
\<close>

lemma shapeless_reading: "shapeless (\<lambda>m. answer (go_lift (h m)) body m)"
  by (simp add: shapeless_def answer_def go_bind_def go_lift_def split: sum.split)

lemma shapeless_property_method:
  assumes "property_method env all one set_it method args = Some f" and "\<And>h i p v. set_it = Some h \<Longrightarrow> shapeless (h i p v)"
  shows "shapeless f"
  using assms
  by (auto simp: property_method_def Let_def split: if_splits option.splits list.splits dval.splits
      intro: shapeless_reading shapeless_answer)

lemma shapeless_device_set:
  "shape (snd (device_set env i iface p v m)) = shape m
   \<or> (\<exists>s m1. shape m1 = (shape m)\<lparr>sh_modes := (map md_mode (devices m))[i := s]\<rparr>
        \<and> device_set env i iface p v m = (Inr (), switch_device_mode env i s m1))"
proof -
  let ?m1 = "\<lambda>s. emit_properties_changed (md_path (devices m ! i)) IwdDeviceIface [(''Mode'', VStr s)] []
    (device_update i (\<lambda>d. d\<lparr>md_mode := s\<rparr>) m)"
  have mode: "shape (?m1 s) = (shape m)\<lparr>sh_modes := (map md_mode (devices m))[i := s]\<rparr>" for s
    using map_update_core [of device_shape "\<lambda>d. d\<lparr>md_mode := s\<rparr>" "devices m" i]
    by (simp add: shape_def device_update_def map_update device_shape_def emit_properties_changed_def emit_def)
  show ?thesis
  proof (cases "iface \<noteq> IwdStationIface \<and> iface = IwdDeviceIface \<and> p = ''Mode'' \<and> (\<exists>s. v = VStr s)")
    case True
    then obtain s where "device_set env i iface p v m = (Inr (), switch_device_mode env i s (?m1 s))"
      by (auto simp: device_set_def)
    with mode show ?thesis by blast
  next
    case False
    then show ?thesis
      by (auto simp: device_set_def set_station_affinities_def emit_station_changed_def shape_updates device_shape_def
          split: option.splits dval.splits)
  qed
qed

lemma answer_unit_run: "answer_unit f m = (r, m') \<Longrightarrow> m' = snd (f m)"
  by (auto simp: answer_unit_def answer_def go_bind_def split: prod.splits sum.splits)

inductive changes_shape :: "mock_env \<Rightarrow> mock_handler \<Rightarrow> mock \<Rightarrow> mock \<Rightarrow> bool" for env where
  nothing: "shape m' = shape m \<Longrightarrow> changes_shape env h m m'"
| connect: "changes_shape env (NetworkHandler i) m (snd (mock_network_connect env i m))"
| forget: "changes_shape env (KnownNetworkHandler k) m (remove_known_network env k m)"
| mode: "shape m1 = (shape m)\<lparr>sh_modes := (map md_mode (devices m))[i := s]\<rparr>
    \<Longrightarrow> changes_shape env (DeviceHandler i) m (switch_device_mode env i s m1)"

lemma changes_shapeless: "shapeless f \<Longrightarrow> f m = (r, m') \<Longrightarrow> changes_shape env h m m'"
  unfolding shapeless_def by (rule changes_shape.nothing) (metis snd_conv)

lemma changes_arguments:
  "no_argument env g args = Some f \<Longrightarrow> shapeless g \<Longrightarrow> shapeless f"
  "string_argument env gs args = Some f \<Longrightarrow> (\<And>s. shapeless (gs s)) \<Longrightarrow> shapeless f"
  "path_argument env gs args = Some f \<Longrightarrow> (\<And>s. shapeless (gs s)) \<Longrightarrow> shapeless f"
  by (auto simp: no_argument_def string_argument_def path_argument_def split: list.splits dval.splits)

lemma changes_daemon: "daemon_method env sender method args = Some f \<Longrightarrow> shapeless f"
  by (auto simp: daemon_method_def split: if_splits
      intro: shapeless_agents shapeless_reading elim!: changes_arguments elim: shapeless_property_method)

lemma changes_access_point: "access_point_method env i method args = Some f \<Longrightarrow> shapeless f"
  by (auto simp: access_point_method_def split: if_splits list.splits dval.splits
      intro: shapeless_access_point elim!: changes_arguments)

lemma changes_setting:
  assumes "property_method env all one (Some set_it) method args = Some f" and "f m = (r, m')"
    and "\<And>iface p v. changes_shape env h m (snd (set_it iface p v m))"
  shows "changes_shape env h m m'"
proof -
  from assms(1) have "shapeless f \<or> (\<exists>i p v. f = answer_unit (set_it i p v))"
    by (auto simp: property_method_def Let_def shapeless_reading split: if_splits list.splits dval.splits)
  then consider "shapeless f" | i p v where "f = answer_unit (set_it i p v)" by blast
  then show ?thesis
  proof cases
    case 1
    then show ?thesis using assms(2) by (rule changes_shapeless)
  next
    case 2
    with assms(2) have "m' = snd (set_it i p v m)" by (simp add: answer_unit_run)
    with assms(3) show ?thesis by simp
  qed
qed

lemma changes_device_set: "changes_shape env (DeviceHandler i) m (snd (device_set env i iface p v m))"
  using shapeless_device_set [of env i iface p v m]
proof
  assume "shape (snd (device_set env i iface p v m)) = shape m"
  then show ?thesis by (rule changes_shape.nothing)
next
  assume "\<exists>s m1. shape m1 = (shape m)\<lparr>sh_modes := (map md_mode (devices m))[i := s]\<rparr>
    \<and> device_set env i iface p v m = (Inr (), switch_device_mode env i s m1)"
  then show ?thesis by (auto intro: changes_shape.mode)
qed

lemma changes_device:
  assumes "device_method env sender i method args = Some f" and "f m = (r, m')"
  shows "changes_shape env (DeviceHandler i) m m'"
proof -
  have agents: "shapeless (\<lambda>m. answer_unit (signal_agents_register sender (md_path (devices m ! i)) p ls) m)"
    "shapeless (\<lambda>m. answer_unit (signal_agents_unregister sender (md_path (devices m ! i)) p) m)" for p ls
    using shapeless_answer(2) [OF shapeless_agents(3)] shapeless_answer(2) [OF shapeless_agents(4)]
    by (simp_all add: shapeless_def)
  show ?thesis
  proof (cases "property_method env (\<lambda>m. device_get_all (devices m ! i)) (\<lambda>m. device_get (devices m ! i))
         (Some (device_set env i)) method args = Some f")
    case True
    then show ?thesis using assms(2) changes_device_set by (rule changes_setting)
  next
    case False
    with assms(1) have "shapeless f"
      by (auto simp: device_method_def agents split: if_splits list.splits dval.splits
          intro: shapeless_station shapeless_connect_hidden elim!: changes_arguments)
    then show ?thesis using assms(2) by (rule changes_shapeless)
  qed
qed

lemma no_argument_cases:
  assumes "no_argument env g args = Some f"
  obtains "f = g" | "shapeless f"
  using assms by (auto simp: no_argument_def split: if_splits)

lemma changes_handler:
  assumes "handler_method env sender h method args = Some f" and "f m = (r, m')"
  shows "changes_shape env h m m'"
proof (cases h)
  case DaemonHandler
  with assms show ?thesis by (auto intro: changes_shapeless changes_daemon)
next
  case (AdapterHandler i)
  with assms show ?thesis
    by (auto intro: changes_shapeless shapeless_property_method shapeless_settings)
next
  case (DeviceHandler i)
  with assms show ?thesis by (auto intro: changes_device)
next
  case (AccessPointHandler i)
  with assms show ?thesis by (auto intro: changes_shapeless changes_access_point)
next
  case (BSSHandler i)
  with assms show ?thesis by (auto intro: changes_shapeless shapeless_property_method)
next
  case (NetworkHandler i)
  show ?thesis
  proof (cases "method = ''Connect''")
    case True
    with assms(1) NetworkHandler have "no_argument env (answer_unit (mock_network_connect env i)) args = Some f" by simp
    then show ?thesis
    proof (cases rule: no_argument_cases)
      case 1
      with assms(2) have "m' = snd (mock_network_connect env i m)" by (simp add: answer_unit_run)
      with NetworkHandler show ?thesis by (simp add: changes_shape.connect)
    next
      case 2
      then show ?thesis using assms(2) by (rule changes_shapeless)
    qed
  next
    case False
    with assms NetworkHandler show ?thesis by (auto intro: changes_shapeless shapeless_property_method)
  qed
next
  case (KnownNetworkHandler k)
  show ?thesis
  proof (cases "method = ''Forget''")
    case True
    with assms(1) KnownNetworkHandler have "no_argument env (answer_unit (mock_known_forget env k)) args = Some f" by simp
    then show ?thesis
    proof (cases rule: no_argument_cases)
      case 1
      with assms(2) have "m' = remove_known_network env k m"
        using answer_unit_run [of "mock_known_forget env k"] by (simp add: mock_known_forget_def modify_def)
      with KnownNetworkHandler show ?thesis by (simp add: changes_shape.forget)
    next
      case 2
      then show ?thesis using assms(2) by (rule changes_shapeless)
    qed
  next
    case False
    with assms KnownNetworkHandler show ?thesis
      by (auto intro: changes_shapeless shapeless_property_method shapeless_settings)
  qed
next
  case (IntrospectStub names)
  with assms have "shapeless f" by (auto simp: no_argument_def split: if_splits)
  then show ?thesis using assms(2) by (rule changes_shapeless)
next
  case (ObjectManager d)
  with assms have "shapeless f" by (auto simp: no_argument_def shapeless_def split: if_splits)
  then show ?thesis using assms(2) by (rule changes_shapeless)
qed

lemma request_changes:
  assumes "mock_call env sender path full args m = (r, m')"
  shows "m' = m \<or> (\<exists>iface h. exports m path iface = Some h \<and> changes_shape env h m m')"
  using assms
  by (auto simp: mock_call_def Let_def split: prod.splits option.splits dest: changes_handler)

end
