(* ===== verification/Mock_Invariants.thy ===== *)
theory Mock_Invariants
  imports Mock_Runs
begin

text \<open>
  The invariant of the mock iwd's runs, over the shape of a state: the device objects answer, name and list
  what their mode says; the registered known networks have their exports, under paths of their own;
  a network's link names the known network of its own name and type.
\<close>

subsection \<open>The invariant\<close>

definition device_answers ::
    "mock_flags \<Rightarrow> (string \<Rightarrow> string \<Rightarrow> mock_handler option) \<Rightarrow> nat \<Rightarrow> string \<times> bool \<times> bool \<Rightarrow> bool" where
  "device_answers f ex i d \<longleftrightarrow>
     (case d of (p, st, ap) \<Rightarrow>
        ex p IwdDeviceIface = Some (DeviceHandler i)
        \<and> ex p PropertiesIface = Some (DeviceHandler i)
        \<and> ex p IwdStationIface = (if st then Some (DeviceHandler i) else None)
        \<and> ex p IwdSimpleConfigurationIface = (if st \<and> \<not> omitWSC f then Some (DeviceHandler i) else None)
        \<and> ex p IwdAccessPointIface = (if ap then Some (AccessPointHandler i) else None)
        \<and> ex p IntrospectableIface = Some (IntrospectStub (device_interfaces st (st \<and> \<not> omitWSC f) ap))
        \<and> \<not> (st \<and> ap))"

definition known_answers :: "(string \<Rightarrow> string \<Rightarrow> mock_handler option) \<Rightarrow> nat \<Rightarrow> string \<Rightarrow> bool" where
  "known_answers ex k p \<longleftrightarrow>
     ex p IwdKnownNetworkIface = Some (KnownNetworkHandler k)
     \<and> ex p PropertiesIface = Some (KnownNetworkHandler k)
     \<and> ex p IntrospectableIface = Some (IntrospectStub (plain_interfaces IwdKnownNetworkIface))"

definition profile_path :: "string \<times> string \<Rightarrow> string" where
  "profile_path = (\<lambda>(name, type). ''/net/connman/iwd/'' @ hex_ssid name @ ''_'' @ type)"

lemma profile_path_known: "known_network_path_for n = profile_path (mn_name n, mn_type n)"
  by (simp add: known_network_path_for_def profile_path_def)

definition network_names :: "(string \<times> string) list" where
  "network_names = map (\<lambda>n. (mn_name n, mn_type n)) network_fixtures"

definition profile_paths :: "string list" where
  "profile_paths = guest_hotspot_profile # map profile_path network_names"

definition device_paths :: "string list" where
  "device_paths = [devicePath, device1Path]"

definition registered_paths :: "mock_shape \<Rightarrow> string set" where
  "registered_paths s = (\<lambda>k. sh_knowns s ! k) ` set (sh_exported_knowns s)"

definition handler_ok :: "mock_shape \<Rightarrow> string \<Rightarrow> string \<Rightarrow> mock_handler \<Rightarrow> bool" where
  "handler_ok s p iface h \<longleftrightarrow>
     (case h of
        DeviceHandler i \<Rightarrow> i \<in> set (sh_exported_devices s)
      | NetworkHandler i \<Rightarrow> i \<in> set (sh_exported_networks s) \<and> p \<notin> set profile_paths
      | KnownNetworkHandler k \<Rightarrow>
          k \<in> set (sh_exported_knowns s) \<and> p = sh_knowns s ! k \<and> iface \<in> {IwdKnownNetworkIface, PropertiesIface}
      | _ \<Rightarrow> True)"

definition handlers_ok :: "mock_shape \<Rightarrow> bool" where
  "handlers_ok s \<longleftrightarrow> (\<forall>p iface h. sh_exports s p iface = Some h \<longrightarrow> handler_ok s p iface h)"

definition devices_ok :: "mock_env \<Rightarrow> mock_shape \<Rightarrow> bool" where
  "devices_ok env s \<longleftrightarrow>
     map fst (sh_devices s) \<in> {[], device_paths}
     \<and> (\<forall>i \<in> set (sh_exported_devices s).
          i < length (sh_devices s) \<and> me_path_ok env (fst (sh_devices s ! i))
          \<and> device_answers (sh_flags s) (sh_exports s) i (sh_devices s ! i))"

definition knowns_ok :: "mock_env \<Rightarrow> mock_shape \<Rightarrow> bool" where
  "knowns_ok env s \<longleftrightarrow>
     distinct (map (\<lambda>k. sh_knowns s ! k) (sh_exported_knowns s))
     \<and> (\<forall>k \<in> set (sh_exported_knowns s).
          k < length (sh_knowns s) \<and> sh_knowns s ! k \<in> set profile_paths \<and> me_path_ok env (sh_knowns s ! k)
          \<and> known_answers (sh_exports s) k (sh_knowns s ! k))"

definition link_ok :: "mock_shape \<Rightarrow> string \<times> string \<times> string \<times> string \<Rightarrow> bool" where
  "link_ok s n \<longleftrightarrow>
     (case n of (p, name, type, link) \<Rightarrow>
        if link = '''' then profile_path (name, type) \<notin> registered_paths s
        else link = profile_path (name, type)
           \<and> (link \<in> registered_paths s \<or> omitKnownNetwork (sh_flags s)))"

definition network_id :: "string \<times> string \<times> string \<times> string \<Rightarrow> string \<times> string" where
  "network_id = (\<lambda>(p, name, type, link). (name, type))"

definition networks_ok :: "mock_shape \<Rightarrow> bool" where
  "networks_ok s \<longleftrightarrow>
     map network_id (sh_networks s) \<in> {[], network_names}
     \<and> sh_exported_networks s = [0..<length (sh_networks s)]
     \<and> (\<forall>n \<in> set (sh_networks s). link_ok s n)"

text \<open>What the mode of a device says of its interfaces; a part of its own, since the mode is set before the interfaces.\<close>

definition mode_says :: "mock_flags \<Rightarrow> string \<Rightarrow> string \<times> bool \<times> bool \<Rightarrow> bool" where
  "mode_says f mode d \<longleftrightarrow>
     (case d of (p, st, ap) \<Rightarrow>
        (st \<longleftrightarrow> mode = ''station'' \<and> station_exported f) \<and> (ap \<longleftrightarrow> mode = ''ap'' \<and> access_point_exported f))"

definition modes_ok :: "mock_shape \<Rightarrow> bool" where
  "modes_ok s \<longleftrightarrow> list_all2 (mode_says (sh_flags s)) (sh_modes s) (sh_devices s)"

definition mock_inv :: "mock_env \<Rightarrow> mock_shape \<Rightarrow> bool" where
  "mock_inv env s \<longleftrightarrow>
     sh_connected s \<and> handlers_ok s \<and> devices_ok env s \<and> knowns_ok env s \<and> networks_ok s"

lemmas inv_defs = mock_inv_def handlers_ok_def devices_ok_def knowns_ok_def networks_ok_def

lemma links_only [simp]:
  "link_ok (s\<lparr>sh_devices := ds, sh_exports := ex\<rparr>) n = link_ok s n" "link_ok (s\<lparr>sh_modes := ms\<rparr>) n = link_ok s n"
  by (simp_all add: link_ok_def registered_paths_def split: prod.split)

lemma inv_modes [simp]: "mock_inv env (s\<lparr>sh_modes := ms\<rparr>) = mock_inv env s"
proof -
  have "handler_ok (s\<lparr>sh_modes := ms\<rparr>) p iface h = handler_ok s p iface h" for p iface h
    by (cases h) (simp_all add: handler_ok_def)
  then show ?thesis by (simp add: inv_defs)
qed

subsection \<open>Paths and interfaces are different\<close>

lemma profile_paths_eq:
  "profile_path (''KnownNet'', ''psk'') = known_net_profile"
  "profile_paths = [guest_hotspot_profile, known_net_profile, ''/net/connman/iwd/4f70656e4e6574_open'',
     ''/net/connman/iwd/536563757265644e6574_psk'']"
  by (simp_all add: profile_paths_def network_names_def network_fixtures_def profile_path_def hex_ssid_def code_def
      hex_digit_def known_net_profile_def char_of_def bit_0)

lemma names_distinct: "distinct (map profile_path network_names)" "distinct network_names"
  using profile_paths_eq(2) by (simp_all add: profile_paths_def network_names_def network_fixtures_def known_net_profile_def)

lemma paths_distinct:
  "distinct (IwdDaemonPath # ''/'' # adapterPath # adapter1Path # devicePath # device1Path # map mb_path bss_fixtures
     @ map mn_path network_fixtures @ profile_paths)"
  by (simp add: profile_paths_eq path_defs network_fixtures_def bss_fixtures_def)

lemma iwd_not_standard:
  "IwdService @ s \<noteq> PropertiesIface" "IwdService @ s \<noteq> IntrospectableIface" "IwdService @ s \<noteq> ObjectManagerIface"
  "PropertiesIface \<noteq> IwdService @ s" "IntrospectableIface \<noteq> IwdService @ s" "ObjectManagerIface \<noteq> IwdService @ s"
  by (simp_all add: IwdService_def PropertiesIface_def IntrospectableIface_def ObjectManagerIface_def)

lemmas iface_defs =
  IwdDaemonIface_def IwdAgentManagerIface_def IwdAdapterIface_def IwdDeviceIface_def IwdStationIface_def
  IwdSimpleConfigurationIface_def IwdAccessPointIface_def IwdBasicServiceSetIface_def IwdNetworkIface_def
  IwdKnownNetworkIface_def

lemma standard_differ [simp]:
  "PropertiesIface \<noteq> IntrospectableIface" "PropertiesIface \<noteq> ObjectManagerIface" "IntrospectableIface \<noteq> ObjectManagerIface"
  "IntrospectableIface \<noteq> PropertiesIface" "ObjectManagerIface \<noteq> PropertiesIface" "ObjectManagerIface \<noteq> IntrospectableIface"
  by (simp_all add: PropertiesIface_def IntrospectableIface_def ObjectManagerIface_def)

lemma device_ifaces_differ [simp]:
  "IwdDeviceIface \<noteq> IwdStationIface" "IwdDeviceIface \<noteq> IwdSimpleConfigurationIface" "IwdDeviceIface \<noteq> IwdAccessPointIface"
  "IwdStationIface \<noteq> IwdDeviceIface" "IwdStationIface \<noteq> IwdSimpleConfigurationIface" "IwdStationIface \<noteq> IwdAccessPointIface"
  "IwdSimpleConfigurationIface \<noteq> IwdDeviceIface" "IwdSimpleConfigurationIface \<noteq> IwdStationIface"
  "IwdSimpleConfigurationIface \<noteq> IwdAccessPointIface"
  "IwdAccessPointIface \<noteq> IwdDeviceIface" "IwdAccessPointIface \<noteq> IwdStationIface"
  "IwdAccessPointIface \<noteq> IwdSimpleConfigurationIface"
  by (simp_all add: iface_defs)

lemma iwd_ifaces_not_standard [simp]:
  "IwdDeviceIface \<noteq> PropertiesIface" "IwdDeviceIface \<noteq> IntrospectableIface" "PropertiesIface \<noteq> IwdDeviceIface"
  "IntrospectableIface \<noteq> IwdDeviceIface"
  "IwdStationIface \<noteq> PropertiesIface" "IwdStationIface \<noteq> IntrospectableIface" "PropertiesIface \<noteq> IwdStationIface"
  "IntrospectableIface \<noteq> IwdStationIface"
  "IwdSimpleConfigurationIface \<noteq> PropertiesIface" "IwdSimpleConfigurationIface \<noteq> IntrospectableIface"
  "PropertiesIface \<noteq> IwdSimpleConfigurationIface" "IntrospectableIface \<noteq> IwdSimpleConfigurationIface"
  "IwdAccessPointIface \<noteq> PropertiesIface" "IwdAccessPointIface \<noteq> IntrospectableIface"
  "PropertiesIface \<noteq> IwdAccessPointIface" "IntrospectableIface \<noteq> IwdAccessPointIface"
  "IwdNetworkIface \<noteq> PropertiesIface" "IwdNetworkIface \<noteq> IntrospectableIface" "PropertiesIface \<noteq> IwdNetworkIface"
  "IntrospectableIface \<noteq> IwdNetworkIface"
  "IwdKnownNetworkIface \<noteq> PropertiesIface" "IwdKnownNetworkIface \<noteq> IntrospectableIface"
  "PropertiesIface \<noteq> IwdKnownNetworkIface" "IntrospectableIface \<noteq> IwdKnownNetworkIface"
  by (simp_all add: iface_defs iwd_not_standard)

subsection \<open>Exports\<close>

lemma exports_set_export [simp]:
  "exports (set_export p i h m) q j = (if q = p \<and> j = i then h else exports m q j)"
  by (simp add: set_export_def)

lemma set_export_fields [simp]:
  "flags (set_export p i h m) = flags m" "mock_connected (set_export p i h m) = mock_connected m"
  "devices (set_export p i h m) = devices m" "networks (set_export p i h m) = networks m"
  "knowns (set_export p i h m) = knowns m" "bsses (set_export p i h m) = bsses m"
  "adapters (set_export p i h m) = adapters m" "exportedDevices (set_export p i h m) = exportedDevices m"
  "exportedNetworks (set_export p i h m) = exportedNetworks m"
  "exportedKnownNetworks (set_export p i h m) = exportedKnownNetworks m"
  by (simp_all add: set_export_def)

lemma export_Inr: "export env h p i m = (Inr u, m') \<longleftrightarrow> me_path_ok env p \<and> m' = set_export p i h m"
  by (auto simp: export_def)

lemma ignoring_export: "me_path_ok env p \<Longrightarrow> ignoring (export env h p i) m = set_export p i h m"
  by (simp add: ignoring_def export_def)

subsection \<open>A change of mode\<close>

lemma shape_fields [simp]:
  "sh_flags (shape m) = flags m" "sh_connected (shape m) = mock_connected m"
  "sh_devices (shape m) = map device_shape (devices m)" "sh_modes (shape m) = map md_mode (devices m)" "sh_networks (shape m) = map network_shape (networks m)"
  "sh_knowns (shape m) = map mk_path (knowns m)" "sh_exported_devices (shape m) = exportedDevices m"
  "sh_exported_networks (shape m) = exportedNetworks m" "sh_exported_knowns (shape m) = exportedKnownNetworks m"
  "sh_exports (shape m) = exports m"
  by (simp_all add: shape_def)

lemma device_shape_pair [simp]: "fst (device_shape d) = md_path d"
  by (simp add: device_shape_def)

lemma shape_device_update_at:
  "device_shape (f (devices m ! i)) = device_shape (devices m ! i) \<Longrightarrow> md_mode (f (devices m ! i)) = md_mode (devices m ! i) \<Longrightarrow>
   shape (device_update i f m) = shape m"
  by (cases "i < length (devices m)")
    (simp_all add: shape_def device_update_def map_update list_update_same_conv list_update_beyond)

lemma mode_interfaces_path [simp]:
  "md_path (mode_interfaces f mode d) = md_path d" "md_mode (mode_interfaces f mode d) = md_mode d"
  by (simp_all add: mode_interfaces_def)

lemma mode_interfaces_one: "\<not> (HasStation (mode_interfaces f mode d) \<and> HasAccessPoint (mode_interfaces f mode d))"
  by (simp add: mode_interfaces_def)

text \<open>After the swap the object answers as its new mode asks, and no other path is touched.\<close>

lemma swap_exports_answers:
  assumes "device_answers (flags m) (exports m) i (device_shape old)" and "me_path_ok env (md_path new)"
    and "md_path new = md_path old" and "\<not> (HasStation new \<and> HasAccessPoint new)"
  shows "device_answers (flags m) (exports (swap_exports env i old new m)) i (device_shape new)"
  using assms
  by (cases "HasStation old"; cases "HasStation new"; cases "HasAccessPoint old"; cases "HasAccessPoint new"; cases "omitWSC (flags m)")
    (simp_all add: device_answers_def device_shape_def swap_exports_def removed_interfaces_def Let_def ignoring_export
      export_device_introspection_def)

lemma swap_exports_elsewhere:
  assumes "me_path_ok env (md_path new)" and "q \<noteq> md_path new"
  shows "exports (swap_exports env i old new m) q j = exports m q j"
  using assms
  by (simp add: swap_exports_def removed_interfaces_def Let_def ignoring_export export_device_introspection_def)

lemma swap_exports_handlers:
  assumes "me_path_ok env (md_path new)" and "exports (swap_exports env i old new m) q j = Some h"
  shows "exports m q j = Some h \<or> h = DeviceHandler i \<or> h = AccessPointHandler i \<or> (\<exists>names. h = IntrospectStub names)"
  using assms
  by (auto simp: swap_exports_def removed_interfaces_def Let_def ignoring_export export_device_introspection_def
      split: if_splits)

lemma swap_exports_fields [simp]:
  "me_path_ok env (md_path new) \<Longrightarrow> shape (swap_exports env i old new m) = (shape m)\<lparr>sh_exports := exports (swap_exports env i old new m)\<rparr>"
  by (simp add: swap_exports_def removed_interfaces_def Let_def ignoring_export export_device_introspection_def shape_def)

lemma shape_switch_device_mode:
  assumes "i < length (devices m)" and "mock_connected m" and "me_path_ok env (md_path (devices m ! i))"
  shows "shape (switch_device_mode env i mode m) =
     (let old = devices m ! i; new = mode_interfaces (flags m) mode old in
      if HasStation old = HasStation new \<and> HasAccessPoint old = HasAccessPoint new then shape m
      else (shape m)\<lparr>sh_devices := (map device_shape (devices m))[i := device_shape new],
                      sh_exports := exports (swap_exports env i old new (device_update i (mode_interfaces (flags m) mode) m))\<rparr>)"
proof -
  let ?old = "devices m ! i"
  let ?new = "mode_interfaces (flags m) mode ?old"
  let ?m1 = "device_update i (mode_interfaces (flags m) mode) m"
  have conn: "mock_connected ?m1" using assms(2) by (simp add: device_update_def)
  show ?thesis
  proof (cases "HasStation ?old = HasStation ?new \<and> HasAccessPoint ?old = HasAccessPoint ?new")
    case True
    then have "device_shape ?new = device_shape ?old" by (simp add: device_shape_def)
    from shape_device_update_at [where f = "mode_interfaces (flags m) mode", OF this] True show ?thesis
      by (simp add: switch_device_mode_def Let_def)
  next
    case False
    have "shape (swap_exports env i ?old ?new ?m1) = (shape ?m1)\<lparr>sh_exports := exports (swap_exports env i ?old ?new ?m1)\<rparr>"
      using assms(3) by simp
    also have "shape ?m1 = (shape m)\<lparr>sh_devices := (map device_shape (devices m))[i := device_shape ?new]\<rparr>"
      by (simp add: shape_def device_update_def map_update list_update_same_conv assms(1))
    finally show ?thesis using False conn by (auto simp: switch_device_mode_def Let_def)
  qed
qed

lemma inv_switch_device_mode:
  assumes "mock_inv env (shape m)" and "i \<in> set (exportedDevices m)"
  shows "mock_inv env (shape (switch_device_mode env i mode m))"
proof -
  let ?old = "devices m ! i"
  let ?new = "mode_interfaces (flags m) mode ?old"
  let ?m1 = "device_update i (mode_interfaces (flags m) mode) m"
  let ?m2 = "swap_exports env i ?old ?new ?m1"
  note inv = assms(1) [unfolded mock_inv_def]
  have conn: "mock_connected m" using inv by simp
  have dev: "j < length (devices m) \<and> me_path_ok env (md_path (devices m ! j))
      \<and> device_answers (flags m) (exports m) j (device_shape (devices m ! j))" if "j \<in> set (exportedDevices m)" for j
    using inv that by (auto simp: devices_ok_def)
  note i = dev [OF assms(2)]
  have fields: "exports ?m1 = exports m" "flags ?m1 = flags m" by (simp_all add: device_update_def)
  have paths: "map md_path (devices m) \<in> {[], device_paths}"
    using inv by (simp add: devices_ok_def comp_def)
  then have dist: "distinct (map md_path (devices m))"
    using paths_distinct by (auto simp: device_paths_def)
  show ?thesis
  proof (cases "HasStation ?old = HasStation ?new \<and> HasAccessPoint ?old = HasAccessPoint ?new")
    case True
    with assms(1) i conn show ?thesis by (simp add: shape_switch_device_mode)
  next
    case False
    let ?E = "exports ?m2"
    let ?s = "(shape m)\<lparr>sh_devices := (map device_shape (devices m))[i := device_shape ?new], sh_exports := ?E\<rparr>"
    have eq: "shape (switch_device_mode env i mode m) = ?s"
      using False i conn by (auto simp: shape_switch_device_mode Let_def)
    have elsewhere: "?E q j = exports m q j" if "q \<noteq> md_path ?old" for q j
      using swap_exports_elsewhere [of env ?new q i ?old ?m1 j] that i by (simp add: fields)
    have handlers: "exports m q j = Some h \<or> h = DeviceHandler i \<or> h = AccessPointHandler i \<or> (\<exists>names. h = IntrospectStub names)"
      if "?E q j = Some h" for q j h
      using swap_exports_handlers [of env ?new i ?old ?m1 q j h] that i by (simp add: fields)
    have "handlers_ok ?s"
      using inv assms(2) by (fastforce simp: handlers_ok_def handler_ok_def dest!: handlers split: mock_handler.splits)
    moreover have "devices_ok env ?s"
    proof -
      have "map fst ((map device_shape (devices m))[i := device_shape ?new]) = map md_path (devices m)"
        using i by (simp add: map_update comp_def list_update_same_conv)
      moreover have "device_answers (flags m) ?E j ((map device_shape (devices m))[i := device_shape ?new] ! j)"
        if j: "j \<in> set (exportedDevices m)" for j
      proof (cases "j = i")
        case True
        then show ?thesis
          using swap_exports_answers [of ?m1 i ?old env ?new] i mode_interfaces_one [of "flags m" mode ?old]
          by (simp add: fields)
      next
        case False
        with dist i dev [OF j] have "md_path (devices m ! j) \<noteq> md_path ?old" by (simp add: nth_eq_iff_index_eq distinct_conv_nth)
        with dev [OF j] False show ?thesis by (simp add: device_answers_def device_shape_def elsewhere)
      qed
      ultimately show ?thesis
        using paths dev i by (auto simp: devices_ok_def nth_list_update)
    qed
    moreover have "knowns_ok env ?s"
    proof -
      have "mk_path (knowns m ! k) \<noteq> md_path ?old" if "k \<in> set (exportedKnownNetworks m)" for k
      proof -
        have "k < length (knowns m)" "mk_path (knowns m ! k) \<in> set profile_paths"
          using inv that by (auto simp: knowns_ok_def)
        moreover have "md_path ?old \<in> set device_paths"
          using paths i by (metis empty_iff empty_set insert_iff length_map list.size(3) not_less0 nth_map nth_mem)
        ultimately show ?thesis using paths_distinct by (auto simp: device_paths_def)
      qed
      then show ?thesis using inv by (auto simp: knowns_ok_def known_answers_def elsewhere)
    qed
    moreover have "networks_ok ?s"
      using inv by (simp add: networks_ok_def links_only)
    ultimately show ?thesis using conn by (simp add: eq mock_inv_def)
  qed
qed

subsection \<open>Forgetting a network\<close>

lemma unlink_network_core:
  "network_shape (unlink_network path n) =
     (case network_shape n of (p, name, type, link) \<Rightarrow> (p, name, type, if link = path then '''' else link))"
  by (simp add: unlink_network_def network_shape_def)

lemma network_id_core [simp]: "network_id (network_shape n) = (mn_name n, mn_type n)"
  by (simp add: network_id_def network_shape_def)

lemma network_id_unlinked: "network_id (network_shape (unlink_network path n)) = network_id (network_shape n)"
  by (simp add: unlink_network_def)

lemma fold_update_map:
  assumes "distinct is" and "set is \<subseteq> {..<length xs}"
  shows "fold (\<lambda>i xs. xs[i := f (xs ! i)]) is xs = map (\<lambda>i. if i \<in> set is then f (xs ! i) else xs ! i) [0..<length xs]"
  using assms
proof (induction "is" arbitrary: xs)
  case Nil
  then show ?case by (simp add: map_nth)
next
  case (Cons i "is")
  then have "fold (\<lambda>i xs. xs[i := f (xs ! i)]) is (xs[i := f (xs ! i)]) =
      map (\<lambda>j. if j \<in> set is then f (xs[i := f (xs ! i)] ! j) else xs[i := f (xs ! i)] ! j) [0..<length xs]"
    by simp
  also have "\<dots> = map (\<lambda>j. if j \<in> set (i # is) then f (xs ! j) else xs ! j) [0..<length xs]"
    using Cons.prems by (auto simp: nth_list_update)
  finally show ?case by simp
qed

lemma fold_network_update:
  "fold (\<lambda>i. network_update i f) is m = m\<lparr>networks := fold (\<lambda>i xs. xs[i := f (xs ! i)]) is (networks m)\<rparr>"
  by (induction "is" arbitrary: m) (simp_all add: network_update_def)

lemma unlink_all:
  "fold (\<lambda>i. network_update i f) [0..<length (networks m)] m = m\<lparr>networks := map f (networks m)\<rparr>"
proof -
  have "fold (\<lambda>i xs. xs[i := f (xs ! i)]) [0..<length (networks m)] (networks m) =
      map (\<lambda>i. if i \<in> set [0..<length (networks m)] then f (networks m ! i) else networks m ! i) [0..<length (networks m)]"
    by (rule fold_update_map) auto
  also have "\<dots> = map f (networks m)" by (rule nth_equalityI) simp_all
  finally show ?thesis by (simp only: fold_network_update)
qed

lemma fold_emit_shape: "shape (fold (\<lambda>i m. emit_properties_changed (ps m i) iface c d m) is m) = shape m"
  by (induction "is" arbitrary: m) simp_all

lemma unexport_known:
  assumes "mock_connected m" and "me_path_ok env path"
  shows "unexport_object env path [IwdKnownNetworkIface] m =
     set_export path IntrospectableIface None (set_export path PropertiesIface None (set_export path IwdKnownNetworkIface None m))"
  using assms by (simp add: unexport_object_def ignoring_export)

lemma shape_set_export: "shape (set_export p i h m) = (shape m)\<lparr>sh_exports := exports (set_export p i h m)\<rparr>"
  by (simp add: shape_def)

lemma shape_remove_known_network:
  assumes "exportedNetworks m = [0..<length (networks m)]" and "mock_connected m" and "k < length (knowns m)"
    and "me_path_ok env (mk_path (knowns m ! k))"
  defines "path \<equiv> mk_path (knowns m ! k)"
  shows "shape (remove_known_network env k m) =
     (shape m)\<lparr>sh_exported_knowns := filter (\<lambda>c. c \<noteq> k) (exportedKnownNetworks m),
               sh_networks := map (\<lambda>n. network_shape (unlink_network path n)) (networks m),
               sh_exports := exports (set_export path IntrospectableIface None (set_export path PropertiesIface None
                  (set_export path IwdKnownNetworkIface None m)))\<rparr>"
proof -
  let ?m1 = "m\<lparr>exportedKnownNetworks := filter (\<lambda>c. c \<noteq> k) (exportedKnownNetworks m)\<rparr>"
  let ?m2 = "fold (\<lambda>i. network_update i (unlink_network path)) (exportedNetworks m) ?m1"
  define m3 where "m3 = fold (\<lambda>i m. emit_properties_changed (mn_path (networks m ! i)) IwdNetworkIface [] [''KnownNetwork''] m)
    (filter (\<lambda>i. mn_known (networks m ! i) = path) (exportedNetworks m)) ?m2"
  have m2: "?m2 = ?m1\<lparr>networks := map (unlink_network path) (networks m)\<rparr>"
    using unlink_all [of "unlink_network path" ?m1] assms(1) by simp
  have m3: "shape m3 = (shape m)\<lparr>sh_exported_knowns := filter (\<lambda>c. c \<noteq> k) (exportedKnownNetworks m),
      sh_networks := map (\<lambda>n. network_shape (unlink_network path n)) (networks m)\<rparr>"
    unfolding m3_def fold_emit_shape m2 by (simp add: shape_def)
  have "mock_connected m3" and "exports m3 = exports m"
    using arg_cong [OF m3, of sh_connected] arg_cong [OF m3, of sh_exports] assms(2) by simp_all
  have "remove_known_network env k m =
      emit_interfaces_removed path [IwdKnownNetworkIface] (unexport_object env path [IwdKnownNetworkIface] m3)"
    by (simp add: remove_known_network_def Let_def m3_def path_def)
  then have "shape (remove_known_network env k m) = (shape m3)\<lparr>sh_exports := exports (set_export path IntrospectableIface None
      (set_export path PropertiesIface None (set_export path IwdKnownNetworkIface None m3)))\<rparr>"
    using \<open>mock_connected m3\<close> assms(4) by (simp add: unexport_known path_def shape_set_export del: exports_set_export)
  also have "exports (set_export path IntrospectableIface None (set_export path PropertiesIface None
        (set_export path IwdKnownNetworkIface None m3))) =
      exports (set_export path IntrospectableIface None (set_export path PropertiesIface None
        (set_export path IwdKnownNetworkIface None m)))"
    using \<open>exports m3 = exports m\<close> by (simp add: set_export_def)
  finally show ?thesis by (simp add: m3 del: exports_set_export)
qed

lemma profile_not_device:
  assumes "path \<in> set profile_paths" and "map fst ds \<in> {[], device_paths}" and "i < length ds"
  shows "fst (ds ! i) \<noteq> path"
proof
  assume "fst (ds ! i) = path"
  then have "path \<in> set (map fst ds)" using assms(3) by auto
  moreover have "set (map fst ds) \<subseteq> set device_paths"
    using assms(2) by (metis empty_set empty_subsetI insert_iff order_refl singletonD)
  ultimately have "path \<in> set device_paths" by blast
  with assms(1) paths_distinct show False by (auto simp: device_paths_def)
qed

lemma profile_path_inj:
  assumes "profile_path x = profile_path y" and "x \<in> set network_names" and "y \<in> set network_names"
  shows "x = y"
  using assms names_distinct(1) by (auto simp: distinct_map dest: inj_onD)

lemma registered_path_unique:
  assumes "distinct (map f ks)" and "j \<in> set ks" and "k \<in> set ks" and "f j = f k"
  shows "j = k"
  using assms by (auto simp: distinct_map dest: inj_onD)

lemma all_but_one: "{x \<in> A. x \<noteq> k} = A - {k}"
  by auto

lemma image_all_but_one:
  assumes "\<And>j. j \<in> A \<Longrightarrow> j \<noteq> k \<Longrightarrow> f j \<noteq> f k"
  shows "f ` (A - {k}) = f ` A - {f k}"
  using assms by auto

lemma link_ok_forget:
  assumes "link_ok s n" and "registered_paths s' = registered_paths s - {path}" and "sh_flags s' = sh_flags s"
    and "n' = (case n of (p, name, type, link) \<Rightarrow> (p, name, type, if link = path then '''' else link))"
  shows "link_ok s' n'"
  using assms by (cases n) (auto simp: link_ok_def split: if_splits)

lemma inv_remove_known_network:
  assumes "mock_inv env (shape m)" and "k \<in> set (exportedKnownNetworks m)"
  shows "mock_inv env (shape (remove_known_network env k m))"
proof -
  let ?path = "mk_path (knowns m ! k)"
  let ?E = "exports (set_export ?path IntrospectableIface None (set_export ?path PropertiesIface None
    (set_export ?path IwdKnownNetworkIface None m)))"
  let ?s = "(shape m)\<lparr>sh_exported_knowns := filter (\<lambda>c. c \<noteq> k) (exportedKnownNetworks m),
    sh_networks := map (\<lambda>n. network_shape (unlink_network ?path n)) (networks m), sh_exports := ?E\<rparr>"
  note inv = assms(1) [unfolded mock_inv_def]
  have known: "j < length (knowns m)" "mk_path (knowns m ! j) \<in> set profile_paths" "me_path_ok env (mk_path (knowns m ! j))"
    "known_answers (exports m) j (mk_path (knowns m ! j))" if "j \<in> set (exportedKnownNetworks m)" for j
    using inv that by (auto simp: knowns_ok_def)
  have dist: "distinct (map (\<lambda>k. mk_path (knowns m ! k)) (exportedKnownNetworks m))"
  proof -
    have eq: "map ((!) (map mk_path (knowns m))) (exportedKnownNetworks m) =
        map (\<lambda>k. mk_path (knowns m ! k)) (exportedKnownNetworks m)"
      using known(1) by simp
    have "distinct (map ((!) (map mk_path (knowns m))) (exportedKnownNetworks m))" using inv by (simp add: knowns_ok_def)
    then show ?thesis by (simp only: eq)
  qed
  have other: "mk_path (knowns m ! j) \<noteq> ?path" if "j \<in> set (exportedKnownNetworks m)" "j \<noteq> k" for j
    using registered_path_unique [OF dist that(1) assms(2)] that(2) by auto
  have eq: "shape (remove_known_network env k m) = ?s"
    using inv known [OF assms(2)] by (simp add: shape_remove_known_network networks_ok_def)
  have E: "?E q j = (if q = ?path \<and> j \<in> {IwdKnownNetworkIface, PropertiesIface, IntrospectableIface} then None
      else exports m q j)" for q j
    by auto
  have "handlers_ok ?s"
    unfolding handlers_ok_def
  proof (intro allI impI)
    fix q j h
    assume h: "sh_exports ?s q j = Some h"
    then have old: "exports m q j = Some h" and "\<not> (q = ?path \<and> j \<in> {IwdKnownNetworkIface, PropertiesIface})"
      by (auto split: if_splits)
    moreover from inv old have "handler_ok (shape m) q j h" by (simp add: handlers_ok_def)
    ultimately show "handler_ok ?s q j h"
      using known(1) by (cases h) (auto simp: handler_ok_def)
  qed
  moreover have "devices_ok env ?s"
  proof -
    have "fst (map device_shape (devices m) ! i) \<noteq> ?path" if "i \<in> set (exportedDevices m)" for i
      using profile_not_device [OF known(2) [OF assms(2)], of "map device_shape (devices m)" i] inv that
      by (auto simp: devices_ok_def)
    then show ?thesis
      using inv by (auto simp: devices_ok_def device_answers_def device_shape_def)
  qed
  moreover have "knowns_ok env ?s"
    using inv known dist other
    by (auto simp: knowns_ok_def known_answers_def distinct_map_filter)
  moreover have "networks_ok ?s"
  proof -
    have "registered_paths ?s = (\<lambda>j. mk_path (knowns m ! j)) ` (set (exportedKnownNetworks m) - {k})"
      using known(1) by (simp add: registered_paths_def all_but_one)
    moreover have "registered_paths (shape m) = (\<lambda>j. mk_path (knowns m ! j)) ` set (exportedKnownNetworks m)"
      using known(1) by (simp add: registered_paths_def)
    moreover have "(\<lambda>j. mk_path (knowns m ! j)) ` (set (exportedKnownNetworks m) - {k}) =
        (\<lambda>j. mk_path (knowns m ! j)) ` set (exportedKnownNetworks m) - {?path}"
      by (rule image_all_but_one) (rule other)
    ultimately have reg: "registered_paths ?s = registered_paths (shape m) - {?path}"
      by (simp only:)
    have "map network_id (sh_networks ?s) = map network_id (map network_shape (networks m))"
      by (simp add: network_id_unlinked del: network_id_core)
    then have names: "map network_id (sh_networks ?s) \<in> {[], network_names}"
      using inv by (simp only: networks_ok_def shape_fields)
    have "link_ok ?s (network_shape (unlink_network ?path n))" if n: "n \<in> set (networks m)" for n
    proof -
      have "link_ok (shape m) (network_shape n)" using inv n by (simp add: networks_ok_def)
      then show ?thesis by (rule link_ok_forget [OF _ reg _ unlink_network_core]) simp
    qed
    then have "\<forall>n \<in> set (sh_networks ?s). link_ok ?s n" by simp
    moreover have "sh_exported_networks ?s = [0..<length (sh_networks ?s)]" using inv by (simp add: networks_ok_def)
    ultimately show ?thesis using names unfolding networks_ok_def by blast
  qed
  ultimately show ?thesis using inv by (simp add: eq mock_inv_def)
qed

subsection \<open>Provisioning a network\<close>

lemma registered_known:
  "knowns_ok env s \<Longrightarrow> k \<in> set (sh_exported_knowns s) \<Longrightarrow> k < length (sh_knowns s) \<and> sh_knowns s ! k \<in> set profile_paths"
  by (simp add: knowns_ok_def)

lemma registered_paths_append:
  assumes "knowns_ok env s"
  shows "registered_paths (s\<lparr>sh_knowns := sh_knowns s @ ps\<rparr>) = registered_paths s"
  unfolding registered_paths_def
  by (rule image_cong) (use registered_known [OF assms] in \<open>simp_all add: nth_append\<close>)

lemma inv_append_known:
  assumes "mock_inv env s"
  shows "mock_inv env (s\<lparr>sh_knowns := sh_knowns s @ ps\<rparr>)"
proof -
  let ?s = "s\<lparr>sh_knowns := sh_knowns s @ ps\<rparr>"
  have ok: "knowns_ok env s" using assms by (simp add: mock_inv_def)
  have same: "(sh_knowns s @ ps) ! k = sh_knowns s ! k" if "k \<in> set (sh_exported_knowns s)" for k
    using registered_known [OF ok that] by (simp add: nth_append)
  have paths: "map (\<lambda>k. (sh_knowns s @ ps) ! k) (sh_exported_knowns s) = map (\<lambda>k. sh_knowns s ! k) (sh_exported_knowns s)"
    by (rule map_cong) (simp_all add: same)
  have "handler_ok ?s p iface h = handler_ok s p iface h" for p iface h
    by (cases h) (auto simp: handler_ok_def same)
  then have "handlers_ok ?s" using assms by (simp add: mock_inv_def handlers_ok_def)
  moreover have "knowns_ok env ?s"
    using ok by (simp add: knowns_ok_def paths same) (simp add: same trans_less_add1)
  moreover have "link_ok ?s n = link_ok s n" for n
    using registered_paths_append [OF ok] by (simp add: link_ok_def split: prod.split)
  then have "networks_ok ?s" using assms by (simp add: mock_inv_def networks_ok_def)
  moreover have "devices_ok env ?s" using assms by (simp add: mock_inv_def devices_ok_def)
  ultimately show ?thesis using assms by (simp add: mock_inv_def)
qed

definition export_known ::
    "nat \<Rightarrow> string \<Rightarrow> (string \<Rightarrow> string \<Rightarrow> mock_handler option) \<Rightarrow> string \<Rightarrow> string \<Rightarrow> mock_handler option" where
  "export_known k p ex = (\<lambda>q iface.
     if q \<noteq> p then ex q iface
     else if iface \<in> {IwdKnownNetworkIface, PropertiesIface} then Some (KnownNetworkHandler k)
     else if iface = IntrospectableIface then Some (IntrospectStub (plain_interfaces IwdKnownNetworkIface))
     else ex q iface)"

definition provisioned :: "nat \<Rightarrow> string \<Rightarrow> mock_shape \<Rightarrow> mock_shape" where
  "provisioned i p s = s\<lparr>
     sh_exported_knowns := sh_exported_knowns s @ [length (sh_knowns s)], sh_knowns := sh_knowns s @ [p],
     sh_networks := (sh_networks s)[i := (case sh_networks s ! i of (np, name, type, link) \<Rightarrow> (np, name, type, p))],
     sh_exports := export_known (length (sh_knowns s)) p (sh_exports s)\<rparr>"

lemma provisioned_flags [simp]: "sh_flags (provisioned i p s) = sh_flags s"
  by (simp add: provisioned_def)

lemma registered_paths_provisioned:
  assumes "knowns_ok env s"
  shows "registered_paths (provisioned i p s) = insert p (registered_paths s)"
proof -
  have "registered_paths (provisioned i p s) = insert p (registered_paths (s\<lparr>sh_knowns := sh_knowns s @ [p]\<rparr>))"
    by (simp add: registered_paths_def provisioned_def)
  then show ?thesis by (simp add: registered_paths_append [OF assms])
qed

lemma handlers_provisioned:
  assumes "mock_inv env s"
  shows "handlers_ok (provisioned i p s)"
  unfolding handlers_ok_def
proof (intro allI impI)
  fix q iface h
  assume h: "sh_exports (provisioned i p s) q iface = Some h"
  have ok: "knowns_ok env s" and old: "handlers_ok s" using assms by (simp_all add: mock_inv_def)
  show "handler_ok (provisioned i p s) q iface h"
  proof (cases "sh_exports s q iface = Some h")
    case True
    with old have "handler_ok s q iface h" by (simp add: handlers_ok_def)
    then show ?thesis
      using registered_known [OF ok] by (cases h) (auto simp: handler_ok_def provisioned_def nth_append)
  next
    case False
    with h show ?thesis
      by (auto simp: handler_ok_def provisioned_def export_known_def split: if_splits)
  qed
qed

lemma device_answers_cong:
  assumes "\<And>iface. ex' (fst d) iface = ex (fst d) iface"
  shows "device_answers f ex' i d = device_answers f ex i d"
  using assms by (cases d) (simp add: device_answers_def)

lemma devices_provisioned:
  assumes "devices_ok env s" and "p \<in> set profile_paths"
  shows "devices_ok env (provisioned i p s)"
proof -
  have "fst (sh_devices s ! j) \<noteq> p" if "j \<in> set (sh_exported_devices s)" for j
    using profile_not_device [OF assms(2), of "sh_devices s" j] assms(1) that by (simp add: devices_ok_def)
  then have "device_answers (sh_flags s) (export_known k p (sh_exports s)) j (sh_devices s ! j) =
      device_answers (sh_flags s) (sh_exports s) j (sh_devices s ! j)" if "j \<in> set (sh_exported_devices s)" for j k
    using that by (intro device_answers_cong) (simp add: export_known_def)
  then show ?thesis
    using assms(1) by (simp add: devices_ok_def provisioned_def)
qed

lemma knowns_provisioned:
  assumes "knowns_ok env s" and "p \<in> set profile_paths" and "p \<notin> registered_paths s" and "me_path_ok env p"
  shows "knowns_ok env (provisioned i p s)"
proof -
  have same: "(sh_knowns s @ [p]) ! k = sh_knowns s ! k" "sh_knowns s ! k \<noteq> p" "k < length (sh_knowns s)"
    if "k \<in> set (sh_exported_knowns s)" for k
    using registered_known [OF assms(1) that] assms(3) that by (auto simp: nth_append registered_paths_def)
  have paths: "map ((!) (sh_knowns s @ [p])) (sh_exported_knowns s) = map ((!) (sh_knowns s)) (sh_exported_knowns s)"
    using same(1) by simp
  have "known_answers (export_known (length (sh_knowns s)) p (sh_exports s)) k (sh_knowns s ! k)"
    if "k \<in> set (sh_exported_knowns s)" for k
    using assms(1) same(2) [OF that] that by (simp add: knowns_ok_def known_answers_def export_known_def)
  moreover have "known_answers (export_known (length (sh_knowns s)) p (sh_exports s)) (length (sh_knowns s)) p"
    by (simp add: known_answers_def export_known_def)
  ultimately show ?thesis
    using assms same by (auto simp: knowns_ok_def provisioned_def less_SucI paths)
qed

lemma networks_provisioned:
  assumes "networks_ok s" and "knowns_ok env s" and "i < length (sh_networks s)"
    and "sh_networks s ! i = (np, name, type, '''')" and "p = profile_path (name, type)"
  shows "networks_ok (provisioned i p s)"
proof -
  let ?new = "(np, name, type, p)"
  have names: "map network_id (sh_networks s) = network_names"
    using assms(1,3) by (cases "sh_networks s") (auto simp: networks_ok_def)
  have "map network_id ((sh_networks s)[i := ?new]) = map network_id (sh_networks s)"
    using assms(3,4) by (simp add: map_update list_update_same_conv network_id_def)
  moreover have "link_ok (provisioned i p s) (((sh_networks s)[i := ?new]) ! j)" if j: "j < length (sh_networks s)" for j
  proof (cases "j = i")
    case True
    with assms show ?thesis by (simp add: link_ok_def registered_paths_provisioned profile_path_def)
  next
    case False
    have len: "length network_names = length (sh_networks s)" using arg_cong [OF names, of length] by simp
    have nth: "network_names ! l = network_id (sh_networks s ! l)" if "l < length (sh_networks s)" for l
      using that by (simp add: names [symmetric])
    have "network_id (sh_networks s ! j) \<noteq> (name, type)"
      using False j assms(3,4) names_distinct(2) nth [OF j] nth [OF assms(3)] len
      by (metis network_id_def nth_eq_iff_index_eq old.prod.case)
    then have differ: "profile_path (network_id (sh_networks s ! j)) \<noteq> p"
      using profile_path_inj [of "network_id (sh_networks s ! j)" "(name, type)"] nth [OF j] nth [OF assms(3)] j assms(3,4,5) len
      by (metis network_id_def nth_mem old.prod.case)
    have "link_ok s (sh_networks s ! j)" using assms(1) j by (simp add: networks_ok_def)
    with differ False show ?thesis
      by (cases "sh_networks s ! j")
        (auto simp: link_ok_def registered_paths_provisioned [OF assms(2)] network_id_def split: if_splits)
  qed
  ultimately show ?thesis
    using assms(1,4) by (auto simp: networks_ok_def provisioned_def all_set_conv_all_nth)
qed

lemma inv_provisioned:
  assumes "mock_inv env s" and "i < length (sh_networks s)" and "sh_networks s ! i = (np, name, type, '''')"
    and "me_path_ok env (profile_path (name, type))"
  shows "mock_inv env (provisioned i (profile_path (name, type)) s)"
proof -
  have "link_ok s (sh_networks s ! i)" using assms(1,2) by (simp add: mock_inv_def networks_ok_def)
  then have "profile_path (name, type) \<notin> registered_paths s" using assms(3) by (simp add: link_ok_def)
  moreover have "network_names ! i = (name, type) \<and> i < length network_names"
  proof -
    have "map network_id (sh_networks s) = network_names"
      using assms(1,2) by (cases "sh_networks s") (auto simp: mock_inv_def networks_ok_def)
    from arg_cong [OF this, of "\<lambda>l. (length l, l ! i)"] show ?thesis using assms(2,3) by (simp add: network_id_def)
  qed
  then have "profile_path (name, type) \<in> set profile_paths"
    unfolding profile_paths_def by (metis list.set_intros(2) nth_mem image_eqI set_map)
  moreover have "sh_connected (provisioned i (profile_path (name, type)) s)"
    using assms(1) by (simp add: mock_inv_def provisioned_def)
  moreover have "networks_ok (provisioned i (profile_path (name, type)) s)"
    using assms by (auto simp: mock_inv_def intro!: networks_provisioned)
  ultimately show ?thesis
    using assms handlers_provisioned [OF assms(1)] by (simp add: mock_inv_def devices_provisioned knowns_provisioned)
qed

lemma export_object_at_run:
  "export_object_at env h path iface m =
     (if me_path_ok env path
      then (Inr (), set_export path IntrospectableIface (Some (IntrospectStub (plain_interfaces iface)))
              (set_export path PropertiesIface (Some h) (set_export path iface (Some h) m)))
      else export env (Some h) path iface m)"
  by (auto simp: export_object_at_def export_def go_bind_def)

lemma new_known_path: "mk_path (new_known n) = profile_path (mn_name n, mn_type n)"
  by (simp add: new_known_def profile_path_known)

lemma shape_provision:
  assumes "mock_connected m" and "mn_known (networks m ! i) = ''''" and "i < length (networks m)"
  defines "p \<equiv> profile_path (mn_name (networks m ! i), mn_type (networks m ! i))"
  shows "shape (provision_known_network env i m) =
     (if me_path_ok env p then provisioned i p (shape m) else (shape m)\<lparr>sh_knowns := map mk_path (knowns m) @ [p]\<rparr>)"
proof (cases "me_path_ok env p")
  case True
  let ?m1 = "set_export p IntrospectableIface (Some (IntrospectStub (plain_interfaces IwdKnownNetworkIface)))
    (set_export p PropertiesIface (Some (KnownNetworkHandler (length (knowns m))))
      (set_export p IwdKnownNetworkIface (Some (KnownNetworkHandler (length (knowns m))))
        (m\<lparr>knowns := knowns m @ [new_known (networks m ! i)]\<rparr>)))"
  have "shape (provision_known_network env i m) =
      shape (network_update i (\<lambda>n. n\<lparr>mn_known := p\<rparr>) (?m1\<lparr>exportedKnownNetworks := exportedKnownNetworks ?m1 @ [length (knowns m)]\<rparr>))"
    using assms(1,2) True
    by (simp add: provision_known_network_def Let_def guarded_def export_object_at_run new_known_path p_def)
  also have "\<dots> = provisioned i p (shape m)"
    using assms(2,3)
    by (simp add: shape_def provisioned_def network_update_def set_export_def map_update network_shape_def
        new_known_path p_def export_known_def fun_eq_iff)
  finally show ?thesis using True by simp
next
  case False
  then obtain e where
    "export_object_at env (KnownNetworkHandler (length (knowns m))) p IwdKnownNetworkIface
       (m\<lparr>knowns := knowns m @ [new_known (networks m ! i)]\<rparr>) =
     (Inl e, m\<lparr>knowns := knowns m @ [new_known (networks m ! i)]\<rparr>)"
    by (auto simp: export_object_at_run export_def)
  then show ?thesis
    using assms(1,2) False
    by (simp add: provision_known_network_def Let_def guarded_def new_known_path p_def shape_def)
qed

lemma inv_provision_known_network:
  assumes "mock_inv env (shape m)" and "i < length (networks m)"
  shows "mock_inv env (shape (provision_known_network env i m))"
proof (cases "mn_known (networks m ! i) = ''''")
  case True
  let ?n = "networks m ! i"
  have conn: "mock_connected m" using assms(1) by (simp add: mock_inv_def)
  have at_i: "sh_networks (shape m) ! i = (mn_path ?n, mn_name ?n, mn_type ?n, '''')"
    using True assms(2) by (simp add: network_shape_def)
  have "i < length (sh_networks (shape m))" using assms(2) by simp
  note added = inv_provisioned [OF assms(1) this at_i]
  show ?thesis
    using added inv_append_known [OF assms(1), of "[profile_path (mn_name ?n, mn_type ?n)]"]
    by (auto simp: shape_provision [OF conn True assms(2)])
next
  case False
  then show ?thesis using assms(1) by (simp add: provision_known_network_def)
qed

lemma mode_says_set: "mode_says f mode (device_shape (mode_interfaces f mode d))"
  by (simp add: mode_says_def device_shape_def mode_interfaces_def)

text \<open>The mode is set first (\<open>m1\<close>), then the interfaces.\<close>

lemma modes_switch_device_mode:
  assumes "mock_inv env (shape m1)" and "i \<in> set (exportedDevices m1)" and "modes_ok (shape m)"
    and m1: "shape m1 = (shape m)\<lparr>sh_modes := (map md_mode (devices m))[i := s]\<rparr>"
  shows "modes_ok (shape (switch_device_mode env i s m1))"
proof -
  have i: "i < length (devices m1)" "me_path_ok env (md_path (devices m1 ! i))" "mock_connected m1"
    using assms(1,2) by (auto simp: mock_inv_def devices_ok_def)
  have same: "flags m1 = flags m" "map device_shape (devices m1) = map device_shape (devices m)"
    "map md_mode (devices m1) = (map md_mode (devices m))[i := s]"
    using arg_cong [OF m1, of sh_flags] arg_cong [OF m1, of sh_devices] arg_cong [OF m1, of sh_modes] by simp_all
  let ?new = "mode_interfaces (flags m1) s (devices m1 ! i)"
  have old: "list_all2 (mode_says (flags m)) (map md_mode (devices m)) (map device_shape (devices m))"
    using assms(3) by (simp add: modes_ok_def)
  have "list_all2 (mode_says (flags m1)) (map md_mode (devices m1)) ((map device_shape (devices m1))[i := device_shape ?new])"
    unfolding same by (rule list_all2_update_cong [OF old]) (simp add: mode_says_set flip: same(1))
  moreover have "device_shape ?new = device_shape (devices m1 ! i)"
    if "HasStation (devices m1 ! i) = HasStation ?new" "HasAccessPoint (devices m1 ! i) = HasAccessPoint ?new"
    using that by (simp add: device_shape_def)
  then have "(map device_shape (devices m1))[i := device_shape ?new] = map device_shape (devices m1)"
    if "HasStation (devices m1 ! i) = HasStation ?new" "HasAccessPoint (devices m1 ! i) = HasAccessPoint ?new"
    using that i(1) by (simp add: list_update_same_conv)
  ultimately show ?thesis
    using i by (auto simp: modes_ok_def shape_switch_device_mode Let_def)
qed

lemma modes_remove_known_network:
  assumes "mock_inv env (shape m)" and "k \<in> set (exportedKnownNetworks m)" and "modes_ok (shape m)"
  shows "modes_ok (shape (remove_known_network env k m))"
proof -
  have "exportedNetworks m = [0..<length (networks m)]" "mock_connected m" "k < length (knowns m)"
    "me_path_ok env (mk_path (knowns m ! k))"
    using assms(1,2) by (auto simp: mock_inv_def knowns_ok_def networks_ok_def)
  note shape = shape_remove_known_network [OF this]
  show ?thesis unfolding shape using assms(3) by (simp add: modes_ok_def)
qed

lemma modes_provision_known_network:
  assumes "mock_connected m" and "i < length (networks m)" and "modes_ok (shape m)"
  shows "modes_ok (shape (provision_known_network env i m))"
proof (cases "mn_known (networks m ! i) = ''''")
  case True
  with assms show ?thesis by (simp add: shape_provision modes_ok_def provisioned_def)
next
  case False
  with assms(3) show ?thesis by (simp add: provision_known_network_def)
qed

text \<open>\<open>Network.Connect\<close> changes the shape only when it provisions a known network.\<close>

lemma connect_shape:
  obtains m2 where "shape m2 = shape m"
    and "shape (snd (mock_network_connect env i m)) \<in> {shape m, shape (provision_known_network env i m2)}"
proof -
  let ?ask = "guarded (mn_type (networks m ! i) \<noteq> ''open'' \<and> mn_known (networks m ! i) = '''')
    (check_passphrase_with_agent env (mn_path (networks m ! i)))"
  obtain r m1 where ask: "?ask m = (r, m1)" by (cases "?ask m")
  have "shapeless ?ask" by (simp add: guarded_def shapeless_check_passphrase)
  then have m1: "shape m1 = shape m" using ask by (metis shapeless_def snd_conv)
  let ?m2 = "network_update i (\<lambda>n. n\<lparr>mn_connected := True\<rparr>) m1"
  have m2: "shape ?m2 = shape m" using m1 by (simp add: shape_network_update network_shape_def)
  have "shape (snd (mock_network_connect env i m)) \<in> {shape m, shape (provision_known_network env i ?m2)}"
    using m1 m2 ask by (cases r) (simp_all add: mock_network_connect_def Let_def go_bind_def modify_def guarded_def)
  with m2 that show ?thesis by blast
qed

lemma modes_mock_network_connect:
  assumes "mock_inv env (shape m)" and "i < length (networks m)" and "modes_ok (shape m)"
  shows "modes_ok (shape (snd (mock_network_connect env i m)))"
proof -
  obtain m2 where m2: "shape m2 = shape m"
    and cases: "shape (snd (mock_network_connect env i m)) \<in> {shape m, shape (provision_known_network env i m2)}"
    by (rule connect_shape)
  from arg_cong [OF m2, of "\<lambda>s. length (sh_networks s)"] arg_cong [OF m2, of sh_connected]
  have "i < length (networks m2)" "mock_connected m2" using assms(1,2) by (simp_all add: mock_inv_def)
  with cases assms(3) show ?thesis by (auto simp: modes_provision_known_network m2)
qed

lemma inv_mock_network_connect:
  assumes "mock_inv env (shape m)" and "i < length (networks m)"
  shows "mock_inv env (shape (snd (mock_network_connect env i m)))"
proof -
  obtain m2 where m2: "shape m2 = shape m"
    and cases: "shape (snd (mock_network_connect env i m)) \<in> {shape m, shape (provision_known_network env i m2)}"
    by (rule connect_shape)
  from arg_cong [OF m2, of "\<lambda>s. length (sh_networks s)"] have "i < length (networks m2)" using assms(2) by simp
  with cases assms(1) show ?thesis by (auto simp: inv_provision_known_network m2)
qed

end
