(* ===== verification/Mock_Start.thy ===== *)
theory Mock_Start
  imports Mock_Invariants
begin

text \<open>
  \<open>main\<close> establishes the invariant of the mock iwd, and every state that a run reaches keeps it.
\<close>

subsection \<open>The state after \<open>main\<close>\<close>

text \<open>
  The exports while \<open>main\<close> runs: those of the device paths, those of the profile paths, and the rest, whose
  handlers are neither devices nor known networks.
\<close>

definition rest_handler :: "nat \<Rightarrow> mock_handler \<Rightarrow> bool" where
  "rest_handler n h \<longleftrightarrow>
     (case h of DeviceHandler _ \<Rightarrow> False | KnownNetworkHandler _ \<Rightarrow> False | NetworkHandler i \<Rightarrow> i < n | _ \<Rightarrow> True)"

definition staged ::
    "(string \<Rightarrow> string \<Rightarrow> mock_handler option) \<Rightarrow> (string \<Rightarrow> string \<Rightarrow> mock_handler option) \<Rightarrow> nat \<Rightarrow> mock \<Rightarrow> bool" where
  "staged dev kn n m \<longleftrightarrow>
     (\<forall>q \<in> set device_paths. exports m q = dev q) \<and> (\<forall>q \<in> set profile_paths. exports m q = kn q)
     \<and> (\<forall>q j h. q \<notin> set device_paths \<longrightarrow> q \<notin> set profile_paths \<longrightarrow> exports m q j = Some h \<longrightarrow> rest_handler n h)"

lemma staged_set_export:
  assumes "staged dev kn n m" and "p \<notin> set device_paths" and "p \<notin> set profile_paths" and "rest_handler n h"
  shows "staged dev kn n (set_export p j (Some h) m)"
proof -
  have "exports (set_export p j (Some h) m) q = exports m q" if "q \<noteq> p" for q
    using that by (simp add: fun_eq_iff)
  with assms show ?thesis by (auto simp: staged_def)
qed

lemma rest_handler_mono: "rest_handler n h \<Longrightarrow> n \<le> n' \<Longrightarrow> rest_handler n' h"
  by (cases h) (simp_all add: rest_handler_def)

lemma staged_more_networks:
  assumes "staged dev kn n m" and "n \<le> n'"
  shows "staged dev kn n' m"
  using assms(1) rest_handler_mono [OF _ assms(2)] unfolding staged_def by blast

lemma staged_fields [simp]:
  "staged dev kn n (m\<lparr>exportedAdapters := a\<rparr>) = staged dev kn n m"
  "staged dev kn n (m\<lparr>exportedBSSes := a\<rparr>) = staged dev kn n m"
  "staged dev kn n (m\<lparr>exportedNetworks := a\<rparr>) = staged dev kn n m"
  "staged dev kn n (m\<lparr>adapters := as\<rparr>) = staged dev kn n m"
  "staged dev kn n (m\<lparr>networks := ns\<rparr>) = staged dev kn n m"
  "staged dev kn n (m\<lparr>bsses := bs\<rparr>) = staged dev kn n m"
  "staged dev kn n (m\<lparr>agents := g\<rparr>) = staged dev kn n m"
  "staged dev kn n (m\<lparr>signal_agents_bound := b\<rparr>) = staged dev kn n m"
  "staged dev kn n (m\<lparr>mock_connected := b\<rparr>) = staged dev kn n m"
  by (simp_all add: staged_def)

lemma staged_object:
  assumes "export_object_at env h p iface m = (Inr (), m')" and "staged dev kn n m" and "rest_handler n h"
    and "p \<notin> set device_paths" and "p \<notin> set profile_paths"
  shows "staged dev kn n m'"
proof -
  from assms(1) have m': "m' = set_export p IntrospectableIface (Some (IntrospectStub (plain_interfaces iface)))
      (set_export p PropertiesIface (Some h) (set_export p iface (Some h) m))"
    by (simp add: export_object_at_run export_def split: if_splits)
  have "rest_handler n (IntrospectStub (plain_interfaces iface))" by (simp add: rest_handler_def)
  with assms show "staged dev kn n m'" by (simp add: m' staged_set_export)
qed

lemma export_object_shape:
  assumes "export_object_at env h p iface m = (Inr (), m')"
  shows "shape m' = (shape m)\<lparr>sh_exports := exports m'\<rparr>"
  using assms by (auto simp: export_object_at_run export_def shape_def split: if_splits)

lemma main_paths_differ:
  "IwdDaemonPath \<notin> set device_paths" "IwdDaemonPath \<notin> set profile_paths"
  "''/'' \<notin> set device_paths" "''/'' \<notin> set profile_paths"
  "(i, a) \<in> set (enumerate 0 (adapter_fixtures x y)) \<Longrightarrow> ma_path a \<notin> set device_paths \<and> ma_path a \<notin> set profile_paths"
  "(i, b) \<in> set (enumerate 0 bss_fixtures) \<Longrightarrow> mb_path b \<notin> set device_paths \<and> mb_path b \<notin> set profile_paths"
  "(i, n) \<in> set (enumerate 0 network_fixtures) \<Longrightarrow> mn_path n \<notin> set device_paths \<and> mn_path n \<notin> set profile_paths"
  "set device_paths \<inter> set profile_paths = {}"
  by (auto simp: device_paths_def profile_paths_eq path_defs adapter_fixtures_def bss_fixtures_def network_fixtures_def)

definition rests :: "mock \<Rightarrow> mock \<Rightarrow> bool" where
  "rests m m' \<longleftrightarrow>
     (\<forall>dev kn n. staged dev kn n m \<longrightarrow> staged dev kn n m') \<and> shape m' = (shape m)\<lparr>sh_exports := exports m'\<rparr>"

lemma rests_refl [simp]: "rests m m"
  by (simp add: rests_def shape_def)

lemma rests_trans: "rests m1 m2 \<Longrightarrow> rests m2 m3 \<Longrightarrow> rests m1 m3"
  by (simp add: rests_def)

lemma rests_set_export:
  assumes "rests m m'" and "p \<notin> set device_paths" and "p \<notin> set profile_paths" and "rest_handler 0 h"
  shows "rests m (set_export p j (Some h) m')"
proof -
  have "rest_handler n h" for n using assms(4) rest_handler_mono by blast
  with assms show ?thesis by (auto simp: rests_def staged_set_export shape_set_export)
qed

lemma rests_fields:
  "rests m (m'\<lparr>exportedAdapters := a\<rparr>) = rests m m'" "rests m (m'\<lparr>exportedBSSes := a\<rparr>) = rests m m'"
  "rests m (m'\<lparr>adapters := as\<rparr>) = rests m m'" "rests m (m'\<lparr>bsses := bs\<rparr>) = rests m m'"
  "rests m (m'\<lparr>agents := g\<rparr>) = rests m m'" "rests m (m'\<lparr>signal_agents_bound := b\<rparr>) = rests m m'"
  by (simp_all add: rests_def shape_def)

lemma rests_object:
  assumes "rests m m1" and "export_object_at env h p iface m1 = (Inr (), m2)" and "rest_handler 0 h"
    and "p \<notin> set device_paths" and "p \<notin> set profile_paths"
  shows "rests m m2"
proof -
  have "rest_handler n h" for n using assms(3) rest_handler_mono by blast
  then have "rests m1 m2"
    unfolding rests_def using staged_object [OF assms(2) _ _ assms(4,5)] export_object_shape [OF assms(2)] by blast
  with assms(1) show ?thesis by (rule rests_trans)
qed

lemma run_guarded: "guarded b f m = (Inr (), m') \<longleftrightarrow> (if b then f m = (Inr (), m') else m' = m)"
  by (auto simp: guarded_def)

lemma run_modify: "modify f m = (Inr (), m') \<longleftrightarrow> m' = f m"
  by (auto simp: modify_def)

lemmas main_runs = go_bind_Inr_iff run_guarded run_modify export_Inr

text \<open>The exports of a list of objects, one after the other.\<close>

lemma each_object:
  assumes "for_each (\<lambda>(i, x). go_bind (export_object_at env (H i) (p x) iface) (\<lambda>_. modify (add i))) (enumerate k xs) m
      = (Inr (), m')"
    and "P k m"
    and "\<And>i x m1 m2. P i m1 \<Longrightarrow> (i, x) \<in> set (enumerate k xs)
      \<Longrightarrow> export_object_at env (H i) (p x) iface m1 = (Inr (), m2) \<Longrightarrow> P (Suc i) (add i m2)"
  shows "P (k + length xs) m'"
  using assms
proof (induction xs arbitrary: k m)
  case Nil
  then show ?case by simp
next
  case (Cons x xs)
  let ?f = "\<lambda>(i, x). go_bind (export_object_at env (H i) (p x) iface) (\<lambda>_. modify (add i))"
  from Cons.prems(1) obtain m1 where m1: "export_object_at env (H k) (p x) iface m = (Inr (), m1)"
    and rest: "for_each ?f (enumerate (Suc k) xs) (add k m1) = (Inr (), m')"
    by (auto simp: main_runs)
  have "P (Suc k) (add k m1)" by (rule Cons.prems(3) [OF Cons.prems(2) _ m1]) simp
  then have "P (Suc k + length xs) m'" by (rule Cons.IH [OF rest]) (rule Cons.prems(3), simp_all)
  then show ?case by simp
qed

lemma rests_adapter:
  assumes "export_adapter env model vendor m = (Inr (), m')"
  shows "rests m m'"
proof -
  let ?m = "m\<lparr>adapters := adapter_fixtures model vendor, exportedAdapters := []\<rparr>"
  from assms have "for_each (\<lambda>(i, a). go_bind (export_object_at env (AdapterHandler i) (ma_path a) IwdAdapterIface)
      (\<lambda>_. modify (\<lambda>m. m\<lparr>exportedAdapters := exportedAdapters m @ [i]\<rparr>))) (enumerate 0 (adapter_fixtures model vendor)) ?m
    = (Inr (), m')"
    by (simp add: export_adapter_def main_runs)
  then show ?thesis
  proof (rule each_object [where P = "\<lambda>_. rests m"])
    show "rests m ?m" by (simp add: rests_fields)
  next
    fix i a m1 m2
    assume "rests m m1" and "(i, a) \<in> set (enumerate 0 (adapter_fixtures model vendor))"
      and "export_object_at env (AdapterHandler i) (ma_path a) IwdAdapterIface m1 = (Inr (), m2)"
    then show "rests m (m2\<lparr>exportedAdapters := exportedAdapters m2 @ [i]\<rparr>)"
      using rests_object main_paths_differ(5) unfolding rests_fields by (simp add: rest_handler_def)
  qed
qed

lemma rests_bss:
  assumes "export_bss env m = (Inr (), m')"
  shows "rests m m'"
proof (cases "omitBSS (flags m)")
  case True
  with assms show ?thesis by (simp add: export_bss_def)
next
  case False
  let ?m = "m\<lparr>bsses := bss_fixtures, exportedBSSes := []\<rparr>"
  from assms False have "for_each (\<lambda>(i, b). go_bind (export_object_at env (BSSHandler i) (mb_path b) IwdBasicServiceSetIface)
      (\<lambda>_. modify (\<lambda>m. m\<lparr>exportedBSSes := exportedBSSes m @ [i]\<rparr>))) (enumerate 0 bss_fixtures) ?m = (Inr (), m')"
    by (simp add: export_bss_def)
  then show ?thesis
  proof (rule each_object [where P = "\<lambda>_. rests m"])
    show "rests m ?m" by (simp add: rests_fields)
  next
    fix i b m1 m2
    assume "rests m m1" and "(i, b) \<in> set (enumerate 0 bss_fixtures)"
      and "export_object_at env (BSSHandler i) (mb_path b) IwdBasicServiceSetIface m1 = (Inr (), m2)"
    then show "rests m (m2\<lparr>exportedBSSes := exportedBSSes m2 @ [i]\<rparr>)"
      using rests_object main_paths_differ(6) unfolding rests_fields by (simp add: rest_handler_def)
  qed
qed

lemma rests_daemon:
  assumes "export_daemon env m = (Inr (), m')"
  shows "rests m m'"
proof (cases "omitDaemon (flags m)")
  case True
  with assms show ?thesis by (simp add: export_daemon_def)
next
  case False
  let ?put = "\<lambda>j h. set_export IwdDaemonPath j (Some h)"
  let ?m1 = "?put PropertiesIface DaemonHandler (?put IwdDaemonIface DaemonHandler m)"
  let ?m2 = "?put IwdAgentManagerIface DaemonHandler ?m1"
  have put: "rests m (?put j h m1)" if "rests m m1" "rest_handler 0 h" for j h m1
    using that by (simp add: rests_set_export main_paths_differ)
  have m': "m' = ?put IntrospectableIface (IntrospectStub (daemon_interfaces (flags m)))
      (if agent_manager_exported (flags m) then ?m2\<lparr>agents := (agents ?m2)\<lparr>ar_bound := True\<rparr>, signal_agents_bound := True\<rparr>
       else ?m1\<lparr>signal_agents_bound := True\<rparr>)"
    using assms False by (cases "agent_manager_exported (flags m)") (simp_all add: export_daemon_def main_runs)
  show ?thesis
    unfolding m'
    by (rule put) (simp_all add: put rests_fields rest_handler_def)
qed

lemma network_stage:
  assumes "export_network env m = (Inr (), m')" and "networks m = []" and "exportedNetworks m = []" and "staged dev kn 0 m"
  shows "staged dev kn (length (networks m')) m'
    \<and> shape m' = (shape m)\<lparr>sh_networks := (if omitNetwork (flags m) then [] else map network_shape network_fixtures),
        sh_exported_networks := [0..<length (networks m')], sh_exports := exports m'\<rparr>"
proof (cases "omitNetwork (flags m)")
  case True
  with assms show ?thesis by (simp add: export_network_def shape_def)
next
  case False
  let ?ns = "network_fixtures"
  let ?P = "\<lambda>i w. staged dev kn (length ?ns) w \<and> shape w = (shape m)\<lparr>sh_networks := map network_shape ?ns,
    sh_exported_networks := [0..<i], sh_exports := exports w\<rparr>"
  have "?P (0 + length ?ns) m'"
    using assms(1) unfolding export_network_def if_not_P [OF False]
  proof (rule each_object)
    show "?P 0 (m\<lparr>networks := ?ns, exportedNetworks := []\<rparr>)"
      using staged_more_networks [OF assms(4), of "length ?ns"] by (simp add: shape_def)
  next
    fix i n m1 m2
    assume P: "?P i m1" and n: "(i, n) \<in> set (enumerate 0 ?ns)"
      and step: "export_object_at env (NetworkHandler i) (mn_path n) IwdNetworkIface m1 = (Inr (), m2)"
    have "i < length ?ns" using n by (auto simp: in_set_enumerate_eq)
    then have "staged dev kn (length ?ns) m2"
      using staged_object [OF step] P main_paths_differ(7) [OF n] by (simp add: rest_handler_def)
    moreover have "shape m2 = (shape m1)\<lparr>sh_exports := exports m2\<rparr>" by (rule export_object_shape [OF step])
    moreover have "shape (m2\<lparr>exportedNetworks := exportedNetworks m2 @ [i]\<rparr>) =
        (shape m2)\<lparr>sh_exported_networks := sh_exported_networks (shape m2) @ [i]\<rparr>"
      by (simp add: shape_def)
    ultimately show "?P (Suc i) (m2\<lparr>exportedNetworks := exportedNetworks m2 @ [i]\<rparr>)"
      using P by simp
  qed
  then have m': "?P (length ?ns) m'" by simp
  then have "length (sh_networks (shape m')) = length ?ns" by simp
  then have "length (networks m') = length ?ns" by simp
  with m' False show ?thesis by simp
qed

definition export_dev ::
    "mock_flags \<Rightarrow> nat \<Rightarrow> mock_device \<Rightarrow> (string \<Rightarrow> string \<Rightarrow> mock_handler option) \<Rightarrow> string \<Rightarrow> string \<Rightarrow> mock_handler option"
  where
  "export_dev f i d ex = (\<lambda>q j.
     if q \<noteq> md_path d then ex q j
     else if j = IwdDeviceIface \<or> j = PropertiesIface \<or> (j = IwdStationIface \<and> HasStation d)
        \<or> (j = IwdSimpleConfigurationIface \<and> HasStation d \<and> \<not> omitWSC f) then Some (DeviceHandler i)
     else if j = IwdAccessPointIface \<and> HasAccessPoint d then Some (AccessPointHandler i)
     else if j = IntrospectableIface
     then Some (IntrospectStub (device_interfaces (HasStation d) (HasStation d \<and> \<not> omitWSC f) (HasAccessPoint d)))
     else ex q j)"

lemma export_one_device_run:
  assumes "export_one_device env f (i, d) m = (Inr (), m')"
  shows "me_path_ok env (md_path d)" and "exports m' = export_dev f i d (exports m)"
    and "shape m' = (shape m)\<lparr>sh_exported_devices := exportedDevices m @ [i], sh_exports := exports m'\<rparr>"
  using assms
  by (cases "HasStation d"; cases "omitWSC f"; cases "HasAccessPoint d";
      simp add: export_one_device_def Let_def main_runs export_device_introspection_def export_dev_def fun_eq_iff shape_def)+

lemma export_dev_answers:
  assumes "\<And>j. ex (md_path d) j = None" and "\<not> (HasStation d \<and> HasAccessPoint d)"
  shows "device_answers f (export_dev f i d ex) i (device_shape d)"
  using assms by (simp add: device_answers_def device_shape_def export_dev_def)

lemma export_dev_handler:
  assumes "export_dev f i d ex q j = Some h" and "i \<in> set (sh_exported_devices s)"
  shows "ex q j = Some h \<or> handler_ok s q j h"
  using assms by (auto simp: export_dev_def handler_ok_def split: if_splits)

lemma device_stage:
  assumes "export_device env m = (Inr (), m')" and "devices m = []" and "exportedDevices m = []"
    and "staged (\<lambda>_ _. None) kn n m"
  shows "devices_ok env (shape m') \<and> (\<forall>q \<in> set device_paths. \<forall>j h. exports m' q j = Some h \<longrightarrow> handler_ok (shape m') q j h)
    \<and> staged (exports m') kn n m'
    \<and> shape m' = (shape m)\<lparr>sh_devices := map device_shape (devices m'), sh_modes := map md_mode (devices m'),
        sh_exported_devices := exportedDevices m', sh_exports := exports m'\<rparr>
    \<and> list_all2 (mode_says (flags m)) (map md_mode (devices m')) (map device_shape (devices m'))"
proof (cases "omitDevice (flags m)")
  case True
  with assms show ?thesis by (auto simp: export_device_def devices_ok_def staged_def shape_def)
next
  case False
  let ?f = "flags m"
  obtain d0 d1 where d: "device_fixtures ?f = [d0, d1]" and paths: "md_path d0 = devicePath" "md_path d1 = device1Path"
    and one: "\<not> (HasStation d0 \<and> HasAccessPoint d0)" "\<not> (HasStation d1 \<and> HasAccessPoint d1)"
    and modes: "mode_says ?f (md_mode d0) (device_shape d0)" "mode_says ?f (md_mode d1) (device_shape d1)"
    by (simp add: device_fixtures_def mode_says_def device_shape_def)
  have differ: "devicePath \<noteq> device1Path" by (simp add: path_defs)
  have blank: "exports m q j = None" if "q \<in> set device_paths" for q j using assms(4) that by (simp add: staged_def)
  let ?m0 = "m\<lparr>devices := [d0, d1], exportedDevices := []\<rparr>"
  from assms(1) False obtain m1 where r1: "export_one_device env ?f (0, d0) ?m0 = (Inr (), m1)"
    and r2: "export_one_device env ?f (1, d1) m1 = (Inr (), m')"
    by (auto simp: export_device_def d go_bind_Inr_iff)
  note run1 = export_one_device_run [OF r1] and run2 = export_one_device_run [OF r2]
  let ?s = "(shape m)\<lparr>sh_devices := [device_shape d0, device_shape d1], sh_modes := [md_mode d0, md_mode d1],
      sh_exported_devices := [0, 1], sh_exports := exports m'\<rparr>"
  from arg_cong [OF run1(3), of sh_exported_devices] have e1: "exportedDevices m1 = [0]" by simp
  have shape: "shape m' = ?s"
    by (simp add: run2(3) run1(3) e1)
  have ex: "exports m' = export_dev ?f 1 d1 (export_dev ?f 0 d0 (exports m))"
    using run1(2) run2(2) by simp
  have "device_answers ?f (exports m') 0 (device_shape d0)"
    using export_dev_answers [of "exports m" d0 ?f 0] one blank differ
    by (subst device_answers_cong [where ex = "export_dev ?f 0 d0 (exports m)"])
      (simp_all add: ex export_dev_def paths device_paths_def)
  moreover have "device_answers ?f (exports m') 1 (device_shape d1)"
    unfolding ex by (rule export_dev_answers) (use one blank differ in \<open>simp_all add: export_dev_def paths device_paths_def\<close>)
  ultimately have "devices_ok env ?s"
    using run1(1) run2(1) paths by (auto simp: devices_ok_def device_paths_def)
  moreover have "handler_ok ?s q j h" if "q \<in> set device_paths" "exports m' q j = Some h" for q j h
  proof -
    have "export_dev ?f 1 d1 (export_dev ?f 0 d0 (exports m)) q j = Some h" using that(2) by (simp only: ex)
    from export_dev_handler [OF this, of ?s] have "export_dev ?f 0 d0 (exports m) q j = Some h \<or> handler_ok ?s q j h" by simp
    then show ?thesis
    proof
      assume "export_dev ?f 0 d0 (exports m) q j = Some h"
      from export_dev_handler [OF this, of ?s] blank [OF that(1)] show ?thesis by simp
    qed
  qed
  moreover have "staged (exports m') kn n m'"
  proof -
    have "exports m' q = exports m q" if "q \<notin> set device_paths" for q
      using that by (auto simp: ex export_dev_def device_paths_def paths)
    moreover have "q \<notin> set device_paths" if "q \<in> set profile_paths" for q using that main_paths_differ(8) by blast
    ultimately show ?thesis using assms(4) by (simp add: staged_def)
  qed
  moreover from arg_cong [OF shape, of sh_devices] arg_cong [OF shape, of sh_exported_devices] arg_cong [OF shape, of sh_modes]
  have "map device_shape (devices m') = [device_shape d0, device_shape d1]" "exportedDevices m' = [0, 1]"
    "map md_mode (devices m') = [md_mode d0, md_mode d1]" by simp_all
  ultimately show ?thesis using modes by (simp add: shape)
qed

lemma export_object_known:
  assumes "export_object_at env (KnownNetworkHandler k) p IwdKnownNetworkIface m = (Inr (), m')"
  shows "me_path_ok env p" and "exports m' = export_known k p (exports m)"
    and "shape m' = (shape m)\<lparr>sh_exports := exports m'\<rparr>"
  using assms
  by (auto simp: export_object_at_run export_def export_known_def fun_eq_iff shape_def split: if_splits)

lemma known_stage:
  assumes "export_known_network env m = (Inr (), m')" and "knowns m = []" and "exportedKnownNetworks m = []"
    and "staged dev (\<lambda>_ _. None) n m"
  shows "knowns_ok env (shape m') \<and> (\<forall>q \<in> set profile_paths. \<forall>j h. exports m' q j = Some h \<longrightarrow> handler_ok (shape m') q j h)
    \<and> staged dev (exports m') n m'
    \<and> registered_paths (shape m') = (if omitKnownNetwork (flags m) then {} else {known_net_profile, guest_hotspot_profile})
    \<and> shape m' = (shape m)\<lparr>sh_knowns := map mk_path (knowns m'), sh_exported_knowns := exportedKnownNetworks m',
        sh_exports := exports m'\<rparr>"
proof (cases "omitKnownNetwork (flags m)")
  case True
  with assms show ?thesis
    by (auto simp: export_known_network_def knowns_ok_def staged_def shape_def registered_paths_def)
next
  case False
  obtain k0 k1 where k: "known_fixtures = [k0, k1]" and paths: "mk_path k0 = known_net_profile" "mk_path k1 = guest_hotspot_profile"
    by (simp add: known_fixtures_def)
  have differ: "known_net_profile \<noteq> guest_hotspot_profile" by (simp add: path_defs)
  have profiles: "known_net_profile \<in> set profile_paths" "guest_hotspot_profile \<in> set profile_paths"
    by (simp_all add: profile_paths_eq)
  have blank: "exports m q j = None" if "q \<in> set profile_paths" for q j using assms(4) that by (simp add: staged_def)
  let ?do = "\<lambda>i p. export_object_at env (KnownNetworkHandler i) p IwdKnownNetworkIface"
  let ?app = "\<lambda>i m. m\<lparr>exportedKnownNetworks := exportedKnownNetworks m @ [i]\<rparr>"
  let ?m0 = "m\<lparr>knowns := [k0, k1], exportedKnownNetworks := []\<rparr>"
  have runs: "\<exists>m1 m2. ?do 0 known_net_profile ?m0 = (Inr (), m1) \<and> ?do 1 guest_hotspot_profile (?app 0 m1) = (Inr (), m2)
      \<and> m' = ?app 1 m2"
    using assms(1) False by (auto simp: export_known_network_def k main_runs paths)
  from runs obtain m1 m2 where r1: "?do 0 known_net_profile ?m0 = (Inr (), m1)"
    and r2: "?do 1 guest_hotspot_profile (?app 0 m1) = (Inr (), m2)" and m': "m' = ?app 1 m2" by blast
  note run1 = export_object_known [OF r1] and run2 = export_object_known [OF r2]
  have app: "shape (?app i w) = (shape w)\<lparr>sh_exported_knowns := sh_exported_knowns (shape w) @ [i]\<rparr>" for i w
    by (simp add: shape_def)
  let ?s = "(shape m)\<lparr>sh_knowns := [known_net_profile, guest_hotspot_profile], sh_exported_knowns := [0, 1],
    sh_exports := exports m'\<rparr>"
  have shape: "shape m' = ?s"
    unfolding m' app run2(3) run1(3) by (simp add: shape_def paths)
  have ex: "exports m' = export_known 1 guest_hotspot_profile (export_known 0 known_net_profile (exports m))"
    using run1(2) run2(2) by (simp add: m')
  have "knowns_ok env ?s"
    using run1(1) run2(1) differ profiles by (auto simp: knowns_ok_def known_answers_def ex export_known_def)
  moreover have "handler_ok ?s q j h" if "q \<in> set profile_paths" "exports m' q j = Some h" for q j h
    using that blank [OF that(1)] by (auto simp: ex export_known_def handler_ok_def split: if_splits)
  moreover have "staged dev (exports m') n m'"
  proof -
    have "exports m' q = exports m q" if "q \<notin> set profile_paths" for q
      using that profiles by (auto simp: ex export_known_def)
    moreover have "q \<notin> set profile_paths" if "q \<in> set device_paths" for q using that main_paths_differ(8) by blast
    ultimately show ?thesis using assms(4) by (simp add: staged_def)
  qed
  moreover have "registered_paths ?s = {known_net_profile, guest_hotspot_profile}" by (simp add: registered_paths_def)
  moreover from arg_cong [OF shape, of sh_knowns] arg_cong [OF shape, of sh_exported_knowns]
  have "map mk_path (knowns m') = [known_net_profile, guest_hotspot_profile]" "exportedKnownNetworks m' = [0, 1]" by simp_all
  ultimately show ?thesis using False by (simp add: shape)
qed

lemma links_of_fixtures:
  assumes "registered_paths s = (if omitKnownNetwork (sh_flags s) then {} else {known_net_profile, guest_hotspot_profile})"
    and "n \<in> set (map network_shape network_fixtures)"
  shows "link_ok s n"
  using assms
  by (auto simp: network_fixtures_def network_shape_def link_ok_def profile_path_def hex_ssid_def code_def
      hex_digit_def known_net_profile_def guest_hotspot_profile_def char_of_def bit_0)

lemma handler_ok_mono:
  assumes "handler_ok s q j h" and "set (sh_exported_devices s) \<subseteq> set (sh_exported_devices s')"
    and "set (sh_exported_networks s) \<subseteq> set (sh_exported_networks s')"
    and "sh_exported_knowns s = [] \<or> (sh_exported_knowns s = sh_exported_knowns s' \<and> sh_knowns s = sh_knowns s')"
  shows "handler_ok s' q j h"
  using assms by (cases h) (auto simp: handler_ok_def)

text \<open>
  What \<open>main\<close> leaves: \<open>md\<close> is the state after the devices, \<open>mk\<close> the one after the known networks, whose exports
  stand in the final state.
\<close>

definition started :: "mock_env \<Rightarrow> mock_flags \<Rightarrow> mock \<Rightarrow> mock \<Rightarrow> mock \<Rightarrow> bool" where
  "started env f md mk m \<longleftrightarrow>
     (let nets = if omitNetwork f then [] else map network_shape network_fixtures in
      devices_ok env (shape md)
      \<and> (\<forall>q \<in> set device_paths. \<forall>j h. exports md q j = Some h \<longrightarrow> handler_ok (shape md) q j h)
      \<and> knowns_ok env (shape mk)
      \<and> (\<forall>q \<in> set profile_paths. \<forall>j h. exports mk q j = Some h \<longrightarrow> handler_ok (shape mk) q j h)
      \<and> registered_paths (shape mk) = (if omitKnownNetwork f then {} else {known_net_profile, guest_hotspot_profile})
      \<and> flags md = f \<and> exportedNetworks md = [] \<and> exportedKnownNetworks md = []
      \<and> list_all2 (mode_says f) (map md_mode (devices md)) (map device_shape (devices md))
      \<and> exportedDevices mk = exportedDevices md \<and> exportedNetworks mk = [0..<length nets]
      \<and> shape m = \<lparr>sh_flags = f, sh_connected = True, sh_devices = map device_shape (devices md),
           sh_modes = map md_mode (devices md), sh_networks = nets,
           sh_knowns = map mk_path (knowns mk), sh_exported_devices = exportedDevices md,
           sh_exported_networks = [0..<length nets], sh_exported_knowns = exportedKnownNetworks mk, sh_exports = exports m\<rparr>
      \<and> staged (exports md) (exports mk) (length nets) m)"

lemma start_stages:
  assumes "mock_start env omit (empty_mock f bus) = (Inr (), m)"
  shows "\<exists>md mk. started env f md mk m"
proof -
  let ?none = "\<lambda>_ _. None" and ?m0 = "empty_mock f bus"
  let ?nets = "if omitNetwork f then [] else map network_shape network_fixtures"
  obtain model vendor m1 m2 m3 m4 m5 m6 where runs:
    "export_daemon env ?m0 = (Inr (), m1)" "export_adapter env model vendor m1 = (Inr (), m2)"
    "export_device env m2 = (Inr (), m3)" "export_bss env m3 = (Inr (), m4)" "export_network env m4 = (Inr (), m5)"
    "export_known_network env m5 = (Inr (), m6)" "export_object_manager env m6 = (Inr (), m)"
    using assms by (auto simp: mock_start_def go_bind_Inr_iff split: if_splits)
  have r2: "rests ?m0 m2" by (rule rests_trans [OF rests_daemon [OF runs(1)] rests_adapter [OF runs(2)]])
  have "staged ?none ?none 0 ?m0" by (simp add: staged_def empty_mock_def)
  with r2 have s2: "staged ?none ?none 0 m2" unfolding rests_def by blast
  have shape2: "shape m2 = (shape ?m0)\<lparr>sh_exports := exports m2\<rparr>" using r2 by (simp only: rests_def)
  from arg_cong [OF shape2, of sh_devices] arg_cong [OF shape2, of sh_exported_devices]
  have e2: "devices m2 = []" "exportedDevices m2 = []" by (simp_all add: empty_mock_def)
  note dev = device_stage [OF runs(3) e2 s2]
  have shape3: "shape m3 = (shape ?m0)\<lparr>sh_devices := map device_shape (devices m3), sh_modes := map md_mode (devices m3),
      sh_exported_devices := exportedDevices m3, sh_exports := exports m3\<rparr>"
    using dev shape2 by simp
  note bss = rests_bss [OF runs(4), unfolded rests_def]
  have s4: "staged (exports m3) ?none 0 m4" using dev bss by blast
  have shape4: "shape m4 = (shape m3)\<lparr>sh_exports := exports m4\<rparr>" using bss by blast
  from arg_cong [OF shape4 [unfolded shape3], of sh_networks] arg_cong [OF shape4 [unfolded shape3], of sh_exported_networks]
  have e4: "networks m4 = []" "exportedNetworks m4 = []" by (simp_all add: empty_mock_def)
  note net = network_stage [OF runs(5) e4 s4]
  have flags: "flags m4 = f" using arg_cong [OF shape4 [unfolded shape3], of sh_flags] by (simp add: empty_mock_def)
  from arg_cong [OF net [THEN conjunct2], of "\<lambda>s. length (sh_networks s)"]
  have len: "length (networks m5) = length ?nets" by (simp add: flags)
  have shape5: "shape m5 = (shape m3)\<lparr>sh_networks := ?nets, sh_exported_networks := [0..<length ?nets], sh_exports := exports m5\<rparr>"
    using net [THEN conjunct2] unfolding shape4 len by (simp add: flags)
  note in5 = arg_cong [OF shape5 [unfolded shape3]]
  have e5: "knowns m5 = []" "exportedKnownNetworks m5 = []" "flags m5 = f"
    using in5 [of sh_knowns] in5 [of sh_exported_knowns] in5 [of sh_flags] by (simp_all add: empty_mock_def)
  note known = known_stage [OF runs(6) e5(1,2) net [THEN conjunct1]]
  have shape6: "shape m6 = (shape m5)\<lparr>sh_knowns := map mk_path (knowns m6), sh_exported_knowns := exportedKnownNetworks m6,
      sh_exports := exports m6\<rparr>"
    using known by blast
  have m: "m = set_export ''/'' ObjectManagerIface (Some (ObjectManager (\<not> omitDaemon (flags m6)))) (m6\<lparr>mock_connected := True\<rparr>)"
    using runs(7) by (simp add: export_object_manager_def export_Inr)
  have shape_m: "shape m = (shape m6)\<lparr>sh_connected := True, sh_exports := exports m\<rparr>"
    unfolding m by (simp add: shape_def)
  have "staged (exports m3) (exports m6) (length ?nets) m"
    unfolding m by (rule staged_set_export) (use known len main_paths_differ(3,4) in \<open>simp_all add: rest_handler_def\<close>)
  moreover have "shape m = \<lparr>sh_flags = f, sh_connected = True, sh_devices = map device_shape (devices m3),
     sh_modes = map md_mode (devices m3), sh_networks = ?nets,
     sh_knowns = map mk_path (knowns m6), sh_exported_devices = exportedDevices m3,
     sh_exported_networks = [0..<length ?nets], sh_exported_knowns = exportedKnownNetworks m6, sh_exports = exports m\<rparr>"
    unfolding shape_m shape6 shape5 shape3 by (simp add: shape_def empty_mock_def)
  moreover note in3 = arg_cong [OF shape3] and in6 = arg_cong [OF shape6 [unfolded shape5 shape3]]
  have "flags m3 = f" "exportedNetworks m3 = []" "exportedKnownNetworks m3 = []" "exportedDevices m6 = exportedDevices m3"
    "exportedNetworks m6 = [0..<length ?nets]"
    using in3 [of sh_flags] in3 [of sh_exported_networks] in3 [of sh_exported_knowns]
      in6 [of sh_exported_devices] in6 [of sh_exported_networks] by (simp_all add: empty_mock_def)
  moreover have "flags m2 = f" using arg_cong [OF shape2, of sh_flags] by (simp add: empty_mock_def)
  ultimately have "started env f m3 m6 m"
    using dev known unfolding started_def Let_def e5(3) by metis
  then show ?thesis by blast
qed

lemma started_exports:
  assumes "started env f md mk m"
  shows "q \<in> set device_paths \<Longrightarrow> exports m q = exports md q" and "q \<in> set profile_paths \<Longrightarrow> exports m q = exports mk q"
  using assms by (simp_all add: started_def Let_def staged_def)

lemma started_devices:
  assumes "started env f md mk m"
  shows "devices_ok env (shape m)"
proof -
  have old: "devices_ok env (shape md)" using assms by (simp add: started_def Let_def)
  have same: "sh_devices (shape m) = sh_devices (shape md)" "sh_exported_devices (shape m) = sh_exported_devices (shape md)"
    "sh_flags (shape m) = sh_flags (shape md)"
    using assms by (simp_all add: started_def Let_def del: shape_fields) (simp_all add: shape_def)
  from old have paths: "map fst (sh_devices (shape md)) \<in> {[], device_paths}" by (simp add: devices_ok_def)
  have "fst (sh_devices (shape md) ! i) \<in> set device_paths" if "i < length (sh_devices (shape md))" for i
    using paths that by (metis empty_iff insert_iff length_map list.size(3) not_less0 nth_map nth_mem)
  then have "device_answers g (exports m) i (sh_devices (shape md) ! i) = device_answers g (exports md) i (sh_devices (shape md) ! i)"
    if "i < length (sh_devices (shape md))" for i g
    using that by (intro device_answers_cong) (simp only: started_exports [OF assms])
  with old show ?thesis unfolding devices_ok_def same by auto
qed

lemma started_knowns:
  assumes "started env f md mk m"
  shows "knowns_ok env (shape m)"
proof -
  have same: "sh_knowns (shape m) = sh_knowns (shape mk)" "sh_exported_knowns (shape m) = sh_exported_knowns (shape mk)"
    using assms by (simp_all add: started_def Let_def del: shape_fields) (simp_all add: shape_def)
  have "knowns_ok env (shape mk)" using assms by (simp add: started_def Let_def)
  then show ?thesis
    unfolding knowns_ok_def same known_answers_def by (auto simp: started_exports [OF assms])
qed

lemma started_handlers:
  assumes "started env f md mk m"
  shows "handlers_ok (shape m)"
  unfolding handlers_ok_def
proof (intro allI impI)
  fix q j h
  assume h: "sh_exports (shape m) q j = Some h"
  note facts = assms [unfolded started_def Let_def]
  have m: "shape m = \<lparr>sh_flags = f, sh_connected = True, sh_devices = map device_shape (devices md),
     sh_modes = map md_mode (devices md), sh_networks = if omitNetwork f then [] else map network_shape network_fixtures,
     sh_knowns = map mk_path (knowns mk), sh_exported_devices = exportedDevices md,
     sh_exported_networks = exportedNetworks mk, sh_exported_knowns = exportedKnownNetworks mk, sh_exports = exports m\<rparr>"
    using facts by simp
  consider "q \<in> set device_paths" | "q \<in> set profile_paths" | "q \<notin> set device_paths" "q \<notin> set profile_paths" by blast
  then show "handler_ok (shape m) q j h"
  proof cases
    case 1
    with h have "exports md q j = Some h" by (simp add: started_exports [OF assms])
    with 1 facts have "handler_ok (shape md) q j h" by blast
    then show ?thesis by (rule handler_ok_mono) (use facts in \<open>simp_all add: m\<close>)
  next
    case 2
    with h have "exports mk q j = Some h" by (simp add: started_exports [OF assms])
    with 2 facts have "handler_ok (shape mk) q j h" by blast
    moreover have "exportedDevices mk = exportedDevices md" using facts by blast
    ultimately show ?thesis unfolding m by (cases h) (simp_all add: handler_ok_def)
  next
    case 3
    with h facts have "rest_handler (length (exportedNetworks mk)) h" by (simp add: staged_def)
    then show ?thesis
      unfolding m using facts 3 by (cases h) (simp_all add: handler_ok_def rest_handler_def)
  qed
qed

lemma started_networks:
  assumes "started env f md mk m"
  shows "networks_ok (shape m)"
proof -
  note facts = assms [unfolded started_def Let_def]
  let ?nets = "if omitNetwork f then [] else map network_shape network_fixtures"
  have nets: "sh_networks (shape m) = ?nets" "sh_exported_networks (shape m) = [0..<length ?nets]" "sh_flags (shape m) = f"
    and same: "sh_knowns (shape m) = sh_knowns (shape mk)" "sh_exported_knowns (shape m) = sh_exported_knowns (shape mk)"
    using facts by (simp_all del: shape_fields) (simp_all add: shape_def)
  have "registered_paths (shape m) = (if omitKnownNetwork (sh_flags (shape m)) then {} else {known_net_profile, guest_hotspot_profile})"
    unfolding registered_paths_def same nets using facts unfolding registered_paths_def by blast
  from links_of_fixtures [OF this] have "link_ok (shape m) n" if "n \<in> set (map network_shape network_fixtures)" for n
    using that .
  moreover have "map network_id (map network_shape network_fixtures) = network_names"
    by (simp add: network_names_def network_fixtures_def)
  ultimately show ?thesis unfolding networks_ok_def nets by simp
qed

lemma inv_start:
  assumes "mock_start env omit (empty_mock f bus) = (Inr (), m)"
  shows "mock_inv env (shape m)"
proof -
  obtain md mk where s: "started env f md mk m" using start_stages [OF assms] by blast
  then have "sh_connected (shape m)" by (simp add: started_def Let_def del: shape_fields)
  then show ?thesis
    unfolding mock_inv_def
    by (intro conjI started_handlers [OF s] started_devices [OF s] started_knowns [OF s] started_networks [OF s])
qed

text \<open>The invariant holds in every state that a run reaches.\<close>

lemma inv_changes_shape:
  assumes "changes_shape env h m m'" and "mock_inv env (shape m)" and "exports m p iface = Some h"
  shows "mock_inv env (shape m')"
proof -
  have ok: "handler_ok (shape m) p iface h" using assms(2,3) by (simp add: mock_inv_def handlers_ok_def)
  show ?thesis
    using assms(1)
  proof cases
    case nothing
    with assms(2) show ?thesis by simp
  next
    case (connect i)
    with ok assms(2) have "i < length (networks m)" by (simp add: handler_ok_def mock_inv_def networks_ok_def)
    with connect assms(2) show ?thesis by (simp add: inv_mock_network_connect)
  next
    case (forget k)
    with ok have "k \<in> set (exportedKnownNetworks m)" by (simp add: handler_ok_def)
    with forget assms(2) show ?thesis by (simp add: inv_remove_known_network)
  next
    case (mode m1 i s)
    have "mock_inv env (shape m1)" using mode assms(2) by simp
    moreover have "i \<in> set (exportedDevices m1)"
    proof -
      have "exportedDevices m1 = exportedDevices m" using arg_cong [OF mode(3), of sh_exported_devices] by simp
      with ok mode(1) show ?thesis by (simp add: handler_ok_def)
    qed
    ultimately show ?thesis using mode by (simp add: inv_switch_device_mode)
  qed
qed

lemma reach_inv: "mock_reach env m \<Longrightarrow> mock_inv env (shape m)"
proof (induction rule: mock_reach.induct)
  case (start omit f bus m)
  then show ?case by (rule inv_start)
next
  case (request m sender path full args r m')
  from request_changes [OF request.hyps(2)] show ?case
    using request.IH inv_changes_shape by blast
next
  case (goroutine m g)
  then show ?case by simp
next
  case (firehose m m')
  then show ?case by (simp add: shape_firehose)
qed

subsection \<open>The interfaces of a device are those of its mode\<close>

lemma modes_start:
  assumes "mock_start env omit (empty_mock f bus) = (Inr (), m)"
  shows "modes_ok (shape m)"
proof -
  obtain md mk where s: "started env f md mk m" using start_stages [OF assms] by blast
  have "sh_flags (shape m) = f" "sh_modes (shape m) = map md_mode (devices md)" "sh_devices (shape m) = map device_shape (devices md)"
    using s by (simp_all add: started_def Let_def del: shape_fields)
  with s show ?thesis by (simp add: modes_ok_def started_def Let_def del: shape_fields)
qed

lemma modes_changes_shape:
  assumes "changes_shape env h m m'" and "mock_inv env (shape m)" and "exports m p iface = Some h" and "modes_ok (shape m)"
  shows "modes_ok (shape m')"
proof -
  have ok: "handler_ok (shape m) p iface h" using assms(2,3) by (simp add: mock_inv_def handlers_ok_def)
  show ?thesis
    using assms(1)
  proof cases
    case nothing
    with assms(4) show ?thesis by simp
  next
    case (connect i)
    with ok assms(2) have "i < length (networks m)" by (simp add: handler_ok_def mock_inv_def networks_ok_def)
    with connect assms(2,4) show ?thesis by (simp add: modes_mock_network_connect)
  next
    case (forget k)
    with ok have "k \<in> set (exportedKnownNetworks m)" by (simp add: handler_ok_def)
    with forget assms(2,4) show ?thesis by (simp add: modes_remove_known_network)
  next
    case (mode m1 i s)
    have "mock_inv env (shape m1)" using mode assms(2) by simp
    moreover have "i \<in> set (exportedDevices m1)"
    proof -
      have "exportedDevices m1 = exportedDevices m" using arg_cong [OF mode(3), of sh_exported_devices] by simp
      with ok mode(1) show ?thesis by (simp add: handler_ok_def)
    qed
    ultimately show ?thesis using mode assms(4) by (simp add: modes_switch_device_mode)
  qed
qed

lemma reach_modes: "mock_reach env m \<Longrightarrow> modes_ok (shape m)"
proof (induction rule: mock_reach.induct)
  case (start omit f bus m)
  then show ?case by (rule modes_start)
next
  case (request m sender path full args r m')
  from request_changes [OF request.hyps(2)] show ?case
    using request modes_changes_shape reach_inv by blast
next
  case (goroutine m g)
  then show ?case by simp
next
  case (firehose m m')
  then show ?case by (simp add: shape_firehose)
qed

end
