(* ===== verification/Mock_Client.thy ===== *)
theory Mock_Client
  imports Mock_Start Objects
begin

text \<open>
  The library on the mock iwd: the client's objects, their calls and their reads over \<open>mock_conn\<close>, on the
  states that a run of the mock reaches. This composes the two programs of the repository: what the
  integration tests observe through the client follows from what the handlers of the mock do.
\<close>

subsection \<open>Calls\<close>

lemma split_method_append:
  assumes "CHR ''.'' \<notin> set method"
  shows "split_method (iface @ ''.'' @ method) = (iface, method)"
proof -
  have "takeWhile (\<lambda>c. c \<noteq> CHR ''.'') (rev method @ CHR ''.'' # rev iface) = rev method"
    using assms by (subst takeWhile_append2) auto
  moreover have "dropWhile (\<lambda>c. c \<noteq> CHR ''.'') (rev method @ CHR ''.'' # rev iface) = CHR ''.'' # rev iface"
    using assms by (subst dropWhile_append2) auto
  ultimately show ?thesis by (simp add: split_method_def Let_def)
qed

lemma mock_call_at:
  assumes "CHR ''.'' \<notin> set meth" and "exports m path iface = Some h"
  shows "mock_call env me path (iface @ ''.'' @ meth) args m =
     (case handler_method env me h meth args of
        None \<Rightarrow> (Inl (me_unknown env path iface meth), m) | Some f \<Rightarrow> f m)"
  using assms split_method_append [OF assms(1), of iface] by (simp add: mock_call_def)

lemma mock_call_unexported:
  assumes "CHR ''.'' \<notin> set meth" and "exports m path iface = None"
  shows "mock_call env me path (iface @ ''.'' @ meth) args m = (Inl (me_unknown env path iface meth), m)"
  using assms split_method_append [OF assms(1), of iface] by (simp add: mock_call_def)

text \<open>The object a client's wrapper calls, and when it can be opened.\<close>

definition mock_object :: "mock_env \<Rightarrow> string \<Rightarrow> string \<Rightarrow> string list \<Rightarrow> mock introspected" where
  "mock_object env me path names =
     \<lparr>io_conn = mock_conn env me, io_bus_name = IwdService, io_path = path, io_ifaces = names\<rparr>"

lemma mock_conn_fields [simp]:
  "conn_call (mock_conn env me) bus path full args = mock_call env me path full args"
  "conn_signal (mock_conn env me) path m = m" "conn_remove_signal (mock_conn env me) path m = m"
  "conn_introspect (mock_conn env me) bus path m =
     (case exports m path IntrospectableIface of
        Some (IntrospectStub names) \<Rightarrow> (Inr names, m)
      | _ \<Rightarrow> (Inr [], m))"
  by (simp_all add: mock_conn_def)

lemma mock_introspected:
  "new_introspected_object (mock_conn env me) IwdService path m =
     (case exports m path IntrospectableIface of
        Some (IntrospectStub names) \<Rightarrow> (Inr (mock_object env me path names), m)
      | _ \<Rightarrow> (Inr (mock_object env me path []), m))"
  by (simp add: new_introspected_object_def go_bind_def go_wrap_def mock_object_def
      split: option.split mock_handler.split)

lemma mock_new_object:
  "new_object g (mock_conn env me) iface path m = (Inr c, m') \<longleftrightarrow>
     m' = m \<and> (\<exists>names. exports m path IntrospectableIface = Some (IntrospectStub names) \<and> iface \<in> set names
                  \<and> c = as_caller g (mock_object env me path names))"
  by (auto simp: new_object_def mock_introspected go_bind_def go_wrap_def introspected_close_def mock_object_def
      introspected_has_interface_def split: option.splits mock_handler.splits if_splits)

lemma mock_opened:
  assumes "new_typed_object t g (mock_conn env me) add path m0 = (Inr s, m1)"
  obtains names where "to_call s = Some (as_caller g (mock_object env me path names))"
  using assms by (auto simp: new_typed_object_def go_bind_Inr_iff mock_new_object)

lemma mock_object_calls [simp]:
  "introspected_call (mock_object env me path names) iface method args =
     go_wrap (\<lambda>r. wrap_method iface method (Foreign r)) (mock_call env me path (iface @ ''.'' @ method) args)"
  "introspected_get_all g (mock_object env me path names) iface =
     go_bind (mock_call env me path (PropertiesIface @ ''.'' @ ''GetAll'') [VStr iface]) (\<lambda>body. go_lift (store_props g body))"
  "introspected_get_property g (mock_object env me path names) iface prop =
     go_bind (mock_call env me path (PropertiesIface @ ''.'' @ ''Get'') [VStr iface, VStr prop])
       (\<lambda>body. go_lift (store_variant g body))"
  "introspected_set_property (mock_object env me path names) iface prop v =
     go_bind (mock_call env me path (PropertiesIface @ ''.'' @ ''Set'') [VStr iface, VStr prop, VVariant v]) (\<lambda>_. go_return ())"
  by (simp_all add: introspected_defs mock_object_def mock_conn_def PropertiesIface_def)

lemmas method_names = mock_call_at [where meth = "''GetAll''", simplified] mock_call_at [where meth = "''Get''", simplified]
  mock_call_at [where meth = "''Set''", simplified]

subsection \<open>Reads\<close>

lemma getter_declined_is_absent: "is_unknown_property_error getter_declined"
  by code_simp

lemma network_reports:
  assumes "decodes g" and "exports m path PropertiesIface = Some (NetworkHandler i)"
  shows "reports (as_caller g (mock_object env me path names)) IwdNetworkIface (network_prop_map (networks m ! i)) m"
  using assms getter_declined_is_absent
  by (auto simp: reports_def method_names property_method_def Let_def answer_def go_bind_def go_lift_def decodes_def
      getter_defs split: option.splits)

lemma known_network_reports:
  assumes "decodes g" and "exports m path PropertiesIface = Some (KnownNetworkHandler k)"
  shows "reports (as_caller g (mock_object env me path names)) IwdKnownNetworkIface (known_prop_map (knowns m ! k)) m"
  using assms getter_declined_is_absent
  by (auto simp: reports_def method_names property_method_def Let_def answer_def go_bind_def go_lift_def decodes_def
      getter_defs split: option.splits)

subsection \<open>Connecting to a network\<close>

lemma mock_network_connect_call:
  assumes "exports m path IwdNetworkIface = Some (NetworkHandler i)"
  shows "mock_call env me path (IwdNetworkIface @ ''.'' @ ''Connect'') [] m = answer_unit (mock_network_connect env i) m"
  using assms by (simp add: mock_call_at [where meth = "''Connect''", simplified] no_argument_def)


lemma mock_fields [simp]:
  "networks (emit_properties_changed p j props gone m) = networks m"
  "networks (emit_interfaces_added p ifaces m) = networks m"
  "exports (emit_properties_changed p j props gone m) = exports m"
  "exports (emit_interfaces_added p ifaces m) = exports m"
  "flags (emit_properties_changed p j props gone m) = flags m" "flags (emit_interfaces_added p ifaces m) = flags m"
  "mock_connected (network_update i f m) = mock_connected m" "exports (network_update i f m) = exports m"
  "flags (network_update i f m) = flags m" "length (networks (network_update i f m)) = length (networks m)"
  by (simp_all add: emit_properties_changed_def emit_interfaces_added_def emit_def network_update_def)

lemma network_at_update: "i < length (networks m) \<Longrightarrow> networks (network_update i f m) ! i = f (networks m ! i)"
  by (simp add: network_update_def)

text \<open>The passphrase asked for, and what the mock then does.\<close>

definition asks_agent :: "mock_network \<Rightarrow> bool" where
  "asks_agent n \<longleftrightarrow> mn_type n \<noteq> ''open'' \<and> mn_known n = ''''"

definition has_agent :: "mock \<Rightarrow> bool" where
  "has_agent m \<longleftrightarrow> ar_set (agents m) \<and> ar_bound (agents m)"

definition agent_answer :: "mock_env \<Rightarrow> mock_network \<Rightarrow> mock \<Rightarrow> raw_err + string" where
  "agent_answer env n m = me_ask env (ar_sender (agents m)) (ar_path (agents m)) (mn_path n) (questions m)"

definition connect_accepted :: "mock_env \<Rightarrow> mock_network \<Rightarrow> mock \<Rightarrow> bool" where
  "connect_accepted env n m \<longleftrightarrow>
     asks_agent n \<longrightarrow> has_agent m \<and> agent_answer env n m = Inr securedNetworkPassphrase"

lemmas connect_terms = asks_agent_def has_agent_def agent_answer_def connect_accepted_def

lemma networks_provision:
  assumes "mock_connected m" and "i < length (networks m)"
  shows "mn_connected (networks (provision_known_network env i m) ! i) = mn_connected (networks m ! i)"
  using assms
  by (simp add: provision_known_network_def Let_def guarded_def export_object_at_run export_def network_at_update
      split: sum.split)

lemma exports_provision:
  assumes "mock_connected m" and "i < length (networks m)" and "path \<noteq> known_network_path_for (networks m ! i)"
  shows "exports (provision_known_network env i m) path = exports m path"
  using assms
  by (simp add: provision_known_network_def Let_def guarded_def export_object_at_run export_def new_known_def
      fun_eq_iff split: sum.split)

lemma connect_refused:
  assumes "\<not> connect_accepted env (networks m ! i) m"
  shows "\<exists>reason m'. mock_network_connect env i m = (Inl (iwd_error (if has_agent m then ''.Failed'' else ''.NoAgent'') reason), m')
    \<and> networks m' = networks m \<and> exports m' = exports m \<and> knowns m' = knowns m"
proof (cases "has_agent m")
  case True
  let ?n = "networks m ! i"
  have ask: "mn_type ?n \<noteq> ''open''" "mn_known ?n = ''''" and wrong: "agent_answer env ?n m \<noteq> Inr securedNetworkPassphrase"
    using assms True by (simp_all add: connect_accepted_def asks_agent_def)
  show ?thesis
  proof (cases "agent_answer env ?n m")
    case (Inl e)
    with True ask show ?thesis
      by (auto simp: connect_terms mock_network_connect_def Let_def guarded_def go_bind_def check_passphrase_with_agent_def
          request_passphrase_def)
  next
    case (Inr p)
    with wrong have "p \<noteq> securedNetworkPassphrase" by simp
    with Inr True ask show ?thesis
      by (auto simp: connect_terms mock_network_connect_def Let_def guarded_def go_bind_def check_passphrase_with_agent_def
          request_passphrase_def invalid_passphrase_error_def)
  qed
next
  case False
  with assms show ?thesis
    by (auto simp: connect_terms mock_network_connect_def Let_def guarded_def go_bind_def check_passphrase_with_agent_def
        request_passphrase_def)
qed

lemma connect_accepted_run:
  assumes "connect_accepted env (networks m ! i) m"
  shows "\<exists>m1. mock_network_connect env i m = (Inr (), m1)"
  using assms
  by (auto simp: connect_terms mock_network_connect_def Let_def guarded_def go_bind_def check_passphrase_with_agent_def
      request_passphrase_def modify_def)

lemma provision_leaves:
  assumes "mock_connected m" and "i < length (networks m)"
  shows "flags (provision_known_network env i m) = flags m"
    and "length (networks (provision_known_network env i m)) = length (networks m)"
    and "mn_name (networks (provision_known_network env i m) ! i) = mn_name (networks m ! i)"
    and "mn_type (networks (provision_known_network env i m) ! i) = mn_type (networks m ! i)"
    and "me_path_ok env (known_network_path_for (networks m ! i)) \<Longrightarrow> mn_known (networks (provision_known_network env i m) ! i) \<noteq> ''''"
  using assms
  by (simp_all add: provision_known_network_def Let_def guarded_def export_object_at_run export_def new_known_def
      network_at_update known_network_path_for_def split: sum.split)

text \<open>What a successful \<open>Connect\<close> leaves, in a state of a run.\<close>

lemma connect_stages:
  assumes "mock_network_connect env i m = (Inr (), m')" and "i < length (networks m)"
  obtains m2 where "shape m2 = shape m" and "networks m2 ! i = (networks m ! i)\<lparr>mn_connected := True\<rparr>"
    and "m' = emit_properties_changed (mn_path (networks m ! i)) IwdNetworkIface [(''Connected'', VBool True)] []
               (if mn_type (networks m ! i) \<noteq> ''open'' then provision_known_network env i m2 else m2)"
proof -
  let ?n = "networks m ! i"
  let ?ask = "guarded (mn_type ?n \<noteq> ''open'' \<and> mn_known ?n = '''') (check_passphrase_with_agent env (mn_path ?n))"
  obtain r m1 where ask: "?ask m = (r, m1)" by (cases "?ask m")
  have same: "shape m1 = shape m" "networks m1 = networks m"
    using ask by (auto simp: guarded_def check_passphrase_with_agent_def request_passphrase_def shape_def
        split: if_splits sum.splits)
  let ?m2 = "network_update i (\<lambda>n. n\<lparr>mn_connected := True\<rparr>) m1"
  have "m' = emit_properties_changed (mn_path ?n) IwdNetworkIface [(''Connected'', VBool True)] []
      (if mn_type ?n \<noteq> ''open'' then provision_known_network env i ?m2 else ?m2)"
    using assms(1) ask
    by (cases r) (auto simp: mock_network_connect_def Let_def go_bind_def modify_def guarded_def)
  moreover have "shape ?m2 = shape m1" by (simp add: shape_network_update network_shape_def)
  then have "shape ?m2 = shape m" by (simp only: same)
  moreover have "networks ?m2 ! i = ?n\<lparr>mn_connected := True\<rparr>" using same(2) assms(2) by (simp add: network_at_update)
  ultimately show ?thesis using that by blast
qed

lemma network_profile:
  assumes "mock_inv env (shape m)" and "i < length (networks m)"
  shows "known_network_path_for (networks m ! i) \<in> set profile_paths"
proof -
  have "map network_id (sh_networks (shape m)) = network_names"
    using assms by (cases "networks m") (auto simp: mock_inv_def networks_ok_def)
  from arg_cong [OF this, of set] have "(mn_name (networks m ! i), mn_type (networks m ! i)) \<in> set network_names"
    using assms(2) by (force simp: image_image)
  then show ?thesis by (simp add: profile_path_known profile_paths_def)
qed

lemma connected_state:
  assumes "mock_inv env (shape m)" and "i < length (networks m)" and "mock_network_connect env i m = (Inr (), m')"
  shows "mn_connected (networks m' ! i)"
    and "path \<notin> set profile_paths \<Longrightarrow> exports m' path = exports m path"
    and "mn_type (networks m ! i) \<noteq> ''open'' \<Longrightarrow> me_path_ok env (known_network_path_for (networks m ! i)) \<Longrightarrow>
      mn_known (networks m' ! i) \<noteq> '''' \<and> known_network_path_for (networks m' ! i) = known_network_path_for (networks m ! i)
      \<and> flags m' = flags m \<and> i < length (networks m')"
proof -
  obtain m2 where shape: "shape m2 = shape m" and at_i: "networks m2 ! i = (networks m ! i)\<lparr>mn_connected := True\<rparr>"
    and m': "m' = emit_properties_changed (mn_path (networks m ! i)) IwdNetworkIface [(''Connected'', VBool True)] []
               (if mn_type (networks m ! i) \<noteq> ''open'' then provision_known_network env i m2 else m2)"
    using connect_stages [OF assms(3,2)] by blast
  have conn: "mock_connected m2" using arg_cong [OF shape, of sh_connected] assms(1) by (simp add: mock_inv_def)
  have ex: "exports m2 = exports m" using arg_cong [OF shape, of sh_exports] by simp
  have flags: "flags m2 = flags m" using arg_cong [OF shape, of sh_flags] by simp
  have len: "i < length (networks m2)"
    using arg_cong [OF shape, of "\<lambda>s. length (sh_networks s)"] assms(2) by simp
  have same_path: "known_network_path_for (networks m2 ! i) = known_network_path_for (networks m ! i)"
    by (simp add: at_i known_network_path_for_def)
  show "mn_connected (networks m' ! i)" using networks_provision [OF conn len] by (simp add: m' at_i)
  show "exports m' path = exports m path" if "path \<notin> set profile_paths"
  proof -
    have "path \<noteq> known_network_path_for (networks m2 ! i)" using network_profile [OF assms(1,2)] that same_path by metis
    then show ?thesis using exports_provision [OF conn len] ex by (simp add: m')
  qed
  assume "mn_type (networks m ! i) \<noteq> ''open''" and "me_path_ok env (known_network_path_for (networks m ! i))"
  then show "mn_known (networks m' ! i) \<noteq> '''' \<and> known_network_path_for (networks m' ! i) = known_network_path_for (networks m ! i)
      \<and> flags m' = flags m \<and> i < length (networks m')"
    using provision_leaves [OF conn len, of env] len same_path flags
    by (simp add: m' known_network_path_for_def at_i)
qed


lemma linked_is_exported:
  assumes "mock_inv env (shape m)" and "i < length (networks m)" and "mn_known (networks m ! i) \<noteq> ''''"
    and "\<not> omitKnownNetwork (flags m)"
  shows "\<exists>k. exports m (known_network_path_for (networks m ! i)) IwdKnownNetworkIface = Some (KnownNetworkHandler k)"
proof -
  let ?n = "networks m ! i"
  have "link_ok (shape m) (network_shape ?n)" using assms(1,2) by (simp add: mock_inv_def networks_ok_def)
  then have "profile_path (mn_name ?n, mn_type ?n) \<in> registered_paths (shape m)"
    using assms(3,4) by (auto simp: link_ok_def network_shape_def)
  then obtain k where k: "k \<in> set (exportedKnownNetworks m)" and p: "profile_path (mn_name ?n, mn_type ?n) = sh_knowns (shape m) ! k"
    by (auto simp: registered_paths_def)
  have "known_answers (exports m) k (sh_knowns (shape m) ! k)"
    using assms(1) k by (auto simp: mock_inv_def knowns_ok_def)
  then show ?thesis by (auto simp: known_answers_def profile_path_known p)
qed


lemma client_connect_iff:
  assumes "iwd_new_network g (mock_conn env me) add path m0 = (Inr n, m1)"
    and "exports m path IwdNetworkIface = Some (NetworkHandler i)"
  shows "core_network_connect (network_on g n) m = (Inr (), m') \<longleftrightarrow> mock_network_connect env i m = (Inr (), m')"
  using call_ignoring_reply_Inr_iff [OF assms(1) [unfolded iwd_new_network_def], of "''Connect''" "[]" m m']
    mock_network_connect_call [OF assms(2), of env me]
  by (auto simp: core_network_connect_def new_core_network_def iwd_network_raw_def iwd_network_connect_def go_simps
      go_wrap_Inr_iff network_iwd_def answer_unit_def answer_def go_bind_Inr_iff)

lemma client_connect_refused:
  assumes "iwd_new_network g (mock_conn env me) add path m0 = (Inr n, m1)"
    and "exports m path IwdNetworkIface = Some (NetworkHandler i)"
    and "core_network_connect (network_on g n) m = (Inl e, m')"
  shows "\<not> connect_accepted env (networks m ! i) m"
    and "networks m' = networks m \<and> exports m' = exports m \<and> knowns m' = knowns m"
    and "errors_is (wrap_public_error pop e) (IwdS x) \<longleftrightarrow> x = (if has_agent m then ErrFailed else ErrNoAgent)"
proof -
  show no: "\<not> connect_accepted env (networks m ! i) m"
    using connect_accepted_run [of env m i] client_connect_iff [OF assms(1,2)] assms(3) by auto
  obtain reason m2 where run: "mock_network_connect env i m = (Inl (iwd_error (if has_agent m then ''.Failed'' else ''.NoAgent'') reason), m2)"
    and same: "networks m2 = networks m \<and> exports m2 = exports m \<and> knowns m2 = knowns m"
    using connect_refused [OF no] by blast
  have call: "conn_call (mock_conn env me) IwdService path (IwdNetworkIface @ ''.'' @ ''Connect'') [] m =
      (Inl (iwd_error (if has_agent m then ''.Failed'' else ''.NoAgent'') reason), m2)"
    using mock_network_connect_call [OF assms(2), of env me] run by (simp add: answer_unit_def answer_def go_bind_def)
  from network_connect_fails [OF assms(1,3), of pop] obtain r where
    r: "conn_call (mock_conn env me) IwdService path (IwdNetworkIface @ ''.'' @ ''Connect'') [] m = (Inl r, m')"
    and matches: "\<And>x. errors_is (wrap_public_error pop e) x \<longleftrightarrow> x \<in> {ErrSpiderw, ErrUnavailable, ErrCore, DBusS ErrDBusMethod}
              \<or> (\<exists>i. x = IwdS i \<and> iwd_error_sentinel (Foreign r) = Some i)"
    unfolding call_outcome_def by blast
  from r call have "m' = m2" and rr: "r = iwd_error (if has_agent m then ''.Failed'' else ''.NoAgent'') reason" by simp_all
  with same show "networks m' = networks m \<and> exports m' = exports m \<and> knowns m' = knowns m" by simp
  have "iwd_error_sentinel (Foreign r) = Some (if has_agent m then ErrFailed else ErrNoAgent)"
    by (simp add: rr iwd_error_def iwd_error_sentinel_Foreign iwd_error_sentinels_def)
  with matches show "errors_is (wrap_public_error pop e) (IwdS x) \<longleftrightarrow> x = (if has_agent m then ErrFailed else ErrNoAgent)"
    by auto
qed

lemma reach_networks:
  assumes "mock_reach env m" and "exports m path iface = Some (NetworkHandler i)"
  shows "i < length (networks m)" and "path \<notin> set profile_paths"
  using reach_inv [OF assms(1)] assms(2) by (auto simp: mock_inv_def handlers_ok_def handler_ok_def networks_ok_def dest!: spec)


lemma mock_open_object:
  assumes "exports m path IntrospectableIface = Some (IntrospectStub names)" and "it_iface t \<in> set names"
  shows "new_typed_object t g (mock_conn env me) add path m =
    (Inr \<lparr>to_call = Some (as_caller g (mock_object env me path names)), to_signals = as_signals add path\<rparr>, m)"
  using assms mock_new_object [of g env me "it_iface t" path m "as_caller g (mock_object env me path names)" m]
  by (simp add: new_typed_object_def go_bind_def)

lemma client_reads_connected:
  assumes "decodes g" and "iwd_new_network g (mock_conn env me) add path m0 = (Inr n, m1)"
    and "exports m path PropertiesIface = Some (NetworkHandler i)"
  shows "core_network_connected (network_on g n) m = (Inr (mn_connected (networks m ! i)), m)"
proof -
  from mock_opened [OF assms(2) [unfolded iwd_new_network_def]] obtain names
    where n: "to_call n = Some (as_caller g (mock_object env me path names))" .
  have "reports (as_caller g (mock_object env me path names)) (it_iface network_iwd) (network_prop_map (networks m ! i)) m"
    using network_reports [OF assms(1,3)] by (simp add: network_iwd_def)
  then show ?thesis
    by (simp add: reads_report(1) [OF _ n] core_network_connected_def new_core_network_def core_iffs iwd_network_raw_def
        iwd_network_get_connected_def required_field_Inr_iff expect_bool_Inr_iff network_prop_map_def)
qed

lemma reach_connected:
  assumes "mock_reach env m" and "exports m path IwdNetworkIface = Some (NetworkHandler i)"
    and "mock_network_connect env i m = (Inr (), m')"
  shows "mock_reach env m'"
proof -
  have "mock_call env me path (IwdNetworkIface @ ''.'' @ ''Connect'') [] m = (Inr [], m')" for me
    using mock_network_connect_call [OF assms(2)] assms(3) by (simp add: answer_unit_def answer_def go_bind_Inr)
  with assms(1) show ?thesis by (rule mock_reach.request)
qed

text \<open>
  C7: Connecting to a network through the library, on any state that a run of the mock iwd reaches whose handlers are
  served one after another. The public
  \<open>Network.Connect\<close> succeeds exactly when no passphrase is needed (the network is open or already known) or the
  registered agent answers with the right one. A failure leaves the networks, the known networks and the exports as
  they were and matches \<open>ErrNoAgent\<close> exactly when no agent is registered, \<open>ErrFailed\<close> otherwise. After a success the
  library reads the network as connected, and the known network of a secured one is exported, unless the mock was
  started without known networks or its path is none that the bus takes.
\<close>

theorem client_connects_on_the_mock:
  assumes "mock_reach env m" and "decodes g"
    and "iwd_new_network g (mock_conn env me) add path m0 = (Inr n, m1)"
    and "exports m path IwdNetworkIface = Some (NetworkHandler i)"
    and "exports m path PropertiesIface = Some (NetworkHandler i)"
    and "core_network_connect (network_on g n) m = (r, m')"
  shows "(r = Inr () \<longleftrightarrow> connect_accepted env (networks m ! i) m)
    \<and> (\<forall>e. r = Inl e \<longrightarrow> networks m' = networks m \<and> exports m' = exports m \<and> knowns m' = knowns m
         \<and> (\<forall>x. errors_is (wrap_public_error pop e) (IwdS x) \<longleftrightarrow> x = (if has_agent m then ErrFailed else ErrNoAgent)))
    \<and> (r = Inr () \<longrightarrow> core_network_connected (network_on g n) m' = (Inr True, m')
         \<and> (mn_type (networks m ! i) \<noteq> ''open'' \<longrightarrow> me_path_ok env (known_network_path_for (networks m ! i))
              \<longrightarrow> \<not> omitKnownNetwork (flags m)
              \<longrightarrow> (\<exists>k. exports m' (known_network_path_for (networks m ! i)) IwdKnownNetworkIface = Some (KnownNetworkHandler k))))"
proof (intro conjI impI allI)
  note reach = reach_networks [OF assms(1,4)] and inv = reach_inv [OF assms(1)]
  show "r = Inr () \<longleftrightarrow> connect_accepted env (networks m ! i) m"
  proof
    assume "r = Inr ()"
    then have "core_network_connect (network_on g n) m = (Inr (), m')" using assms(6) by simp
    then have "mock_network_connect env i m = (Inr (), m')" unfolding client_connect_iff [OF assms(3,4)] .
    then show "connect_accepted env (networks m ! i) m" using connect_refused [of env m i] by auto
  next
    assume "connect_accepted env (networks m ! i) m"
    then show "r = Inr ()" using client_connect_refused(1) [OF assms(3,4)] assms(6) by (cases r) auto
  qed
  show "networks m' = networks m" "exports m' = exports m" "knowns m' = knowns m"
    "errors_is (wrap_public_error pop e) (IwdS x) \<longleftrightarrow> x = (if has_agent m then ErrFailed else ErrNoAgent)"
    if "r = Inl e" for e x
    using client_connect_refused(2) [OF assms(3,4)] client_connect_refused(3) [OF assms(3,4), of e m' pop x] assms(6) that
    by simp_all
  assume "r = Inr ()"
  then have "core_network_connect (network_on g n) m = (Inr (), m')" using assms(6) by simp
  then have run: "mock_network_connect env i m = (Inr (), m')" unfolding client_connect_iff [OF assms(3,4)] .
  note after = connected_state [OF inv reach(1) run]
  have "exports m' path PropertiesIface = Some (NetworkHandler i)" using after(2) [OF reach(2)] assms(5) by simp
  from client_reads_connected [OF assms(2,3) this] after(1)
  show "core_network_connected (network_on g n) m' = (Inr True, m')" by simp
  assume "mn_type (networks m ! i) \<noteq> ''open''" and "me_path_ok env (known_network_path_for (networks m ! i))"
    and "\<not> omitKnownNetwork (flags m)"
  with after(3) reach_inv [OF reach_connected [OF assms(1,4) run]]
  show "\<exists>k. exports m' (known_network_path_for (networks m ! i)) IwdKnownNetworkIface = Some (KnownNetworkHandler k)"
    using linked_is_exported by metis
qed


subsection \<open>A mock that has started\<close>

definition plain_flags :: mock_flags where
  "plain_flags =
     \<lparr>omitDaemon = False, omitDaemonVersion = False, omitDaemonStateDir = False,
      omitDaemonNetConf = False, daemonBadVersion = False, daemonBadStateDir = False,
      daemonBadNetConf = False, daemonExtraField = False, daemonBadPayload = False,
      daemonFailCalls = False, adapterBadModes = False, omitDevice = False, omitBSS = False,
      omitNetwork = False, omitKnownNetwork = False, omitAgent = False, omitStation = False,
      omitWSC = False, omitAccessPoint = False\<rparr>"

definition plain_env :: mock_env where
  "plain_env =
     \<lparr>me_path_ok = (\<lambda>_. True), me_unknown = (\<lambda>_ _ _. OtherErr ''unknown''), me_invalid_args = OtherErr ''invalid'',
      me_ask = (\<lambda>_ _ _ _. Inr securedNetworkPassphrase)\<rparr>"

definition plain_mock :: mock where
  "plain_mock = snd (mock_start plain_env False (empty_mock plain_flags True))"

lemma plain_env_simps [simp]: "me_path_ok plain_env p"
  by (simp add: plain_env_def)

definition network_flags :: mock_flags where
  "network_flags = plain_flags\<lparr>omitDaemon := True, omitDevice := True, omitBSS := True, omitKnownNetwork := True\<rparr>"

definition network_mock :: mock where
  "network_mock = snd (mock_start plain_env False (empty_mock network_flags True))"

lemma plain_export:
  "export plain_env h p j m = (Inr (), set_export p j h m)"
  "export_object_at plain_env h' p j m = (Inr (), set_export p IntrospectableIface (Some (IntrospectStub (plain_interfaces j)))
      (set_export p PropertiesIface (Some h') (set_export p j (Some h') m)))"
  by (simp_all add: export_def export_object_at_run)

lemmas start_defs =
  mock_start_def export_daemon_def export_adapter_def export_device_def export_bss_def export_network_def
  export_known_network_def export_object_manager_def export_one_device_def export_device_introspection_def
  Let_def guarded_def modify_def go_bind_def plain_export plain_flags_def empty_mock_def

lemma network_mock_run: "mock_start plain_env False (empty_mock network_flags True) = (Inr (), network_mock)"
proof -
  have "fst (mock_start plain_env False (empty_mock network_flags True)) = Inr ()"
    by (simp add: start_defs network_flags_def adapter_fixtures_def network_fixtures_def)
  then show ?thesis by (metis network_mock_def prod.collapse)
qed

lemma set_export_agents [simp]: "agents (set_export p j h m) = agents m"
  by (simp add: set_export_def)

lemma network_mock_fields:
  "networks network_mock = network_fixtures" "\<not> ar_set (agents network_mock)"
  by (simp_all add: network_mock_def start_defs network_flags_def adapter_fixtures_def network_fixtures_def)

lemma network_mock_exports:
  "exports network_mock secured_net_path IwdNetworkIface = Some (NetworkHandler 2)"
  "exports network_mock secured_net_path PropertiesIface = Some (NetworkHandler 2)"
  "exports network_mock secured_net_path IntrospectableIface = Some (IntrospectStub (plain_interfaces IwdNetworkIface))"
  by (simp_all add: network_mock_def start_defs network_flags_def adapter_fixtures_def network_fixtures_def path_defs)


theorem client_connects_on_the_mock_witness:
  "\<exists>(n :: (nat, mock) iwd_network) e m'.
     core_network_connect (network_on (mirror_godbus (\<lambda>_. True)) n) network_mock = (Inl e, m')
     \<and> networks m' = networks network_mock
     \<and> errors_is (wrap_public_error ''Network.Connect'' e) (IwdS ErrNoAgent)"
proof -
  let ?g = "mirror_godbus (\<lambda>_. True)" and ?conn = "mock_conn plain_env '':1.7''"
  have "it_iface network_iwd \<in> set (plain_interfaces IwdNetworkIface)" by (simp add: network_iwd_def plain_interfaces_def)
  from mock_open_object [where t = network_iwd, OF network_mock_exports(3) this] obtain n :: "(nat, mock) iwd_network"
    where n: "iwd_new_network ?g ?conn None secured_net_path network_mock = (Inr n, network_mock)"
    unfolding iwd_new_network_def by blast
  obtain r m' where run: "core_network_connect (network_on ?g n) network_mock = (r, m')"
    by (cases "core_network_connect (network_on ?g n) network_mock")
  note outcome = client_connects_on_the_mock [OF mock_reach.start [OF network_mock_run] mirror_decodes n
      network_mock_exports(1,2) run, where pop = "''Network.Connect''"]
  have "\<not> connect_accepted plain_env (networks network_mock ! 2) network_mock"
    by (simp add: connect_terms network_mock_fields network_fixtures_def)
  with outcome [THEN conjunct1] obtain e where e: "r = Inl e" by (cases r) auto
  have "\<not> has_agent network_mock" by (simp add: has_agent_def network_mock_fields)
  with outcome [THEN conjunct2, THEN conjunct1, rule_format, OF e] run e show ?thesis by auto
qed


subsection \<open>The mode of a device\<close>

lemma reach_device:
  assumes "mock_reach env m" and "i \<in> set (exportedDevices m)"
  shows "i < length (devices m)" and "me_path_ok env (md_path (devices m ! i))" and "mock_connected m"
    and "device_answers (flags m) (exports m) i (device_shape (devices m ! i))"
  using reach_inv [OF assms(1)] assms(2) by (auto simp: mock_inv_def devices_ok_def)

lemma client_opens:
  "(\<exists>s. new_typed_object t g (mock_conn env me) add path m = (Inr s, m)) \<longleftrightarrow>
     (\<exists>names. exports m path IntrospectableIface = Some (IntrospectStub names) \<and> it_iface t \<in> set names)"
  using mock_open_object [of m path _ t g env me add]
  by (auto simp: new_typed_object_def go_bind_Inr_iff mock_new_object)

lemma client_opens_station:
  "(\<exists>s. iwd_new_station g (mock_conn env me) add path m = (Inr s, m)) \<longleftrightarrow>
     (\<exists>names. exports m path IntrospectableIface = Some (IntrospectStub names) \<and> IwdStationIface \<in> set names)"
  by (auto simp: iwd_new_station_def go_bind_Inr_iff mock_new_object)

lemma device_interfaces_members:
  "IwdStationIface \<in> set (device_interfaces st wsc ap) \<longleftrightarrow> st"
  "IwdAccessPointIface \<in> set (device_interfaces st wsc ap) \<longleftrightarrow> ap"
  "IwdDeviceIface \<in> set (device_interfaces st wsc ap)"
  by (auto simp: device_interfaces_def)

lemma device_objects:
  assumes "mock_reach env m" and "i \<in> set (exportedDevices m)"
  shows "let d = devices m ! i; p = md_path d in
     ((\<exists>s. iwd_new_station g (mock_conn env me) add p m = (Inr s, m)) \<longleftrightarrow> HasStation d)
   \<and> ((\<exists>x. iwd_new_access_point g (mock_conn env me) add p m = (Inr x, m)) \<longleftrightarrow> HasAccessPoint d)
   \<and> (\<exists>v. iwd_new_device g (mock_conn env me) add p m = (Inr v, m))
   \<and> exports m p IwdStationIface = (if HasStation d then Some (DeviceHandler i) else None)
   \<and> exports m p IwdAccessPointIface = (if HasAccessPoint d then Some (AccessPointHandler i) else None)
   \<and> \<not> (HasStation d \<and> HasAccessPoint d)"
  using reach_device(4) [OF assms]
  by (simp add: Let_def iwd_new_access_point_def iwd_new_device_def client_opens client_opens_station device_answers_def
      device_shape_def device_interfaces_members access_point_iwd_def device_iwd_def)

lemma reach_mode:
  assumes "mock_reach env m" and "i \<in> set (exportedDevices m)"
  shows "HasStation (devices m ! i) \<longleftrightarrow> md_mode (devices m ! i) = ''station'' \<and> station_exported (flags m)"
    and "HasAccessPoint (devices m ! i) \<longleftrightarrow> md_mode (devices m ! i) = ''ap'' \<and> access_point_exported (flags m)"
proof -
  have "mode_says (flags m) (md_mode (devices m ! i)) (device_shape (devices m ! i))"
    using list_all2_nthD [of "mode_says (flags m)" "map md_mode (devices m)" "map device_shape (devices m)" i]
      reach_modes [OF assms(1)] reach_device(1) [OF assms] by (simp add: modes_ok_def)
  then show "HasStation (devices m ! i) \<longleftrightarrow> md_mode (devices m ! i) = ''station'' \<and> station_exported (flags m)"
    and "HasAccessPoint (devices m ! i) \<longleftrightarrow> md_mode (devices m ! i) = ''ap'' \<and> access_point_exported (flags m)"
    by (simp_all add: mode_says_def device_shape_def)
qed

text \<open>
  C11: In every state that a run of the mock iwd reaches whose handlers are served one after another, whatever modes were
  set and whatever else was called: the library opens a station at a device's path exactly when the device's mode is
  \<open>station\<close>, an access point exactly when it is \<open>ap\<close> (unless the mock was told to leave the interface out), and the
  device itself always; the calls of the station's and the access point's methods reach a handler exactly then.
\<close>

theorem mock_objects_follow_the_mode:
  assumes "mock_reach env m" and "i \<in> set (exportedDevices m)"
  shows "let d = devices m ! i; p = md_path d in
     ((\<exists>s. iwd_new_station g (mock_conn env me) add p m = (Inr s, m)) \<longleftrightarrow>
        md_mode d = ''station'' \<and> \<not> omitStation (flags m))
   \<and> ((\<exists>x. iwd_new_access_point g (mock_conn env me) add p m = (Inr x, m)) \<longleftrightarrow>
        md_mode d = ''ap'' \<and> \<not> omitAccessPoint (flags m))
   \<and> (\<exists>v. iwd_new_device g (mock_conn env me) add p m = (Inr v, m))
   \<and> exports m p IwdStationIface =
       (if md_mode d = ''station'' \<and> \<not> omitStation (flags m) then Some (DeviceHandler i) else None)
   \<and> exports m p IwdAccessPointIface =
       (if md_mode d = ''ap'' \<and> \<not> omitAccessPoint (flags m) then Some (AccessPointHandler i) else None)"
  using device_objects [OF assms, of g me add]
  unfolding Let_def reach_mode [OF assms] station_exported_def access_point_exported_def by blast

lemma devices_switch:
  assumes "mock_connected m" and "me_path_ok env (md_path (devices m ! i))"
  shows "devices (switch_device_mode env i mode m) = (devices m)[i := mode_interfaces (flags m) mode (devices m ! i)]"
proof -
  let ?new = "mode_interfaces (flags m) mode (devices m ! i)"
  have swap: "devices (swap_exports env i old new m') = devices m'" if "me_path_ok env (md_path new)" for old new m'
    using that by (simp add: swap_exports_def removed_interfaces_def Let_def ignoring_export export_device_introspection_def)
  have emit: "devices (emit_interfaces_added p ifaces m') = devices m'" "devices (emit_interfaces_removed p names m') = devices m'"
    for p ifaces names m'
    by (simp_all add: emit_interfaces_added_def emit_interfaces_removed_def emit_def)
  show ?thesis
  proof (cases "HasStation (devices m ! i) = HasStation ?new \<and> HasAccessPoint (devices m ! i) = HasAccessPoint ?new")
    case True
    then have "?new = devices m ! i" by (auto simp: mode_interfaces_def split: if_splits)
    with True show ?thesis by (simp add: switch_device_mode_def Let_def device_update_def)
  next
    case False
    with assms show ?thesis by (auto simp: switch_device_mode_def Let_def swap emit device_update_def)
  qed
qed


lemma device_handlers:
  assumes "mock_reach env m" and "i \<in> set (exportedDevices m)"
  shows "exports m (md_path (devices m ! i)) PropertiesIface = Some (DeviceHandler i)"
  using reach_device(4) [OF assms] by (simp add: device_answers_def device_shape_def)

lemma set_mode_call:
  assumes "exports m path PropertiesIface = Some (DeviceHandler i)"
  shows "mock_call env me path (PropertiesIface @ ''.'' @ ''Set'') [VStr IwdDeviceIface, VStr ''Mode'', VVariant (VStr mode)] m =
    (Inr [], switch_device_mode env i mode (emit_properties_changed (md_path (devices m ! i)) IwdDeviceIface [(''Mode'', VStr mode)] []
       (device_update i (\<lambda>d. d\<lparr>md_mode := mode\<rparr>) m)))"
  using assms
  by (simp add: method_names device_method_def property_method_def Let_def answer_unit_def answer_def device_set_def go_bind_def)

lemma exported_switch:
  assumes "i < length (devices m)" and "mock_connected m" and "me_path_ok env (md_path (devices m ! i))"
  shows "exportedDevices (switch_device_mode env i mode m) = exportedDevices m"
proof -
  have "sh_exported_devices (shape (switch_device_mode env i mode m)) = exportedDevices m"
    unfolding shape_switch_device_mode [OF assms] Let_def by simp
  then show ?thesis by simp
qed

lemma client_sets_mode:
  assumes "iwd_new_device g (mock_conn env me) add path m0 = (Inr d, m1)"
    and "exports m path PropertiesIface = Some (DeviceHandler i)"
  shows "core_device_set_mode mode (device_on g d) m = (Inr (), m') \<longleftrightarrow> valid_mode mode \<and>
    m' = switch_device_mode env i mode (emit_properties_changed (md_path (devices m ! i)) IwdDeviceIface [(''Mode'', VStr mode)] []
       (device_update i (\<lambda>d. d\<lparr>md_mode := mode\<rparr>) m))"
proof -
  from mock_opened [OF assms(1) [unfolded iwd_new_device_def]] obtain names
    where d: "to_call d = Some (as_caller g (mock_object env me path names))" .
  show ?thesis
    by (auto simp: device_set_mode_iff [OF d] set_property_def d go_wrap_Inr_iff go_bind_Inr_iff device_iwd_def
        as_caller_def set_mode_call [OF assms(2), simplified])
qed

lemma client_reads_mode:
  assumes "decodes g" and "iwd_new_device g (mock_conn env me) add path m0 = (Inr d, m1)"
    and "exports m path PropertiesIface = Some (DeviceHandler i)" and "valid_mode (md_mode (devices m ! i))"
  shows "core_device_mode (device_on g d) m = (Inr (md_mode (devices m ! i)), m)"
proof -
  from mock_opened [OF assms(2) [unfolded iwd_new_device_def]] obtain names
    where d: "to_call d = Some (as_caller g (mock_object env me path names))" .
  have "read_property (as_caller g (mock_object env me path names)) IwdDeviceIface ''Mode'' m =
      (Inr (VStr (md_mode (devices m ! i))), m)"
    using assms(1,3)
    by (simp add: read_property_def go_wrap_Inr method_names device_method_def property_method_def Let_def answer_def
        go_bind_def go_lift_def getter_defs device_prop_map_def decodes_def)
  then show ?thesis
    using assms(4)
    by (simp add: core_device_mode_def new_core_device_def core_iffs iwd_device_raw_def iwd_device_get_mode_def
        get_property_def d go_bind_Inr_iff device_iwd_def parse_device_mode_def iwd_parse_mode_def parse_mode_def
        validate_mode_Inr_iff)
qed

text \<open>
  C12: Setting a device's mode through the library, on any state that a run of the mock iwd reaches whose handlers are
  served one after another: \<open>SetMode\<close>
  succeeds for every mode that iwd knows and for no other text; the mode is then read back, and what the library can
  open at the device's path has changed with it: a station in the mode \<open>station\<close> alone, an access point in the mode
  \<open>ap\<close> alone, unless the mock was told to leave the interface out. The other devices are as they were.
\<close>

theorem client_switches_modes_on_the_mock:
  assumes "mock_reach env m" and "decodes g" and "i \<in> set (exportedDevices m)"
    and "iwd_new_device g (mock_conn env me) add (md_path (devices m ! i)) m0 = (Inr d, m1)"
  shows "((\<exists>m'. core_device_set_mode mode (device_on g d) m = (Inr (), m')) \<longleftrightarrow> valid_mode mode)
   \<and> (\<forall>m'. core_device_set_mode mode (device_on g d) m = (Inr (), m') \<longrightarrow>
        core_device_mode (device_on g d) m' = (Inr mode, m')
      \<and> ((\<exists>s. iwd_new_station g (mock_conn env me) add (md_path (devices m ! i)) m' = (Inr s, m')) \<longleftrightarrow>
           mode = ''station'' \<and> station_exported (flags m))
      \<and> ((\<exists>x. iwd_new_access_point g (mock_conn env me) add (md_path (devices m ! i)) m' = (Inr x, m')) \<longleftrightarrow>
           mode = ''ap'' \<and> access_point_exported (flags m))
      \<and> (\<forall>j. j \<noteq> i \<longrightarrow> devices m' ! j = devices m ! j))"
proof -
  let ?path = "md_path (devices m ! i)"
  let ?m1 = "emit_properties_changed ?path IwdDeviceIface [(''Mode'', VStr mode)] [] (device_update i (\<lambda>d. d\<lparr>md_mode := mode\<rparr>) m)"
  let ?m' = "switch_device_mode env i mode ?m1"
  note dev = reach_device [OF assms(1,3)] and ex = device_handlers [OF assms(1,3)]
  note set = client_sets_mode [OF assms(4) ex]
  have reach: "mock_reach env ?m'" by (rule mock_reach.request [OF assms(1) set_mode_call [OF ex, where me = me]])
  have m1: "devices ?m1 = (devices m)[i := (devices m ! i)\<lparr>md_mode := mode\<rparr>]" "flags ?m1 = flags m"
    "mock_connected ?m1 = mock_connected m"
    "exportedDevices ?m1 = exportedDevices m"
    by (simp_all add: emit_properties_changed_def emit_def device_update_def)
  have devices: "devices ?m' = (devices m)[i := mode_interfaces (flags m) mode ((devices m ! i)\<lparr>md_mode := mode\<rparr>)]"
    using dev by (subst devices_switch) (simp_all only: m1 nth_list_update_eq length_list_update list_update_overwrite, simp_all)
  let ?d = "mode_interfaces (flags m) mode ((devices m ! i)\<lparr>md_mode := mode\<rparr>)"
  have at_i: "devices ?m' ! i = ?d" using dev(1) by (simp add: devices)
  have d: "md_path ?d = ?path" "md_mode ?d = mode" "HasStation ?d \<longleftrightarrow> mode = ''station'' \<and> station_exported (flags m)"
    "HasAccessPoint ?d \<longleftrightarrow> mode = ''ap'' \<and> access_point_exported (flags m)"
    by (simp_all add: mode_interfaces_def)
  have i: "i \<in> set (exportedDevices ?m')"
    using dev assms(3) by (subst exported_switch) (simp_all only: m1 nth_list_update_eq length_list_update, simp_all)
  note after = device_objects [OF reach i, where g = g and me = me and add = add, unfolded at_i Let_def d]
  show ?thesis
  proof (intro conjI allI impI)
    show "(\<exists>m'. core_device_set_mode mode (device_on g d) m = (Inr (), m')) \<longleftrightarrow> valid_mode mode" by (simp add: set)
  next
    fix m' j
    assume "core_device_set_mode mode (device_on g d) m = (Inr (), m')"
    then have valid: "valid_mode mode" and m': "m' = ?m'" by (simp_all add: set)
    have "exports ?m' ?path PropertiesIface = Some (DeviceHandler i)"
      using device_handlers [OF reach i] by (simp only: at_i d)
    from client_reads_mode [OF assms(2,4) this] valid
    show "core_device_mode (device_on g d) m' = (Inr mode, m')" by (simp only: m' at_i d)
    show "(\<exists>s. iwd_new_station g (mock_conn env me) add ?path m' = (Inr s, m')) \<longleftrightarrow> mode = ''station'' \<and> station_exported (flags m)"
      unfolding m' by (rule after [THEN conjunct1])
    show "(\<exists>x. iwd_new_access_point g (mock_conn env me) add ?path m' = (Inr x, m')) \<longleftrightarrow> mode = ''ap'' \<and> access_point_exported (flags m)"
      unfolding m' by (rule after [THEN conjunct2, THEN conjunct1])
    show "devices m' ! j = devices m ! j" if "j \<noteq> i" using that by (simp only: m' devices nth_list_update_neq not_sym)
  qed
qed


definition device_flags :: mock_flags where
  "device_flags = plain_flags\<lparr>omitDaemon := True, omitNetwork := True, omitBSS := True, omitKnownNetwork := True\<rparr>"

definition device_mock :: mock where
  "device_mock = snd (mock_start plain_env False (empty_mock device_flags True))"

lemma device_mock_start:
  "\<exists>m. mock_start plain_env False (empty_mock device_flags True) = (Inr (), m)
     \<and> devices m = device_fixtures device_flags \<and> exportedDevices m = [0, 1] \<and> flags m = device_flags"
  by (simp add: start_defs device_flags_def adapter_fixtures_def device_fixtures_def)

lemma device_mock_run: "mock_start plain_env False (empty_mock device_flags True) = (Inr (), device_mock)"
  and device_mock_fields:
    "devices device_mock = device_fixtures device_flags" "exportedDevices device_mock = [0, 1]" "flags device_mock = device_flags"
  using device_mock_start unfolding device_mock_def by auto

lemmas device_mock_reach = mock_reach.start [OF device_mock_run]

theorem mock_objects_follow_the_mode_witness:
  "\<exists>s :: (nat, mock) iwd_station. iwd_new_station (mirror_godbus (\<lambda>_. True)) (mock_conn plain_env '':1.7'') None devicePath device_mock
     = (Inr s, device_mock)"
  using mock_objects_follow_the_mode [OF device_mock_reach, where i = 0 and g = "mirror_godbus (\<lambda>_. True)"
      and me = "'':1.7''" and add = None, unfolded Let_def, THEN conjunct1]
  by (simp add: device_mock_fields device_fixtures_def station_exported_def device_flags_def plain_flags_def)

theorem client_switches_modes_on_the_mock_witness:
  "\<exists>(d :: (nat, mock) iwd_device) m' (x :: (nat, mock) iwd_access_point).
     core_device_set_mode ''ap'' (device_on (mirror_godbus (\<lambda>_. True)) d) device_mock = (Inr (), m')
     \<and> core_device_mode (device_on (mirror_godbus (\<lambda>_. True)) d) m' = (Inr ''ap'', m')
     \<and> iwd_new_access_point (mirror_godbus (\<lambda>_. True)) (mock_conn plain_env '':1.7'') None devicePath m' = (Inr x, m')"
proof -
  let ?g = "mirror_godbus (\<lambda>_. True)" and ?conn = "mock_conn plain_env '':1.7''"
  have i: "0 \<in> set (exportedDevices device_mock)" by (simp add: device_mock_fields)
  have path: "md_path (devices device_mock ! 0) = devicePath" by (simp add: device_mock_fields device_fixtures_def)
  obtain d :: "(nat, mock) iwd_device" where d: "iwd_new_device ?g ?conn None (md_path (devices device_mock ! 0)) device_mock = (Inr d, device_mock)"
    using device_objects [OF device_mock_reach i, where g = ?g and me = "'':1.7''" and add = None, unfolded Let_def] by blast
  note switch = client_switches_modes_on_the_mock [OF device_mock_reach mirror_decodes i d, where mode = "''ap''", unfolded path]
  have "valid_mode ''ap''" by (simp add: mode_defs)
  with switch [THEN conjunct1] obtain m' where m': "core_device_set_mode ''ap'' (device_on ?g d) device_mock = (Inr (), m')" by blast
  have "access_point_exported (flags device_mock)"
    by (simp add: device_mock_fields device_flags_def plain_flags_def access_point_exported_def)
  with switch [THEN conjunct2, THEN spec, THEN mp, OF m'] m' show ?thesis by blast
qed


subsection \<open>Known networks\<close>

lemma reach_known:
  assumes "mock_reach env m" and "k \<in> set (exportedKnownNetworks m)"
  shows "k < length (knowns m)" and "me_path_ok env (mk_path (knowns m ! k))"
    and "known_answers (exports m) k (mk_path (knowns m ! k))"
  using reach_inv [OF assms(1)] assms(2) by (auto simp: mock_inv_def knowns_ok_def)

lemma reach_links:
  assumes "mock_reach env m" and "n \<in> set (networks m)"
  shows "link_ok (shape m) (network_shape n)"
  using reach_inv [OF assms(1)] assms(2) by (simp add: mock_inv_def networks_ok_def)

text \<open>
  C19: In every state that a run of the mock iwd reaches whose handlers are served one after another, after any networks
  were joined and forgotten: the known networks that answer are those of the registry, under a path each of its own; a
  network that is linked to a known network is linked to the path of its own name and type, and one answers there unless
  the mock was started without known networks (\<open>--omit-knownnetwork\<close>, when the fixture keeps its link); and
  a network without a link has no known network of its name and type.
\<close>

theorem known_networks_stay_consistent:
  assumes "mock_reach env m"
  shows "distinct (map (\<lambda>k. mk_path (knowns m ! k)) (exportedKnownNetworks m))
   \<and> (\<forall>p k. exports m p IwdKnownNetworkIface = Some (KnownNetworkHandler k) \<longleftrightarrow>
          k \<in> set (exportedKnownNetworks m) \<and> p = mk_path (knowns m ! k))
   \<and> (\<forall>n \<in> set (networks m).
        if mn_known n = '''' then \<forall>k. exports m (known_network_path_for n) IwdKnownNetworkIface \<noteq> Some (KnownNetworkHandler k)
        else mn_known n = known_network_path_for n
           \<and> (omitKnownNetwork (flags m) \<or> (\<exists>k. exports m (mn_known n) IwdKnownNetworkIface = Some (KnownNetworkHandler k))))"
proof -
  note inv = reach_inv [OF assms]
  have paths: "map ((!) (map mk_path (knowns m))) (exportedKnownNetworks m) = map (\<lambda>k. mk_path (knowns m ! k)) (exportedKnownNetworks m)"
    using reach_known(1) [OF assms] by simp
  have "distinct (map ((!) (map mk_path (knowns m))) (exportedKnownNetworks m))"
    using inv by (simp add: mock_inv_def knowns_ok_def)
  then have dist: "distinct (map (\<lambda>k. mk_path (knowns m ! k)) (exportedKnownNetworks m))" by (simp only: paths)
  have answers: "exports m p IwdKnownNetworkIface = Some (KnownNetworkHandler k) \<longleftrightarrow>
      k \<in> set (exportedKnownNetworks m) \<and> p = mk_path (knowns m ! k)" (is "?l \<longleftrightarrow> ?r") for p k
  proof
    assume ?l
    then have "handler_ok (shape m) p IwdKnownNetworkIface (KnownNetworkHandler k)"
      using inv by (simp add: mock_inv_def handlers_ok_def)
    then show ?r using reach_known(1) [OF assms] by (simp add: handler_ok_def)
  next
    assume ?r
    then show ?l using reach_known(3) [OF assms] by (simp add: known_answers_def)
  qed
  have registered: "p \<in> registered_paths (shape m) \<longleftrightarrow> (\<exists>k. exports m p IwdKnownNetworkIface = Some (KnownNetworkHandler k))" for p
    using reach_known(1) [OF assms] by (auto simp: registered_paths_def answers)
  have "if mn_known n = '''' then known_network_path_for n \<notin> registered_paths (shape m)
      else mn_known n = known_network_path_for n \<and> (omitKnownNetwork (flags m) \<or> mn_known n \<in> registered_paths (shape m))"
    if "n \<in> set (networks m)" for n
    using reach_links [OF assms that] by (auto simp: link_ok_def network_shape_def profile_path_known)
  note links = this [unfolded registered not_ex]
  show ?thesis
    by (intro conjI allI ballI) (rule dist, rule answers, erule links)
qed


lemma forget_call:
  assumes "exports m path IwdKnownNetworkIface = Some (KnownNetworkHandler k)"
  shows "mock_call env me path (IwdKnownNetworkIface @ ''.'' @ ''Forget'') [] m = (Inr [], remove_known_network env k m)"
  using assms
  by (simp add: mock_call_at [where meth = "''Forget''", simplified] no_argument_def answer_unit_def answer_def
      mock_known_forget_def modify_def go_bind_def)

lemma client_forget_iff:
  assumes "iwd_new_known_network g (mock_conn env me) add path m0 = (Inr x, m1)"
  shows "core_known_network_forget (known_network_on x) m = (Inr (), m') \<longleftrightarrow>
    (\<exists>body. mock_call env me path (IwdKnownNetworkIface @ ''.'' @ ''Forget'') [] m = (Inr body, m'))"
  using call_ignoring_reply_Inr_iff [OF assms [unfolded iwd_new_known_network_def], of "''Forget''" "[]" m m']
  by (simp add: core_known_network_forget_def new_core_known_network_def core_iffs iwd_known_network_raw_def
      iwd_known_network_forget_def known_network_iwd_def)

lemma reach_remove:
  assumes "mock_reach env m" and "exports m path IwdKnownNetworkIface = Some (KnownNetworkHandler k)"
  shows "path = mk_path (knowns m ! k)"
    and "exports (remove_known_network env k m) q j =
      (if q = path \<and> j \<in> {IwdKnownNetworkIface, PropertiesIface, IntrospectableIface} then None else exports m q j)"
    and "map network_shape (networks (remove_known_network env k m)) = map (\<lambda>n. network_shape (unlink_network path n)) (networks m)"
proof -
  note inv = reach_inv [OF assms(1)]
  have "handler_ok (shape m) path IwdKnownNetworkIface (KnownNetworkHandler k)"
    using inv assms(2) by (simp add: mock_inv_def handlers_ok_def)
  then have k: "k \<in> set (exportedKnownNetworks m)" and p: "path = mk_path (knowns m ! k)"
    using reach_known(1) [OF assms(1)] by (simp_all add: handler_ok_def)
  show "path = mk_path (knowns m ! k)" by (rule p)
  have all: "exportedNetworks m = [0..<length (networks m)]" and conn: "mock_connected m"
    using inv by (simp_all add: mock_inv_def networks_ok_def)
  note shape = shape_remove_known_network [OF all conn reach_known(1,2) [OF assms(1) k]]
  from arg_cong [OF shape, of "\<lambda>s. sh_exports s q j"] show "exports (remove_known_network env k m) q j =
      (if q = path \<and> j \<in> {IwdKnownNetworkIface, PropertiesIface, IntrospectableIface} then None else exports m q j)"
    by (auto simp: p)
  from arg_cong [OF shape, of sh_networks] show "map network_shape (networks (remove_known_network env k m)) =
      map (\<lambda>n. network_shape (unlink_network path n)) (networks m)"
    by (simp add: p)
qed

lemma fold_emit_fields:
  "networks (fold (\<lambda>i m. emit_properties_changed (ps m i) j c d m) is m) = networks m"
  "devices (fold (\<lambda>i m. emit_properties_changed (ps m i) j c d m) is m) = devices m"
  "knowns (fold (\<lambda>i m. emit_properties_changed (ps m i) j c d m) is m) = knowns m"
  "exportedKnownNetworks (fold (\<lambda>i m. emit_properties_changed (ps m i) j c d m) is m) = exportedKnownNetworks m"
  by (induction "is" arbitrary: m) (simp_all add: emit_properties_changed_def emit_def)

lemma unexport_fields:
  "networks (unexport_object env path js m) = networks m" "devices (unexport_object env path js m) = devices m"
  "knowns (unexport_object env path js m) = knowns m"
  "exportedKnownNetworks (unexport_object env path js m) = exportedKnownNetworks m"
proof -
  have one: "networks (ignoring (export env h path j) m) = networks m" "devices (ignoring (export env h path j) m) = devices m"
    "knowns (ignoring (export env h path j) m) = knowns m"
    "exportedKnownNetworks (ignoring (export env h path j) m) = exportedKnownNetworks m" for h j m
    by (simp_all add: ignoring_def export_def)
  have all: "networks (fold (\<lambda>j. ignoring (export env None path j)) js m) = networks m
      \<and> devices (fold (\<lambda>j. ignoring (export env None path j)) js m) = devices m
      \<and> knowns (fold (\<lambda>j. ignoring (export env None path j)) js m) = knowns m
      \<and> exportedKnownNetworks (fold (\<lambda>j. ignoring (export env None path j)) js m) = exportedKnownNetworks m" for js m
    by (induction js arbitrary: m) (simp_all add: one)
  show "networks (unexport_object env path js m) = networks m" "devices (unexport_object env path js m) = devices m"
    "knowns (unexport_object env path js m) = knowns m"
    "exportedKnownNetworks (unexport_object env path js m) = exportedKnownNetworks m"
    by (simp_all only: unexport_object_def all split: if_split) simp_all
qed

text \<open>What a removal leaves of the objects.\<close>

lemma removed_fields:
  assumes "mock_reach env m" and "exports m path IwdKnownNetworkIface = Some (KnownNetworkHandler k)"
  shows "exportedKnownNetworks (remove_known_network env k m) = filter (\<lambda>j. j \<noteq> k) (exportedKnownNetworks m)
    \<and> networks (remove_known_network env k m) = map (\<lambda>n. if mn_known n = path then n\<lparr>mn_known := ''''\<rparr> else n) (networks m)
    \<and> devices (remove_known_network env k m) = devices m \<and> knowns (remove_known_network env k m) = knowns m"
proof -
  have path: "mk_path (knowns m ! k) = path" using reach_remove(1) [OF assms] by simp
  have all: "exportedNetworks m = [0..<length (networks m)]"
    using reach_inv [OF assms(1)] by (simp add: mock_inv_def networks_ok_def)
  let ?m1 = "m\<lparr>exportedKnownNetworks := filter (\<lambda>c. c \<noteq> k) (exportedKnownNetworks m)\<rparr>"
  have unlinked: "fold (\<lambda>i. network_update i (unlink_network path)) [0..<length (networks m)] ?m1 =
      ?m1\<lparr>networks := map (unlink_network path) (networks m)\<rparr>"
    using unlink_all [of "unlink_network path" ?m1] by simp
  have removed: "fields (emit_interfaces_removed q js m') = fields m'"
    if "\<And>m' s. fields (emit s m') = fields m'" for fields :: "mock \<Rightarrow> 'a" and q js m'
    using that by (simp add: emit_interfaces_removed_def)
  show ?thesis
    by (simp add: remove_known_network_def Let_def path all unlinked fold_emit_fields unexport_fields removed emit_def
        unlink_network_def cong: map_cong)
qed

lemma forgotten_asks:
  assumes "mock_reach env m" and "exports m path IwdKnownNetworkIface = Some (KnownNetworkHandler k)"
    and "i < length (networks m)" and "known_network_path_for (networks m ! i) = path" and "mn_type (networks m ! i) \<noteq> ''open''"
  shows "asks_agent (networks (remove_known_network env k m) ! i)"
proof -
  let ?m' = "remove_known_network env k m" and ?n = "networks m ! i"
  note nets = reach_remove(3) [OF assms(1,2)]
  have len: "i < length (networks ?m')" using arg_cong [OF nets, of length] assms(3) by simp
  have "map network_shape (networks ?m') ! i = map (\<lambda>n. network_shape (unlink_network path n)) (networks m) ! i"
    by (simp only: nets)
  then have "network_shape (networks ?m' ! i) = network_shape (unlink_network path ?n)"
    using len assms(3) by simp
  moreover have "link_ok (shape m) (network_shape ?n)" using reach_links [OF assms(1)] assms(3) by simp
  then have "mn_known ?n = '''' \<or> mn_known ?n = path"
    using assms(4) by (auto simp: link_ok_def network_shape_def profile_path_known split: if_splits)
  ultimately show ?thesis
    using assms(5) by (auto simp: network_shape_def unlink_network_def asks_agent_def split: if_splits)
qed

text \<open>
  C20: Forgetting a known network through the library, on any state that a run of the mock iwd reaches whose handlers are
  served one after another: \<open>Forget\<close> succeeds; the known network can then no longer be opened and its old handle fails;
  the registry has the other known networks in their order; every other path keeps the handlers it had; the networks
  linked to the forgotten one lose that link and nothing else of them, of another network or of a device
  changes; and joining the secured network of its name and type asks the agent for the passphrase again.
\<close>

theorem client_forgets_on_the_mock:
  assumes "mock_reach env m"
    and "iwd_new_known_network g (mock_conn env me) add path m0 = (Inr x, m1)"
    and "exports m path IwdKnownNetworkIface = Some (KnownNetworkHandler k)"
  shows "\<exists>m'. core_known_network_forget (known_network_on x) m = (Inr (), m')
   \<and> (\<forall>y m2. iwd_new_known_network g (mock_conn env me) add path m' \<noteq> (Inr y, m2))
   \<and> (\<forall>m2. core_known_network_forget (known_network_on x) m' \<noteq> (Inr (), m2))
   \<and> exportedKnownNetworks m' = filter (\<lambda>j. j \<noteq> k) (exportedKnownNetworks m)
   \<and> (\<forall>q. q \<noteq> path \<longrightarrow> exports m' q = exports m q)
   \<and> networks m' = map (\<lambda>n. if mn_known n = path then n\<lparr>mn_known := ''''\<rparr> else n) (networks m)
   \<and> devices m' = devices m \<and> knowns m' = knowns m
   \<and> (\<forall>i < length (networks m). known_network_path_for (networks m ! i) = path \<longrightarrow> mn_type (networks m ! i) \<noteq> ''open''
        \<longrightarrow> asks_agent (networks m' ! i))"
proof -
  let ?m' = "remove_known_network env k m"
  note removed = reach_remove(2) [OF assms(1,3)]
  have none: "exports ?m' path IwdKnownNetworkIface = None" "exports ?m' path IntrospectableIface = None"
    by (simp_all add: removed)
  have "core_known_network_forget (known_network_on x) m = (Inr (), ?m')"
    using forget_call [OF assms(3)] unfolding client_forget_iff [OF assms(2)] by blast
  moreover have "iwd_new_known_network g (mock_conn env me) add path ?m' \<noteq> (Inr y, m2)" for y m2
    by (auto simp: iwd_new_known_network_def new_typed_object_def go_bind_Inr_iff mock_new_object none)
  moreover have "core_known_network_forget (known_network_on x) ?m' \<noteq> (Inr (), m2)" for m2
    unfolding client_forget_iff [OF assms(2)]
    using mock_call_unexported [where meth = "''Forget''", OF _ none(1), of env me "[]"] by simp
  moreover have "exports ?m' q = exports m q" if "q \<noteq> path" for q
    using that by (simp add: fun_eq_iff removed)
  moreover note removed_fields [OF assms(1,3)]
  ultimately show ?thesis using forgotten_asks [OF assms(1,3)] by blast
qed

definition known_flags :: mock_flags where
  "known_flags = plain_flags\<lparr>omitDaemon := True, omitDevice := True, omitBSS := True\<rparr>"

definition known_mock :: mock where
  "known_mock = snd (mock_start plain_env False (empty_mock known_flags True))"

lemma known_mock_start:
  "\<exists>m. mock_start plain_env False (empty_mock known_flags True) = (Inr (), m)
     \<and> networks m = network_fixtures \<and> exportedKnownNetworks m = [0, 1] \<and> knowns m = known_fixtures \<and> flags m = known_flags"
  by (simp add: start_defs known_flags_def adapter_fixtures_def network_fixtures_def known_fixtures_def)

lemma known_mock_run: "mock_start plain_env False (empty_mock known_flags True) = (Inr (), known_mock)"
  and known_mock_fields: "networks known_mock = network_fixtures" "exportedKnownNetworks known_mock = [0, 1]"
    "knowns known_mock = known_fixtures" "flags known_mock = known_flags"
  using known_mock_start unfolding known_mock_def by auto

lemmas known_mock_reach = mock_reach.start [OF known_mock_run]

theorem known_networks_stay_consistent_witness:
  "exports known_mock known_net_profile IwdKnownNetworkIface = Some (KnownNetworkHandler 0)"
  using known_networks_stay_consistent [OF known_mock_reach, THEN conjunct2, THEN conjunct1, rule_format,
      of known_net_profile 0]
  by (simp add: known_mock_fields known_fixtures_def)

theorem client_forgets_on_the_mock_witness:
  "\<exists>(x :: (nat, mock) iwd_known_network) m'.
     core_known_network_forget (known_network_on x) known_mock = (Inr (), m') \<and> asks_agent (networks m' ! 0)"
proof -
  let ?g = "mirror_godbus (\<lambda>_. True)" and ?conn = "mock_conn plain_env '':1.7''"
  have answers: "known_answers (exports known_mock) 0 known_net_profile"
    using reach_known(3) [OF known_mock_reach, of 0] by (simp add: known_mock_fields known_fixtures_def)
  then obtain x :: "(nat, mock) iwd_known_network"
    where x: "iwd_new_known_network ?g ?conn None known_net_profile known_mock = (Inr x, known_mock)"
    using mock_open_object [of known_mock known_net_profile _ known_network_iwd ?g plain_env "'':1.7''" None]
    by (auto simp: iwd_new_known_network_def known_answers_def plain_interfaces_def known_network_iwd_def)
  have path: "known_network_path_for (networks known_mock ! 0) = known_net_profile"
    using profile_paths_eq(1) by (simp add: known_mock_fields network_fixtures_def profile_path_known)
  have ex: "exports known_mock known_net_profile IwdKnownNetworkIface = Some (KnownNetworkHandler 0)"
    using answers by (simp add: known_answers_def)
  from client_forgets_on_the_mock [OF known_mock_reach x ex] path show ?thesis
    by (fastforce simp: known_mock_fields network_fixtures_def)
qed


subsection \<open>A scan that outlives its access point\<close>

text \<open>
  \<open>apStop\<close> leaves \<open>APScanning\<close> as it is, and the goroutine of the scan clears it only later. An access point that is
  stopped and started again within the scan announces \<open>Scanning\<close> false, reports it true and refuses a scan.
\<close>

theorem restart_during_a_scan_contradicts_the_signal:
  assumes "i < length (devices m)" and "session_bus m"
    and "mock_ap_scan i m = (Inr (), m1)" and "mock_ap_stop i m1 = (Inr (), m2)" and "mock_ap_start i ssid psk m2 = (Inr (), m3)"
  shows "map_of (access_point_prop_map (devices m3 ! i)) ''Scanning'' = Some (VBool True)
    \<and> (\<exists>props. last (emitted m3) = PropertiesChanged (md_path (devices m3 ! i)) IwdAccessPointIface props []
         \<and> map_of props ''Scanning'' = Some (VBool False))
    \<and> mock_ap_scan i m3 = (Inl (iwd_error ''.InProgress'' ''scan already in progress''), m3)"
  using assms
  by (auto simp: mock_ap_scan_def mock_ap_stop_def mock_ap_start_def on_access_point_def Let_def device_update_def
      emit_access_point_changed_def emit_access_point_started_def emit_properties_changed_def emit_def start_ap_locked_def
      access_point_prop_map_def split: if_splits)

end
