(* ===== verification/Mock_Races.thy ===== *)
theory Mock_Races
  imports Mock_Client
begin

text \<open>
  The handlers of the mock iwd that change its objects, piece by piece. godbus serves each call in a goroutine of its own,
  and \<open>switchDeviceMode\<close>, \<open>provisionKnownNetwork\<close> and \<open>removeKnownNetwork\<close> (\<open>lifecycle.go\<close>) hold \<open>registryMu\<close> for
  their first part alone: what they export comes after. A piece is a locked section, one call of \<open>Export\<close> or of
  an emitter with the reads of its arguments, one write or check without a lock, or the wait for the agent's answer.

  A handler that runs alone does what the sequential definition says. Two that overlap need not: two settings of the mode
  can leave a device whose objects are those of the other mode, and two connects to one network can register its known
  network twice.
\<close>

subsection \<open>Pieces\<close>

text \<open>\<open>Piece f k\<close> changes the state by \<open>f\<close>; what follows depends on the state it found.\<close>

datatype handler_run =
    Ended "raw_err + unit"
  | Piece "mock \<Rightarrow> mock" "mock \<Rightarrow> handler_run"

primrec served_alone :: "handler_run \<Rightarrow> mock \<Rightarrow> (raw_err + unit) \<times> mock" where
  "served_alone (Ended r) = (\<lambda>m. (r, m))"
| "served_alone (Piece f k) = (\<lambda>m. served_alone (k m) (f m))"

text \<open>One handler of those in progress does its next piece.\<close>

inductive handlers_step :: "mock \<times> handler_run list \<Rightarrow> mock \<times> handler_run list \<Rightarrow> bool" where
  piece: "t < length rs \<Longrightarrow> rs ! t = Piece f k \<Longrightarrow> handlers_step (m, rs) (f m, rs[t := k m])"

text \<open>The handlers \<open>rs\<close>, all in progress at once, can end with the results \<open>outs\<close> and leave \<open>m'\<close>.\<close>

definition can_end :: "handler_run list \<Rightarrow> mock \<Rightarrow> (raw_err + unit) list \<Rightarrow> mock \<Rightarrow> bool" where
  "can_end rs m outs m' \<longleftrightarrow> handlers_step\<^sup>*\<^sup>* (m, rs) (m', map Ended outs)"

primrec do_then :: "(mock \<Rightarrow> mock) list \<Rightarrow> handler_run \<Rightarrow> handler_run" where
  "do_then [] r = r"
| "do_then (f # fs) r = Piece f (\<lambda>_. do_then fs r)"

text \<open>A call whose error ends what it is part of.\<close>

definition try_then :: "(raw_err, mock, unit) go \<Rightarrow> handler_run \<Rightarrow> handler_run \<Rightarrow> handler_run" where
  "try_then f failed r = Piece (\<lambda>m. snd (f m)) (\<lambda>m. case fst (f m) of Inl _ \<Rightarrow> failed | Inr _ \<Rightarrow> r)"

subsection \<open>The mode of a device\<close>

text \<open>The exports of \<open>switchDeviceMode\<close>, with the interfaces that its locked section found and set.\<close>

definition export_steps :: "mock_env \<Rightarrow> mock_flags \<Rightarrow> nat \<Rightarrow> mock_device \<Rightarrow> mock_device \<Rightarrow> (mock \<Rightarrow> mock) list" where
  "export_steps env f i old new =
     (let path = md_path new;
          with_wsc = HasStation new \<and> \<not> omitWSC f
      in map (\<lambda>iface. ignoring (export env None path iface)) (removed_interfaces f old new)
         @ (if \<not> HasStation old \<and> HasStation new
            then ignoring (export env (Some (DeviceHandler i)) path IwdStationIface) #
              (if with_wsc then [ignoring (export env (Some (DeviceHandler i)) path IwdSimpleConfigurationIface)] else [])
            else [])
         @ (if \<not> HasAccessPoint old \<and> HasAccessPoint new
            then [ignoring (export env (Some (AccessPointHandler i)) path IwdAccessPointIface)] else [])
         @ [ignoring (export_device_introspection env path (HasStation new) with_wsc (HasAccessPoint new))])"

text \<open>The signals after them; the properties announced are those the device then has.\<close>

definition announce_steps :: "mock_flags \<Rightarrow> nat \<Rightarrow> mock_device \<Rightarrow> mock_device \<Rightarrow> (mock \<Rightarrow> mock) list" where
  "announce_steps f i old new =
     (let removed = removed_interfaces f old new in
      (if removed \<noteq> [] then [emit_interfaces_removed (md_path new) removed] else [])
      @ (if added_interfaces old new \<noteq> []
         then [\<lambda>m. emit_interfaces_added (md_path new)
                 (added_interfaces old ((devices m ! i)\<lparr>HasStation := HasStation new, HasAccessPoint := HasAccessPoint new\<rparr>)) m]
         else []))"

definition switch_mode_run :: "mock_env \<Rightarrow> nat \<Rightarrow> string \<Rightarrow> handler_run" where
  "switch_mode_run env i mode =
     Piece (\<lambda>m. device_update i (mode_interfaces (flags m) mode) m) (\<lambda>m.
       let old = devices m ! i;
           new = mode_interfaces (flags m) mode old
       in if HasStation old = HasStation new \<and> HasAccessPoint old = HasAccessPoint new then Ended (Inr ())
          else do_then ((if mock_connected m then export_steps env (flags m) i old new else [])
                        @ announce_steps (flags m) i old new) (Ended (Inr ())))"

text \<open>\<open>Device.Set\<close> of \<open>Mode\<close>: \<open>d.Mode\<close> is written without a lock.\<close>

definition set_mode_run :: "mock_env \<Rightarrow> nat \<Rightarrow> string \<Rightarrow> handler_run" where
  "set_mode_run env i mode =
     do_then [device_update i (\<lambda>d. d\<lparr>md_mode := mode\<rparr>),
              \<lambda>m. emit_properties_changed (md_path (devices m ! i)) IwdDeviceIface [(''Mode'', VStr mode)] [] m]
       (switch_mode_run env i mode)"

subsection \<open>Networks and known networks\<close>

text \<open>The registry is read under its lock; the call of the agent holds none.\<close>

definition request_run :: "mock_env \<Rightarrow> string \<Rightarrow> ((raw_err + string) option \<Rightarrow> handler_run) \<Rightarrow> handler_run" where
  "request_run env network k =
     Piece id (\<lambda>m.
       let a = agents m in
       if \<not> ar_set a \<or> \<not> ar_bound a then k None
       else Piece (\<lambda>m. m\<lparr>questions := questions m + 1\<rparr>)
              (\<lambda>m. k (Some (me_ask env (ar_sender a) (ar_path a) network (questions m)))))"

text \<open>What \<open>provisionKnownNetwork\<close> does once it has found the network unknown; the lock is free until the link is set.\<close>

definition provision_rest :: "mock_env \<Rightarrow> nat \<Rightarrow> handler_run \<Rightarrow> handler_run" where
  "provision_rest env i r =
     Piece (\<lambda>m. m\<lparr>knowns := knowns m @ [new_known (networks m ! i)]\<rparr>) (\<lambda>m.
       let path = mk_path (new_known (networks m ! i));
           j = length (knowns m);
           known = Some (KnownNetworkHandler j);
           linked = do_then
             [\<lambda>m. network_update i (\<lambda>n. n\<lparr>mn_known := path\<rparr>) (m\<lparr>exportedKnownNetworks := exportedKnownNetworks m @ [j]\<rparr>),
              \<lambda>m. emit_interfaces_added path [(IwdKnownNetworkIface, known_prop_map (knowns m ! j))] m,
              \<lambda>m. emit_properties_changed (mn_path (networks m ! i)) IwdNetworkIface [(''KnownNetwork'', VPath path)] [] m] r
       in if mock_connected m
          then try_then (export env known path IwdKnownNetworkIface) r
                 (try_then (export env known path PropertiesIface) r
                   (try_then (export env (Some (IntrospectStub (plain_interfaces IwdKnownNetworkIface))) path IntrospectableIface) r
                     linked))
          else linked)"

definition provision_run :: "mock_env \<Rightarrow> nat \<Rightarrow> handler_run \<Rightarrow> handler_run" where
  "provision_run env i r = Piece id (\<lambda>m. if mn_known (networks m ! i) \<noteq> '''' then r else provision_rest env i r)"

definition tell_connected :: "nat \<Rightarrow> handler_run" where
  "tell_connected i =
     do_then [\<lambda>m. emit_properties_changed (mn_path (networks m ! i)) IwdNetworkIface [(''Connected'', VBool True)] [] m] (Ended (Inr ()))"

definition joined_run :: "mock_env \<Rightarrow> nat \<Rightarrow> handler_run" where
  "joined_run env i =
     Piece (network_update i (\<lambda>n. n\<lparr>mn_connected := True\<rparr>))
       (\<lambda>m. if mn_type (networks m ! i) \<noteq> ''open'' then provision_run env i (tell_connected i) else tell_connected i)"

definition connect_run :: "mock_env \<Rightarrow> nat \<Rightarrow> handler_run" where
  "connect_run env i =
     Piece id (\<lambda>m.
       let n = networks m ! i in
       if mn_type n \<noteq> ''open'' \<and> mn_known n = ''''
       then request_run env (mn_path n) (\<lambda>answer.
              case answer of
                None \<Rightarrow> Ended (Inl (iwd_error ''.NoAgent'' ''No agent registered''))
              | Some (Inl e) \<Rightarrow> Ended (Inl (iwd_error ''.Failed'' (err_text e)))
              | Some (Inr p) \<Rightarrow>
                  (if p \<noteq> securedNetworkPassphrase then Ended (Inl invalid_passphrase_error) else joined_run env i))
       else joined_run env i)"

definition forget_run :: "mock_env \<Rightarrow> nat \<Rightarrow> handler_run" where
  "forget_run env k =
     Piece (\<lambda>m. let m1 = m\<lparr>exportedKnownNetworks := filter (\<lambda>c. c \<noteq> k) (exportedKnownNetworks m)\<rparr>
                in fold (\<lambda>i. network_update i (unlink_network (mk_path (knowns m ! k)))) (exportedNetworks m1) m1) (\<lambda>m.
       let path = mk_path (knowns m ! k);
           unlinked = filter (\<lambda>i. mn_known (networks m ! i) = path) (exportedNetworks m)
       in do_then
            (map (\<lambda>i m. emit_properties_changed (mn_path (networks m ! i)) IwdNetworkIface [] [''KnownNetwork''] m) unlinked
             @ (if mock_connected m
                then map (\<lambda>iface. ignoring (export env None path iface)) [IwdKnownNetworkIface, PropertiesIface, IntrospectableIface]
                else [])
             @ [emit_interfaces_removed path [IwdKnownNetworkIface]])
            (Ended (Inr ())))"

lemmas run_defs =
  set_mode_run_def switch_mode_run_def request_run_def provision_rest_def provision_run_def tell_connected_def joined_run_def connect_run_def forget_run_def

subsection \<open>A handler alone\<close>

lemma served_do_then [simp]: "served_alone (do_then fs r) m = served_alone r (fold (\<lambda>f. f) fs m)"
  by (induction fs arbitrary: m) simp_all

lemma served_try_then [simp]:
  "served_alone (try_then f failed r) m =
     (case f m of (Inl _, m') \<Rightarrow> served_alone failed m' | (Inr _, m') \<Rightarrow> served_alone r m')"
  by (simp add: try_then_def split: prod.split sum.split)

lemma fold_steps: "fold (\<lambda>f. f) (map g xs) = fold g xs"
  by (simp add: fold_map comp_def)

lemma exports_alone: "fold (\<lambda>f. f) (export_steps env (flags m) i old new) m = swap_exports env i old new m"
  by (simp add: export_steps_def swap_exports_def Let_def fold_steps)

lemma devices_ignoring [simp]: "devices (ignoring (export env h p j) m) = devices m"
  by (simp add: ignoring_def export_def)

lemma devices_fold_ignoring [simp]: "devices (fold (\<lambda>j. ignoring (export env h p j)) js m) = devices m"
  by (induction js arbitrary: m) simp_all

lemma devices_swap [simp]: "devices (swap_exports env i old new m) = devices m"
  by (simp add: swap_exports_def Let_def export_device_introspection_def)

lemma emissions_keep [simp]:
  "devices (emit_interfaces_removed p js m) = devices m" "devices (emit_interfaces_added p ifaces m) = devices m"
  "devices (emit_properties_changed p j props gone m) = devices m"
  "mock_connected (emit_properties_changed p j props gone m) = mock_connected m"
  "mock_connected (device_update i f m) = mock_connected m" "flags (device_update i f m) = flags m"
  by (simp_all add: emit_interfaces_removed_def emit_interfaces_added_def emit_properties_changed_def emit_def device_update_def)

text \<open>The announced properties do not depend on which interfaces the device has.\<close>

lemma added_now:
  assumes "devices m = devices (device_update i (mode_interfaces f mode) m0)" and "old = devices m0 ! i"
    and "new = mode_interfaces f mode old"
  shows "added_interfaces old ((devices m ! i)\<lparr>HasStation := HasStation new, HasAccessPoint := HasAccessPoint new\<rparr>) =
    added_interfaces old new"
  using assms
  by (cases "i < length (devices m0)")
    (simp_all add: device_update_def list_update_beyond added_interfaces_def station_prop_map_def access_point_prop_map_def
      mode_interfaces_def)

lemma announce_alone:
  assumes "devices m = devices (device_update i (mode_interfaces f mode) m0)" and "old = devices m0 ! i"
    and "new = mode_interfaces f mode old"
  shows "fold (\<lambda>g. g) (announce_steps f i old new) m =
    (let m1 = if removed_interfaces f old new \<noteq> [] then emit_interfaces_removed (md_path new) (removed_interfaces f old new) m else m
     in if added_interfaces old new \<noteq> [] then emit_interfaces_added (md_path new) (added_interfaces old new) m1 else m1)"
  using assms added_now [of "emit_interfaces_removed (md_path new) (removed_interfaces f old new) m" i f mode m0 old new]
    added_now [of m i f mode m0 old new]
  by (simp add: announce_steps_def Let_def)

lemma switch_mode_alone: "served_alone (switch_mode_run env i mode) m = (Inr (), switch_device_mode env i mode m)"
proof -
  let ?old = "devices m ! i" and ?m1 = "device_update i (mode_interfaces (flags m) mode) m"
  let ?new = "mode_interfaces (flags m) mode ?old"
  have exports: "fold (\<lambda>f. f) (export_steps env (flags m) i ?old ?new) ?m1 = swap_exports env i ?old ?new ?m1"
    using exports_alone [of env ?m1] by simp
  show ?thesis
    using announce_alone [of ?m1 i "flags m" mode m ?old ?new]
      announce_alone [of "swap_exports env i ?old ?new ?m1" i "flags m" mode m ?old ?new]
    by (simp add: switch_mode_run_def switch_device_mode_def Let_def exports)
qed

lemma set_mode_alone: "served_alone (set_mode_run env i mode) m = device_set env i IwdDeviceIface ''Mode'' (VStr mode) m"
proof -
  have "md_path (devices (device_update i (\<lambda>d. d\<lparr>md_mode := mode\<rparr>) m) ! i) = md_path (devices m ! i)"
    by (cases "i < length (devices m)") (simp_all add: device_update_def list_update_beyond)
  then show ?thesis by (simp add: set_mode_run_def switch_mode_alone device_set_def)
qed

lemma network_path_update [simp]:
  "(\<And>n. mn_path (f n) = mn_path n) \<Longrightarrow> mn_path (networks (network_update i f m) ! i) = mn_path (networks m ! i)"
  by (cases "i < length (networks m)") (simp_all add: network_update_def list_update_beyond)

lemma network_emissions [simp]:
  "networks (emit_interfaces_removed p js m) = networks m" "knowns (emit_interfaces_added p ifaces m) = knowns m"
  "knowns (emit_properties_changed p j props gone m) = knowns m" "knowns (network_update i f m) = knowns m"
  "mock_connected (emit_interfaces_removed p js m) = mock_connected m"
  by (simp_all add: emit_interfaces_removed_def emit_interfaces_added_def emit_properties_changed_def emit_def network_update_def)

lemma provision_alone: "served_alone (provision_run env i r) m = served_alone r (provision_known_network env i m)"
proof (cases "mn_known (networks m ! i) = ''''")
  case True
  then show ?thesis
    by (cases "me_path_ok env (mk_path (new_known (networks m ! i)))")
      (simp_all add: provision_run_def provision_rest_def provision_known_network_def Let_def guarded_def export_object_at_run export_def)
next
  case False
  then show ?thesis by (simp add: provision_run_def provision_known_network_def)
qed

lemma path_provisioned [simp]:
  "mn_path (networks (provision_known_network env i m) ! i) = mn_path (networks m ! i)"
  by (simp add: provision_known_network_def Let_def guarded_def export_object_at_run export_def split: sum.split)

lemma joined_alone:
  "served_alone (joined_run env i) m =
     (Inr (), emit_properties_changed (mn_path (networks m ! i)) IwdNetworkIface [(''Connected'', VBool True)] []
        (if mn_type (networks m ! i) \<noteq> ''open'' then provision_known_network env i (network_update i (\<lambda>n. n\<lparr>mn_connected := True\<rparr>) m)
         else network_update i (\<lambda>n. n\<lparr>mn_connected := True\<rparr>) m))"
  by (simp add: joined_run_def tell_connected_def provision_alone)

lemma connect_alone: "served_alone (connect_run env i) m = mock_network_connect env i m"
  by (simp add: connect_run_def request_run_def mock_network_connect_def Let_def joined_alone guarded_def go_bind_def
      modify_def check_passphrase_with_agent_def request_passphrase_def split: sum.split)

lemma fold_emit_connected:
  "mock_connected (fold (\<lambda>i m. emit_properties_changed (ps m i) j c d m) is m) = mock_connected m"
  by (induction "is" arbitrary: m) simp_all

lemma fold_unlink_connected: "mock_connected (fold (\<lambda>i. network_update i f) is m) = mock_connected m"
  by (induction "is" arbitrary: m) simp_all

lemma forget_alone: "served_alone (forget_run env k) m = mock_known_forget env k m"
  using fold_steps [of "\<lambda>i m. emit_properties_changed (mn_path (networks m ! i)) IwdNetworkIface [] [''KnownNetwork''] m"]
  by (simp add: forget_run_def mock_known_forget_def remove_known_network_def modify_def Let_def unexport_object_def
      fold_emit_connected fold_unlink_connected)


subsection \<open>Overlapping handlers\<close>

lemma alone_steps:
  "t < length rs \<Longrightarrow> rs ! t = r \<Longrightarrow> served_alone r m = (out, m') \<Longrightarrow> handlers_step\<^sup>*\<^sup>* (m, rs) (m', rs[t := Ended out])"
proof (induction r arbitrary: m rs)
  case (Ended r)
  then have "rs[t := Ended out] = rs" and "m' = m" using list_update_id [of rs t] by simp_all
  then show ?case by simp
next
  case (Piece f k)
  have "handlers_step (m, rs) (f m, rs[t := k m])" using Piece.prems by (intro piece)
  moreover have "handlers_step\<^sup>*\<^sup>* (f m, rs[t := k m]) (m', rs[t := k m, t := Ended out])"
    by (rule Piece.IH) (use Piece.prems in simp_all)
  ultimately show ?case by simp
qed

lemma do_steps:
  "t < length rs \<Longrightarrow> rs ! t = do_then fs r \<Longrightarrow> handlers_step\<^sup>*\<^sup>* (m, rs) (fold (\<lambda>f. f) fs m, rs[t := r])"
proof (induction fs arbitrary: m rs)
  case Nil
  then have "rs[t := r] = rs" using list_update_id [of rs t] by simp
  then show ?case by simp
next
  case (Cons f fs)
  have "handlers_step (m, rs) (f m, rs[t := do_then fs r])"
    using piece [of t rs f "\<lambda>_. do_then fs r" m] Cons.prems by simp
  moreover have "handlers_step\<^sup>*\<^sup>* (f m, rs[t := do_then fs r]) (fold (\<lambda>f. f) fs (f m), rs[t := do_then fs r, t := r])"
    by (rule Cons.IH) (use Cons.prems in simp_all)
  ultimately show ?case by simp
qed

text \<open>The first handler does \<open>part\<close>, the second all it does, the first the rest.\<close>

lemma one_inside_the_other:
  assumes "handlers_step\<^sup>*\<^sup>* (m, [r, s]) (m1, [rest, s])" and "served_alone s m1 = (out2, m2)"
    and "served_alone rest m2 = (out1, m')"
  shows "can_end [r, s] m [out1, out2] m'"
proof -
  have "handlers_step\<^sup>*\<^sup>* (m1, [rest, s]) (m2, [rest, Ended out2])"
    using alone_steps [of 1 "[rest, s]" s m1 out2 m2] assms(2) by simp
  moreover have "handlers_step\<^sup>*\<^sup>* (m2, [rest, Ended out2]) (m', [Ended out1, Ended out2])"
    using alone_steps [of 0 "[rest, Ended out2]" rest m2 out1 m'] assms(3) by simp
  ultimately show ?thesis using assms(1) by (simp add: can_end_def)
qed

subsection \<open>Two settings of a mode\<close>

lemma swap_fields [simp]:
  "flags (swap_exports env i old new m) = flags m" "mock_connected (swap_exports env i old new m) = mock_connected m"
proof -
  have one: "flags (ignoring (export env h p j) m) = flags m" "mock_connected (ignoring (export env h p j) m) = mock_connected m"
    for h p j m
    by (simp_all add: ignoring_def export_def)
  have all: "flags (fold (\<lambda>j. ignoring (export env h p j)) js m) = flags m
      \<and> mock_connected (fold (\<lambda>j. ignoring (export env h p j)) js m) = mock_connected m" for h p js m
    by (induction js arbitrary: m) (simp_all add: one)
  show "flags (swap_exports env i old new m) = flags m" "mock_connected (swap_exports env i old new m) = mock_connected m"
    by (simp_all add: swap_exports_def Let_def export_device_introspection_def one all)
qed

lemma emitted_flags [simp]:
  "flags (emit_interfaces_removed p js m) = flags m" "exports (emit_interfaces_removed p js m) = exports m"
  "exports (device_update i f m) = exports m"
  "mock_connected (emit_interfaces_added p ifaces m) = mock_connected m"
  by (simp_all add: emit_interfaces_removed_def emit_interfaces_added_def emit_def device_update_def)

lemma announce_fields:
  "devices (fold (\<lambda>g. g) (announce_steps f i old new) m) = devices m
   \<and> flags (fold (\<lambda>g. g) (announce_steps f i old new) m) = flags m
   \<and> exports (fold (\<lambda>g. g) (announce_steps f i old new) m) = exports m"
  by (simp add: announce_steps_def Let_def)

lemma switch_fields:
  "flags (switch_device_mode env i mode m) = flags m"
  by (simp add: switch_device_mode_def Let_def)

text \<open>What the exports of a change from station to access point leave at the path, whatever was there.\<close>

lemma swap_to_access_point:
  assumes "me_path_ok env (md_path new)" and "HasStation old" and "\<not> HasAccessPoint old" and "\<not> HasStation new" and "HasAccessPoint new"
  shows "exports (swap_exports env i old new m) (md_path new) IntrospectableIface =
      Some (IntrospectStub (device_interfaces False False True))"
    and "exports (swap_exports env i old new m) (md_path new) IwdStationIface = None"
    and "exports (swap_exports env i old new m) (md_path new) PropertiesIface = exports m (md_path new) PropertiesIface"
  using assms
  by (simp_all add: swap_exports_def removed_interfaces_def Let_def ignoring_export export_device_introspection_def)

lemma switch_keeps_properties:
  assumes "me_path_ok env p" and "md_path (devices m ! i) = p"
  shows "exports (switch_device_mode env i mode m) p PropertiesIface = exports m p PropertiesIface"
  using assms
  by (simp add: switch_device_mode_def swap_exports_def removed_interfaces_def Let_def ignoring_export
      export_device_introspection_def)

text \<open>The state in which the first setting has left the lock, and the exports that it still has to do.\<close>

lemma first_setting:
  assumes "i < length (devices m)" and "mock_connected m" and "HasStation (devices m ! i)"
  defines "m1 \<equiv> emit_properties_changed (md_path (devices m ! i)) IwdDeviceIface [(''Mode'', VStr ''ap'')] []
     (device_update i (\<lambda>d. d\<lparr>md_mode := ''ap''\<rparr>) m)"
  defines "old \<equiv> devices m1 ! i" and "new \<equiv> mode_interfaces (flags m) ''ap'' (devices m1 ! i)"
  shows "handlers_step\<^sup>*\<^sup>* (m, [set_mode_run env i ''ap'', s])
     (device_update i (mode_interfaces (flags m) ''ap'') m1,
      [do_then (export_steps env (flags m) i old new @ announce_steps (flags m) i old new) (Ended (Inr ())), s])"
proof -
  let ?steps = "export_steps env (flags m) i old new @ announce_steps (flags m) i old new"
  have device: "devices m1 ! i = (devices m ! i)\<lparr>md_mode := ''ap''\<rparr>" using assms(1) by (simp add: m1_def device_update_def)
  have fields: "flags m1 = flags m" "mock_connected m1" using assms(2) by (simp_all add: m1_def)
  have "fold (\<lambda>f. f) [device_update i (\<lambda>d. d\<lparr>md_mode := ''ap''\<rparr>),
      \<lambda>m. emit_properties_changed (md_path (devices m ! i)) IwdDeviceIface [(''Mode'', VStr ''ap'')] [] m] m = m1"
    using assms(1) by (simp add: m1_def device_update_def)
  then have "handlers_step\<^sup>*\<^sup>* (m, [set_mode_run env i ''ap'', s]) (m1, [switch_mode_run env i ''ap'', s])"
    using do_steps [of 0 "[set_mode_run env i ''ap'', s]", OF _ _, of _ _ m] unfolding set_mode_run_def
    by (metis (no_types, lifting) length_Cons list_update_code(2) nth_Cons_0 zero_less_Suc)
  moreover have "HasStation old" "\<not> HasStation new"
    using assms(3) by (simp_all add: old_def new_def device mode_interfaces_def)
  then have "handlers_step (m1, [switch_mode_run env i ''ap'', s])
      (device_update i (mode_interfaces (flags m) ''ap'') m1, [do_then ?steps (Ended (Inr ())), s])"
    using piece [of 0 "[switch_mode_run env i ''ap'', s]" "\<lambda>m. device_update i (mode_interfaces (flags m) ''ap'') m" _ m1]
    by (simp add: switch_mode_run_def Let_def fields old_def new_def)
  ultimately show ?thesis by simp
qed

text \<open>The second setting runs whole, from the state in which the first has left the lock.\<close>

lemma second_setting:
  assumes "i < length (devices m)" and "mock_connected m" and "me_path_ok env (md_path (devices m ! i))"
    and "exports m (md_path (devices m ! i)) PropertiesIface = Some (DeviceHandler i)"
  obtains m' where "served_alone (set_mode_run env i mode) m = (Inr (), m')" and "flags m' = flags m"
    and "devices m' = (devices m)[i := mode_interfaces (flags m) mode ((devices m ! i)\<lparr>md_mode := mode\<rparr>)]"
    and "exports m' (md_path (devices m ! i)) PropertiesIface = Some (DeviceHandler i)"
proof -
  let ?p = "md_path (devices m ! i)"
  let ?m1 = "emit_properties_changed ?p IwdDeviceIface [(''Mode'', VStr mode)] [] (device_update i (\<lambda>d. d\<lparr>md_mode := mode\<rparr>) m)"
  have at_i: "devices ?m1 ! i = (devices m ! i)\<lparr>md_mode := mode\<rparr>" using assms(1) by (simp add: device_update_def)
  have same: "mock_connected ?m1" "me_path_ok env (md_path (devices ?m1 ! i))" "flags ?m1 = flags m"
    using assms(2,3) by (simp_all only: at_i) simp_all
  show ?thesis
  proof (rule that)
    show "served_alone (set_mode_run env i mode) m = (Inr (), switch_device_mode env i mode ?m1)"
      by (simp add: set_mode_alone device_set_def)
    show "flags (switch_device_mode env i mode ?m1) = flags m" by (simp add: switch_fields)
    show "devices (switch_device_mode env i mode ?m1) =
        (devices m)[i := mode_interfaces (flags m) mode ((devices m ! i)\<lparr>md_mode := mode\<rparr>)]"
      unfolding devices_switch [OF same(1,2)] at_i same(3) by (simp add: device_update_def)
    show "exports (switch_device_mode env i mode ?m1) ?p PropertiesIface = Some (DeviceHandler i)"
      using switch_keeps_properties [OF assms(3), of ?m1 i mode] assms(4) by (simp add: at_i del: emissions_keep)
  qed
qed

lemma overlapped_settings:
  assumes "i < length (devices m)" and "mock_connected m" and "me_path_ok env (md_path (devices m ! i))"
    and "exports m (md_path (devices m ! i)) PropertiesIface = Some (DeviceHandler i)"
    and "HasStation (devices m ! i)" and "\<not> HasAccessPoint (devices m ! i)"
    and "\<not> omitStation (flags m)" and "\<not> omitAccessPoint (flags m)"
  obtains m' where "can_end [set_mode_run env i ''ap'', set_mode_run env i ''station''] m [Inr (), Inr ()] m'"
    and "flags m' = flags m" and "length (devices m') = length (devices m)"
    and "md_path (devices m' ! i) = md_path (devices m ! i)" and "md_mode (devices m' ! i) = ''station''"
    and "HasStation (devices m' ! i)" and "\<not> HasAccessPoint (devices m' ! i)"
    and "exports m' (md_path (devices m ! i)) IntrospectableIface = Some (IntrospectStub (device_interfaces False False True))"
    and "exports m' (md_path (devices m ! i)) PropertiesIface = Some (DeviceHandler i)"
proof -
  let ?p = "md_path (devices m ! i)"
  define ma where "ma = emit_properties_changed ?p IwdDeviceIface [(''Mode'', VStr ''ap'')] []
     (device_update i (\<lambda>d. d\<lparr>md_mode := ''ap''\<rparr>) m)"
  define old where "old = devices ma ! i"
  define new where "new = mode_interfaces (flags m) ''ap'' old"
  define mb where "mb = device_update i (mode_interfaces (flags m) ''ap'') ma"
  let ?rest = "do_then (export_steps env (flags m) i old new @ announce_steps (flags m) i old new) (Ended (Inr ()))"
  have first: "handlers_step\<^sup>*\<^sup>* (m, [set_mode_run env i ''ap'', set_mode_run env i ''station'']) (mb, [?rest, set_mode_run env i ''station''])"
    unfolding mb_def ma_def old_def new_def by (rule first_setting) (use assms in simp_all)
  have old: "old = (devices m ! i)\<lparr>md_mode := ''ap''\<rparr>" using assms(1) by (simp add: old_def ma_def device_update_def)
  have new: "md_path new = ?p" "HasStation old" "\<not> HasAccessPoint old" "\<not> HasStation new" "HasAccessPoint new"
    using assms by (simp_all add: new_def old mode_interfaces_def access_point_exported_def)
  have mb: "devices mb = (devices m)[i := new]" "flags mb = flags m" "mock_connected mb" "exports mb = exports m"
    using assms(1,2) by (simp_all add: mb_def ma_def device_update_def new_def old)
  have at_i: "devices mb ! i = new" using assms(1) by (simp add: mb)
  have "i < length (devices mb)" "me_path_ok env (md_path (devices mb ! i))"
    "exports mb (md_path (devices mb ! i)) PropertiesIface = Some (DeviceHandler i)"
    using assms(1,3,4) by (simp_all add: at_i new(1) mb)
  then obtain md where run: "served_alone (set_mode_run env i ''station'') mb = (Inr (), md)" and "flags md = flags mb"
    and "devices md = (devices mb)[i := mode_interfaces (flags mb) ''station'' ((devices mb ! i)\<lparr>md_mode := ''station''\<rparr>)]"
    and "exports md (md_path (devices mb ! i)) PropertiesIface = Some (DeviceHandler i)"
    using second_setting [of i mb env "''station''"] mb(3) by blast
  then have md: "flags md = flags m"
    "devices md = (devices m)[i := mode_interfaces (flags m) ''station'' (new\<lparr>md_mode := ''station''\<rparr>)]"
    "exports md ?p PropertiesIface = Some (DeviceHandler i)"
    using at_i mb new(1) by simp_all
  define m' where "m' = fold (\<lambda>g. g) (announce_steps (flags m) i old new) (swap_exports env i old new md)"
  have "served_alone ?rest md = (Inr (), m')"
    using exports_alone [of env md i old new] by (simp add: m'_def md)
  note ends = one_inside_the_other [OF first run this]
  have ok: "me_path_ok env (md_path new)" using assms(3) new(1) by simp
  note swapped = swap_to_access_point [OF ok new(2-5), of i md, unfolded new(1)]
  show ?thesis
  proof (rule that [OF ends])
    show "flags m' = flags m" by (simp add: m'_def announce_fields md)
  qed (use assms(1,7) new(1) swapped md(3) in
      \<open>simp_all add: m'_def announce_fields md(2) mode_interfaces_def station_exported_def\<close>)
qed

text \<open>
  C17: Two settings of a device's mode that overlap in the mock iwd. In any state of a run whose device is in the mode
  \<open>station\<close>, a \<open>SetMode\<close> to \<open>ap\<close> and one to \<open>station\<close> served at the same time can both succeed and leave a device
  whose mode reads \<open>station\<close> and whose entry in the object manager is that of a station, while the library opens an
  access point at its path and no station. Setting the mode \<open>station\<close> again succeeds and does not bring the station back.
\<close>

theorem overlapping_mode_settings_disagree:
  assumes "mock_reach env m" and "decodes g" and "i \<in> set (exportedDevices m)"
    and "md_mode (devices m ! i) = ''station''" and "\<not> omitStation (flags m)" and "\<not> omitAccessPoint (flags m)"
    and "iwd_new_device g (mock_conn env me) add (md_path (devices m ! i)) m0 = (Inr d, m1)"
  shows "\<exists>m'. can_end [set_mode_run env i ''ap'', set_mode_run env i ''station''] m [Inr (), Inr ()] m'
    \<and> core_device_mode (device_on g d) m' = (Inr ''station'', m')
    \<and> map fst (snd (device_entry (devices m' ! i))) = [IwdDeviceIface, IwdStationIface]
    \<and> (\<exists>x. iwd_new_access_point g (mock_conn env me) add (md_path (devices m ! i)) m' = (Inr x, m'))
    \<and> (\<nexists>s. iwd_new_station g (mock_conn env me) add (md_path (devices m ! i)) m' = (Inr s, m'))
    \<and> (\<exists>m''. core_device_set_mode ''station'' (device_on g d) m' = (Inr (), m'')
         \<and> (\<nexists>s. iwd_new_station g (mock_conn env me) add (md_path (devices m ! i)) m'' = (Inr s, m'')))"
proof -
  let ?p = "md_path (devices m ! i)"
  note dev = reach_device [OF assms(1,3)] and props = device_handlers [OF assms(1,3)]
  have station: "HasStation (devices m ! i)" "\<not> HasAccessPoint (devices m ! i)"
    using reach_mode [OF assms(1,3)] assms(4,5) by (simp_all add: station_exported_def)
  obtain m' where ends: "can_end [set_mode_run env i ''ap'', set_mode_run env i ''station''] m [Inr (), Inr ()] m'"
    and d: "flags m' = flags m" "length (devices m') = length (devices m)"
      "md_path (devices m' ! i) = ?p" "md_mode (devices m' ! i) = ''station''" "HasStation (devices m' ! i)" "\<not> HasAccessPoint (devices m' ! i)"
    and stub: "exports m' ?p IntrospectableIface = Some (IntrospectStub (device_interfaces False False True))"
    and props': "exports m' ?p PropertiesIface = Some (DeviceHandler i)"
    by (rule overlapped_settings [OF dev(1,3,2) props station assms(5,6)])
  have no_station: "\<nexists>s. iwd_new_station g (mock_conn env me) add ?p m'' = (Inr s, m'')" if "exports m'' = exports m'" for m''
    unfolding client_opens_station that stub by (simp add: device_interfaces_members)
  let ?m1 = "emit_properties_changed (md_path (devices m' ! i)) IwdDeviceIface [(''Mode'', VStr ''station'')] []
       (device_update i (\<lambda>d. d\<lparr>md_mode := ''station''\<rparr>) m')"
  let ?m2 = "switch_device_mode env i ''station'' ?m1"
  have again: "core_device_set_mode ''station'' (device_on g d) m' = (Inr (), ?m2)"
    unfolding client_sets_mode [OF assms(7) props'] by (simp add: mode_defs valid_mode_def)
  have same: "exports ?m2 = exports m'"
    using d dev(1) assms(5)
    by (simp add: switch_device_mode_def Let_def mode_interfaces_def station_exported_def device_update_def)
  have reads: "core_device_mode (device_on g d) m' = (Inr ''station'', m')"
    using client_reads_mode [OF assms(2,7) props'] by (simp add: d mode_defs valid_mode_def)
  have opens: "\<exists>x. iwd_new_access_point g (mock_conn env me) add ?p m' = (Inr x, m')"
    unfolding iwd_new_access_point_def client_opens stub by (simp add: device_interfaces_members access_point_iwd_def)
  have "map fst (snd (device_entry (devices m' ! i))) = [IwdDeviceIface, IwdStationIface]"
    using d(5,6) by (simp add: device_entry_def)
  note entry = this
  have later: "\<exists>m''. core_device_set_mode ''station'' (device_on g d) m' = (Inr (), m'')
      \<and> (\<nexists>s. iwd_new_station g (mock_conn env me) add ?p m'' = (Inr s, m''))"
    by (rule exI [of _ ?m2], rule conjI [OF again no_station [OF same]])
  show ?thesis
    by (rule exI [of _ m'], intro conjI) (rule ends reads entry opens no_station [OF refl] later)+
qed

theorem overlapping_mode_settings_disagree_witness:
  "\<exists>(d :: (nat, mock) iwd_device) m'.
     can_end [set_mode_run plain_env 0 ''ap'', set_mode_run plain_env 0 ''station''] device_mock [Inr (), Inr ()] m'
     \<and> core_device_mode (device_on (mirror_godbus (\<lambda>_. True)) d) m' = (Inr ''station'', m')
     \<and> (\<nexists>s :: (nat, mock) iwd_station. iwd_new_station (mirror_godbus (\<lambda>_. True)) (mock_conn plain_env '':1.7'') None devicePath m' = (Inr s, m'))"
proof -
  let ?g = "mirror_godbus (\<lambda>_. True)" and ?conn = "mock_conn plain_env '':1.7''"
  have i: "0 \<in> set (exportedDevices device_mock)" by (simp add: device_mock_fields)
  have path: "md_path (devices device_mock ! 0) = devicePath" by (simp add: device_mock_fields device_fixtures_def)
  obtain d :: "(nat, mock) iwd_device" where d: "iwd_new_device ?g ?conn None (md_path (devices device_mock ! 0)) device_mock = (Inr d, device_mock)"
    using device_objects [OF device_mock_reach i, where g = ?g and me = "'':1.7''" and add = None, unfolded Let_def] by blast
  have "md_mode (devices device_mock ! 0) = ''station''" "\<not> omitStation (flags device_mock)" "\<not> omitAccessPoint (flags device_mock)"
    by (simp_all add: device_mock_fields device_fixtures_def device_flags_def plain_flags_def)
  from overlapping_mode_settings_disagree [OF device_mock_reach mirror_decodes i this d, unfolded path] show ?thesis by blast
qed

subsection \<open>Two connections to one network\<close>

text \<open>The first connection has its answer from the agent and has found the network unknown.\<close>

lemma first_connection:
  assumes "i < length (networks m)" and "asks_agent (networks m ! i)" and "has_agent m"
    and "agent_answer env (networks m ! i) m = Inr securedNetworkPassphrase"
  shows "handlers_step\<^sup>*\<^sup>* (m, [connect_run env i, s])
     (network_update i (\<lambda>n. n\<lparr>mn_connected := True\<rparr>) (m\<lparr>questions := questions m + 1\<rparr>),
      [provision_rest env i (tell_connected i), s])"
proof -
  let ?n = "networks m ! i" and ?m1 = "m\<lparr>questions := questions m + 1\<rparr>"
  let ?m2 = "network_update i (\<lambda>n. n\<lparr>mn_connected := True\<rparr>) ?m1"
  have step: "handlers_step\<^sup>*\<^sup>* (m, [Piece f k, s]) (m', rs)" if "handlers_step\<^sup>*\<^sup>* (f m, [k m, s]) (m', rs)" for m f k m' rs
    using piece [of 0 "[Piece f k, s]" f k m] that by (simp add: converse_rtranclp_into_rtranclp)
  have n: "mn_type ?n \<noteq> ''open''" "mn_known ?n = ''''" "ar_set (agents m)" "ar_bound (agents m)"
    using assms(2,3) by (simp_all add: asks_agent_def has_agent_def)
  have answer: "me_ask env (ar_sender (agents m)) (ar_path (agents m)) (mn_path ?n) (questions m) = Inr securedNetworkPassphrase"
    using assms(4) by (simp add: agent_answer_def)
  have at_i: "networks ?m2 ! i = ?n\<lparr>mn_connected := True\<rparr>" using assms(1) by (simp add: network_at_update)
  have "handlers_step\<^sup>*\<^sup>* (?m2, [provision_run env i (tell_connected i), s]) (?m2, [provision_rest env i (tell_connected i), s])"
    unfolding provision_run_def by (rule step) (use at_i n in simp)
  then have "handlers_step\<^sup>*\<^sup>* (?m1, [joined_run env i, s]) (?m2, [provision_rest env i (tell_connected i), s])"
    unfolding joined_run_def by (intro step) (simp add: n)
  then show ?thesis
    unfolding connect_run_def request_run_def Let_def by (intro step) (simp add: n answer step)
qed

lemma provision_rest_alone:
  assumes "me_path_ok env (mk_path (new_known (networks m ! i)))" and "mock_connected m"
  shows "served_alone (provision_rest env i (tell_connected i)) m = (Inr (), m') \<Longrightarrow>
      exportedKnownNetworks m' = exportedKnownNetworks m @ [length (knowns m)]
      \<and> knowns m' = knowns m @ [new_known (networks m ! i)] \<and> mock_connected m'
      \<and> new_known (networks m' ! i) = new_known (networks m ! i)
      \<and> exports m' (mk_path (new_known (networks m ! i))) IwdKnownNetworkIface = Some (KnownNetworkHandler (length (knowns m)))"
    and "fst (served_alone (provision_rest env i (tell_connected i)) m) = Inr ()"
proof -
  have fields: "exportedKnownNetworks (emit_properties_changed p j props gone m) = exportedKnownNetworks m"
    "exportedKnownNetworks (emit_interfaces_added p ifaces m) = exportedKnownNetworks m"
    "exportedKnownNetworks (network_update i f m) = exportedKnownNetworks m"
    for p j props gone m ifaces f
    by (simp_all add: emit_properties_changed_def emit_interfaces_added_def emit_def network_update_def)
  have name: "new_known (networks (network_update i (\<lambda>n. n\<lparr>mn_known := x\<rparr>) m) ! i) = new_known (networks m ! i)" for x m
    by (cases "i < length (networks m)")
      (simp_all add: network_update_def list_update_beyond new_known_def known_network_path_for_def)
  show "served_alone (provision_rest env i (tell_connected i)) m = (Inr (), m') \<Longrightarrow>
      exportedKnownNetworks m' = exportedKnownNetworks m @ [length (knowns m)]
      \<and> knowns m' = knowns m @ [new_known (networks m ! i)] \<and> mock_connected m'
      \<and> new_known (networks m' ! i) = new_known (networks m ! i)
      \<and> exports m' (mk_path (new_known (networks m ! i))) IwdKnownNetworkIface = Some (KnownNetworkHandler (length (knowns m)))"
    and "fst (served_alone (provision_rest env i (tell_connected i)) m) = Inr ()"
    using assms by (auto simp: provision_rest_def tell_connected_def Let_def export_def fields name)
qed

lemma connect_asks:
  assumes "i < length (networks m)" and "asks_agent (networks m ! i)" and "has_agent m"
    and "agent_answer env (networks m ! i) m = Inr securedNetworkPassphrase"
  shows "served_alone (connect_run env i) m =
     served_alone (provision_rest env i (tell_connected i))
       (network_update i (\<lambda>n. n\<lparr>mn_connected := True\<rparr>) (m\<lparr>questions := questions m + 1\<rparr>))"
  using assms
  by (simp add: connect_run_def request_run_def Let_def joined_run_def provision_run_def connect_terms network_at_update)

lemma remove_anywhere:
  assumes "mock_connected m" and "mk_path (knowns m ! k) = p" and "me_path_ok env p"
  shows "exportedKnownNetworks (remove_known_network env k m) = filter (\<lambda>j. j \<noteq> k) (exportedKnownNetworks m)
    \<and> exports (remove_known_network env k m) p IwdKnownNetworkIface = None"
proof -
  have keep: "exportedKnownNetworks (emit_interfaces_removed q js m') = exportedKnownNetworks m'"
    "exports (emit_interfaces_removed q js m') = exports m'" for q js m'
    by (simp_all add: emit_interfaces_removed_def emit_def)
  show ?thesis
    using assms
    by (simp add: remove_known_network_def Let_def fold_emit_fields fold_network_update unexport_known fold_emit_connected keep)
qed

text \<open>
  Two \<open>Network.Connect\<close> that overlap on a secured network that is not known, in any state of a run with an agent that gives
  the right passphrase twice: both can succeed and register the known network twice under one path. Forgetting it
  then takes one of the two away with the exports of both: the object manager still lists a known network
  that no call can reach.
\<close>

theorem overlapping_connections_register_twice:
  assumes "mock_reach env m" and "exports m path IwdNetworkIface = Some (NetworkHandler i)"
    and "asks_agent (networks m ! i)" and "has_agent m" and "agent_answer env (networks m ! i) m = Inr securedNetworkPassphrase"
    and "agent_answer env (networks m ! i) (m\<lparr>questions := questions m + 1\<rparr>) = Inr securedNetworkPassphrase"
    and "me_path_ok env (known_network_path_for (networks m ! i))"
  defines "p \<equiv> known_network_path_for (networks m ! i)" and "a \<equiv> length (knowns m)"
  shows "\<exists>m'. can_end [connect_run env i, connect_run env i] m [Inr (), Inr ()] m'
    \<and> exportedKnownNetworks m' = exportedKnownNetworks m @ [a, a + 1]
    \<and> mk_path (knowns m' ! a) = p \<and> mk_path (knowns m' ! (a + 1)) = p
    \<and> exports m' p IwdKnownNetworkIface = Some (KnownNetworkHandler (a + 1))
    \<and> a \<in> set (exportedKnownNetworks (remove_known_network env (a + 1) m'))
    \<and> exports (remove_known_network env (a + 1) m') p IwdKnownNetworkIface = None"
proof -
  let ?n = "networks m ! i"
  let ?join = "\<lambda>m. network_update i (\<lambda>n. n\<lparr>mn_connected := True\<rparr>) (m\<lparr>questions := questions m + 1\<rparr>)"
  let ?rest = "provision_rest env i (tell_connected i)"
  have i: "i < length (networks m)" by (rule reach_networks(1) [OF assms(1,2)])
  have conn: "mock_connected m" using reach_inv [OF assms(1)] by (simp add: mock_inv_def)
  have at_i: "networks (?join m) ! i = ?n\<lparr>mn_connected := True\<rparr>" using i by (simp add: network_at_update)
  have known: "new_known (networks (?join m) ! i) = new_known ?n" "new_known (networks (?join (?join m)) ! i) = new_known ?n"
    using i by (simp_all add: at_i network_at_update new_known_def known_network_path_for_def)
  have path: "mk_path (new_known ?n) = p" by (simp add: new_known_def p_def)
  have "served_alone (connect_run env i) (?join m) = served_alone ?rest (?join (?join m))"
    using connect_asks [of i "?join m" env] i assms(3-6) by (simp add: at_i connect_terms network_update_def)
  moreover obtain r2 mb where second: "served_alone ?rest (?join (?join m)) = (r2, mb)"
    by (cases "served_alone ?rest (?join (?join m))")
  ultimately have run2: "served_alone (connect_run env i) (?join m) = (r2, mb)" by simp
  have r2: "r2 = Inr ()" using provision_rest_alone(2) [of env "?join (?join m)" i] assms(7) conn second known path p_def
    by simp
  have mb: "exportedKnownNetworks mb = exportedKnownNetworks m @ [a]" "knowns mb = knowns m @ [new_known ?n]" "mock_connected mb"
    "new_known (networks mb ! i) = new_known ?n"
    using provision_rest_alone(1) [of env "?join (?join m)" i mb] assms(7) conn second known path r2 a_def p_def
    by (simp_all add: network_update_def)
  obtain r1 m' where third: "served_alone ?rest mb = (r1, m')" by (cases "served_alone ?rest mb")
  have r1: "r1 = Inr ()" using provision_rest_alone(2) [of env mb i] assms(7) mb third path p_def by simp
  have m': "exportedKnownNetworks m' = exportedKnownNetworks m @ [a, a + 1]" "knowns m' = knowns m @ [new_known ?n, new_known ?n]"
    "mock_connected m'" "exports m' p IwdKnownNetworkIface = Some (KnownNetworkHandler (a + 1))"
    using provision_rest_alone(1) [of env mb i m'] assms(7) mb third path r1 a_def p_def by simp_all
  have ends: "can_end [connect_run env i, connect_run env i] m [Inr (), Inr ()] m'"
    by (rule one_inside_the_other [OF first_connection [OF i assms(3,4,5)] run2 [unfolded r2] third [unfolded r1]])
  have at: "knowns m' ! a = new_known ?n" "knowns m' ! (a + 1) = new_known ?n" by (simp_all add: m' nth_append a_def)
  have removed: "exportedKnownNetworks (remove_known_network env (a + 1) m') = filter (\<lambda>j. j \<noteq> a + 1) (exportedKnownNetworks m')"
    "exports (remove_known_network env (a + 1) m') p IwdKnownNetworkIface = None"
    using remove_anywhere [of m' "a + 1" p env] m'(3) at path assms(7) p_def by simp_all
  show ?thesis
    by (rule exI [of _ m'], intro conjI) (use ends m' at path removed in simp_all)
qed

end
