(* ===== verification/Logging.thy ===== *)
theory Logging
  imports Go_Prelude
begin

text \<open>
  The logger the library's packages share, \<open>internal/logging\<close>: the context that carries it, the logger on
  \<open>log/slog\<close>, the one that discards everything and the one of the tests. Of \<open>slog\<close> the model has what the code uses:
  a handler drops a record below its level, adds the attributes of \<open>With\<close> to it and appends one rendered line to its
  writer. The line itself, which holds the time, is the parameter \<open>render\<close>.
\<close>

subsection \<open>Loggers (stdlogger.go, noplogger.go, testlogger.go)\<close>

text \<open>\<open>io.Writer\<close>: the standard error, a writer of the caller, the buffer of a test logger.\<close>

datatype writer = Stderr | Writer nat | Buffer nat

type_synonym attrs = "(string \<times> string) list"
type_synonym render = "bool \<Rightarrow> int \<Rightarrow> string \<Rightarrow> attrs \<Rightarrow> string"

definition LevelDebug :: int where "LevelDebug = - 4"
definition LevelInfo :: int where "LevelInfo = 0"
definition LevelWarn :: int where "LevelWarn = 4"
definition LevelError :: int where "LevelError = 8"

lemmas level_defs = LevelDebug_def LevelInfo_def LevelWarn_def LevelError_def

record log_config =
  lc_writer :: "writer option"
  lc_level :: "int option"
  lc_json :: bool

record slog_logger =
  sl_writer :: writer
  sl_level :: int
  sl_json :: bool
  sl_attrs :: attrs

datatype logger = NopLogger | StdLogger slog_logger | TestLogger nat slog_logger

record log_world =
  lw_written :: "writer \<Rightarrow> string"
  lw_buffers :: nat

text \<open>\<open>New\<close>: a nil writer is the standard error, a nil level is \<open>LevelInfo\<close>.\<close>

definition new_slog :: "log_config \<Rightarrow> slog_logger" where
  "new_slog c =
     \<lparr>sl_writer = (case lc_writer c of None \<Rightarrow> Stderr | Some w \<Rightarrow> w),
      sl_level = (case lc_level c of None \<Rightarrow> LevelInfo | Some l \<Rightarrow> l),
      sl_json = lc_json c, sl_attrs = []\<rparr>"

definition new_logger :: "log_config \<Rightarrow> logger" where
  "new_logger c = StdLogger (new_slog c)"

definition slog_with :: "attrs \<Rightarrow> slog_logger \<Rightarrow> slog_logger" where
  "slog_with args s = s\<lparr>sl_attrs := sl_attrs s @ args\<rparr>"

definition slog_log :: "render \<Rightarrow> slog_logger \<Rightarrow> int \<Rightarrow> string \<Rightarrow> attrs \<Rightarrow> log_world \<Rightarrow> log_world" where
  "slog_log render s level msg args w =
     (if level < sl_level s then w
      else w\<lparr>lw_written := (lw_written w)(sl_writer s := lw_written w (sl_writer s) @
                              render (sl_json s) level msg (sl_attrs s @ args))\<rparr>)"

definition new_test_logger :: "log_world \<Rightarrow> logger \<times> log_world" where
  "new_test_logger w =
     (let b = lw_buffers w in
      (TestLogger b (new_slog \<lparr>lc_writer = Some (Buffer b), lc_level = Some LevelDebug, lc_json = False\<rparr>),
       w\<lparr>lw_written := (lw_written w)(Buffer b := ''''), lw_buffers := b + 1\<rparr>))"

fun logger_log :: "render \<Rightarrow> logger \<Rightarrow> int \<Rightarrow> string \<Rightarrow> attrs \<Rightarrow> log_world \<Rightarrow> log_world" where
  "logger_log render NopLogger level msg args w = w"
| "logger_log render (StdLogger s) level msg args w = slog_log render s level msg args w"
| "logger_log render (TestLogger b s) level msg args w = slog_log render s level msg args w"

definition logger_debug :: "render \<Rightarrow> logger \<Rightarrow> string \<Rightarrow> attrs \<Rightarrow> log_world \<Rightarrow> log_world" where
  "logger_debug render l = logger_log render l LevelDebug"

definition logger_info :: "render \<Rightarrow> logger \<Rightarrow> string \<Rightarrow> attrs \<Rightarrow> log_world \<Rightarrow> log_world" where
  "logger_info render l = logger_log render l LevelInfo"

definition logger_warn :: "render \<Rightarrow> logger \<Rightarrow> string \<Rightarrow> attrs \<Rightarrow> log_world \<Rightarrow> log_world" where
  "logger_warn render l = logger_log render l LevelWarn"

definition logger_error :: "render \<Rightarrow> logger \<Rightarrow> string \<Rightarrow> attrs \<Rightarrow> log_world \<Rightarrow> log_world" where
  "logger_error render l = logger_log render l LevelError"

fun logger_with :: "attrs \<Rightarrow> logger \<Rightarrow> logger" where
  "logger_with args NopLogger = NopLogger"
| "logger_with args (StdLogger s) = StdLogger (slog_with args s)"
| "logger_with args (TestLogger b s) = TestLogger b (slog_with args s)"

text \<open>\<open>String\<close> and \<open>Bytes\<close> of a test logger.\<close>

definition test_text :: "nat \<Rightarrow> log_world \<Rightarrow> string" where
  "test_text b w = lw_written w (Buffer b)"

subsection \<open>The context (logging.go)\<close>

datatype context_key = LoggerKey | OtherKey string
datatype context_value = LoggerValue logger | OtherValue string

text \<open>A context is its chain of values, the innermost first; \<open>None\<close> is a nil context.\<close>

type_synonym go_context = "(context_key \<times> context_value) list option"

text \<open>\<open>context.WithValue\<close> panics on a nil parent: \<open>None\<close>. A nil logger is \<open>None\<close> as an argument.\<close>

definition with_value :: "context_key \<Rightarrow> context_value \<Rightarrow> go_context \<Rightarrow> go_context option" where
  "with_value k v ctx = (case ctx of None \<Rightarrow> None | Some vs \<Rightarrow> Some (Some ((k, v) # vs)))"

definition with_logger :: "logger option \<Rightarrow> go_context \<Rightarrow> go_context option" where
  "with_logger l ctx =
     with_value LoggerKey (LoggerValue (case l of None \<Rightarrow> NopLogger | Some l \<Rightarrow> l)) ctx"

definition from_context :: "go_context \<Rightarrow> logger" where
  "from_context ctx =
     (case ctx of
        None \<Rightarrow> NopLogger
      | Some vs \<Rightarrow> (case map_of vs LoggerKey of Some (LoggerValue l) \<Rightarrow> l | _ \<Rightarrow> NopLogger))"

subsection \<open>Lemmas\<close>

text \<open>The logger stored last is the one found, whatever other values the context holds.\<close>

lemma from_with_logger:
  "with_logger l ctx = Some ctx' \<Longrightarrow> from_context ctx' = (case l of None \<Rightarrow> NopLogger | Some l \<Rightarrow> l)"
  by (auto simp: with_logger_def with_value_def from_context_def split: option.splits)

lemma from_other_value: "with_value (OtherKey k) v ctx = Some ctx' \<Longrightarrow> from_context ctx' = from_context ctx"
  by (auto simp: with_value_def from_context_def split: option.splits)

text \<open>A logger writes a record exactly when its level is reached, and to no writer but its own.\<close>

lemma slog_log_written:
  "lw_written (slog_log render s level msg args w) x =
     lw_written w x @ (if x = sl_writer s \<and> sl_level s \<le> level then render (sl_json s) level msg (sl_attrs s @ args) else '''')"
  by (auto simp: slog_log_def)

text \<open>
  Whatever loggers \<open>With\<close> derives from one test logger, and in whatever order they are called: its text is the
  records of all of them, none dropped, in the order of the calls.
\<close>

definition log_calls :: "render \<Rightarrow> logger \<Rightarrow> (attrs list \<times> int \<times> string \<times> attrs) list \<Rightarrow> log_world \<Rightarrow> log_world" where
  "log_calls render l = fold (\<lambda>(withs, level, msg, args). logger_log render (fold logger_with withs l) level msg args)"

lemma fold_with_test: "fold logger_with withs (TestLogger b s) = TestLogger b (s\<lparr>sl_attrs := sl_attrs s @ concat withs\<rparr>)"
  by (induction withs arbitrary: s) (simp_all add: slog_with_def)

lemma test_logger_records_every_call:
  assumes "new_test_logger w = (l, w1)" and "\<And>c. c \<in> set calls \<Longrightarrow> LevelDebug \<le> fst (snd c)"
  shows "test_text (lw_buffers w) (log_calls render l calls w1) =
    concat (map (\<lambda>(withs, level, msg, args). render False level msg (concat withs @ args)) calls)"
proof -
  have l: "l = TestLogger (lw_buffers w) (new_slog \<lparr>lc_writer = Some (Buffer (lw_buffers w)), lc_level = Some LevelDebug, lc_json = False\<rparr>)"
    and empty: "test_text (lw_buffers w) w1 = ''''"
    using assms(1) by (auto simp: new_test_logger_def Let_def test_text_def)
  have "test_text (lw_buffers w) (log_calls render l calls w2) = test_text (lw_buffers w) w2 @
      concat (map (\<lambda>(withs, level, msg, args). render False level msg (concat withs @ args)) calls)" for w2
    using assms(2)
  proof (induction calls arbitrary: w2)
    case Nil
    then show ?case by (simp add: log_calls_def)
  next
    case (Cons c calls)
    obtain withs level msg args where c: "c = (withs, level, msg, args)" by (cases c) auto
    have "LevelDebug \<le> level" using Cons.prems [of c] c by simp
    then have "test_text (lw_buffers w) (logger_log render (fold logger_with withs l) level msg args w2) =
        test_text (lw_buffers w) w2 @ render False level msg (concat withs @ args)"
      by (simp add: l fold_with_test test_text_def slog_log_written new_slog_def)
    moreover have "log_calls render l (c # calls) w2 =
        log_calls render l calls (logger_log render (fold logger_with withs l) level msg args w2)"
      by (simp add: log_calls_def c)
    ultimately show ?case using Cons by (simp add: c)
  qed
  from this [of w1] show ?thesis by (simp add: empty)
qed

end
