(* ===== verification/Spec2Isabelle.thy ===== *)
theory Spec2Isabelle
  imports Dispatcher Client_Locks Cli_Queries Error_Text Mock_Races Logging
begin

text \<open>
  Verification library of spiderw, a Go library that talks to the iwd wireless daemon over D-Bus.

  \<^bold>\<open>The program.\<close> Three layers, a composition root and a command line. \<open>internal/iwdbus\<close> turns a godbus connection into
  typed objects: an introspected object makes the calls and dispatches signals, and one wrapper per
  iwd interface reads, writes and decodes properties and calls methods. \<open>internal/core\<close> wraps each of
  these in a facade that checks arguments before the bus is touched, validates and normalises what
  iwd reports, and classifies errors. \<open>internal/connect\<close> builds core objects on a connection and exports
  the two agent objects that iwd calls back. The package \<open>spiderw\<close> on top delegates to core, converts the
  value sets, resolves object paths to names, and owns the connection in a \<open>Client\<close>. The command line dials a
  client, does one thing with it, prints the result and closes it. For the integration tests the repository has a
  second program, a mock of iwd that serves the same objects on the session bus.

  \<^bold>\<open>How it is modelled.\<close> A Go function that returns a value and an error is a value of a sum type, one that
  may touch the bus a function of the world behind the bus (\<open>Go_Prelude\<close>, type \<open>go\<close>); so which operations are
  done, in which order and how often is part of every definition. Nil pointers are \<open>None\<close>; strings are
  lists of bytes; D-Bus values are the datatype \<open>dval\<close>. Structs are records and methods are definitions
  with the Go names, prefixed by layer: \<open>iwd_station_scan\<close>, \<open>core_station_scan\<close>, \<open>public_station_scan\<close>.
  godbus is a parameter: \<open>conn\<close> holds the operations of a connection and \<open>godbus\<close> the decoders and the
  path check. A callback given to a subscription returns the list of actions it performs, so that what a
  signal triggers is a value.

  \<^bold>\<open>The theories.\<close>
  \<^item> \<open>Go_Prelude\<close>: effects, early returns, \<open>strings.TrimSpace\<close> over UTF-8. \<open>Go_Errors\<close>: \<open>errors.go\<close> of the three
    layers and \<open>iwderrors.go\<close>; the contract of an error wrapper is the locale \<open>error_wrapper\<close>.
  \<^item> \<open>Iwd_Values\<close>: \<open>internal/iwdvalue\<close>, locale \<open>iwd_value\<close>. \<open>Dbus_Values\<close>: \<open>utils.go\<close> and the parsers.
  \<^item> \<open>Bus\<close>: \<open>introspect.go\<close> (calls), \<open>caller.go\<close>, \<open>objecttree.go\<close>; locale \<open>method_caller\<close>. \<open>Signals\<close>: the handler
    registry of \<open>introspect.go\<close>. \<open>Dispatcher\<close>: its dispatch loop, handler goroutines and \<open>Close\<close> as a step
    relation over interleaved atomic steps; a wait with a timeout may end at any moment.
    \<open>Subscriptions\<close>: the closures the wrappers register for \<open>PropertiesChanged\<close>.
  \<^item> \<open>Station_Bus\<close>, \<open>Station_Core\<close>, \<open>Station\<close>: stations and their properties. \<open>Daemon_Bus\<close>, \<open>Daemon\<close>: the listings;
    the Go map of managed objects is a list in visiting order, which the results do not depend on.
  \<^item> \<open>Agents\<close>: both kinds of agent (\<open>agent.go\<close>, \<open>signalagent.go\<close>); contexts are numbered, and the locale
    \<open>teardown\<close> is the contract of the two \<open>Unregister\<close> methods. \<open>Bss\<close>, \<open>Wsc\<close>: basic service sets and WSC.
  \<^item> \<open>Typed_Object\<close> and \<open>Facade\<close>: the bodies that the methods of the other wrappers and facades have in common,
    instantiated in \<open>Network\<close>, \<open>Known_Network\<close>, \<open>Device\<close>, \<open>Adapter\<close> and \<open>Access_Point\<close>; \<open>Objects\<close> has their properties.
  \<^item> \<open>Wiring\<close>: \<open>internal/connect\<close>. \<open>Public\<close>, \<open>Public_Objects\<close>, \<open>Client\<close>: the package \<open>spiderw\<close>. \<open>Client_Runs\<close>: what
    the client promises over its runs. \<open>Client_Locks\<close>: its locks, with any number of goroutines in its methods, as a
    step relation over pieces that end where a lock is taken or released or the bus is called.
  \<^item> \<open>Reports\<close>: buses that hold one state of an object, as the hypotheses of the properties about agreeing
    reads and about settings. \<open>Table_Bus\<close>: a small bus to run the model on.
  \<^item> The command line (\<open>cmd/spiderw/cli\<close>). \<open>Cli_Text\<close>: what it uses of \<open>strings\<close>, \<open>strconv\<close>, \<open>time\<close>, \<open>flag\<close>, \<open>bufio\<close>
    and \<open>encoding/json\<close>. \<open>Cli_Base\<close>: \<open>api.go\<close>, \<open>client.go\<close>, \<open>output.go\<close>, \<open>prompt.go\<close>. \<open>Cli_Refs\<close>: \<open>refs.go\<close> and finding and
    listing objects. \<open>Cli_Monitor\<close>: the streams. \<open>Cli_Command\<close>: \<open>command.go\<close>, \<open>global_flags.go\<close>. \<open>Cli_Objects\<close>: \<open>adapter.go\<close>,
    \<open>device.go\<close>, \<open>bss.go\<close>. \<open>Cli_Networks\<close>: \<open>network.go\<close>, \<open>knownnetwork.go\<close>. \<open>Cli_Station\<close>: \<open>station.go\<close>, \<open>accesspoint.go\<close>.
    \<open>Cli\<close>: \<open>daemon.go\<close>, \<open>version.go\<close>, the root command, \<open>run.go\<close>.
  \<^item> \<open>Cli_Session\<close>: the locale \<open>cli_session\<close>, the contract between the commands and their client. \<open>Cli_Client\<close>:
    \<open>realClient\<close>, the public client behind the interfaces of the commands, and its interpretation of that
    contract. \<open>Cli_Tidy\<close>: every command leaves the connection closed, by induction over the command tree.
    \<open>Cli_Runs\<close>, \<open>Cli_Queries\<close>: what whole runs and single commands promise.

  \<^item> \<open>Error_Text\<close>: what \<open>Error()\<close> prints at each layer; locale \<open>text_wrapper\<close>, a wrapper that keeps the text of what it
    wraps. \<open>Logging\<close>: \<open>internal/logging\<close>.
  \<^item> The mock iwd (\<open>tools/test-mocks/iwdmock\<close>). \<open>Mock_State\<close>: its state, exports and signals. \<open>Mock_Objects\<close>: fixtures,
    properties, introspection, the exports of \<open>main\<close> and the object manager. \<open>Mock_Service\<close>, \<open>Mock_Bus\<close>: its methods and
    settings, the objects that come and go, the dispatch of a call, and the mock as the connection of a client.
    \<open>Mock_Runs\<close>: its runs, over requests, goroutines and the fire hose. \<open>Mock_Invariants\<close>, \<open>Mock_Start\<close>: the
    invariant of every state a run reaches, kept by every step and established by \<open>main\<close> under any flags.
    \<open>Mock_Client\<close>: the library on a mock in any such state, with the library's own definitions on one side of the bus
    and the mock's on the other. \<open>Mock_Races\<close>: the handlers that change the objects as pieces that end where a lock is
    taken or released, something is exported or a signal sent, and runs in which they overlap.

  \<^bold>\<open>What is shown.\<close> Errors: which sentinels a caller can match on a failed call, at every layer (C1, C14,
  C35), and what a user reads of it (C21, C26). Values: round trips of settings (C36). Signals: the handlers
  resolved for a signal are those of the live matching subscriptions (C5), the dispatcher's counters,
  its progress and its shutdown under every interleaving (C8 to C10), and what a station's callbacks hear
  (C15). Reads: \<open>Properties\<close> agrees with the getters (C34), names its
  references (C4), listings are complete and ordered or fail (C18).
  Arguments: bad ones never reach the bus, good ones reach it unchanged (C38). Agents:
  cancellation, teardown, registration (C22 to C24, C29). The client: its agent slot and its end (C27,
  C40); with overlapping calls, that the methods are their pieces (C28), that everything is released once
  (C13), that no call waits for ever (C16), and a race that the code has (C30). The command line: every run closes
  the connection it dialed, on the model of the whole library (C31); global flags and help (C32, C33); the
  descent into the command tree (C37); references (C2), connecting with an agent (C25),
  signal bands (C6) and the lines of the monitors (C39). The library and the mock together: joining a network, with and without its
  passphrase (C7), forgetting one (C20), switching a device's mode (C12), each on any state a run reaches, and the invariants
  behind them: a device's objects follow its mode (C11) and the known networks are consistent (C19). These five are about runs
  whose handlers are served one after another. The handlers taken apart into pieces do the same when they run alone (C3);
  when two overlap, the mock has races: a device whose mode and objects disagree for good (C17), and a known network
  that is registered twice (\<open>Mock_Races.overlapping_connections_register_twice\<close>). The other theorems of the
  theories are the parts these rest on.

  \<^bold>\<open>Bounds.\<close> No fuel is used: every recursion is structural or has a termination proof. Signal levels are words of
  the width the code uses; the integers and durations that the command line parses are \<open>int\<close> with the range
  checks of the standard library written out; the other integers are only copied and compared, and are \<open>int\<close>.

  \<^bold>\<open>Approximations of the command line.\<close> Strings are bytes: \<open>ToLower\<close> and \<open>EqualFold\<close> change ASCII letters only, and
  quoting and JSON escape by byte, so text beyond ASCII is copied. The fraction of a duration is exact where
  the code rounds through \<open>float64\<close>. What the bus delivers to a monitor until Ctrl-C, or to a scan until its time is
  over, is the list \<open>app_signals\<close>. The handle of a signal-level agent is captured by value. A panic is an error value
  with exit code 2.

  \<^bold>\<open>Approximations of the mock.\<close> In the runs of \<open>Mock_Runs\<close> a handler, the end of a scan and a round of the fire hose
  are one step each; godbus serves calls in goroutines of their own, and no lock of the mock spans a whole handler, so
  these are the runs whose handlers do not overlap. \<open>Mock_Races\<close> has the pieces of the handlers that change what is
  exported, and none of the others. The reply of the agent that the mock asks for a passphrase is a parameter, any
  function of the network and of how many questions came before. An introspection document is the list of the
  interfaces it names. What the client exports stays on the client's side. That godbus decodes what the
  other side marshalled is the hypothesis \<open>decodes\<close>, which \<open>mirror_decodes\<close> shows can hold.

  \<^bold>\<open>Not modelled.\<close> How \<open>slog\<close> renders a record; \<open>context\<close> deadlines other than as errors a bus operation
  returns; the rounding of \<open>float64\<close> in strengths given in dBm; godbus; reading a terminal without echo and the build
  information, which are parameters. A call on the bus is one step where calls overlap. Nil receivers of \<open>App\<close> and nil
  writers, which only tests use, are left out. The harness that starts the mock as a process, the hand-written fakes
  of the unit tests and the example programs are not part of the library.
\<close>

end
